(* ===== verification/Prelude.thy ===== *)
theory Prelude
  imports Main "HOL-Library.Word"
begin

text \<open>
  Shared foundations of the development.  An operation of the control plane is an \<open>io\<close>
  computation: a function from the state to a result (\<open>Inl\<close> an error, \<open>Inr\<close> a value) and the
  state after it.  The state type is a parameter, so that the same combinators serve the whole
  world of the control plane and the smaller states of single components.  The theory also holds
  the Hoare-style triples the component proofs are written in, the list functions that
  \<^verbatim>\<open>SELECT\<close>, \<^verbatim>\<open>UPDATE\<close> and \<^verbatim>\<open>DELETE\<close> are translated to, and the collections of rules.
\<close>

named_theorems io_simps "equations that run an operation on a given state"
named_theorems keeps_intros "introduction rules for invariants of operations"
named_theorems sql_simps "laws of the table functions"

type_synonym uuid = "128 word"
type_synonym timestamp = int
type_synonym u64 = "64 word"
type_synonym u32 = "32 word"
type_synonym u16 = "16 word"

type_synonym ('s, 'e, 'a) io = "'s \<Rightarrow> ('e + 'a) \<times> 's"

section \<open>Computations with a state and errors\<close>

text \<open>\<open>ret\<close> is \<^verbatim>\<open>Ok(x)\<close>, \<open>fail\<close> is \<^verbatim>\<open>return Err(e)\<close> and \<open>and_then\<close> is a call followed
  by \<^verbatim>\<open>?\<close>: an error ends the operation and keeps what was done so far.\<close>

definition ret :: "'a \<Rightarrow> ('s, 'e, 'a) io" where
  "ret a = (\<lambda>w. (Inr a, w))"

definition fail :: "'e \<Rightarrow> ('s, 'e, 'a) io" where
  "fail e = (\<lambda>w. (Inl e, w))"

definition and_then :: "('s, 'e, 'a) io \<Rightarrow> ('a \<Rightarrow> ('s, 'e, 'b) io) \<Rightarrow> ('s, 'e, 'b) io" where
  "and_then m f = (\<lambda>w. case m w of (Inl e, w') \<Rightarrow> (Inl e, w') | (Inr a, w') \<Rightarrow> f a w')"

text \<open>\<open>attempt\<close> hands the result over as a value (a \<^verbatim>\<open>match\<close> on it follows), \<open>ignore\<close> is
  \<^verbatim>\<open>let _ = ...\<close>, \<open>of_result\<close> lifts a pure fallible function.\<close>

definition attempt :: "('s, 'e, 'a) io \<Rightarrow> ('s, 'f, 'e + 'a) io" where
  "attempt m = (\<lambda>w. (Inr (fst (m w)), snd (m w)))"

definition ignore :: "('s, 'e, 'a) io \<Rightarrow> ('s, 'f, unit) io" where
  "ignore m = (\<lambda>w. (Inr (), snd (m w)))"

definition of_result :: "'e + 'a \<Rightarrow> ('s, 'e, 'a) io" where
  "of_result r = (\<lambda>w. (r, w))"

definition of_option :: "'e \<Rightarrow> 'a option \<Rightarrow> ('s, 'e, 'a) io" where
  "of_option e x = (case x of None \<Rightarrow> fail e | Some a \<Rightarrow> ret a)"

definition gets :: "('s \<Rightarrow> 'a) \<Rightarrow> ('s, 'e, 'a) io" where
  "gets f = (\<lambda>w. (Inr (f w), w))"

definition modify :: "('s \<Rightarrow> 's) \<Rightarrow> ('s, 'e, unit) io" where
  "modify f = (\<lambda>w. (Inr (), f w))"

text \<open>A \<^verbatim>\<open>for\<close> loop over fetched rows that threads an accumulator.\<close>

primrec fold_io :: "('x \<Rightarrow> 'a \<Rightarrow> ('s, 'e, 'a) io) \<Rightarrow> 'x list \<Rightarrow> 'a \<Rightarrow> ('s, 'e, 'a) io" where
  "fold_io f [] acc = ret acc"
| "fold_io f (x # xs) acc = and_then (f x acc) (fold_io f xs)"

lemma ret_run [io_simps]: "ret a w = (Inr a, w)"
  by (simp add: ret_def)

lemma fail_run [io_simps]: "fail e w = (Inl e, w)"
  by (simp add: fail_def)

lemma and_then_run [io_simps]:
  "and_then m f w = (case m w of (Inl e, w') \<Rightarrow> (Inl e, w') | (Inr a, w') \<Rightarrow> f a w')"
  by (simp add: and_then_def)

lemma attempt_run [io_simps]: "attempt m w = (Inr (fst (m w)), snd (m w))"
  by (simp add: attempt_def)

lemma ignore_run [io_simps]: "ignore m w = (Inr (), snd (m w))"
  by (simp add: ignore_def)

lemma of_result_run [io_simps]: "of_result r w = (r, w)"
  by (simp add: of_result_def)

lemma of_option_run [io_simps]:
  "of_option e None w = (Inl e, w)"
  "of_option e (Some a) w = (Inr a, w)"
  by (simp_all add: of_option_def io_simps)

lemma gets_run [io_simps]: "gets f w = (Inr (f w), w)"
  by (simp add: gets_def)

lemma modify_run [io_simps]: "modify f w = (Inr (), f w)"
  by (simp add: modify_def)

lemma fold_io_run [io_simps]:
  "fold_io f [] acc w = (Inr acc, w)"
  "fold_io f (x # xs) acc w =
     (case f x acc w of (Inl e, w') \<Rightarrow> (Inl e, w') | (Inr a, w') \<Rightarrow> fold_io f xs a w')"
  by (simp_all add: io_simps)

text \<open>The monad laws.\<close>

lemma and_then_ret_left: "and_then (ret a) f = f a"
  by (simp add: fun_eq_iff io_simps)

lemma and_then_ret_right: "and_then m ret = m"
  by (auto simp: fun_eq_iff io_simps split: prod.splits sum.splits)

lemma and_then_assoc: "and_then (and_then m f) g = and_then m (\<lambda>a. and_then (f a) g)"
  by (auto simp: fun_eq_iff io_simps split: prod.splits sum.splits)

lemma and_then_fail: "and_then (fail e) f = fail e"
  by (simp add: fun_eq_iff io_simps)

section \<open>Triples and invariants\<close>

text \<open>\<open>triple P m Q E\<close>: from a state with \<open>P\<close>, a run of \<open>m\<close> that returns \<open>a\<close> ends with
  \<open>Q a\<close> and one that fails with \<open>e\<close> ends with \<open>E e\<close>.  Every \<open>io\<close> computation ends, so this is
  total correctness.  \<open>keeps I m\<close>: \<open>m\<close> keeps \<open>I\<close> whatever its result is.\<close>

definition triple ::
  "('s \<Rightarrow> bool) \<Rightarrow> ('s, 'e, 'a) io \<Rightarrow> ('a \<Rightarrow> 's \<Rightarrow> bool) \<Rightarrow> ('e \<Rightarrow> 's \<Rightarrow> bool) \<Rightarrow> bool" where
  "triple P m Q E \<longleftrightarrow>
     (\<forall>w. P w \<longrightarrow> (case m w of (Inr a, w') \<Rightarrow> Q a w' | (Inl e, w') \<Rightarrow> E e w'))"

definition keeps :: "('s \<Rightarrow> bool) \<Rightarrow> ('s, 'e, 'a) io \<Rightarrow> bool" where
  "keeps I m \<longleftrightarrow> (\<forall>w. I w \<longrightarrow> I (snd (m w)))"

lemma tripleI:
  assumes "\<And>w a w'. P w \<Longrightarrow> m w = (Inr a, w') \<Longrightarrow> Q a w'"
    and "\<And>w e w'. P w \<Longrightarrow> m w = (Inl e, w') \<Longrightarrow> E e w'"
  shows "triple P m Q E"
  using assms unfolding triple_def by (auto split: prod.splits sum.splits)

lemma triple_Inr: "triple P m Q E \<Longrightarrow> P w \<Longrightarrow> m w = (Inr a, w') \<Longrightarrow> Q a w'"
  unfolding triple_def by (erule allE [of _ w]) simp

lemma triple_Inl: "triple P m Q E \<Longrightarrow> P w \<Longrightarrow> m w = (Inl e, w') \<Longrightarrow> E e w'"
  unfolding triple_def by (erule allE [of _ w]) simp

lemma triple_weaken:
  assumes "triple P' m Q' E'" and "\<And>w. P w \<Longrightarrow> P' w"
    and "\<And>a w. Q' a w \<Longrightarrow> Q a w" and "\<And>e w. E' e w \<Longrightarrow> E e w"
  shows "triple P m Q E"
  using assms by (blast intro: tripleI dest: triple_Inr triple_Inl)

lemma triple_and_then:
  assumes "triple P m R E" and "\<And>a. triple (R a) (f a) Q E"
  shows "triple P (and_then m f) Q E"
proof (rule tripleI)
  fix w b w'' assume "P w" and run: "and_then m f w = (Inr b, w'')"
  then obtain a w' where m: "m w = (Inr a, w')" and f: "f a w' = (Inr b, w'')"
    by (auto simp: io_simps split: prod.splits sum.splits)
  from assms(1) \<open>P w\<close> m have "R a w'" by (rule triple_Inr)
  with assms(2) f show "Q b w''" by (blast dest: triple_Inr)
next
  fix w e w'' assume "P w" and run: "and_then m f w = (Inl e, w'')"
  then consider "m w = (Inl e, w'')"
    | a w' where "m w = (Inr a, w')" "f a w' = (Inl e, w'')"
    by (auto simp: io_simps split: prod.splits sum.splits)
  then show "E e w''"
    using assms \<open>P w\<close> by cases (blast dest: triple_Inr triple_Inl)+
qed

lemma keepsI: "(\<And>w. I w \<Longrightarrow> I (snd (m w))) \<Longrightarrow> keeps I m"
  by (simp add: keeps_def)

lemma keepsD: "keeps I m \<Longrightarrow> I w \<Longrightarrow> m w = (r, w') \<Longrightarrow> I w'"
  unfolding keeps_def by (metis snd_conv)

lemma keeps_snd: "keeps I m \<Longrightarrow> I w \<Longrightarrow> I (snd (m w))"
  by (simp add: keeps_def)

lemma keeps_ret [keeps_intros]: "keeps I (ret a)"
  and keeps_fail [keeps_intros]: "keeps I (fail e)"
  and keeps_of_result [keeps_intros]: "keeps I (of_result r)"
  and keeps_gets [keeps_intros]: "keeps I (gets g)"
  by (simp_all add: keeps_def io_simps)

lemma keeps_of_option [keeps_intros]: "keeps I (of_option e x)"
  by (cases x) (simp_all add: keeps_def io_simps)

lemma keeps_and_then [keeps_intros]:
  assumes "keeps I m" and "\<And>a. keeps I (f a)"
  shows "keeps I (and_then m f)"
proof (rule keepsI)
  fix w assume "I w"
  then have I1: "I (snd (m w))" by (rule keeps_snd [OF assms(1)])
  then have "I (snd (f a (snd (m w))))" for a by (rule keeps_snd [OF assms(2)])
  with I1 show "I (snd (and_then m f w))"
    by (auto simp: io_simps split: prod.splits sum.splits)
qed

lemma keeps_attempt [keeps_intros]: "keeps I m \<Longrightarrow> keeps I (attempt m)"
  and keeps_ignore [keeps_intros]: "keeps I m \<Longrightarrow> keeps I (ignore m)"
  by (simp_all add: keeps_def io_simps)

lemma keeps_modify: "(\<And>w. I w \<Longrightarrow> I (f w)) \<Longrightarrow> keeps I (modify f)"
  by (simp add: keeps_def io_simps)

lemma keeps_if [keeps_intros]:
  "(b \<Longrightarrow> keeps I m) \<Longrightarrow> (\<not> b \<Longrightarrow> keeps I n) \<Longrightarrow> keeps I (if b then m else n)"
  by simp

lemma keeps_option [keeps_intros]:
  "(x = None \<Longrightarrow> keeps I m) \<Longrightarrow> (\<And>a. x = Some a \<Longrightarrow> keeps I (f a)) \<Longrightarrow>
   keeps I (case x of None \<Rightarrow> m | Some a \<Rightarrow> f a)"
  by (cases x) simp_all

lemma keeps_sum [keeps_intros]:
  "(\<And>e. x = Inl e \<Longrightarrow> keeps I (f e)) \<Longrightarrow> (\<And>a. x = Inr a \<Longrightarrow> keeps I (g a)) \<Longrightarrow>
   keeps I (case x of Inl e \<Rightarrow> f e | Inr a \<Rightarrow> g a)"
  by (cases x) simp_all

lemma keeps_let [keeps_intros]: "(\<And>y. keeps I (f y)) \<Longrightarrow> keeps I (let y = x in f y)"
  by (simp add: Let_def)

lemma keeps_fold_io [keeps_intros]:
  "(\<And>x acc. x \<in> set xs \<Longrightarrow> keeps I (f x acc)) \<Longrightarrow> keeps I (fold_io f xs acc)"
proof (induction xs arbitrary: acc)
  case Nil
  then show ?case by (simp add: keeps_ret)
next
  case (Cons x xs)
  then show ?case by (auto intro!: keeps_and_then)
qed

lemma keeps_conj: "keeps I m \<Longrightarrow> keeps J m \<Longrightarrow> keeps (\<lambda>w. I w \<and> J w) m"
  by (simp add: keeps_def)

section \<open>Tables\<close>

text \<open>A table is the list of its rows.  \<open>update_where\<close> is \<^verbatim>\<open>UPDATE ... SET f WHERE P\<close>,
  \<open>returning\<close> the rows such a statement returns, \<open>count_where\<close> its \<^verbatim>\<open>rows_affected\<close>,
  \<open>lookup_by\<close> a lookup by a unique key.  \<open>order_by\<close> is a stable ascending sort by a key and
  \<open>order_by_desc\<close> a stable descending one: where SQL leaves the order of ties open the model
  takes the order of the table.\<close>

definition update_where :: "('r \<Rightarrow> bool) \<Rightarrow> ('r \<Rightarrow> 'r) \<Rightarrow> 'r list \<Rightarrow> 'r list" where
  "update_where P f t = map (\<lambda>r. if P r then f r else r) t"

definition returning :: "('r \<Rightarrow> bool) \<Rightarrow> ('r \<Rightarrow> 'r) \<Rightarrow> 'r list \<Rightarrow> 'r list" where
  "returning P f t = map f (filter P t)"

definition count_where :: "('r \<Rightarrow> bool) \<Rightarrow> 'r list \<Rightarrow> nat" where
  "count_where P t = length (filter P t)"

definition lookup_by :: "('r \<Rightarrow> 'k) \<Rightarrow> 'k \<Rightarrow> 'r list \<Rightarrow> 'r option" where
  "lookup_by key k t = List.find (\<lambda>r. key r = k) t"

definition has_key :: "('r \<Rightarrow> 'k) \<Rightarrow> 'k \<Rightarrow> 'r list \<Rightarrow> bool" where
  "has_key key k t = list_ex (\<lambda>r. key r = k) t"

definition first_row :: "'r list \<Rightarrow> 'r option" where
  "first_row t = (case t of [] \<Rightarrow> None | r # _ \<Rightarrow> Some r)"

definition order_by :: "('r \<Rightarrow> 'k::linorder) \<Rightarrow> 'r list \<Rightarrow> 'r list" where
  "order_by key t = sort_key key t"

definition order_by_desc :: "('r \<Rightarrow> int) \<Rightarrow> 'r list \<Rightarrow> 'r list" where
  "order_by_desc key t = sort_key (\<lambda>r. - key r) t"

abbreviation keys_of :: "('r \<Rightarrow> 'k) \<Rightarrow> 'r list \<Rightarrow> 'k list" where
  "keys_of key t \<equiv> map key t"

text \<open>\<^verbatim>\<open>COALESCE\<close>.\<close>

definition coalesce :: "'a option \<Rightarrow> 'a option \<Rightarrow> 'a option" where
  "coalesce x y = (case x of Some a \<Rightarrow> Some a | None \<Rightarrow> y)"

text \<open>\<^verbatim>\<open>INSERT ... ON CONFLICT (key) DO UPDATE ... RETURNING\<close>: the rows that conflict are merged with the
  proposed one; without a conflict the row is appended unless its identifier is taken.\<close>

definition upsert_into ::
  "('r \<Rightarrow> bool) \<Rightarrow> ('r \<Rightarrow> 'r) \<Rightarrow> ('r \<Rightarrow> uuid) \<Rightarrow> 'r \<Rightarrow> 'r list \<Rightarrow> ('r \<times> 'r list) option" where
  "upsert_into conflict merge key row t =
     (case first_row (returning conflict merge t) of
        Some r \<Rightarrow> Some (r, update_where conflict merge t)
      | None \<Rightarrow> if has_key key (key row) t then None else Some (row, t @ [row]))"

lemma set_update_where: "set (update_where P f t) = (\<lambda>r. if P r then f r else r) ` set t"
  by (simp add: update_where_def)

lemma length_update_where [sql_simps, simp]: "length (update_where P f t) = length t"
  by (simp add: update_where_def)

lemma update_where_Nil [sql_simps, simp]: "update_where P f [] = []"
  and update_where_Cons [sql_simps]:
    "update_where P f (r # t) = (if P r then f r else r) # update_where P f t"
  by (simp_all add: update_where_def)

lemma update_where_append [sql_simps, simp]:
  "update_where P f (t @ u) = update_where P f t @ update_where P f u"
  by (simp add: update_where_def)

lemma update_where_none: "(\<And>r. r \<in> set t \<Longrightarrow> \<not> P r) \<Longrightarrow> update_where P f t = t"
  by (induction t) (auto simp: update_where_def)

lemma map_update_where:
  "(\<And>r. P r \<Longrightarrow> g (f r) = g r) \<Longrightarrow> map g (update_where P f t) = map g t"
  by (induction t) (auto simp: update_where_def)

lemma has_key_iff [sql_simps]: "has_key key k t \<longleftrightarrow> k \<in> key ` set t"
  by (auto simp: has_key_def list_ex_iff)

lemma lookup_by_Some:
  "lookup_by key k t = Some r \<Longrightarrow> r \<in> set t \<and> key r = k"
  by (induction t) (auto simp: lookup_by_def split: if_splits)

lemma lookup_by_None: "lookup_by key k t = None \<longleftrightarrow> k \<notin> key ` set t"
  by (induction t) (auto simp: lookup_by_def)

lemma lookup_by_append [sql_simps]:
  "lookup_by key k (t @ u) =
     (case lookup_by key k t of None \<Rightarrow> lookup_by key k u | Some r \<Rightarrow> Some r)"
  by (induction t) (auto simp: lookup_by_def)

lemma lookup_by_Nil [sql_simps, simp]: "lookup_by key k [] = None"
  and lookup_by_Cons [sql_simps]:
    "lookup_by key k (r # t) = (if key r = k then Some r else lookup_by key k t)"
  by (simp_all add: lookup_by_def)

lemma lookup_by_unique:
  "distinct (map key t) \<Longrightarrow> r \<in> set t \<Longrightarrow> lookup_by key (key r) t = Some r"
  by (induction t) (auto simp: sql_simps)

text \<open>The law a keyed \<^verbatim>\<open>UPDATE\<close> and a later lookup satisfy, when the update keeps the key.\<close>

lemma lookup_by_update_where:
  assumes "\<And>r. key (f r) = key r"
  shows "lookup_by key k (update_where P f t) =
    map_option (\<lambda>r. if P r then f r else r) (lookup_by key k t)"
  using assms by (induction t) (auto simp: sql_simps)

lemma update_where_key_unique:
  assumes "distinct (map key t)" and "r \<in> set t" and "P r"
    and "\<And>s. P s \<Longrightarrow> key s = key r"
  shows "returning P f t = [f r]"
  using assms(1,2)
proof (induction t)
  case Nil
  then show ?case by simp
next
  case (Cons a t)
  show ?case
  proof (cases "a = r")
    case True
    have "key r \<notin> key ` set t" using Cons.prems(1) True by simp
    then have "\<not> P s" if "s \<in> set t" for s
      using that assms(4) by (metis imageI)
    with True assms(3) show ?thesis by (simp add: returning_def filter_empty_conv)
  next
    case False
    with Cons.prems have r: "r \<in> set t" and d: "distinct (map key t)" by auto
    from r Cons.prems(1) have "key a \<noteq> key r" by auto
    with assms(4) have "\<not> P a" by blast
    with Cons.IH [OF d r] show ?thesis by (simp add: returning_def)
  qed
qed

lemma returning_Nil_iff: "returning P f t = [] \<longleftrightarrow> (\<forall>r\<in>set t. \<not> P r)"
  by (auto simp: returning_def filter_empty_conv)

lemma count_where_0: "count_where P t = 0 \<longleftrightarrow> (\<forall>r\<in>set t. \<not> P r)"
  by (auto simp: count_where_def filter_empty_conv)

lemma first_row_simps [sql_simps, simp]:
  "first_row [] = None" "first_row (r # t) = Some r"
  by (simp_all add: first_row_def)

lemma first_row_Some: "first_row t = Some r \<Longrightarrow> r \<in> set t"
  by (cases t) simp_all

lemma first_row_None [simp]: "first_row t = None \<longleftrightarrow> t = []"
  by (cases t) simp_all

lemma set_order_by [sql_simps, simp]: "set (order_by key t) = set t"
  and set_order_by_desc [sql_simps, simp]: "set (order_by_desc key' t) = set t"
  by (simp_all add: order_by_def order_by_desc_def)

lemma first_order_by_desc:
  assumes "first_row (order_by_desc key t) = Some r" and "s \<in> set t"
  shows "key s \<le> key r"
proof -
  obtain u where u: "order_by_desc key t = r # u"
    using assms(1) by (cases "order_by_desc key t") auto
  have "sorted (map (\<lambda>r. - key r) (r # u))"
    unfolding u [symmetric] order_by_desc_def by (rule sorted_sort_key)
  moreover have "s \<in> set (r # u)"
    using assms(2) u by (metis set_order_by_desc)
  ultimately show ?thesis by auto
qed

section \<open>Casts between machine integers\<close>

text \<open>\<^verbatim>\<open>x as i64\<close> on a \<^verbatim>\<open>u64\<close> reads the same bits as two's complement, \<^verbatim>\<open>x as u64\<close> on an
  \<^verbatim>\<open>i64\<close> reduces modulo \<open>2^64\<close>.  A \<^verbatim>\<open>BIGINT\<close> column holds an \<open>int\<close> in the 64-bit range and SQL
  arithmetic that leaves the range is an error of the statement.\<close>

definition as_i64 :: "u64 \<Rightarrow> int" where
  "as_i64 x = sint x"

definition as_u64 :: "int \<Rightarrow> u64" where
  "as_u64 i = word_of_int i"

definition as_i32 :: "u32 \<Rightarrow> int" where
  "as_i32 x = sint x"

definition as_u32 :: "int \<Rightarrow> u32" where
  "as_u32 i = word_of_int i"

definition i64_range :: "int \<Rightarrow> bool" where
  "i64_range i \<longleftrightarrow> - (2 ^ 63) \<le> i \<and> i < 2 ^ 63"

definition i32_range :: "int \<Rightarrow> bool" where
  "i32_range i \<longleftrightarrow> - (2 ^ 31) \<le> i \<and> i < 2 ^ 31"

lemma as_u64_as_i64 [simp]: "as_u64 (as_i64 x) = x"
  by (simp add: as_u64_def as_i64_def)

lemma as_u32_as_i32 [simp]: "as_u32 (as_i32 x) = x"
  by (simp add: as_u32_def as_i32_def)

lemma as_i64_range: "i64_range (as_i64 x)"
  using sint_range_size [of x] by (simp add: as_i64_def i64_range_def word_size)

lemma as_i64_small: "uint x < 2 ^ 63 \<Longrightarrow> as_i64 x = uint x"
  unfolding as_i64_def sint_uint
  by (rule signed_take_bit_int_eq_self) (simp_all add: order_trans [OF _ uint_ge_0])

lemma uint_as_u64: "0 \<le> i \<Longrightarrow> i < 2 ^ 64 \<Longrightarrow> uint (as_u64 i) = i"
  by (simp add: as_u64_def uint_word_of_int_eq take_bit_int_eq_self)

section \<open>Inversion and loop rules\<close>

lemma list_all_update_where:
  "(\<And>r. r \<in> set t \<Longrightarrow> Q (if P r then f r else r)) \<Longrightarrow> list_all Q (update_where P f t)"
  unfolding update_where_def list.pred_map by (simp add: list_all_iff)

lemma and_then_InrE:
  assumes "and_then m f w = (Inr b, w'')"
  obtains a w' where "m w = (Inr a, w')" and "f a w' = (Inr b, w'')"
  using assms by (auto simp: io_simps split: prod.splits sum.splits)

lemma and_then_InlE:
  assumes "and_then m f w = (Inl e, w'')"
  obtains "m w = (Inl e, w'')" | a w' where "m w = (Inr a, w')" and "f a w' = (Inl e, w'')"
  using assms by (auto simp: io_simps split: prod.splits sum.splits)

lemma ret_InrE: "ret a w = (Inr b, w') \<Longrightarrow> b = a \<and> w' = w"
  by (simp add: io_simps)

lemma of_option_InrE: "of_option e x w = (Inr b, w') \<Longrightarrow> x = Some b \<and> w' = w"
  by (cases x) (simp_all add: io_simps)

lemma lookup_by_key: "lookup_by key k t = Some r \<Longrightarrow> k \<in> key ` set t"
  by (blast dest: lookup_by_Some)

lemma triple_keepsI:
  assumes "keeps J m" and "\<And>w a w'. m w = (Inr a, w') \<Longrightarrow> Q a"
  shows "triple J m (\<lambda>a w. J w \<and> Q a) (\<lambda>_. J)"
  by (rule tripleI) (use assms in \<open>blast dest: keepsD\<close>)+

lemma triple_keeps: "keeps J m \<Longrightarrow> triple J m (\<lambda>_. J) (\<lambda>_. J)"
  by (rule tripleI) (blast dest: keepsD)+

lemma triple_pure: "(Q \<Longrightarrow> triple P m R E) \<Longrightarrow> triple (\<lambda>w. P w \<and> Q) m R E"
  by (auto simp: triple_def)

lemma triple_fail: "triple P (fail e) Q (\<lambda>_. P)"
  by (simp add: triple_def io_simps)

lemma fold_io_rule:
  assumes step: "\<And>x xs acc w. J (x # xs) w \<Longrightarrow> \<exists>acc' w'. f x acc w = (Inr acc', w') \<and> J xs w'"
    and "J xs w"
  shows "\<exists>acc' w'. fold_io f xs acc w = (Inr acc', w') \<and> J [] w'"
  using assms(2)
proof (induction xs arbitrary: acc w)
  case Nil
  then show ?case by (simp add: io_simps)
next
  case (Cons x xs)
  from step [OF Cons.prems, of acc] obtain acc' w' where "f x acc w = (Inr acc', w')" "J xs w'"
    by blast
  with Cons.IH [of w' acc'] show ?case by (simp add: io_simps)
qed

lemma run_ok: "\<not> isl (fst (m w)) \<Longrightarrow> m w = (Inr (projr (fst (m w))), snd (m w))"
  by (cases "m w"; cases "fst (m w)") simp_all

lemma run_error: "isl (fst (m w)) \<Longrightarrow> m w = (Inl (projl (fst (m w))), snd (m w))"
  by (cases "m w"; cases "fst (m w)") simp_all

end
