(* ===== verification/Schema.thy ===== *)
theory Schema
  imports Prelude
begin

text \<open>
  The data of the control plane: the enums and structs that are stored in PostgreSQL
  (\<^verbatim>\<open>src/model.rs\<close>, \<^verbatim>\<open>src/queue.rs\<close>, \<^verbatim>\<open>src/releases.rs\<close>, \<^verbatim>\<open>src/agent_protocol.rs\<close>,
  \<^verbatim>\<open>src/node_registry.rs\<close>, \<^verbatim>\<open>src/scheduler.rs\<close>, \<^verbatim>\<open>src/providers/mod.rs\<close>,
  \<^verbatim>\<open>src/source_events.rs\<close>, \<^verbatim>\<open>src/previews.rs\<close>, \<^verbatim>\<open>src/logs.rs\<close>, \<^verbatim>\<open>src/cache.rs\<close>,
  \<^verbatim>\<open>src/repository.rs\<close>, \<^verbatim>\<open>src/auth.rs\<close> and the tables of \<^verbatim>\<open>migrations/\<close>), the
  database as a record of tables, and the world an operation runs in.

  A \<^verbatim>\<open>TEXT\<close> column that holds the name of an enum has the type of the enum: the component
  theories prove that reading back what was written gives the same value.  A time stamp is an
  \<open>int\<close> of nanoseconds since the epoch, a \<^verbatim>\<open>Uuid\<close> a 128-bit word, a \<^verbatim>\<open>String\<close> the list of its
  UTF-8 bytes.
\<close>

section \<open>Errors\<close>

text \<open>The errors of the modelled code.  \<^verbatim>\<open>anyhow\<close> errors are told apart by a constructor for the
  place that raises them instead of by their text; \<open>Database\<close> is an \<^verbatim>\<open>sqlx::Error\<close> with the
  context the code gives it, \<open>Redis\<close> a \<^verbatim>\<open>redis::RedisError\<close>, \<open>Io\<close> an \<^verbatim>\<open>std::io::Error\<close>.\<close>

datatype ReleaseStatus =
    Starting | HealthChecking | Ready | Active | Draining | Stopped | Failed

datatype error =
    Database string
  | Redis string
  | Io string
  | Message string
  | Panicked string
  | ReleaseNotFound uuid
  | UnknownReleaseStatus string
  | InvalidTransition ReleaseStatus ReleaseStatus
  | StaleVersion int
  | CannotActivate ReleaseStatus
  | HealthCheckFailed string
  | JobNotFound uuid
  | InvalidJobPriority string
  | InvalidJobStatus string
  | InvalidCapacity string
  | NodeNotFound uuid
  | EpochMismatch u64 u64
  | VersionConflict uuid
  | InsufficientCapacity
  | PlacementNotFound uuid
  | Unauthorized string
  | ProjectNotFound uuid
  | NoRollbackTarget string

section \<open>Enums and rows\<close>

datatype Framework = StaticSite | Node | NextJs | Python | Docker

datatype DeploymentStatus =
    DepPending | DepQueued | DepBuilding | DepRunning | DepFailed | DepStopped | DepCancelled

text \<open>A row of \<^verbatim>\<open>deployments\<close>: the struct \<^verbatim>\<open>Deployment\<close> and the columns \<^verbatim>\<open>cause\<close> and
  \<^verbatim>\<open>rollback_from_deployment_id\<close> of migration 12.\<close>

record Deployment =
  d_id :: uuid
  d_project_id :: uuid
  d_framework :: Framework
  d_status :: DeploymentStatus
  d_image_path :: "string option"
  d_container_id :: "uuid option"
  d_port :: "int option"
  d_url :: "string option"
  d_created_at :: timestamp
  d_finished_at :: "timestamp option"
  d_error :: "string option"
  d_commit_sha :: "string option"
  d_target :: string
  d_cause :: string
  d_rollback_from :: "uuid option"

record ProjectRow =
  p_id :: uuid
  p_user_id :: uuid
  p_name :: string
  p_source_dir :: string
  p_base_image :: string
  p_server_command :: "string list"
  p_active_deployment :: "uuid option"
  p_created_at :: timestamp
  p_repository_id :: "uuid option"
  p_webhook_secret :: "string option"
  p_target_branch :: "string option"

text \<open>Rows of \<^verbatim>\<open>users\<close>, \<^verbatim>\<open>sessions\<close> and \<^verbatim>\<open>api_tokens\<close>.\<close>

record UserRecord =
  u_id :: uuid
  u_email :: string
  u_password_hash :: string
  u_name :: string
  u_created_at :: timestamp

record SessionRow =
  ss_id :: uuid
  ss_user_id :: uuid
  ss_token_hash :: string
  ss_expires_at :: timestamp
  ss_created_at :: timestamp

record ApiTokenRow =
  tk_id :: uuid
  tk_user_id :: uuid
  tk_name :: string
  tk_token_prefix :: string
  tk_token_hash :: string
  tk_scopes :: "string list"
  tk_revoked :: bool
  tk_last_used_at :: "timestamp option"
  tk_expires_at :: "timestamp option"
  tk_created_at :: timestamp

datatype JobPriority = Production | Preview

datatype JobStatus = JobQueued | JobRunning | JobCompleted | JobFailed | JobCancelled

text \<open>A row of \<^verbatim>\<open>build_jobs\<close>: \<^verbatim>\<open>BuildJobRecord\<close> and the column \<^verbatim>\<open>queue_name\<close>.\<close>

record BuildJobRecord =
  j_id :: uuid
  j_deployment_id :: uuid
  j_project_id :: uuid
  j_queue_name :: string
  j_priority :: JobPriority
  j_status :: JobStatus
  j_attempt :: int
  j_max_attempts :: int
  j_force_rebuild :: bool
  j_lease_owner :: "string option"
  j_lease_expires_at :: "timestamp option"
  j_last_error :: "string option"
  j_created_at :: timestamp
  j_updated_at :: timestamp

datatype AttemptStatus = AttRunning | AttSucceeded | AttFailed | AttCancelled | AttTimedOut

record BuildAttempt =
  a_id :: uuid
  a_job_id :: uuid
  a_attempt_number :: int
  a_worker_id :: string
  a_status :: AttemptStatus
  a_error_message :: "string option"
  a_started_at :: timestamp
  a_finished_at :: "timestamp option"

record Release =
  r_id :: uuid
  r_deployment_id :: uuid
  r_project_id :: uuid
  r_environment :: string
  r_status :: ReleaseStatus
  r_version :: int
  r_container_id :: "string option"
  r_port :: "int option"
  r_url :: "string option"
  r_created_at :: timestamp
  r_updated_at :: timestamp

record ReleaseTransitionRecord =
  t_id :: uuid
  t_release_id :: uuid
  t_from_status :: ReleaseStatus
  t_to_status :: ReleaseStatus
  t_reason :: "string option"
  t_created_at :: timestamp

record ActiveRoute =
  ar_project_id :: uuid
  ar_environment :: string
  ar_active_release_id :: uuid
  ar_route_target :: string
  ar_activated_at :: timestamp
  ar_updated_at :: timestamp

datatype NodeStatus = Online | Degraded | NodeDraining | Offline

text \<open>A row of \<^verbatim>\<open>nodes\<close>, with the signed columns PostgreSQL stores.\<close>

record NodeRow =
  n_id :: uuid
  n_hostname :: string
  n_endpoint :: string
  n_status :: NodeStatus
  n_cpu_total :: int
  n_memory_total :: int
  n_max_releases :: int
  n_cpu_used :: int
  n_memory_used :: int
  n_running_count :: int
  n_token_hash :: string
  n_epoch :: int
  n_version :: int
  n_is_draining :: bool
  n_is_enabled :: bool
  n_last_heartbeat_at :: timestamp
  n_registered_at :: timestamp
  n_updated_at :: timestamp

record NodeEventRecord =
  ne_id :: uuid
  ne_node_id :: uuid
  ne_from_status :: NodeStatus
  ne_to_status :: NodeStatus
  ne_reason :: "string option"
  ne_created_at :: timestamp

datatype PlacementStatus = Placed | PlActive | PlStopped | PlFailed

record PlacementRow =
  pl_id :: uuid
  pl_release_id :: uuid
  pl_node_id :: uuid
  pl_operation_lease_id :: uuid
  pl_status :: PlacementStatus
  pl_cpu :: int
  pl_memory :: int
  pl_lease_expires_at :: timestamp
  pl_created_at :: timestamp
  pl_updated_at :: timestamp

text \<open>A JSON value; a number is an integer or, for any other number, its text.\<close>

datatype json =
    JNull
  | JBool bool
  | JInt int
  | JFloat string
  | JString string
  | JArray "json list"
  | JObject "(string \<times> json) list"

record AuditEvent =
  au_id :: uuid
  au_user_id :: "uuid option"
  au_action :: string
  au_target_type :: string
  au_target_id :: uuid
  au_metadata :: json
  au_occurred_at :: timestamp

datatype Provider = GitHub | GitLab

datatype SourceEventKind = Push | PullRequestOpened | PullRequestUpdated | PullRequestClosed

datatype PullRequestAction = PrOpened | PrSynchronize | PrClosed | PrReopened

record PullRequestRef =
  pq_number :: u64
  pq_head_sha :: string
  pq_base_branch :: string
  pq_action :: PullRequestAction

record SourceEventRecord =
  se_id :: uuid
  se_project_id :: uuid
  se_provider :: Provider
  se_delivery_id :: string
  se_kind :: SourceEventKind
  se_commit_sha :: string
  se_branch :: "string option"
  se_pull_request :: "PullRequestRef option"
  se_idempotency_key :: string
  se_created_at :: timestamp

text \<open>Rows of \<^verbatim>\<open>provider_connections\<close>, \<^verbatim>\<open>provider_repositories\<close>, \<^verbatim>\<open>oauth_states\<close> and
  \<^verbatim>\<open>provider_deliveries\<close>.\<close>

record ProviderConnectionRecord =
  pc_id :: uuid
  pc_user_id :: uuid
  pc_provider :: Provider
  pc_external_user_id :: string
  pc_access_token_encrypted :: string
  pc_refresh_token_encrypted :: "string option"
  pc_expires_at :: "timestamp option"
  pc_created_at :: timestamp
  pc_updated_at :: timestamp

record ProviderRepositoryRecord =
  pr_id :: uuid
  pr_connection_id :: uuid
  pr_external_id :: string
  pr_full_name :: string
  pr_clone_url :: string
  pr_default_branch :: string
  pr_synced_at :: timestamp

record OAuthStateRecord =
  os_state :: string
  os_user_id :: uuid
  os_provider :: Provider
  os_redirect_url :: "string option"
  os_expires_at :: timestamp
  os_created_at :: timestamp

record DeliveryRow =
  dl_id :: uuid
  dl_provider :: string
  dl_delivery_id :: string
  dl_project_id :: "uuid option"
  dl_created_at :: timestamp

datatype PreviewStatus = PvBuilding | PvReady | PvFailed | PvClosed

text \<open>A row of \<^verbatim>\<open>previews\<close>; the struct \<^verbatim>\<open>Preview\<close> has the same fields, with the number of the
  pull request as an unsigned word.\<close>

record PreviewRow =
  pv_id :: uuid
  pv_project_id :: uuid
  pv_provider :: string
  pv_pr_number :: int
  pv_head_sha :: string
  pv_base_branch :: string
  pv_head_branch :: string
  pv_deployment_id :: "uuid option"
  pv_hostname :: string
  pv_status :: PreviewStatus
  pv_closed_at :: "timestamp option"
  pv_cleanup_attempt :: int
  pv_created_at :: timestamp
  pv_updated_at :: timestamp

text \<open>Rows of \<^verbatim>\<open>deployment_logs\<close>, \<^verbatim>\<open>log_segments\<close> and \<^verbatim>\<open>build_cache\<close>.\<close>

record LogRow =
  lg_id :: uuid
  lg_deployment_id :: uuid
  lg_project_id :: uuid
  lg_sequence :: int
  lg_stream :: string
  lg_message :: string
  lg_created_at :: timestamp

record LogSegmentRow =
  sg_id :: uuid
  sg_deployment_id :: uuid
  sg_project_id :: uuid
  sg_start_sequence :: int
  sg_end_sequence :: int
  sg_storage_path :: string
  sg_size_bytes :: int
  sg_created_at :: timestamp

record CacheRow =
  bc_id :: uuid
  bc_cache_key :: string
  bc_project_id :: uuid
  bc_artifact_checksum :: string
  bc_size_bytes :: int
  bc_storage_path :: string
  bc_toolchain :: string
  bc_created_at :: timestamp
  bc_last_used_at :: timestamp
  bc_is_invalidated :: bool

record EnvVarRow =
  ev_id :: uuid
  ev_project_id :: uuid
  ev_key :: string
  ev_value :: string
  ev_target :: string
  ev_is_secret :: bool

record BuildEventRow =
  be_id :: uuid
  be_job_id :: uuid
  be_deployment_id :: uuid
  be_event_type :: string
  be_payload :: json
  be_created_at :: timestamp

section \<open>The database and the world\<close>

record db =
  projects :: "ProjectRow list"
  deployments :: "Deployment list"
  build_jobs :: "BuildJobRecord list"
  build_attempts :: "BuildAttempt list"
  releases :: "Release list"
  release_transitions :: "ReleaseTransitionRecord list"
  active_routes :: "ActiveRoute list"
  nodes :: "NodeRow list"
  node_events :: "NodeEventRecord list"
  placements :: "PlacementRow list"
  audit_events :: "AuditEvent list"
  source_events :: "SourceEventRecord list"
  provider_deliveries :: "DeliveryRow list"
  previews :: "PreviewRow list"
  deployment_logs :: "LogRow list"
  log_segments :: "LogSegmentRow list"
  build_cache :: "CacheRow list"
  users :: "UserRecord list"
  sessions :: "SessionRow list"
  api_tokens :: "ApiTokenRow list"
  provider_connections :: "ProviderConnectionRecord list"
  provider_repositories :: "ProviderRepositoryRecord list"
  oauth_states :: "OAuthStateRecord list"
  environment_variables :: "EnvVarRow list"
  build_events :: "BuildEventRow list"

definition empty_db :: db where
  "empty_db = \<lparr>projects = [], deployments = [], build_jobs = [], build_attempts = [],
     releases = [], release_transitions = [], active_routes = [], nodes = [], node_events = [],
     placements = [], audit_events = [], source_events = [], provider_deliveries = [],
     previews = [], deployment_logs = [], log_segments = [], build_cache = [],
     users = [], sessions = [], api_tokens = [], provider_connections = [],
     provider_repositories = [], oauth_states = [], environment_variables = [], build_events = []\<rparr>"

text \<open>
  What the environment decides is read off an \<open>env\<close>: the \<open>n\<close>-th interaction of a run sees
  \<open>env_uuid n\<close> as the value of \<^verbatim>\<open>Uuid::new_v4()\<close>, \<open>env_clock n\<close> as the wall clock,
  \<open>env_instant n\<close> as the monotonic clock of \<^verbatim>\<open>Instant::now()\<close>, loses its database connection when \<open>env_db_fault n\<close> holds and its Redis connection when
  \<open>env_redis_fault n\<close> holds, fails in a call of the file system when \<open>env_io_fault n\<close> holds; \<open>env_redis c n\<close> is the reply of Redis to the read \<open>c\<close>.  A theorem
  that leaves the \<open>env\<close> free holds for every clock, every choice of identifiers, every pattern of
  failures and every behaviour of Redis.
\<close>

datatype redis_value = Nil | Data string | Bulk "redis_value list" | Other

text \<open>The commands sent to Redis.\<close>

datatype redis_cmd =
    XGROUP_CREATE string string       \<comment> \<open>stream, consumer group\<close>
  | XADD string uuid uuid             \<comment> \<open>stream, job id, deployment id\<close>
  | XREADGROUP string string string   \<comment> \<open>stream, consumer group, consumer\<close>
  | XACK string string string         \<comment> \<open>stream, consumer group, message id\<close>

record env =
  env_uuid :: "nat \<Rightarrow> uuid"
  env_clock :: "nat \<Rightarrow> timestamp"
  env_instant :: "nat \<Rightarrow> int"
  env_db_fault :: "nat \<Rightarrow> bool"
  env_redis_fault :: "nat \<Rightarrow> bool"
  env_io_fault :: "nat \<Rightarrow> bool"
  env_redis :: "redis_cmd \<Rightarrow> nat \<Rightarrow> redis_value"

record world =
  env :: env
  tick :: nat
  db :: db
  redis_log :: "redis_cmd list"

type_synonym ('z, 'a) op = "('z world_scheme, error, 'a) io"

definition uuid_new_v4 :: "('z, uuid) op" where
  "uuid_new_v4 = (\<lambda>w. (Inr (env_uuid (env w) (tick w)), w\<lparr>tick := Suc (tick w)\<rparr>))"

definition now_utc :: "('z, timestamp) op" where
  "now_utc = (\<lambda>w. (Inr (env_clock (env w) (tick w)), w\<lparr>tick := Suc (tick w)\<rparr>))"

definition instant_now :: "('z, int) op" where
  "instant_now = (\<lambda>w. (Inr (env_instant (env w) (tick w)), w\<lparr>tick := Suc (tick w)\<rparr>))"

text \<open>\<^verbatim>\<open>tokio::time::sleep\<close>: the clocks move on, nothing else happens.\<close>

definition sleep :: "int \<Rightarrow> ('z, unit) op" where
  "sleep duration = (\<lambda>w. (Inr (), w\<lparr>tick := Suc (tick w)\<rparr>))"

text \<open>One SQL statement: it fails with its context when the connection is lost, or it runs.  A
  statement that violates a constraint fails as well and changes nothing.\<close>

definition statement :: "string \<Rightarrow> (db \<Rightarrow> (error + 'a) \<times> db) \<Rightarrow> ('z, 'a) op" where
  "statement context f = (\<lambda>w.
     if env_db_fault (env w) (tick w) then (Inl (Database context), w\<lparr>tick := Suc (tick w)\<rparr>)
     else case f (db w) of
         (Inl e, _) \<Rightarrow> (Inl e, w\<lparr>tick := Suc (tick w)\<rparr>)
       | (Inr a, d) \<Rightarrow> (Inr a, w\<lparr>db := d, tick := Suc (tick w)\<rparr>))"

text \<open>\<^verbatim>\<open>pool.begin()\<close>, the body, \<^verbatim>\<open>tx.commit()\<close>: an error before the commit rolls back.\<close>

definition transaction :: "('z, 'a) op \<Rightarrow> ('z, 'a) op" where
  "transaction m = (\<lambda>w.
     if env_db_fault (env w) (tick w) then (Inl (Database ''begin''), w\<lparr>tick := Suc (tick w)\<rparr>)
     else case m (w\<lparr>tick := Suc (tick w)\<rparr>) of
         (Inl e, w') \<Rightarrow> (Inl e, w'\<lparr>db := db w\<rparr>)
       | (Inr a, w') \<Rightarrow>
           if env_db_fault (env w') (tick w')
           then (Inl (Database ''commit''), w'\<lparr>db := db w, tick := Suc (tick w')\<rparr>)
           else (Inr a, w'\<lparr>tick := Suc (tick w')\<rparr>))"

definition select_rows :: "string \<Rightarrow> (db \<Rightarrow> 'a) \<Rightarrow> ('z, 'a) op" where
  "select_rows context f = statement context (\<lambda>d. (Inr (f d), d))"

definition execute :: "string \<Rightarrow> (db \<Rightarrow> db) \<Rightarrow> ('z, unit) op" where
  "execute context f = statement context (\<lambda>d. (Inr (), f d))"

text \<open>An \<^verbatim>\<open>INSERT\<close> guarded by the primary key, unique and foreign key constraints of its table.\<close>

definition insert_row :: "string \<Rightarrow> (db \<Rightarrow> bool) \<Rightarrow> (db \<Rightarrow> db) \<Rightarrow> ('z, unit) op" where
  "insert_row context ok f =
     statement context (\<lambda>d. if ok d then (Inr (), f d) else (Inl (Database context), d))"

text \<open>A call of the operating system that has no other effect in the model.\<close>

definition io_call :: "string \<Rightarrow> ('z, unit) op" where
  "io_call context = (\<lambda>w.
     (if env_io_fault (env w) (tick w) then Inl (Io context) else Inr (), w\<lparr>tick := Suc (tick w)\<rparr>))"

definition redis_send :: "string \<Rightarrow> redis_cmd \<Rightarrow> ('z, unit) op" where
  "redis_send context c = (\<lambda>w.
     if env_redis_fault (env w) (tick w) then (Inl (Redis context), w\<lparr>tick := Suc (tick w)\<rparr>)
     else (Inr (), w\<lparr>redis_log := redis_log w @ [c], tick := Suc (tick w)\<rparr>))"

definition redis_read :: "string \<Rightarrow> redis_cmd \<Rightarrow> ('z, redis_value) op" where
  "redis_read context c = (\<lambda>w.
     if env_redis_fault (env w) (tick w) then (Inl (Redis context), w\<lparr>tick := Suc (tick w)\<rparr>)
     else (Inr (env_redis (env w) c (tick w)),
           w\<lparr>redis_log := redis_log w @ [c], tick := Suc (tick w)\<rparr>))"

definition redis_connect :: "('z, unit) op" where
  "redis_connect = (\<lambda>w.
     if env_redis_fault (env w) (tick w)
     then (Inl (Redis ''failed to get redis multiplexed connection''), w\<lparr>tick := Suc (tick w)\<rparr>)
     else (Inr (), w\<lparr>tick := Suc (tick w)\<rparr>))"

section \<open>Running and keeping\<close>

definition no_db_faults :: "'z world_scheme \<Rightarrow> bool" where
  "no_db_faults w \<longleftrightarrow> (\<forall>n. \<not> env_db_fault (env w) n)"

definition no_redis_faults :: "'z world_scheme \<Rightarrow> bool" where
  "no_redis_faults w \<longleftrightarrow> (\<forall>n. \<not> env_redis_fault (env w) n)"

lemma no_db_faultsD [simp]: "no_db_faults w \<Longrightarrow> env_db_fault (env w) n = False"
  by (simp add: no_db_faults_def)

lemma no_redis_faultsD [simp]: "no_redis_faults w \<Longrightarrow> env_redis_fault (env w) n = False"
  by (simp add: no_redis_faults_def)

lemma no_faults_update [simp]:
  "no_db_faults (w\<lparr>db := d\<rparr>) = no_db_faults w"
  "no_db_faults (w\<lparr>tick := n\<rparr>) = no_db_faults w"
  "no_db_faults (w\<lparr>redis_log := l\<rparr>) = no_db_faults w"
  "no_redis_faults (w\<lparr>db := d\<rparr>) = no_redis_faults w"
  "no_redis_faults (w\<lparr>tick := n\<rparr>) = no_redis_faults w"
  "no_redis_faults (w\<lparr>redis_log := l\<rparr>) = no_redis_faults w"
  by (simp_all add: no_db_faults_def no_redis_faults_def)

lemma uuid_new_v4_run [io_simps]:
  "uuid_new_v4 w = (Inr (env_uuid (env w) (tick w)), w\<lparr>tick := Suc (tick w)\<rparr>)"
  by (simp add: uuid_new_v4_def)

lemma now_utc_run [io_simps]:
  "now_utc w = (Inr (env_clock (env w) (tick w)), w\<lparr>tick := Suc (tick w)\<rparr>)"
  by (simp add: now_utc_def)

lemma instant_now_run [io_simps]:
  "instant_now w = (Inr (env_instant (env w) (tick w)), w\<lparr>tick := Suc (tick w)\<rparr>)"
  by (simp add: instant_now_def)

lemma sleep_run [io_simps]: "sleep d w = (Inr (), w\<lparr>tick := Suc (tick w)\<rparr>)"
  by (simp add: sleep_def)

lemma statement_run [io_simps]:
  "no_db_faults w \<Longrightarrow> statement c f w =
     (case f (db w) of
         (Inl e, _) \<Rightarrow> (Inl e, w\<lparr>tick := Suc (tick w)\<rparr>)
       | (Inr a, d) \<Rightarrow> (Inr a, w\<lparr>db := d, tick := Suc (tick w)\<rparr>))"
  by (simp add: statement_def)

lemma select_rows_run [io_simps]:
  "no_db_faults w \<Longrightarrow> select_rows c f w = (Inr (f (db w)), w\<lparr>tick := Suc (tick w)\<rparr>)"
  by (simp add: select_rows_def statement_def)

lemma execute_run [io_simps]:
  "no_db_faults w \<Longrightarrow>
   execute c f w = (Inr (), w\<lparr>db := f (db w), tick := Suc (tick w)\<rparr>)"
  by (simp add: execute_def statement_def)

lemma insert_row_run [io_simps]:
  "no_db_faults w \<Longrightarrow> insert_row c ok f w =
     (if ok (db w) then (Inr (), w\<lparr>db := f (db w), tick := Suc (tick w)\<rparr>)
      else (Inl (Database c), w\<lparr>tick := Suc (tick w)\<rparr>))"
  by (simp add: insert_row_def statement_def)

lemma redis_send_run [io_simps]:
  "no_redis_faults w \<Longrightarrow> redis_send c x w =
     (Inr (), w\<lparr>redis_log := redis_log w @ [x], tick := Suc (tick w)\<rparr>)"
  by (simp add: redis_send_def)

lemma redis_read_run [io_simps]:
  "no_redis_faults w \<Longrightarrow>
   redis_read c x w = (Inr (env_redis (env w) x (tick w)),
     w\<lparr>redis_log := redis_log w @ [x], tick := Suc (tick w)\<rparr>)"
  by (simp add: redis_read_def)

lemma redis_connect_run [io_simps]:
  "no_redis_faults w \<Longrightarrow> redis_connect w = (Inr (), w\<lparr>tick := Suc (tick w)\<rparr>)"
  by (simp add: redis_connect_def)

text \<open>Invariants of the database alone: whether a statement keeps them is a question about the
  function on tables.  \<open>keeps_db I m\<close> holds of \<open>m\<close> for every pattern of failures.\<close>

definition keeps_db :: "(db \<Rightarrow> bool) \<Rightarrow> ('z, 'a) op \<Rightarrow> bool" where
  "keeps_db I m \<longleftrightarrow> keeps (\<lambda>w. I (db w)) m"

lemma keeps_dbD: "keeps_db I m \<Longrightarrow> I (db w) \<Longrightarrow> I (db (snd (m w)))"
  by (simp add: keeps_db_def keeps_def)

lemma keeps_db_uuid [keeps_intros]: "keeps_db I uuid_new_v4"
  and keeps_db_now [keeps_intros]: "keeps_db I now_utc"
  and keeps_db_instant [keeps_intros]: "keeps_db I instant_now"
  and keeps_db_sleep [keeps_intros]: "keeps_db I (sleep x')"
  and keeps_db_redis_send [keeps_intros]: "keeps_db I (redis_send c x)"
  and keeps_db_redis_read [keeps_intros]: "keeps_db I (redis_read c x)"
  and keeps_db_redis_connect [keeps_intros]: "keeps_db I redis_connect"
  and keeps_db_select [keeps_intros]: "keeps_db I (select_rows c g)"
  by (simp_all add: keeps_db_def keeps_def uuid_new_v4_def now_utc_def instant_now_def
      sleep_def redis_send_def redis_read_def redis_connect_def select_rows_def statement_def)

lemma keeps_db_statement:
  assumes "\<And>d a d'. I d \<Longrightarrow> f d = (Inr a, d') \<Longrightarrow> I d'"
  shows "keeps_db I (statement c f)"
  using assms by (auto simp: keeps_db_def keeps_def statement_def split: prod.splits sum.splits)

lemma keeps_db_execute: "(\<And>d. I d \<Longrightarrow> I (f d)) \<Longrightarrow> keeps_db I (execute c f)"
  by (simp add: keeps_db_def keeps_def execute_def statement_def)

lemma keeps_db_insert_row:
  "(\<And>d. I d \<Longrightarrow> ok d \<Longrightarrow> I (f d)) \<Longrightarrow> keeps_db I (insert_row c ok f)"
  by (simp add: keeps_db_def keeps_def insert_row_def statement_def)

lemma keeps_db_transaction [keeps_intros]:
  assumes "keeps_db I m"
  shows "keeps_db I (transaction m)"
  unfolding keeps_db_def
proof (rule keepsI)
  fix w :: "'a world_scheme" assume I: "I (db w)"
  let ?w = "w\<lparr>tick := Suc (tick w)\<rparr>"
  have "I (db (snd (m ?w)))" using keeps_dbD [OF assms, of ?w] I by simp
  with I show "I (db (snd (transaction m w)))"
    by (cases "m ?w"; cases "fst (m ?w)") (simp_all add: transaction_def)
qed

lemma keeps_db_ret [keeps_intros]: "keeps_db I (ret a)"
  and keeps_db_fail [keeps_intros]: "keeps_db I (fail e)"
  and keeps_db_of_result [keeps_intros]: "keeps_db I (of_result r)"
  and keeps_db_of_option [keeps_intros]: "keeps_db I (of_option e x)"
  and keeps_db_gets [keeps_intros]: "keeps_db I (gets g)"
  by (simp_all add: keeps_db_def keeps_intros)

lemma keeps_db_and_then [keeps_intros]:
  "keeps_db I m \<Longrightarrow> (\<And>a. keeps_db I (f a)) \<Longrightarrow> keeps_db I (and_then m f)"
  by (simp add: keeps_db_def keeps_and_then)

lemma keeps_db_attempt [keeps_intros]: "keeps_db I m \<Longrightarrow> keeps_db I (attempt m)"
  and keeps_db_ignore [keeps_intros]: "keeps_db I m \<Longrightarrow> keeps_db I (ignore m)"
  by (simp_all add: keeps_db_def keeps_attempt keeps_ignore)

lemma keeps_db_if [keeps_intros]:
  "(b \<Longrightarrow> keeps_db I m) \<Longrightarrow> (\<not> b \<Longrightarrow> keeps_db I n) \<Longrightarrow> keeps_db I (if b then m else n)"
  by simp

lemma keeps_db_option [keeps_intros]:
  "(x = None \<Longrightarrow> keeps_db I m) \<Longrightarrow> (\<And>a. x = Some a \<Longrightarrow> keeps_db I (f a)) \<Longrightarrow>
   keeps_db I (case x of None \<Rightarrow> m | Some a \<Rightarrow> f a)"
  by (cases x) simp_all

lemma keeps_db_sum [keeps_intros]:
  "(\<And>e. x = Inl e \<Longrightarrow> keeps_db I (f e)) \<Longrightarrow> (\<And>a. x = Inr a \<Longrightarrow> keeps_db I (g a)) \<Longrightarrow>
   keeps_db I (case x of Inl e \<Rightarrow> f e | Inr a \<Rightarrow> g a)"
  by (cases x) simp_all

lemma keeps_db_prod [keeps_intros]:
  "(\<And>a b. x = (a, b) \<Longrightarrow> keeps_db I (f a b)) \<Longrightarrow> keeps_db I (case x of (a, b) \<Rightarrow> f a b)"
  by (cases x) simp

lemma keeps_db_let [keeps_intros]: "(\<And>y. keeps_db I (f y)) \<Longrightarrow> keeps_db I (let y = x in f y)"
  by (simp add: Let_def)

lemma keeps_db_fold_io [keeps_intros]:
  "(\<And>x acc. x \<in> set xs \<Longrightarrow> keeps_db I (f x acc)) \<Longrightarrow> keeps_db I (fold_io f xs acc)"
  by (simp add: keeps_db_def keeps_fold_io)

lemma select_rows_cases:
  obtains "select_rows c f w = (Inl (Database c), w\<lparr>tick := Suc (tick w)\<rparr>)"
  | "select_rows c f w = (Inr (f (db w)), w\<lparr>tick := Suc (tick w)\<rparr>)"
  by (cases "env_db_fault (env w) (tick w)") (simp_all add: select_rows_def statement_def)

lemma select_rows_InrE:
  "select_rows c f w = (Inr a, w') \<Longrightarrow> a = f (db w) \<and> w' = w\<lparr>tick := Suc (tick w)\<rparr>"
  by (cases rule: select_rows_cases [of c f w]) auto

lemma insert_row_InrE:
  "insert_row c ok f w = (Inr a, w') \<Longrightarrow> ok (db w) \<and> w' = w\<lparr>db := f (db w), tick := Suc (tick w)\<rparr>"
  by (auto simp: insert_row_def statement_def split: if_splits)

lemma insert_row_InlE:
  "insert_row c ok f w = (Inl e, w') \<Longrightarrow> e = Database c \<and> w' = w\<lparr>tick := Suc (tick w)\<rparr>"
  by (auto simp: insert_row_def statement_def split: if_splits)

lemma transaction_InrE:
  assumes "transaction m w = (Inr a, w')"
  obtains w1 where "m (w\<lparr>tick := Suc (tick w)\<rparr>) = (Inr a, w1)" "w' = w1\<lparr>tick := Suc (tick w1)\<rparr>"
  using assms by (auto simp: transaction_def split: if_splits prod.splits sum.splits)

lemma transaction_InlE: "transaction m w = (Inl e, w') \<Longrightarrow> db w' = db w"
  by (auto simp: transaction_def split: if_splits prod.splits sum.splits)

lemma execute_InrE:
  "execute c f w = (Inr u, w') \<Longrightarrow> w' = w\<lparr>db := f (db w), tick := Suc (tick w)\<rparr>"
  by (auto simp: execute_def statement_def split: if_splits)

lemma statement_InrE:
  assumes "statement c f w = (Inr a, w')"
  obtains d where "f (db w) = (Inr a, d)" "w' = w\<lparr>db := d, tick := Suc (tick w)\<rparr>"
  using assms by (auto simp: statement_def split: if_splits prod.splits sum.splits)

lemma statement_InlE: "statement c f w = (Inl e, w') \<Longrightarrow> db w' = db w"
  by (auto simp: statement_def split: if_splits prod.splits sum.splits)

lemma transaction_run [io_simps]:
  "no_db_faults w \<Longrightarrow> transaction m w =
     (case m (w\<lparr>tick := Suc (tick w)\<rparr>) of
         (Inl e, w') \<Rightarrow> (Inl e, w'\<lparr>db := db w\<rparr>)
       | (Inr a, w') \<Rightarrow>
           if env_db_fault (env w') (tick w')
           then (Inl (Database ''commit''), w'\<lparr>db := db w, tick := Suc (tick w')\<rparr>)
           else (Inr a, w'\<lparr>tick := Suc (tick w')\<rparr>))"
  by (simp add: transaction_def)

lemma keeps_env_prims [keeps_intros]:
  "keeps (\<lambda>w. P (env w)) uuid_new_v4" "keeps (\<lambda>w. P (env w)) now_utc"
  "keeps (\<lambda>w. P (env w)) instant_now" "keeps (\<lambda>w. P (env w)) (sleep d)"
  "keeps (\<lambda>w. P (env w)) (statement c f)" "keeps (\<lambda>w. P (env w)) (select_rows c g)"
  "keeps (\<lambda>w. P (env w)) (execute c h)" "keeps (\<lambda>w. P (env w)) (insert_row c ok h)"
  "keeps (\<lambda>w. P (env w)) (redis_send c x)" "keeps (\<lambda>w. P (env w)) (redis_read c x)"
  "keeps (\<lambda>w. P (env w)) redis_connect"
  by (auto simp: keeps_def uuid_new_v4_def now_utc_def instant_now_def sleep_def statement_def
      select_rows_def execute_def insert_row_def redis_send_def redis_read_def redis_connect_def
      split: prod.splits sum.splits)

lemma no_db_faults_env: "no_db_faults w = (\<lambda>e. \<forall>n. \<not> env_db_fault e n) (env w)"
  by (simp add: no_db_faults_def)

section \<open>A small concrete world\<close>

text \<open>The examples of the development run on a database with one project and one deployment, in
  an environment without failures that numbers identifiers and clock readings by the interaction.\<close>

definition demo_env :: env where
  "demo_env = \<lparr>env_uuid = of_nat, env_clock = int, env_instant = int,
     env_db_fault = (\<lambda>n. False), env_redis_fault = (\<lambda>n. False),
     env_io_fault = (\<lambda>n. False), env_redis = (\<lambda>_ _. Nil)\<rparr>"

definition demo_deployment :: Deployment where
  "demo_deployment = \<lparr>d_id = 3, d_project_id = 1, d_framework = StaticSite,
     d_status = DepRunning, d_image_path = None, d_container_id = None, d_port = None,
     d_url = None, d_created_at = 0, d_finished_at = None, d_error = None, d_commit_sha = None,
     d_target = ''production'', d_cause = ''manual'', d_rollback_from = None\<rparr>"

definition demo_db :: db where
  "demo_db = empty_db\<lparr>projects := [\<lparr>p_id = 1, p_user_id = 2, p_name = ''site'',
       p_source_dir = ''src'', p_base_image = ''base'', p_server_command = [],
       p_active_deployment = None, p_created_at = 0, p_repository_id = None,
       p_webhook_secret = Some ''secret'', p_target_branch = Some ''main''\<rparr>],
     deployments := [demo_deployment],
     users := [\<lparr>u_id = 2, u_email = ''a@b'', u_password_hash = ''hash'', u_name = ''A'',
       u_created_at = 0\<rparr>]\<rparr>"

definition demo_world :: world where
  "demo_world = \<lparr>env = demo_env, tick = 10, db = demo_db, redis_log = []\<rparr>"

lemma demo_no_faults [simp]:
  "env w = demo_env \<Longrightarrow> no_db_faults w" "env w = demo_env \<Longrightarrow> no_redis_faults w"
  by (simp_all add: no_db_faults_def no_redis_faults_def demo_env_def)

end
