(* ===== verification/Strings.thy ===== *)
theory Strings
  imports Prelude
begin

text \<open>
  The functions of Rust's \<^verbatim>\<open>str\<close> the code calls, on strings as byte lists: decimal formatting,
  prefix and substring tests, trimming, ASCII case.  \<^verbatim>\<open>to_lowercase\<close> is modelled on the ASCII
  letters, which is where the code's own literals and header names lie.
\<close>

section \<open>Decimal numbers\<close>

definition digit_char :: "nat \<Rightarrow> char" where
  "digit_char d = char_of (48 + d)"

fun show_nat :: "nat \<Rightarrow> string" where
  "show_nat n = (if n < 10 then [digit_char n] else show_nat (n div 10) @ [digit_char (n mod 10)])"

declare show_nat.simps [simp del]

definition show_int :: "int \<Rightarrow> string" where
  "show_int i = (if i < 0 then ''-'' @ show_nat (nat (- i)) else show_nat (nat i))"

definition is_ascii_digit :: "char \<Rightarrow> bool" where
  "is_ascii_digit c \<longleftrightarrow> 48 \<le> (of_char c :: nat) \<and> (of_char c :: nat) \<le> 57"

lemma show_nat_small: "n < 10 \<Longrightarrow> show_nat n = [digit_char n]"
  by (simp add: show_nat.simps)

lemma show_nat_step: "\<not> n < 10 \<Longrightarrow> show_nat n = show_nat (n div 10) @ [digit_char (n mod 10)]"
  by (simp add: show_nat.simps [of n])

lemma show_nat_not_Nil: "show_nat n \<noteq> []"
  by (cases "n < 10") (simp_all add: show_nat_small show_nat_step)

lemma of_char_digit_char: "d < 10 \<Longrightarrow> (of_char (digit_char d) :: nat) = 48 + d"
  by (simp add: digit_char_def)

lemma is_ascii_digit_digit_char: "d < 10 \<Longrightarrow> is_ascii_digit (digit_char d)"
  by (simp add: is_ascii_digit_def of_char_digit_char)

lemma show_nat_digits: "c \<in> set (show_nat n) \<Longrightarrow> is_ascii_digit c"
proof (induction n rule: show_nat.induct)
  case (1 n)
  show ?case
  proof (cases "n < 10")
    case True
    with "1.prems" show ?thesis by (simp add: show_nat_small is_ascii_digit_digit_char)
  next
    case False
    with "1.prems" "1.IH" show ?thesis
      by (auto simp: show_nat_step [OF False] is_ascii_digit_digit_char)
  qed
qed

text \<open>A number below \<open>10^k\<close> has at most \<open>k\<close> digits.\<close>

lemma length_show_nat: "n < 10 ^ k \<Longrightarrow> 0 < k \<Longrightarrow> length (show_nat n) \<le> k"
proof (induction n arbitrary: k rule: show_nat.induct)
  case (1 n)
  show ?case
  proof (cases "n < 10")
    case True
    with "1.prems" show ?thesis by (simp add: show_nat_small)
  next
    case False
    with "1.prems"(1) have "k \<noteq> 1" by (cases "k = 1") simp_all
    with "1.prems"(2) obtain j where j: "k = Suc j" "0 < j" by (cases k) auto
    with "1.prems"(1) have "n div 10 < 10 ^ j" by (simp add: less_mult_imp_div_less mult.commute)
    with "1.IH" [OF False _ j(2)] show ?thesis by (simp add: show_nat_step [OF False] j(1))
  qed
qed

text \<open>A string between single quotes, as the format strings of the code write it.\<close>

definition quoted :: "string \<Rightarrow> string" where
  "quoted s = CHR 0x27 # s @ [CHR 0x27]"

text \<open>The number of characters of a UTF-8 string (continuation bytes are \<open>10xxxxxx\<close>), which a
  \<^verbatim>\<open>VARCHAR(n)\<close> column bounds.\<close>

definition char_count :: "string \<Rightarrow> nat" where
  "char_count s = length (filter (\<lambda>c. (of_char c :: nat) div 64 \<noteq> 2) s)"

definition varchar :: "nat \<Rightarrow> string \<Rightarrow> bool" where
  "varchar n s \<longleftrightarrow> char_count s \<le> n"

lemma varchar_length: "length s \<le> n \<Longrightarrow> varchar n s"
  unfolding varchar_def char_count_def by (rule order_trans [OF length_filter_le])

section \<open>Prefixes, substrings, trimming\<close>

definition str_starts_with :: "string \<Rightarrow> string \<Rightarrow> bool" where
  "str_starts_with s p \<longleftrightarrow> take (length p) s = p"

fun str_contains :: "string \<Rightarrow> string \<Rightarrow> bool" where
  "str_contains [] p \<longleftrightarrow> p = []"
| "str_contains (c # s) p \<longleftrightarrow> take (length p) (c # s) = p \<or> str_contains s p"

definition trim_start_matches :: "char \<Rightarrow> string \<Rightarrow> string" where
  "trim_start_matches c s = dropWhile (\<lambda>x. x = c) s"

definition trim_end_matches :: "char \<Rightarrow> string \<Rightarrow> string" where
  "trim_end_matches c s = rev (dropWhile (\<lambda>x. x = c) (rev s))"

definition trim_matches :: "char \<Rightarrow> string \<Rightarrow> string" where
  "trim_matches c s = trim_end_matches c (trim_start_matches c s)"

lemma str_starts_with_iff: "str_starts_with s p \<longleftrightarrow> (\<exists>t. s = p @ t)"
  unfolding str_starts_with_def by (metis append_eq_conv_conj append_take_drop_id)

lemma str_contains_iff: "str_contains s p \<longleftrightarrow> (\<exists>a b. s = a @ p @ b)"
proof (induction s)
  case Nil
  then show ?case by auto
next
  case (Cons c s)
  have "take (length p) (c # s) = p \<longleftrightarrow> (\<exists>b. c # s = p @ b)"
    using str_starts_with_iff [of "c # s" p] by (simp add: str_starts_with_def)
  with Cons.IH show ?case
    by (auto simp: Cons_eq_append_conv)
qed

lemma set_trim_matches: "set (trim_matches c s) \<subseteq> set s"
  unfolding trim_matches_def trim_end_matches_def trim_start_matches_def
  by (auto dest!: set_dropWhileD)

lemma hd_trim_start: "trim_start_matches c s \<noteq> [] \<Longrightarrow> hd (trim_start_matches c s) \<noteq> c"
  unfolding trim_start_matches_def by (metis (mono_tags, lifting) hd_dropWhile)

lemma last_trim_end: "trim_end_matches c s \<noteq> [] \<Longrightarrow> last (trim_end_matches c s) \<noteq> c"
  unfolding trim_end_matches_def by (metis (mono_tags, lifting) hd_dropWhile last_rev rev_is_Nil_conv)

lemma trim_end_prefix: "\<exists>t. s = trim_end_matches c s @ t"
  unfolding trim_end_matches_def
  by (metis rev_append rev_rev_ident takeWhile_dropWhile_id)

lemma trim_end_not_Nil_hd:
  "trim_end_matches c s \<noteq> [] \<Longrightarrow> hd (trim_end_matches c s) = hd s"
  using trim_end_prefix [of s c] by (metis hd_append2)

lemma trim_end_Nil_iff: "trim_end_matches c s = [] \<longleftrightarrow> set s \<subseteq> {c}"
  by (auto simp: trim_end_matches_def)

lemma length_trim_end: "length (trim_end_matches c s) \<le> length s"
  using trim_end_prefix [of s c] by (metis le_add1 length_append)

lemma hd_trim_matches: "trim_matches c s \<noteq> [] \<Longrightarrow> hd (trim_matches c s) \<noteq> c"
  unfolding trim_matches_def
  by (metis hd_trim_start rev_is_Nil_conv trim_end_matches_def trim_end_not_Nil_hd dropWhile.simps(1))

lemma last_trim_matches: "trim_matches c s \<noteq> [] \<Longrightarrow> last (trim_matches c s) \<noteq> c"
  unfolding trim_matches_def by (rule last_trim_end)

section \<open>ASCII classes and case\<close>

definition is_ascii_upper :: "char \<Rightarrow> bool" where
  "is_ascii_upper c \<longleftrightarrow> 65 \<le> (of_char c :: nat) \<and> (of_char c :: nat) \<le> 90"

definition is_ascii_lower :: "char \<Rightarrow> bool" where
  "is_ascii_lower c \<longleftrightarrow> 97 \<le> (of_char c :: nat) \<and> (of_char c :: nat) \<le> 122"

definition is_ascii_alphanumeric :: "char \<Rightarrow> bool" where
  "is_ascii_alphanumeric c \<longleftrightarrow> is_ascii_upper c \<or> is_ascii_lower c \<or> is_ascii_digit c"

definition to_ascii_lowercase :: "char \<Rightarrow> char" where
  "to_ascii_lowercase c = (if is_ascii_upper c then char_of ((of_char c :: nat) + 32) else c)"

text \<open>\<^verbatim>\<open>str::to_lowercase\<close> on ASCII letters; other characters are kept, as no caller compares them.\<close>

definition to_lowercase :: "string \<Rightarrow> string" where
  "to_lowercase s = map to_ascii_lowercase s"

lemma of_char_to_ascii_lowercase:
  "is_ascii_upper c \<Longrightarrow> (of_char (to_ascii_lowercase c) :: nat) = of_char c + 32"
  by (simp add: to_ascii_lowercase_def is_ascii_upper_def)

lemma is_ascii_lower_to_ascii_lowercase:
  "is_ascii_alphanumeric c \<Longrightarrow>
   is_ascii_lower (to_ascii_lowercase c) \<or> is_ascii_digit (to_ascii_lowercase c)"
  unfolding is_ascii_alphanumeric_def
  by (cases "is_ascii_upper c")
    (auto simp: is_ascii_lower_def is_ascii_upper_def of_char_to_ascii_lowercase
      to_ascii_lowercase_def is_ascii_digit_def)

lemma to_lowercase_idem: "to_lowercase (to_lowercase s) = to_lowercase s"
proof -
  have "to_ascii_lowercase (to_ascii_lowercase c) = to_ascii_lowercase c" for c
    by (cases "is_ascii_upper c") (auto simp: to_ascii_lowercase_def is_ascii_upper_def)
  then show ?thesis by (simp add: to_lowercase_def)
qed

section \<open>White space\<close>

text \<open>\<open>white_len s\<close> is the number of bytes of the white-space character (Unicode \<^verbatim>\<open>White_Space\<close>) at the
  start of \<open>s\<close>, or 0; \<open>white_len_rev\<close> reads the end of a string, given in reverse.\<close>

definition white_seqs :: "string list" where
  "white_seqs =
     [[CHR 0x09], [CHR 0x0A], [CHR 0x0B], [CHR 0x0C], [CHR 0x0D], [CHR 0x20], [CHR 0xC2, CHR 0x85],
      [CHR 0xC2, CHR 0xA0], [CHR 0xE1, CHR 0x9A, CHR 0x80], [CHR 0xE2, CHR 0x80, CHR 0x80],
      [CHR 0xE2, CHR 0x80, CHR 0x81], [CHR 0xE2, CHR 0x80, CHR 0x82], [CHR 0xE2, CHR 0x80, CHR 0x83],
      [CHR 0xE2, CHR 0x80, CHR 0x84], [CHR 0xE2, CHR 0x80, CHR 0x85], [CHR 0xE2, CHR 0x80, CHR 0x86],
      [CHR 0xE2, CHR 0x80, CHR 0x87], [CHR 0xE2, CHR 0x80, CHR 0x88], [CHR 0xE2, CHR 0x80, CHR 0x89],
      [CHR 0xE2, CHR 0x80, CHR 0x8A], [CHR 0xE2, CHR 0x80, CHR 0xA8], [CHR 0xE2, CHR 0x80, CHR 0xA9],
      [CHR 0xE2, CHR 0x80, CHR 0xAF], [CHR 0xE2, CHR 0x81, CHR 0x9F], [CHR 0xE3, CHR 0x80, CHR 0x80]]"

fun prefix_len :: "string list \<Rightarrow> string \<Rightarrow> nat" where
  "prefix_len [] s = 0"
| "prefix_len (p # ps) s = (if str_starts_with s p then length p else prefix_len ps s)"

definition white_len :: "string \<Rightarrow> nat" where
  "white_len s = prefix_len white_seqs s"

definition white_len_rev :: "string \<Rightarrow> nat" where
  "white_len_rev s = prefix_len (map rev white_seqs) s"

fun strip_front :: "(string \<Rightarrow> nat) \<Rightarrow> nat \<Rightarrow> string \<Rightarrow> string" where
  "strip_front len 0 s = s"
| "strip_front len (Suc fuel) s = (if len s = 0 then s else strip_front len fuel (drop (len s) s))"

text \<open>\<^verbatim>\<open>str::trim\<close>: every round takes a byte at least, so the length is enough rounds.\<close>

definition str_trim :: "string \<Rightarrow> string" where
  "str_trim s =
     (let t = strip_front white_len (length s) s
      in rev (strip_front white_len_rev (length t) (rev t)))"

lemma prefix_len_le: "prefix_len ps s \<le> length s"
  by (induction ps) (auto simp: str_starts_with_iff)

lemma strip_front_fix:
  assumes "\<And>s. len s \<le> length s" and "length s \<le> fuel"
  shows "len (strip_front len fuel s) = 0"
  using assms(2)
proof (induction fuel arbitrary: s)
  case 0
  then show ?case using assms(1) [of s] by simp
next
  case (Suc fuel)
  then show ?case using assms(1) [of s] by auto
qed

lemma strip_front_suffix: "\<exists>t. s = t @ strip_front len fuel s"
proof (induction fuel arbitrary: s)
  case (Suc fuel)
  obtain t where "drop (len s) s = t @ strip_front len fuel (drop (len s) s)" using Suc by blast
  then have "s = (take (len s) s @ t) @ strip_front len fuel (drop (len s) s)"
    by (metis append.assoc append_take_drop_id)
  then show ?case by (metis append_Nil strip_front.simps(2))
qed simp

lemma str_trim_infix: "\<exists>a b. s = a @ str_trim s @ b"
proof -
  let ?t = "strip_front white_len (length s) s"
  obtain a where a: "s = a @ ?t" using strip_front_suffix by blast
  obtain b where "rev ?t = b @ strip_front white_len_rev (length ?t) (rev ?t)"
    using strip_front_suffix by blast
  then have "?t = str_trim s @ rev b" by (metis rev_append rev_rev_ident str_trim_def)
  then show ?thesis using a by metis
qed

lemma length_str_trim: "length (str_trim s) \<le> length s"
  using str_trim_infix [of s] by (metis length_append le_add1 le_add2 le_trans)

lemma str_trim_end: "white_len_rev (rev (str_trim s)) = 0"
  using strip_front_fix [of white_len_rev] by (simp add: str_trim_def Let_def white_len_rev_def prefix_len_le)

text \<open>\<^verbatim>\<open>str::split_ascii_whitespace\<close>: the maximal runs of other bytes.\<close>

definition is_ascii_whitespace :: "char \<Rightarrow> bool" where
  "is_ascii_whitespace c \<longleftrightarrow> c \<in> {CHR 0x09, CHR 0x0A, CHR 0x0C, CHR 0x0D, CHR 0x20}"

lemma split_shorter:
  assumes "dropWhile is_ascii_whitespace s \<noteq> []"
  shows "length (dropWhile (\<lambda>c. \<not> is_ascii_whitespace c) (dropWhile is_ascii_whitespace s)) < length s"
proof -
  obtain c t where t: "dropWhile is_ascii_whitespace s = c # t" using assms by (cases "dropWhile is_ascii_whitespace s") auto
  then have "\<not> is_ascii_whitespace c" by (metis hd_dropWhile list.sel(1) list.distinct(1))
  moreover have "length (c # t) \<le> length s" unfolding t [symmetric] by (rule length_dropWhile_le)
  ultimately show ?thesis using length_dropWhile_le [of "\<lambda>c. \<not> is_ascii_whitespace c" t] by (simp add: t)
qed

function split_ascii_whitespace :: "string \<Rightarrow> string list" where
  "split_ascii_whitespace s =
     (let t = dropWhile is_ascii_whitespace s
      in if t = [] then []
         else takeWhile (\<lambda>c. \<not> is_ascii_whitespace c) t #
           split_ascii_whitespace (dropWhile (\<lambda>c. \<not> is_ascii_whitespace c) t))"
  by pat_completeness auto
termination
  by (relation "measure length") (simp_all add: split_shorter)

declare split_ascii_whitespace.simps [simp del]

lemma split_ascii_whitespace_tokens:
  "t \<in> set (split_ascii_whitespace s) \<Longrightarrow> t \<noteq> [] \<and> (\<forall>c\<in>set t. \<not> is_ascii_whitespace c)"
proof (induction s rule: split_ascii_whitespace.induct)
  case (1 s)
  let ?t = "dropWhile is_ascii_whitespace s"
  have ne: "?t \<noteq> []" and "t = takeWhile (\<lambda>c. \<not> is_ascii_whitespace c) ?t
      \<or> t \<in> set (split_ascii_whitespace (dropWhile (\<lambda>c. \<not> is_ascii_whitespace c) ?t))"
    using "1.prems" by (simp_all add: split_ascii_whitespace.simps [of s] Let_def split: if_splits)
  then consider "t = takeWhile (\<lambda>c. \<not> is_ascii_whitespace c) ?t"
    | "t \<in> set (split_ascii_whitespace (dropWhile (\<lambda>c. \<not> is_ascii_whitespace c) ?t))" by blast
  then show ?case
  proof cases
    case 1
    moreover have "takeWhile (\<lambda>c. \<not> is_ascii_whitespace c) ?t \<noteq> []"
      using ne by (metis hd_dropWhile takeWhile_eq_Nil_iff)
    ultimately show ?thesis by (metis set_takeWhileD)
  next
    case 2
    then show ?thesis using "1.IH" ne by blast
  qed
qed

section \<open>UTF-8\<close>

text \<open>\<open>utf8_step\<close> reads the next character of a byte string: \<open>(True, n)\<close> for a well-formed
  sequence of \<open>n\<close> bytes, \<open>(False, n)\<close> for a maximal ill-formed prefix of \<open>n\<close> bytes, which
  \<^verbatim>\<open>String::from_utf8_lossy\<close> replaces by one replacement character.\<close>

definition in_range :: "nat \<Rightarrow> nat \<Rightarrow> string \<Rightarrow> bool" where
  "in_range lo hi s = (case s of [] \<Rightarrow> False | c # _ \<Rightarrow> lo \<le> of_char c \<and> of_char c \<le> hi)"

definition utf8_step :: "string \<Rightarrow> bool \<times> nat" where
  "utf8_step s =
     (if in_range 0 0x7F s then (True, 1)
      else if in_range 0xC2 0xDF s then (if in_range 0x80 0xBF (drop 1 s) then (True, 2) else (False, 1))
      else if in_range 0xE0 0xEF s then
        let lo = (if in_range 0xE0 0xE0 s then 0xA0 else 0x80);
            hi = (if in_range 0xED 0xED s then 0x9F else 0xBF)
        in if \<not> in_range lo hi (drop 1 s) then (False, 1)
           else if in_range 0x80 0xBF (drop 2 s) then (True, 3) else (False, 2)
      else if in_range 0xF0 0xF4 s then
        let lo = (if in_range 0xF0 0xF0 s then 0x90 else 0x80);
            hi = (if in_range 0xF4 0xF4 s then 0x8F else 0xBF)
        in if \<not> in_range lo hi (drop 1 s) then (False, 1)
           else if \<not> in_range 0x80 0xBF (drop 2 s) then (False, 2)
           else if in_range 0x80 0xBF (drop 3 s) then (True, 4) else (False, 3)
      else (False, 1))"

lemma utf8_step_pos: "0 < snd (utf8_step s)"
  by (simp add: utf8_step_def Let_def)

lemma utf8_step_shorter:
  "s \<noteq> [] \<Longrightarrow> (b, n) = utf8_step s \<Longrightarrow> length s - n < length s"
  using utf8_step_pos [of s] by (metis diff_less length_greater_0_conv snd_conv)

function from_utf8_lossy :: "string \<Rightarrow> string" where
  "from_utf8_lossy s =
     (if s = [] then []
      else case utf8_step s of
          (ok, n) \<Rightarrow> (if ok then take n s else [CHR 0xEF, CHR 0xBF, CHR 0xBD])
                      @ from_utf8_lossy (drop n s))"
  by pat_completeness auto
termination
  by (relation "measure length") (simp, simp only: in_measure length_drop, rule utf8_step_shorter)

function valid_utf8 :: "string \<Rightarrow> bool" where
  "valid_utf8 s =
     (if s = [] then True
      else case utf8_step s of (ok, n) \<Rightarrow> ok \<and> valid_utf8 (drop n s))"
  by pat_completeness auto
termination
  by (relation "measure length") (simp, simp only: in_measure length_drop, rule utf8_step_shorter)

declare from_utf8_lossy.simps [simp del] valid_utf8.simps [simp del]

lemma from_utf8_lossy_valid: "valid_utf8 s \<Longrightarrow> from_utf8_lossy s = s"
proof (induction s rule: valid_utf8.induct)
  case (1 s)
  show ?case
  proof (cases "s = []")
    case True
    then show ?thesis by (simp add: from_utf8_lossy.simps [of "[]"])
  next
    case False
    with "1.prems" obtain n where n: "utf8_step s = (True, n)" "valid_utf8 (drop n s)"
      by (auto simp: valid_utf8.simps [of s] split: prod.splits)
    with "1.IH" [OF False n(1) [symmetric]] have "from_utf8_lossy (drop n s) = drop n s" by simp
    with False n show ?thesis by (simp add: from_utf8_lossy.simps [of s])
  qed
qed

lemma ascii_valid_utf8: "list_all (\<lambda>c. (of_char c :: nat) < 128) s \<Longrightarrow> valid_utf8 s"
proof (induction s)
  case Nil
  show ?case by (simp add: valid_utf8.simps [of "[]"])
next
  case (Cons c s)
  then have "utf8_step (c # s) = (True, 1)" by (simp add: utf8_step_def in_range_def)
  with Cons show ?case by (simp add: valid_utf8.simps [of "c # s"])
qed

end
