(* ===== verification/Traffic.thy ===== *)
theory Traffic
  imports Schema Strings
begin

text \<open>
  \<^verbatim>\<open>src/traffic.rs\<close>: the \<^verbatim>\<open>TrafficRouter\<close> trait as a record of operations on a router state,
  the router of the repository (\<^verbatim>\<open>MockTrafficRouter\<close>, which the API server installs), and the
  contract both clients of the trait rely on as a locale with that router as its instance.
\<close>

record RouteHandle =
  rh_id :: uuid
  rh_project_id :: uuid
  rh_environment :: string
  rh_target_url :: string

datatype DrainResult = CompletedGracefully | ForcedTimeout

record 'r TrafficRouter =
  prepare :: "Release \<Rightarrow> ('r, error, RouteHandle) io"
  activate :: "RouteHandle \<Rightarrow> ('r, error, unit) io"
  drain :: "RouteHandle \<Rightarrow> int \<Rightarrow> ('r, error, DrainResult) io"
  remove :: "RouteHandle \<Rightarrow> ('r, error, unit) io"

type_synonym route_key = "uuid \<times> string"

definition handle_key :: "RouteHandle \<Rightarrow> route_key" where
  "handle_key h = (rh_project_id h, rh_environment h)"

record MockTrafficRouter =
  mock_active :: "route_key \<rightharpoonup> RouteHandle"
  mock_prepared :: "RouteHandle list"
  mock_drained :: "(RouteHandle \<times> DrainResult) list"
  mock_removed :: "RouteHandle list"

definition new_mock_router :: MockTrafficRouter where
  "new_mock_router =
     \<lparr>mock_active = Map.empty, mock_prepared = [], mock_drained = [], mock_removed = []\<rparr>"

definition route_of :: "Release \<Rightarrow> RouteHandle" where
  "route_of release =
     \<lparr>rh_id = r_id release, rh_project_id = r_project_id release,
      rh_environment = r_environment release,
      rh_target_url =
        (case r_url release of
           Some u \<Rightarrow> u
         | None \<Rightarrow> ''http://127.0.0.1:'' @
             show_int (case r_port release of Some p \<Rightarrow> p | None \<Rightarrow> 8080))\<rparr>"

definition mock_prepare :: "Release \<Rightarrow> (MockTrafficRouter, error, RouteHandle) io" where
  "mock_prepare release = (\<lambda>r.
     let handle = route_of release
     in (Inr handle, r\<lparr>mock_prepared := mock_prepared r @ [handle]\<rparr>))"

definition mock_activate :: "RouteHandle \<Rightarrow> (MockTrafficRouter, error, unit) io" where
  "mock_activate route = (\<lambda>r.
     (Inr (), r\<lparr>mock_active := (mock_active r)(handle_key route \<mapsto> route)\<rparr>))"

definition mock_drain :: "RouteHandle \<Rightarrow> int \<Rightarrow> (MockTrafficRouter, error, DrainResult) io" where
  "mock_drain route timeout = (\<lambda>r.
     (Inr CompletedGracefully,
      r\<lparr>mock_drained := mock_drained r @ [(route, CompletedGracefully)]\<rparr>))"

definition mock_remove :: "RouteHandle \<Rightarrow> (MockTrafficRouter, error, unit) io" where
  "mock_remove route = (\<lambda>r.
     (Inr (), r\<lparr>mock_active := (mock_active r)(handle_key route := None),
                mock_removed := mock_removed r @ [route]\<rparr>))"

definition mock_router :: "MockTrafficRouter TrafficRouter" where
  "mock_router = \<lparr>prepare = mock_prepare, activate = mock_activate, drain = mock_drain,
     remove = mock_remove\<rparr>"

section \<open>The contract of a router\<close>

text \<open>\<open>serving s k\<close> is the route that answers the traffic of a project and environment.  A router
  serves what it activated; preparing and draining do not change what is served; removing a route
  ends the serving under its key and leaves the other keys alone.\<close>

locale traffic_router =
  fixes ops :: "'r TrafficRouter"
    and serving :: "'r \<Rightarrow> route_key \<rightharpoonup> RouteHandle"
  assumes prepare_handle:
      "prepare ops release s = (Inr h, s') \<Longrightarrow>
         rh_id h = r_id release \<and> handle_key h = (r_project_id release, r_environment release)"
    and prepare_serving: "serving (snd (prepare ops release s)) = serving s"
    and activate_serving:
      "activate ops h s = (Inr (), s') \<Longrightarrow> serving s' = (serving s)(handle_key h \<mapsto> h)"
    and drain_serving: "serving (snd (drain ops h timeout s)) = serving s"
    and remove_serving:
      "remove ops h s = (Inr (), s') \<Longrightarrow> serving s' = (serving s)(handle_key h := None)"
begin

lemma prepare_then_activate:
  assumes "prepare ops release s = (Inr h, s')" and "activate ops h s' = (Inr (), s'')"
  shows "serving s'' = (serving s)((r_project_id release, r_environment release) \<mapsto> h)"
proof -
  have "serving s' = serving s" using prepare_serving [of release s] assms(1) by simp
  with activate_serving [OF assms(2)] prepare_handle [OF assms(1)] show ?thesis by simp
qed

text \<open>The sequence a switch of traffic runs: activate the route of the new release, then prepare,
  drain and remove the route of the previous one.  Routes are keyed by project and environment, so
  the last step ends the serving of the new release as well.\<close>

lemma switch_unserves:
  assumes "handle_key h = handle_key old"
    and "activate ops h s = (Inr (), s1)"
    and "drain ops old timeout s1 = (Inr dr, s2)"
    and "remove ops old s2 = (Inr (), s3)"
  shows "serving s3 (handle_key h) = None"
proof -
  have "serving s2 = serving s1" using drain_serving [of old timeout s1] assms(3) by simp
  with remove_serving [OF assms(4)] assms(1) show ?thesis by simp
qed

end

interpretation mock: traffic_router mock_router mock_active
  by unfold_locales
    (auto simp: mock_router_def mock_prepare_def mock_activate_def mock_drain_def mock_remove_def
      route_of_def handle_key_def Let_def)

lemma mock_router_run [io_simps]:
  "prepare mock_router release r =
     (Inr (route_of release), r\<lparr>mock_prepared := mock_prepared r @ [route_of release]\<rparr>)"
  "activate mock_router h r = (Inr (), r\<lparr>mock_active := (mock_active r)(handle_key h \<mapsto> h)\<rparr>)"
  "drain mock_router h t r =
     (Inr CompletedGracefully, r\<lparr>mock_drained := mock_drained r @ [(h, CompletedGracefully)]\<rparr>)"
  "remove mock_router h r =
     (Inr (), r\<lparr>mock_active := (mock_active r)(handle_key h := None),
                mock_removed := mock_removed r @ [h]\<rparr>)"
  by (simp_all add: mock_router_def mock_prepare_def mock_activate_def mock_drain_def
      mock_remove_def Let_def)

end
