(* ===== verification/Health.thy ===== *)
theory Health
  imports Schema Strings
begin

text \<open>
  \<^verbatim>\<open>src/health.rs\<close>: the health policy, the check of one probe response and the probe loop
  \<^verbatim>\<open>wait_until_healthy\<close>.  The probe client (an HTTP client behind the \<^verbatim>\<open>HealthProbeClient\<close>
  trait) is a parameter of the loop; \<^verbatim>\<open>MockHealthProbeClient\<close> of the same file is an instance.
  A \<^verbatim>\<open>HashMap\<close> of expected headers is the list of its entries in iteration order.
\<close>

record HealthPolicy =
  hp_path :: string
  hp_port :: u16
  hp_interval :: int
  hp_timeout :: int
  hp_attempts :: u32
  hp_expected_status :: u16
  hp_grace_period :: int
  hp_expected_body_contains :: "string option"
  hp_expected_headers :: "(string \<times> string) list"

definition default_HealthPolicy :: HealthPolicy where
  "default_HealthPolicy =
     \<lparr>hp_path = ''/health'', hp_port = 8080, hp_interval = 100000000, hp_timeout = 2000000000,
      hp_attempts = 5, hp_expected_status = 200, hp_grace_period = 0,
      hp_expected_body_contains = None, hp_expected_headers = []\<rparr>"

record HealthAttemptRecord =
  ha_attempt :: u32
  ha_status_code :: "u16 option"
  ha_is_healthy :: bool
  ha_error_message :: "string option"
  ha_latency_ms :: u64
  ha_timestamp :: timestamp

record HealthCheckResult =
  hc_is_healthy :: bool
  hc_attempts :: "HealthAttemptRecord list"
  hc_final_error :: "string option"

record ProbeResponse =
  pr_status :: u16
  pr_headers :: "string \<rightharpoonup> string"
  pr_body :: string

section \<open>One response\<close>

text \<open>The header loop stops at the first header that is missing or differs.\<close>

fun check_headers :: "(string \<times> string) list \<Rightarrow> (string \<rightharpoonup> string) \<Rightarrow> string option" where
  "check_headers [] headers = None"
| "check_headers ((header_key, expected_val) # rest) headers =
     (case headers (to_lowercase header_key) of
        Some actual_val \<Rightarrow>
          if actual_val = expected_val then check_headers rest headers
          else Some (''header '' @ quoted header_key @ '' expected '' @ quoted expected_val @
                     '', got '' @ quoted actual_val)
      | None \<Rightarrow> Some (''missing expected header '' @ quoted header_key))"

text \<open>\<open>None\<close>: the response is healthy; \<open>Some msg\<close>: it is not, with the recorded message.\<close>

definition check_response :: "HealthPolicy \<Rightarrow> ProbeResponse \<Rightarrow> string option" where
  "check_response policy resp =
     (if pr_status resp \<noteq> hp_expected_status policy
      then Some (''expected HTTP status '' @ show_nat (unat (hp_expected_status policy)) @
                 '', got '' @ show_nat (unat (pr_status resp)))
      else case hp_expected_body_contains policy of
          Some required_text \<Rightarrow>
            if \<not> str_contains (pr_body resp) required_text
            then Some (''response body does not contain expected substring '' @
                       quoted required_text)
            else check_headers (hp_expected_headers policy) (pr_headers resp)
        | None \<Rightarrow> check_headers (hp_expected_headers policy) (pr_headers resp))"

definition probe_url :: "string \<Rightarrow> HealthPolicy \<Rightarrow> string" where
  "probe_url base_url policy =
     trim_end_matches (CHR ''/'') base_url @
     (if str_starts_with (hp_path policy) ''/'' then hp_path policy else ''/'' @ hp_path policy)"

section \<open>The probe loop\<close>

text \<open>A probe client: a URL and a timeout, answered by a response or an error text.\<close>

type_synonym 'w HealthProbeClient = "string \<Rightarrow> int \<Rightarrow> ('w, string, ProbeResponse) io"

definition attempt_record ::
  "HealthPolicy \<Rightarrow> nat \<Rightarrow> u64 \<Rightarrow> timestamp \<Rightarrow> string + ProbeResponse \<Rightarrow> HealthAttemptRecord" where
  "attempt_record policy attempt_num latency_ms time probe_res =
     (case probe_res of
        Inr resp \<Rightarrow>
          \<lparr>ha_attempt = of_nat attempt_num, ha_status_code = Some (pr_status resp),
           ha_is_healthy = (check_response policy resp = None),
           ha_error_message = check_response policy resp,
           ha_latency_ms = latency_ms, ha_timestamp = time\<rparr>
      | Inl err_str \<Rightarrow>
          \<lparr>ha_attempt = of_nat attempt_num, ha_status_code = None, ha_is_healthy = False,
           ha_error_message = Some err_str, ha_latency_ms = latency_ms, ha_timestamp = time\<rparr>)"

definition elapsed_millis :: "int \<Rightarrow> int \<Rightarrow> u64" where
  "elapsed_millis start now = word_of_int (max 0 (now - start) div 1000000)"

text \<open>\<open>probe_loop client url policy max n attempts\<close> runs the iterations \<open>n, n + 1, \<dots>, max\<close> of
  \<^verbatim>\<open>for attempt_num in 1..=max_attempts\<close>; the first argument counts the iterations left.\<close>

primrec probe_loop ::
  "nat \<Rightarrow> 'z world_scheme HealthProbeClient \<Rightarrow> string \<Rightarrow> HealthPolicy \<Rightarrow> nat \<Rightarrow>
   HealthAttemptRecord list \<Rightarrow> ('z, bool \<times> HealthAttemptRecord list) op" where
  "probe_loop 0 client url policy attempt_num attempts = ret (False, attempts)"
| "probe_loop (Suc left) client url policy attempt_num attempts =
     and_then instant_now (\<lambda>start.
     and_then now_utc (\<lambda>time.
     and_then (attempt (client url (hp_timeout policy))) (\<lambda>probe_res.
     and_then instant_now (\<lambda>finish.
       let rec = attempt_record policy attempt_num (elapsed_millis start finish) time probe_res;
           attempts' = attempts @ [rec]
       in if ha_is_healthy rec then ret (True, attempts')
          else and_then
            (if left \<noteq> 0 \<and> hp_interval policy > 0 then sleep (hp_interval policy) else ret ())
            (\<lambda>_. probe_loop left client url policy (Suc attempt_num) attempts')))))"

definition max_attempts :: "HealthPolicy \<Rightarrow> nat" where
  "max_attempts policy = max (unat (hp_attempts policy)) 1"

definition wait_until_healthy ::
  "'z world_scheme HealthProbeClient \<Rightarrow> string \<Rightarrow> HealthPolicy \<Rightarrow> ('z, HealthCheckResult) op" where
  "wait_until_healthy client base_url policy =
     and_then (if hp_grace_period policy > 0 then sleep (hp_grace_period policy) else ret ()) (\<lambda>_.
     and_then (probe_loop (max_attempts policy) client (probe_url base_url policy) policy 1 [])
     (\<lambda>(healthy, attempts).
       if healthy
       then ret \<lparr>hc_is_healthy = True, hc_attempts = attempts, hc_final_error = None\<rparr>
       else ret \<lparr>hc_is_healthy = False, hc_attempts = attempts,
                 hc_final_error = Some
                   (case (if attempts = [] then None else ha_error_message (last attempts)) of
                      Some msg \<Rightarrow> msg
                    | None \<Rightarrow> ''health check failed all attempts'')\<rparr>))"

text \<open>\<^verbatim>\<open>MockHealthProbeClient\<close>: a queue of canned answers and the list of probed URLs.\<close>

record MockHealthProbeClient =
  queued_responses :: "(string + ProbeResponse) list"
  probed_urls :: "string list"

definition mock_probe :: "MockHealthProbeClient HealthProbeClient" where
  "mock_probe url timeout = (\<lambda>c.
     let c' = c\<lparr>probed_urls := probed_urls c @ [url]\<rparr>
     in case queued_responses c of
          [] \<Rightarrow> (Inl ''no mock responses remaining'', c')
        | next # queue \<Rightarrow> (next, c'\<lparr>queued_responses := queue\<rparr>))"

section \<open>Correctness of the probe loop\<close>

definition numbered_from :: "nat \<Rightarrow> HealthAttemptRecord list \<Rightarrow> bool" where
  "numbered_from n attempts \<longleftrightarrow>
     (\<forall>i < length attempts. ha_attempt (attempts ! i) = of_nat (n + i))"

lemma numbered_from_simps [simp]:
  "numbered_from n []"
  "numbered_from n (a # as) \<longleftrightarrow> ha_attempt a = of_nat n \<and> numbered_from (Suc n) as"
  by (auto simp: numbered_from_def nth_Cons All_less_Suc2 split: nat.splits)

text \<open>The log a run of the loop leaves: numbered attempts, all but a last one unhealthy, each
  unhealthy attempt with a message.\<close>

definition attempts_ok :: "bool \<Rightarrow> HealthAttemptRecord list \<Rightarrow> bool" where
  "attempts_ok healthy attempts \<longleftrightarrow>
     (\<forall>a\<in>set attempts. ha_is_healthy a = (ha_error_message a = None))
     \<and> (\<forall>a\<in>set (if healthy then butlast attempts else attempts). \<not> ha_is_healthy a)
     \<and> (healthy \<longrightarrow> attempts \<noteq> [] \<and> ha_is_healthy (last attempts))"

lemma attempts_ok_Cons:
  "\<not> ha_is_healthy a \<Longrightarrow> ha_error_message a \<noteq> None \<Longrightarrow>
   attempts_ok healthy (a # as) = attempts_ok healthy as"
  by (auto simp: attempts_ok_def)

lemma attempt_record_message:
  "ha_is_healthy (attempt_record p n l t res) = (ha_error_message (attempt_record p n l t res) = None)"
  by (simp add: attempt_record_def split: sum.split)

lemma attempt_record_number [simp]: "ha_attempt (attempt_record p n l t res) = of_nat n"
  by (simp add: attempt_record_def split: sum.split)

lemma probe_loop_step:
  obtains rec w1 where "probe_loop (Suc left) client url policy n acc w =
      (if ha_is_healthy rec then (Inr (True, acc @ [rec]), w1)
       else probe_loop left client url policy (Suc n) (acc @ [rec]) w1)"
    and "ha_is_healthy rec = (ha_error_message rec = None)"
    and "ha_attempt rec = of_nat n"
proof -
  obtain res w2 where c: "client url (hp_timeout policy) (w\<lparr>tick := Suc (Suc (tick w))\<rparr>) = (res, w2)"
    by (cases "client url (hp_timeout policy) (w\<lparr>tick := Suc (Suc (tick w))\<rparr>)")
  let ?w3 = "w2\<lparr>tick := Suc (tick w2)\<rparr>"
  let ?rec = "attempt_record policy n
    (elapsed_millis (env_instant (env w) (tick w)) (env_instant (env w2) (tick w2)))
    (env_clock (env w) (Suc (tick w))) res"
  show thesis
    by (rule that [of ?rec "if \<not> ha_is_healthy ?rec \<and> left \<noteq> 0 \<and> hp_interval policy > 0
          then ?w3\<lparr>tick := Suc (tick ?w3)\<rparr> else ?w3"])
      (auto simp: io_simps c Let_def attempt_record_message)
qed

lemma probe_loop_spec:
  "\<exists>healthy new w'. probe_loop left client url policy n acc w = (Inr (healthy, acc @ new), w')
     \<and> numbered_from n new \<and> attempts_ok healthy new \<and> length new \<le> left
     \<and> (\<not> healthy \<longrightarrow> length new = left)"
proof (induction left arbitrary: n acc w)
  case 0
  show ?case by (rule exI [of _ False]) (simp add: io_simps attempts_ok_def)
next
  case (Suc left)
  obtain rec w1 where step: "probe_loop (Suc left) client url policy n acc w =
      (if ha_is_healthy rec then (Inr (True, acc @ [rec]), w1)
       else probe_loop left client url policy (Suc n) (acc @ [rec]) w1)"
    and msg: "ha_is_healthy rec = (ha_error_message rec = None)"
    and num: "ha_attempt rec = of_nat n"
    by (rule probe_loop_step)
  show ?case
  proof (cases "ha_is_healthy rec")
    case True
    with msg num show ?thesis unfolding step
      by (intro exI [of _ True] exI [of _ "[rec]"] exI [of _ w1]) (simp add: attempts_ok_def)
  next
    case False
    from Suc.IH [of "Suc n" "acc @ [rec]" w1] obtain healthy new w' where
      IH: "probe_loop left client url policy (Suc n) (acc @ [rec]) w1 = (Inr (healthy, acc @ rec # new), w')"
        "numbered_from (Suc n) new" "attempts_ok healthy new" "length new \<le> left"
        "\<not> healthy \<longrightarrow> length new = left" by auto
    moreover from False msg have "ha_error_message rec \<noteq> None" by simp
    ultimately show ?thesis using False num unfolding step
      by (intro exI [of _ healthy] exI [of _ "rec # new"] exI [of _ w']) (simp add: attempts_ok_Cons)
  qed
qed

text \<open>What the result of a check promises: numbered attempts, between one and the bound of the
  policy, and a final error exactly when no attempt was healthy.\<close>

definition health_result_ok :: "HealthPolicy \<Rightarrow> HealthCheckResult \<Rightarrow> bool" where
  "health_result_ok policy r \<longleftrightarrow>
     1 \<le> length (hc_attempts r) \<and> length (hc_attempts r) \<le> max_attempts policy
     \<and> numbered_from 1 (hc_attempts r) \<and> attempts_ok (hc_is_healthy r) (hc_attempts r)
     \<and> (if hc_is_healthy r then hc_final_error r = None
        else length (hc_attempts r) = max_attempts policy
             \<and> hc_final_error r = ha_error_message (last (hc_attempts r)))"

text \<open>C12. The health check always ends with a result, for every probe client, clock and policy
  (zero attempts included): the attempts are numbered from 1, at least one and at most
  \<open>max_attempts\<close> are made, every attempt but a healthy last one failed with a message, a healthy
  result ends at its first healthy probe, and an unhealthy one has used all attempts and reports
  the error of the last.\<close>

theorem wait_until_healthy_correct:
  "\<exists>r w'. wait_until_healthy client base_url policy w = (Inr r, w') \<and> health_result_ok policy r"
proof -
  let ?w = "if hp_grace_period policy > 0 then w\<lparr>tick := Suc (tick w)\<rparr> else w"
  have max: "1 \<le> max_attempts policy" by (simp add: max_attempts_def)
  obtain healthy as w' where loop:
      "probe_loop (max_attempts policy) client (probe_url base_url policy) policy 1 [] ?w =
         (Inr (healthy, as), w')"
    and as: "numbered_from 1 as" "attempts_ok healthy as" "length as \<le> max_attempts policy"
      "\<not> healthy \<longrightarrow> length as = max_attempts policy"
    using probe_loop_spec [of "max_attempts policy" client "probe_url base_url policy" policy 1 "[]" ?w]
    by auto
  have ne: "as \<noteq> []" using as(2,4) max by (auto simp: attempts_ok_def)
  have msg: "\<exists>m. ha_error_message (last as) = Some m" if "\<not> healthy"
    using as(2) ne that by (auto simp: attempts_ok_def)
  show ?thesis
  proof (cases healthy)
    case True
    with loop as ne show ?thesis
      by (auto simp: wait_until_healthy_def health_result_ok_def io_simps Suc_le_eq)
  next
    case False
    with msg obtain m where "ha_error_message (last as) = Some m" by blast
    with False loop as ne max show ?thesis
      by (auto simp: wait_until_healthy_def health_result_ok_def io_simps Suc_le_eq)
  qed
qed

lemma probe_loop_keeps [keeps_intros]:
  assumes "\<And>url t. keeps_db I (attempt (client url t) :: ('z, string + ProbeResponse) op)"
  shows "keeps_db I (probe_loop left client url policy n acc)"
proof (induction left arbitrary: n acc)
  case 0
  show ?case by (simp add: keeps_intros)
next
  case (Suc left)
  show ?case
    unfolding probe_loop.simps Let_def by (intro keeps_intros assms Suc.IH)
qed

lemma wait_until_healthy_keeps [keeps_intros]:
  assumes "\<And>url t. keeps_db I (attempt (client url t) :: ('z, string + ProbeResponse) op)"
  shows "keeps_db I (wait_until_healthy client url policy)"
  unfolding wait_until_healthy_def by (intro keeps_intros assms)

definition never_healthy :: "'p HealthProbeClient \<Rightarrow> HealthPolicy \<Rightarrow> bool" where
  "never_healthy client policy \<longleftrightarrow>
     (\<forall>url t p. case fst (client url t p) of
        Inr resp \<Rightarrow> check_response policy resp \<noteq> None | Inl _ \<Rightarrow> True)"

lemma attempt_record_unhealthy:
  "(case res of Inr resp \<Rightarrow> check_response policy resp \<noteq> None | Inl _ \<Rightarrow> True) \<Longrightarrow>
   \<not> ha_is_healthy (attempt_record policy n l t res)"
  by (auto simp: attempt_record_def split: sum.splits)

lemma probe_loop_never_healthy:
  assumes "never_healthy client policy"
    and "probe_loop left client url policy n acc w = (Inr (ok, as), w')"
  shows "\<not> ok"
  using assms(2)
proof (induction left arbitrary: n acc w)
  case 0
  then show ?case by (simp add: io_simps)
next
  case (Suc left)
  have "\<not> ha_is_healthy (attempt_record policy m l t (fst (client url tm p)))" for m l t tm p
    using assms(1) by (intro attempt_record_unhealthy) (simp add: never_healthy_def)
  with Suc.prems show ?case
    by (auto simp: io_simps Let_def dest: Suc.IH split: if_splits)
qed

lemma wait_until_healthy_never:
  assumes "never_healthy client policy"
    and "wait_until_healthy client url policy w = (Inr r, w')"
  shows "\<not> hc_is_healthy r"
  using assms(2) unfolding wait_until_healthy_def
  by (elim and_then_InrE)
    (auto simp: io_simps dest!: probe_loop_never_healthy [OF assms(1)] split: if_splits)

end
