(* ===== verification/Releases.thy ===== *)
theory Releases
  imports Schema Strings
begin

text \<open>
  \<^verbatim>\<open>src/releases.rs\<close>, the records of a release: the status graph, the queries and the
  compare-and-set transition with its history.  The roll-out is in theory \<open>Orchestration\<close>, the
  recovery after a crash in theory \<open>Recovery\<close>.
\<close>

section \<open>Status\<close>

fun ReleaseStatus_as_str :: "ReleaseStatus \<Rightarrow> string" where
  "ReleaseStatus_as_str Starting = ''starting''"
| "ReleaseStatus_as_str HealthChecking = ''health_checking''"
| "ReleaseStatus_as_str Ready = ''ready''"
| "ReleaseStatus_as_str Active = ''active''"
| "ReleaseStatus_as_str Draining = ''draining''"
| "ReleaseStatus_as_str Stopped = ''stopped''"
| "ReleaseStatus_as_str Failed = ''failed''"

definition ReleaseStatus_parse :: "string \<Rightarrow> error + ReleaseStatus" where
  "ReleaseStatus_parse s =
     (if s = ''starting'' then Inr Starting
      else if s = ''health_checking'' then Inr HealthChecking
      else if s = ''ready'' then Inr Ready
      else if s = ''active'' then Inr Active
      else if s = ''draining'' then Inr Draining
      else if s = ''stopped'' then Inr Stopped
      else if s = ''failed'' then Inr Failed
      else Inl (UnknownReleaseStatus s))"

fun can_transition_to :: "ReleaseStatus \<Rightarrow> ReleaseStatus \<Rightarrow> bool" where
  "can_transition_to Starting HealthChecking = True"
| "can_transition_to Starting Failed = True"
| "can_transition_to HealthChecking Ready = True"
| "can_transition_to HealthChecking Failed = True"
| "can_transition_to Ready Active = True"
| "can_transition_to Ready Stopped = True"
| "can_transition_to Ready Failed = True"
| "can_transition_to Active Draining = True"
| "can_transition_to Active Stopped = True"
| "can_transition_to Active Failed = True"
| "can_transition_to Draining Stopped = True"
| "can_transition_to Draining Failed = True"
| "can_transition_to _ _ = False"

section \<open>Operations\<close>

definition new_release ::
  "uuid \<Rightarrow> timestamp \<Rightarrow> uuid \<Rightarrow> uuid \<Rightarrow> string \<Rightarrow> string option \<Rightarrow> int option \<Rightarrow>
   string option \<Rightarrow> Release" where
  "new_release release_id now deployment_id project_id environment container_id port url =
     \<lparr>r_id = release_id, r_deployment_id = deployment_id, r_project_id = project_id,
      r_environment = environment, r_status = Starting, r_version = 1,
      r_container_id = container_id, r_port = port, r_url = url,
      r_created_at = now, r_updated_at = now\<rparr>"

text \<open>The constraints of the table \<^verbatim>\<open>releases\<close>.\<close>

definition release_insert_ok :: "Release \<Rightarrow> db \<Rightarrow> bool" where
  "release_insert_ok rel d \<longleftrightarrow>
     \<not> has_key r_id (r_id rel) (releases d)
     \<and> has_key d_id (r_deployment_id rel) (deployments d)
     \<and> has_key p_id (r_project_id rel) (projects d)
     \<and> varchar 32 (r_environment rel)
     \<and> (case r_container_id rel of None \<Rightarrow> True | Some c \<Rightarrow> varchar 64 c)"

definition create_release ::
  "uuid \<Rightarrow> uuid \<Rightarrow> string \<Rightarrow> string option \<Rightarrow> int option \<Rightarrow> string option \<Rightarrow>
   ('z, Release) op" where
  "create_release deployment_id project_id environment container_id port url =
     and_then uuid_new_v4 (\<lambda>id.
     and_then now_utc (\<lambda>now.
       let rel = new_release id now deployment_id project_id environment container_id port url
       in and_then (insert_row ''failed to create release'' (release_insert_ok rel)
                     (\<lambda>d. d\<lparr>releases := releases d @ [rel]\<rparr>))
          (\<lambda>_. ret rel)))"

definition get_release :: "uuid \<Rightarrow> ('z, Release) op" where
  "get_release release_id =
     and_then (select_rows ''failed to get release'' (\<lambda>d. lookup_by r_id release_id (releases d)))
       (of_option (ReleaseNotFound release_id))"

definition route_row :: "uuid \<Rightarrow> string \<Rightarrow> db \<Rightarrow> ActiveRoute option" where
  "route_row project_id environment d =
     lookup_by (\<lambda>a. (ar_project_id a, ar_environment a)) (project_id, environment) (active_routes d)"

definition get_active_release :: "uuid \<Rightarrow> string \<Rightarrow> ('z, Release option) op" where
  "get_active_release project_id environment =
     and_then (select_rows ''failed to fetch active route'' (route_row project_id environment))
     (\<lambda>active_row. case active_row of
        Some a \<Rightarrow> and_then (get_release (ar_active_release_id a)) (\<lambda>rel. ret (Some rel))
      | None \<Rightarrow> ret None)"

definition list_releases_for_deployment :: "uuid \<Rightarrow> ('z, Release list) op" where
  "list_releases_for_deployment deployment_id =
     select_rows ''failed to list releases for deployment''
       (\<lambda>d. order_by r_created_at (filter (\<lambda>r. r_deployment_id r = deployment_id) (releases d)))"

definition list_transitions_for_release :: "uuid \<Rightarrow> ('z, ReleaseTransitionRecord list) op" where
  "list_transitions_for_release release_id =
     select_rows ''failed to list release transitions''
       (\<lambda>d. order_by t_created_at
              (filter (\<lambda>t. t_release_id t = release_id) (release_transitions d)))"

text \<open>The compare-and-set statement: it matches the release with the expected version only.\<close>

definition cas_match :: "uuid \<Rightarrow> int \<Rightarrow> Release \<Rightarrow> bool" where
  "cas_match release_id expected_version r \<longleftrightarrow>
     r_id r = release_id \<and> r_version r = expected_version"

definition cas_set :: "ReleaseStatus \<Rightarrow> timestamp \<Rightarrow> Release \<Rightarrow> Release" where
  "cas_set target_status now r =
     r\<lparr>r_status := target_status, r_version := r_version r + 1, r_updated_at := now\<rparr>"

definition transition_insert_ok :: "ReleaseTransitionRecord \<Rightarrow> db \<Rightarrow> bool" where
  "transition_insert_ok t d \<longleftrightarrow>
     \<not> has_key t_id (t_id t) (release_transitions d)
     \<and> has_key r_id (t_release_id t) (releases d)"

definition transition ::
  "uuid \<Rightarrow> int \<Rightarrow> ReleaseStatus \<Rightarrow> string option \<Rightarrow> ('z, Release) op" where
  "transition release_id expected_version target_status reason =
     and_then (get_release release_id) (\<lambda>current.
     if \<not> can_transition_to (r_status current) target_status
     then fail (InvalidTransition (r_status current) target_status)
     else
     and_then now_utc (\<lambda>now.
     and_then
       (statement ''failed to execute compare-and-set release transition'' (\<lambda>d.
          let P = cas_match release_id expected_version; f = cas_set target_status now
          in (Inr (first_row (returning P f (releases d))),
              d\<lparr>releases := update_where P f (releases d)\<rparr>)))
     (\<lambda>updated_row.
     and_then (of_option (StaleVersion expected_version) updated_row) (\<lambda>row.
     and_then uuid_new_v4 (\<lambda>transition_id.
       let t = \<lparr>t_id = transition_id, t_release_id = release_id,
                t_from_status = r_status current, t_to_status = target_status,
                t_reason = reason, t_created_at = now\<rparr>
       in and_then
            (insert_row ''failed to record release transition'' (transition_insert_ok t)
              (\<lambda>d. d\<lparr>release_transitions := release_transitions d @ [t]\<rparr>))
          (\<lambda>_. ret row))))))"

section \<open>What a transition can do\<close>

lemma get_release_InrE:
  "get_release rid w = (Inr rel, w') \<Longrightarrow>
   lookup_by r_id rid (releases (db w)) = Some rel \<and> w' = w\<lparr>tick := Suc (tick w)\<rparr>"
  unfolding get_release_def
  by (auto elim!: and_then_InrE dest!: select_rows_InrE of_option_InrE)

lemma get_release_db: "db (snd (get_release rid w)) = db w"
  unfolding get_release_def
  by (auto simp: and_then_def select_rows_def statement_def of_option_def fail_def ret_def
      split: option.splits)

text \<open>Everything a transition can do to the database: nothing, the compare-and-set alone (the
  history statement failed), or both.\<close>

definition cas_db :: "uuid \<Rightarrow> int \<Rightarrow> ReleaseStatus \<Rightarrow> timestamp \<Rightarrow> db \<Rightarrow> db" where
  "cas_db rid v target now d =
     d\<lparr>releases := update_where (cas_match rid v) (cas_set target now) (releases d)\<rparr>"

definition record_db :: "ReleaseTransitionRecord \<Rightarrow> db \<Rightarrow> db" where
  "record_db t d = d\<lparr>release_transitions := release_transitions d @ [t]\<rparr>"

lemma transition_outcomes:
  assumes "transition rid v target reason w = (res, w')"
  obtains (nothing) e where "res = Inl e" "db w' = db w"
  | (unrecorded) current row now where
      "res = Inl (Database ''failed to record release transition'')"
      "lookup_by r_id rid (releases (db w)) = Some current"
      "can_transition_to (r_status current) target"
      "first_row (returning (cas_match rid v) (cas_set target now) (releases (db w))) = Some row"
      "db w' = cas_db rid v target now (db w)"
  | (recorded) current row now t where
      "res = Inr row"
      "lookup_by r_id rid (releases (db w)) = Some current"
      "can_transition_to (r_status current) target"
      "first_row (returning (cas_match rid v) (cas_set target now) (releases (db w))) = Some row"
      "t_release_id t = rid" "t_from_status t = r_status current" "t_to_status t = target"
      "t_reason t = reason" "t_created_at t = now"
      "transition_insert_ok t (cas_db rid v target now (db w))"
      "db w' = record_db t (cas_db rid v target now (db w))"
proof (cases "env_db_fault (env w) (tick w) \<or> lookup_by r_id rid (releases (db w)) = None")
  case True
  show thesis
    by (rule that(1) [of "projl res"])
      (use True assms in \<open>auto simp: transition_def get_release_def and_then_def select_rows_def
        statement_def of_option_def fail_def split: if_splits\<close>)
next
  case False
  then obtain current where f0: "\<not> env_db_fault (env w) (tick w)"
    and cur: "lookup_by r_id rid (releases (db w)) = Some current" by auto
  let ?now = "env_clock (env w) (Suc (tick w))"
  let ?row = "first_row (returning (cas_match rid v) (cas_set target ?now) (releases (db w)))"
  let ?t = "\<lparr>t_id = env_uuid (env w) (Suc (Suc (Suc (tick w)))), t_release_id = rid,
      t_from_status = r_status current, t_to_status = target, t_reason = reason,
      t_created_at = ?now\<rparr>"
  note run = transition_def get_release_def and_then_def select_rows_def statement_def ret_def
    of_option_def fail_def now_utc_def uuid_new_v4_def insert_row_def Let_def
  show thesis
  proof (cases "can_transition_to (r_status current) target \<and>
      \<not> env_db_fault (env w) (Suc (Suc (tick w))) \<and> ?row \<noteq> None")
    case False
    then consider "\<not> can_transition_to (r_status current) target"
      | "can_transition_to (r_status current) target" "env_db_fault (env w) (Suc (Suc (tick w)))"
      | "can_transition_to (r_status current) target" "\<not> env_db_fault (env w) (Suc (Suc (tick w)))"
        "?row = None" by blast
    then have "res = Inl (projl res) \<and> db w' = db w"
    proof cases
      case 3
      then have "\<forall>r\<in>set (releases (db w)). \<not> cas_match rid v r"
        by (simp add: returning_Nil_iff)
      with 3 f0 cur assms show ?thesis by (auto simp: run update_where_none)
    qed (use f0 cur assms in \<open>auto simp: run\<close>)
    then show thesis by (intro that(1)) auto
  next
    case True
    then obtain row where row: "?row = Some row" by blast
    show thesis
    proof (cases "\<not> env_db_fault (env w) (Suc (Suc (Suc (Suc (tick w))))) \<and>
        transition_insert_ok ?t (cas_db rid v target ?now (db w))")
      case ok: True
      show thesis
        by (rule that(3) [of row current ?now ?t])
          (use f0 cur True row ok assms in \<open>auto simp: run cas_db_def record_db_def\<close>)
    next
      case no: False
      show thesis
        by (rule that(2) [of current ?now row])
          (use f0 cur True row no assms in \<open>auto simp add: run cas_db_def record_db_def split: if_splits\<close>)
    qed
  qed
qed

section \<open>Invariant\<close>

fun status_rank :: "ReleaseStatus \<Rightarrow> nat" where
  "status_rank Starting = 0"
| "status_rank HealthChecking = 1"
| "status_rank Ready = 2"
| "status_rank Active = 3"
| "status_rank Draining = 4"
| "status_rank Stopped = 5"
| "status_rank Failed = 5"

lemma can_transition_to_rank: "can_transition_to s t \<Longrightarrow> status_rank s < status_rank t"
  by (cases s; cases t) simp_all

lemma status_rank_le: "status_rank s \<le> 5"
  by (cases s) simp_all

definition history :: "uuid \<Rightarrow> db \<Rightarrow> ReleaseTransitionRecord list" where
  "history rid d = filter (\<lambda>t. t_release_id t = rid) (release_transitions d)"

definition release_row_ok :: "db \<Rightarrow> Release \<Rightarrow> bool" where
  "release_row_ok d r \<longleftrightarrow>
     1 + int (length (history (r_id r) d)) \<le> r_version r
     \<and> r_version r \<le> 1 + int (status_rank (r_status r))"

definition transition_row_ok :: "db \<Rightarrow> ReleaseTransitionRecord \<Rightarrow> bool" where
  "transition_row_ok d t \<longleftrightarrow>
     can_transition_to (t_from_status t) (t_to_status t) \<and> has_key r_id (t_release_id t) (releases d)"

definition release_inv :: "db \<Rightarrow> bool" where
  "release_inv d \<longleftrightarrow>
     distinct (map r_id (releases d)) \<and> distinct (map t_id (release_transitions d))
     \<and> distinct (map (\<lambda>a. (ar_project_id a, ar_environment a)) (active_routes d))
     \<and> list_all (release_row_ok d) (releases d)
     \<and> list_all (transition_row_ok d) (release_transitions d)
     \<and> list_all (\<lambda>a. has_key r_id (ar_active_release_id a) (releases d)) (active_routes d)"

lemma cas_set_fields [simp]:
  "r_id (cas_set t now r) = r_id r" "r_status (cas_set t now r) = t"
  "r_version (cas_set t now r) = r_version r + 1" "r_project_id (cas_set t now r) = r_project_id r"
  "r_environment (cas_set t now r) = r_environment r"
  "r_container_id (cas_set t now r) = r_container_id r"
  by (simp_all add: cas_set_def)

lemma keys_cas_db [simp]: "map r_id (releases (cas_db rid v t now d)) = map r_id (releases d)"
  by (simp add: cas_db_def map_update_where)

lemma r_ids_cas_db [simp]: "r_id ` set (releases (cas_db rid v t now d)) = r_id ` set (releases d)"
  by (metis keys_cas_db list.set_map)

lemma cas_db_frame [simp]:
  "release_transitions (cas_db rid v t now d) = release_transitions d"
  "active_routes (cas_db rid v t now d) = active_routes d"
  "history rid' (cas_db rid v t now d) = history rid' d"
  by (simp_all add: cas_db_def history_def)

lemma row_ok_cas_db [simp]:
  "release_row_ok (cas_db rid v t now d) = release_row_ok d"
  "transition_row_ok (cas_db rid v t now d) = transition_row_ok d"
  by (simp_all add: fun_eq_iff release_row_ok_def transition_row_ok_def sql_simps)

lemma record_db_frame [simp]:
  "releases (record_db t d) = releases d" "active_routes (record_db t d) = active_routes d"
  "release_transitions (record_db t d) = release_transitions d @ [t]"
  "history rid (record_db t d) = history rid d @ (if t_release_id t = rid then [t] else [])"
  by (simp_all add: record_db_def history_def)

lemma cas_row:
  assumes "distinct (map r_id (releases d))" and "lookup_by r_id rid (releases d) = Some current"
    and "r \<in> set (releases d)" and "cas_match rid v r"
  shows "r = current"
  using assms lookup_by_unique [OF assms(1,3)] by (simp add: cas_match_def)

lemma release_inv_cas_db:
  assumes inv: "release_inv d" and cur: "lookup_by r_id rid (releases d) = Some current"
    and can: "can_transition_to (r_status current) target"
  shows "release_inv (cas_db rid v target now d)"
proof -
  have "release_row_ok d (if cas_match rid v r then cas_set target now r else r)"
    if r: "r \<in> set (releases d)" for r
  proof (cases "cas_match rid v r")
    case True
    with inv cur r have "r = current" by (auto simp: release_inv_def dest: cas_row)
    with r inv can_transition_to_rank [OF can] True show ?thesis
      by (auto simp: release_inv_def list_all_iff release_row_ok_def)
  next
    case False
    with inv r show ?thesis by (auto simp: release_inv_def list_all_iff)
  qed
  then have "list_all (release_row_ok d) (releases (cas_db rid v target now d))"
    unfolding cas_db_def by (simp add: list_all_update_where)
  with inv show ?thesis
    by (simp add: release_inv_def sql_simps)
qed

lemma cas_hit:
  assumes "distinct (map r_id (releases d))" and "lookup_by r_id rid (releases d) = Some current"
    and "first_row (returning (cas_match rid v) (cas_set target now) (releases d)) = Some row"
  shows "row = cas_set target now current" and "r_version current = v" and "r_id current = rid"
    and "lookup_by r_id rid (releases (cas_db rid v target now d)) = Some row"
proof -
  from first_row_Some [OF assms(3)] obtain r where r: "r \<in> set (releases d)" "cas_match rid v r"
    "row = cas_set target now r" by (auto simp: returning_def)
  with assms(1,2) have "r = current" by (blast dest: cas_row)
  with r show row: "row = cas_set target now current" and "r_version current = v"
    and "r_id current = rid" by (simp_all add: cas_match_def)
  with \<open>r = current\<close> assms(2) r(2)
  show "lookup_by r_id rid (releases (cas_db rid v target now d)) = Some row"
    by (simp add: cas_db_def lookup_by_update_where)
qed

lemma lookup_other_cas_db:
  "other \<noteq> rid \<Longrightarrow>
   lookup_by r_id other (releases (cas_db rid v t now d)) = lookup_by r_id other (releases d)"
  by (cases "lookup_by r_id other (releases d)")
    (auto simp: cas_db_def lookup_by_update_where cas_match_def dest: lookup_by_Some)

lemma release_inv_record_db:
  assumes inv: "release_inv d" and ok: "transition_insert_ok t d"
    and can: "can_transition_to (t_from_status t) (t_to_status t)"
    and row: "lookup_by r_id (t_release_id t) (releases d) = Some row"
    and ver: "2 + int (length (history (t_release_id t) d)) \<le> r_version row"
  shows "release_inv (record_db t d)"
proof -
  have "release_row_ok (record_db t d) r" if r: "r \<in> set (releases d)" for r
  proof (cases "r_id r = t_release_id t")
    case True
    with inv r row have "r = row"
      by (auto simp: release_inv_def dest: lookup_by_unique)
    with True ver inv r show ?thesis
      by (auto simp: release_inv_def list_all_iff release_row_ok_def)
  next
    case False
    with inv r show ?thesis by (auto simp: release_inv_def list_all_iff release_row_ok_def)
  qed
  with inv ok can show ?thesis
    by (auto simp: release_inv_def list_all_iff transition_row_ok_def transition_insert_ok_def
        sql_simps)
qed

lemma transition_keeps_inv [keeps_intros]: "keeps_db release_inv (transition rid v target reason)"
  unfolding keeps_db_def
proof (rule keepsI)
  fix w :: "'a world_scheme" assume inv: "release_inv (db w)"
  obtain res w' where run: "transition rid v target reason w = (res, w')"
    by (cases "transition rid v target reason w")
  from run show "release_inv (db (snd (transition rid v target reason w)))"
  proof (cases rule: transition_outcomes)
    case (nothing e)
    with inv run show ?thesis by simp
  next
    case (unrecorded current row now)
    with inv run show ?thesis by (simp add: release_inv_cas_db)
  next
    case (recorded current row now t)
    let ?d = "cas_db rid v target now (db w)"
    from inv have keys: "distinct (map r_id (releases (db w)))" by (simp add: release_inv_def)
    note hit = cas_hit [OF keys recorded(2,4)]
    from recorded(2) have "current \<in> set (releases (db w))" by (blast dest: lookup_by_Some)
    with inv hit(3) have "1 + int (length (history rid (db w))) \<le> r_version current"
      by (auto simp: release_inv_def list_all_iff release_row_ok_def)
    with recorded hit have "release_inv (record_db t ?d)"
      by (intro release_inv_record_db [where row = row] release_inv_cas_db [OF inv recorded(2,3)])
        simp_all
    with run recorded show ?thesis by simp
  qed
qed

lemma get_release_keeps [keeps_intros]: "keeps_db I (get_release rid)"
  unfolding get_release_def by (intro keeps_intros)

lemma get_active_release_keeps [keeps_intros]: "keeps_db I (get_active_release p e)"
  unfolding get_active_release_def by (intro keeps_intros)

lemma create_release_keeps_inv [keeps_intros]:
  "keeps_db release_inv (create_release dep proj e c p u)"
  unfolding create_release_def Let_def
proof (intro keeps_intros keeps_db_insert_row)
  fix id now d assume inv: "release_inv d"
    and ok: "release_insert_ok (new_release id now dep proj e c p u) d"
  have "history id d = []"
    using inv ok by (auto simp: release_inv_def history_def filter_empty_conv release_insert_ok_def
        list_all_iff transition_row_ok_def sql_simps new_release_def)
  with inv ok show "release_inv (d\<lparr>releases := releases d @ [new_release id now dep proj e c p u]\<rparr>)"
    by (auto simp: release_inv_def list_all_iff release_insert_ok_def new_release_def
      release_row_ok_def transition_row_ok_def sql_simps history_def)
qed

lemma create_release_InrE:
  assumes "create_release dep proj e c p u w = (Inr rel, w')"
  shows "release_insert_ok rel (db w)" and "db w' = (db w)\<lparr>releases := releases (db w) @ [rel]\<rparr>"
    and "r_status rel = Starting" and "r_version rel = 1" and "r_project_id rel = proj"
    and "r_environment rel = e" and "r_container_id rel = c" and "r_deployment_id rel = dep"
    and "r_url rel = u" and "r_port rel = p"
  using assms unfolding create_release_def Let_def insert_row_def statement_def
  by (auto simp: io_simps new_release_def split: if_splits)

lemma create_release_InlE:
  assumes "create_release dep proj e c p u w = (Inl err, w')"
  shows "db w' = db w"
  using assms unfolding create_release_def Let_def insert_row_def statement_def
  by (auto simp: io_simps split: if_splits)

lemma transition_row_id:
  assumes "transition rid v target reason w = (Inr rel, w')"
  shows "r_id rel = rid"
  using assms
proof (cases rule: transition_outcomes)
  case (recorded current row now t)
  then show ?thesis
    by (auto simp: returning_def cas_match_def dest!: first_row_Some)
qed simp_all

lemma transition_success:
  assumes "release_inv (db w)" and "transition rid v target reason w = (Inr rel, w')"
  obtains current where "lookup_by r_id rid (releases (db w)) = Some current"
    "can_transition_to (r_status current) target"
    "r_status rel = target" "r_version rel = r_version current + 1"
    "r_project_id rel = r_project_id current"
    "r_environment rel = r_environment current" "r_container_id rel = r_container_id current"
    "r_id rel = rid" "lookup_by r_id rid (releases (db w')) = Some rel"
    "\<And>other. other \<noteq> rid \<Longrightarrow>
       lookup_by r_id other (releases (db w')) = lookup_by r_id other (releases (db w))"
    "active_routes (db w') = active_routes (db w)" "release_inv (db w')"
proof -
  from assms(2) show thesis
  proof (cases rule: transition_outcomes)
    case (recorded current row now t)
    from assms(1) have keys: "distinct (map r_id (releases (db w)))" by (simp add: release_inv_def)
    note hit = cas_hit [OF keys recorded(2,4)]
    have "release_inv (db w')"
      using keeps_dbD [OF transition_keeps_inv assms(1)] assms(2) by (metis snd_conv)
    with recorded hit show thesis
      by (intro that [of current]) (simp_all add: lookup_other_cas_db)
  qed simp_all
qed

lemma get_active_release_InrE:
  assumes "get_active_release p e w = (Inr active, w')"
  shows "active = (case route_row p e (db w) of
      None \<Rightarrow> None | Some a \<Rightarrow> lookup_by r_id (ar_active_release_id a) (releases (db w)))"
    and "db w' = db w"
  using assms unfolding get_active_release_def
  by (auto elim!: and_then_InrE dest!: select_rows_InrE get_release_InrE ret_InrE split: option.splits)

lemma transition_env [keeps_intros]: "keeps (\<lambda>w. P (env w)) (transition rid v target reason)"
  and get_release_env [keeps_intros]: "keeps (\<lambda>w. P (env w)) (get_release rid)"
  and get_active_release_env [keeps_intros]: "keeps (\<lambda>w. P (env w)) (get_active_release p e)"
  unfolding transition_def get_release_def get_active_release_def Let_def by (intro keeps_intros)+

text \<open>Without faults the status moves, whether or not the history row could be written.\<close>

lemma transition_moves:
  assumes nf: "no_db_faults w" and inv: "release_inv (db w)"
    and cur: "lookup_by r_id rid (releases (db w)) = Some current"
    and can: "can_transition_to (r_status current) target" and v: "r_version current = v"
  obtains now where "releases (db (snd (transition rid v target reason w))) =
    releases (cas_db rid v target now (db w))"
proof -
  let ?now = "env_clock (env w) (Suc (tick w))"
  have "current \<in> set (releases (db w))" "cas_match rid v current"
    using lookup_by_Some [OF cur] v by (simp_all add: cas_match_def)
  then have "returning (cas_match rid v) (cas_set target ?now) (releases (db w)) \<noteq> []"
    by (auto simp: returning_Nil_iff)
  then obtain row where
    row: "first_row (returning (cas_match rid v) (cas_set target ?now) (releases (db w))) = Some row"
    by (metis first_row_None option.exhaust)
  show thesis
    by (rule that [of ?now])
      (simp add: transition_def get_release_def io_simps nf cur can row Let_def cas_db_def)
qed

section \<open>Transition\<close>

lemma transition_applied:
  assumes inv: "release_inv (db w)" and run: "transition rid v target reason w = (Inr rel, w')"
  shows "\<exists>current t. lookup_by r_id rid (releases (db w)) = Some current
     \<and> r_version current = v \<and> can_transition_to (r_status current) target
     \<and> rel = current\<lparr>r_status := target, r_version := v + 1, r_updated_at := t_created_at t\<rparr>
     \<and> lookup_by r_id rid (releases (db w')) = Some rel
     \<and> (\<forall>other. other \<noteq> rid \<longrightarrow>
          lookup_by r_id other (releases (db w')) = lookup_by r_id other (releases (db w)))
     \<and> t_from_status t = r_status current \<and> t_to_status t = target \<and> t_reason t = reason
     \<and> history rid (db w') = history rid (db w) @ [t]"
  using run
proof (cases rule: transition_outcomes)
  case (recorded current row now t)
  from inv have keys: "distinct (map r_id (releases (db w)))" by (simp add: release_inv_def)
  note hit = cas_hit [OF keys recorded(2,4)]
  have "lookup_by r_id other (releases (db w')) = lookup_by r_id other (releases (db w))"
    if "other \<noteq> rid" for other
    using that recorded(11) by (simp add: lookup_other_cas_db)
  with recorded hit show ?thesis
    by (intro exI [of _ current] exI [of _ t]) (simp add: cas_set_def)
qed simp_all

lemma transition_rejected:
  assumes "lookup_by r_id rid (releases (db w)) = Some current"
    and "release_inv (db w)"
    and "r_version current \<noteq> v \<or> \<not> can_transition_to (r_status current) target"
  shows "\<exists>e. fst (transition rid v target reason w) = Inl e
     \<and> db (snd (transition rid v target reason w)) = db w"
proof -
  obtain res w' where run: "transition rid v target reason w = (res, w')"
    by (cases "transition rid v target reason w")
  have keys: "distinct (map r_id (releases (db w)))" using assms(2) by (simp add: release_inv_def)
  from run show ?thesis
  proof (cases rule: transition_outcomes)
    case (nothing e)
    with run show ?thesis by simp
  next
    case (unrecorded cur row now)
    with assms(1,3) cas_hit(2) [OF keys unrecorded(2,4)] show ?thesis by simp
  next
    case (recorded cur row now t)
    with assms(1,3) cas_hit(2) [OF keys recorded(2,4)] show ?thesis by simp
  qed
qed

text \<open>The release the examples work on: the state after one \<^verbatim>\<open>create_release\<close>.\<close>

definition demo_release_world :: world where
  "demo_release_world =
     snd (create_release 3 1 ''production'' (Some ''c'') None None demo_world)"

lemma demo_release_inv: "release_inv (db demo_release_world)"
  by code_simp

lemma demo_transition_runs:
  "transition 10 1 HealthChecking None demo_release_world =
     (Inr (projr (fst (transition 10 1 HealthChecking None demo_release_world))),
      snd (transition 10 1 HealthChecking None demo_release_world))"
  by (rule run_ok) code_simp

text \<open>A transition that succeeds was allowed: the release exists with the expected version and
  the status graph has the edge.  It changes the status, adds one to the version, leaves every other
  release as it was and appends exactly one record, with the old and the new status and the reason,
  to the history of the release.\<close>

theorem transition_applies:
  assumes "release_inv (db w)" and "transition rid v target reason w = (Inr rel, w')"
  shows "\<exists>current t. lookup_by r_id rid (releases (db w)) = Some current
     \<and> r_version current = v \<and> can_transition_to (r_status current) target
     \<and> rel = current\<lparr>r_status := target, r_version := v + 1, r_updated_at := t_created_at t\<rparr>
     \<and> lookup_by r_id rid (releases (db w')) = Some rel
     \<and> (\<forall>other. other \<noteq> rid \<longrightarrow>
          lookup_by r_id other (releases (db w')) = lookup_by r_id other (releases (db w)))
     \<and> t_from_status t = r_status current \<and> t_to_status t = target \<and> t_reason t = reason
     \<and> history rid (db w') = history rid (db w) @ [t]"
  using assms by (rule transition_applied)

theorem transition_applies_witness:
  "\<exists>current t. lookup_by r_id 10 (releases (db demo_release_world)) = Some current
     \<and> can_transition_to (r_status current) HealthChecking
     \<and> history 10 (db (snd (transition 10 1 HealthChecking None demo_release_world))) =
         history 10 (db demo_release_world) @ [t]"
  using transition_applies [OF demo_release_inv demo_transition_runs] by blast

text \<open>A transition with another version than the stored one, or along an edge the status graph
  does not have, is an error and changes nothing in the database.\<close>

theorem transition_rejects:
  assumes "lookup_by r_id rid (releases (db w)) = Some current" and "release_inv (db w)"
    and "r_version current \<noteq> v \<or> \<not> can_transition_to (r_status current) target"
  shows "\<exists>e. fst (transition rid v target reason w) = Inl e
     \<and> db (snd (transition rid v target reason w)) = db w"
  using assms by (rule transition_rejected)

lemma demo_release_row:
  "map_option r_version (lookup_by r_id 10 (releases (db demo_release_world))) = Some 1"
  by code_simp

theorem transition_rejects_witness:
  "\<exists>e. fst (transition 10 2 HealthChecking None demo_release_world) = Inl e
     \<and> db (snd (transition 10 2 HealthChecking None demo_release_world)) = db demo_release_world"
proof -
  from demo_release_row obtain current where
    "lookup_by r_id 10 (releases (db demo_release_world)) = Some current" "r_version current = 1"
    by auto
  then show ?thesis by (intro transition_rejects demo_release_inv) auto
qed

text \<open>C7. Two transitions that expect the same version cannot both succeed: after the first one
  the second one is an error and changes nothing, whatever the two targets are.\<close>

theorem transition_compare_and_set:
  assumes "release_inv (db w)" and "transition rid v t1 reason1 w = (Inr rel, w1)"
  shows "\<exists>e. fst (transition rid v t2 reason2 w1) = Inl e
     \<and> db (snd (transition rid v t2 reason2 w1)) = db w1"
proof -
  from transition_applied [OF assms] have "lookup_by r_id rid (releases (db w1)) = Some rel"
    "r_version rel = v + 1" by auto
  moreover have "release_inv (db w1)"
    using keeps_dbD [OF transition_keeps_inv assms(1)] assms(2) by (metis snd_conv)
  ultimately show ?thesis by (intro transition_rejected) auto
qed

theorem transition_compare_and_set_witness:
  "\<exists>e. fst (transition 10 1 Failed None
      (snd (transition 10 1 HealthChecking None demo_release_world))) = Inl e"
  using transition_compare_and_set [OF demo_release_inv demo_transition_runs] by blast

section \<open>History\<close>

fun chain :: "ReleaseStatus \<Rightarrow> ReleaseTransitionRecord list \<Rightarrow> ReleaseStatus option" where
  "chain s [] = Some s"
| "chain s (t # ts) =
     (if t_from_status t = s \<and> can_transition_to s (t_to_status t)
      then chain (t_to_status t) ts else None)"

lemma chain_snoc:
  "chain s (ts @ [t]) =
     (case chain s ts of
        Some u \<Rightarrow> if t_from_status t = u \<and> can_transition_to u (t_to_status t)
                  then Some (t_to_status t) else None
      | None \<Rightarrow> None)"
  by (induction ts arbitrary: s) auto

definition history_exact :: "db \<Rightarrow> bool" where
  "history_exact d \<longleftrightarrow> list_all (\<lambda>r.
     chain Starting (history (r_id r) d) = Some (r_status r)
     \<and> r_version r = 1 + int (length (history (r_id r) d))) (releases d)"

text \<open>The history of a release is exact: its records form a path of the status graph from
  Starting to the stored status, and the version counts them.  A transition keeps this, whatever its
  result, unless the statement that writes the record fails.\<close>

theorem transition_history_exact:
  assumes inv: "release_inv (db w)" and ex: "history_exact (db w)"
    and run: "transition rid v target reason w = (res, w')"
    and noloss: "res \<noteq> Inl (Database ''failed to record release transition'')"
  shows "history_exact (db w')"
  using run
proof (cases rule: transition_outcomes)
  case (nothing e)
  with ex show ?thesis by simp
next
  case (unrecorded current row now)
  with noloss show ?thesis by simp
next
  case (recorded current row now t)
  from inv have keys: "distinct (map r_id (releases (db w)))" by (simp add: release_inv_def)
  note hit = cas_hit [OF keys recorded(2,4)]
  from recorded(2) have mem: "current \<in> set (releases (db w))" by (blast dest: lookup_by_Some)
  let ?d = "record_db t (cas_db rid v target now (db w))"
  let ?Q = "\<lambda>r. chain Starting (history (r_id r) ?d) = Some (r_status r)
     \<and> r_version r = 1 + int (length (history (r_id r) ?d))"
  have "?Q (if cas_match rid v r then cas_set target now r else r)"
    if r: "r \<in> set (releases (db w))" for r
  proof (cases "r_id r = rid")
    case True
    with keys recorded(2) r have [simp]: "r = current" by (auto dest: lookup_by_unique)
    with True hit(2) have "cas_match rid v current" by (simp add: cas_match_def)
    with ex mem recorded True show ?thesis
      by (auto simp: history_exact_def list_all_iff chain_snoc)
  next
    case False
    with ex r recorded show ?thesis
      by (auto simp: history_exact_def list_all_iff cas_match_def)
  qed
  then have "list_all ?Q (releases (cas_db rid v target now (db w)))"
    unfolding cas_db_def by (simp add: list_all_update_where)
  with recorded(11) show ?thesis by (simp add: history_exact_def)
qed

theorem transition_history_exact_witness:
  "history_exact (db (snd (transition 10 1 HealthChecking None demo_release_world)))"
proof -
  have "history_exact (db demo_release_world)" by code_simp
  then show ?thesis
    by (rule transition_history_exact [OF demo_release_inv _ demo_transition_runs]) simp
qed

text \<open>The two statements of a transition are not one transaction: when the connection is lost
  between them the caller gets an error, the status and the version have moved, and the history has
  no record of it.\<close>

theorem transition_can_lose_history:
  "\<exists>w :: world. release_inv (db w) \<and> history_exact (db w)
     \<and> fst (transition 10 1 HealthChecking None w) =
         Inl (Database ''failed to record release transition'')
     \<and> map r_status (releases (db w)) = [Starting]
     \<and> map r_status (releases (db (snd (transition 10 1 HealthChecking None w)))) = [HealthChecking]
     \<and> history 10 (db (snd (transition 10 1 HealthChecking None w))) = []
     \<and> \<not> history_exact (db (snd (transition 10 1 HealthChecking None w)))"
proof (rule exI [of _ "demo_release_world\<lparr>env := demo_env\<lparr>env_db_fault := \<lambda>n. n = 17\<rparr>\<rparr>"], intro conjI)
qed (code_simp+)

end
