(* ===== verification/Orchestration.thy ===== *)
theory Orchestration
  imports Traffic Health Releases
begin

text \<open>
  \<^verbatim>\<open>src/releases.rs\<close>, the roll-out of a release: \<^verbatim>\<open>activate_traffic\<close> and the health-gated
  \<^verbatim>\<open>orchestrate_release\<close>, over an arbitrary traffic router, health probe and container
  stopper.
\<close>

section \<open>The state of a roll-out\<close>

text \<open>A roll-out also drives a traffic router, a health probe client and a container stopper;
  their states extend the world.\<close>

record ('r, 'p, 'c) orch_world = world +
  router :: 'r
  prober :: 'p
  stopper :: 'c

type_synonym ('r, 'p, 'c, 'z, 'a) orch =
  "(('r, 'p, 'c, 'z) orch_world_scheme, error, 'a) io"

definition on_router :: "('r, 'e, 'a) io \<Rightarrow> (('r, 'p, 'c, 'z) orch_world_scheme, 'e, 'a) io" where
  "on_router m = (\<lambda>w. (fst (m (router w)), w\<lparr>router := snd (m (router w))\<rparr>))"

definition on_prober :: "('p, 'e, 'a) io \<Rightarrow> (('r, 'p, 'c, 'z) orch_world_scheme, 'e, 'a) io" where
  "on_prober m = (\<lambda>w. (fst (m (prober w)), w\<lparr>prober := snd (m (prober w))\<rparr>))"

definition on_stopper :: "('c, 'e, 'a) io \<Rightarrow> (('r, 'p, 'c, 'z) orch_world_scheme, 'e, 'a) io" where
  "on_stopper m = (\<lambda>w. (fst (m (stopper w)), w\<lparr>stopper := snd (m (stopper w))\<rparr>))"

definition prober_client ::
  "'p HealthProbeClient \<Rightarrow> ('r, 'p, 'c, 'z) orch_world_scheme HealthProbeClient" where
  "prober_client client = (\<lambda>url timeout. on_prober (client url timeout))"

type_synonym 'c ContainerStopper = "string \<Rightarrow> ('c, error, unit) io"

definition mock_stop_container :: "string list ContainerStopper" where
  "mock_stop_container container_id = (\<lambda>stopped. (Inr (), stopped @ [container_id]))"

record ReleaseOrchestrationPlan =
  plan_deployment_id :: uuid
  plan_project_id :: uuid
  plan_environment :: string
  plan_container_id :: string
  plan_port :: int
  plan_url :: string
  plan_health_policy :: HealthPolicy
  plan_drain_timeout :: int

record ReleaseOrchestrationResult =
  active_release :: Release
  previous_release :: "Release option"
  drain_result :: "DrainResult option"

section \<open>Operations\<close>

text \<open>\<^verbatim>\<open>INSERT ... ON CONFLICT (project_id, environment) DO UPDATE\<close>.\<close>

definition upsert_route :: "Release \<Rightarrow> RouteHandle \<Rightarrow> timestamp \<Rightarrow> db \<Rightarrow> db" where
  "upsert_route release route now d =
     (let same = (\<lambda>a. ar_project_id a = r_project_id release
                      \<and> ar_environment a = r_environment release)
      in if list_ex same (active_routes d)
         then d\<lparr>active_routes := update_where same
                  (\<lambda>a. a\<lparr>ar_active_release_id := r_id release,
                         ar_route_target := rh_target_url route, ar_updated_at := now\<rparr>)
                  (active_routes d)\<rparr>
         else d\<lparr>active_routes := active_routes d @
                  [\<lparr>ar_project_id = r_project_id release, ar_environment = r_environment release,
                    ar_active_release_id = r_id release,
                    ar_route_target = rh_target_url route,
                    ar_activated_at = now, ar_updated_at = now\<rparr>]\<rparr>)"

definition route_insert_ok :: "Release \<Rightarrow> db \<Rightarrow> bool" where
  "route_insert_ok release d \<longleftrightarrow>
     has_key r_id (r_id release) (releases d)
     \<and> has_key p_id (r_project_id release) (projects d)
     \<and> varchar 32 (r_environment release)"

definition activate_traffic ::
  "'r TrafficRouter \<Rightarrow> Release \<Rightarrow> ('r, 'p, 'c, 'z, Release option) orch" where
  "activate_traffic ops release =
     (if r_status release \<noteq> Ready \<and> r_status release \<noteq> Active
      then fail (CannotActivate (r_status release))
      else
      and_then (on_router (prepare ops release)) (\<lambda>route.
      and_then (on_router (activate ops route)) (\<lambda>_.
      and_then (get_active_release (r_project_id release) (r_environment release)) (\<lambda>active.
        let prev_active =
          (case active of
             None \<Rightarrow> None | Some p \<Rightarrow> if r_id p \<noteq> r_id release then Some p else None)
        in and_then now_utc (\<lambda>now.
           and_then (insert_row ''failed to persist active route'' (route_insert_ok release)
                      (upsert_route release route now)) (\<lambda>_.
           and_then
             (if r_status release = Ready
              then and_then (transition (r_id release) (r_version release) Active
                              (Some ''activated traffic via router'')) (\<lambda>_. ret ())
              else ret ())
           (\<lambda>_. ret prev_active)))))))"

text \<open>Step 6 of the roll-out: drain and stop the previously active release.\<close>

definition drain_previous ::
  "'r TrafficRouter \<Rightarrow> 'c ContainerStopper \<Rightarrow> int \<Rightarrow> Release \<Rightarrow>
   ('r, 'p, 'c, 'z, DrainResult \<times> Release) orch" where
  "drain_previous ops stop_container drain_timeout prev =
     and_then (transition (r_id prev) (r_version prev) Draining
                (Some ''traffic switched to new release'')) (\<lambda>prev_draining.
     and_then (on_router (prepare ops prev_draining)) (\<lambda>prev_route.
     and_then (on_router (drain ops prev_route drain_timeout)) (\<lambda>drain_res.
     and_then (ignore (on_router (remove ops prev_route))) (\<lambda>_.
     and_then
       (case r_container_id prev_draining of
          Some cid \<Rightarrow> ignore (on_stopper (stop_container cid))
        | None \<Rightarrow> ret ()) (\<lambda>_.
     and_then (transition (r_id prev_draining) (r_version prev_draining) Stopped
                (Some ''drain complete, container stopped'')) (\<lambda>prev_stopped.
     ret (drain_res, prev_stopped)))))))"

definition finish_roll_out ::
  "'r TrafficRouter \<Rightarrow> 'c ContainerStopper \<Rightarrow> int \<Rightarrow> Release \<Rightarrow> Release option \<Rightarrow>
   ('r, 'p, 'c, 'z, ReleaseOrchestrationResult) orch" where
  "finish_roll_out ops stop_container drain_timeout release prev_release =
     (case prev_release of
        None \<Rightarrow> ret \<lparr>active_release = release, previous_release = None, drain_result = None\<rparr>
      | Some prev \<Rightarrow>
          and_then (drain_previous ops stop_container drain_timeout prev)
            (\<lambda>(drain_res, prev_stopped).
               ret \<lparr>active_release = release, previous_release = Some prev_stopped,
                    drain_result = Some drain_res\<rparr>))"

definition orchestrate_release ::
  "ReleaseOrchestrationPlan \<Rightarrow> 'p HealthProbeClient \<Rightarrow> 'r TrafficRouter \<Rightarrow>
   'c ContainerStopper \<Rightarrow> ('r, 'p, 'c, 'z, ReleaseOrchestrationResult) orch" where
  "orchestrate_release plan health_client ops stop_container =
     and_then (create_release (plan_deployment_id plan) (plan_project_id plan)
                (plan_environment plan) (Some (plan_container_id plan)) (Some (plan_port plan))
                (Some (plan_url plan))) (\<lambda>created.
     and_then (transition (r_id created) (r_version created) HealthChecking
                (Some ''probing container health'')) (\<lambda>checking.
     and_then (wait_until_healthy (prober_client health_client) (plan_url plan)
                (plan_health_policy plan)) (\<lambda>health_res.
     if \<not> hc_is_healthy health_res
     then
       let error_msg = (case hc_final_error health_res of
                          Some e \<Rightarrow> e | None \<Rightarrow> ''health check failed'')
       in and_then (ignore (on_stopper (stop_container (plan_container_id plan)))) (\<lambda>_.
          and_then (transition (r_id checking) (r_version checking) Failed
                     (Some (''health check failed: '' @ error_msg))) (\<lambda>_.
          fail (HealthCheckFailed error_msg)))
     else
     and_then (transition (r_id checking) (r_version checking) Ready
                (Some ''health check passed'')) (\<lambda>ready.
     and_then (activate_traffic ops ready) (\<lambda>prev_release.
     and_then (get_release (r_id ready)) (\<lambda>release.
     finish_roll_out ops stop_container (plan_drain_timeout plan) release prev_release))))))"

section \<open>The invariant\<close>

lemma on_device_keeps [keeps_intros]:
  "keeps_db I (on_router m)" "keeps_db I (on_prober m')" "keeps_db I (on_stopper m'')"
  by (simp_all add: keeps_db_def keeps_def on_router_def on_prober_def on_stopper_def)

lemma upsert_route_inv:
  assumes inv: "release_inv d" and ok: "route_insert_ok rel d"
  shows "release_inv (upsert_route rel route now d)"
proof -
  let ?same = "\<lambda>a. ar_project_id a = r_project_id rel \<and> ar_environment a = r_environment rel"
  have frame: "release_row_ok (d\<lparr>active_routes := ars\<rparr>) = release_row_ok d"
    "transition_row_ok (d\<lparr>active_routes := ars\<rparr>) = transition_row_ok d" for ars
    by (simp_all add: fun_eq_iff release_row_ok_def transition_row_ok_def history_def)
  show ?thesis
  proof (cases "list_ex ?same (active_routes d)")
    case True
    have "list_all (\<lambda>a. has_key r_id (ar_active_release_id a) (releases d))
       (update_where ?same (\<lambda>a. a\<lparr>ar_active_release_id := r_id rel,
          ar_route_target := rh_target_url route, ar_updated_at := now\<rparr>) (active_routes d))"
      using inv ok
      by (intro list_all_update_where) (auto simp: release_inv_def list_all_iff route_insert_ok_def)
    with True inv show ?thesis
      by (simp add: upsert_route_def Let_def release_inv_def map_update_where frame)
  next
    case False
    with inv ok show ?thesis
      by (auto simp: upsert_route_def Let_def release_inv_def route_insert_ok_def list_ex_iff frame)
  qed
qed

lemma activate_traffic_keeps_inv [keeps_intros]: "keeps_db release_inv (activate_traffic ops rel)"
  unfolding activate_traffic_def Let_def
  by (intro keeps_intros keeps_db_insert_row upsert_route_inv)

lemma drain_previous_keeps_inv [keeps_intros]:
  "keeps_db release_inv (drain_previous ops st t prev)"
  unfolding drain_previous_def by (intro keeps_intros)

lemma prober_client_keeps [keeps_intros]: "keeps_db I (attempt (prober_client client url t))"
  by (simp add: keeps_db_def keeps_def prober_client_def on_prober_def attempt_def)

lemma orchestrate_release_keeps_inv [keeps_intros]:
  "keeps_db release_inv (orchestrate_release plan client ops st)"
  unfolding orchestrate_release_def finish_roll_out_def Let_def by (intro keeps_intros)

section \<open>The health gate\<close>

lemma on_device_run [io_simps]:
  "on_router m w = (fst (m (router w)), w\<lparr>router := snd (m (router w))\<rparr>)"
  "on_prober m' w = (fst (m' (prober w)), w\<lparr>prober := snd (m' (prober w))\<rparr>)"
  "on_stopper m'' w = (fst (m'' (stopper w)), w\<lparr>stopper := snd (m'' (stopper w))\<rparr>)"
  "prober_client client url t w =
     (fst (client url t (prober w)), w\<lparr>prober := snd (client url t (prober w))\<rparr>)"
  by (simp_all add: on_router_def on_prober_def on_stopper_def prober_client_def)

lemma never_healthy_prober_client:
  "never_healthy client policy \<Longrightarrow> never_healthy (prober_client client) policy"
  by (simp add: never_healthy_def prober_client_def on_prober_def)

text \<open>What a roll-out leaves alone until it switches traffic: the routes, the router and every
  release but its own.\<close>

definition untouched :: "db \<Rightarrow> uuid \<Rightarrow> db \<Rightarrow> bool" where
  "untouched pre new d \<longleftrightarrow> active_routes d = active_routes pre
     \<and> (\<forall>rid. rid \<noteq> new \<longrightarrow> lookup_by r_id rid (releases d) = lookup_by r_id rid (releases pre))"

lemma transition_keeps_untouched [keeps_intros]:
  "keeps_db (untouched pre new) (transition new v target reason)"
  unfolding keeps_db_def
proof (rule keepsI)
  fix w :: "'a world_scheme" assume u: "untouched pre new (db w)"
  obtain res w' where run: "transition new v target reason w = (res, w')"
    by (cases "transition new v target reason w")
  from run show "untouched pre new (db (snd (transition new v target reason w)))"
    by (cases rule: transition_outcomes)
      (use run u in \<open>auto simp: untouched_def lookup_other_cas_db\<close>)
qed

lemma keeps_router_prims [keeps_intros]:
  fixes I :: "'r \<Rightarrow> bool"
  shows "keeps (\<lambda>w :: ('r, 'p, 'c, 'z) orch_world_scheme. I (router w)) uuid_new_v4"
    and "keeps (\<lambda>w :: ('r, 'p, 'c, 'z) orch_world_scheme. I (router w)) now_utc"
    and "keeps (\<lambda>w :: ('r, 'p, 'c, 'z) orch_world_scheme. I (router w)) instant_now"
    and "keeps (\<lambda>w :: ('r, 'p, 'c, 'z) orch_world_scheme. I (router w)) (sleep d)"
    and "keeps (\<lambda>w :: ('r, 'p, 'c, 'z) orch_world_scheme. I (router w)) (statement c f)"
    and "keeps (\<lambda>w :: ('r, 'p, 'c, 'z) orch_world_scheme. I (router w)) (on_stopper m)"
    and "keeps (\<lambda>w :: ('r, 'p, 'c, 'z) orch_world_scheme. I (router w)) (prober_client cl url t)"
  by (auto simp: keeps_def uuid_new_v4_def now_utc_def instant_now_def sleep_def statement_def
      on_stopper_def prober_client_def on_prober_def split: prod.splits sum.splits)

lemma keeps_router_db [keeps_intros]:
  fixes I :: "'r \<Rightarrow> bool"
  shows "keeps (\<lambda>w :: ('r, 'p, 'c, 'z) orch_world_scheme. I (router w)) (select_rows c g)"
    and "keeps (\<lambda>w :: ('r, 'p, 'c, 'z) orch_world_scheme. I (router w)) (execute c h)"
    and "keeps (\<lambda>w :: ('r, 'p, 'c, 'z) orch_world_scheme. I (router w)) (insert_row c ok h)"
  unfolding select_rows_def execute_def insert_row_def by (rule keeps_router_prims)+

lemma transition_keeps_router [keeps_intros]:
  "keeps (\<lambda>w :: ('r, 'p, 'c, 'z) orch_world_scheme. I (router w)) (transition rid v target reason)"
  unfolding transition_def get_release_def Let_def by (intro keeps_intros)

lemma create_release_keeps_router [keeps_intros]:
  "keeps (\<lambda>w :: ('r, 'p, 'c, 'z) orch_world_scheme. I (router w)) (create_release dep proj e c p u)"
  unfolding create_release_def Let_def by (intro keeps_intros)

lemma probe_loop_keeps_router [keeps_intros]:
  "keeps (\<lambda>w :: ('r, 'p, 'c, 'z) orch_world_scheme. I (router w))
     (probe_loop left (prober_client client) url policy n acc)"
proof (induction left arbitrary: n acc)
  case 0
  show ?case by (simp add: keeps_ret)
next
  case (Suc left)
  show ?case unfolding probe_loop.simps Let_def by (intro keeps_intros Suc.IH)
qed

lemma wait_until_healthy_keeps_router [keeps_intros]:
  "keeps (\<lambda>w :: ('r, 'p, 'c, 'z) orch_world_scheme. I (router w))
     (wait_until_healthy (prober_client client) url policy)"
  unfolding wait_until_healthy_def
  by (intro keeps_intros) (simp add: keeps_ret split: prod.split)

lemma create_release_untouched:
  assumes "create_release dep proj e c p u w = (Inr rel, w')"
  shows "untouched (db w) (r_id rel) (db w')"
  using create_release_InrE(2) [OF assms]
  by (auto simp: untouched_def sql_simps split: option.split)

definition gate_inv :: "db \<Rightarrow> uuid \<Rightarrow> 'r \<Rightarrow> ('r, 'p, 'c, 'z) orch_world_scheme \<Rightarrow> bool" where
  "gate_inv pre new R w \<longleftrightarrow> untouched pre new (db w) \<and> router w = R"

lemma gate_inv_transition: "keeps (gate_inv pre new R) (transition new v target reason)"
  and gate_inv_wait: "keeps (gate_inv pre new R)
     (wait_until_healthy (prober_client client) url policy)"
  unfolding gate_inv_def
  by (intro keeps_conj keeps_intros keeps_db_def [THEN iffD1])+

lemma gate_inv_stop: "keeps (gate_inv pre new R) (ignore (on_stopper m))"
  by (simp add: keeps_def gate_inv_def ignore_def on_stopper_def)

lemma orchestrate_gate_triple:
  assumes never: "never_healthy client (plan_health_policy plan)"
  shows "triple (gate_inv pre (r_id created) R)
    (and_then (transition (r_id created) (r_version created) HealthChecking reason) (\<lambda>checking.
     and_then (wait_until_healthy (prober_client client) url (plan_health_policy plan))
     (\<lambda>health_res.
       if \<not> hc_is_healthy health_res
       then
         let error_msg = msg health_res
         in and_then (ignore (on_stopper (stop health_res))) (\<lambda>_.
            and_then (transition (r_id checking) (r_version checking) Failed (reason' error_msg)) (\<lambda>_.
            fail (HealthCheckFailed error_msg)))
       else rest checking health_res)))
    (\<lambda>_ _. False) (\<lambda>_. gate_inv pre (r_id created) R)"
proof -
  let ?J = "gate_inv pre (r_id created) R"
  have t1: "triple ?J (transition (r_id created) (r_version created) HealthChecking reason)
      (\<lambda>c w. ?J w \<and> r_id c = r_id created) (\<lambda>_. ?J)"
    by (rule triple_keepsI [OF gate_inv_transition]) (rule transition_row_id)
  have t2: "triple ?J (wait_until_healthy (prober_client client) url (plan_health_policy plan))
      (\<lambda>h w. ?J w \<and> \<not> hc_is_healthy h) (\<lambda>_. ?J)"
    by (rule triple_keepsI [OF gate_inv_wait])
      (rule wait_until_healthy_never [OF never_healthy_prober_client [OF never]])
  have t3: "triple ?J (and_then (ignore (on_stopper (stop health_res))) (\<lambda>_.
      and_then (transition (r_id created) ver Failed (reason' (msg health_res)))
        (\<lambda>_. fail (HealthCheckFailed (msg health_res))))) (\<lambda>_ _. False) (\<lambda>_. ?J)"
    for health_res ver
    by (intro triple_and_then [where R = "\<lambda>_. ?J"] triple_fail triple_keeps gate_inv_stop
        gate_inv_transition)
  show ?thesis
    unfolding Let_def
    by (rule triple_and_then [OF t1], rule triple_pure, rule triple_and_then [OF t2],
        rule triple_pure) (simp add: t3)
qed

lemma orchestrate_gated:
  assumes never: "never_healthy client (plan_health_policy plan)"
    and run: "orchestrate_release plan client ops st w = (res, w')"
  shows "(\<exists>e. res = Inl e) \<and> active_routes (db w') = active_routes (db w) \<and> router w' = router w
    \<and> (\<forall>rid rel. lookup_by r_id rid (releases (db w)) = Some rel \<longrightarrow>
          lookup_by r_id rid (releases (db w')) = Some rel)"
proof (cases "create_release (plan_deployment_id plan) (plan_project_id plan)
    (plan_environment plan) (Some (plan_container_id plan)) (Some (plan_port plan))
    (Some (plan_url plan)) w")
  case (Pair cres w1)
  have router: "router w1 = router w"
    using keepsD [OF create_release_keeps_router [where I = "\<lambda>r. r = router w"] refl Pair] .
  show ?thesis
  proof (cases cres)
    case (Inl e)
    with Pair run router create_release_InlE [of _ _ _ _ _ _ w e w1] show ?thesis
      by (auto simp: orchestrate_release_def io_simps)
  next
    case (Inr created)
    with Pair have c: "create_release (plan_deployment_id plan) (plan_project_id plan)
      (plan_environment plan) (Some (plan_container_id plan)) (Some (plan_port plan))
      (Some (plan_url plan)) w = (Inr created, w1)" by simp
    have "r_id created \<notin> r_id ` set (releases (db w))"
      using create_release_InrE(1) [OF c] by (simp add: release_insert_ok_def sql_simps)
    then have "rid \<noteq> r_id created" if "lookup_by r_id rid (releases (db w)) = Some rel" for rid rel
      using lookup_by_key [OF that] by blast
    moreover have J: "gate_inv (db w) (r_id created) (router w) w1"
      using create_release_untouched [OF c] router by (simp add: gate_inv_def)
    note t = orchestrate_gate_triple [OF never, where pre = "db w" and R = "router w"]
    from run c have "res = Inl (projl res) \<and> gate_inv (db w) (r_id created) (router w) w'"
      unfolding orchestrate_release_def and_then_run [of "create_release _ _ _ _ _ _"]
      apply (cases res)
      subgoal by (auto dest!: triple_Inl [OF t J])
      subgoal by (auto dest!: triple_Inr [OF t J])
      done
    ultimately show ?thesis
      by (auto simp: gate_inv_def untouched_def)
  qed
qed

text \<open>C9. The health gate: when no probe of the new container is healthy the roll-out fails, and no
  route, no route of the traffic router and no existing release has changed.\<close>

theorem orchestrate_health_gate:
  assumes never: "never_healthy client (plan_health_policy plan)"
    and run: "orchestrate_release plan client ops st w = (res, w')"
  shows "(\<exists>e. res = Inl e) \<and> active_routes (db w') = active_routes (db w) \<and> router w' = router w
    \<and> (\<forall>rid rel. lookup_by r_id rid (releases (db w)) = Some rel \<longrightarrow>
          lookup_by r_id rid (releases (db w')) = Some rel)"
  using assms by (rule orchestrate_gated)

section \<open>A successful roll-out\<close>

lemma get_active_release_keeps_router [keeps_intros]:
  "keeps (\<lambda>w :: ('r, 'p, 'c, 'z) orch_world_scheme. I (router w)) (get_active_release p e)"
  unfolding get_active_release_def get_release_def by (intro keeps_intros)

lemma route_row_upsert:
  "route_row (r_project_id rel) (r_environment rel) (upsert_route rel route now d) =
     Some (case route_row (r_project_id rel) (r_environment rel) d of
       Some a \<Rightarrow> a\<lparr>ar_active_release_id := r_id rel, ar_route_target := rh_target_url route,
                   ar_updated_at := now\<rparr>
     | None \<Rightarrow> \<lparr>ar_project_id = r_project_id rel, ar_environment = r_environment rel,
         ar_active_release_id = r_id rel, ar_route_target = rh_target_url route,
         ar_activated_at = now, ar_updated_at = now\<rparr>)"
proof (cases "list_ex (\<lambda>a. ar_project_id a = r_project_id rel \<and> ar_environment a = r_environment rel)
    (active_routes d)")
  case True
  then have "route_row (r_project_id rel) (r_environment rel) d \<noteq> None"
    by (auto simp: route_row_def lookup_by_None list_ex_iff image_iff) metis
  then obtain a where a: "route_row (r_project_id rel) (r_environment rel) d = Some a" by blast
  then have "ar_project_id a = r_project_id rel" "ar_environment a = r_environment rel"
    by (auto simp: route_row_def dest!: lookup_by_Some)
  with True a show ?thesis
    by (simp add: route_row_def upsert_route_def Let_def lookup_by_update_where)
next
  case False
  then have "route_row (r_project_id rel) (r_environment rel) d = None"
    by (auto simp: route_row_def lookup_by_None list_ex_iff)
  with False show ?thesis
    by (simp add: route_row_def upsert_route_def Let_def sql_simps)
qed

lemma upsert_route_frame [simp]:
  "releases (upsert_route rel route now d) = releases d"
  "release_transitions (upsert_route rel route now d) = release_transitions d"
  by (simp_all add: upsert_route_def Let_def)

lemma on_router_InrE: "on_router m w = (Inr a, w') \<Longrightarrow>
   m (router w) = (Inr a, router w') \<and> db w' = db w"
  by (cases "m (router w)") (auto simp: on_router_def)

lemma activate_traffic_InrE:
  assumes inv: "release_inv (db w)" and ready: "r_status rel = Ready"
    and cur: "lookup_by r_id (r_id rel) (releases (db w)) = Some rel"
    and run: "activate_traffic ops rel w = (Inr prev, w')"
  obtains rel' route where
    "lookup_by r_id (r_id rel) (releases (db w')) = Some rel'" "r_status rel' = Active"
    "r_project_id rel' = r_project_id rel" "r_environment rel' = r_environment rel"
    "\<And>other. other \<noteq> r_id rel \<Longrightarrow>
       lookup_by r_id other (releases (db w')) = lookup_by r_id other (releases (db w))"
    "map_option ar_active_release_id (route_row (r_project_id rel) (r_environment rel) (db w'))
       = Some (r_id rel)"
    "prev = (case route_row (r_project_id rel) (r_environment rel) (db w) of
        None \<Rightarrow> None
      | Some a \<Rightarrow> if ar_active_release_id a = r_id rel then None
                  else lookup_by r_id (ar_active_release_id a) (releases (db w)))"
    "release_inv (db w')"
    "\<exists>h s s'. prepare ops rel (router w) = (Inr h, s) \<and> activate ops h s = (Inr (), s')
       \<and> router w' = s'"
proof -
  let ?p = "r_project_id rel" and ?e = "r_environment rel"
  from run ready obtain route w1 w2 active w3 now w4 w5 a where
      p: "on_router (prepare ops rel) w = (Inr route, w1)"
    and a: "on_router (activate ops route) w1 = (Inr (), w2)"
    and g: "get_active_release ?p ?e w2 = (Inr active, w3)"
    and n: "now_utc w3 = (Inr now, w4)"
    and i: "insert_row ''failed to persist active route'' (route_insert_ok rel)
          (upsert_route rel route now) w4 = (Inr (), w5)"
    and t: "transition (r_id rel) (r_version rel) Active (Some ''activated traffic via router'') w5
          = (Inr a, w')"
    and prev: "prev = (case active of None \<Rightarrow> None | Some p \<Rightarrow> if r_id p \<noteq> r_id rel then Some p else None)"
    unfolding activate_traffic_def Let_def
    by (auto elim!: and_then_InrE dest!: ret_InrE split: if_splits)
  have d: "db w1 = db w" "db w2 = db w" "db w3 = db w" "db w4 = db w"
    using p a n get_active_release_InrE(2) [OF g] by (auto dest!: on_router_InrE simp: io_simps)
  from insert_row_InrE [OF i] d have d5: "db w5 = upsert_route rel route now (db w)"
    and ok: "route_insert_ok rel (db w)" by auto
  then have inv5: "release_inv (db w5)" using inv by (simp add: upsert_route_inv)
  have r: "router w' = router w2"
    using keepsD [OF transition_keeps_router [where I = "\<lambda>r. r = router w5"] refl t]
      insert_row_InrE [OF i] n g
      keepsD [OF get_active_release_keeps_router [where I = "\<lambda>r. r = router w2"] refl g]
    by (auto simp: io_simps)
  from inv5 t show thesis
  proof (rule transition_success)
    fix current assume tr: "r_status a = Active" "r_project_id a = r_project_id current"
      "r_environment a = r_environment current"
      "lookup_by r_id (r_id rel) (releases (db w5)) = Some current"
      "lookup_by r_id (r_id rel) (releases (db w')) = Some a"
      "\<And>other. other \<noteq> r_id rel \<Longrightarrow>
         lookup_by r_id other (releases (db w')) = lookup_by r_id other (releases (db w5))"
      "active_routes (db w') = active_routes (db w5)" "release_inv (db w')"
    have "current = rel" using tr(4) cur d5 by simp
    moreover have "route_row ?p ?e (db w') = route_row ?p ?e (db w5)"
      using tr(7) by (simp add: route_row_def)
    moreover have "map_option ar_active_release_id (route_row ?p ?e (db w5)) = Some (r_id rel)"
      by (simp add: d5 route_row_upsert split: option.split)
    moreover have "prev = (case route_row ?p ?e (db w) of None \<Rightarrow> None
      | Some a \<Rightarrow> if ar_active_release_id a = r_id rel then None
                  else lookup_by r_id (ar_active_release_id a) (releases (db w)))"
      using prev get_active_release_InrE(1) [OF g] d
      by (auto split: option.splits dest!: lookup_by_Some)
    ultimately show thesis
      using tr d5 p a r by (intro that [of a]) (auto dest!: on_router_InrE)
  qed
qed

lemma ignore_on_db: "db (snd (ignore (on_router m) w)) = db w" "db (snd (ignore (on_stopper m') w)) = db w"
  by (simp_all add: io_simps on_device_run)

lemma drain_previous_InrE:
  assumes inv: "release_inv (db w)"
    and run: "drain_previous ops st timeout prev w = (Inr (dr, stopped), w')"
  shows "r_id stopped = r_id prev" and "r_status stopped = Stopped"
    and "lookup_by r_id (r_id prev) (releases (db w')) = Some stopped"
    and "other \<noteq> r_id prev \<Longrightarrow>
       lookup_by r_id other (releases (db w')) = lookup_by r_id other (releases (db w))"
    and "active_routes (db w') = active_routes (db w)" and "release_inv (db w')"
    and "\<exists>dg h s1 s2. prepare ops dg (router w) = (Inr h, s1) \<and> drain ops h timeout s1 = (Inr dr, s2)
       \<and> router w' = snd (remove ops h s2) \<and> r_id dg = r_id prev
       \<and> (\<forall>cur. lookup_by r_id (r_id prev) (releases (db w)) = Some cur \<longrightarrow>
            r_project_id dg = r_project_id cur \<and> r_environment dg = r_environment cur)"
proof -
  from run obtain dg w1 rt w2 w3 u4 w4 u5 w5 where
      t1: "transition (r_id prev) (r_version prev) Draining
            (Some ''traffic switched to new release'') w = (Inr dg, w1)"
    and p: "on_router (prepare ops dg) w1 = (Inr rt, w2)"
    and d: "on_router (drain ops rt timeout) w2 = (Inr dr, w3)"
    and r: "ignore (on_router (remove ops rt)) w3 = (Inr u4 :: error + unit, w4)"
    and s: "(case r_container_id dg of Some cid \<Rightarrow> ignore (on_stopper (st cid)) | None \<Rightarrow> ret ()) w4
            = (Inr u5 :: error + unit, w5)"
    and t2: "transition (r_id dg) (r_version dg) Stopped
            (Some ''drain complete, container stopped'') w5 = (Inr stopped, w')"
    unfolding drain_previous_def by (auto elim!: and_then_InrE dest!: ret_InrE)
  have "db w4 = db w3" using r ignore_on_db(1) by (metis snd_conv)
  moreover have "db w5 = db w4"
    using s ignore_on_db(2) by (metis (no_types, lifting) option.case_eq_if ret_run snd_conv)
  ultimately have db5: "db w5 = db w1" using p d by (auto dest!: on_router_InrE)
  show "r_id stopped = r_id prev" and "r_status stopped = Stopped"
    and "lookup_by r_id (r_id prev) (releases (db w')) = Some stopped"
    and "other \<noteq> r_id prev \<Longrightarrow>
       lookup_by r_id other (releases (db w')) = lookup_by r_id other (releases (db w))"
    and "active_routes (db w') = active_routes (db w)" and "release_inv (db w')"
    using inv t1
    by (rule transition_success, use t2 db5 in \<open>(elim transition_success [rotated], simp_all)\<close>)+
  have "router w1 = router w"
    using keepsD [OF transition_keeps_router [where I = "\<lambda>r. r = router w"] refl t1] .
  moreover have "router w' = router w5"
    using keepsD [OF transition_keeps_router [where I = "\<lambda>r. r = router w5"] refl t2] .
  moreover have "router w5 = router w4"
    using s by (auto simp: io_simps on_device_run split: option.splits)
  moreover have "router w4 = snd (remove ops rt (router w3))"
    using r by (auto simp: io_simps on_device_run)
  moreover have "\<forall>cur. lookup_by r_id (r_id prev) (releases (db w)) = Some cur \<longrightarrow>
            r_project_id dg = r_project_id cur \<and> r_environment dg = r_environment cur"
    using inv t1 by (rule transition_success) simp
  moreover have "r_id dg = r_id prev" using t1 by (rule transition_row_id)
  ultimately show "\<exists>dg h s1 s2. prepare ops dg (router w) = (Inr h, s1) \<and> drain ops h timeout s1 = (Inr dr, s2)
       \<and> router w' = snd (remove ops h s2) \<and> r_id dg = r_id prev
       \<and> (\<forall>cur. lookup_by r_id (r_id prev) (releases (db w)) = Some cur \<longrightarrow>
            r_project_id dg = r_project_id cur \<and> r_environment dg = r_environment cur)"
    using p d by (intro exI [of _ dg] exI [of _ rt] exI [of _ "router w2"] exI [of _ "router w3"])
      (auto dest!: on_router_InrE)
qed

lemma finish_roll_out_None:
  "finish_roll_out ops st timeout release None w = (Inr res, w') \<Longrightarrow>
   res = \<lparr>active_release = release, previous_release = None, drain_result = None\<rparr> \<and> w' = w"
  by (auto simp: finish_roll_out_def io_simps)

lemma finish_roll_out_Some:
  assumes "finish_roll_out ops st timeout release (Some p) w = (Inr res, w')"
  obtains dr stopped where "drain_previous ops st timeout p w = (Inr (dr, stopped), w')"
    "res = \<lparr>active_release = release, previous_release = Some stopped, drain_result = Some dr\<rparr>"
  using assms by (auto simp: finish_roll_out_def elim!: and_then_InrE dest!: ret_InrE)

text \<open>The steps of a successful roll-out up to the switch of traffic.\<close>

lemma orchestrate_switch:
  assumes inv: "release_inv (db w)"
    and run: "orchestrate_release plan client ops st w = (Inr res, w')"
  obtains ready w1 prev w2 release w3 where
    "r_id ready \<notin> r_id ` set (releases (db w))" "r_status ready = Ready"
    "r_project_id ready = plan_project_id plan" "r_environment ready = plan_environment plan"
    "untouched (db w) (r_id ready) (db w1)" "router w1 = router w" "release_inv (db w1)"
    "lookup_by r_id (r_id ready) (releases (db w1)) = Some ready"
    "activate_traffic ops ready w1 = (Inr prev, w2)"
    "get_release (r_id ready) w2 = (Inr release, w3)"
    "finish_roll_out ops st (plan_drain_timeout plan) release prev w3 = (Inr res, w')"
proof -
  from run obtain created v1 chk v2 health v3 ready w1 prev w2 release w3 where
      c: "create_release (plan_deployment_id plan) (plan_project_id plan) (plan_environment plan)
         (Some (plan_container_id plan)) (Some (plan_port plan)) (Some (plan_url plan)) w
         = (Inr created, v1)"
    and t1: "transition (r_id created) (r_version created) HealthChecking
         (Some ''probing container health'') v1 = (Inr chk, v2)"
    and h: "wait_until_healthy (prober_client client) (plan_url plan) (plan_health_policy plan) v2
         = (Inr health, v3)"
    and t2: "transition (r_id chk) (r_version chk) Ready (Some ''health check passed'') v3
         = (Inr ready, w1)"
    and rest: "activate_traffic ops ready w1 = (Inr prev, w2)"
      "get_release (r_id ready) w2 = (Inr release, w3)"
      "finish_roll_out ops st (plan_drain_timeout plan) release prev w3 = (Inr res, w')"
    unfolding orchestrate_release_def Let_def
    by (auto elim!: and_then_InrE split: if_splits simp: io_simps(2))
  note cr = create_release_InrE [OF c]
  have u1: "untouched (db w) (r_id created) (db v1)" by (rule create_release_untouched [OF c])
  have inv1: "release_inv (db v1)"
    using keeps_dbD [OF create_release_keeps_inv inv] c by (metis snd_conv)
  have fresh: "r_id created \<notin> r_id ` set (releases (db w))"
    using cr(1) by (simp add: release_insert_ok_def sql_simps)
  then have l1: "lookup_by r_id (r_id created) (releases (db v1)) = Some created"
    using lookup_by_None [of r_id "r_id created" "releases (db w)"] by (simp add: cr(2) sql_simps)
  note ids = transition_row_id [OF t1] transition_row_id [OF t2]
  have "gate_inv (db w) (r_id created) (router v1) v1" using u1 by (simp add: gate_inv_def)
  then have "gate_inv (db w) (r_id created) (router v1) v2"
    using t1 by (rule keepsD [OF gate_inv_transition])
  then have "gate_inv (db w) (r_id created) (router v1) v3"
    using h by (rule keepsD [OF gate_inv_wait])
  then have J: "gate_inv (db w) (r_id created) (router v1) w1"
    using t2 [unfolded ids] by (rule keepsD [OF gate_inv_transition])
  have r: "router v1 = router w"
    using keepsD [OF create_release_keeps_router [where I = "\<lambda>r. r = router w"] refl c] .
  have "keeps_db (\<lambda>d. d = db v2)
      (wait_until_healthy (prober_client client) (plan_url plan) (plan_health_policy plan))"
    by (intro wait_until_healthy_keeps prober_client_keeps)
  from keeps_dbD [OF this, of v2] h have d3: "db v3 = db v2" by simp
  show thesis
  proof (rule transition_success [OF inv1 t1])
    fix cur assume a: "lookup_by r_id (r_id created) (releases (db v1)) = Some cur"
      "r_project_id chk = r_project_id cur" "r_environment chk = r_environment cur"
      "lookup_by r_id (r_id created) (releases (db v2)) = Some chk" "release_inv (db v2)"
    then have inv3: "release_inv (db v3)" by (simp add: d3)
    show thesis
      by (rule transition_success [OF inv3 t2]) 
        (rule that [OF _ _ _ _ _ _ _ _ rest],
          use a d3 l1 cr fresh ids J r in \<open>auto simp: gate_inv_def\<close>)
  qed
qed

definition route_target_id :: "uuid \<Rightarrow> string \<Rightarrow> db \<Rightarrow> uuid option" where
  "route_target_id p e d = map_option ar_active_release_id (route_row p e d)"

lemma route_target_exists:
  assumes "release_inv d" and "route_row p e d = Some a"
  obtains r where "lookup_by r_id (ar_active_release_id a) (releases d) = Some r"
    and "r_id r = ar_active_release_id a"
proof -
  from assms have "ar_active_release_id a \<in> r_id ` set (releases d)"
    by (auto simp: release_inv_def list_all_iff route_row_def sql_simps dest!: lookup_by_Some)
  then obtain r where "lookup_by r_id (ar_active_release_id a) (releases d) = Some r"
    by (metis lookup_by_None option.exhaust)
  with that show thesis by (blast dest: lookup_by_Some)
qed

lemma orchestrate_switches:
  assumes inv: "release_inv (db w)"
    and run: "orchestrate_release plan client ops st w = (Inr res, w')"
  shows "r_id (active_release res) \<notin> r_id ` set (releases (db w))
     \<and> r_status (active_release res) = Active
     \<and> lookup_by r_id (r_id (active_release res)) (releases (db w')) = Some (active_release res)
     \<and> route_target_id (plan_project_id plan) (plan_environment plan) (db w') =
         Some (r_id (active_release res))
     \<and> map_option r_id (previous_release res) =
         route_target_id (plan_project_id plan) (plan_environment plan) (db w)
     \<and> (\<forall>p. previous_release res = Some p \<longrightarrow>
          r_status p = Stopped \<and> lookup_by r_id (r_id p) (releases (db w')) = Some p)
     \<and> (\<forall>other. other \<noteq> r_id (active_release res)
          \<and> Some other \<noteq> route_target_id (plan_project_id plan) (plan_environment plan) (db w) \<longrightarrow>
          lookup_by r_id other (releases (db w')) = lookup_by r_id other (releases (db w)))"
  using inv run
proof (rule orchestrate_switch)
  fix ready w1 prev w2 release w3
  assume fresh: "r_id ready \<notin> r_id ` set (releases (db w))" and st: "r_status ready = Ready"
    and pe: "r_project_id ready = plan_project_id plan" "r_environment ready = plan_environment plan"
    and u: "untouched (db w) (r_id ready) (db w1)" and inv1: "release_inv (db w1)"
    and l1: "lookup_by r_id (r_id ready) (releases (db w1)) = Some ready"
    and act: "activate_traffic ops ready w1 = (Inr prev, w2)"
    and get: "get_release (r_id ready) w2 = (Inr release, w3)"
    and fin: "finish_roll_out ops st (plan_drain_timeout plan) release prev w3 = (Inr res, w')"
  from get_release_InrE [OF get] have rel: "lookup_by r_id (r_id ready) (releases (db w2)) = Some release"
    and d3: "db w3 = db w2" by auto
  let ?old = "route_row (plan_project_id plan) (plan_environment plan) (db w)"
  have old: "route_row (r_project_id ready) (r_environment ready) (db w1) = ?old"
    using u pe by (simp add: route_row_def untouched_def)
  have other: "lookup_by r_id x (releases (db w1)) = lookup_by r_id x (releases (db w))"
    if "x \<noteq> r_id ready" for x
    using u that by (simp add: untouched_def)
  show ?thesis
    using inv1 st l1 act
  proof (rule activate_traffic_InrE)
    fix rel' assume a: "lookup_by r_id (r_id ready) (releases (db w2)) = Some rel'"
      "r_status rel' = Active"
      "\<And>x. x \<noteq> r_id ready \<Longrightarrow>
         lookup_by r_id x (releases (db w2)) = lookup_by r_id x (releases (db w1))"
      "map_option ar_active_release_id
         (route_row (r_project_id ready) (r_environment ready) (db w2)) = Some (r_id ready)"
      "prev = (case route_row (r_project_id ready) (r_environment ready) (db w1) of None \<Rightarrow> None
        | Some a \<Rightarrow> if ar_active_release_id a = r_id ready then None
                    else lookup_by r_id (ar_active_release_id a) (releases (db w1)))"
      "release_inv (db w2)"
    have rid: "r_id release = r_id ready" "r_status release = Active"
      using rel a(1,2) by (auto dest: lookup_by_Some)
    show ?thesis
    proof (cases ?old)
      case None
      then have "prev = None" using a(5) old by simp
      with fin have "res = \<lparr>active_release = release, previous_release = None, drain_result = None\<rparr>"
        "w' = w3" by (auto dest: finish_roll_out_None)
      with None a rel rid d3 fresh other pe show ?thesis
        by (auto simp: route_target_id_def)
    next
      case (Some ar)
      from route_target_exists [OF inv Some] obtain p where
        p: "lookup_by r_id (ar_active_release_id ar) (releases (db w)) = Some p"
          "r_id p = ar_active_release_id ar" .
      have ne: "ar_active_release_id ar \<noteq> r_id ready" using fresh lookup_by_key [OF p(1)] by auto
      then have prev: "prev = Some p" using a(5) old Some p(1) other by simp
      with fin obtain dr stopped where
        dp: "drain_previous ops st (plan_drain_timeout plan) p w3 = (Inr (dr, stopped), w')"
        and res: "res = \<lparr>active_release = release, previous_release = Some stopped,
          drain_result = Some dr\<rparr>"
        by (auto elim: finish_roll_out_Some)
      note dpE = drain_previous_InrE [OF _ dp, unfolded d3, OF a(6)]
      from dpE(5) a(4) pe have
        "route_target_id (plan_project_id plan) (plan_environment plan) (db w') = Some (r_id ready)"
        by (simp add: route_target_id_def route_row_def)
      with Some res rid rel fresh ne p dpE(1-4) other a(3) show ?thesis
        by (auto simp: route_target_id_def)
    qed
  qed
qed

text \<open>C8. A roll-out that succeeds leaves a new release, with an identifier that no release had,
  in status Active; the route of its project and environment points to it; the release the route
  pointed to before is Stopped and reported as the previous one; every other release is as it
  was.\<close>

theorem orchestrate_success:
  assumes inv: "release_inv (db w)"
    and run: "orchestrate_release plan client ops st w = (Inr res, w')"
  shows "r_id (active_release res) \<notin> r_id ` set (releases (db w))
     \<and> r_status (active_release res) = Active
     \<and> lookup_by r_id (r_id (active_release res)) (releases (db w')) = Some (active_release res)
     \<and> route_target_id (plan_project_id plan) (plan_environment plan) (db w') =
         Some (r_id (active_release res))
     \<and> map_option r_id (previous_release res) =
         route_target_id (plan_project_id plan) (plan_environment plan) (db w)
     \<and> (\<forall>p. previous_release res = Some p \<longrightarrow>
          r_status p = Stopped \<and> lookup_by r_id (r_id p) (releases (db w')) = Some p)
     \<and> (\<forall>other. other \<noteq> r_id (active_release res)
          \<and> Some other \<noteq> route_target_id (plan_project_id plan) (plan_environment plan) (db w) \<longrightarrow>
          lookup_by r_id other (releases (db w')) = lookup_by r_id other (releases (db w)))"
  using assms by (rule orchestrate_switches)

section \<open>What the router serves\<close>

text \<open>What the router serves after a successful roll-out, for every router that keeps the
  contract.\<close>

context traffic_router
begin

lemma orchestrate_first_served:
  assumes inv: "release_inv (db w)"
    and run: "orchestrate_release plan client ops st w = (Inr res, w')"
    and none: "route_row (plan_project_id plan) (plan_environment plan) (db w) = None"
  shows "map_option rh_id (serving (router w') (plan_project_id plan, plan_environment plan))
    = Some (r_id (active_release res))"
  using inv run
proof (rule orchestrate_switch)
  fix ready w1 prev w2 release w3
  assume st: "r_status ready = Ready"
    and pe: "r_project_id ready = plan_project_id plan" "r_environment ready = plan_environment plan"
    and u: "untouched (db w) (r_id ready) (db w1)" and inv1: "release_inv (db w1)"
    and l1: "lookup_by r_id (r_id ready) (releases (db w1)) = Some ready"
    and act: "activate_traffic ops ready w1 = (Inr prev, w2)"
    and get: "get_release (r_id ready) w2 = (Inr release, w3)"
    and fin: "finish_roll_out ops st (plan_drain_timeout plan) release prev w3 = (Inr res, w')"
  have old: "route_row (r_project_id ready) (r_environment ready) (db w1) = None"
    using u pe none by (simp add: route_row_def untouched_def)
  show ?thesis
    using inv1 st l1 act
  proof (rule activate_traffic_InrE)
    assume prev: "prev = (case route_row (r_project_id ready) (r_environment ready) (db w1) of None \<Rightarrow> None
        | Some a \<Rightarrow> if ar_active_release_id a = r_id ready then None
                    else lookup_by r_id (ar_active_release_id a) (releases (db w1)))"
      and "\<exists>h s s'. prepare ops ready (router w1) = (Inr h, s) \<and> activate ops h s = (Inr (), s')
       \<and> router w2 = s'"
    then obtain h s where ps: "prepare ops ready (router w1) = (Inr h, s)"
      "activate ops h s = (Inr (), router w2)" by blast
    have "prev = None" using prev old by simp
    with fin get_release_InrE [OF get] have "router w' = router w2" "active_release res = release"
      "lookup_by r_id (r_id ready) (releases (db w2)) = Some release"
      by (auto dest: finish_roll_out_None)
    with prepare_then_activate [OF ps] prepare_handle [OF ps(1)] pe show ?thesis
      by (auto dest: lookup_by_Some)
  qed
qed

text \<open>Routes are keyed by project and environment: removing the route of the previous release
  removes the route that was just activated.\<close>

lemma orchestrate_second_unserved:
  assumes inv: "release_inv (db w)"
    and run: "orchestrate_release plan client ops st w = (Inr res, w')"
    and old: "route_row (plan_project_id plan) (plan_environment plan) (db w) = Some a"
    and owner: "lookup_by r_id (ar_active_release_id a) (releases (db w)) = Some p"
      "r_project_id p = plan_project_id plan" "r_environment p = plan_environment plan"
    and total: "\<And>h s. fst (remove ops h s) = Inr ()"
  shows "serving (router w') (plan_project_id plan, plan_environment plan) = None"
  using inv run
proof (rule orchestrate_switch)
  fix ready w1 prev w2 release w3
  assume fresh: "r_id ready \<notin> r_id ` set (releases (db w))" and st: "r_status ready = Ready"
    and pe: "r_project_id ready = plan_project_id plan" "r_environment ready = plan_environment plan"
    and u: "untouched (db w) (r_id ready) (db w1)" and inv1: "release_inv (db w1)"
    and l1: "lookup_by r_id (r_id ready) (releases (db w1)) = Some ready"
    and act: "activate_traffic ops ready w1 = (Inr prev, w2)"
    and get: "get_release (r_id ready) w2 = (Inr release, w3)"
    and fin: "finish_roll_out ops st (plan_drain_timeout plan) release prev w3 = (Inr res, w')"
  have ne: "ar_active_release_id a \<noteq> r_id ready" using fresh lookup_by_key [OF owner(1)] by auto
  then have lp: "lookup_by r_id (ar_active_release_id a) (releases (db w1)) = Some p"
    using u owner by (simp add: untouched_def)
  have rid: "r_id p = ar_active_release_id a" using owner(1) by (auto dest: lookup_by_Some)
  show ?thesis
    using inv1 st l1 act
  proof (rule activate_traffic_InrE)
    assume "prev = (case route_row (r_project_id ready) (r_environment ready) (db w1) of None \<Rightarrow> None
        | Some a \<Rightarrow> if ar_active_release_id a = r_id ready then None
                    else lookup_by r_id (ar_active_release_id a) (releases (db w1)))"
      and other: "\<And>x. x \<noteq> r_id ready \<Longrightarrow>
         lookup_by r_id x (releases (db w2)) = lookup_by r_id x (releases (db w1))"
      and inv2: "release_inv (db w2)"
    then have "prev = Some p" using u pe old ne lp by (simp add: route_row_def untouched_def)
    with fin obtain dr stopped where
      dp: "drain_previous ops st (plan_drain_timeout plan) p w3 = (Inr (dr, stopped), w')"
      by (auto elim: finish_roll_out_Some)
    from get_release_InrE [OF get] have d3: "db w3 = db w2" by simp
    with inv2 have inv3: "release_inv (db w3)" by simp
    have "lookup_by r_id (r_id p) (releases (db w3)) = Some p" using d3 other ne lp rid by simp
    with drain_previous_InrE(7) [OF inv3 dp] owner obtain dg h s1 s2 where
      r: "prepare ops dg (router w3) = (Inr h, s1)" "drain ops h (plan_drain_timeout plan) s1 = (Inr dr, s2)"
        "router w' = snd (remove ops h s2)" "r_project_id dg = plan_project_id plan"
        "r_environment dg = plan_environment plan" by auto
    have "remove ops h s2 = (Inr (), router w')" using total [of h s2] r(3) by (metis prod.collapse)
    from remove_serving [OF this] prepare_handle [OF r(1)] r(4,5) show ?thesis by simp
  qed
qed

end

section \<open>A concrete roll-out\<close>

definition demo_plan :: ReleaseOrchestrationPlan where
  "demo_plan = \<lparr>plan_deployment_id = 3, plan_project_id = 1, plan_environment = ''production'',
     plan_container_id = ''c'', plan_port = 8080, plan_url = ''http://x'',
     plan_health_policy = default_HealthPolicy, plan_drain_timeout = 1\<rparr>"

definition healthy_response :: ProbeResponse where
  "healthy_response = \<lparr>pr_status = 200, pr_headers = Map.empty, pr_body = ''''\<rparr>"

definition demo_orch_world ::
  "(MockTrafficRouter, MockHealthProbeClient, string list) orch_world" where
  "demo_orch_world = \<lparr>env = demo_env, tick = 10, db = demo_db, redis_log = [],
     router = new_mock_router,
     prober = \<lparr>queued_responses = [Inr healthy_response, Inr healthy_response], probed_urls = []\<rparr>,
     stopper = []\<rparr>"

abbreviation demo_roll_out :: "(MockTrafficRouter, MockHealthProbeClient, string list, unit,
    ReleaseOrchestrationResult) orch" where
  "demo_roll_out \<equiv> orchestrate_release demo_plan mock_probe mock_router mock_stop_container"

definition demo_orch_world2 ::
  "(MockTrafficRouter, MockHealthProbeClient, string list) orch_world" where
  "demo_orch_world2 = snd (demo_roll_out demo_orch_world)"

lemma demo_orch_inv: "release_inv (db demo_orch_world)"
  by code_simp

lemma demo_orch_inv2: "release_inv (db demo_orch_world2)"
  by code_simp

lemma demo_roll_out_runs:
  "demo_roll_out demo_orch_world =
     (Inr (projr (fst (demo_roll_out demo_orch_world))), snd (demo_roll_out demo_orch_world))"
  by (rule run_ok) code_simp

lemma demo_roll_out2_runs:
  "demo_roll_out demo_orch_world2 =
     (Inr (projr (fst (demo_roll_out demo_orch_world2))), snd (demo_roll_out demo_orch_world2))"
  by (rule run_ok) code_simp

theorem orchestrate_success_witness:
  "route_target_id 1 ''production'' (db (snd (demo_roll_out demo_orch_world2))) =
     Some (r_id (active_release (projr (fst (demo_roll_out demo_orch_world2)))))"
  using orchestrate_success [OF demo_orch_inv2 demo_roll_out2_runs] by (simp add: demo_plan_def)

theorem orchestrate_health_gate_witness:
  "\<exists>e. fst (orchestrate_release demo_plan (\<lambda>url t p. (Inl ''refused'', p)) mock_router
      mock_stop_container demo_orch_world) = Inl e"
proof -
  have "never_healthy (\<lambda>url t (p :: MockHealthProbeClient). (Inl ''refused'', p))
      (plan_health_policy demo_plan)"
    by (simp add: never_healthy_def)
  from orchestrate_health_gate [OF this surjective_pairing] show ?thesis by blast
qed

section \<open>The installed router\<close>

text \<open>The first roll-out of a project and environment ends with the installed router serving
  the new release.\<close>

theorem mock_first_release_served:
  assumes "release_inv (db w)"
    and "orchestrate_release plan client mock_router st w = (Inr res, w')"
    and "route_row (plan_project_id plan) (plan_environment plan) (db w) = None"
  shows "map_option rh_id
      (mock_active (router w') (plan_project_id plan, plan_environment plan))
    = Some (r_id (active_release res))"
  using assms by (rule mock.orchestrate_first_served)

theorem mock_first_release_served_witness:
  "map_option rh_id (mock_active (router (snd (demo_roll_out demo_orch_world))) (1, ''production''))
    = Some (r_id (active_release (projr (fst (demo_roll_out demo_orch_world)))))"
proof -
  have "route_row (plan_project_id demo_plan) (plan_environment demo_plan) (db demo_orch_world) = None"
    by (simp add: demo_orch_world_def demo_db_def empty_db_def route_row_def)
  from mock_first_release_served [OF demo_orch_inv demo_roll_out_runs this] show ?thesis
    by (simp add: demo_plan_def)
qed

text \<open>Every later roll-out ends with the installed router serving nothing for the project and
  environment, although the roll-out succeeds and the database routes to the new release:
  \<^verbatim>\<open>orchestrate_release\<close> removes the route of the previous release after it has activated the
  new one, and the router keys its routes by project and environment only.\<close>

theorem mock_switch_loses_route:
  assumes "release_inv (db w)"
    and "orchestrate_release plan client mock_router st w = (Inr res, w')"
    and "route_row (plan_project_id plan) (plan_environment plan) (db w) = Some a"
    and "lookup_by r_id (ar_active_release_id a) (releases (db w)) = Some p"
    and "r_project_id p = plan_project_id plan" and "r_environment p = plan_environment plan"
  shows "mock_active (router w') (plan_project_id plan, plan_environment plan) = None"
  using assms by (rule mock.orchestrate_second_unserved) (simp add: io_simps)

theorem mock_switch_loses_route_witness:
  "mock_active (router (snd (demo_roll_out demo_orch_world2))) (1, ''production'') = None"
proof -
  let ?row = "route_row (plan_project_id demo_plan) (plan_environment demo_plan) (db demo_orch_world2)"
  let ?rel = "lookup_by r_id (ar_active_release_id (the ?row)) (releases (db demo_orch_world2))"
  have row: "?row = Some (the ?row)" by code_simp
  have rel: "?rel = Some (the ?rel)" by code_simp
  have pe: "r_project_id (the ?rel) = plan_project_id demo_plan"
    "r_environment (the ?rel) = plan_environment demo_plan" by code_simp+
  from mock_switch_loses_route [OF demo_orch_inv2 demo_roll_out2_runs row rel pe] show ?thesis
    by (simp add: demo_plan_def)
qed

end
