(* ===== verification/Recovery.thy ===== *)
theory Recovery
  imports Orchestration
begin

text \<open>
  \<^verbatim>\<open>src/releases.rs\<close>, the recovery after a crash of the host: \<^verbatim>\<open>reconcile_crashed_releases\<close>
  and \<^verbatim>\<open>reconcile_crashed_releases_full\<close>, and the reachable states of the release tables.
\<close>

section \<open>Recovery after a crash\<close>

definition reconcile_target :: "ReleaseStatus \<Rightarrow> ReleaseStatus option" where
  "reconcile_target status =
     (case status of
        Starting \<Rightarrow> Some Failed
      | HealthChecking \<Rightarrow> Some Failed
      | Draining \<Rightarrow> Some Stopped
      | _ \<Rightarrow> None)"

definition reconcile_reason :: "ReleaseStatus \<Rightarrow> string" where
  "reconcile_reason status =
     (case status of
        Starting \<Rightarrow> ''reconciled failed: release interrupted in startup/health check during host crash''
      | HealthChecking \<Rightarrow> ''reconciled failed: release interrupted in startup/health check during host crash''
      | Draining \<Rightarrow> ''reconciled stopped: drain completed after host crash recovery''
      | _ \<Rightarrow> '''')"

text \<open>\<^verbatim>\<open>if let Ok(updated) = ... { reconciled.push(updated) }\<close>.\<close>

definition push_ok :: "'a list \<Rightarrow> ('z, 'a) op \<Rightarrow> ('z, 'a list) op" where
  "push_ok reconciled m =
     and_then (attempt m) (\<lambda>res. case res of
        Inr updated \<Rightarrow> ret (reconciled @ [updated]) | Inl e \<Rightarrow> ret reconciled)"

definition reconcile_row :: "Release \<Rightarrow> Release list \<Rightarrow> ('z, Release list) op" where
  "reconcile_row row reconciled =
     (case reconcile_target (r_status row) of
        None \<Rightarrow> ret reconciled
      | Some target \<Rightarrow>
          push_ok reconciled
            (transition (r_id row) (r_version row) target (Some (reconcile_reason (r_status row)))))"

definition crashed_rows :: "ReleaseStatus list \<Rightarrow> db \<Rightarrow> Release list" where
  "crashed_rows statuses d =
     order_by r_created_at (filter (\<lambda>r. r_status r \<in> set statuses) (releases d))"

definition reconcile_crashed_releases :: "('z, Release list) op" where
  "reconcile_crashed_releases =
     and_then (select_rows ''failed to query crashed releases''
                (crashed_rows [Starting, HealthChecking, Draining])) (\<lambda>rows.
     fold_io reconcile_row rows [])"

definition reconcile_full_target :: "ReleaseStatus \<Rightarrow> bool \<Rightarrow> (ReleaseStatus \<times> string) option" where
  "reconcile_full_target status is_active_route =
     (case status of
        Starting \<Rightarrow> Some (Failed,
          ''reconciled failed: release interrupted in startup/health check during host crash'')
      | HealthChecking \<Rightarrow> Some (Failed,
          ''reconciled failed: release interrupted in startup/health check during host crash'')
      | Ready \<Rightarrow>
          if is_active_route
          then Some (Active, ''reconciled active: release was registered in active_routes'')
          else Some (Failed,
            ''reconciled failed: release was ready but never received traffic before host crash'')
      | Draining \<Rightarrow> Some (Stopped,
          ''reconciled stopped: drain completed after host crash recovery'')
      | _ \<Rightarrow> None)"

text \<open>Step 2: stop the container when the release ends; step 3: remove the route of a release
  that was draining.\<close>

definition stop_interrupted ::
  "'c ContainerStopper option \<Rightarrow> Release \<Rightarrow> ReleaseStatus \<Rightarrow> ('r, 'p, 'c, 'z, unit) orch" where
  "stop_interrupted container_stopper row target =
     (if target = Failed \<or> target = Stopped
      then (case (r_container_id row, container_stopper) of
              (Some cid, Some stop_container) \<Rightarrow> ignore (on_stopper (stop_container cid))
            | _ \<Rightarrow> ret ())
      else ret ())"

definition remove_drained_route ::
  "'r TrafficRouter option \<Rightarrow> Release \<Rightarrow> ('r, 'p, 'c, 'z, unit) orch" where
  "remove_drained_route router_ops row =
     (if r_status row = Draining
      then (case router_ops of
              Some ops \<Rightarrow>
                and_then (get_release (r_id row)) (\<lambda>rel.
                and_then (attempt (on_router (prepare ops rel))) (\<lambda>res.
                  case res of
                    Inr handle \<Rightarrow> ignore (on_router (remove ops handle))
                  | Inl (e :: error) \<Rightarrow> ret ()))
            | None \<Rightarrow> ret ())
      else ret ())"

definition reconcile_full_row ::
  "'c ContainerStopper option \<Rightarrow> 'r TrafficRouter option \<Rightarrow> Release \<Rightarrow> Release list \<Rightarrow>
   ('r, 'p, 'c, 'z, Release list) orch" where
  "reconcile_full_row container_stopper router_ops row reconciled =
     and_then (get_active_release (r_project_id row) (r_environment row)) (\<lambda>active.
       case reconcile_full_target (r_status row) (map_option r_id active = Some (r_id row)) of
         None \<Rightarrow> ret reconciled
       | Some (target, reason) \<Rightarrow>
           and_then (stop_interrupted container_stopper row target) (\<lambda>_.
           and_then (remove_drained_route router_ops row) (\<lambda>_.
           push_ok reconciled (transition (r_id row) (r_version row) target (Some reason)))))"

definition reconcile_crashed_releases_full ::
  "'c ContainerStopper option \<Rightarrow> 'r TrafficRouter option \<Rightarrow> ('r, 'p, 'c, 'z, Release list) orch" where
  "reconcile_crashed_releases_full container_stopper router_ops =
     and_then (select_rows ''failed to query crashed releases''
                (crashed_rows [Starting, HealthChecking, Ready, Draining])) (\<lambda>rows.
     fold_io (reconcile_full_row container_stopper router_ops) rows [])"

definition run_recovery ::
  "'c ContainerStopper option \<Rightarrow> 'r TrafficRouter option \<Rightarrow> ('r, 'p, 'c, 'z, Release list) orch" where
  "run_recovery = reconcile_crashed_releases_full"

lemma push_ok_keeps [keeps_intros]: "keeps_db I m \<Longrightarrow> keeps_db I (push_ok acc m)"
  unfolding push_ok_def by (intro keeps_intros)

lemma reconcile_keeps_inv [keeps_intros]: "keeps_db release_inv reconcile_crashed_releases"
  unfolding reconcile_crashed_releases_def reconcile_row_def by (intro keeps_intros)

lemma reconcile_full_keeps_inv [keeps_intros]:
  "keeps_db release_inv (reconcile_crashed_releases_full st rt)"
  unfolding reconcile_crashed_releases_full_def reconcile_full_row_def stop_interrupted_def
    remove_drained_route_def
  by (intro keeps_intros)

lemmas release_ops_keep = create_release_keeps_inv transition_keeps_inv activate_traffic_keeps_inv
  orchestrate_release_keeps_inv reconcile_keeps_inv reconcile_full_keeps_inv

section \<open>Reachable states\<close>

inductive release_step ::
  "('r, 'p, 'c, 'z) orch_world_scheme \<Rightarrow> ('r, 'p, 'c, 'z) orch_world_scheme \<Rightarrow> bool" where
  step_create: "release_step w (snd (create_release dep proj e c p u w))"
| step_transition: "release_step w (snd (transition rid v target reason w))"
| step_activate: "release_step w (snd (activate_traffic ops rel w))"
| step_orchestrate: "release_step w (snd (orchestrate_release plan client ops st w))"
| step_reconcile: "release_step w (snd (reconcile_crashed_releases w))"
| step_recovery: "release_step w (snd (run_recovery stop rout w))"
| step_other: "releases (db w') = releases (db w) \<Longrightarrow>
    release_transitions (db w') = release_transitions (db w) \<Longrightarrow>
    active_routes (db w') = active_routes (db w) \<Longrightarrow> release_step w w'"

inductive release_reach :: "('r, 'p, 'c, 'z) orch_world_scheme \<Rightarrow> bool" where
  reach_init: "releases (db w) = [] \<Longrightarrow> release_transitions (db w) = [] \<Longrightarrow>
    active_routes (db w) = [] \<Longrightarrow> release_reach w"
| reach_step: "release_reach w \<Longrightarrow> release_step w w' \<Longrightarrow> release_reach w'"

lemma release_inv_cong:
  assumes "releases d' = releases d" and "release_transitions d' = release_transitions d"
    and "active_routes d' = active_routes d"
  shows "release_inv d' = release_inv d"
proof -
  have "release_row_ok d' = release_row_ok d" and "transition_row_ok d' = transition_row_ok d"
    using assms by (simp_all add: fun_eq_iff release_row_ok_def transition_row_ok_def history_def)
  with assms show ?thesis by (simp add: release_inv_def)
qed

lemma release_step_inv: "release_step w w' \<Longrightarrow> release_inv (db w) \<Longrightarrow> release_inv (db w')"
proof (induction rule: release_step.induct)
  case (step_other w' w)
  with release_inv_cong [OF step_other.hyps] show ?case by blast
qed (unfold run_recovery_def, (rule keeps_dbD, rule release_ops_keep, assumption)+)

lemma release_reach_inv: "release_reach w \<Longrightarrow> release_inv (db w)"
proof (induction rule: release_reach.induct)
  case (reach_init w)
  then show ?case by (simp add: release_inv_def)
qed (rule release_step_inv)

text \<open>C10. In every state that a sequence of release operations reaches from empty tables (any
  interleaving of creations, transitions, activations, roll-outs and recoveries, with any failures)
  a release has a version between 1 and 6 and a history of at most five records, each an edge of the
  status graph: no release goes round in circles.\<close>

theorem release_lifecycle_bounded:
  assumes "release_reach w" and "r \<in> set (releases (db w))"
  shows "1 \<le> r_version r \<and> r_version r \<le> 6 \<and> length (history (r_id r) (db w)) \<le> 5
     \<and> list_all (\<lambda>t. can_transition_to (t_from_status t) (t_to_status t)) (history (r_id r) (db w))"
proof -
  from assms(1) have inv: "release_inv (db w)" by (rule release_reach_inv)
  with assms(2) have "1 + int (length (history (r_id r) (db w))) \<le> r_version r"
    "r_version r \<le> 1 + int (status_rank (r_status r))"
    by (auto simp: release_inv_def list_all_iff release_row_ok_def)
  with status_rank_le [of "r_status r"] inv show ?thesis
    by (auto simp: release_inv_def list_all_iff history_def transition_row_ok_def)
qed

lemma keeps_env_devices [keeps_intros]:
  "keeps (\<lambda>w. P (env w)) (on_router m)" "keeps (\<lambda>w. P (env w)) (on_prober m')"
  "keeps (\<lambda>w. P (env w)) (on_stopper m'')"
  by (simp_all add: keeps_def on_router_def on_prober_def on_stopper_def)

section \<open>Recovery\<close>

definition unsettled :: "ReleaseStatus set \<Rightarrow> Release list \<Rightarrow> 'z world_scheme \<Rightarrow> bool" where
  "unsettled S rows w \<longleftrightarrow> no_db_faults w \<and> release_inv (db w)
     \<and> (\<forall>r\<in>set rows. r \<in> set (releases (db w)) \<and> r_status r \<in> S)
     \<and> distinct (map r_id rows)
     \<and> (\<forall>r\<in>set (releases (db w)). r_status r \<in> S \<longrightarrow> r \<in> set rows)"

lemma distinct_crashed_rows:
  "release_inv d \<Longrightarrow> distinct (map r_id (crashed_rows S d))"
  by (auto simp: crashed_rows_def order_by_def release_inv_def distinct_map intro: inj_on_subset)

lemma unsettled_start:
  "no_db_faults w \<Longrightarrow> release_inv (db w) \<Longrightarrow> unsettled (set S) (crashed_rows S (db w)) w"
  by (auto simp: unsettled_def distinct_crashed_rows) (auto simp: crashed_rows_def)

lemma unsettled_cong:
  "unsettled S rows w \<Longrightarrow> db w' = db w \<Longrightarrow> env w' = env w \<Longrightarrow> unsettled S rows w'"
  by (simp add: unsettled_def no_db_faults_def)

lemma unsettled_transition:
  assumes u: "unsettled S (row # rows) w" and can: "can_transition_to (r_status row) target"
    and out: "target \<notin> S"
  shows "unsettled S rows (snd (transition (r_id row) (r_version row) target reason w))"
proof -
  let ?w = "snd (transition (r_id row) (r_version row) target reason w)"
  from u have nf: "no_db_faults w" and inv: "release_inv (db w)"
    and row: "row \<in> set (releases (db w))" by (auto simp: unsettled_def)
  from inv row have cur: "lookup_by r_id (r_id row) (releases (db w)) = Some row"
    by (auto simp: release_inv_def lookup_by_unique)
  from transition_moves [OF nf inv cur can refl] obtain now where
    upd: "releases (db ?w) = update_where (cas_match (r_id row) (r_version row))
       (cas_set target now) (releases (db w))" by (auto simp: cas_db_def)
  have match: "cas_match (r_id row) (r_version row) r \<longleftrightarrow> r = row" if "r \<in> set (releases (db w))" for r
  proof
    assume "cas_match (r_id row) (r_version row) r"
    then show "r = row" using inv cur that by (intro cas_row) (auto simp: release_inv_def)
  qed (simp add: cas_match_def)
  have "no_db_faults ?w"
    using keeps_snd [OF transition_env [where P = "\<lambda>e. \<forall>n. \<not> env_db_fault e n"]] nf
    by (simp add: no_db_faults_def)
  moreover have "release_inv (db ?w)" by (rule keeps_dbD [OF transition_keeps_inv inv])
  moreover have "r \<in> set (releases (db ?w)) \<and> r_status r \<in> S" if "r \<in> set rows" for r
  proof -
    from that u have "r \<in> set (releases (db w))" "r_status r \<in> S" "r \<noteq> row"
      by (auto simp: unsettled_def)
    with match show ?thesis unfolding upd set_update_where by (auto intro: image_eqI [of _ _ r])
  qed
  moreover have "r \<in> set rows" if "r \<in> set (releases (db ?w))" "r_status r \<in> S" for r
    using that u out match unfolding upd set_update_where
    by (auto simp: unsettled_def split: if_splits)
  ultimately show ?thesis using u by (auto simp: unsettled_def)
qed

lemma push_ok_run: "\<exists>acc'. push_ok acc m w = (Inr acc', snd (m w))"
  by (auto simp: push_ok_def io_simps split: sum.split)

lemma unsettled_head:
  "unsettled S (row # rows) w \<Longrightarrow> r_status row \<in> S"
  by (simp add: unsettled_def)

lemma reconcile_row_settles:
  assumes u: "unsettled {Starting, HealthChecking, Draining} (row # rows) w"
  shows "\<exists>acc' w'. reconcile_row row acc w = (Inr acc', w')
    \<and> unsettled {Starting, HealthChecking, Draining} rows w'"
proof -
  from unsettled_head [OF u] obtain target where
    t: "reconcile_target (r_status row) = Some target" "can_transition_to (r_status row) target"
      "target \<notin> {Starting, HealthChecking, Draining}"
    by (auto simp: reconcile_target_def)
  with unsettled_transition [OF u t(2,3)] push_ok_run show ?thesis
    by (simp add: reconcile_row_def) blast
qed

lemma unsettled_done: "unsettled S [] w \<Longrightarrow> list_all (\<lambda>r. r_status r \<notin> S) (releases (db w))"
  by (auto simp: unsettled_def list_all_iff)

text \<open>The recovery of the release table ends without an error and leaves no release in status
  Starting, HealthChecking or Draining.\<close>

theorem reconcile_settles:
  assumes "no_db_faults w" and "release_inv (db w)"
  shows "\<exists>rs w'. reconcile_crashed_releases w = (Inr rs, w')
    \<and> list_all (\<lambda>r. r_status r \<notin> {Starting, HealthChecking, Draining}) (releases (db w'))"
proof -
  let ?S = "[Starting, HealthChecking, Draining]"
  let ?w = "w\<lparr>tick := Suc (tick w)\<rparr>"
  have "unsettled (set ?S) (crashed_rows ?S (db w)) ?w"
    using unsettled_start [OF assms] by (rule unsettled_cong) simp_all
  from fold_io_rule [where J = "unsettled (set ?S)" and f = reconcile_row, OF _ this, of "[]"]
  show ?thesis
    using reconcile_row_settles unsettled_done
    by (fastforce simp: reconcile_crashed_releases_def io_simps assms(1))
qed

lemma get_active_release_total:
  assumes "no_db_faults w" and "release_inv (db w)"
  obtains active where "get_active_release p e w = (Inr active, snd (get_active_release p e w))"
    "env (snd (get_active_release p e w)) = env w" "db (snd (get_active_release p e w)) = db w"
proof (cases "route_row p e (db w)")
  case None
  show thesis
    by (rule that [of None]) (simp_all add: get_active_release_def io_simps assms(1) None)
next
  case (Some a)
  from route_target_exists [OF assms(2) Some] obtain r where
    "lookup_by r_id (ar_active_release_id a) (releases (db w)) = Some r" .
  then show thesis
    by (intro that [of "Some r"])
      (simp_all add: get_active_release_def get_release_def io_simps assms(1) Some)
qed

lemma reconcile_full_target_total:
  assumes "status \<in> {Starting, HealthChecking, Ready, Draining}"
  obtains target reason where "reconcile_full_target status b = Some (target, reason)"
    "can_transition_to status target" "target \<notin> {Starting, HealthChecking, Ready, Draining}"
  using assms by (cases status; cases b) (simp_all add: reconcile_full_target_def)

lemma stop_interrupted_run:
  "\<exists>w'. stop_interrupted st row target w = (Inr (), w') \<and> db w' = db w \<and> env w' = env w"
  by (auto simp: stop_interrupted_def io_simps on_device_run split: option.split)

lemma remove_drained_route_run:
  assumes "no_db_faults w" and "release_inv (db w)" and "row \<in> set (releases (db w))"
  shows "\<exists>w'. remove_drained_route rt row w = (Inr (), w') \<and> db w' = db w \<and> env w' = env w"
proof -
  have "lookup_by r_id (r_id row) (releases (db w)) = Some row"
    using assms by (auto simp: release_inv_def lookup_by_unique)
  with assms(1) show ?thesis
    by (auto simp: remove_drained_route_def io_simps on_device_run get_release_def
        split: option.split sum.split)
qed

lemma reconcile_full_row_settles:
  fixes w :: "('r, 'p, 'c, 'z) orch_world_scheme"
  defines "S \<equiv> {Starting, HealthChecking, Ready, Draining}"
  assumes u: "unsettled S (row # rows) w"
  shows "\<exists>acc' w'. reconcile_full_row st rt row acc w = (Inr acc', w') \<and> unsettled S rows w'"
proof -
  from u have nf: "no_db_faults w" and inv: "release_inv (db w)"
    and row: "row \<in> set (releases (db w))" by (auto simp: unsettled_def)
  obtain active where g: "get_active_release (r_project_id row) (r_environment row) w =
      (Inr active, snd (get_active_release (r_project_id row) (r_environment row) w))"
    and gw: "env (snd (get_active_release (r_project_id row) (r_environment row) w)) = env w"
      "db (snd (get_active_release (r_project_id row) (r_environment row) w)) = db w"
    by (rule get_active_release_total [OF nf inv])
  let ?w1 = "snd (get_active_release (r_project_id row) (r_environment row) w)"
  let ?b = "map_option r_id active = Some (r_id row)"
  obtain target reason where
    t: "reconcile_full_target (r_status row) ?b = Some (target, reason)"
      "can_transition_to (r_status row) target" "target \<notin> S"
    using reconcile_full_target_total [OF unsettled_head [OF u, unfolded S_def], of ?b]
    unfolding S_def by blast
  obtain w2 where w2: "stop_interrupted st row target ?w1 = (Inr (), w2)" "db w2 = db w" "env w2 = env w"
    using gw stop_interrupted_run by metis
  obtain w3 where w3: "remove_drained_route rt row w2 = (Inr (), w3)" "db w3 = db w" "env w3 = env w"
    using nf inv row w2 remove_drained_route_run [of w2 row rt] by (auto simp: no_db_faults_def)
  from unsettled_cong [OF u w3(2,3)] t(2,3)
  have "unsettled S rows (snd (transition (r_id row) (r_version row) target (Some reason) w3))"
    by (rule unsettled_transition)
  moreover have "reconcile_full_row st rt row acc w =
      push_ok acc (transition (r_id row) (r_version row) target (Some reason)) w3"
    unfolding reconcile_full_row_def and_then_run [of "get_active_release _ _"]
    by (subst g) (simp add: t(1) and_then_run w2(1) w3(1) del: map_option_eq_Some)
  ultimately show ?thesis using push_ok_run by metis
qed

text \<open>C11. When no call of PostgreSQL fails and the releases satisfy their invariant, the full recovery ends without
  an error, whatever the router and the container stopper answer, and leaves no release in status Starting,
  HealthChecking, Ready or Draining.\<close>

theorem reconcile_full_settles:
  assumes "no_db_faults w" and "release_inv (db w)"
  shows "\<exists>rs w'. run_recovery st rt w = (Inr rs, w')
    \<and> list_all (\<lambda>r. r_status r \<notin> {Starting, HealthChecking, Ready, Draining}) (releases (db w'))"
proof -
  let ?S = "[Starting, HealthChecking, Ready, Draining]"
  let ?w = "w\<lparr>tick := Suc (tick w)\<rparr>"
  have "unsettled (set ?S) (crashed_rows ?S (db w)) ?w"
    using unsettled_start [OF assms] by (rule unsettled_cong) simp_all
  from fold_io_rule [where J = "unsettled (set ?S)" and f = "reconcile_full_row st rt", OF _ this, of "[]"]
  show ?thesis
    using reconcile_full_row_settles [of _ _ _ st rt] unsettled_done
    by (fastforce simp: run_recovery_def reconcile_crashed_releases_full_def io_simps assms(1))
qed

section \<open>A crash during the roll-out\<close>

definition demo_crashed_world ::
  "(MockTrafficRouter, MockHealthProbeClient, string list) orch_world" where
  "demo_crashed_world =
     snd (create_release 3 1 ''production'' (Some ''c'') None None demo_orch_world)"

lemma demo_crashed:
  "no_db_faults demo_crashed_world" "release_inv (db demo_crashed_world)"
proof -
  have "env demo_crashed_world = demo_env"
    by (simp add: demo_crashed_world_def create_release_def Let_def io_simps demo_orch_world_def)
  then show "no_db_faults demo_crashed_world" by simp
  show "release_inv (db demo_crashed_world)" by code_simp
qed

theorem reconcile_settles_witness:
  "\<exists>rs w'. reconcile_crashed_releases demo_crashed_world = (Inr rs, w')
    \<and> list_all (\<lambda>r. r_status r \<notin> {Starting, HealthChecking, Draining}) (releases (db w'))"
  by (rule reconcile_settles [OF demo_crashed])

theorem reconcile_full_settles_witness:
  "\<exists>rs w'. run_recovery (Some mock_stop_container) (Some mock_router) demo_crashed_world = (Inr rs, w')
    \<and> list_all (\<lambda>r. r_status r \<notin> {Starting, HealthChecking, Ready, Draining}) (releases (db w'))"
  by (rule reconcile_full_settles [OF demo_crashed])

theorem release_lifecycle_bounded_witness:
  "\<exists>r\<in>set (releases (db demo_crashed_world)). 1 \<le> r_version r \<and> r_version r \<le> 6"
proof -
  have "release_reach demo_orch_world"
    by (rule reach_init) (simp_all add: demo_orch_world_def demo_db_def empty_db_def)
  then have reach: "release_reach demo_crashed_world"
    unfolding demo_crashed_world_def by (rule reach_step) (rule step_create)
  have "releases (db demo_crashed_world) \<noteq> []" by code_simp
  then obtain r where "r \<in> set (releases (db demo_crashed_world))"
    by (meson last_in_set)
  with release_lifecycle_bounded [OF reach this] show ?thesis by blast
qed

end
