(* ===== verification/Queue.thy ===== *)
theory Queue
  imports Schema Strings
begin

text \<open>
  \<^verbatim>\<open>src/queue.rs\<close>: the queue of build jobs.  PostgreSQL holds the jobs and their leases, Redis
  streams only carry notifications: every decision is taken by a conditional \<^verbatim>\<open>UPDATE\<close> of the job
  row.  The replies of Redis are arbitrary, so that lost, repeated and made-up messages are
  covered.  \<^verbatim>\<open>Uuid::parse_str\<close> of the \<^verbatim>\<open>uuid\<close> crate is the parameter \<open>parse_uuid\<close>.
\<close>

section \<open>Priorities and statuses\<close>

fun JobPriority_as_str :: "JobPriority \<Rightarrow> string" where
  "JobPriority_as_str Production = ''production''"
| "JobPriority_as_str Preview = ''preview''"

definition JobPriority_from_str :: "string \<Rightarrow> error + JobPriority" where
  "JobPriority_from_str s =
     (if s = ''production'' then Inr Production
      else if s = ''preview'' then Inr Preview
      else Inl (InvalidJobPriority s))"

fun JobStatus_as_str :: "JobStatus \<Rightarrow> string" where
  "JobStatus_as_str JobQueued = ''queued''"
| "JobStatus_as_str JobRunning = ''running''"
| "JobStatus_as_str JobCompleted = ''completed''"
| "JobStatus_as_str JobFailed = ''failed''"
| "JobStatus_as_str JobCancelled = ''cancelled''"

definition JobStatus_from_str :: "string \<Rightarrow> error + JobStatus" where
  "JobStatus_from_str s =
     (if s = ''queued'' then Inr JobQueued
      else if s = ''running'' then Inr JobRunning
      else if s = ''completed'' then Inr JobCompleted
      else if s = ''failed'' then Inr JobFailed
      else if s = ''cancelled'' then Inr JobCancelled
      else Inl (InvalidJobStatus s))"

section \<open>The queue\<close>

record EnqueueJobInput =
  in_deployment_id :: uuid
  in_project_id :: uuid
  in_priority :: JobPriority
  in_max_attempts :: int
  in_force_rebuild :: bool

record ClaimedJob =
  cj_job :: BuildJobRecord
  cj_attempt_number :: int
  cj_stream_name :: string
  cj_stream_id :: string

text \<open>The immutable fields of \<^verbatim>\<open>BuildQueue\<close>; the shared counter of production claims is a field
  of the world, as a 64-bit \<^verbatim>\<open>usize\<close>.\<close>

record BuildQueue =
  consumer_group :: string
  stream_prefix :: string

record queue_world = world +
  prod_claims_counter :: u64

type_synonym ('z, 'a) qop = "('z queue_world_scheme, error, 'a) io"

definition prod_stream :: "BuildQueue \<Rightarrow> string" where
  "prod_stream q = stream_prefix q @ '':production''"

definition preview_stream :: "BuildQueue \<Rightarrow> string" where
  "preview_stream q = stream_prefix q @ '':preview''"

definition stream_of :: "BuildQueue \<Rightarrow> JobPriority \<Rightarrow> string" where
  "stream_of q p = (case p of Production \<Rightarrow> prod_stream q | Preview \<Rightarrow> preview_stream q)"

definition ensure_groups :: "BuildQueue \<Rightarrow> ('z, unit) op" where
  "ensure_groups q =
     and_then redis_connect (\<lambda>_.
     fold_io (\<lambda>stream _. ignore (redis_send ''XGROUP'' (XGROUP_CREATE stream (consumer_group q))))
       [prod_stream q, preview_stream q] ())"

definition with_prefix :: "string \<Rightarrow> string \<Rightarrow> ('z, BuildQueue) qop" where
  "with_prefix cgroup prefix =
     (let q = \<lparr>consumer_group = cgroup, stream_prefix = prefix\<rparr>
      in and_then (modify (\<lambda>w. w\<lparr>prod_claims_counter := 0\<rparr>)) (\<lambda>_.
         and_then (ensure_groups q) (\<lambda>_. ret q)))"

definition new_queue :: "string \<Rightarrow> ('z, BuildQueue) qop" where
  "new_queue cgroup = with_prefix cgroup ''build_jobs''"

section \<open>Enqueue\<close>

definition get_job :: "uuid \<Rightarrow> ('z, BuildJobRecord option) op" where
  "get_job job_id = select_rows ''failed to get build job'' (\<lambda>d. lookup_by j_id job_id (build_jobs d))"

definition get_job_by_deployment :: "uuid \<Rightarrow> ('z, BuildJobRecord option) op" where
  "get_job_by_deployment deployment_id =
     select_rows ''failed to get build job by deployment''
       (\<lambda>d. lookup_by j_deployment_id deployment_id (build_jobs d))"

definition new_job :: "BuildQueue \<Rightarrow> EnqueueJobInput \<Rightarrow> uuid \<Rightarrow> timestamp \<Rightarrow> BuildJobRecord" where
  "new_job q input job_id now =
     \<lparr>j_id = job_id, j_deployment_id = in_deployment_id input, j_project_id = in_project_id input,
      j_queue_name = stream_prefix q, j_priority = in_priority input, j_status = JobQueued,
      j_attempt = 0, j_max_attempts = in_max_attempts input,
      j_force_rebuild = in_force_rebuild input, j_lease_owner = None, j_lease_expires_at = None,
      j_last_error = None, j_created_at = now, j_updated_at = now\<rparr>"

text \<open>\<^verbatim>\<open>INSERT ... ON CONFLICT (deployment_id) DO NOTHING RETURNING\<close>: \<open>None\<close> when the deployment
  has a job; otherwise the primary key and the foreign keys apply.\<close>

definition insert_job :: "BuildJobRecord \<Rightarrow> db \<Rightarrow> (error + BuildJobRecord option) \<times> db" where
  "insert_job job d =
     (if has_key j_deployment_id (j_deployment_id job) (build_jobs d) then (Inr None, d)
      else if has_key j_id (j_id job) (build_jobs d)
              \<or> \<not> has_key d_id (j_deployment_id job) (deployments d)
              \<or> \<not> has_key p_id (j_project_id job) (projects d)
      then (Inl (Database ''failed to insert build job''), d)
      else (Inr (Some job), d\<lparr>build_jobs := build_jobs d @ [job]\<rparr>))"

definition set_deployment :: "uuid \<Rightarrow> (Deployment \<Rightarrow> Deployment) \<Rightarrow> ('z, unit) op" where
  "set_deployment deployment_id f =
     ignore (execute ''update deployments''
       (\<lambda>d. d\<lparr>deployments := update_where (\<lambda>r. d_id r = deployment_id) f (deployments d)\<rparr>) :: ('z, unit) op)"

definition enqueue :: "BuildQueue \<Rightarrow> EnqueueJobInput \<Rightarrow> ('z, BuildJobRecord) op" where
  "enqueue q input =
     and_then now_utc (\<lambda>now.
     and_then uuid_new_v4 (\<lambda>job_id.
     and_then (statement ''failed to insert build job'' (insert_job (new_job q input job_id now)))
     (\<lambda>row_opt. case row_opt of
        Some rec \<Rightarrow>
          and_then redis_connect (\<lambda>_.
          and_then (redis_send ''failed to XADD job to redis''
                     (XADD (stream_of q (j_priority rec)) (j_id rec) (j_deployment_id rec))) (\<lambda>_.
          and_then (set_deployment (j_deployment_id rec) (\<lambda>r. r\<lparr>d_status := DepQueued\<rparr>)) (\<lambda>_.
          ret rec)))
      | None \<Rightarrow>
          and_then (get_job_by_deployment (in_deployment_id input))
            (of_option (Message ''job existed but could not be loaded'')))))"

definition enqueue_job ::
  "BuildQueue \<Rightarrow> uuid \<Rightarrow> uuid \<Rightarrow> JobPriority \<Rightarrow> ('z, BuildJobRecord) op" where
  "enqueue_job q deployment_id project_id priority =
     enqueue q \<lparr>in_deployment_id = deployment_id, in_project_id = project_id,
       in_priority = priority, in_max_attempts = 3, in_force_rebuild = False\<rparr>"

definition enqueue_job_with_force_rebuild ::
  "BuildQueue \<Rightarrow> uuid \<Rightarrow> uuid \<Rightarrow> JobPriority \<Rightarrow> bool \<Rightarrow> ('z, BuildJobRecord) op" where
  "enqueue_job_with_force_rebuild q deployment_id project_id priority force_rebuild =
     enqueue q \<lparr>in_deployment_id = deployment_id, in_project_id = project_id,
       in_priority = priority, in_max_attempts = 3, in_force_rebuild = force_rebuild\<rparr>"

section \<open>Messages\<close>

text \<open>\<^verbatim>\<open>parse_xreadgroup_entry\<close>: the first pair \<open>(job_id, <uuid>)\<close> of the first message that has
  one.  A loop over a list is a recursion that goes on where the source says \<^verbatim>\<open>continue\<close>.\<close>

fun parse_fields :: "(string \<Rightarrow> uuid option) \<Rightarrow> redis_value list \<Rightarrow> uuid option" where
  "parse_fields parse_uuid (k # v # rest) =
     (case (k, v) of
        (Data k, Data v) \<Rightarrow>
          if k = ''job_id'' \<and> valid_utf8 v
          then (case parse_uuid v of Some job_id \<Rightarrow> Some job_id | None \<Rightarrow> parse_fields parse_uuid rest)
          else parse_fields parse_uuid rest
      | _ \<Rightarrow> parse_fields parse_uuid rest)"
| "parse_fields parse_uuid _ = None"

fun parse_messages :: "(string \<Rightarrow> uuid option) \<Rightarrow> redis_value list \<Rightarrow> (string \<times> uuid) option" where
  "parse_messages parse_uuid [] = None"
| "parse_messages parse_uuid (msg # rest) =
     (case msg of
        Bulk (Data stream_id # Bulk kvs # _) \<Rightarrow>
          (case parse_fields parse_uuid kvs of
             Some job_id \<Rightarrow> Some (from_utf8_lossy stream_id, job_id)
           | None \<Rightarrow> parse_messages parse_uuid rest)
      | _ \<Rightarrow> parse_messages parse_uuid rest)"

fun parse_streams :: "(string \<Rightarrow> uuid option) \<Rightarrow> redis_value list \<Rightarrow> (string \<times> uuid) option" where
  "parse_streams parse_uuid [] = None"
| "parse_streams parse_uuid (entry # rest) =
     (case entry of
        Bulk (_ # Bulk messages # _) \<Rightarrow>
          (case parse_messages parse_uuid messages of
             Some found \<Rightarrow> Some found
           | None \<Rightarrow> parse_streams parse_uuid rest)
      | _ \<Rightarrow> parse_streams parse_uuid rest)"

definition parse_xreadgroup_entry ::
  "(string \<Rightarrow> uuid option) \<Rightarrow> redis_value \<Rightarrow> (string \<times> uuid) option" where
  "parse_xreadgroup_entry parse_uuid val =
     (case val of Bulk streams \<Rightarrow> parse_streams parse_uuid streams | _ \<Rightarrow> None)"

section \<open>Claim\<close>

text \<open>The conditional update that takes the lease.\<close>

definition claimable :: "uuid \<Rightarrow> BuildJobRecord \<Rightarrow> bool" where
  "claimable job_id j \<longleftrightarrow>
     j_id j = job_id \<and> (j_status j = JobQueued \<or> j_status j = JobFailed)
     \<and> j_attempt j < j_max_attempts j"

definition lease_job :: "string \<Rightarrow> timestamp \<Rightarrow> timestamp \<Rightarrow> BuildJobRecord \<Rightarrow> BuildJobRecord" where
  "lease_job worker_id lease_expires_at now j =
     j\<lparr>j_status := JobRunning, j_attempt := j_attempt j + 1, j_lease_owner := Some worker_id,
       j_lease_expires_at := Some lease_expires_at, j_updated_at := now\<rparr>"

definition attempt_insert_ok :: "BuildAttempt \<Rightarrow> db \<Rightarrow> bool" where
  "attempt_insert_ok a d \<longleftrightarrow>
     \<not> has_key a_id (a_id a) (build_attempts d)
     \<and> \<not> has_key (\<lambda>b. (a_job_id b, a_attempt_number b)) (a_job_id a, a_attempt_number a)
          (build_attempts d)
     \<and> has_key j_id (a_job_id a) (build_jobs d)"

definition new_attempt :: "uuid \<Rightarrow> BuildJobRecord \<Rightarrow> string \<Rightarrow> timestamp \<Rightarrow> BuildAttempt" where
  "new_attempt attempt_id job worker_id now =
     \<lparr>a_id = attempt_id, a_job_id = j_id job, a_attempt_number = j_attempt job,
      a_worker_id = worker_id, a_status = AttRunning, a_error_message = None,
      a_started_at = now, a_finished_at = None\<rparr>"

definition record_attempt :: "BuildJobRecord \<Rightarrow> string \<Rightarrow> timestamp \<Rightarrow> ('z, unit) op" where
  "record_attempt job worker_id now =
     and_then uuid_new_v4 (\<lambda>attempt_id.
       let a = new_attempt attempt_id job worker_id now
       in ignore (insert_row ''insert build attempt'' (attempt_insert_ok a)
                   (\<lambda>d. d\<lparr>build_attempts := build_attempts d @ [a]\<rparr>) :: ('z, unit) op))"

definition take_lease ::
  "uuid \<Rightarrow> string \<Rightarrow> timestamp \<Rightarrow> timestamp \<Rightarrow> ('z, BuildJobRecord option) op" where
  "take_lease job_id worker_id lease_expires_at now =
     statement ''failed to claim job in postgres'' (\<lambda>d.
       let P = claimable job_id; f = lease_job worker_id lease_expires_at now
       in (Inr (first_row (returning P f (build_jobs d))),
           d\<lparr>build_jobs := update_where P f (build_jobs d)\<rparr>))"

text \<open>One iteration of the loop over the streams, after the read; \<open>continue\<close> is the rest of the
  loop.\<close>

definition claim_reply ::
  "(string \<Rightarrow> uuid option) \<Rightarrow> BuildQueue \<Rightarrow> string \<Rightarrow> int \<Rightarrow> string \<Rightarrow>
   ('z, ClaimedJob option) qop \<Rightarrow> error + redis_value \<Rightarrow> ('z, ClaimedJob option) qop" where
  "claim_reply parse_uuid q worker_id lease_duration stream continue res =
     (case (case res of Inr val \<Rightarrow> parse_xreadgroup_entry parse_uuid val | Inl _ \<Rightarrow> None) of
        None \<Rightarrow> continue
      | Some (stream_id, job_id) \<Rightarrow>
          and_then now_utc (\<lambda>now.
          and_then (take_lease job_id worker_id (now + lease_duration) now) (\<lambda>row_opt.
          case row_opt of
            Some record \<Rightarrow>
              and_then (record_attempt record worker_id now) (\<lambda>_.
              and_then (set_deployment (j_deployment_id record)
                         (\<lambda>r. r\<lparr>d_status := DepBuilding\<rparr>)) (\<lambda>_.
              and_then (modify (\<lambda>w. if stream = prod_stream q
                         then w\<lparr>prod_claims_counter := prod_claims_counter w + 1\<rparr> else w)) (\<lambda>_.
              ret (Some \<lparr>cj_job = record, cj_attempt_number = j_attempt record,
                         cj_stream_name = stream, cj_stream_id = stream_id\<rparr>))))
          | None \<Rightarrow>
              and_then (ignore (redis_send ''XACK'' (XACK stream (consumer_group q) stream_id)
                         :: ('z, unit) qop)) (\<lambda>_.
              continue))))"

primrec claim_from ::
  "(string \<Rightarrow> uuid option) \<Rightarrow> BuildQueue \<Rightarrow> string \<Rightarrow> int \<Rightarrow> string list \<Rightarrow>
   ('z, ClaimedJob option) qop" where
  "claim_from parse_uuid q worker_id lease_duration [] = ret None"
| "claim_from parse_uuid q worker_id lease_duration (stream # streams) =
     and_then (attempt (redis_read ''XREADGROUP'' (XREADGROUP stream (consumer_group q) worker_id)
                 :: ('z, redis_value) qop))
       (claim_reply parse_uuid q worker_id lease_duration stream
         (claim_from parse_uuid q worker_id lease_duration streams))"

text \<open>Three production claims, then the preview stream is asked first.\<close>

definition claim ::
  "(string \<Rightarrow> uuid option) \<Rightarrow> BuildQueue \<Rightarrow> string \<Rightarrow> int \<Rightarrow> ('z, ClaimedJob option) qop" where
  "claim parse_uuid q worker_id lease_duration =
     and_then (gets prod_claims_counter) (\<lambda>count.
     and_then (if 3 \<le> count then modify (\<lambda>w. w\<lparr>prod_claims_counter := 0\<rparr>) else ret ()) (\<lambda>_.
     let streams = (if 3 \<le> count then [preview_stream q, prod_stream q]
                    else [prod_stream q, preview_stream q])
     in and_then redis_connect (\<lambda>_.
        claim_from parse_uuid q worker_id lease_duration streams)))"

section \<open>Lease, completion, failure\<close>

definition update_jobs ::
  "string \<Rightarrow> (BuildJobRecord \<Rightarrow> bool) \<Rightarrow> (BuildJobRecord \<Rightarrow> BuildJobRecord) \<Rightarrow> ('z, nat) op" where
  "update_jobs context P f =
     statement context (\<lambda>d. (Inr (count_where P (build_jobs d)),
       d\<lparr>build_jobs := update_where P f (build_jobs d)\<rparr>))"

definition held_by :: "uuid \<Rightarrow> string \<Rightarrow> BuildJobRecord \<Rightarrow> bool" where
  "held_by job_id worker_id j \<longleftrightarrow> j_id j = job_id \<and> j_lease_owner j = Some worker_id"

definition release_job ::
  "JobStatus \<Rightarrow> string option \<Rightarrow> timestamp \<Rightarrow> BuildJobRecord \<Rightarrow> BuildJobRecord" where
  "release_job status err now j =
     j\<lparr>j_status := status, j_lease_owner := None, j_lease_expires_at := None,
       j_last_error := (case err of Some e \<Rightarrow> Some e | None \<Rightarrow> j_last_error j), j_updated_at := now\<rparr>"

definition close_attempts ::
  "uuid \<Rightarrow> string \<Rightarrow> AttemptStatus \<Rightarrow> string option \<Rightarrow> timestamp \<Rightarrow> ('z, unit) op" where
  "close_attempts job_id worker_id status err now =
     ignore (execute ''update build_attempts'' (\<lambda>d. d\<lparr>build_attempts :=
       update_where (\<lambda>a. a_job_id a = job_id \<and> a_worker_id a = worker_id \<and> a_status a = AttRunning)
         (\<lambda>a. a\<lparr>a_status := status, a_finished_at := Some now,
                a_error_message := (case err of Some e \<Rightarrow> Some e | None \<Rightarrow> a_error_message a)\<rparr>)
         (build_attempts d)\<rparr>) :: ('z, unit) op)"

definition renew :: "uuid \<Rightarrow> string \<Rightarrow> int \<Rightarrow> ('z, bool) op" where
  "renew job_id worker_id lease_duration =
     and_then now_utc (\<lambda>now.
     and_then (update_jobs ''failed to renew lease in postgres''
                (\<lambda>j. held_by job_id worker_id j \<and> j_status j = JobRunning)
                (\<lambda>j. j\<lparr>j_lease_expires_at := Some (now + lease_duration), j_updated_at := now\<rparr>))
     (\<lambda>rows_affected. ret (rows_affected > 0)))"

definition ack :: "BuildQueue \<Rightarrow> uuid \<Rightarrow> string \<Rightarrow> string \<Rightarrow> string \<Rightarrow> ('z, unit) op" where
  "ack q job_id worker_id stream_name stream_id =
     and_then now_utc (\<lambda>now.
     and_then (update_jobs ''failed to mark build job completed''
                (\<lambda>j. held_by job_id worker_id j \<and> j_status j = JobRunning)
                (release_job JobCompleted None now)) (\<lambda>_.
     and_then (close_attempts job_id worker_id AttSucceeded None now) (\<lambda>_.
     and_then redis_connect (\<lambda>_.
     ignore (redis_send ''XACK'' (XACK stream_name (consumer_group q) stream_id) :: ('z, unit) op)))))"

definition queue_fail ::
  "BuildQueue \<Rightarrow> uuid \<Rightarrow> string \<Rightarrow> string \<Rightarrow> string \<Rightarrow> string \<Rightarrow> bool \<Rightarrow> ('z, unit) op" where
  "queue_fail q job_id worker_id stream_name stream_id error_message retryable =
     and_then now_utc (\<lambda>now.
     and_then (get_job job_id) (\<lambda>found.
     and_then (of_option (JobNotFound job_id) found) (\<lambda>job.
     and_then redis_connect (\<lambda>_.
     if retryable \<and> j_attempt job < j_max_attempts job
     then
       and_then (update_jobs ''failed to requeue failed job'' (held_by job_id worker_id)
                  (release_job JobQueued (Some error_message) now)) (\<lambda>_.
       and_then (close_attempts job_id worker_id AttFailed (Some error_message) now) (\<lambda>_.
       and_then (redis_send ''failed to re-publish job to redis''
                  (XADD stream_name (j_id job) (j_deployment_id job))) (\<lambda>_.
       ignore (redis_send ''XACK'' (XACK stream_name (consumer_group q) stream_id) :: ('z, unit) op))))
     else
       and_then (update_jobs ''failed to mark build job failed'' (held_by job_id worker_id)
                  (release_job JobFailed (Some error_message) now)) (\<lambda>_.
       and_then (close_attempts job_id worker_id AttFailed (Some error_message) now) (\<lambda>_.
       and_then (set_deployment (j_deployment_id job)
                  (\<lambda>r. r\<lparr>d_status := DepFailed, d_error := Some error_message\<rparr>)) (\<lambda>_.
       ignore (redis_send ''XACK'' (XACK stream_name (consumer_group q) stream_id) :: ('z, unit) op))))))))"

definition cancel :: "uuid \<Rightarrow> ('z, unit) op" where
  "cancel job_id =
     and_then now_utc (\<lambda>now.
     and_then
       (statement ''failed to cancel build job'' (\<lambda>d.
          let P = (\<lambda>j. j_id j = job_id \<and> (j_status j = JobQueued \<or> j_status j = JobRunning));
              f = release_job JobCancelled None now
          in (Inr (first_row (returning P f (build_jobs d))),
              d\<lparr>build_jobs := update_where P f (build_jobs d)\<rparr>)))
     (\<lambda>row_opt. case row_opt of
        Some row \<Rightarrow> set_deployment (j_deployment_id row) (\<lambda>r. r\<lparr>d_status := DepCancelled\<rparr>)
      | None \<Rightarrow> ret ()))"

section \<open>Expired leases\<close>

definition lease_expired :: "BuildQueue \<Rightarrow> timestamp \<Rightarrow> BuildJobRecord \<Rightarrow> bool" where
  "lease_expired q now j \<longleftrightarrow>
     j_queue_name j = stream_prefix q \<and> j_status j = JobRunning
     \<and> (case j_lease_expires_at j of Some t \<Rightarrow> t < now | None \<Rightarrow> False)"

definition expired_rows :: "BuildQueue \<Rightarrow> timestamp \<Rightarrow> db \<Rightarrow> BuildJobRecord list" where
  "expired_rows q now d = filter (lease_expired q now) (build_jobs d)"

definition lease_expired_message :: string where
  "lease_expired_message = ''lease expired and maximum attempts exceeded''"

definition requeue_row :: "BuildQueue \<Rightarrow> timestamp \<Rightarrow> BuildJobRecord \<Rightarrow> nat \<Rightarrow> ('z, nat) op" where
  "requeue_row q now row count =
     (if j_attempt row < j_max_attempts row
      then
        and_then (update_jobs ''requeue'' (\<lambda>j. j_id j = j_id row \<and> j_status j = JobRunning)
                   (release_job JobQueued None now)) (\<lambda>_.
        and_then (redis_send ''XADD''
                   (XADD (stream_of q (j_priority row)) (j_id row) (j_deployment_id row))) (\<lambda>_.
        ret (count + 1)))
      else
        and_then (update_jobs ''expire'' (\<lambda>j. j_id j = j_id row \<and> j_status j = JobRunning)
                   (release_job JobFailed (Some lease_expired_message) now)) (\<lambda>_.
        and_then (set_deployment (j_deployment_id row)
                   (\<lambda>r. r\<lparr>d_status := DepFailed, d_error := Some lease_expired_message\<rparr>)) (\<lambda>_.
        ret count)))"

definition requeue_expired :: "BuildQueue \<Rightarrow> ('z, nat) op" where
  "requeue_expired q =
     and_then now_utc (\<lambda>now.
     and_then (select_rows ''failed to fetch expired build jobs'' (expired_rows q now)) (\<lambda>rows.
     and_then redis_connect (\<lambda>_.
     fold_io (requeue_row q now) rows 0)))"

end
