(* ===== verification/Queue_Correct.thy ===== *)
theory Queue_Correct
  imports Queue
begin

text \<open>
  The correctness of the build queue: an abstract life cycle of a job, the invariant of the tables,
  the proof that every operation keeps the invariant and refines the life cycle, and the behaviour
  of the single operations (leases, fencing, recovery of expired leases, idempotent enqueue, weighted
  polling).  Operations of different processes interleave as whole operations, except that the loop
  of \<^verbatim>\<open>requeue_expired\<close> may also work on rows it read long before (\<open>step_requeue_stale\<close>).
\<close>

section \<open>The life cycle of a job\<close>

text \<open>The abstract specification of the queue: how one job may change.\<close>

inductive job_step :: "BuildJobRecord \<Rightarrow> BuildJobRecord \<Rightarrow> bool" where
  claimed: "j_status j = JobQueued \<or> j_status j = JobFailed \<Longrightarrow> j_attempt j < j_max_attempts j \<Longrightarrow>
    job_step j (lease_job worker expires now j)"
| renewed: "j_status j = JobRunning \<Longrightarrow>
    job_step j (j\<lparr>j_lease_expires_at := Some expires, j_updated_at := now\<rparr>)"
| completed: "j_status j = JobRunning \<Longrightarrow> job_step j (release_job JobCompleted None now j)"
| requeued: "j_status j = JobRunning \<Longrightarrow> job_step j (release_job JobQueued err now j)"
| failed: "j_status j = JobRunning \<Longrightarrow> job_step j (release_job JobFailed err now j)"
| cancelled: "j_status j = JobQueued \<or> j_status j = JobRunning \<Longrightarrow>
    job_step j (release_job JobCancelled None now j)"

inductive_cases job_stepE: "job_step j j'"

definition job_row_ok :: "BuildJobRecord \<Rightarrow> bool" where
  "job_row_ok j \<longleftrightarrow> 0 \<le> j_attempt j \<and> j_attempt j \<le> max 0 (j_max_attempts j)
     \<and> (j_lease_owner j \<noteq> None \<longleftrightarrow> j_status j = JobRunning)
     \<and> (j_lease_expires_at j \<noteq> None \<longleftrightarrow> j_status j = JobRunning)"

lemmas job_update_defs = lease_job_def release_job_def

lemma job_step_frame:
  "job_step j j' \<Longrightarrow> j_id j' = j_id j \<and> j_deployment_id j' = j_deployment_id j
     \<and> j_max_attempts j' = j_max_attempts j \<and> j_attempt j \<le> j_attempt j'"
  by (auto elim!: job_stepE simp: job_update_defs)

lemma job_step_row_ok: "job_step j j' \<Longrightarrow> job_row_ok j \<Longrightarrow> job_row_ok j'"
  by (auto elim!: job_stepE simp: job_update_defs job_row_ok_def)

lemma job_steps_frame:
  "job_step\<^sup>*\<^sup>* j j' \<Longrightarrow> j_id j' = j_id j \<and> j_deployment_id j' = j_deployment_id j
     \<and> j_max_attempts j' = j_max_attempts j \<and> j_attempt j \<le> j_attempt j'"
  by (induction rule: rtranclp_induct) (auto dest!: job_step_frame)

text \<open>Completed and cancelled jobs have no step.\<close>

lemma job_step_final:
  "job_step j j' \<Longrightarrow> j_status j \<noteq> JobCompleted \<and> j_status j \<noteq> JobCancelled"
  by (auto elim!: job_stepE)

lemma job_steps_final:
  "job_step\<^sup>*\<^sup>* j j' \<Longrightarrow> j_status j = JobCompleted \<or> j_status j = JobCancelled \<Longrightarrow> j' = j"
  by (erule converse_rtranclpE) (auto dest: job_step_final)

section \<open>The invariant of the tables\<close>

definition attempt_row_ok :: "BuildJobRecord list \<Rightarrow> BuildAttempt \<Rightarrow> bool" where
  "attempt_row_ok js a \<longleftrightarrow> 1 \<le> a_attempt_number a
     \<and> (case lookup_by j_id (a_job_id a) js of
          Some j \<Rightarrow> a_attempt_number a \<le> j_attempt j | None \<Rightarrow> False)"

definition job_inv :: "db \<Rightarrow> bool" where
  "job_inv d \<longleftrightarrow> distinct (map j_id (build_jobs d)) \<and> distinct (map j_deployment_id (build_jobs d))
     \<and> list_all job_row_ok (build_jobs d)
     \<and> distinct (map (\<lambda>a. (a_job_id a, a_attempt_number a)) (build_attempts d))
     \<and> list_all (attempt_row_ok (build_jobs d)) (build_attempts d)"

text \<open>\<open>evolved pre d\<close>: every job of \<open>pre\<close> is still in its place in \<open>d\<close>, changed by steps of its
  life cycle only.\<close>

definition evolved :: "db \<Rightarrow> db \<Rightarrow> bool" where
  "evolved pre d \<longleftrightarrow> length (build_jobs pre) \<le> length (build_jobs d)
     \<and> list_all2 job_step\<^sup>*\<^sup>* (build_jobs pre) (take (length (build_jobs pre)) (build_jobs d))"

definition job_inv_from :: "db \<Rightarrow> db \<Rightarrow> bool" where
  "job_inv_from pre d \<longleftrightarrow> job_inv d \<and> evolved pre d"

lemma evolved_refl [simp]: "evolved d d"
  by (simp add: evolved_def list.rel_refl)

lemma job_inv_from_refl [simp]: "job_inv_from d d = job_inv d"
  by (simp add: job_inv_from_def)

lemma update_where_ids:
  assumes "\<And>j. j \<in> set js \<Longrightarrow> P j \<Longrightarrow> job_step j (f j)"
  shows "map j_id (update_where P f js) = map j_id js"
    and "map j_deployment_id (update_where P f js) = map j_deployment_id js"
  using assms by (auto simp: update_where_def dest: job_step_frame)

lemma lookup_update_jobs:
  assumes "\<And>j. j \<in> set js \<Longrightarrow> P j \<Longrightarrow> job_step j (f j)"
  shows "lookup_by j_id k (update_where P f js) =
    map_option (\<lambda>j. if P j then f j else j) (lookup_by j_id k js)"
proof -
  have "j_id (if P j then f j else j) = j_id j" if "j \<in> set js" for j
    using that assms by (auto dest: job_step_frame)
  then show ?thesis by (induction js) (auto simp: sql_simps)
qed

lemma attempt_row_ok_update:
  assumes "\<And>j. j \<in> set js \<Longrightarrow> P j \<Longrightarrow> job_step j (f j)" and "attempt_row_ok js a"
  shows "attempt_row_ok (update_where P f js) a"
proof -
  from assms(2) obtain j where j: "lookup_by j_id (a_job_id a) js = Some j"
    "a_attempt_number a \<le> j_attempt j" "1 \<le> a_attempt_number a"
    by (auto simp: attempt_row_ok_def split: option.splits)
  then have "j_attempt j \<le> j_attempt (if P j then f j else j)"
    using assms(1) [of j] by (auto dest: lookup_by_Some job_step_frame)
  with j show ?thesis
    by (simp add: attempt_row_ok_def lookup_update_jobs [OF assms(1)])
qed

lemma evolved_update:
  assumes step: "\<And>j. j \<in> set (build_jobs d) \<Longrightarrow> P j \<Longrightarrow> job_step j (f j)" and "evolved pre d"
  shows "evolved pre (d\<lparr>build_jobs := update_where P f (build_jobs d)\<rparr>)"
proof -
  let ?g = "\<lambda>j. if P j then f j else j"
  have len: "length (build_jobs pre) \<le> length (build_jobs d)"
    and all: "list_all2 job_step\<^sup>*\<^sup>* (build_jobs pre) (take (length (build_jobs pre)) (build_jobs d))"
    using assms(2) by (simp_all add: evolved_def)
  have "list_all2 job_step\<^sup>*\<^sup>* (build_jobs pre)
      (map ?g (take (length (build_jobs pre)) (build_jobs d)))"
    unfolding list.rel_map
    using all by (rule list.rel_mono_strong)
      (auto intro: rtranclp.rtrancl_into_rtrancl step dest: in_set_takeD)
  with len show ?thesis by (simp add: evolved_def update_where_def take_map)
qed

lemma job_inv_from_update:
  assumes "job_inv_from pre d"
    and step: "\<And>j. j \<in> set (build_jobs d) \<Longrightarrow> job_row_ok j \<Longrightarrow> P j \<Longrightarrow> job_step j (f j)"
  shows "job_inv_from pre (d\<lparr>build_jobs := update_where P f (build_jobs d)\<rparr>)"
proof -
  from assms(1) have inv: "job_inv d" and ev: "evolved pre d" by (simp_all add: job_inv_from_def)
  have st: "job_step j (f j)" if "j \<in> set (build_jobs d)" "P j" for j
    using that inv step by (auto simp: job_inv_def list_all_iff)
  have "job_row_ok (if P j then f j else j)" if "j \<in> set (build_jobs d)" for j
    using that inv st by (auto simp: job_inv_def list_all_iff intro: job_step_row_ok)
  then have "list_all job_row_ok (update_where P f (build_jobs d))"
    by (rule list_all_update_where)
  moreover have "list_all (attempt_row_ok (update_where P f (build_jobs d))) (build_attempts d)"
    using inv st by (auto simp: job_inv_def list_all_iff intro: attempt_row_ok_update)
  ultimately show ?thesis
    using inv evolved_update [OF st ev] update_where_ids [OF st]
    by (simp add: job_inv_from_def job_inv_def)
qed

lemma job_inv_from_cong:
  assumes "build_jobs d' = build_jobs d" and "build_attempts d' = build_attempts d"
  shows "job_inv_from pre d' = job_inv_from pre d"
  using assms by (simp add: job_inv_from_def job_inv_def evolved_def)

lemma update_jobs_keeps:
  assumes "\<And>j. job_row_ok j \<Longrightarrow> P j \<Longrightarrow> job_step j (f j)"
  shows "keeps_db (job_inv_from pre) (update_jobs c P f)"
  unfolding update_jobs_def
  by (rule keeps_db_statement) (auto intro!: job_inv_from_update assms)

lemma keeps_ignore_execute:
  assumes "\<And>d. build_jobs (g d) = build_jobs d \<and> build_attempts (g d) = build_attempts d"
  shows "keeps_db (job_inv_from pre) (ignore (execute c g :: ('z, unit) op) :: ('z, unit) op)"
proof (intro keeps_db_ignore keeps_db_execute)
  fix d assume "job_inv_from pre d"
  then show "job_inv_from pre (g d)" using assms [of d] job_inv_from_cong [of "g d" d pre] by blast
qed

lemma set_deployment_keeps [keeps_intros]: "keeps_db (job_inv_from pre) (set_deployment i f)"
  unfolding set_deployment_def by (rule keeps_ignore_execute) simp

lemma attempt_row_ok_fields:
  "a_job_id b = a_job_id a \<Longrightarrow> a_attempt_number b = a_attempt_number a \<Longrightarrow>
   attempt_row_ok js b = attempt_row_ok js a"
  by (simp add: attempt_row_ok_def split: option.split)

lemma job_inv_from_attempts:
  assumes "job_inv_from pre d" and "\<And>a. a_job_id (f a) = a_job_id a \<and> a_attempt_number (f a) = a_attempt_number a"
  shows "job_inv_from pre (d\<lparr>build_attempts := update_where P f (build_attempts d)\<rparr>)"
proof -
  have "attempt_row_ok (build_jobs d) (f a) = attempt_row_ok (build_jobs d) a" for a
    using assms(2) by (intro attempt_row_ok_fields) simp_all
  then have "list_all (attempt_row_ok (build_jobs d)) (update_where P f (build_attempts d))"
    using assms(1)
    by (intro list_all_update_where) (simp add: job_inv_from_def job_inv_def list_all_iff)
  with assms show ?thesis
    by (simp add: job_inv_from_def job_inv_def evolved_def map_update_where)
qed

lemma close_attempts_keeps [keeps_intros]:
  "keeps_db (job_inv_from pre) (close_attempts i worker s err now)"
  unfolding close_attempts_def
  by (intro keeps_db_ignore keeps_db_execute job_inv_from_attempts) simp_all

lemma get_job_keeps [keeps_intros]: "keeps_db I (get_job i)" "keeps_db I (get_job_by_deployment i)"
  unfolding get_job_def get_job_by_deployment_def by (intro keeps_intros)+

lemma insert_job_inv:
  assumes "job_inv_from pre d" and "insert_job (new_job q input i now) d = (Inr r, d')"
  shows "job_inv_from pre d'"
proof (cases "d' = d")
  case False
  let ?j = "new_job q input i now"
  from False assms(2) have d': "d' = d\<lparr>build_jobs := build_jobs d @ [?j]\<rparr>"
    and new: "\<not> has_key j_deployment_id (j_deployment_id ?j) (build_jobs d)"
      "\<not> has_key j_id (j_id ?j) (build_jobs d)"
    by (auto simp: insert_job_def split: if_splits)
  have "attempt_row_ok (build_jobs d @ [?j]) a" if "attempt_row_ok (build_jobs d) a" for a
    using that by (auto simp: attempt_row_ok_def sql_simps split: option.splits)
  moreover have "job_row_ok ?j" by (simp add: job_row_ok_def new_job_def)
  ultimately show ?thesis
    using assms(1) new
    by (auto simp: d' job_inv_from_def job_inv_def evolved_def sql_simps list_all_iff)
qed (use assms in simp)

lemma enqueue_keeps [keeps_intros]: "keeps_db (job_inv_from pre) (enqueue q input)"
  unfolding enqueue_def
  by (intro keeps_intros keeps_db_statement) (rule insert_job_inv)

lemma job_row_running: "job_row_ok j \<Longrightarrow> held_by i worker j \<Longrightarrow> j_status j = JobRunning"
  by (auto simp: job_row_ok_def held_by_def)

lemma renew_keeps [keeps_intros]: "keeps_db (job_inv_from pre) (renew i worker l)"
  unfolding renew_def by (intro keeps_intros update_jobs_keeps) (auto intro: job_step.intros)

lemma ack_keeps [keeps_intros]: "keeps_db (job_inv_from pre) (ack q i worker s m)"
  unfolding ack_def by (intro keeps_intros update_jobs_keeps) (auto intro: job_step.intros)

lemma fail_keeps [keeps_intros]: "keeps_db (job_inv_from pre) (queue_fail q i worker s m e r)"
  unfolding queue_fail_def
  by (intro keeps_intros update_jobs_keeps) (auto intro: job_step.intros dest: job_row_running)

lemma cancel_keeps [keeps_intros]: "keeps_db (job_inv_from pre) (cancel i)"
  unfolding cancel_def Let_def
  by (intro keeps_intros keeps_db_statement) (auto intro!: job_inv_from_update job_step.cancelled)

lemma requeue_row_keeps [keeps_intros]: "keeps_db (job_inv_from pre) (requeue_row q now row n)"
  unfolding requeue_row_def
  by (intro keeps_intros update_jobs_keeps) (auto intro: job_step.intros)

lemma requeue_expired_keeps [keeps_intros]: "keeps_db (job_inv_from pre) (requeue_expired q)"
  unfolding requeue_expired_def by (intro keeps_intros)

lemma with_prefix_keeps [keeps_intros]: "keeps_db I (with_prefix g p)"
  unfolding with_prefix_def ensure_groups_def Let_def
  by (intro keeps_intros) (simp add: keeps_db_def keeps_def modify_def)

section \<open>Claiming\<close>

text \<open>What a run of the claim loop does to the job table.\<close>

lemma first_returning_Some:
  assumes "distinct (map key t)" and "first_row (returning P f t) = Some r"
    and "\<And>x. P x \<Longrightarrow> key x = k"
  obtains x where "lookup_by key k t = Some x" "P x" "r = f x"
proof -
  from first_row_Some [OF assms(2)] obtain x where "x \<in> set t" "P x" "r = f x"
    by (auto simp: returning_def)
  with assms(1,3) lookup_by_unique [OF assms(1)] show thesis by (metis that)
qed

definition leased :: "string \<Rightarrow> db \<Rightarrow> BuildJobRecord \<Rightarrow> db \<Rightarrow> bool" where
  "leased worker d job d' \<longleftrightarrow> (\<exists>j expires now. claimable (j_id j) j
     \<and> lookup_by j_id (j_id j) (build_jobs d) = Some j \<and> job = lease_job worker expires now j
     \<and> build_jobs d' = update_where (claimable (j_id j)) (lease_job worker expires now) (build_jobs d))"

lemma take_lease_InrE:
  assumes "take_lease i worker expires now w = (Inr r, w')"
  shows "r = first_row (returning (claimable i) (lease_job worker expires now) (build_jobs (db w)))"
    and "db w' = (db w)\<lparr>build_jobs := update_where (claimable i) (lease_job worker expires now)
      (build_jobs (db w))\<rparr>"
  using assms by (auto simp: take_lease_def statement_def Let_def split: if_splits)

lemma take_lease_None:
  assumes "take_lease i worker expires now w = (Inr None, w')"
  shows "db w' = db w"
proof -
  from take_lease_InrE(1) [OF assms, symmetric]
  have "\<forall>j\<in>set (build_jobs (db w)). \<not> claimable i j" by (simp add: returning_Nil_iff)
  with take_lease_InrE(2) [OF assms] show ?thesis by (simp add: update_where_none)
qed

lemma take_lease_Some:
  assumes "job_inv (db w)" and "take_lease i worker expires now w = (Inr (Some job), w')"
  shows "leased worker (db w) job (db w')" and "j_id job = i"
proof -
  have dist: "distinct (map j_id (build_jobs (db w)))" using assms(1) by (simp add: job_inv_def)
  from take_lease_InrE [OF assms(2)] have
    "first_row (returning (claimable i) (lease_job worker expires now) (build_jobs (db w))) = Some job"
    by simp
  from first_returning_Some [OF dist this, of i] obtain j where
    j: "lookup_by j_id i (build_jobs (db w)) = Some j" "claimable i j"
      "job = lease_job worker expires now j" by (auto simp: claimable_def)
  then have "j_id j = i" by (auto simp: claimable_def)
  with j take_lease_InrE(2) [OF assms(2)] show "leased worker (db w) job (db w')" "j_id job = i"
    by (auto simp: leased_def lease_job_def)
qed

lemma take_lease_Inl:
  "take_lease i worker expires now w = (Inl e, w') \<Longrightarrow> db w' = db w"
  by (auto simp: take_lease_def statement_def Let_def split: if_splits)

lemma leased_lookup:
  assumes "job_inv d" and "leased worker d job d'"
  shows "lookup_by j_id (j_id job) (build_jobs d') = Some job"
    and "other \<noteq> j_id job \<Longrightarrow>
      lookup_by j_id other (build_jobs d') = lookup_by j_id other (build_jobs d)"
    and "1 \<le> j_attempt job" and "j_attempt job \<le> j_max_attempts job"
    and "j_status job = JobRunning" and "j_lease_owner job = Some worker"
proof -
  from assms(2) obtain j expires now where j: "claimable (j_id j) j"
    "lookup_by j_id (j_id j) (build_jobs d) = Some j" "job = lease_job worker expires now j"
    "build_jobs d' = update_where (claimable (j_id j)) (lease_job worker expires now) (build_jobs d)"
    by (auto simp: leased_def)
  have key: "j_id (lease_job worker expires now x) = j_id x" for x by (simp add: lease_job_def)
  have "j \<in> set (build_jobs d)" using j(2) by (auto dest: lookup_by_Some)
  then have ok: "job_row_ok j" using assms(1) by (auto simp: job_inv_def list_all_iff)
  show "lookup_by j_id (j_id job) (build_jobs d') = Some job"
    using j key by (simp add: lookup_by_update_where)
  show "lookup_by j_id other (build_jobs d') = lookup_by j_id other (build_jobs d)"
    if "other \<noteq> j_id job"
    using that j key by (cases "lookup_by j_id other (build_jobs d)")
      (auto simp: lookup_by_update_where claimable_def dest: lookup_by_Some)
  show "1 \<le> j_attempt job" "j_attempt job \<le> j_max_attempts job" "j_status job = JobRunning"
    "j_lease_owner job = Some worker"
    using j ok by (auto simp: lease_job_def job_row_ok_def claimable_def)
qed

lemma leased_inv:
  assumes "job_inv d" and "leased worker d job d'" and "build_attempts d' = build_attempts d"
  shows "job_inv_from d d'"
proof -
  from assms(2) obtain j :: BuildJobRecord and expires now where j:
    "build_jobs d' = update_where (claimable (j_id j)) (lease_job worker expires now) (build_jobs d)"
    unfolding leased_def by blast
  have "job_inv_from d (d\<lparr>build_jobs := update_where (claimable (j_id j)) (lease_job worker expires now)
      (build_jobs d)\<rparr>)"
    using assms(1) by (intro job_inv_from_update) (auto intro!: job_step.claimed simp: claimable_def)
  then show ?thesis using j assms(3) by (subst job_inv_from_cong) simp_all
qed

lemma record_attempt_run:
  assumes "job_inv_from pre (db w)" and "lookup_by j_id (j_id job) (build_jobs (db w)) = Some job"
    and "1 \<le> j_attempt job"
  obtains u w' where "record_attempt job worker now w = (Inr u, w')"
    and "build_jobs (db w') = build_jobs (db w)" and "job_inv_from pre (db w')"
    and "prod_claims_counter w' = prod_claims_counter w"
proof -
  obtain u w' where run: "record_attempt job worker now w = (Inr u, w')"
    by (simp add: record_attempt_def Let_def io_simps)
  let ?a = "new_attempt (env_uuid (env w) (tick w)) job worker now"
  from run have "db w' = db w \<or> attempt_insert_ok ?a (db w)
      \<and> db w' = (db w)\<lparr>build_attempts := build_attempts (db w) @ [?a]\<rparr>"
    by (auto simp: record_attempt_def Let_def io_simps insert_row_def statement_def split: if_splits)
  moreover have "prod_claims_counter w' = prod_claims_counter w"
    using run by (auto simp: record_attempt_def Let_def io_simps insert_row_def statement_def
        split: if_splits)
  moreover have "attempt_row_ok (build_jobs (db w)) ?a"
    using assms(2,3) by (simp add: attempt_row_ok_def new_attempt_def)
  ultimately show thesis
    using assms(1)
    by (intro that [OF run]) (auto simp: job_inv_from_def job_inv_def evolved_def attempt_insert_ok_def sql_simps)
qed

definition claim_outcome ::
  "string \<Rightarrow> string list \<Rightarrow> 'z queue_world_scheme \<Rightarrow> error + ClaimedJob option \<Rightarrow>
   'z queue_world_scheme \<Rightarrow> bool" where
  "claim_outcome worker streams w res w' \<longleftrightarrow> job_inv_from (db w) (db w')
     \<and> (case res of
          Inr (Some cj) \<Rightarrow> leased worker (db w) (cj_job cj) (db w')
            \<and> cj_attempt_number cj = j_attempt (cj_job cj) \<and> cj_stream_name cj \<in> set streams
        | _ \<Rightarrow> db w' = db w)"

lemma leased_cong: "build_jobs d2 = build_jobs d' \<Longrightarrow> leased worker d job d2 = leased worker d job d'"
  by (simp add: leased_def)

lemma set_deployment_run:
  obtains w' where "set_deployment i f w = (Inr (), w')" "build_jobs (db w') = build_jobs (db w)"
    "build_attempts (db w') = build_attempts (db w)"
  by (cases "env_db_fault (env w) (tick w)")
    (simp_all add: set_deployment_def io_simps execute_def statement_def)

lemma claim_take:
  fixes w :: "'z queue_world_scheme"
  assumes inv: "job_inv (db w)" and t: "take_lease i worker expires now w = (Inr (Some job), w1)"
    and run: "and_then (record_attempt job worker now) (\<lambda>_.
       and_then (set_deployment (j_deployment_id job) g) (\<lambda>_.
       and_then (modify h) (\<lambda>_. ret (Some cj)))) w1 = (res, w')"
    and h: "\<And>v. db (h v) = db v" and cj: "cj_job cj = job"
    "cj_attempt_number cj = j_attempt job" "cj_stream_name cj \<in> set streams"
  shows "claim_outcome worker streams w res w'"
proof -
  note l = take_lease_Some(1) [OF inv t]
  have "build_attempts (db w1) = build_attempts (db w)" using take_lease_InrE(2) [OF t] by simp
  then have inv1: "job_inv_from (db w) (db w1)" using leased_inv [OF inv l] by simp
  from record_attempt_run [OF inv1 leased_lookup(1,3) [OF inv l]] obtain u2 w2 where
    w2: "record_attempt job worker now w1 = (Inr u2, w2)" "build_jobs (db w2) = build_jobs (db w1)"
      "job_inv_from (db w) (db w2)" .
  obtain w3 where
    w3: "set_deployment (j_deployment_id job) g w2 = (Inr (), w3)"
      "build_jobs (db w3) = build_jobs (db w2)" "build_attempts (db w3) = build_attempts (db w2)"
    by (rule set_deployment_run)
  have "res = Inr (Some cj)" "db w' = db w3" using run w2(1) w3(1) h by (auto simp: io_simps)
  moreover have "job_inv_from (db w) (db w3)" using w2(3) w3 by (subst job_inv_from_cong)
  moreover have "leased worker (db w) job (db w3)"
    using l w2(2) w3(2) by (subst leased_cong) auto
  ultimately show ?thesis using cj by (simp add: claim_outcome_def)
qed

lemma claim_outcome_start:
  assumes "db w1 = db w" and "claim_outcome worker streams w1 res w'" and "set streams \<subseteq> set streams'"
  shows "claim_outcome worker streams' w res w'"
  using assms by (auto simp: claim_outcome_def split: sum.splits option.splits)

lemma redis_read_db: "db (snd (redis_read c x w)) = db w"
  by (simp add: redis_read_def)

lemma claim_from_outcome:
  fixes w :: "'z queue_world_scheme"
  assumes "job_inv (db w)" and "claim_from parse_uuid q worker l streams w = (res, w')"
  shows "claim_outcome worker streams w res w'"
  using assms
proof (induction streams arbitrary: w)
  case Nil
  then show ?case by (auto simp: claim_outcome_def io_simps)
next
  case (Cons stream streams)
  let ?read = "redis_read ''XREADGROUP'' (XREADGROUP stream (consumer_group q) worker) w"
  obtain r w1 where r: "?read = (r, w1)" by (cases ?read)
  then have d1: "db w1 = db w" using redis_read_db by (metis snd_conv)
  have rest: "claim_outcome worker (stream # streams) w res w'"
    if "claim_from parse_uuid q worker l streams v = (res, w')" "db v = db w" for v
    using Cons.IH [OF _ that(1)] that(2) Cons.prems(1)
    by (intro claim_outcome_start [of v w worker streams]) auto
  have run: "claim_reply parse_uuid q worker l stream (claim_from parse_uuid q worker l streams) r w1
      = (res, w')"
    using Cons.prems(2) r by (simp add: io_simps)
  show ?case
  proof (cases "case r of Inr val \<Rightarrow> parse_xreadgroup_entry parse_uuid val | Inl _ \<Rightarrow> None")
    case None
    with run have "claim_from parse_uuid q worker l streams w1 = (res, w')"
      by (simp add: claim_reply_def)
    with rest d1 show ?thesis by blast
  next
    case (Some found)
    obtain sid i where found: "found = (sid, i)" by (cases found)
    let ?w2 = "w1\<lparr>tick := Suc (tick w1)\<rparr>"
    let ?now = "env_clock (env w1) (tick w1)"
    obtain t w3 where t: "take_lease i worker (?now + l) ?now ?w2 = (t, w3)"
      by (cases "take_lease i worker (?now + l) ?now ?w2")
    have inv2: "job_inv (db ?w2)" using d1 Cons.prems(1) by simp
    note run' = run [unfolded claim_reply_def Some found option.case prod.case
        and_then_run [of now_utc] now_utc_run sum.case and_then_run [of "take_lease _ _ _ _"] t]
    consider (err) e where "t = Inl e" | (none) "t = Inr None" | (some) job where "t = Inr (Some job)"
      by (metis obj_sumE option.exhaust)
    then show ?thesis
    proof cases
      case err
      with run' t take_lease_Inl [of i worker _ _ ?w2 e w3] d1 Cons.prems(1) show ?thesis
        by (auto simp: claim_outcome_def)
    next
      case none
      with take_lease_None [of i worker _ _ ?w2 w3] t d1 have d3: "db w3 = db w" by simp
      let ?x = "XACK stream (consumer_group q) sid"
      have "claim_from parse_uuid q worker l streams (snd (redis_send ''XACK'' ?x w3)) = (res, w')"
        using run' none by (simp add: io_simps)
      moreover have "db (snd (redis_send ''XACK'' ?x w3)) = db w" using d3 by (simp add: redis_send_def)
      ultimately show ?thesis by (rule rest)
    next
      case some
      have "claim_outcome worker (stream # streams) ?w2 res w'"
        by (rule claim_take [OF inv2 t [unfolded some] run' [unfolded some sum.case option.case]]) simp_all
      then show ?thesis using d1 by (intro claim_outcome_start [of ?w2 w]) auto
    qed
  qed
qed

lemma claim_outcome_claim:
  assumes "job_inv (db w)" and "claim parse_uuid q worker l w = (res, w')"
  shows "claim_outcome worker [prod_stream q, preview_stream q] w res w'"
proof -
  let ?count = "prod_claims_counter w"
  let ?w1 = "if 3 \<le> ?count then w\<lparr>prod_claims_counter := 0\<rparr> else w"
  let ?w2 = "?w1\<lparr>tick := Suc (tick ?w1)\<rparr>"
  let ?s = "if 3 \<le> ?count then [preview_stream q, prod_stream q] else [prod_stream q, preview_stream q]"
  show ?thesis
  proof (cases "env_redis_fault (env w) (tick w)")
    case True
    with assms show ?thesis
      by (auto simp: claim_def io_simps redis_connect_def Let_def claim_outcome_def split: if_splits)
  next
    case False
    with assms(2) have "claim_from parse_uuid q worker l ?s ?w2 = (res, w')"
      by (auto simp: claim_def io_simps redis_connect_def Let_def simp del: claim_from.simps
          split: if_splits)
    from claim_from_outcome [OF _ this] assms(1) show ?thesis
      by (intro claim_outcome_start [of ?w2 w worker ?s]) auto
  qed
qed

section \<open>Steps of the queue\<close>

inductive queue_step :: "'z queue_world_scheme \<Rightarrow> 'z queue_world_scheme \<Rightarrow> bool" where
  step_new: "queue_step w (snd (with_prefix cgroup prefix w))"
| step_enqueue: "queue_step w (snd (enqueue q input w))"
| step_claim: "queue_step w (snd (claim parse_uuid q worker l w))"
| step_renew: "queue_step w (snd (renew i worker l w))"
| step_ack: "queue_step w (snd (ack q i worker s m w))"
| step_fail: "queue_step w (snd (queue_fail q i worker s m e retryable w))"
| step_cancel: "queue_step w (snd (cancel i w))"
| step_requeue: "queue_step w (snd (requeue_expired q w))"
| step_requeue_stale: "queue_step w (snd (requeue_row q now row n w))"
| step_elsewhere: "build_jobs (db w') = build_jobs (db w) \<Longrightarrow>
    build_attempts (db w') = build_attempts (db w) \<Longrightarrow> queue_step w w'"

inductive queue_reach :: "'z queue_world_scheme \<Rightarrow> bool" where
  queue_init: "build_jobs (db w) = [] \<Longrightarrow> build_attempts (db w) = [] \<Longrightarrow> queue_reach w"
| queue_next: "queue_reach w \<Longrightarrow> queue_step w w' \<Longrightarrow> queue_reach w'"

lemma keeps_from: "keeps_db (job_inv_from (db w)) m \<Longrightarrow> job_inv (db w) \<Longrightarrow>
   job_inv_from (db w) (db (snd (m w)))"
  by (rule keeps_dbD) simp_all

lemma queue_step_inv: "queue_step w w' \<Longrightarrow> job_inv (db w) \<Longrightarrow> job_inv_from (db w) (db w')"
proof (induction rule: queue_step.induct)
  case (step_claim w parse_uuid q worker l)
  obtain res w' where run: "claim parse_uuid q worker l w = (res, w')"
    by (cases "claim parse_uuid q worker l w")
  from claim_outcome_claim [OF step_claim run] run show ?case by (simp add: claim_outcome_def)
next
  case (step_elsewhere w' w)
  then show ?case using job_inv_from_cong [of "db w'" "db w"] by simp
qed (rule keeps_from, intro keeps_intros, assumption)+

lemma queue_reach_inv: "queue_reach w \<Longrightarrow> job_inv (db w)"
proof (induction rule: queue_reach.induct)
  case (queue_init w)
  then show ?case by (simp add: job_inv_def)
next
  case (queue_next w w')
  then show ?case using queue_step_inv [of w w'] by (simp add: job_inv_from_def)
qed

lemma evolved_lookup:
  assumes "job_inv d" and "evolved pre d" and "lookup_by j_id i (build_jobs pre) = Some j"
  obtains j' where "lookup_by j_id i (build_jobs d) = Some j'" and "job_step\<^sup>*\<^sup>* j j'"
proof -
  from lookup_by_Some [OF assms(3)] obtain n where n: "n < length (build_jobs pre)"
    "build_jobs pre ! n = j" "j_id j = i" by (auto simp: in_set_conv_nth)
  let ?j' = "build_jobs d ! n"
  from assms(2) n have steps: "job_step\<^sup>*\<^sup>* j ?j'" and len: "n < length (build_jobs d)"
    by (auto simp: evolved_def list_all2_conv_all_nth)
  then have "?j' \<in> set (build_jobs d)" and "j_id ?j' = i" using n job_steps_frame by auto
  with assms(1) have "lookup_by j_id i (build_jobs d) = Some ?j'"
    using lookup_by_unique [of j_id "build_jobs d" ?j'] by (simp add: job_inv_def)
  with steps show thesis by (rule that [rotated])
qed

text \<open>C1. Every operation of the queue changes every job by steps of the job life cycle only, in
  every reachable state, with any failures of PostgreSQL and Redis and any replies of Redis: the
  queue implements the abstract specification \<open>job_step\<close>.\<close>

theorem queue_refines_lifecycle:
  assumes "queue_reach w" and "queue_step w w'" and "lookup_by j_id i (build_jobs (db w)) = Some j"
  shows "\<exists>j'. lookup_by j_id i (build_jobs (db w')) = Some j' \<and> job_step\<^sup>*\<^sup>* j j'"
proof -
  from queue_step_inv [OF assms(2) queue_reach_inv [OF assms(1)]]
  have "job_inv (db w')" "evolved (db w) (db w')" by (simp_all add: job_inv_from_def)
  then obtain j' where "lookup_by j_id i (build_jobs (db w')) = Some j'" "job_step\<^sup>*\<^sup>* j j'"
    using assms(3) by (rule evolved_lookup)
  then show ?thesis by blast
qed

lemma queue_steps_lookup:
  assumes "queue_step\<^sup>*\<^sup>* w w'" and "queue_reach w" and "lookup_by j_id i (build_jobs (db w)) = Some j"
  shows "queue_reach w' \<and> (\<exists>j'. lookup_by j_id i (build_jobs (db w')) = Some j' \<and> job_step\<^sup>*\<^sup>* j j')"
  using assms
proof (induction rule: rtranclp_induct)
  case base
  then show ?case by blast
next
  case (step v v')
  then obtain j1 where "queue_reach v" "lookup_by j_id i (build_jobs (db v)) = Some j1"
    "job_step\<^sup>*\<^sup>* j j1" by blast
  moreover from queue_step_inv [OF step.hyps(2) queue_reach_inv] calculation(1)
  have "job_inv (db v')" "evolved (db v) (db v')" by (simp_all add: job_inv_from_def)
  then obtain j2 where "lookup_by j_id i (build_jobs (db v')) = Some j2" "job_step\<^sup>*\<^sup>* j1 j2"
    using calculation(2) by (rule evolved_lookup)
  ultimately show ?case using step.hyps(2) queue_next by (meson rtranclp_trans)
qed

text \<open>A completed or cancelled job is final: no sequence of queue operations changes it.\<close>

theorem finished_jobs_stable:
  assumes "queue_reach w" and "queue_step\<^sup>*\<^sup>* w w'"
    and "lookup_by j_id i (build_jobs (db w)) = Some j"
    and "j_status j = JobCompleted \<or> j_status j = JobCancelled"
  shows "lookup_by j_id i (build_jobs (db w')) = Some j"
  using queue_steps_lookup [OF assms(2,1,3)] job_steps_final assms(4) by blast

text \<open>C3. In every reachable state a job has at most as many recorded attempts as claims, at most
  \<^verbatim>\<open>max_attempts\<close> claims, and a lease exactly while it is running.\<close>

theorem job_attempts_bounded:
  assumes "queue_reach w" and "j \<in> set (build_jobs (db w))"
  shows "int (length (filter (\<lambda>a. a_job_id a = j_id j) (build_attempts (db w)))) \<le> j_attempt j
     \<and> j_attempt j \<le> max 0 (j_max_attempts j)
     \<and> (j_lease_owner j \<noteq> None \<longleftrightarrow> j_status j = JobRunning)"
proof -
  from assms(1) have inv: "job_inv (db w)" by (rule queue_reach_inv)
  with assms(2) have ok: "job_row_ok j" by (auto simp: job_inv_def list_all_iff)
  let ?as = "filter (\<lambda>a. a_job_id a = j_id j) (build_attempts (db w))"
  have "lookup_by j_id (j_id j) (build_jobs (db w)) = Some j"
    using inv assms(2) by (auto simp: job_inv_def lookup_by_unique)
  then have range: "a_attempt_number ` set ?as \<subseteq> {1..j_attempt j}"
    using inv by (fastforce simp: job_inv_def list_all_iff attempt_row_ok_def)
  have "distinct (map (\<lambda>a. (a_job_id a, a_attempt_number a)) ?as)"
    using inv by (auto simp: job_inv_def distinct_map intro: inj_on_subset)
  then have "distinct (map a_attempt_number ?as)"
    by (auto simp: distinct_map inj_on_def)
  then have "length ?as = card (a_attempt_number ` set ?as)"
    using distinct_card [of "map a_attempt_number ?as"] by simp
  also have "\<dots> \<le> card {1..j_attempt j}" by (rule card_mono [OF _ range]) simp
  finally have "int (length ?as) \<le> j_attempt j" using ok by (simp add: job_row_ok_def le_nat_iff)
  with ok show ?thesis by (simp add: job_row_ok_def)
qed

section \<open>Leases\<close>

text \<open>A claim that returns a job found it queued or failed, has moved it to running with the
  lease of the worker and one more attempt, within the maximum, and has changed no other job.\<close>

theorem claim_grants_lease:
  assumes "job_inv (db w)" and "claim parse_uuid q worker l w = (Inr (Some cj), w')"
  shows "\<exists>j. lookup_by j_id (j_id (cj_job cj)) (build_jobs (db w)) = Some j
     \<and> (j_status j = JobQueued \<or> j_status j = JobFailed)
     \<and> j_status (cj_job cj) = JobRunning \<and> j_lease_owner (cj_job cj) = Some worker
     \<and> j_attempt (cj_job cj) = j_attempt j + 1 \<and> j_attempt (cj_job cj) \<le> j_max_attempts j
     \<and> cj_attempt_number cj = j_attempt (cj_job cj)
     \<and> lookup_by j_id (j_id (cj_job cj)) (build_jobs (db w')) = Some (cj_job cj)
     \<and> (\<forall>other. other \<noteq> j_id (cj_job cj) \<longrightarrow>
          lookup_by j_id other (build_jobs (db w')) = lookup_by j_id other (build_jobs (db w)))"
proof -
  from claim_outcome_claim [OF assms] have l: "leased worker (db w) (cj_job cj) (db w')"
    and n: "cj_attempt_number cj = j_attempt (cj_job cj)" by (simp_all add: claim_outcome_def)
  from l obtain j :: BuildJobRecord and expires now where j: "claimable (j_id j) j"
    "lookup_by j_id (j_id j) (build_jobs (db w)) = Some j" "cj_job cj = lease_job worker expires now j"
    unfolding leased_def by blast
  with leased_lookup [OF assms(1) l] n show ?thesis
    by (intro exI [of _ j]) (auto simp: lease_job_def claimable_def)
qed

lemma claim_result:
  assumes "job_inv (db w)" and "claim parse_uuid q worker l w = (Inr (Some cj), w')"
  shows "lookup_by j_id (j_id (cj_job cj)) (build_jobs (db w')) = Some (cj_job cj)"
    and "j_status (cj_job cj) = JobRunning" and "job_inv (db w')"
    and "\<exists>j. lookup_by j_id (j_id (cj_job cj)) (build_jobs (db w)) = Some j \<and> j_status j \<noteq> JobRunning"
proof -
  from claim_outcome_claim [OF assms] have l: "leased worker (db w) (cj_job cj) (db w')"
    and i: "job_inv_from (db w) (db w')" by (simp_all add: claim_outcome_def)
  from leased_lookup [OF assms(1) l] i
  show "lookup_by j_id (j_id (cj_job cj)) (build_jobs (db w')) = Some (cj_job cj)"
    "j_status (cj_job cj) = JobRunning" "job_inv (db w')" by (simp_all add: job_inv_from_def)
  from l show "\<exists>j. lookup_by j_id (j_id (cj_job cj)) (build_jobs (db w)) = Some j \<and> j_status j \<noteq> JobRunning"
    by (auto simp: leased_def claimable_def lease_job_def)
qed

text \<open>C2. Two claims in a row never return the same job, whichever workers make them and whatever
  messages Redis repeats.\<close>

theorem claim_exclusive:
  assumes "job_inv (db w)" and "claim parse_uuid q worker1 l1 w = (Inr (Some cj1), w1)"
    and "claim parse_uuid q worker2 l2 w1 = (Inr (Some cj2), w2)"
  shows "j_id (cj_job cj2) \<noteq> j_id (cj_job cj1)"
  using claim_result(1,2,3) [OF assms(1,2)] claim_result(4) [OF _ assms(3)] by auto

text \<open>Fencing: a worker that does not hold the lease changes no job.\<close>

lemma update_jobs_none:
  "(\<And>j. j \<in> set (build_jobs (db w)) \<Longrightarrow> \<not> P j) \<Longrightarrow> build_jobs (db (snd (update_jobs c P f w))) = build_jobs (db w)"
  by (simp add: update_jobs_def statement_def update_where_none)

definition fenced :: "uuid \<Rightarrow> string \<Rightarrow> BuildJobRecord list \<Rightarrow> 'z world_scheme \<Rightarrow> bool" where
  "fenced i worker js w \<longleftrightarrow> build_jobs (db w) = js \<and> list_all (\<lambda>j. \<not> held_by i worker j) js"

lemma fenced_prims:
  "keeps (fenced i worker js) now_utc" "keeps (fenced i worker js) redis_connect"
  "keeps (fenced i worker js) (redis_send c x)" "keeps (fenced i worker js) (get_job k)"
  "keeps (fenced i worker js) (set_deployment k g)" "keeps (fenced i worker js) (close_attempts k wk s e n)"
  by (auto simp: keeps_def fenced_def now_utc_def redis_connect_def redis_send_def get_job_def
      select_rows_def statement_def set_deployment_def close_attempts_def ignore_def execute_def)

lemma fenced_update:
  "(\<And>j. P j \<Longrightarrow> held_by i worker j) \<Longrightarrow> keeps (fenced i worker js) (update_jobs c P f)"
  by (rule keepsI)
    (auto simp: fenced_def update_jobs_def statement_def list_all_iff intro!: update_where_none)

lemmas fenced_intros = fenced_prims fenced_update keeps_and_then keeps_ret keeps_fail keeps_of_option
  keeps_ignore keeps_if

text \<open>C4. A worker that does not hold the lease of a job changes no job by renewing,
  acknowledging or failing it, and its renewal reports the loss.\<close>

theorem lease_fencing:
  fixes w :: "'z world_scheme"
  assumes "\<forall>j\<in>set (build_jobs (db w)). j_id j = i \<longrightarrow> j_lease_owner j \<noteq> Some worker"
  shows "build_jobs (db (snd (renew i worker l w))) = build_jobs (db w)
    \<and> (\<forall>b. fst (renew i worker l w) = Inr b \<longrightarrow> \<not> b)
    \<and> build_jobs (db (snd (ack q i worker s m w))) = build_jobs (db w)
    \<and> build_jobs (db (snd (queue_fail q i worker s m e retryable w))) = build_jobs (db w)"
proof -
  let ?I = "fenced i worker (build_jobs (db w)) :: 'z world_scheme \<Rightarrow> bool"
  have not_held: "\<not> list_ex (held_by i worker) (build_jobs (db w))"
    using assms by (auto simp: list_ex_iff held_by_def)
  then have I: "?I w" by (simp add: fenced_def list_all_iff list_ex_iff)
  have "keeps ?I (renew i worker l)" "keeps ?I (ack q i worker s m)"
    "keeps ?I (queue_fail q i worker s m e retryable)"
    unfolding renew_def ack_def queue_fail_def by (intro fenced_intros; simp)+
  with I have "build_jobs (db (snd (renew i worker l w))) = build_jobs (db w)"
    "build_jobs (db (snd (ack q i worker s m w))) = build_jobs (db w)"
    "build_jobs (db (snd (queue_fail q i worker s m e retryable w))) = build_jobs (db w)"
    by (auto simp: keeps_def fenced_def)
  moreover have "count_where (\<lambda>j. held_by i worker j \<and> j_status j = JobRunning) (build_jobs (db w)) = 0"
    using not_held by (auto simp: count_where_def list_ex_iff filter_empty_conv)
  then have "\<forall>b. fst (renew i worker l w) = Inr b \<longrightarrow> \<not> b"
    by (auto simp: renew_def io_simps update_jobs_def statement_def)
  ultimately show ?thesis by blast
qed

section \<open>Expired leases\<close>

definition requeue_result :: "timestamp \<Rightarrow> BuildJobRecord \<Rightarrow> BuildJobRecord" where
  "requeue_result now j =
     (if j_attempt j < j_max_attempts j then release_job JobQueued None now j
      else release_job JobFailed (Some lease_expired_message) now j)"

definition requeue_message :: "BuildQueue \<Rightarrow> BuildJobRecord \<Rightarrow> redis_cmd" where
  "requeue_message q j = XADD (stream_of q (j_priority j)) (j_id j) (j_deployment_id j)"

abbreviation retryable_rows :: "BuildJobRecord list \<Rightarrow> BuildJobRecord list" where
  "retryable_rows rows \<equiv> filter (\<lambda>j. j_attempt j < j_max_attempts j) rows"

lemma requeue_row_run:
  assumes "no_db_faults w" and "no_redis_faults w"
    and dist: "distinct (map j_id (build_jobs (db w)))" and row: "row \<in> set (build_jobs (db w))"
      "j_status row = JobRunning"
  obtains w' where "requeue_row q now row n w = (Inr (n + length (retryable_rows [row])), w')"
    "redis_log w' = redis_log w @ map (requeue_message q) (retryable_rows [row])" "env w' = env w"
    "build_jobs (db w') = update_where (\<lambda>j. j = row) (requeue_result now) (build_jobs (db w))"
proof -
  have match: "update_where (\<lambda>j. j_id j = j_id row \<and> j_status j = JobRunning) g (build_jobs (db w)) =
      update_where (\<lambda>j. j = row) g (build_jobs (db w))" for g
  proof -
    have "(j_id j = j_id row \<and> j_status j = JobRunning) = (j = row)" if "j \<in> set (build_jobs (db w))" for j
      using that row dist by (auto simp: distinct_map dest: inj_onD)
    then show ?thesis by (simp add: update_where_def)
  qed
  have res: "update_where (\<lambda>j. j = row) (requeue_result now) (build_jobs (db w)) =
      update_where (\<lambda>j. j = row)
        (if j_attempt row < j_max_attempts row then release_job JobQueued None now
         else release_job JobFailed (Some lease_expired_message) now) (build_jobs (db w))"
    by (auto simp: update_where_def requeue_result_def)
  show thesis
    using assms(1,2)
    by (cases "j_attempt row < j_max_attempts row")
      (auto intro!: that simp: requeue_row_def io_simps update_jobs_def match res requeue_message_def
        set_deployment_def simp del: map_eq_conv)
qed

lemma requeue_rows_run:
  assumes "no_db_faults w" and "no_redis_faults w"
    and "distinct (map j_id (build_jobs (db w)))" and "distinct rows"
    and "\<And>r. r \<in> set rows \<Longrightarrow> r \<in> set (build_jobs (db w)) \<and> j_status r = JobRunning"
  shows "\<exists>w'. fold_io (requeue_row q now) rows n w = (Inr (n + length (retryable_rows rows)), w')
    \<and> redis_log w' = redis_log w @ map (requeue_message q) (retryable_rows rows)
    \<and> build_jobs (db w') = update_where (\<lambda>j. j \<in> set rows) (requeue_result now) (build_jobs (db w))"
  using assms
proof (induction rows arbitrary: n w)
  case Nil
  then show ?case by (simp add: io_simps update_where_none)
next
  case (Cons row rows)
  obtain w1 where
    w1: "requeue_row q now row n w = (Inr (n + length (retryable_rows [row])), w1)"
      "redis_log w1 = redis_log w @ map (requeue_message q) (retryable_rows [row])" "env w1 = env w"
      "build_jobs (db w1) = update_where (\<lambda>j. j = row) (requeue_result now) (build_jobs (db w))"
    by (rule requeue_row_run [of w row q now n]) (simp_all add: Cons.prems)
  have ids: "j_id (requeue_result now j) = j_id j" for j
    by (simp add: requeue_result_def release_job_def)
  have "r \<in> set (build_jobs (db w1)) \<and> j_status r = JobRunning" if "r \<in> set rows" for r
  proof -
    from that Cons.prems(4,5) have "r \<in> set (build_jobs (db w))" "r \<noteq> row" "j_status r = JobRunning"
      by auto
    then show ?thesis by (auto simp: w1(4) set_update_where intro: image_eqI [of _ _ r])
  qed
  moreover have "no_db_faults w1" "no_redis_faults w1"
    using Cons.prems(1,2) w1(3) by (simp_all add: no_db_faults_def no_redis_faults_def)
  moreover have "distinct (map j_id (build_jobs (db w1)))"
    using Cons.prems(3) by (simp add: w1(4) map_update_where ids)
  ultimately obtain w' where
    w': "fold_io (requeue_row q now) rows (n + length (retryable_rows [row])) w1 =
        (Inr (n + length (retryable_rows [row]) + length (retryable_rows rows)), w')"
      "redis_log w' = redis_log w1 @ map (requeue_message q) (retryable_rows rows)"
      "build_jobs (db w') = update_where (\<lambda>j. j \<in> set rows) (requeue_result now) (build_jobs (db w1))"
    using Cons.IH [of w1 "n + length (retryable_rows [row])"] Cons.prems(4) by auto
  have "j_status (requeue_result now row) \<noteq> JobRunning"
    by (simp add: requeue_result_def release_job_def)
  then have "requeue_result now row \<notin> set rows" using Cons.prems(5) by fastforce
  then have "build_jobs (db w') =
      update_where (\<lambda>j. j \<in> set (row # rows)) (requeue_result now) (build_jobs (db w))"
    using Cons.prems(4) by (auto simp: w'(3) w1(4) update_where_def)
  with w' w1 show ?case by (auto simp: io_simps simp del: filter.simps) (simp_all split: if_splits)
qed

text \<open>C5. Without failures, the recovery of expired leases ends; it moves exactly the running jobs
  with an expired lease, those with attempts left back to queued with one new message each and the
  others to failed, and no expired lease is left.\<close>

theorem requeue_expired_recovers:
  assumes "no_db_faults w" and "no_redis_faults w" and "job_inv (db w)"
    and "now = env_clock (env w) (tick w)"
  shows "\<exists>w'. requeue_expired q w = (Inr (length (retryable_rows (expired_rows q now (db w)))), w')
    \<and> build_jobs (db w') = update_where (lease_expired q now) (requeue_result now) (build_jobs (db w))
    \<and> redis_log w' = redis_log w @ map (requeue_message q) (retryable_rows (expired_rows q now (db w)))
    \<and> expired_rows q now (db w') = []"
proof -
  let ?w = "w\<lparr>tick := Suc (Suc (Suc (tick w)))\<rparr>" and ?rows = "expired_rows q now (db w)"
  have dist: "distinct (map j_id (build_jobs (db w)))" using assms(3) by (simp add: job_inv_def)
  have rows: "r \<in> set (build_jobs (db ?w)) \<and> j_status r = JobRunning" if "r \<in> set ?rows" for r
    using that by (simp add: expired_rows_def lease_expired_def)
  from dist have "distinct ?rows" by (auto simp: expired_rows_def distinct_map)
  then obtain w' where w': "fold_io (requeue_row q now) ?rows 0 ?w = (Inr (length (retryable_rows ?rows)), w')"
      "redis_log w' = redis_log w @ map (requeue_message q) (retryable_rows ?rows)"
      "build_jobs (db w') = update_where (\<lambda>j. j \<in> set ?rows) (requeue_result now) (build_jobs (db w))"
    using requeue_rows_run [of ?w ?rows q now 0, OF _ _ _ _ rows] assms(1,2) dist by auto
  have jobs: "build_jobs (db w') =
      update_where (lease_expired q now) (requeue_result now) (build_jobs (db w))"
    by (auto simp: w'(3) update_where_def expired_rows_def)
  have "\<not> lease_expired q now (requeue_result now j)" for j
    by (simp add: lease_expired_def requeue_result_def release_job_def)
  then have "expired_rows q now (db w') = []"
    by (auto simp: expired_rows_def jobs filter_empty_conv set_update_where)
  with w' jobs show ?thesis
    by (simp add: requeue_expired_def io_simps assms(1,2) assms(4) [symmetric])
qed

section \<open>Enqueue\<close>

text \<open>Enqueuing a deployment that has a job returns this job and changes and publishes
  nothing.\<close>

theorem enqueue_idempotent:
  assumes "lookup_by j_deployment_id (in_deployment_id input) (build_jobs (db w)) = Some job"
    and "enqueue q input w = (Inr rec, w')"
  shows "rec = job \<and> db w' = db w \<and> redis_log w' = redis_log w"
proof -
  have "has_key j_deployment_id (in_deployment_id input) (build_jobs (db w))"
    using lookup_by_key [OF assms(1)] by (simp add: sql_simps)
  then have ins: "insert_job (new_job q input i now) (db w) = (Inr None, db w)" for i now
    by (simp add: insert_job_def new_job_def)
  from assms(2) ins show ?thesis
    by (auto simp: enqueue_def io_simps statement_def get_job_by_deployment_def select_rows_def
        assms(1) split: if_splits)
qed

lemma claim_step_hit:
  assumes "no_db_faults w" and "no_redis_faults w"
    and "parse_xreadgroup_entry parse_uuid (env_redis (env w) (XREADGROUP stream (consumer_group q) worker) (tick w)) = Some (sid, i)"
    and "lookup_by j_id i (build_jobs (db w)) = Some j" and "claimable i j"
    and "distinct (map j_id (build_jobs (db w)))"
  shows "\<exists>now w'. claim_from parse_uuid q worker l (stream # streams) w =
      (Inr (Some \<lparr>cj_job = lease_job worker (now + l) now j, cj_attempt_number = j_attempt j + 1,
        cj_stream_name = stream, cj_stream_id = sid\<rparr>), w')
    \<and> prod_claims_counter w' = prod_claims_counter w + (if stream = prod_stream q then 1 else 0)"
proof -
  let ?now = "env_clock (env w) (Suc (tick w))"
  let ?f = "lease_job worker (?now + l) ?now"
  have "j \<in> set (build_jobs (db w))" using assms(4) by (auto dest: lookup_by_Some)
  with assms(5) have "returning (claimable i) ?f (build_jobs (db w)) \<noteq> []"
    by (auto simp: returning_Nil_iff)
  then obtain row where row: "first_row (returning (claimable i) ?f (build_jobs (db w))) = Some row"
    by (metis first_row_None option.exhaust)
  from first_returning_Some [OF assms(6) row, of i] assms(4) have "row = ?f j"
    by (auto simp: claimable_def)
  with assms row show ?thesis
    by (intro exI [of _ ?now])
      (auto simp: claim_reply_def io_simps take_lease_def Let_def record_attempt_def set_deployment_def lease_job_def)
qed

text \<open>A stream that has no message, or one of a job that cannot be claimed, is passed over.\<close>

lemma claim_step_miss:
  assumes "no_db_faults w" and "no_redis_faults w"
    and "\<And>sid i j. parse_xreadgroup_entry parse_uuid (env_redis (env w) (XREADGROUP stream (consumer_group q) worker) (tick w)) =
      Some (sid, i) \<Longrightarrow> j \<in> set (build_jobs (db w)) \<Longrightarrow> \<not> claimable i j"
  shows "\<exists>n log. claim_from parse_uuid q worker l (stream # streams) w =
    claim_from parse_uuid q worker l streams (w\<lparr>redis_log := log, tick := n\<rparr>)"
proof (cases "parse_xreadgroup_entry parse_uuid (env_redis (env w) (XREADGROUP stream (consumer_group q) worker) (tick w))")
  case None
  then show ?thesis using assms(2)
    by (intro exI [of _ "Suc (tick w)"] exI [of _ "redis_log w @ [XREADGROUP stream (consumer_group q) worker]"])
      (simp add: claim_reply_def io_simps no_redis_faults_def redis_read_def)
next
  case (Some m)
  obtain sid i where m: "m = (sid, i)" by (cases m)
  have none: "filter (claimable i) (build_jobs (db w)) = []" using assms(3) Some m by (auto simp: filter_empty_conv)
  then have "first_row (returning (claimable i) f (build_jobs (db w))) = None" "update_where (claimable i) f (build_jobs (db w)) = build_jobs (db w)" for f
    by (auto simp: returning_def update_where_def filter_empty_conv intro: map_idI)
  then show ?thesis using assms(1,2) Some
    by (intro exI [of _ "Suc (Suc (Suc (Suc (tick w))))"]
        exI [of _ "redis_log w @ [XREADGROUP stream (consumer_group q) worker, XACK stream (consumer_group q) sid]"])
      (simp add: redis_read_def claim_reply_def io_simps m take_lease_def statement_def Let_def no_redis_faults_def no_db_faults_def now_utc_def redis_send_def)
qed

lemma enqueue_new:
  assumes "no_db_faults w" and "no_redis_faults w"
    and "\<not> has_key j_deployment_id (in_deployment_id input) (build_jobs (db w))"
    and "enqueue q input w = (Inr rec, w')"
  shows "rec = new_job q input (env_uuid (env w) (Suc (tick w))) (env_clock (env w) (tick w))"
    "build_jobs (db w') = build_jobs (db w) @ [rec]" "\<not> has_key j_id (j_id rec) (build_jobs (db w))"
    "last (redis_log w') = XADD (stream_of q (in_priority input)) (j_id rec) (in_deployment_id input)"
    "env w' = env w"
  using assms by (auto simp: enqueue_def io_simps insert_job_def new_job_def set_deployment_def split: if_splits)

text \<open>The stream that is not the one of a priority.\<close>

definition other_stream :: "BuildQueue \<Rightarrow> JobPriority \<Rightarrow> string" where
  "other_stream q p = (case p of Production \<Rightarrow> preview_stream q | Preview \<Rightarrow> prod_stream q)"

lemma streams_differ: "prod_stream q \<noteq> preview_stream q"
  by (simp add: prod_stream_def preview_stream_def)

text \<open>C6. An enqueued job is claimed.  When neither PostgreSQL nor Redis fails, enqueuing a deployment that has no job
  publishes the new job as the last message, to the stream of its priority.  A claim of a worker to which Redis
  delivers that message when it reads that stream returns the job, leased to the worker, as its first attempt and with
  the stream and the message it came from.  The order of the streams does not matter: after three production claims the
  preview stream is read first, and until then the production stream; when the other stream is the one that is read
  first, it must have no message of a job that can be claimed, since that job would be returned.  The counter of
  production claims starts again when it has reached three and counts the claim if the job is a production job.\<close>

theorem enqueued_job_is_claimed:
  assumes "no_db_faults w" and "no_redis_faults w" and "job_inv (db w)"
    and "\<not> has_key j_deployment_id (in_deployment_id input) (build_jobs (db w))"
    and "0 < in_max_attempts input" and "enqueue q input w = (Inr rec, w')"
    and "\<And>n. parse_xreadgroup_entry parse_uuid
           (env_redis (env w) (XREADGROUP (stream_of q (in_priority input)) (consumer_group q) worker) n) = Some (sid, j_id rec)"
    and "\<And>n sid' i j. (3 \<le> prod_claims_counter w') = (in_priority input = Production) \<Longrightarrow> parse_xreadgroup_entry parse_uuid
           (env_redis (env w) (XREADGROUP (other_stream q (in_priority input)) (consumer_group q) worker) n) = Some (sid', i) \<Longrightarrow>
           j \<in> set (build_jobs (db w')) \<Longrightarrow> \<not> claimable i j"
  shows "last (redis_log w') = XADD (stream_of q (in_priority input)) (j_id rec) (in_deployment_id input)
    \<and> (\<exists>now w''. claim parse_uuid q worker l w' =
          (Inr (Some \<lparr>cj_job = lease_job worker (now + l) now rec, cj_attempt_number = 1,
             cj_stream_name = stream_of q (in_priority input), cj_stream_id = sid\<rparr>), w'')
        \<and> prod_claims_counter w'' = (if 3 \<le> prod_claims_counter w' then 0 else prod_claims_counter w')
             + (if in_priority input = Production then 1 else 0))"
proof -
  note new = enqueue_new [OF assms(1,2,4,6)]
  have "job_inv (db w')"
    using keeps_from [OF enqueue_keeps assms(3), of q input] assms(6) by (simp add: job_inv_from_def)
  then have dist: "distinct (map j_id (build_jobs (db w')))" by (simp add: job_inv_def)
  have look: "lookup_by j_id (j_id rec) (build_jobs (db w')) = Some rec"
    using new(3) by (simp add: new(2) sql_simps lookup_by_None split: option.split)
      (metis lookup_by_None option.distinct(1))
  have rec: "claimable (j_id rec) rec" "j_attempt rec = 0"
    using assms(5) by (simp_all add: claimable_def new(1) new_job_def)
  let ?c = "prod_claims_counter w'" and ?s = "stream_of q (in_priority input)" and ?o = "other_stream q (in_priority input)"
  define v where "v = w'\<lparr>prod_claims_counter := (if 3 \<le> ?c then 0 else ?c), tick := Suc (tick w')\<rparr>"
  have v: "build_jobs (db v) = build_jobs (db w')" "env v = env w" "prod_claims_counter v = (if 3 \<le> ?c then 0 else ?c)"
    by (simp_all add: v_def new(5))
  have own: "?s = prod_stream q \<longleftrightarrow> in_priority input = Production"
    using streams_differ [of q] by (cases "in_priority input") (auto simp: stream_of_def)
  have nf: "no_db_faults (v\<lparr>redis_log := log, tick := n\<rparr>)" "no_redis_faults (v\<lparr>redis_log := log, tick := n\<rparr>)" for n log
    using assms(1,2) by (simp_all add: v_def new(5) no_db_faults_def no_redis_faults_def)
  have start: "claim parse_uuid q worker l w' =
      claim_from parse_uuid q worker l (if 3 \<le> ?c then [preview_stream q, prod_stream q] else [prod_stream q, preview_stream q]) v"
    using nf(2) by (simp add: claim_def io_simps Let_def v_def redis_connect_def no_redis_faults_def modify_def gets_def del: claim_from.simps)
  have hit: "\<exists>now w''. claim_from parse_uuid q worker l (?s # ss) (v\<lparr>redis_log := log, tick := n\<rparr>) =
      (Inr (Some \<lparr>cj_job = lease_job worker (now + l) now rec, cj_attempt_number = 1, cj_stream_name = ?s, cj_stream_id = sid\<rparr>), w'')
      \<and> prod_claims_counter w'' = (if 3 \<le> ?c then 0 else ?c) + (if in_priority input = Production then 1 else 0)" for ss n log
    using claim_step_hit [OF nf [of n log], where parse_uuid = parse_uuid and stream = ?s and q = q and worker = worker and sid = sid
        and i = "j_id rec" and j = rec and l = l and streams = ss] look rec dist assms(7)
    by (simp add: v own del: claim_from.simps cong: if_cong)
  show ?thesis
  proof (cases "(3 \<le> ?c) = (in_priority input = Production)")
    case False
    then have "(if 3 \<le> ?c then [preview_stream q, prod_stream q] else [prod_stream q, preview_stream q]) = [?s, ?o]"
      by (cases "in_priority input") (auto simp: stream_of_def other_stream_def)
    then show ?thesis using start hit [of "[?o]" "tick v" "redis_log v"] new(4) by (simp del: claim_from.simps)
  next
    case True
    then have order: "(if 3 \<le> ?c then [preview_stream q, prod_stream q] else [prod_stream q, preview_stream q]) = [?o, ?s]"
      by (cases "in_priority input") (auto simp: stream_of_def other_stream_def)
    obtain n log where "claim_from parse_uuid q worker l [?o, ?s] v = claim_from parse_uuid q worker l [?s] (v\<lparr>redis_log := log, tick := n\<rparr>)"
      using claim_step_miss [of v parse_uuid ?o q worker l "[?s]"] nf [of "tick v" "redis_log v"] assms(8) [OF True]
      by (auto simp: v_def new(5) simp del: claim_from.simps)
    then show ?thesis using start order hit [of "[]" n log] new(4) by (simp del: claim_from.simps)
  qed
qed

section \<open>Weighted polling\<close>

definition from_production :: "BuildQueue \<Rightarrow> error + ClaimedJob option \<Rightarrow> bool" where
  "from_production q res =
     (case res of Inr (Some cj) \<Rightarrow> cj_stream_name cj = prod_stream q | _ \<Rightarrow> False)"

definition same_counter :: "u64 \<Rightarrow> redis_cmd list \<Rightarrow> 'z queue_world_scheme \<Rightarrow> bool" where
  "same_counter c log w \<longleftrightarrow> prod_claims_counter w = c \<and> (\<exists>t. redis_log w = log @ t)"

lemma same_counter_prims [keeps_intros]:
  "keeps (same_counter c log) now_utc" "keeps (same_counter c log) (redis_read ctx x)"
  "keeps (same_counter c log) (redis_send ctx x)" "keeps (same_counter c log) (take_lease i wk e n)"
  "keeps (same_counter c log) (record_attempt job wk n)"
  "keeps (same_counter c log) (set_deployment i f)"
  by (auto simp: keeps_def same_counter_def now_utc_def redis_read_def redis_send_def take_lease_def
      statement_def record_attempt_def and_then_def uuid_new_v4_def ignore_def insert_row_def
      set_deployment_def execute_def Let_def)

lemma claim_reply_counter:
  fixes continue :: "('z, ClaimedJob option) qop"
  assumes "triple (same_counter c log) continue
      (\<lambda>r. same_counter (c + (if from_production q (Inr r) then 1 else 0)) log)
      (\<lambda>e. same_counter c log)"
  shows "triple (same_counter c log) (claim_reply parse_uuid q worker l stream continue res)
      (\<lambda>r. same_counter (c + (if from_production q (Inr r) then 1 else 0)) log)
      (\<lambda>e. same_counter c log)"
proof -
  let ?J = "same_counter c log :: 'z queue_world_scheme \<Rightarrow> bool"
  let ?Q = "\<lambda>r. same_counter (c + (if from_production q (Inr r) then 1 else 0)) log"
  have fin: "triple ?J (and_then (modify (\<lambda>w. if stream = prod_stream q
         then w\<lparr>prod_claims_counter := prod_claims_counter w + 1\<rparr> else w))
         (\<lambda>_. ret (Some \<lparr>cj_job = job, cj_attempt_number = j_attempt job, cj_stream_name = stream,
            cj_stream_id = sid\<rparr>))) ?Q (\<lambda>e. ?J)" for job sid
    by (rule tripleI) (auto simp: io_simps from_production_def same_counter_def)
  have keep: "keeps ?J m \<Longrightarrow> (\<And>a. triple ?J (f a) ?Q (\<lambda>e. ?J)) \<Longrightarrow> triple ?J (and_then m f) ?Q (\<lambda>e. ?J)"
    for m :: "('z queue_world_scheme, error, 'b) io" and f
    by (rule triple_and_then [OF triple_keeps])
  show ?thesis
    unfolding claim_reply_def
    by (auto split: option.split intro!: keep same_counter_prims fin assms keeps_ignore)
qed

lemma claim_from_counter:
  "triple (same_counter c log) (claim_from parse_uuid q worker l streams)
      (\<lambda>r. same_counter (c + (if from_production q (Inr r) then 1 else 0)) log)
      (\<lambda>e. same_counter c log)"
proof (induction streams)
  case Nil
  show ?case by (rule tripleI) (auto simp: io_simps from_production_def)
next
  case (Cons stream streams)
  show ?case
    unfolding claim_from.simps
    by (intro triple_and_then [OF triple_keeps] claim_reply_counter Cons.IH keeps_attempt
        same_counter_prims)
qed

lemma claim_first_read:
  assumes "no_redis_faults w" and "claim_from parse_uuid q worker l (stream # streams) w = (res, w')"
  shows "same_counter (prod_claims_counter w + (if from_production q res then 1 else 0))
    (redis_log w @ [XREADGROUP stream (consumer_group q) worker]) w'"
proof -
  let ?w = "snd (redis_read ''XREADGROUP'' (XREADGROUP stream (consumer_group q) worker) w)"
  let ?log = "redis_log w @ [XREADGROUP stream (consumer_group q) worker]"
  have J: "same_counter (prod_claims_counter w) ?log ?w"
    using assms(1) by (simp add: same_counter_def io_simps)
  have "claim_reply parse_uuid q worker l stream (claim_from parse_uuid q worker l streams)
      (fst (redis_read ''XREADGROUP'' (XREADGROUP stream (consumer_group q) worker) w)) ?w = (res, w')"
    using assms(2) by (simp add: io_simps)
  moreover have t: "triple (same_counter (prod_claims_counter w) ?log)
      (claim_reply parse_uuid q worker l stream (claim_from parse_uuid q worker l streams)
        (fst (redis_read ''XREADGROUP'' (XREADGROUP stream (consumer_group q) worker) w)))
      (\<lambda>r. same_counter (prod_claims_counter w + (if from_production q (Inr r) then 1 else 0)) ?log)
      (\<lambda>e. same_counter (prod_claims_counter w) ?log)"
    by (rule claim_reply_counter) (rule claim_from_counter)
  ultimately show ?thesis
    using t [unfolded triple_def, THEN spec, THEN mp, OF J]
    by (cases res) (simp_all add: from_production_def)
qed

lemma no_faults_counter [simp]:
  "no_redis_faults (w\<lparr>prod_claims_counter := c\<rparr>) = no_redis_faults w"
  "no_db_faults (w\<lparr>prod_claims_counter := c\<rparr>) = no_db_faults w"
  by (simp_all add: no_redis_faults_def no_db_faults_def)

text \<open>The weighting of the streams: the counter of production claims stays at most 3, and the
  preview stream is asked first exactly after three production claims.\<close>

theorem claim_weighted:
  assumes "prod_claims_counter w \<le> 3" and "no_redis_faults w"
    and "claim parse_uuid q worker l w = (res, w')"
  shows "prod_claims_counter w' =
      (if prod_claims_counter w = 3 then 0 else prod_claims_counter w)
      + (if from_production q res then 1 else 0)
    \<and> prod_claims_counter w' \<le> 3
    \<and> (\<exists>t. redis_log w' = redis_log w @ XREADGROUP
         (if prod_claims_counter w = 3 then preview_stream q else prod_stream q)
         (consumer_group q) worker # t)"
proof (cases "prod_claims_counter w = 3")
  case True
  let ?w = "w\<lparr>prod_claims_counter := 0, tick := Suc (tick w)\<rparr>"
  have "claim_from parse_uuid q worker l [preview_stream q, prod_stream q] ?w = (res, w')"
    using assms(2,3) True by (simp add: claim_def io_simps Let_def del: claim_from.simps)
  from claim_first_read [OF _ this] assms(2) True show ?thesis
    by (auto simp: same_counter_def no_redis_faults_def)
next
  case False
  let ?w = "w\<lparr>tick := Suc (tick w)\<rparr>"
  from False assms(1) have lt: "prod_claims_counter w < 3" by simp
  then have "\<not> 3 \<le> prod_claims_counter w" by (simp add: not_le)
  then have "claim_from parse_uuid q worker l [prod_stream q, preview_stream q] ?w = (res, w')"
    using assms(2,3) by (simp add: claim_def io_simps Let_def del: claim_from.simps)
  from claim_first_read [OF _ this] assms(2) False inc_le [OF lt] assms(1) show ?thesis
    by (auto simp: same_counter_def no_redis_faults_def)
qed

lemma keeps_env_ops [keeps_intros]:
  "keeps (\<lambda>w. P (env w)) (take_lease i worker expires now)"
  "keeps (\<lambda>w. P (env w)) (record_attempt job worker now)"
  "keeps (\<lambda>w. P (env w)) (set_deployment i f)" "keeps (\<lambda>w. P (env w)) (get_job_by_deployment i)"
  unfolding take_lease_def record_attempt_def set_deployment_def get_job_by_deployment_def Let_def
  by (intro keeps_intros)+

lemma claim_from_env: "keeps (\<lambda>w. P (env w)) (claim_from parse_uuid q worker l streams)"
proof (induction streams)
  case Nil
  show ?case by (simp add: keeps_ret)
next
  case (Cons stream streams)
  show ?case
    unfolding claim_from.simps claim_reply_def
    by (intro keeps_intros Cons.IH)
      (auto split: prod.split intro!: keeps_intros Cons.IH keeps_modify)
qed

lemma claim_env: "env (snd (claim parse_uuid q worker l w)) = env w"
proof -
  have "keeps (\<lambda>v. env v = env w) (claim parse_uuid q worker l)"
    unfolding claim_def Let_def by (intro keeps_intros claim_from_env keeps_modify) simp
  from keeps_snd [OF this refl] show ?thesis .
qed

lemma enqueue_env: "env (snd (enqueue q input w)) = env w"
proof -
  have "keeps (\<lambda>v. env v = env w) (enqueue q input)"
    unfolding enqueue_def by (intro keeps_intros)
  from keeps_snd [OF this refl] show ?thesis .
qed

end
