(* ===== verification/Queue_Examples.thy ===== *)
theory Queue_Examples
  imports Queue_Correct
begin

text \<open>
  Concrete runs of the build queue: the theorems of theory \<open>Queue_Correct\<close> applied to a queue with
  two jobs, and two interleavings in which the queue does not do what it means to.
\<close>

section \<open>Examples\<close>

definition demo_queue :: BuildQueue where
  "demo_queue = \<lparr>consumer_group = ''workers'', stream_prefix = ''build_jobs''\<rparr>"

definition demo_input :: "uuid \<Rightarrow> EnqueueJobInput" where
  "demo_input dep = \<lparr>in_deployment_id = dep, in_project_id = 1, in_priority = Production,
     in_max_attempts = 3, in_force_rebuild = False\<rparr>"

definition demo_reply :: "string \<Rightarrow> redis_value" where
  "demo_reply job = Bulk [Bulk [Data ''build_jobs:production'', Bulk [Bulk [Data ''1-0'',
     Bulk [Data ''job_id'', Data job, Data ''deployment_id'', Data ''3'']]]]]"

definition demo_parse_uuid :: "string \<Rightarrow> uuid option" where
  "demo_parse_uuid s = (if s = ''11'' then Some 11 else if s = ''17'' then Some 17 else None)"

text \<open>Redis delivers job 11 first and job 17 later.\<close>

definition demo_queue_world :: queue_world where
  "demo_queue_world = \<lparr>env = demo_env\<lparr>env_redis :=
       \<lambda>_ n. demo_reply (if n < 30 then ''11'' else ''17'')\<rparr>, tick = 10,
     db = demo_db\<lparr>deployments := [demo_deployment, demo_deployment\<lparr>d_id := 4\<rparr>]\<rparr>,
     redis_log = [], prod_claims_counter = 0\<rparr>"

definition demo_enqueued :: queue_world where
  "demo_enqueued = snd (enqueue demo_queue (demo_input 4)
     (snd (enqueue demo_queue (demo_input 3) demo_queue_world)))"

abbreviation demo_claim :: "string \<Rightarrow> (unit, ClaimedJob option) qop" where
  "demo_claim worker \<equiv> claim demo_parse_uuid demo_queue worker 5"

definition demo_claimed :: queue_world where
  "demo_claimed = snd (demo_claim ''w1'' demo_enqueued)"

definition demo_acked :: queue_world where
  "demo_acked = snd (ack demo_queue 11 ''w1'' ''build_jobs:production'' ''1-0'' demo_claimed)"

text \<open>The states these runs reach, computed once.\<close>

abbreviation demo_job1 :: BuildJobRecord where
  "demo_job1 \<equiv> new_job demo_queue (demo_input 3) 11 10"

abbreviation demo_job2 :: BuildJobRecord where
  "demo_job2 \<equiv> new_job demo_queue (demo_input 4) 17 16"

lemma demo_reply_parse:
  "parse_xreadgroup_entry demo_parse_uuid (demo_reply ''11'') = Some (''1-0'', 11)"
  "parse_xreadgroup_entry demo_parse_uuid (demo_reply ''17'') = Some (''1-0'', 17)"
  by code_simp+

lemmas demo_run = io_simps Let_def demo_env_def demo_db_def empty_db_def demo_deployment_def
  new_job_def demo_input_def has_key_def set_deployment_def statement_def redis_connect_def
  redis_send_def redis_read_def select_rows_def execute_def update_where_def insert_row_def
  stream_of_def

lemma demo_enqueued_eq [code]:
  "demo_enqueued = demo_queue_world\<lparr>tick := 22, db := (db demo_queue_world)\<lparr>
       deployments := [demo_deployment\<lparr>d_status := DepQueued\<rparr>,
                       demo_deployment\<lparr>d_id := 4, d_status := DepQueued\<rparr>],
       build_jobs := [demo_job1, demo_job2]\<rparr>,
     redis_log := [XADD (prod_stream demo_queue) 11 3, XADD (prod_stream demo_queue) 17 4]\<rparr>"
  by (simp add: demo_enqueued_def demo_queue_world_def enqueue_def insert_job_def demo_run)

lemma demo_claimed_eq [code]:
  "demo_claimed = demo_enqueued\<lparr>tick := 29, db := (db demo_enqueued)\<lparr>
       deployments := [demo_deployment\<lparr>d_status := DepBuilding\<rparr>,
                       demo_deployment\<lparr>d_id := 4, d_status := DepQueued\<rparr>],
       build_jobs := [lease_job ''w1'' 29 24 demo_job1, demo_job2],
       build_attempts := [new_attempt 26 (lease_job ''w1'' 29 24 demo_job1) ''w1'' 24]\<rparr>,
     redis_log := redis_log demo_enqueued @
       [XREADGROUP (prod_stream demo_queue) (consumer_group demo_queue) ''w1''],
     prod_claims_counter := 1\<rparr>"
  by (simp add: demo_claimed_def demo_enqueued_eq demo_queue_world_def claim_def claim_reply_def
      take_lease_def record_attempt_def demo_run demo_reply_parse returning_def claimable_def
      new_attempt_def attempt_insert_ok_def lease_job_def)

lemma demo_acked_eq [code]:
  "demo_acked = demo_claimed\<lparr>tick := 34, db := (db demo_claimed)\<lparr>
       build_jobs := [release_job JobCompleted None 29 (lease_job ''w1'' 29 24 demo_job1), demo_job2],
       build_attempts := [new_attempt 26 (lease_job ''w1'' 29 24 demo_job1) ''w1'' 24
         \<lparr>a_status := AttSucceeded, a_finished_at := Some 29\<rparr>]\<rparr>,
     redis_log := redis_log demo_claimed @
       [XACK ''build_jobs:production'' (consumer_group demo_queue) ''1-0'']\<rparr>"
  by (simp add: demo_acked_def demo_claimed_eq demo_enqueued_eq demo_queue_world_def ack_def
      update_jobs_def close_attempts_def demo_run held_by_def lease_job_def release_job_def
      new_attempt_def)

lemma demo_queue_reach:
  "queue_reach demo_queue_world" "queue_reach demo_enqueued" "queue_reach demo_claimed"
  "queue_reach demo_acked"
proof -
  show 1: "queue_reach demo_queue_world"
    by (rule queue_init) (simp_all add: demo_queue_world_def demo_db_def empty_db_def)
  show 2: "queue_reach demo_enqueued"
    unfolding demo_enqueued_def
    by (rule queue_next [OF queue_next [OF 1]]) (rule step_enqueue)+
  show 3: "queue_reach demo_claimed"
    unfolding demo_claimed_def by (intro queue_next [OF 2] step_claim)
  show "queue_reach demo_acked"
    unfolding demo_acked_def by (intro queue_next [OF 3] step_ack)
qed

lemma demo_env_faults:
  "no_db_faults demo_queue_world" "no_redis_faults demo_queue_world"
  by (simp_all add: demo_queue_world_def demo_env_def no_db_faults_def no_redis_faults_def)

lemma demo_claim_runs:
  "demo_claim ''w1'' demo_enqueued =
     (Inr (Some (the (projr (fst (demo_claim ''w1'' demo_enqueued))))), demo_claimed)"
proof -
  have "\<not> isl (fst (demo_claim ''w1'' demo_enqueued))
      \<and> projr (fst (demo_claim ''w1'' demo_enqueued)) \<noteq> None" by code_simp
  then show ?thesis
    unfolding demo_claimed_def by (metis option.collapse prod.collapse sum.collapse(2))
qed

lemma demo_claim2_runs:
  "demo_claim ''w2'' demo_claimed =
     (Inr (Some (the (projr (fst (demo_claim ''w2'' demo_claimed))))),
      snd (demo_claim ''w2'' demo_claimed))"
proof -
  have "\<not> isl (fst (demo_claim ''w2'' demo_claimed))
      \<and> projr (fst (demo_claim ''w2'' demo_claimed)) \<noteq> None" by code_simp
  then show ?thesis
    by (metis option.collapse prod.collapse sum.collapse(2))
qed

lemma lookup_Some_the: "lookup_by key k t \<noteq> None \<Longrightarrow> lookup_by key k t = Some (the (lookup_by key k t))"
  by simp

theorem queue_refines_lifecycle_witness:
  "\<exists>j'. lookup_by j_id 11 (build_jobs (db demo_claimed)) = Some j'
     \<and> job_step\<^sup>*\<^sup>* (the (lookup_by j_id 11 (build_jobs (db demo_enqueued)))) j'"
proof -
  have "lookup_by j_id 11 (build_jobs (db demo_enqueued)) \<noteq> None" by code_simp
  then show ?thesis
    by (intro queue_refines_lifecycle [OF demo_queue_reach(2)] lookup_Some_the)
      (simp add: demo_claimed_def step_claim)
qed

theorem finished_jobs_stable_witness:
  "lookup_by j_id 11 (build_jobs (db (snd (requeue_expired demo_queue demo_acked)))) =
   Some (the (lookup_by j_id 11 (build_jobs (db demo_acked))))"
proof -
  let ?j = "lookup_by j_id 11 (build_jobs (db demo_acked))"
  have "?j \<noteq> None \<and> j_status (the ?j) = JobCompleted" by code_simp
  then show ?thesis
    using finished_jobs_stable [OF demo_queue_reach(4) r_into_rtranclp [of queue_step, OF step_requeue],
        of 11 "the ?j" demo_queue] by auto
qed

theorem job_attempts_bounded_witness:
  "int (length (filter (\<lambda>a. a_job_id a = j_id (hd (build_jobs (db demo_claimed))))
      (build_attempts (db demo_claimed)))) \<le> j_attempt (hd (build_jobs (db demo_claimed)))"
proof -
  have "build_jobs (db demo_claimed) \<noteq> []" by code_simp
  then have "hd (build_jobs (db demo_claimed)) \<in> set (build_jobs (db demo_claimed))" by simp
  from job_attempts_bounded [OF demo_queue_reach(3) this] show ?thesis by simp
qed

theorem claim_grants_lease_witness:
  "j_lease_owner (cj_job (the (projr (fst (demo_claim ''w1'' demo_enqueued))))) = Some ''w1''"
  using claim_grants_lease [OF queue_reach_inv [OF demo_queue_reach(2)] demo_claim_runs] by blast

theorem claim_exclusive_witness:
  "j_id (cj_job (the (projr (fst (demo_claim ''w2'' demo_claimed)))))
     \<noteq> j_id (cj_job (the (projr (fst (demo_claim ''w1'' demo_enqueued)))))"
  by (rule claim_exclusive [OF queue_reach_inv [OF demo_queue_reach(2)] demo_claim_runs demo_claim2_runs])

theorem lease_fencing_witness:
  "build_jobs (db (snd (ack demo_queue 11 ''w2'' ''s'' ''1-0'' demo_claimed))) = build_jobs (db demo_claimed)"
proof -
  have "\<forall>j\<in>set (build_jobs (db demo_claimed)). j_id j = 11 \<longrightarrow> j_lease_owner j \<noteq> Some ''w2''" by code_simp
  from lease_fencing [OF this] show ?thesis by blast
qed

lemma demo_claimed_faults: "no_db_faults demo_claimed" "no_redis_faults demo_claimed"
proof -
  have "env demo_claimed = env demo_queue_world"
    by (simp add: demo_claimed_def demo_enqueued_def claim_env enqueue_env)
  then show "no_db_faults demo_claimed" "no_redis_faults demo_claimed"
    using demo_env_faults by (simp_all add: no_db_faults_def no_redis_faults_def)
qed

theorem requeue_expired_recovers_witness:
  "\<exists>w'. expired_rows demo_queue 40 (db w') = []
    \<and> requeue_expired demo_queue (demo_claimed\<lparr>tick := 40\<rparr>) =
       (Inr (length (retryable_rows (expired_rows demo_queue 40 (db demo_claimed)))), w')"
proof -
  have clock: "40 = env_clock (env (demo_claimed\<lparr>tick := 40\<rparr>)) (tick (demo_claimed\<lparr>tick := 40\<rparr>))"
    by (simp add: demo_claimed_eq demo_enqueued_eq demo_queue_world_def demo_env_def)
  show ?thesis
    using requeue_expired_recovers [OF _ _ _ clock, of demo_queue] demo_claimed_faults
      queue_reach_inv [OF demo_queue_reach(3)] by auto
qed

theorem enqueue_idempotent_witness:
  "db (snd (enqueue demo_queue (demo_input 3) demo_enqueued)) = db demo_enqueued"
proof -
  have found: "lookup_by j_deployment_id (in_deployment_id (demo_input 3)) (build_jobs (db demo_enqueued))
      \<noteq> None" by code_simp
  have ok: "\<not> isl (fst (enqueue demo_queue (demo_input 3) demo_enqueued))" by code_simp
  have "enqueue demo_queue (demo_input 3) demo_enqueued =
      (Inr (projr (fst (enqueue demo_queue (demo_input 3) demo_enqueued))),
       snd (enqueue demo_queue (demo_input 3) demo_enqueued))" using ok by (rule run_ok)
  from enqueue_idempotent [OF lookup_Some_the [OF found] this] show ?thesis by simp
qed

text \<open>A preview job, with the production stream read first and empty.\<close>

definition demo_preview_input :: EnqueueJobInput where
  "demo_preview_input = (demo_input 3)\<lparr>in_priority := Preview\<rparr>"

definition demo_preview_world :: queue_world where
  "demo_preview_world = demo_queue_world\<lparr>env := demo_env\<lparr>env_redis :=
     \<lambda>c n. case c of XREADGROUP s _ _ \<Rightarrow> if s = preview_stream demo_queue then demo_reply ''11'' else Nil | _ \<Rightarrow> Nil\<rparr>\<rparr>"

theorem enqueued_job_is_claimed_witness:
  "\<exists>now w''. claim demo_parse_uuid demo_queue ''w1'' 5
      (snd (enqueue demo_queue demo_preview_input demo_preview_world)) =
        (Inr (Some \<lparr>cj_job = lease_job ''w1'' (now + 5) now (new_job demo_queue demo_preview_input 11 10), cj_attempt_number = 1,
           cj_stream_name = preview_stream demo_queue, cj_stream_id = ''1-0''\<rparr>), w'')
    \<and> prod_claims_counter w'' = 0"
proof -
  let ?rec = "new_job demo_queue demo_preview_input 11 10"
  let ?w = "snd (enqueue demo_queue demo_preview_input demo_preview_world)"
  have ok: "enqueue demo_queue demo_preview_input demo_preview_world = (Inr ?rec, ?w)"
    by (simp add: demo_preview_world_def demo_queue_world_def demo_preview_input_def enqueue_def insert_job_def demo_run)
  have c: "prod_claims_counter ?w = 0"
    by (simp add: demo_preview_world_def demo_queue_world_def demo_preview_input_def enqueue_def insert_job_def demo_run)
  have faults: "no_db_faults demo_preview_world" "no_redis_faults demo_preview_world"
    by (simp_all add: no_db_faults_def no_redis_faults_def demo_preview_world_def demo_env_def)
  have inv: "job_inv (db demo_preview_world)" using queue_reach_inv [OF demo_queue_reach(1)] by (simp add: demo_preview_world_def)
  have new: "\<not> has_key j_deployment_id (in_deployment_id demo_preview_input) (build_jobs (db demo_preview_world))"
    "0 < in_max_attempts demo_preview_input"
    by (simp_all add: demo_preview_world_def demo_queue_world_def demo_preview_input_def demo_run)
  have s: "stream_of demo_queue (in_priority demo_preview_input) = preview_stream demo_queue"
    "other_stream demo_queue (in_priority demo_preview_input) = prod_stream demo_queue"
    by (simp_all add: demo_preview_input_def stream_of_def other_stream_def)
  have p: "in_priority demo_preview_input = Preview" by (simp add: demo_preview_input_def)
  have msg: "parse_xreadgroup_entry demo_parse_uuid (env_redis (env demo_preview_world)
        (XREADGROUP (stream_of demo_queue (in_priority demo_preview_input)) (consumer_group demo_queue) ''w1'') n) = Some (''1-0'', j_id ?rec)"
    "parse_xreadgroup_entry demo_parse_uuid (env_redis (env demo_preview_world)
        (XREADGROUP (other_stream demo_queue (in_priority demo_preview_input)) (consumer_group demo_queue) ''w1'') n) = None" for n
    using streams_differ [of demo_queue]
    by (simp_all add: s demo_preview_world_def demo_reply_parse new_job_def parse_xreadgroup_entry_def [of _ Nil])
  from enqueued_job_is_claimed [OF faults inv new ok msg(1), of 5] show ?thesis
    unfolding s using msg(2) [unfolded s] c by (simp add: p)
qed

theorem claim_weighted_witness:
  "prod_claims_counter demo_claimed \<le> 3"
proof -
  have "env demo_enqueued = env demo_queue_world" by (simp add: demo_enqueued_def enqueue_env)
  then have "no_redis_faults demo_enqueued" using demo_env_faults by (simp add: no_redis_faults_def)
  moreover have "prod_claims_counter demo_enqueued \<le> 3" by code_simp
  ultimately show ?thesis using claim_weighted [OF _ _ demo_claim_runs] by blast
qed

text \<open>A reaper reads job 11 as expired at time 40; then another reaper requeues it and the worker
  \<open>w2\<close> claims it.\<close>

definition demo_expired :: queue_world where
  "demo_expired =
     demo_claimed\<lparr>tick := 40, env := demo_env\<lparr>env_redis := \<lambda>_ n. demo_reply ''11''\<rparr>\<rparr>"

definition demo_requeued :: queue_world where
  "demo_requeued = snd (requeue_expired demo_queue demo_expired)"

definition demo_reclaimed :: queue_world where
  "demo_reclaimed = snd (claim demo_parse_uuid demo_queue ''w2'' 1000 demo_requeued)"

abbreviation demo_stale :: BuildJobRecord where
  "demo_stale \<equiv> lease_job ''w1'' 29 24 demo_job1"

lemmas demo_states = demo_expired_def demo_claimed_eq demo_enqueued_eq demo_queue_world_def

lemma demo_requeued_eq [code]:
  "demo_requeued = demo_expired\<lparr>tick := 45, db := (db demo_expired)\<lparr>
     build_jobs := [release_job JobQueued None 40 demo_stale, demo_job2]\<rparr>,
   redis_log := redis_log demo_expired @ [XADD (prod_stream demo_queue) 11 3]\<rparr>"
  by (simp add: demo_requeued_def demo_states requeue_expired_def expired_rows_def lease_expired_def
      requeue_row_def update_jobs_def demo_run lease_job_def release_job_def demo_queue_def)

lemma demo_reclaimed_jobs:
  "build_jobs (db demo_reclaimed) =
     [lease_job ''w2'' 1047 47 (release_job JobQueued None 40 demo_stale), demo_job2]"
  "env_clock (env demo_reclaimed) (tick demo_reclaimed) = 52"
  by code_simp+

lemma demo_reclaimed_faults: "no_db_faults demo_reclaimed" "no_redis_faults demo_reclaimed"
  by (simp_all add: demo_reclaimed_def no_db_faults_def no_redis_faults_def claim_env
      demo_requeued_eq demo_expired_def demo_env_def)

text \<open>The update that requeues an expired job checks the status but not the lease: a reaper
  that read the job before another reaper requeued it and a second worker claimed it takes the new,
  unexpired lease away and the job runs twice.\<close>

theorem requeue_can_revoke_lease:
  "demo_stale \<in> set (expired_rows demo_queue 40 (db demo_expired))
   \<and> map (\<lambda>j. (j_id j, j_status j, j_lease_owner j)) (build_jobs (db demo_reclaimed)) =
       [(11, JobRunning, Some ''w2''), (17, JobQueued, None)]
   \<and> expired_rows demo_queue (env_clock (env demo_reclaimed) (tick demo_reclaimed))
       (db demo_reclaimed) = []
   \<and> map (\<lambda>j. (j_id j, j_status j, j_lease_owner j))
         (build_jobs (db (snd (requeue_row demo_queue 40 demo_stale 0 demo_reclaimed)))) =
       [(11, JobQueued, None), (17, JobQueued, None)]"
  by (intro conjI)
    (simp_all add: demo_reclaimed_jobs demo_reclaimed_faults demo_expired_def demo_claimed_eq requeue_row_def update_jobs_def
      expired_rows_def lease_expired_def io_simps update_where_def new_job_def lease_job_def
      release_job_def demo_queue_def demo_input_def)

text \<open>A job whose message cannot be published stays queued without a message: the caller gets
  an error, and enqueuing the deployment again succeeds without publishing anything.\<close>

theorem enqueue_can_strand:
  "\<exists>w :: queue_world.
     let w1 = snd (enqueue demo_queue (demo_input 3) w);
         w2 = snd (enqueue demo_queue (demo_input 3) w1)
     in isl (fst (enqueue demo_queue (demo_input 3) w))
        \<and> map j_status (build_jobs (db w1)) = [JobQueued]
        \<and> \<not> isl (fst (enqueue demo_queue (demo_input 3) w1)) \<and> redis_log w2 = []"
  by (rule exI [of _ "demo_queue_world\<lparr>env := demo_env\<lparr>env_redis_fault := \<lambda>n. n < 15\<rparr>\<rparr>"]) code_simp

end
