(* ===== verification/Nodes.thy ===== *)
theory Nodes
  imports Schema Strings
begin

text \<open>
  \<^verbatim>\<open>src/node_registry.rs\<close>: the registry of worker nodes, with the node types of
  \<^verbatim>\<open>src/agent_protocol.rs\<close>.  The columns of \<^verbatim>\<open>nodes\<close> are signed integers; the struct
  \<^verbatim>\<open>NodeRecord\<close> holds unsigned words, and both directions of the cast are written out.
  \<^verbatim>\<open>NOW()\<close> is a reading of the wall clock before the statement or the transaction.
\<close>

section \<open>Types\<close>

record NodeCapacity =
  cpu_millicores :: u64
  memory_bytes :: u64
  max_releases :: u32

record RegisterNodeCommand =
  rn_node_id :: uuid
  rn_hostname :: string
  rn_endpoint :: string
  rn_capacity :: NodeCapacity
  rn_token_hash :: string

record HeartbeatCommand =
  hb_node_id :: uuid
  hb_epoch :: u64
  hb_cpu_used_millicores :: u64
  hb_memory_used_bytes :: u64
  hb_running_releases :: "uuid list"
  hb_status :: NodeStatus

record RegisterNodeResponse =
  registered :: bool
  assigned_epoch :: u64

record HeartbeatResponse =
  acknowledged :: bool
  drain_requested :: bool

record NodeRecord =
  nr_id :: uuid
  nr_hostname :: string
  nr_endpoint :: string
  nr_status :: NodeStatus
  nr_capacity :: NodeCapacity
  nr_cpu_used_millicores :: u64
  nr_memory_used_bytes :: u64
  nr_running_releases_count :: u32
  nr_token_hash :: string
  nr_epoch :: u64
  nr_version :: u64
  nr_is_draining :: bool
  nr_is_enabled :: bool
  nr_last_heartbeat_at :: timestamp
  nr_registered_at :: timestamp
  nr_updated_at :: timestamp

fun status_to_str :: "NodeStatus \<Rightarrow> string" where
  "status_to_str Online = ''online''"
| "status_to_str Degraded = ''degraded''"
| "status_to_str NodeDraining = ''draining''"
| "status_to_str Offline = ''offline''"

definition node_status_of_str :: "string \<Rightarrow> NodeStatus" where
  "node_status_of_str s =
     (if s = ''degraded'' then Degraded
      else if s = ''draining'' then NodeDraining
      else if s = ''offline'' then Offline
      else Online)"

definition from_pg_row :: "NodeRow \<Rightarrow> NodeRecord" where
  "from_pg_row row =
     \<lparr>nr_id = n_id row, nr_hostname = n_hostname row, nr_endpoint = n_endpoint row,
      nr_status = n_status row,
      nr_capacity = \<lparr>cpu_millicores = as_u64 (n_cpu_total row),
                     memory_bytes = as_u64 (n_memory_total row),
                     max_releases = as_u32 (n_max_releases row)\<rparr>,
      nr_cpu_used_millicores = as_u64 (n_cpu_used row),
      nr_memory_used_bytes = as_u64 (n_memory_used row),
      nr_running_releases_count = as_u32 (n_running_count row),
      nr_token_hash = n_token_hash row, nr_epoch = as_u64 (n_epoch row),
      nr_version = as_u64 (n_version row), nr_is_draining = n_is_draining row,
      nr_is_enabled = n_is_enabled row, nr_last_heartbeat_at = n_last_heartbeat_at row,
      nr_registered_at = n_registered_at row, nr_updated_at = n_updated_at row\<rparr>"

section \<open>Operations\<close>

definition get_node :: "uuid \<Rightarrow> ('z, NodeRecord option) op" where
  "get_node node_id =
     and_then (select_rows ''get node'' (\<lambda>d. lookup_by n_id node_id (nodes d))) (\<lambda>row.
     ret (map_option from_pg_row row))"

definition new_node_row :: "RegisterNodeCommand \<Rightarrow> timestamp \<Rightarrow> NodeRow" where
  "new_node_row cmd now =
     \<lparr>n_id = rn_node_id cmd, n_hostname = rn_hostname cmd, n_endpoint = rn_endpoint cmd,
      n_status = Online, n_cpu_total = as_i64 (cpu_millicores (rn_capacity cmd)),
      n_memory_total = as_i64 (memory_bytes (rn_capacity cmd)),
      n_max_releases = as_i32 (max_releases (rn_capacity cmd)),
      n_cpu_used = 0, n_memory_used = 0, n_running_count = 0,
      n_token_hash = rn_token_hash cmd, n_epoch = 1, n_version = 1, n_is_draining = False,
      n_is_enabled = True, n_last_heartbeat_at = now, n_registered_at = now, n_updated_at = now\<rparr>"

text \<open>\<^verbatim>\<open>INSERT ... ON CONFLICT (id) DO UPDATE ... RETURNING epoch\<close>: a known node keeps its epoch,
  version, usage and registration time.\<close>

definition reregister :: "NodeRow \<Rightarrow> NodeRow \<Rightarrow> NodeRow" where
  "reregister fresh row =
     row\<lparr>n_hostname := n_hostname fresh, n_endpoint := n_endpoint fresh,
         n_cpu_total := n_cpu_total fresh, n_memory_total := n_memory_total fresh,
         n_max_releases := n_max_releases fresh, n_token_hash := n_token_hash fresh,
         n_status := Online, n_is_draining := False, n_is_enabled := True,
         n_last_heartbeat_at := n_last_heartbeat_at fresh, n_updated_at := n_updated_at fresh\<rparr>"

definition node_row_fits :: "NodeRow \<Rightarrow> bool" where
  "node_row_fits row \<longleftrightarrow>
     varchar 255 (n_hostname row) \<and> varchar 255 (n_endpoint row) \<and> varchar 128 (n_token_hash row)"

definition upsert_node :: "NodeRow \<Rightarrow> db \<Rightarrow> (error + int) \<times> db" where
  "upsert_node fresh d =
     (if \<not> node_row_fits fresh then (Inl (Database ''register node''), d)
      else case lookup_by n_id (n_id fresh) (nodes d) of
          Some row \<Rightarrow> (Inr (n_epoch row),
            d\<lparr>nodes := update_where (\<lambda>r. n_id r = n_id fresh) (reregister fresh) (nodes d)\<rparr>)
        | None \<Rightarrow> (Inr (n_epoch fresh), d\<lparr>nodes := nodes d @ [fresh]\<rparr>))"

definition register_node :: "RegisterNodeCommand \<Rightarrow> ('z, RegisterNodeResponse) op" where
  "register_node cmd =
     (if cpu_millicores (rn_capacity cmd) = 0 \<or> memory_bytes (rn_capacity cmd) = 0
         \<or> max_releases (rn_capacity cmd) = 0
      then fail (InvalidCapacity ''CPU, memory, and max releases must all be greater than zero'')
      else
      and_then now_utc (\<lambda>now.
      and_then (statement ''register node'' (upsert_node (new_node_row cmd now))) (\<lambda>epoch.
      ret \<lparr>registered = True, assigned_epoch = as_u64 epoch\<rparr>)))"

definition heartbeat_row :: "HeartbeatCommand \<Rightarrow> timestamp \<Rightarrow> NodeRow \<Rightarrow> NodeRow" where
  "heartbeat_row cmd now row =
     row\<lparr>n_cpu_used := as_i64 (hb_cpu_used_millicores cmd),
         n_memory_used := as_i64 (hb_memory_used_bytes cmd),
         n_running_count := as_i32 (of_nat (length (hb_running_releases cmd))),
         n_last_heartbeat_at := now, n_version := n_version row + 1, n_updated_at := now\<rparr>"

definition record_heartbeat :: "HeartbeatCommand \<Rightarrow> ('z, HeartbeatResponse) op" where
  "record_heartbeat cmd =
     and_then (get_node (hb_node_id cmd)) (\<lambda>found.
     and_then (of_option (NodeNotFound (hb_node_id cmd)) found) (\<lambda>node.
     if hb_epoch cmd \<noteq> nr_epoch node
     then fail (EpochMismatch (nr_epoch node) (hb_epoch cmd))
     else
     and_then now_utc (\<lambda>now.
     and_then
       (statement ''record heartbeat'' (\<lambda>d.
          let P = (\<lambda>r. n_id r = hb_node_id cmd \<and> n_version r = as_i64 (nr_version node))
          in (Inr (count_where P (nodes d)),
              d\<lparr>nodes := update_where P (heartbeat_row cmd now) (nodes d)\<rparr>)))
     (\<lambda>rows_affected.
     if rows_affected = 0 then fail (VersionConflict (hb_node_id cmd))
     else ret \<lparr>acknowledged = True, drain_requested = nr_is_draining node\<rparr>))))"

definition node_event_ok :: "NodeEventRecord \<Rightarrow> db \<Rightarrow> bool" where
  "node_event_ok e d \<longleftrightarrow>
     \<not> has_key ne_id (ne_id e) (node_events d) \<and> has_key n_id (ne_node_id e) (nodes d)"

text \<open>The two statements that the transactions of the registry run: an update of one node and the
  record of its event.\<close>

definition update_node_logged ::
  "uuid \<Rightarrow> (timestamp \<Rightarrow> NodeRow \<Rightarrow> NodeRow) \<Rightarrow> NodeStatus \<Rightarrow> NodeStatus \<Rightarrow> string option \<Rightarrow>
   ('z, unit) op" where
  "update_node_logged node_id f from_status to_status reason =
     and_then now_utc (\<lambda>now.
     transaction
       (and_then (execute ''update node''
          (\<lambda>d. d\<lparr>nodes := update_where (\<lambda>r. n_id r = node_id) (f now) (nodes d)\<rparr>)) (\<lambda>_.
        and_then uuid_new_v4 (\<lambda>event_id.
        let e = \<lparr>ne_id = event_id, ne_node_id = node_id, ne_from_status = from_status,
                 ne_to_status = to_status, ne_reason = reason, ne_created_at = now\<rparr>
        in insert_row ''insert node event'' (node_event_ok e)
             (\<lambda>d. d\<lparr>node_events := node_events d @ [e]\<rparr>)))))"

definition set_drain :: "uuid \<Rightarrow> bool \<Rightarrow> string option \<Rightarrow> ('z, unit) op" where
  "set_drain node_id draining reason =
     and_then (get_node node_id) (\<lambda>found.
     and_then (of_option (NodeNotFound node_id) found) (\<lambda>node.
     let new_status = (if draining then NodeDraining else Online)
     in update_node_logged node_id
          (\<lambda>now r. r\<lparr>n_is_draining := draining, n_status := new_status, n_updated_at := now\<rparr>)
          (nr_status node) new_status reason))"

definition set_enabled :: "uuid \<Rightarrow> bool \<Rightarrow> string option \<Rightarrow> ('z, unit) op" where
  "set_enabled node_id enabled reason =
     and_then (get_node node_id) (\<lambda>found.
     and_then (of_option (NodeNotFound node_id) found) (\<lambda>node.
     let reason_text = ''Node '' @ (if enabled then ''enabled'' else ''disabled'') @
           '' by operator: '' @ (case reason of Some r \<Rightarrow> r | None \<Rightarrow> ''no reason provided'')
     in update_node_logged node_id
          (\<lambda>now r. r\<lparr>n_is_enabled := enabled, n_updated_at := now\<rparr>)
          (nr_status node) (nr_status node) (Some reason_text)))"

definition rotate_node_identity :: "uuid \<Rightarrow> string \<Rightarrow> ('z, u64) op" where
  "rotate_node_identity node_id new_token_hash =
     and_then now_utc (\<lambda>now.
     and_then
       (statement ''rotate node identity'' (\<lambda>d.
          let P = (\<lambda>r. n_id r = node_id);
              f = (\<lambda>r. r\<lparr>n_epoch := n_epoch r + 1, n_token_hash := new_token_hash,
                         n_updated_at := now\<rparr>)
          in if varchar 128 new_token_hash \<or> \<not> has_key n_id node_id (nodes d)
             then (Inr (map_option n_epoch (first_row (returning P f (nodes d)))),
                   d\<lparr>nodes := update_where P f (nodes d)\<rparr>)
             else (Inl (Database ''rotate node identity''), d)))
     (\<lambda>new_epoch.
     and_then (of_option (NodeNotFound node_id) new_epoch) (\<lambda>e. ret (as_u64 e))))"

section \<open>Expiry\<close>

definition nanos :: "int \<Rightarrow> int" where
  "nanos secs = secs * 1000000000"

text \<open>\<^verbatim>\<open>Duration::whole_seconds\<close> truncates towards zero.\<close>

definition whole_seconds :: "int \<Rightarrow> int" where
  "whole_seconds d = sgn d * (\<bar>d\<bar> div 1000000000)"

definition stale_rows :: "timestamp \<Rightarrow> int \<Rightarrow> db \<Rightarrow> NodeRow list" where
  "stale_rows now timeout_secs d =
     filter (\<lambda>r. n_status r \<noteq> Offline \<and> n_last_heartbeat_at r < now - nanos timeout_secs) (nodes d)"

definition expiry_status :: "int \<Rightarrow> int \<Rightarrow> NodeStatus" where
  "expiry_status elapsed_secs offline_secs =
     (if offline_secs \<le> elapsed_secs then Offline else Degraded)"

definition expire_row :: "int \<Rightarrow> int \<Rightarrow> timestamp \<Rightarrow> NodeRow \<Rightarrow> nat \<Rightarrow> ('z, nat) op" where
  "expire_row timeout_secs offline_secs now raw transitioned =
     (let node = from_pg_row raw;
          elapsed_secs = whole_seconds (now - nr_last_heartbeat_at node);
          target_status = expiry_status elapsed_secs offline_secs
      in if target_status \<noteq> nr_status node
         then
           let reason = ''Heartbeat expired: elapsed '' @ show_int elapsed_secs @
                 ''s exceeds threshold '' @ show_int timeout_secs @ ''s''
           in and_then (update_node_logged (nr_id node)
                (\<lambda>t r. r\<lparr>n_status := target_status, n_updated_at := t\<rparr>)
                (nr_status node) target_status (Some reason)) (\<lambda>_.
              ret (transitioned + 1))
         else ret transitioned)"

text \<open>The time-out is the number of whole seconds of a \<^verbatim>\<open>Duration\<close>; doubling it wraps in 64 bits.\<close>

definition evaluate_health_and_expiry :: "u64 \<Rightarrow> ('z, nat) op" where
  "evaluate_health_and_expiry heartbeat_timeout =
     (let timeout_secs = as_i64 heartbeat_timeout; offline_secs = as_i64 (heartbeat_timeout * 2)
      in and_then now_utc (\<lambda>db_now.
         and_then (select_rows ''stale nodes'' (stale_rows db_now timeout_secs)) (\<lambda>rows.
         and_then now_utc (\<lambda>now.
         fold_io (expire_row timeout_secs offline_secs now) rows 0))))"

section \<open>Queries\<close>

definition is_active_node :: "timestamp \<Rightarrow> int \<Rightarrow> NodeRow \<Rightarrow> bool" where
  "is_active_node now timeout_secs r \<longleftrightarrow>
     n_status r = Online \<and> n_is_enabled r \<and> \<not> n_is_draining r
     \<and> now - nanos timeout_secs \<le> n_last_heartbeat_at r"

definition list_active_nodes :: "u64 \<Rightarrow> ('z, NodeRecord list) op" where
  "list_active_nodes heartbeat_timeout =
     and_then now_utc (\<lambda>now.
     select_rows ''active nodes'' (\<lambda>d. map from_pg_row
       (order_by n_cpu_used (filter (is_active_node now (as_i64 heartbeat_timeout)) (nodes d)))))"

definition list_all_nodes :: "('z, NodeRecord list) op" where
  "list_all_nodes =
     select_rows ''all nodes'' (\<lambda>d. map from_pg_row (order_by_desc n_registered_at (nodes d)))"

definition get_node_events :: "uuid \<Rightarrow> ('z, NodeEventRecord list) op" where
  "get_node_events node_id =
     select_rows ''node events'' (\<lambda>d. order_by_desc ne_created_at
       (filter (\<lambda>e. ne_node_id e = node_id) (node_events d)))"

end
