(* ===== verification/Float64.thy ===== *)
theory Float64
  imports Prelude Complex_Main "HOL-Library.Log_Nat"
begin

text \<open>
  The part of IEEE 754 binary64 the code computes with: finite values are rationals, every operation
  rounds its exact result to 53 significant bits, ties to even, and \<open>0 / 0\<close> is not a number.  The
  exponents that occur lie far inside the range of the format, so that overflow and subnormal
  numbers are left out.
\<close>

datatype f64 = NaN | Fin rat

definition pow2 :: "int \<Rightarrow> rat" where
  "pow2 e = 2 powi e"

definition round_half_even :: "rat \<Rightarrow> int" where
  "round_half_even x =
     (let f = \<lfloor>x\<rfloor>; r = x - of_int f
      in if r < 1 / 2 then f
         else if 1 / 2 < r then f + 1
         else if even f then f else f + 1)"

text \<open>The exponent \<open>e\<close> with \<open>2\<^sup>e \<le> q < 2\<^sup>e\<^sup>+\<^sup>1\<close>, for \<open>q > 0\<close>.\<close>

definition f64_exponent :: "rat \<Rightarrow> int" where
  "f64_exponent q =
     (let (a, b) = quotient_of q;
          k = int (floorlog 2 (nat a)) - int (floorlog 2 (nat b))
      in if q < pow2 k then k - 1 else k)"

definition f64_round :: "rat \<Rightarrow> rat" where
  "f64_round q =
     (if q = 0 then 0
      else let s = sgn q; a = \<bar>q\<bar>; u = pow2 (f64_exponent a - 52)
           in s * (of_int (round_half_even (a / u)) * u))"

definition f64_of_u64 :: "u64 \<Rightarrow> f64" where
  "f64_of_u64 x = Fin (f64_round (of_int (uint x)))"

fun f64_div :: "f64 \<Rightarrow> f64 \<Rightarrow> f64" where
  "f64_div (Fin a) (Fin b) = (if b = 0 then NaN else Fin (f64_round (a / b)))"
| "f64_div _ _ = NaN"

fun f64_add :: "f64 \<Rightarrow> f64 \<Rightarrow> f64" where
  "f64_add (Fin a) (Fin b) = Fin (f64_round (a + b))"
| "f64_add _ _ = NaN"

fun f64_sub :: "f64 \<Rightarrow> f64 \<Rightarrow> f64" where
  "f64_sub (Fin a) (Fin b) = Fin (f64_round (a - b))"
| "f64_sub _ _ = NaN"

text \<open>\<^verbatim>\<open>partial_cmp\<close>: \<open>None\<close> when an operand is not a number.\<close>

datatype ordering = Less | Equal | Greater

fun f64_partial_cmp :: "f64 \<Rightarrow> f64 \<Rightarrow> ordering option" where
  "f64_partial_cmp (Fin a) (Fin b) =
     Some (if a < b then Less else if a = b then Equal else Greater)"
| "f64_partial_cmp _ _ = None"

definition ord_cmp :: "'a::linorder \<Rightarrow> 'a \<Rightarrow> ordering" where
  "ord_cmp a b = (if a < b then Less else if a = b then Equal else Greater)"

definition cmp_then_with :: "ordering \<Rightarrow> ordering \<Rightarrow> ordering" where
  "cmp_then_with o1 o2 = (if o1 = Equal then o2 else o1)"

section \<open>Positive numbers do not round to zero\<close>

lemma pow2_pos [simp]: "0 < pow2 e"
  by (simp add: pow2_def)

lemma pow2_add: "pow2 (a + b) = pow2 a * pow2 b"
  by (simp add: pow2_def power_int_add)

lemma pow2_int: "pow2 (int n) = 2 ^ n"
  by (simp add: pow2_def)

lemma floorlog_bounds_rat:
  assumes "0 < (n :: nat)"
  shows "pow2 (int (floorlog 2 n) - 1) \<le> of_nat n" and "of_nat n < pow2 (int (floorlog 2 n))"
proof -
  have pos: "0 < floorlog 2 n" using assms by (simp add: floorlog_def)
  have "2 ^ (floorlog 2 n - 1) \<le> n \<and> n < 2 ^ floorlog 2 n"
    by (rule floorlog_bounds) (use assms in simp_all)
  then have b: "2 ^ (floorlog 2 n - 1) \<le> n" "n < 2 ^ floorlog 2 n" by simp_all
  have "of_nat (2 ^ (floorlog 2 n - 1)) \<le> (of_nat n :: rat)" using b(1) by (simp only: of_nat_le_iff)
  moreover have e: "int (floorlog 2 n) - 1 = int (floorlog 2 n - 1)" using pos by simp
  ultimately show "pow2 (int (floorlog 2 n) - 1) \<le> of_nat n" unfolding e pow2_int by simp
  have "(of_nat n :: rat) < of_nat (2 ^ floorlog 2 n)" using b(2) by (simp only: of_nat_less_iff)
  then show "of_nat n < pow2 (int (floorlog 2 n))" by (simp add: pow2_int)
qed

lemma f64_exponent_le:
  assumes "0 < q"
  shows "pow2 (f64_exponent q) \<le> q"
proof -
  obtain a b where ab: "quotient_of q = (a, b)" by (cases "quotient_of q")
  then have q: "q = of_int a / of_int b" and b: "0 < b"
    by (simp_all add: quotient_of_div quotient_of_denom_pos)
  with assms have a: "0 < a" by (simp add: zero_less_divide_iff)
  let ?k = "int (floorlog 2 (nat a)) - int (floorlog 2 (nat b))"
  have na: "pow2 (int (floorlog 2 (nat a)) - 1) \<le> of_int a"
    using floorlog_bounds_rat(1) [of "nat a"] a by simp
  have nb: "of_int b < pow2 (int (floorlog 2 (nat b)))"
    using floorlog_bounds_rat(2) [of "nat b"] b by simp
  have "pow2 (?k - 1) * of_int b \<le> pow2 (?k - 1) * pow2 (int (floorlog 2 (nat b)))"
    using nb by (intro mult_left_mono) (simp_all add: less_imp_le)
  also have "\<dots> = pow2 (int (floorlog 2 (nat a)) - 1)" by (simp add: pow2_add [symmetric])
  also note na
  finally have "pow2 (?k - 1) \<le> q" using b by (simp add: q pos_le_divide_eq)
  then show ?thesis by (simp add: f64_exponent_def ab Let_def)
qed

lemma round_half_even_ge: "of_int n \<le> x \<Longrightarrow> n \<le> round_half_even x"
proof -
  assume "of_int n \<le> x"
  then have "n \<le> \<lfloor>x\<rfloor>" by (simp add: le_floor_iff)
  then show "n \<le> round_half_even x" by (simp add: round_half_even_def Let_def)
qed

lemma f64_round_pos:
  assumes "0 < q"
  shows "0 < f64_round q"
proof -
  let ?u = "pow2 (f64_exponent q - 52)"
  have "pow2 (f64_exponent q - 52) * pow2 52 \<le> q"
    using f64_exponent_le [OF assms] by (simp add: pow2_add [symmetric])
  then have "pow2 52 \<le> q / ?u" by (simp add: pos_le_divide_eq mult.commute)
  moreover have "(1 :: rat) \<le> pow2 52" by (simp add: pow2_def)
  ultimately have "of_int 1 \<le> q / ?u" by (metis of_int_1 order_trans)
  then have "1 \<le> round_half_even (q / ?u)" by (rule round_half_even_ge)
  then have "(0 :: rat) < of_int (round_half_even (q / ?u))" by simp
  with assms show ?thesis by (simp add: f64_round_def Let_def)
qed

lemma f64_of_u64_nonzero:
  assumes "x \<noteq> 0"
  shows "f64_of_u64 x \<noteq> Fin 0"
proof -
  have "uint x \<noteq> 0" using assms by (simp add: uint_0_iff)
  then have "0 < uint x" using uint_ge_0 [of x] by linarith
  then have "0 < f64_round (of_int (uint x))"
    by (intro f64_round_pos) (simp only: of_int_0_less_iff)
  then show ?thesis by (simp add: f64_of_u64_def)
qed

text \<open>A number of at most 53 significant bits is not rounded.\<close>

lemma round_half_even_int: "round_half_even (of_int n) = n"
  by (simp add: round_half_even_def Let_def)

lemma f64_round_exact:
  assumes q: "q = of_int m * pow2 e" and m: "0 < m" "m \<le> 2 ^ 53"
  shows "f64_round q = q"
proof -
  have pos: "0 < q" using q m by simp
  define x where "x = f64_exponent q"
  have le: "pow2 x \<le> of_int m * pow2 e" using f64_exponent_le [OF pos] by (simp add: x_def q)
  obtain k where k: "q = of_int k * pow2 (x - 52)"
  proof (cases "x - 52 \<le> e")
    case True
    then have "e = int (nat (e - (x - 52))) + (x - 52)" by simp
    then have "pow2 e = 2 ^ nat (e - (x - 52)) * pow2 (x - 52)" by (metis pow2_add pow2_int)
    then show thesis by (intro that [of "m * 2 ^ nat (e - (x - 52))"]) (simp add: q)
  next
    case False
    then have "e + 53 \<le> x" by simp
    then have "pow2 (e + 53) \<le> pow2 x" by (simp add: pow2_def power_int_increasing)
    moreover have "of_int m * pow2 e \<le> of_int (2 ^ 53) * pow2 e"
      by (rule mult_right_mono) (use m in \<open>simp_all only: of_int_le_iff less_imp_le [OF pow2_pos]\<close>)
    moreover have "of_int (2 ^ 53) * pow2 e = pow2 (e + 53)" by (simp add: pow2_add) (simp add: pow2_def)
    ultimately have "q = pow2 x" using le q by linarith
    moreover have "pow2 x = of_int (2 ^ 52) * pow2 (x - 52)"
      using pow2_add [of 52 "x - 52"] pow2_int [of 52] by simp
    ultimately have "q = of_int (2 ^ 52) * pow2 (x - 52)" by (simp only:)
    then show thesis by (rule that)
  qed
  have "q / pow2 (x - 52) = of_int k" using k less_imp_neq [OF pow2_pos [of "x - 52"]] by simp
  then have "round_half_even (q / pow2 (x - 52)) = k" by (simp add: round_half_even_int)
  with pos show ?thesis by (simp add: f64_round_def Let_def x_def [symmetric] k [symmetric])
qed

lemma f64_round_0: "f64_round 0 = 0"
  by (simp add: f64_round_def)

section \<open>Sorting by a comparison\<close>

text \<open>A stable sort by a comparison function (\<^verbatim>\<open>slice::sort_by\<close>).\<close>

fun insert_by :: "('a \<Rightarrow> 'a \<Rightarrow> ordering) \<Rightarrow> 'a \<Rightarrow> 'a list \<Rightarrow> 'a list" where
  "insert_by cmp x [] = [x]"
| "insert_by cmp x (y # ys) = (if cmp x y = Greater then y # insert_by cmp x ys else x # y # ys)"

definition sort_by :: "('a \<Rightarrow> 'a \<Rightarrow> ordering) \<Rightarrow> 'a list \<Rightarrow> 'a list" where
  "sort_by cmp xs = foldr (insert_by cmp) xs []"

lemma set_insert_by: "set (insert_by cmp x ys) = insert x (set ys)"
  by (induction ys) auto

lemma set_sort_by [simp]: "set (sort_by cmp xs) = set xs"
  unfolding sort_by_def by (induction xs) (simp_all add: set_insert_by)

lemma length_sort_by: "length (sort_by cmp xs) = length xs"
proof -
  have "length (insert_by cmp x ys) = Suc (length ys)" for x ys by (induction ys) auto
  then show ?thesis unfolding sort_by_def by (induction xs) simp_all
qed

lemma sort_by_Nil_iff [simp]: "sort_by cmp xs = [] \<longleftrightarrow> xs = []"
  using length_sort_by [of cmp xs] by (metis length_0_conv)

text \<open>The head of a sorted list is not greater than any element, for a comparison that is a total
  preorder on the elements.\<close>

lemma hd_insert_by:
  "hd (insert_by cmp x ys) = (if ys = [] \<or> cmp x (hd ys) \<noteq> Greater then x else hd ys)"
  by (cases ys) auto

lemma hd_sort_by_least:
  assumes refl: "\<And>a. a \<in> set xs \<Longrightarrow> cmp a a \<noteq> Greater"
    and total: "\<And>a b. a \<in> set xs \<Longrightarrow> b \<in> set xs \<Longrightarrow> cmp a b = Greater \<Longrightarrow> cmp b a \<noteq> Greater"
    and trans: "\<And>a b c. a \<in> set xs \<Longrightarrow> b \<in> set xs \<Longrightarrow> c \<in> set xs \<Longrightarrow>
      cmp a b \<noteq> Greater \<Longrightarrow> cmp b c \<noteq> Greater \<Longrightarrow> cmp a c \<noteq> Greater"
    and "x \<in> set xs"
  shows "cmp (hd (sort_by cmp xs)) x \<noteq> Greater"
  using assms
proof (induction xs arbitrary: x)
  case Nil
  from Nil.prems(4) show ?case by simp
next
  case (Cons y ys)
  let ?s = "sort_by cmp ys"
  have hd: "hd (sort_by cmp (y # ys)) = (if ys = [] \<or> cmp y (hd ?s) \<noteq> Greater then y else hd ?s)"
    using hd_insert_by [of cmp y ?s] by (simp add: sort_by_def [of cmp "y # ys"] sort_by_def [symmetric])
  show ?case
  proof (cases "ys = []")
    case True
    with hd Cons.prems(1,4) show ?thesis by simp
  next
    case False
    then have "?s \<noteq> []" by simp
    then have "hd ?s \<in> set ?s" by (rule hd_in_set)
    then have mem: "hd ?s \<in> set ys" by simp
    have IH: "cmp (hd ?s) z \<noteq> Greater" if "z \<in> set ys" for z
    proof (rule Cons.IH)
      show "cmp a a \<noteq> Greater" if "a \<in> set ys" for a using Cons.prems(1) that by simp
      show "cmp b a \<noteq> Greater" if "a \<in> set ys" "b \<in> set ys" "cmp a b = Greater" for a b
        using Cons.prems(2) that by simp
      show "cmp a c \<noteq> Greater" if "a \<in> set ys" "b \<in> set ys" "c \<in> set ys" "cmp a b \<noteq> Greater"
        "cmp b c \<noteq> Greater" for a b c
        by (rule Cons.prems(3) [of a b c]) (use that in simp_all)
      show "z \<in> set ys" by (rule that)
    qed
    show ?thesis
    proof (cases "cmp y (hd ?s) = Greater")
      case True
      with hd False have "hd (sort_by cmp (y # ys)) = hd ?s" by simp
      moreover have "cmp (hd ?s) y \<noteq> Greater" using Cons.prems(2) [of y "hd ?s"] mem True by simp
      ultimately show ?thesis using IH Cons.prems(4) by auto
    next
      case no: False
      with hd False have h: "hd (sort_by cmp (y # ys)) = y" by simp
      have "cmp y z \<noteq> Greater" if "z \<in> set ys" for z
        using Cons.prems(3) [of y "hd ?s" z] mem that no IH [OF that] by simp
      with Cons.prems(1,4) h show ?thesis by auto
    qed
  qed
qed

end
