(* ===== verification/Scheduler.thy ===== *)
theory Scheduler
  imports Nodes Float64
begin

text \<open>
  \<^verbatim>\<open>src/scheduler.rs\<close>: scoring of nodes, placement of a release on the best node, release and
  expiry of placements.  Sums of unsigned words wrap, as they do in an optimised build; a column that
  would leave the range of \<^verbatim>\<open>BIGINT\<close> or \<^verbatim>\<open>INTEGER\<close> makes its statement fail.
\<close>

record PlacementRequest =
  rq_release_id :: uuid
  rq_deployment_id :: uuid
  rq_project_id :: uuid
  rq_cpu :: u64
  rq_memory :: u64
  rq_candidate_nodes :: "uuid list option"
  rq_anti_affinity_nodes :: "uuid list"

record RescheduleRequest =
  rs_release_id :: uuid
  rs_failed_node_id :: uuid
  rs_cpu :: u64
  rs_memory :: u64
  rs_candidate_nodes :: "uuid list option"
  rs_lease_duration :: u64

record PlacementDecision =
  pd_release_id :: uuid
  pd_selected_node_id :: uuid
  pd_lease_id :: uuid
  pd_cpu :: u64
  pd_memory :: u64
  pd_lease_expires_at :: timestamp

record PlacementRecord =
  pr_id :: uuid
  pr_release_id :: uuid
  pr_node_id :: uuid
  pr_operation_lease_id :: uuid
  pr_placement_status :: PlacementStatus
  pr_cpu :: u64
  pr_memory :: u64
  pr_lease_expires_at :: timestamp
  pr_created_at :: timestamp
  pr_updated_at :: timestamp

fun PlacementStatus_as_str :: "PlacementStatus \<Rightarrow> string" where
  "PlacementStatus_as_str Placed = ''placed''"
| "PlacementStatus_as_str PlActive = ''active''"
| "PlacementStatus_as_str PlStopped = ''stopped''"
| "PlacementStatus_as_str PlFailed = ''failed''"

definition PlacementStatus_parse :: "string \<Rightarrow> PlacementStatus" where
  "PlacementStatus_parse s =
     (if s = ''active'' then PlActive
      else if s = ''stopped'' then PlStopped
      else if s = ''failed'' then PlFailed
      else Placed)"

section \<open>Selection\<close>

definition remaining_pct :: "u64 \<Rightarrow> u64 \<Rightarrow> f64" where
  "remaining_pct future capacity =
     f64_sub (Fin 1) (f64_div (f64_of_u64 future) (f64_of_u64 capacity))"

definition score_node :: "NodeRecord \<Rightarrow> u64 \<Rightarrow> u64 \<Rightarrow> f64 option" where
  "score_node node req_cpu req_mem =
     (if nr_status node \<noteq> Online \<or> \<not> nr_is_enabled node \<or> nr_is_draining node then None
      else
        let future_cpu = nr_cpu_used_millicores node + req_cpu;
            future_mem = nr_memory_used_bytes node + req_mem
        in if cpu_millicores (nr_capacity node) < future_cpu
              \<or> memory_bytes (nr_capacity node) < future_mem
              \<or> max_releases (nr_capacity node) \<le> nr_running_releases_count node
           then None
           else Some (f64_div
             (f64_add (remaining_pct future_cpu (cpu_millicores (nr_capacity node)))
                      (remaining_pct future_mem (memory_bytes (nr_capacity node)))) (Fin 2)))"

fun candidate_scores :: "PlacementRequest \<Rightarrow> NodeRecord list \<Rightarrow> (NodeRecord \<times> f64) list" where
  "candidate_scores req [] = []"
| "candidate_scores req (node # rest) =
     (if (case rq_candidate_nodes req of Some c \<Rightarrow> nr_id node \<notin> set c | None \<Rightarrow> False)
      then candidate_scores req rest
      else if nr_id node \<in> set (rq_anti_affinity_nodes req) then candidate_scores req rest
      else case score_node node (rq_cpu req) (rq_memory req) of
          Some score \<Rightarrow> (node, score) # candidate_scores req rest
        | None \<Rightarrow> candidate_scores req rest)"

definition candidate_cmp :: "NodeRecord \<times> f64 \<Rightarrow> NodeRecord \<times> f64 \<Rightarrow> ordering" where
  "candidate_cmp a b =
     cmp_then_with
       (case f64_partial_cmp (snd b) (snd a) of Some o1 \<Rightarrow> o1 | None \<Rightarrow> Equal)
       (ord_cmp (nr_id (fst a)) (nr_id (fst b)))"

definition select_node :: "PlacementRequest \<Rightarrow> NodeRecord list \<Rightarrow> NodeRecord option" where
  "select_node req active_nodes =
     (let scores = candidate_scores req active_nodes
      in if scores = [] then None else Some (fst (hd (sort_by candidate_cmp scores))))"

section \<open>Placement\<close>

definition placement_ok :: "PlacementRow \<Rightarrow> db \<Rightarrow> bool" where
  "placement_ok p d \<longleftrightarrow>
     \<not> has_key pl_id (pl_id p) (placements d) \<and> has_key n_id (pl_node_id p) (nodes d)"

definition node_range_ok :: "NodeRow \<Rightarrow> bool" where
  "node_range_ok r \<longleftrightarrow>
     i64_range (n_cpu_used r) \<and> i64_range (n_memory_used r) \<and> i32_range (n_running_count r)"

definition take_capacity :: "int \<Rightarrow> int \<Rightarrow> timestamp \<Rightarrow> NodeRow \<Rightarrow> NodeRow" where
  "take_capacity cpu mem now r =
     r\<lparr>n_cpu_used := n_cpu_used r + cpu, n_memory_used := n_memory_used r + mem,
       n_running_count := n_running_count r + 1, n_updated_at := now\<rparr>"

definition free_capacity :: "int \<Rightarrow> int \<Rightarrow> timestamp \<Rightarrow> NodeRow \<Rightarrow> NodeRow" where
  "free_capacity cpu mem now r =
     r\<lparr>n_cpu_used := max 0 (n_cpu_used r - cpu), n_memory_used := max 0 (n_memory_used r - mem),
       n_running_count := max 0 (n_running_count r - 1), n_updated_at := now\<rparr>"

definition update_usage :: "uuid \<Rightarrow> (NodeRow \<Rightarrow> NodeRow) \<Rightarrow> ('z, unit) op" where
  "update_usage node_id f =
     statement ''update node usage'' (\<lambda>d.
       let t = update_where (\<lambda>r. n_id r = node_id) f (nodes d)
       in if list_all node_range_ok (filter (\<lambda>r. n_id r = node_id) t)
          then (Inr (), d\<lparr>nodes := t\<rparr>) else (Inl (Database ''update node usage''), d))"

definition new_placement ::
  "PlacementRequest \<Rightarrow> uuid \<Rightarrow> uuid \<Rightarrow> uuid \<Rightarrow> timestamp \<Rightarrow> timestamp \<Rightarrow> PlacementRow" where
  "new_placement req node_id lease_id placement_id lease_expires_at db_now =
     \<lparr>pl_id = placement_id, pl_release_id = rq_release_id req, pl_node_id = node_id,
      pl_operation_lease_id = lease_id, pl_status = Placed,
      pl_cpu = as_i64 (rq_cpu req), pl_memory = as_i64 (rq_memory req),
      pl_lease_expires_at = lease_expires_at, pl_created_at = db_now, pl_updated_at = db_now\<rparr>"

definition record_placement :: "PlacementRow \<Rightarrow> timestamp \<Rightarrow> ('z, unit) op" where
  "record_placement p db_now =
     transaction
       (and_then (insert_row ''insert placement'' (placement_ok p)
                   (\<lambda>d. d\<lparr>placements := placements d @ [p]\<rparr>)) (\<lambda>_.
        update_usage (pl_node_id p) (take_capacity (pl_cpu p) (pl_memory p) db_now)))"

definition place_on :: "PlacementRequest \<Rightarrow> u64 \<Rightarrow> uuid \<Rightarrow> ('z, PlacementDecision) op" where
  "place_on req lease_duration node_id =
     and_then uuid_new_v4 (\<lambda>lease_id.
     and_then uuid_new_v4 (\<lambda>placement_id.
     and_then now_utc (\<lambda>now.
     let lease_expires_at = now + nanos (as_i64 lease_duration)
     in and_then now_utc (\<lambda>db_now.
        and_then (record_placement
          (new_placement req node_id lease_id placement_id lease_expires_at db_now) db_now) (\<lambda>_.
        ret \<lparr>pd_release_id = rq_release_id req, pd_selected_node_id = node_id,
             pd_lease_id = lease_id, pd_cpu = rq_cpu req, pd_memory = rq_memory req,
             pd_lease_expires_at = lease_expires_at\<rparr>)))))"

definition schedule_release :: "PlacementRequest \<Rightarrow> u64 \<Rightarrow> ('z, PlacementDecision) op" where
  "schedule_release req lease_duration =
     and_then (list_active_nodes 60) (\<lambda>active_nodes.
     case select_node req active_nodes of
       None \<Rightarrow> fail InsufficientCapacity
     | Some selected_node \<Rightarrow> place_on req lease_duration (nr_id selected_node))"

section \<open>Release and expiry\<close>

definition latest_placement :: "uuid \<Rightarrow> db \<Rightarrow> PlacementRow option" where
  "latest_placement release_id d =
     first_row (order_by_desc pl_created_at
       (filter (\<lambda>p. pl_release_id p = release_id) (placements d)))"

definition set_placements ::
  "(PlacementRow \<Rightarrow> bool) \<Rightarrow> PlacementStatus \<Rightarrow> timestamp \<Rightarrow> ('z, unit) op" where
  "set_placements P status now =
     execute ''update placements'' (\<lambda>d. d\<lparr>placements :=
       update_where P (\<lambda>p. p\<lparr>pl_status := status, pl_updated_at := now\<rparr>) (placements d)\<rparr>)"

definition release_placement :: "uuid \<Rightarrow> ('z, unit) op" where
  "release_placement release_id =
     and_then (select_rows ''latest placement'' (latest_placement release_id)) (\<lambda>found.
     and_then (of_option (PlacementNotFound release_id) found) (\<lambda>row.
     if pl_status row = PlStopped \<or> pl_status row = PlFailed then ret ()
     else
     and_then now_utc (\<lambda>now.
     transaction
       (and_then (set_placements (\<lambda>p. pl_release_id p = release_id) PlStopped now) (\<lambda>_.
        update_usage (pl_node_id row) (free_capacity (pl_cpu row) (pl_memory row) now))))))"

definition expired_placements :: "timestamp \<Rightarrow> db \<Rightarrow> PlacementRow list" where
  "expired_placements now d =
     filter (\<lambda>p. pl_status p = Placed \<and> pl_lease_expires_at p < now) (placements d)"

definition expire_placement :: "PlacementRow \<Rightarrow> uuid list \<Rightarrow> ('z, uuid list) op" where
  "expire_placement row expired_releases =
     and_then now_utc (\<lambda>now.
     and_then
       (transaction
         (and_then (set_placements
            (\<lambda>p. pl_release_id p = pl_release_id row \<and> pl_status p = Placed) PlFailed now) (\<lambda>_.
          update_usage (pl_node_id row) (free_capacity (pl_cpu row) (pl_memory row) now))))
     (\<lambda>_. ret (expired_releases @ [pl_release_id row])))"

definition reconcile_expired_leases :: "('z, uuid list) op" where
  "reconcile_expired_leases =
     and_then now_utc (\<lambda>now.
     and_then (select_rows ''expired placements'' (expired_placements now)) (\<lambda>rows.
     fold_io expire_placement rows []))"

definition reschedule_failed_release :: "RescheduleRequest \<Rightarrow> ('z, PlacementDecision) op" where
  "reschedule_failed_release req =
     and_then (ignore (release_placement (rs_release_id req) :: ('z, unit) op)) (\<lambda>_.
     and_then uuid_new_v4 (\<lambda>deployment_id.
     and_then uuid_new_v4 (\<lambda>project_id.
     schedule_release
       \<lparr>rq_release_id = rs_release_id req, rq_deployment_id = deployment_id,
        rq_project_id = project_id, rq_cpu = rs_cpu req, rq_memory = rs_memory req,
        rq_candidate_nodes = rs_candidate_nodes req,
        rq_anti_affinity_nodes = [rs_failed_node_id req]\<rparr>
       (rs_lease_duration req))))"

definition list_placements_for_node :: "uuid \<Rightarrow> ('z, PlacementRecord list) op" where
  "list_placements_for_node node_id =
     select_rows ''placements of node'' (\<lambda>d. map (\<lambda>p.
         \<lparr>pr_id = pl_id p, pr_release_id = pl_release_id p, pr_node_id = pl_node_id p,
          pr_operation_lease_id = pl_operation_lease_id p, pr_placement_status = pl_status p,
          pr_cpu = as_u64 (pl_cpu p), pr_memory = as_u64 (pl_memory p),
          pr_lease_expires_at = pl_lease_expires_at p, pr_created_at = pl_created_at p,
          pr_updated_at = pl_updated_at p\<rparr>)
       (order_by_desc pl_created_at (filter (\<lambda>p. pl_node_id p = node_id) (placements d))))"

end
