(* ===== verification/Scheduler_Correct.thy ===== *)
theory Scheduler_Correct
  imports Scheduler
begin

text \<open>
  The correctness of the scheduler: the selected node is the best of the eligible ones, a placement
  stays within the capacity of its node, a failed one changes nothing, and releasing a placement
  gives back exactly what it took.  Two findings show where concurrent requests and huge requests
  leave the capacity behind.
\<close>

section \<open>Selection\<close>

definition allowed :: "PlacementRequest \<Rightarrow> NodeRecord \<Rightarrow> bool" where
  "allowed req n \<longleftrightarrow>
     (case rq_candidate_nodes req of Some c \<Rightarrow> nr_id n \<in> set c | None \<Rightarrow> True)
     \<and> nr_id n \<notin> set (rq_anti_affinity_nodes req)"

lemma set_candidate_scores:
  "set (candidate_scores req ns) =
     {(n, s). n \<in> set ns \<and> allowed req n \<and> score_node n (rq_cpu req) (rq_memory req) = Some s}"
  by (induction ns) (auto simp: allowed_def split: option.splits)

definition capacity_positive :: "NodeRecord \<Rightarrow> bool" where
  "capacity_positive n \<longleftrightarrow> cpu_millicores (nr_capacity n) \<noteq> 0 \<and> memory_bytes (nr_capacity n) \<noteq> 0"

lemma remaining_pct_finite: "capacity \<noteq> 0 \<Longrightarrow> \<exists>q. remaining_pct future capacity = Fin q"
  using f64_of_u64_nonzero [of capacity] by (simp add: remaining_pct_def f64_of_u64_def)

lemma score_node_finite:
  assumes "capacity_positive n" and "score_node n cpu mem = Some s"
  obtains q where "s = Fin q"
proof -
  let ?c = "nr_capacity n"
  obtain a where a: "remaining_pct (nr_cpu_used_millicores n + cpu) (cpu_millicores ?c) = Fin a"
    using remaining_pct_finite assms(1) unfolding capacity_positive_def by blast
  obtain b where b: "remaining_pct (nr_memory_used_bytes n + mem) (memory_bytes ?c) = Fin b"
    using remaining_pct_finite assms(1) unfolding capacity_positive_def by blast
  show thesis
    using assms(2) a b by (auto simp: score_node_def Let_def split: if_splits intro: that)
qed

lemma candidate_cmp_Fin:
  "candidate_cmp (m, Fin s) (n, Fin t) = Greater \<longleftrightarrow> s < t \<or> s = t \<and> nr_id n < nr_id m"
  by (auto simp: candidate_cmp_def cmp_then_with_def ord_cmp_def)

lemma select_node_hd:
  assumes "select_node req ns = Some n"
  obtains s where "(n, s) \<in> set (candidate_scores req ns)"
    and "(n, s) = hd (sort_by candidate_cmp (candidate_scores req ns))"
proof -
  let ?l = "sort_by candidate_cmp (candidate_scores req ns)"
  from assms have "?l \<noteq> []" and n: "n = fst (hd ?l)"
    by (auto simp: select_node_def Let_def split: if_splits)
  then have "hd ?l \<in> set ?l" by (intro hd_in_set)
  with n show thesis by (intro that [of "snd (hd ?l)"]) auto
qed

lemma select_node_chosen:
  assumes "select_node req ns = Some n"
  shows "n \<in> set ns" and "allowed req n"
    and "\<exists>s. score_node n (rq_cpu req) (rq_memory req) = Some s"
proof -
  from assms obtain s where "(n, s) \<in> set (candidate_scores req ns)" by (rule select_node_hd)
  then show "n \<in> set ns" and "allowed req n"
    and "\<exists>s. score_node n (rq_cpu req) (rq_memory req) = Some s"
    by (simp_all add: set_candidate_scores)
qed

text \<open>C14. The scheduler picks a node that the request allows and that has room, and among all such
  nodes one with the highest score, the smallest identifier deciding between equal scores.\<close>

theorem select_node_best:
  assumes "select_node req ns = Some n" and "list_all capacity_positive ns"
  shows "n \<in> set ns \<and> allowed req n \<and>
    (\<exists>s. score_node n (rq_cpu req) (rq_memory req) = Some (Fin s) \<and>
      (\<forall>m\<in>set ns. \<forall>t. allowed req m \<and> score_node m (rq_cpu req) (rq_memory req) = Some (Fin t) \<longrightarrow>
         t < s \<or> t = s \<and> nr_id n \<le> nr_id m))"
proof -
  let ?xs = "candidate_scores req ns"
  from assms(1) obtain s where mem: "(n, s) \<in> set ?xs" and hd: "(n, s) = hd (sort_by candidate_cmp ?xs)"
    by (rule select_node_hd)
  have fin: "\<exists>q. snd x = Fin q" if "x \<in> set ?xs" for x
    using that assms(2) score_node_finite by (force simp: set_candidate_scores list_all_iff)
  have least: "candidate_cmp (hd (sort_by candidate_cmp ?xs)) x \<noteq> Greater" if "x \<in> set ?xs" for x
  proof (rule hd_sort_by_least [OF _ _ _ that])
    show "candidate_cmp a a \<noteq> Greater" if "a \<in> set ?xs" for a
      using fin [OF that] by (cases a) (auto simp: candidate_cmp_Fin)
    show "candidate_cmp b a \<noteq> Greater"
      if "a \<in> set ?xs" "b \<in> set ?xs" "candidate_cmp a b = Greater" for a b
      using fin [OF that(1)] fin [OF that(2)] that(3)
      by (cases a; cases b) (auto simp: candidate_cmp_Fin)
    show "candidate_cmp a c \<noteq> Greater"
      if "a \<in> set ?xs" "b \<in> set ?xs" "c \<in> set ?xs" "candidate_cmp a b \<noteq> Greater"
        "candidate_cmp b c \<noteq> Greater" for a b c
      using fin [OF that(1)] fin [OF that(2)] fin [OF that(3)] that(4,5)
      by (cases a; cases b; cases c) (auto simp: candidate_cmp_Fin)
  qed
  from fin [OF mem] obtain q where q: "s = Fin q" by auto
  have "t < q \<or> t = q \<and> nr_id n \<le> nr_id m"
    if "m \<in> set ns" "allowed req m" "score_node m (rq_cpu req) (rq_memory req) = Some (Fin t)" for m t
    using least [of "(m, Fin t)"] that hd [symmetric] q
    by (simp add: set_candidate_scores candidate_cmp_Fin not_less) fastforce
  with mem q show ?thesis by (auto simp: set_candidate_scores)
qed

section \<open>Capacity\<close>

text \<open>The accounts of a node: what is used is not negative and within what the node offers.\<close>

definition usage_ok :: "NodeRow \<Rightarrow> bool" where
  "usage_ok r \<longleftrightarrow>
     0 \<le> n_cpu_used r \<and> n_cpu_used r \<le> n_cpu_total r \<and> n_cpu_total r < 2 ^ 63
     \<and> 0 \<le> n_memory_used r \<and> n_memory_used r \<le> n_memory_total r \<and> n_memory_total r < 2 ^ 63
     \<and> 0 \<le> n_running_count r \<and> n_running_count r \<le> n_max_releases r
     \<and> n_max_releases r < 2 ^ 31"

definition usage_inv :: "db \<Rightarrow> bool" where
  "usage_inv d \<longleftrightarrow> distinct (map n_id (nodes d)) \<and> list_all usage_ok (nodes d)"

lemma n_id_capacity [simp]:
  "n_id (take_capacity c m t r) = n_id r" "n_id (free_capacity c m t r) = n_id r"
  by (simp_all add: take_capacity_def free_capacity_def)

lemma fits_u64:
  assumes "0 \<le> used" and "used < 2 ^ 63" and "uint (req :: u64) < 2 ^ 63"
    and "0 \<le> cap" and "cap < 2 ^ 63" and "\<not> as_u64 cap < as_u64 used + req"
  shows "used + uint req \<le> cap"
proof -
  have u: "uint (as_u64 used) = used" "uint (as_u64 cap) = cap"
    using assms by (simp_all add: uint_as_u64)
  have "uint (as_u64 used + req) = used + uint req"
    using uint_add_lem [of "as_u64 used" req] assms(2,3) by (simp add: u)
  with assms(6) show ?thesis by (simp add: word_less_def u)
qed

lemma room_u32:
  assumes "0 \<le> count" and "count \<le> most" and "most < 2 ^ 31" and "\<not> as_u32 most \<le> as_u32 count"
  shows "count < most"
proof -
  have "uint (as_u32 count) = count" "uint (as_u32 most) = most"
    using assms(1-3) by (simp_all add: as_u32_def uint_word_of_int_eq take_bit_int_eq_self)
  with assms(4) show ?thesis by (simp add: word_le_def)
qed

lemma score_node_room:
  assumes "usage_ok r" and "uint cpu < 2 ^ 63" and "uint mem < 2 ^ 63"
    and "score_node (from_pg_row r) cpu mem = Some s"
  shows "n_cpu_used r + uint cpu \<le> n_cpu_total r" and "n_memory_used r + uint mem \<le> n_memory_total r"
    and "n_running_count r < n_max_releases r"
proof -
  from assms(4) have
    c: "\<not> as_u64 (n_cpu_total r) < as_u64 (n_cpu_used r) + cpu" and
    m: "\<not> as_u64 (n_memory_total r) < as_u64 (n_memory_used r) + mem" and
    n: "\<not> as_u32 (n_max_releases r) \<le> as_u32 (n_running_count r)"
    by (auto simp: score_node_def from_pg_row_def Let_def split: if_splits)
  from fits_u64 [OF _ _ assms(2) _ _ c] assms(1)
  show "n_cpu_used r + uint cpu \<le> n_cpu_total r" by (simp add: usage_ok_def)
  from fits_u64 [OF _ _ assms(3) _ _ m] assms(1)
  show "n_memory_used r + uint mem \<le> n_memory_total r" by (simp add: usage_ok_def)
  from room_u32 [OF _ _ _ n] assms(1)
  show "n_running_count r < n_max_releases r" by (simp add: usage_ok_def)
qed

lemma list_active_nodes_InrE:
  assumes "list_active_nodes t w = (Inr ns, w')"
  shows "db w' = db w" and "env w' = env w"
    and "n \<in> set ns \<Longrightarrow> \<exists>r\<in>set (nodes (db w)). n = from_pg_row r
      \<and> is_active_node (env_clock (env w) (tick w)) (as_i64 t) r"
  using assms unfolding list_active_nodes_def
  by (auto elim!: and_then_InrE dest!: select_rows_InrE simp: io_simps order_by_def)

lemma update_usage_InrE:
  "update_usage nid f w = (Inr u, w') \<Longrightarrow>
   db w' = (db w)\<lparr>nodes := update_where (\<lambda>r. n_id r = nid) f (nodes (db w))\<rparr>"
  unfolding update_usage_def by (auto elim!: statement_InrE simp: Let_def split: if_splits)

text \<open>What a placement changes.\<close>

definition placed :: "timestamp \<Rightarrow> PlacementRow \<Rightarrow> db \<Rightarrow> db" where
  "placed now p d = d\<lparr>placements := placements d @ [p], nodes :=
     update_where (\<lambda>r. n_id r = pl_node_id p) (take_capacity (pl_cpu p) (pl_memory p) now) (nodes d)\<rparr>"

lemma record_placement_InrE:
  assumes "record_placement p now w = (Inr u, w')"
  shows "db w' = placed now p (db w)" and "placement_ok p (db w)"
  using assms unfolding record_placement_def placed_def
  by (auto elim!: transaction_InrE and_then_InrE dest!: insert_row_InrE update_usage_InrE)

lemma record_placement_InlE: "record_placement p now w = (Inl e, w') \<Longrightarrow> db w' = db w"
  unfolding record_placement_def by (rule transaction_InlE)

text \<open>The placement a successful \<open>place_on\<close> records is the one of the first identifiers and clock
  readings it draws.\<close>

definition drawn_placement :: "PlacementRequest \<Rightarrow> u64 \<Rightarrow> uuid \<Rightarrow> 'z world_scheme \<Rightarrow> PlacementRow" where
  "drawn_placement req l nid w =
     (let e = env w; n = tick w
      in new_placement req nid (env_uuid e n) (env_uuid e (Suc n))
           (env_clock e (Suc (Suc n)) + nanos (as_i64 l)) (env_clock e (Suc (Suc (Suc n)))))"

lemma place_on_InrE:
  assumes "place_on req l nid w = (Inr dec, w')"
  shows "db w' = placed (pl_created_at (drawn_placement req l nid w)) (drawn_placement req l nid w) (db w)"
    and "placement_ok (drawn_placement req l nid w) (db w)"
    and "pd_selected_node_id dec = nid" and "pd_release_id dec = rq_release_id req"
proof -
  let ?p = "drawn_placement req l nid w" and ?w = "w\<lparr>tick := Suc (Suc (Suc (Suc (tick w))))\<rparr>"
  from assms have "record_placement ?p (pl_created_at ?p) ?w = (Inr (), w')"
    and "pd_selected_node_id dec = nid" and "pd_release_id dec = rq_release_id req"
    by (auto simp: place_on_def drawn_placement_def new_placement_def Let_def io_simps
        split: prod.splits sum.splits)
  then show "db w' = placed (pl_created_at ?p) ?p (db w)" and "placement_ok ?p (db w)"
    and "pd_selected_node_id dec = nid" and "pd_release_id dec = rq_release_id req"
    by (auto dest: record_placement_InrE)
qed

lemma place_on_InlE: "place_on req l nid w = (Inl e, w') \<Longrightarrow> db w' = db w"
  unfolding place_on_def Let_def
  by (auto dest!: record_placement_InlE simp: io_simps split: prod.splits sum.splits)

lemma drawn_placement_sel [simp]:
  "pl_release_id (drawn_placement req l nid w) = rq_release_id req"
  "pl_node_id (drawn_placement req l nid w) = nid" "pl_status (drawn_placement req l nid w) = Placed"
  "pl_cpu (drawn_placement req l nid w) = as_i64 (rq_cpu req)"
  "pl_memory (drawn_placement req l nid w) = as_i64 (rq_memory req)"
  by (simp_all add: drawn_placement_def new_placement_def Let_def)

lemma schedule_release_cases:
  assumes "schedule_release req l w = (res, w')"
  obtains (error) e where "res = Inl e" "db w' = db w"
  | (success) ns n dec w1 where "res = Inr dec" "list_active_nodes 60 w = (Inr ns, w1)" "db w1 = db w"
      "select_node req ns = Some n" "place_on req l (nr_id n) w1 = (Inr dec, w')"
proof (cases "list_active_nodes 60 w")
  case (Pair r w1)
  show thesis
  proof (cases r)
    case (Inl e)
    have "db w1 = db w"
      using Pair by (auto simp: list_active_nodes_def io_simps select_rows_def statement_def split: if_splits)
    with assms Pair Inl show thesis by (intro that(1)) (auto simp: schedule_release_def io_simps)
  next
    case (Inr ns)
    with Pair have d: "db w1 = db w" using list_active_nodes_InrE(1) by blast
    show thesis
    proof (cases "select_node req ns")
      case None
      with assms Pair Inr d show thesis by (intro that(1)) (auto simp: schedule_release_def io_simps)
    next
      case (Some n)
      with assms Pair Inr have run: "place_on req l (nr_id n) w1 = (res, w')"
        by (simp add: schedule_release_def io_simps)
      show thesis
      proof (cases res)
        case (Inl e)
        with run have "db w' = db w1" by (auto dest: place_on_InlE)
        with Inl d show thesis by (intro that(1)) auto
      next
        case (Inr dec)
        with run Some Pair \<open>r = Inr ns\<close> d show thesis by (intro that(2)) auto
      qed
    qed
  qed
qed

lemma usage_inv_update:
  assumes "usage_inv d" and "\<And>r. r \<in> set (nodes d) \<Longrightarrow> n_id r = nid \<Longrightarrow> usage_ok r \<Longrightarrow> usage_ok (f r)"
    and "\<And>r. n_id (f r) = n_id r"
  shows "usage_inv (d\<lparr>nodes := update_where (\<lambda>r. n_id r = nid) f (nodes d)\<rparr>)"
  using assms by (auto simp: usage_inv_def map_update_where list_all_iff set_update_where)

lemma schedule_release_keeps:
  assumes inv: "usage_inv (db w)" and cpu: "uint (rq_cpu req) < 2 ^ 63" and mem: "uint (rq_memory req) < 2 ^ 63"
    and run: "schedule_release req l w = (res, w')"
  shows "usage_inv (db w')"
  using run
proof (cases rule: schedule_release_cases)
  case (error e)
  with inv show ?thesis by simp
next
  case (success ns n dec w1)
  from select_node_chosen [OF success(4)] obtain r s where r: "r \<in> set (nodes (db w))" "n = from_pg_row r"
    "score_node n (rq_cpu req) (rq_memory req) = Some s"
    using list_active_nodes_InrE(3) [OF success(2)] by blast
  let ?p = "drawn_placement req l (nr_id n) w1" and ?now = "pl_created_at (drawn_placement req l (nr_id n) w1)"
  have d: "db w' = placed ?now ?p (db w)"
    using place_on_InrE(1) [OF success(5)] success(3) by simp
  have room: "usage_ok (take_capacity (as_i64 (rq_cpu req)) (as_i64 (rq_memory req)) ?now x)"
    if "x \<in> set (nodes (db w))" "n_id x = nr_id n" "usage_ok x" for x
  proof -
    have "x = r" using that(1,2) r inv by (auto simp: usage_inv_def distinct_map from_pg_row_def inj_on_def)
    with score_node_room [OF that(3) cpu mem] r that(3) show ?thesis
      by (simp add: usage_ok_def take_capacity_def as_i64_small [OF cpu] as_i64_small [OF mem])
  qed
  from usage_inv_update [OF inv room n_id_capacity(1)] show ?thesis
    unfolding d placed_def by (simp add: usage_inv_def)
qed

text \<open>C13. A placement never takes more than a node has: with sane accounts and requests below
  \<open>2\<^sup>6\<^sup>3\<close>, scheduling a release, whatever its result, leaves the used CPU, memory and release count of
  every node between zero and the node's capacity; a failed request changes nothing, and a successful
  one adds one placement and charges exactly the selected node.\<close>

theorem schedule_within_capacity:
  assumes "usage_inv (db w)" and "uint (rq_cpu req) < 2 ^ 63" and "uint (rq_memory req) < 2 ^ 63"
    and "schedule_release req l w = (res, w')"
  shows "usage_inv (db w') \<and>
    (case res of
       Inl e \<Rightarrow> db w' = db w
     | Inr dec \<Rightarrow> \<exists>now p. pl_node_id p = pd_selected_node_id dec
         \<and> pl_release_id p = rq_release_id req \<and> pl_status p = Placed
         \<and> placements (db w') = placements (db w) @ [p]
         \<and> nodes (db w') = update_where (\<lambda>r. n_id r = pd_selected_node_id dec)
             (take_capacity (uint (rq_cpu req)) (uint (rq_memory req)) now) (nodes (db w)))"
proof -
  have inv: "usage_inv (db w')" using assms by (rule schedule_release_keeps)
  from assms(4) show ?thesis
  proof (cases rule: schedule_release_cases)
    case (error e)
    with inv show ?thesis by simp
  next
    case (success ns n dec w1)
    note p = place_on_InrE [OF success(5)]
    from p(1,3) success(1,3) inv show ?thesis
      by (auto simp: placed_def as_i64_small [OF assms(2)] as_i64_small [OF assms(3)]
          intro!: exI [of _ "drawn_placement req l (nr_id n) w1"])
  qed
qed

section \<open>Giving capacity back\<close>

definition node_usage :: "NodeRow \<Rightarrow> uuid \<times> int \<times> int \<times> int" where
  "node_usage r = (n_id r, n_cpu_used r, n_memory_used r, n_running_count r)"

lemma node_usage_take_free:
  assumes "usage_ok r" and "0 \<le> cpu" and "0 \<le> mem"
  shows "node_usage (free_capacity cpu mem t2 (take_capacity cpu mem t1 r)) = node_usage r"
  using assms by (simp add: node_usage_def free_capacity_def take_capacity_def usage_ok_def)

lemma first_order_by_desc_snoc:
  assumes "\<And>x. x \<in> set xs \<Longrightarrow> key x < key y"
  shows "first_row (order_by_desc key (xs @ [y])) = Some y"
proof -
  let ?s = "order_by_desc key (xs @ [y])"
  have set: "set ?s = insert y (set xs)" and srt: "sorted (map (\<lambda>r. - key r) ?s)"
    by (auto simp: order_by_desc_def)
  obtain h t where s: "?s = h # t" using set by (cases ?s) auto
  have "- key h \<le> - key y" using srt set unfolding s by (auto simp: in_set_conv_decomp)
  moreover have "h \<in> insert y (set xs)" using set s by auto
  ultimately have "h = y" using assms by fastforce
  with s show ?thesis by (simp add: first_row_def)
qed

text \<open>What a run of \<open>release_placement\<close> does to a release whose newest placement is live.\<close>

definition released :: "uuid \<Rightarrow> PlacementRow \<Rightarrow> timestamp \<Rightarrow> db \<Rightarrow> db" where
  "released rid row now d = d\<lparr>placements := update_where (\<lambda>p. pl_release_id p = rid)
       (\<lambda>p. p\<lparr>pl_status := PlStopped, pl_updated_at := now\<rparr>) (placements d),
     nodes := update_where (\<lambda>r. n_id r = pl_node_id row)
       (free_capacity (pl_cpu row) (pl_memory row) now) (nodes d)\<rparr>"

lemma free_capacity_range:
  assumes "usage_ok r" and "0 \<le> cpu" and "0 \<le> mem"
  shows "node_range_ok (free_capacity cpu mem now r)"
  using assms by (auto simp: node_range_ok_def free_capacity_def usage_ok_def i64_range_def i32_range_def)

lemma release_placement_run:
  assumes "no_db_faults w" and "latest_placement rid (db w) = Some row"
    and "pl_status row \<noteq> PlStopped" and "pl_status row \<noteq> PlFailed"
    and "usage_inv (db w)" and "0 \<le> pl_cpu row" and "0 \<le> pl_memory row"
  shows "\<exists>w'. release_placement rid w = (Inr (), w') \<and>
    db w' = released rid row (env_clock (env w) (Suc (tick w))) (db w)"
proof -
  have "list_all node_range_ok (filter (\<lambda>r. n_id r = pl_node_id row)
      (update_where (\<lambda>r. n_id r = pl_node_id row) (free_capacity (pl_cpu row) (pl_memory row) t) (nodes (db w))))" for t
    using assms(5-7) by (auto simp: usage_inv_def list_all_iff set_update_where intro!: free_capacity_range)
  with assms(1-4) show ?thesis
    by (simp add: release_placement_def set_placements_def update_usage_def released_def Let_def io_simps)
qed

text \<open>C15. Placing a release and releasing it again is neutral: for a release without earlier
  placements, a successful \<open>schedule_release\<close> followed by \<open>release_placement\<close> (which then succeeds
  while the database answers) gives every node exactly the usage it had, and leaves the one new
  placement stopped behind the old ones.\<close>

theorem place_release_roundtrip:
  assumes inv: "usage_inv (db w)" and cpu: "uint (rq_cpu req) < 2 ^ 63" and mem: "uint (rq_memory req) < 2 ^ 63"
    and fresh: "\<forall>p\<in>set (placements (db w)). pl_release_id p \<noteq> rq_release_id req"
    and run: "schedule_release req l w = (Inr dec, w1)" and up: "no_db_faults w1"
  shows "\<exists>w2 p. release_placement (rq_release_id req) w1 = (Inr (), w2)
    \<and> map node_usage (nodes (db w2)) = map node_usage (nodes (db w))
    \<and> placements (db w2) = placements (db w) @ [p]
    \<and> pl_status p = PlStopped \<and> pl_release_id p = rq_release_id req"
  using run
proof (cases rule: schedule_release_cases)
  case (success ns n dec' w0)
  let ?p = "drawn_placement req l (nr_id n) w0"
  let ?t = "pl_created_at ?p" and ?c = "as_i64 (rq_cpu req)" and ?m = "as_i64 (rq_memory req)"
  let ?now = "env_clock (env w1) (Suc (tick w1))"
  have d1: "db w1 = placed ?t ?p (db w)" using place_on_InrE(1) [OF success(5)] success(3) by simp
  have inv1: "usage_inv (db w1)" using inv cpu mem run by (rule schedule_release_keeps)
  have cm: "0 \<le> ?c" "0 \<le> ?m" by (simp_all add: as_i64_small [OF cpu] as_i64_small [OF mem])
  have "filter (\<lambda>p. pl_release_id p = rq_release_id req) (placements (db w1)) = [] @ [?p]"
    using fresh by (simp add: d1 placed_def)
  then have latest: "latest_placement (rq_release_id req) (db w1) = Some ?p"
    by (simp only: latest_placement_def) (rule first_order_by_desc_snoc, simp)
  obtain w2 where run2: "release_placement (rq_release_id req) w1 = (Inr (), w2)"
    and d2: "db w2 = released (rq_release_id req) ?p ?now (db w1)"
    using release_placement_run [OF up latest] inv1 cm by auto
  have "node_usage (free_capacity ?c ?m ?now (take_capacity ?c ?m ?t r)) = node_usage r"
    if "r \<in> set (nodes (db w))" for r
    using that inv by (auto simp: usage_inv_def list_all_iff intro!: node_usage_take_free cm)
  then have "map node_usage (nodes (db w2)) = map node_usage (nodes (db w))"
    by (auto simp: d2 d1 released_def placed_def update_where_def)
  moreover have "placements (db w2) = placements (db w) @ [?p\<lparr>pl_status := PlStopped, pl_updated_at := ?now\<rparr>]"
    using fresh by (auto simp: d2 d1 released_def placed_def sql_simps intro!: update_where_none)
  ultimately show ?thesis
    using run2 by (intro exI [of _ w2] exI [of _ "?p\<lparr>pl_status := PlStopped, pl_updated_at := ?now\<rparr>"]) simp
qed simp

section \<open>Examples and findings\<close>

definition demo_node :: "uuid \<Rightarrow> int \<Rightarrow> NodeRow" where
  "demo_node i used =
     \<lparr>n_id = i, n_hostname = ''host'', n_endpoint = ''http://host'', n_status = Online,
      n_cpu_total = 4096, n_memory_total = 8192, n_max_releases = 4, n_cpu_used = used,
      n_memory_used = used, n_running_count = 1, n_token_hash = ''hash'', n_epoch = 1, n_version = 1,
      n_is_draining = False, n_is_enabled = True, n_last_heartbeat_at = 0, n_registered_at = 0,
      n_updated_at = 0\<rparr>"

definition demo_request :: "uuid \<Rightarrow> PlacementRequest" where
  "demo_request rid =
     \<lparr>rq_release_id = rid, rq_deployment_id = 3, rq_project_id = 1, rq_cpu = 2048,
      rq_memory = 2048, rq_candidate_nodes = None, rq_anti_affinity_nodes = []\<rparr>"

definition sched_world :: "NodeRow list \<Rightarrow> world" where
  "sched_world ns = demo_world\<lparr>db := demo_db\<lparr>nodes := ns\<rparr>\<rparr>"

lemma f64_round_demo:
  "f64_round 0 = 0" "f64_round 1 = 1" "f64_round (1 / 2) = 1 / 2" "f64_round (1 / 4) = 1 / 4"
  "f64_round (3 / 4) = 3 / 4" "f64_round 4096 = 4096" "f64_round 8192 = 8192"
  "f64_round 3072 = 3072" "f64_round (3 / 8) = 3 / 8"
  "f64_round (5 / 8) = 5 / 8" "f64_round (7 / 8) = 7 / 8" "f64_round (7 / 16) = 7 / 16"
  by (simp_all add: f64_round_0 f64_round_exact [of 1 1 0] f64_round_exact [of "1 / 2" 1 "-1"]
      f64_round_exact [of "1 / 4" 1 "-2"] f64_round_exact [of "3 / 4" 3 "-2"]
      f64_round_exact [of 4096 4096 0] f64_round_exact [of 8192 8192 0]
      f64_round_exact [of 3072 3072 0]
      f64_round_exact [of "3 / 8" 3 "-3"] f64_round_exact [of "5 / 8" 5 "-3"]
      f64_round_exact [of "7 / 8" 7 "-3"] f64_round_exact [of "7 / 16" 7 "-4"] pow2_def)

lemma demo_scores:
  "score_node (from_pg_row (demo_node i 2048)) 2048 2048 = Some (Fin (1 / 4))"
  "score_node (from_pg_row (demo_node i 1024)) 2048 2048 = Some (Fin (7 / 16))"
  by (simp_all add: score_node_def from_pg_row_def demo_node_def as_u64_def as_u32_def word_le_def
      remaining_pct_def f64_of_u64_def f64_round_demo)

lemmas demo_eval =
  demo_world_def demo_env_def demo_db_def empty_db_def sched_world_def list_active_nodes_def
  order_by_def order_by_desc_def is_active_node_def nanos_def as_i64_def

lemma demo_select:
  "select_node (demo_request i) [from_pg_row (demo_node 22 1024), from_pg_row (demo_node 21 2048)] =
     Some (from_pg_row (demo_node 22 1024))"
  "select_node (demo_request i) [from_pg_row (demo_node 21 2048)] = Some (from_pg_row (demo_node 21 2048))"
  by (simp_all add: select_node_def demo_request_def demo_scores sort_by_def candidate_cmp_Fin)

lemma demo_capacity: "capacity_positive (from_pg_row (demo_node i used))"
  by (simp add: capacity_positive_def from_pg_row_def demo_node_def as_u64_def)

theorem select_node_best_witness:
  "select_node (demo_request 5) [from_pg_row (demo_node 22 1024), from_pg_row (demo_node 21 2048)] =
     Some (from_pg_row (demo_node 22 1024))
   \<and> allowed (demo_request 5) (from_pg_row (demo_node 22 1024))"
  using select_node_best [of "demo_request 5"
      "[from_pg_row (demo_node 22 1024), from_pg_row (demo_node 21 2048)]" "from_pg_row (demo_node 22 1024)"]
  by (simp add: demo_select demo_capacity)

lemma demo_list:
  "env w = demo_env \<Longrightarrow> nodes (db w) = [demo_node 21 2048] \<Longrightarrow> tick w < 100 \<Longrightarrow>
   list_active_nodes 60 w = (Inr [from_pg_row (demo_node 21 2048)], w\<lparr>tick := Suc (Suc (tick w))\<rparr>)"
  by (simp add: io_simps demo_eval demo_node_def no_db_faults_def)

lemma usage_inv_demo: "usage_inv (db (sched_world [demo_node 21 2048]))"
  by (simp add: usage_inv_def sched_world_def demo_node_def usage_ok_def)

text \<open>A run of \<open>place_on\<close> on the example: the clock and the identifiers are the numbers of the
  interactions, so that the state after it is explicit.\<close>

lemma place_on_run:
  assumes "no_db_faults w" and "placement_ok (drawn_placement req l nid w) (db w)"
    and "list_all node_range_ok (filter (\<lambda>r. n_id r = nid)
      (update_where (\<lambda>r. n_id r = nid) (take_capacity (as_i64 (rq_cpu req)) (as_i64 (rq_memory req))
        (pl_created_at (drawn_placement req l nid w))) (nodes (db w))))"
  shows "\<exists>dec w'. place_on req l nid w = (Inr dec, w') \<and> env w' = env w
    \<and> tick w' = tick w + 8 \<and> pd_selected_node_id dec = nid
    \<and> db w' = placed (pl_created_at (drawn_placement req l nid w)) (drawn_placement req l nid w) (db w)"
  using assms
  by (simp add: place_on_def record_placement_def update_usage_def drawn_placement_def
      new_placement_def placed_def Let_def io_simps)

lemma schedule_release_run:
  "list_active_nodes 60 w = (Inr ns, w1) \<Longrightarrow> select_node req ns = Some n \<Longrightarrow>
   schedule_release req l w = place_on req l (nr_id n) w1"
  by (simp add: schedule_release_def io_simps)

abbreviation demo_before :: world where
  "demo_before \<equiv> sched_world [demo_node 21 2048]"

lemma demo_env_world [simp]: "env (sched_world ns) = demo_env"
  by (simp add: sched_world_def demo_world_def)

lemma demo_place:
  assumes "env w = demo_env" and "map n_id (nodes (db w)) = [21]" and "pl_id ` set (placements (db w)) \<subseteq> {0..<of_nat (Suc (tick w))}"
    and "tick w < 100" and "\<forall>r\<in>set (nodes (db w)). 0 \<le> n_cpu_used r \<and> n_cpu_used r \<le> 4096
      \<and> 0 \<le> n_memory_used r \<and> n_memory_used r \<le> 8192 \<and> 0 \<le> n_running_count r \<and> n_running_count r \<le> 4"
  shows "\<exists>dec w'. place_on (demo_request i) 30 21 w = (Inr dec, w') \<and> env w' = demo_env
    \<and> tick w' = tick w + 8
    \<and> db w' = placed (pl_created_at (drawn_placement (demo_request i) 30 21 w))
        (drawn_placement (demo_request i) 30 21 w) (db w)"
proof -
  have "placement_ok (drawn_placement (demo_request i) 30 21 w) (db w)"
    using assms(1-4) unfolding placement_ok_def
    by (auto simp: has_key_iff drawn_placement_def new_placement_def Let_def demo_env_def)
  moreover have "list_all node_range_ok (filter (\<lambda>r. n_id r = 21)
      (update_where (\<lambda>r. n_id r = 21) (take_capacity (as_i64 (rq_cpu (demo_request i)))
        (as_i64 (rq_memory (demo_request i))) t) (nodes (db w))))" for t
    using assms(5) by (auto simp: list_all_iff set_update_where node_range_ok_def take_capacity_def
        demo_request_def as_i64_def i64_range_def i32_range_def)
  ultimately show ?thesis
    using place_on_run [of w "demo_request i" 30 21] assms(1) by (auto simp: no_db_faults_def demo_env_def)
qed

lemma demo_placed_nodes:
  "nodes (placed t (drawn_placement (demo_request i) 30 21 w) d) =
     update_where (\<lambda>r. n_id r = 21) (take_capacity 2048 2048 t) (nodes d)"
  "placements (placed t (drawn_placement (demo_request i) 30 21 w) d) =
     placements d @ [drawn_placement (demo_request i) 30 21 w]"
  by (simp_all add: placed_def demo_request_def as_i64_def)

lemma demo_select_21: "nr_id (from_pg_row (demo_node i used)) = i"
  by (simp add: from_pg_row_def demo_node_def)

lemma demo_schedule:
  "\<exists>dec w'. schedule_release (demo_request 5) 30 demo_before = (Inr dec, w') \<and> no_db_faults w'"
proof -
  let ?w = "demo_before\<lparr>tick := Suc (Suc (tick demo_before))\<rparr>"
  have "list_active_nodes 60 demo_before = (Inr [from_pg_row (demo_node 21 2048)], ?w)"
    by (rule demo_list) (simp_all add: sched_world_def demo_world_def)
  from schedule_release_run [OF this demo_select(2)]
  have "schedule_release (demo_request 5) 30 demo_before = place_on (demo_request 5) 30 21 ?w"
    by (simp add: demo_select_21)
  moreover have "\<exists>dec w'. place_on (demo_request 5) 30 21 ?w = (Inr dec, w') \<and> env w' = demo_env"
    using demo_place [of ?w 5] by (auto simp: sched_world_def demo_world_def demo_db_def empty_db_def demo_node_def)
  ultimately show ?thesis by (metis demo_no_faults(1))
qed

theorem schedule_within_capacity_witness:
  "\<exists>dec w'. schedule_release (demo_request 5) 30 demo_before = (Inr dec, w') \<and> usage_inv (db w')"
proof -
  obtain dec w' where run: "schedule_release (demo_request 5) 30 demo_before = (Inr dec, w')"
    using demo_schedule by blast
  have "usage_inv (db w')"
    using schedule_within_capacity [OF usage_inv_demo _ _ run] by (simp add: demo_request_def)
  with run show ?thesis by blast
qed

theorem place_release_roundtrip_witness:
  "\<exists>dec w1 w2. schedule_release (demo_request 5) 30 demo_before = (Inr dec, w1)
    \<and> release_placement 5 w1 = (Inr (), w2)
    \<and> map node_usage (nodes (db w2)) = map node_usage (nodes (db demo_before))"
proof -
  obtain dec w1 where run: "schedule_release (demo_request 5) 30 demo_before = (Inr dec, w1)"
    and up: "no_db_faults w1" using demo_schedule by blast
  have "placements (db demo_before) = []"
    by (simp add: sched_world_def demo_db_def empty_db_def)
  then have "\<exists>w2. release_placement 5 w1 = (Inr (), w2)
      \<and> map node_usage (nodes (db w2)) = map node_usage (nodes (db demo_before))"
    using place_release_roundtrip [OF usage_inv_demo _ _ _ run up] by (auto simp: demo_request_def)
  with run show ?thesis by blast
qed

text \<open>The capacity check and the placement are not one step: two requests that both read the
  registry before either has written its placement are both placed on the same node, and the node is
  then charged with more than it has.\<close>

theorem concurrent_schedules_overcommit:
  "\<exists>(w :: world) r1 r2 ns n w1 w2 w3 w4 d1 d2. usage_inv (db w)
    \<and> list_active_nodes 60 w = (Inr ns, w1) \<and> select_node r1 ns = Some n
    \<and> list_active_nodes 60 w1 = (Inr ns, w2) \<and> select_node r2 ns = Some n
    \<and> place_on r1 30 (nr_id n) w2 = (Inr d1, w3) \<and> place_on r2 30 (nr_id n) w3 = (Inr d2, w4)
    \<and> \<not> usage_inv (db w4)"
proof -
  let ?ns = "[from_pg_row (demo_node 21 2048)]" and ?n = "from_pg_row (demo_node 21 2048)"
  let ?w1 = "demo_before\<lparr>tick := Suc (Suc (tick demo_before))\<rparr>"
  let ?w2 = "?w1\<lparr>tick := Suc (Suc (tick ?w1))\<rparr>"
  have 1: "list_active_nodes 60 demo_before = (Inr ?ns, ?w1)"
    by (rule demo_list) (simp_all add: sched_world_def demo_world_def)
  have 2: "list_active_nodes 60 ?w1 = (Inr ?ns, ?w2)"
    by (rule demo_list) (simp_all add: sched_world_def demo_world_def)
  obtain d1 w3 where 3: "place_on (demo_request 5) 30 21 ?w2 = (Inr d1, w3)" "env w3 = demo_env"
    "tick w3 = 22" and n3: "db w3 = placed 17 (drawn_placement (demo_request 5) 30 21 ?w2) (db ?w2)"
    using demo_place [of ?w2 5]
    by (auto simp: sched_world_def demo_world_def demo_db_def empty_db_def demo_node_def demo_env_def
        drawn_placement_def new_placement_def Let_def)
  have nodes3: "nodes (db w3) = [take_capacity 2048 2048 17 (demo_node 21 2048)]"
    by (simp add: n3 demo_placed_nodes sched_world_def sql_simps demo_node_def)
  have pl3: "placements (db w3) = [drawn_placement (demo_request 5) 30 21 ?w2]"
    by (simp add: n3 demo_placed_nodes sched_world_def demo_db_def empty_db_def)
  obtain d2 w4 where 4: "place_on (demo_request 6) 30 21 w3 = (Inr d2, w4)"
    and n4: "db w4 = placed (pl_created_at (drawn_placement (demo_request 6) 30 21 w3))
        (drawn_placement (demo_request 6) 30 21 w3) (db w3)"
    using demo_place [of w3 6] 3(2,3)
    by (auto simp: nodes3 pl3 take_capacity_def demo_node_def drawn_placement_def new_placement_def
        Let_def sched_world_def demo_world_def demo_env_def)
  have "\<not> usage_inv (db w4)"
    by (simp add: n4 demo_placed_nodes nodes3 usage_inv_def usage_ok_def take_capacity_def demo_node_def sql_simps)
  with 1 2 3(1) 4 usage_inv_demo demo_select(2) show ?thesis
    by (metis demo_select_21)
qed

end
