(* ===== verification/Nodes_Correct.thy ===== *)
theory Nodes_Correct
  imports Scheduler_Correct
begin

text \<open>
  The correctness of the node registry: a rotation of the identity of a node fences the heartbeats of
  the old one, the expiry pass sets every silent node to the state its silence calls for and logs each
  change, and only an operator, a new registration or that pass changes the state of a node.
\<close>

section \<open>Identity and heartbeats\<close>

lemma as_u64_Suc_neq: "as_u64 (i + 1) \<noteq> as_u64 i"
  by (simp add: as_u64_def)

lemma get_node_run:
  "no_db_faults w \<Longrightarrow> get_node i w =
     (Inr (map_option from_pg_row (lookup_by n_id i (nodes (db w)))), w\<lparr>tick := Suc (tick w)\<rparr>)"
  by (simp add: get_node_def io_simps)

lemma first_row_returning:
  "first_row (returning (\<lambda>r. key r = k) f t) = map_option f (lookup_by key k t)"
  by (induction t) (auto simp: first_row_def returning_def lookup_by_def)

lemma rotate_node_identity_InrE:
  assumes "rotate_node_identity i h w = (Inr e, w')"
  obtains r where "lookup_by n_id i (nodes (db w)) = Some r" "e = as_u64 (n_epoch r + 1)"
    "lookup_by n_id i (nodes (db w')) = Some (r\<lparr>n_epoch := n_epoch r + 1, n_token_hash := h,
       n_updated_at := env_clock (env w) (tick w)\<rparr>)"
    "env w' = env w"
proof -
  let ?f = "\<lambda>r. r\<lparr>n_epoch := n_epoch r + 1, n_token_hash := h, n_updated_at := env_clock (env w) (tick w)\<rparr>"
  from assms obtain r where "lookup_by n_id i (nodes (db w)) = Some r" "e = as_u64 (n_epoch r + 1)"
    "nodes (db w') = update_where (\<lambda>r. n_id r = i) ?f (nodes (db w))" "env w' = env w"
    by (auto simp: rotate_node_identity_def first_row_returning Let_def statement_def of_option_def
        io_simps split: if_splits option.splits prod.splits sum.splits)
  then show thesis
    by (intro that) (auto simp: lookup_by_update_where dest!: lookup_by_Some)
qed

text \<open>Rotating the identity of a node fences the old one: after a successful rotation the epoch
  is the successor of the old epoch, and a heartbeat that still carries the old epoch is refused with
  \<open>EpochMismatch\<close> and changes nothing, whatever it reports.\<close>

theorem rotation_fences_heartbeats:
  assumes "rotate_node_identity i h w = (Inr e, w1)" and "no_db_faults w1"
    and "lookup_by n_id i (nodes (db w)) = Some r"
    and "hb_node_id cmd = i" and "hb_epoch cmd = as_u64 (n_epoch r)"
  shows "e = hb_epoch cmd + 1 \<and>
    (\<exists>w2. record_heartbeat cmd w1 = (Inl (EpochMismatch e (hb_epoch cmd)), w2) \<and> db w2 = db w1)"
proof -
  from assms(1,3) have e: "e = as_u64 (n_epoch r + 1)"
    and l: "lookup_by n_id i (nodes (db w1)) = Some (r\<lparr>n_epoch := n_epoch r + 1, n_token_hash := h,
       n_updated_at := env_clock (env w) (tick w)\<rparr>)"
    by (auto elim!: rotate_node_identity_InrE)
  have "hb_epoch cmd \<noteq> e" using as_u64_Suc_neq [of "n_epoch r"] e assms(5) by simp
  then have "record_heartbeat cmd w1 = (Inl (EpochMismatch e (hb_epoch cmd)), w1\<lparr>tick := Suc (tick w1)\<rparr>)"
    using assms(2,4) l e by (simp add: record_heartbeat_def get_node_run io_simps from_pg_row_def)
  then show ?thesis using e assms(5) by (simp add: as_u64_def)
qed

text \<open>The state of a node as an operator sees it.\<close>

definition node_state :: "NodeRow \<Rightarrow> uuid \<times> NodeStatus" where
  "node_state r = (n_id r, n_status r)"

text \<open>A heartbeat never changes the state of a node: whatever status it reports and whatever its
  result, every node keeps the status it had, so that a node once marked degraded or offline stays
  out of the active nodes however often it reports.\<close>

theorem heartbeat_keeps_status:
  "map node_state (nodes (db (snd (record_heartbeat cmd w)))) = map node_state (nodes (db w))"
proof -
  have "node_state (heartbeat_row cmd now r) = node_state r" for now r
    by (simp add: node_state_def heartbeat_row_def)
  then have upd: "map node_state (update_where P (heartbeat_row cmd now) t) = map node_state t" for P now t
    by (intro map_update_where)
  have "keeps_db (\<lambda>d. map node_state (nodes d) = map node_state (nodes (db w))) (record_heartbeat cmd)"
    unfolding record_heartbeat_def get_node_def Let_def
    by (intro keeps_intros keeps_db_statement) (auto simp: upd)
  from keeps_dbD [OF this, of w] show ?thesis by simp
qed

section \<open>Expiry\<close>

text \<open>The state an expiry pass leaves a stale row in, and whether that is a change.\<close>

definition expiry_target :: "int \<Rightarrow> timestamp \<Rightarrow> NodeRow \<Rightarrow> NodeStatus" where
  "expiry_target offline_secs now r =
     expiry_status (whole_seconds (now - n_last_heartbeat_at r)) offline_secs"

definition expire_state :: "int \<Rightarrow> timestamp \<Rightarrow> NodeRow \<Rightarrow> uuid \<times> NodeStatus \<Rightarrow> uuid \<times> NodeStatus" where
  "expire_state offline_secs now r = (\<lambda>(i, s).
     if i = n_id r \<and> expiry_target offline_secs now r \<noteq> n_status r
     then (i, expiry_target offline_secs now r) else (i, s))"

lemma update_node_logged_InrE:
  assumes "update_node_logged i f s1 s2 reason w = (Inr u, w')"
  obtains now e where "nodes (db w') = update_where (\<lambda>r. n_id r = i) (f now) (nodes (db w))"
    "node_events (db w') = node_events (db w) @ [e]" "ne_node_id e = i" "ne_from_status e = s1"
    "ne_to_status e = s2"
  using assms unfolding update_node_logged_def Let_def
  by (auto simp: now_utc_run uuid_new_v4_run elim!: and_then_InrE transaction_InrE
      dest!: insert_row_InrE execute_InrE)

lemma expire_row_InrE:
  assumes "expire_row t os now raw k w = (Inr k', w')"
  shows "map node_state (nodes (db w')) = map (expire_state os now raw) (map node_state (nodes (db w)))"
    and "k' = k + (if expiry_target os now raw \<noteq> n_status raw then 1 else 0)"
    and "length (node_events (db w')) + k = length (node_events (db w)) + k'"
proof -
  have run: "if expiry_target os now raw \<noteq> n_status raw
    then k' = k + 1 \<and> (\<exists>reason. update_node_logged (n_id raw)
        (\<lambda>u r. r\<lparr>n_status := expiry_target os now raw, n_updated_at := u\<rparr>) (n_status raw)
        (expiry_target os now raw) reason w = (Inr (), w'))
    else k' = k \<and> w' = w"
    using assms by (auto simp: expire_row_def expiry_target_def from_pg_row_def Let_def io_simps
        split: if_splits prod.splits sum.splits)
  show "k' = k + (if expiry_target os now raw \<noteq> n_status raw then 1 else 0)"
    using run by (auto split: if_splits)
  show "map node_state (nodes (db w')) = map (expire_state os now raw) (map node_state (nodes (db w)))"
    using run by (auto simp: expire_state_def node_state_def update_where_def
        split: if_splits elim!: update_node_logged_InrE)
  show "length (node_events (db w')) + k = length (node_events (db w)) + k'"
    using run by (auto split: if_splits elim!: update_node_logged_InrE)
qed

lemma expire_rows_InrE:
  assumes "fold_io (expire_row t os now) rows k w = (Inr k', w')"
  shows "map node_state (nodes (db w')) =
      map (\<lambda>x. fold (expire_state os now) rows x) (map node_state (nodes (db w)))
    \<and> k' = k + count_where (\<lambda>r. expiry_target os now r \<noteq> n_status r) rows
    \<and> length (node_events (db w')) + k = length (node_events (db w)) + k'"
  using assms
proof (induction rows arbitrary: k w)
  case Nil
  then show ?case by (simp add: io_simps count_where_def)
next
  case (Cons r rows)
  then obtain k1 w1 where head: "expire_row t os now r k w = (Inr k1, w1)"
    and tail: "fold_io (expire_row t os now) rows k1 w1 = (Inr k', w')"
    by (auto elim!: and_then_InrE)
  from expire_row_InrE [OF head] Cons.IH [OF tail] show ?case
    by (auto simp: count_where_def)
qed

lemma fold_expire_state:
  assumes "distinct (map n_id rows)"
  shows "fold (expire_state os now) rows (i, s) =
    (case lookup_by n_id i rows of
       Some r \<Rightarrow> (i, if expiry_target os now r \<noteq> n_status r then expiry_target os now r else s)
     | None \<Rightarrow> (i, s))"
  using assms
proof (induction rows arbitrary: s)
  case (Cons r rows)
  then have "lookup_by n_id (n_id r) rows = None" by (simp add: lookup_by_None)
  with Cons show ?case by (auto simp: expire_state_def sql_simps)
qed simp

lemma lookup_by_filter:
  assumes "distinct (map key t)" and "r \<in> set t"
  shows "lookup_by key (key r) (filter P t) = (if P r then Some r else None)"
proof (cases "P r")
  case True
  have "distinct (map key (filter P t))" using assms(1) by (rule distinct_map_filter)
  from lookup_by_unique [OF this, of r] True assms(2) show ?thesis by simp
next
  case False
  have "key r \<notin> key ` set (filter P t)"
    using assms False by (auto simp: distinct_map dest: inj_onD)
  with False show ?thesis by (simp add: lookup_by_None)
qed

text \<open>The expiry pass does what the silence of the nodes calls for: when it succeeds, exactly the
  nodes not yet offline whose last heartbeat is older than the time-out are set to \<open>Offline\<close>, if
  twice the time-out has passed, or else to \<open>Degraded\<close>; all other nodes keep their state, and
  the number it returns is the number of nodes that changed and of events it has logged.\<close>

theorem expiry_pass_correct:
  assumes "distinct (map n_id (nodes (db w)))"
    and "evaluate_health_and_expiry t w = (Inr k, w')"
  shows "let db_now = env_clock (env w) (tick w); now = env_clock (env w) (Suc (Suc (tick w)));
             stale = (\<lambda>r. n_status r \<noteq> Offline \<and> n_last_heartbeat_at r < db_now - nanos (as_i64 t));
             target = expiry_target (as_i64 (t * 2)) now
    in map node_state (nodes (db w')) =
         map (\<lambda>r. if stale r then (n_id r, target r) else node_state r) (nodes (db w))
       \<and> k = count_where (\<lambda>r. stale r \<and> target r \<noteq> n_status r) (nodes (db w))
       \<and> length (node_events (db w')) = length (node_events (db w)) + k"
proof -
  define db_now now where "db_now = env_clock (env w) (tick w)" and "now = env_clock (env w) (Suc (Suc (tick w)))"
  define stale :: "NodeRow \<Rightarrow> bool" where "stale = (\<lambda>r. n_status r \<noteq> Offline \<and> n_last_heartbeat_at r < db_now - nanos (as_i64 t))"
  let ?rows = "filter stale (nodes (db w))" and ?target = "expiry_target (as_i64 (t * 2)) now"
  let ?w = "w\<lparr>tick := Suc (Suc (Suc (tick w)))\<rparr>"
  have rows: "stale_rows db_now (as_i64 t) (db w) = ?rows" by (simp add: stale_rows_def stale_def)
  have "fold_io (expire_row (as_i64 t) (as_i64 (t * 2)) now)
      (stale_rows db_now (as_i64 t) (db w)) 0 ?w = (Inr k, w')"
    using assms(2) unfolding evaluate_health_and_expiry_def Let_def now_def db_now_def
    by (auto simp: now_utc_run elim!: and_then_InrE dest!: select_rows_InrE)
  note res = expire_rows_InrE [OF this [unfolded rows]]
  have dist: "distinct (map n_id ?rows)" using assms(1) by (rule distinct_map_filter)
  have "fold (expire_state (as_i64 (t * 2)) now) ?rows (node_state r) =
      (if stale r then (n_id r, ?target r) else node_state r)" if "r \<in> set (nodes (db w))" for r
    using lookup_by_filter [OF assms(1) that, of stale]
    unfolding node_state_def fold_expire_state [OF dist] by auto
  with res have "map node_state (nodes (db w')) =
      map (\<lambda>r. if stale r then (n_id r, ?target r) else node_state r) (nodes (db w))" by simp
  moreover have "k = count_where (\<lambda>r. stale r \<and> ?target r \<noteq> n_status r) (nodes (db w))"
    using res by (simp add: count_where_def conj_commute)
  ultimately show ?thesis using res unfolding Let_def db_now_def now_def stale_def by simp
qed

section \<open>Examples\<close>

definition demo_heartbeat :: HeartbeatCommand where
  "demo_heartbeat = \<lparr>hb_node_id = 21, hb_epoch = 1, hb_cpu_used_millicores = 5,
     hb_memory_used_bytes = 6, hb_running_releases = [], hb_status = Online\<rparr>"

theorem rotation_fences_heartbeats_witness:
  "\<exists>w1 w2. rotate_node_identity 21 ''new'' demo_before = (Inr 2, w1)
     \<and> record_heartbeat demo_heartbeat w1 = (Inl (EpochMismatch 2 1), w2) \<and> db w2 = db w1"
proof -
  have "fst (rotate_node_identity 21 ''new'' demo_before) = Inr 2" by code_simp
  then obtain w1 where run: "rotate_node_identity 21 ''new'' demo_before = (Inr 2, w1)"
    by (metis prod.collapse)
  then have up: "no_db_faults w1" by (rule rotate_node_identity_InrE) simp
  have l: "lookup_by n_id 21 (nodes (db demo_before)) = Some (demo_node 21 2048)"
    by (simp add: sched_world_def sql_simps demo_node_def)
  from rotation_fences_heartbeats [OF run up l, of demo_heartbeat] run show ?thesis
    by (auto simp: demo_heartbeat_def demo_node_def as_u64_def)
qed

definition silent_world :: world where
  "silent_world = sched_world [demo_node 20 0, (demo_node 21 0)\<lparr>n_last_heartbeat_at := - 70000000000\<rparr>,
     (demo_node 22 0)\<lparr>n_last_heartbeat_at := - 130000000000\<rparr>]"

lemma silent_run: "fst (evaluate_health_and_expiry 60 silent_world) = Inr 2"
  by code_simp

theorem expiry_pass_correct_witness:
  "\<exists>w'. evaluate_health_and_expiry 60 silent_world = (Inr 2, w')
     \<and> map node_state (nodes (db w')) = [(20, Online), (21, Degraded), (22, Offline)]"
proof -
  obtain w' where run: "evaluate_health_and_expiry 60 silent_world = (Inr 2, w')"
    using silent_run by (metis prod.collapse)
  have "distinct (map n_id (nodes (db silent_world)))"
    by (simp add: silent_world_def sched_world_def demo_node_def)
  note res = expiry_pass_correct [OF this run, unfolded Let_def]
  have eval: "map (\<lambda>r. if n_status r \<noteq> Offline \<and> n_last_heartbeat_at r <
        env_clock (env silent_world) (tick silent_world) - nanos (as_i64 60)
      then (n_id r, expiry_target (as_i64 (60 * 2))
        (env_clock (env silent_world) (Suc (Suc (tick silent_world)))) r) else node_state r)
      (nodes (db silent_world)) = [(20, Online), (21, Degraded), (22, Offline)]"
    by code_simp
  show ?thesis by (intro exI [of _ w'] conjI run trans [OF conjunct1 [OF res] eval])
qed

end
