(* ===== verification/Agent_Protocol.thy ===== *)
theory Agent_Protocol
  imports Nodes
begin

text \<open>
  \<^verbatim>\<open>src/agent_protocol.rs\<close>: the commands the control plane sends to the agents on the nodes, the
  signed envelope they travel in, the token manager, and the validator an agent passes every envelope
  through.  The crates \<^verbatim>\<open>hmac\<close>, \<^verbatim>\<open>sha2\<close>, \<^verbatim>\<open>hex\<close>, \<^verbatim>\<open>subtle\<close>, \<^verbatim>\<open>serde_json\<close>, \<^verbatim>\<open>uuid\<close> and the
  formatter of \<^verbatim>\<open>time\<close> are the fields of the parameter \<open>agent_lib\<close>.  A validator is a state; the
  readings of the two clocks are arguments of the operation that takes them.  A \<^verbatim>\<open>Duration\<close> is its
  number of nanoseconds.
\<close>

section \<open>Messages\<close>

record CreateReleaseCommand =
  cr_release_id :: uuid
  cr_deployment_id :: uuid
  cr_image_path :: string
  cr_env :: "(string \<times> string) list"
  cr_cpu_limit_millicores :: u64
  cr_memory_limit_bytes :: u64

datatype AgentCommand =
    RegisterNode RegisterNodeCommand
  | Heartbeat HeartbeatCommand
  | CreateRelease CreateReleaseCommand
  | StartRelease uuid string
  | StopRelease uuid string u32
  | DrainRelease uuid u32
  | ReleaseLogs uuid "u64 option" u64
  | ReleaseStats uuid
  | HealthCommand

record CreateReleaseResponse =
  crr_release_id :: uuid
  crr_container_id :: string
  crr_assigned_port :: u16

record StartReleaseResponse =
  srr_started :: bool
  srr_port :: u16

record StopReleaseResponse =
  spr_stopped :: bool

record DrainReleaseResponse =
  drr_draining :: bool

record ReleaseLogsResponse =
  rlr_logs :: "string list"
  rlr_next_seq :: u64

record ReleaseStatsResponse =
  rsr_cpu_millicores :: u64
  rsr_memory_bytes :: u64
  rsr_uptime_secs :: u64

record HealthResponse =
  hr_healthy :: bool
  hr_version :: string
  hr_uptime_secs :: u64

datatype AgentResponse =
    RegisterNodeR RegisterNodeResponse
  | HeartbeatR HeartbeatResponse
  | CreateReleaseR CreateReleaseResponse
  | StartReleaseR StartReleaseResponse
  | StopReleaseR StopReleaseResponse
  | DrainReleaseR DrainReleaseResponse
  | ReleaseLogsR ReleaseLogsResponse
  | ReleaseStatsR ReleaseStatsResponse
  | HealthR HealthResponse

datatype AgentProtocolError =
    VersionMismatch string string
  | ReplayDetected uuid
  | InvalidSignature
  | TimestampExpired int
  | ForbiddenCommand string
  | PayloadTooLarge nat nat
  | AgentNodeNotFound uuid
  | TokenRevoked uuid
  | SerializationError string

record AgentEnvelope =
  ev_version :: string
  ev_operation_id :: uuid
  ev_node_id :: uuid
  ev_timestamp :: timestamp
  ev_payload :: string
  ev_signature :: string

record NodeCredentials =
  nc_node_id :: uuid
  nc_secret_key :: string
  nc_epoch :: u64

text \<open>The third-party functions: \<open>lib_hmac\<close> is HMAC-SHA256 of a key and a message, which is refused
  for a key that \<open>lib_key_ok\<close> rules out; \<open>lib_ct_eq\<close> the constant-time comparison.\<close>

record agent_lib =
  lib_key_ok :: "string \<Rightarrow> bool"
  lib_hmac :: "string \<Rightarrow> string \<Rightarrow> string"
  lib_hex :: "string \<Rightarrow> string"
  lib_ct_eq :: "string \<Rightarrow> string \<Rightarrow> bool"
  lib_rfc3339 :: "timestamp \<Rightarrow> string option"
  lib_uuid_bytes :: "uuid \<Rightarrow> string"
  lib_uuid_str :: "uuid \<Rightarrow> string"
  lib_to_json :: "AgentCommand \<Rightarrow> string + string"
  lib_from_json :: "string \<Rightarrow> string + AgentCommand"

definition AGENT_PROTOCOL_VERSION :: string where
  "AGENT_PROTOCOL_VERSION = ''v1''"

definition MAX_PAYLOAD_SIZE_BYTES :: nat where
  "MAX_PAYLOAD_SIZE_BYTES = 1024 * 1024"

fun AgentProtocolError_fmt :: "agent_lib \<Rightarrow> AgentProtocolError \<Rightarrow> string" where
  "AgentProtocolError_fmt L (VersionMismatch expected actual) =
     ''Protocol version mismatch: expected '' @ expected @ '', got '' @ actual"
| "AgentProtocolError_fmt L (ReplayDetected i) =
     ''Duplicate operation ID replayed: '' @ lib_uuid_str L i"
| "AgentProtocolError_fmt L InvalidSignature = ''Invalid HMAC signature''"
| "AgentProtocolError_fmt L (TimestampExpired skew_secs) =
     ''Timestamp drift exceeded allowed window: '' @ show_int skew_secs @ ''s''"
| "AgentProtocolError_fmt L (ForbiddenCommand reason) = ''Forbidden command: '' @ reason"
| "AgentProtocolError_fmt L (PayloadTooLarge n most) =
     ''Payload size '' @ show_nat n @ '' exceeds maximum allowed '' @ show_nat most"
| "AgentProtocolError_fmt L (AgentNodeNotFound i) = ''Node not found: '' @ lib_uuid_str L i"
| "AgentProtocolError_fmt L (TokenRevoked i) =
     ''Node token has been revoked: '' @ lib_uuid_str L i"
| "AgentProtocolError_fmt L (SerializationError msg) = ''Serialization error: '' @ msg"

section \<open>Signed envelopes\<close>

definition compute_signature ::
  "agent_lib \<Rightarrow> string \<Rightarrow> uuid \<Rightarrow> uuid \<Rightarrow> timestamp \<Rightarrow> string \<Rightarrow> string \<Rightarrow>
   AgentProtocolError + string" where
  "compute_signature L version operation_id node_id timestamp payload secret_key =
     (if \<not> lib_key_ok L secret_key then Inl InvalidSignature
      else
        let timestamp_str = (case lib_rfc3339 L timestamp of Some s \<Rightarrow> s | None \<Rightarrow> [])
        in Inr (lib_hex L (lib_hmac L secret_key
             (version @ lib_uuid_bytes L operation_id @ lib_uuid_bytes L node_id @
              timestamp_str @ payload))))"

definition new_signed ::
  "agent_lib \<Rightarrow> string \<Rightarrow> uuid \<Rightarrow> uuid \<Rightarrow> timestamp \<Rightarrow> AgentCommand \<Rightarrow> string \<Rightarrow>
   AgentProtocolError + AgentEnvelope" where
  "new_signed L version operation_id node_id timestamp command secret_key =
     (case lib_to_json L command of
        Inl e \<Rightarrow> Inl (SerializationError e)
      | Inr payload \<Rightarrow>
          if MAX_PAYLOAD_SIZE_BYTES < length payload
          then Inl (PayloadTooLarge (length payload) MAX_PAYLOAD_SIZE_BYTES)
          else case compute_signature L version operation_id node_id timestamp payload secret_key of
              Inl e \<Rightarrow> Inl e
            | Inr signature \<Rightarrow>
                Inr \<lparr>ev_version = version, ev_operation_id = operation_id, ev_node_id = node_id,
                     ev_timestamp = timestamp, ev_payload = payload, ev_signature = signature\<rparr>)"

section \<open>The token manager\<close>

text \<open>The 32 random bytes of \<^verbatim>\<open>NodeCredentials::generate\<close> are an argument.\<close>

definition generate :: "agent_lib \<Rightarrow> string \<Rightarrow> uuid \<Rightarrow> NodeCredentials" where
  "generate L key_bytes node_id =
     \<lparr>nc_node_id = node_id, nc_secret_key = lib_hex L key_bytes, nc_epoch = 1\<rparr>"

type_synonym NodeTokenManager = "uuid \<rightharpoonup> NodeCredentials \<times> bool"

definition issue_token ::
  "agent_lib \<Rightarrow> string \<Rightarrow> uuid \<Rightarrow> NodeTokenManager \<Rightarrow> NodeCredentials \<times> NodeTokenManager" where
  "issue_token L key_bytes node_id m =
     (let creds = generate L key_bytes node_id in (creds, m(node_id \<mapsto> (creds, True))))"

definition rotate_token ::
  "agent_lib \<Rightarrow> string \<Rightarrow> uuid \<Rightarrow> NodeTokenManager \<Rightarrow> NodeCredentials option \<times> NodeTokenManager" where
  "rotate_token L key_bytes node_id m =
     (case m node_id of
        Some (old_creds, is_active) \<Rightarrow>
          if \<not> is_active then (None, m)
          else
            let new_creds = (generate L key_bytes node_id)\<lparr>nc_epoch := nc_epoch old_creds + 1\<rparr>
            in (Some new_creds, m(node_id \<mapsto> (new_creds, is_active)))
      | None \<Rightarrow> (None, m))"

definition revoke_token :: "uuid \<Rightarrow> NodeTokenManager \<Rightarrow> NodeTokenManager" where
  "revoke_token node_id m =
     (case m node_id of
        Some (creds, _) \<Rightarrow> m(node_id \<mapsto> (creds, False))
      | None \<Rightarrow> m)"

definition is_valid :: "NodeCredentials \<Rightarrow> NodeTokenManager \<Rightarrow> bool" where
  "is_valid creds m =
     (case m (nc_node_id creds) of
        Some (current, active) \<Rightarrow>
          active \<and> nc_epoch current = nc_epoch creds \<and> nc_secret_key current = nc_secret_key creds
      | None \<Rightarrow> False)"

definition get_credentials :: "uuid \<Rightarrow> NodeTokenManager \<Rightarrow> AgentProtocolError + NodeCredentials" where
  "get_credentials node_id m =
     (case m node_id of
        Some (creds, active) \<Rightarrow> if active then Inr creds else Inl (TokenRevoked node_id)
      | None \<Rightarrow> Inl (AgentNodeNotFound node_id))"

section \<open>Paths\<close>

text \<open>\<^verbatim>\<open>Path::components\<close> on Unix: repeated separators and \<open>.\<close> components are skipped, except for a
  leading \<open>.\<close> of a relative path.\<close>

datatype Component = RootDir | CurDir | ParentDir | Normal string

fun split_on :: "char \<Rightarrow> string \<Rightarrow> string list" where
  "split_on c [] = [[]]"
| "split_on c (x # xs) =
     (if x = c then [] # split_on c xs
      else case split_on c xs of [] \<Rightarrow> [[x]] | y # ys \<Rightarrow> (x # y) # ys)"

definition component_of :: "string \<Rightarrow> Component" where
  "component_of s = (if s = ''..'' then ParentDir else Normal s)"

definition path_components :: "string \<Rightarrow> Component list" where
  "path_components s =
     (let parts = split_on CHR ''/'' s
      in (if s \<noteq> [] \<and> hd s = CHR ''/'' then [RootDir]
          else if hd parts = ''.'' then [CurDir] else [])
         @ map component_of (filter (\<lambda>p. p \<noteq> [] \<and> p \<noteq> ''.'') parts))"

section \<open>The validator\<close>

record AgentProtocolValidator =
  max_skew :: nat
  processed_operations :: "uuid \<rightharpoonup> int"
  credentials_store :: "uuid \<rightharpoonup> NodeCredentials"
  revoked_nodes :: "uuid list"

definition new_validator :: "nat \<Rightarrow> AgentProtocolValidator" where
  "new_validator skew =
     \<lparr>max_skew = skew, processed_operations = Map.empty, credentials_store = Map.empty,
      revoked_nodes = []\<rparr>"

definition register_credentials ::
  "NodeCredentials \<Rightarrow> AgentProtocolValidator \<Rightarrow> AgentProtocolValidator" where
  "register_credentials creds v =
     v\<lparr>credentials_store := (credentials_store v)(nc_node_id creds \<mapsto> creds)\<rparr>"

definition revoke_node :: "uuid \<Rightarrow> AgentProtocolValidator \<Rightarrow> AgentProtocolValidator" where
  "revoke_node node_id v = v\<lparr>revoked_nodes := List.insert node_id (revoked_nodes v)\<rparr>"

definition forbidden_prefixes :: "string list" where
  "forbidden_prefixes = [''/etc'', ''/sys'', ''/proc'', ''/dev'', ''/root'']"

definition inspect_safety :: "AgentCommand \<Rightarrow> AgentProtocolError + unit" where
  "inspect_safety command =
     (case command of
        CreateRelease cmd \<Rightarrow>
          if ParentDir \<in> set (path_components (cr_image_path cmd))
          then Inl (ForbiddenCommand
            (''Directory traversal '' @ quoted ''..'' @ '' is prohibited in artifact image paths''))
          else (case List.find (str_starts_with (cr_image_path cmd)) forbidden_prefixes of
              Some prefix \<Rightarrow> Inl (ForbiddenCommand
                (''Access to system path '' @ prefix @ '' is prohibited''))
            | None \<Rightarrow> Inr ())
      | RegisterNode cmd \<Rightarrow>
          if rn_hostname cmd = [] \<or> rn_endpoint cmd = []
          then Inl (ForbiddenCommand ''Hostname and endpoint cannot be empty'')
          else Inr ()
      | _ \<Rightarrow> Inr ())"

type_synonym 'a validator_op = "(AgentProtocolValidator, AgentProtocolError, 'a) io"

text \<open>\<^verbatim>\<open>Instant::duration_since\<close> saturates at zero.\<close>

definition duration_since :: "int \<Rightarrow> int \<Rightarrow> nat" where
  "duration_since later earlier = nat (later - earlier)"

definition retain_ops :: "int \<Rightarrow> nat \<Rightarrow> (uuid \<rightharpoonup> int) \<Rightarrow> (uuid \<rightharpoonup> int)" where
  "retain_ops now_inst prune_limit ops =
     (\<lambda>i. case ops i of
        Some t \<Rightarrow> if duration_since now_inst t < prune_limit then Some t else None
      | None \<Rightarrow> None)"

definition check_replay :: "int \<Rightarrow> uuid \<Rightarrow> unit validator_op" where
  "check_replay now_inst operation_id = (\<lambda>v.
     let ops = retain_ops now_inst (max_skew v * 2) (processed_operations v)
     in if ops operation_id \<noteq> None
        then (Inl (ReplayDetected operation_id), v\<lparr>processed_operations := ops\<rparr>)
        else (Inr (), v\<lparr>processed_operations := ops(operation_id \<mapsto> now_inst)\<rparr>))"

definition as_secs :: "nat \<Rightarrow> u64" where
  "as_secs d = of_nat (d div 1000000000)"

definition check_envelope :: "agent_lib \<Rightarrow> timestamp \<Rightarrow> AgentEnvelope \<Rightarrow> AgentProtocolValidator \<Rightarrow>
   AgentProtocolError + unit" where
  "check_envelope L now e v =
     (if ev_version e \<noteq> AGENT_PROTOCOL_VERSION
      then Inl (VersionMismatch AGENT_PROTOCOL_VERSION (ev_version e))
      else if MAX_PAYLOAD_SIZE_BYTES < length (ev_payload e)
      then Inl (PayloadTooLarge (length (ev_payload e)) MAX_PAYLOAD_SIZE_BYTES)
      else
      let skew = whole_seconds (now - ev_timestamp e)
      in if as_i64 (as_secs (max_skew v)) < \<bar>skew\<bar> then Inl (TimestampExpired skew)
      else if ev_node_id e \<in> set (revoked_nodes v) then Inl (TokenRevoked (ev_node_id e))
      else case credentials_store v (ev_node_id e) of
          None \<Rightarrow> Inl (AgentNodeNotFound (ev_node_id e))
        | Some creds \<Rightarrow>
            (case compute_signature L (ev_version e) (ev_operation_id e) (ev_node_id e)
                (ev_timestamp e) (ev_payload e) (nc_secret_key creds) of
               Inl err \<Rightarrow> Inl err
             | Inr expected_signature \<Rightarrow>
                 if length (ev_signature e) \<noteq> length expected_signature
                    \<or> \<not> lib_ct_eq L (ev_signature e) expected_signature
                 then Inl InvalidSignature else Inr ()))"

definition validate_and_unpack ::
  "agent_lib \<Rightarrow> timestamp \<Rightarrow> int \<Rightarrow> AgentEnvelope \<Rightarrow> AgentCommand validator_op" where
  "validate_and_unpack L now now_inst e =
     and_then (\<lambda>v. (check_envelope L now e v, v)) (\<lambda>_.
     and_then (check_replay now_inst (ev_operation_id e)) (\<lambda>_.
     case lib_from_json L (ev_payload e) of
       Inl err \<Rightarrow> fail (SerializationError err)
     | Inr command \<Rightarrow>
         and_then (of_result (inspect_safety command)) (\<lambda>_. ret command)))"

end
