(* ===== verification/Agent_Server.thy ===== *)
theory Agent_Server
  imports Agent_Protocol
begin

text \<open>
  \<^verbatim>\<open>src/agent_server.rs\<close> and \<^verbatim>\<open>src/agent_client.rs\<close>: the server an agent runs, over an arbitrary
  implementation of the trait \<^verbatim>\<open>AgentRuntimeAdapter\<close>, the adapter the sources hold, and the client
  of the control plane.  The state of a server is its validator, its runtime and its draining flag;
  the transport between client and server is a parameter of the client.
\<close>

section \<open>The runtime\<close>

type_synonym ('r, 'a) runtime_op = "('r, AgentProtocolError, 'a) io"

record 'r AgentRuntimeAdapter =
  rt_create_release :: "CreateReleaseCommand \<Rightarrow> ('r, CreateReleaseResponse) runtime_op"
  rt_start_release :: "uuid \<Rightarrow> string \<Rightarrow> ('r, StartReleaseResponse) runtime_op"
  rt_stop_release :: "uuid \<Rightarrow> string \<Rightarrow> u32 \<Rightarrow> ('r, StopReleaseResponse) runtime_op"
  rt_drain_release :: "uuid \<Rightarrow> u32 \<Rightarrow> ('r, DrainReleaseResponse) runtime_op"
  rt_get_logs :: "uuid \<Rightarrow> u64 option \<Rightarrow> u64 \<Rightarrow> ('r, ReleaseLogsResponse) runtime_op"
  rt_get_stats :: "uuid \<Rightarrow> ('r, ReleaseStatsResponse) runtime_op"

record MockAgentRuntimeAdapter =
  created_releases :: "uuid \<rightharpoonup> CreateReleaseCommand"
  running_containers :: "uuid \<rightharpoonup> string"
  logs_store :: "uuid \<rightharpoonup> string list"

definition mock_runtime_new :: MockAgentRuntimeAdapter where
  "mock_runtime_new =
     \<lparr>created_releases = Map.empty, running_containers = Map.empty, logs_store = Map.empty\<rparr>"

definition mock_create_release ::
  "agent_lib \<Rightarrow> CreateReleaseCommand \<Rightarrow> (MockAgentRuntimeAdapter, CreateReleaseResponse) runtime_op" where
  "mock_create_release L cmd = (\<lambda>m.
     let container_id = ''mock-container-'' @ take 8 (lib_uuid_str L (cr_release_id cmd))
     in (Inr \<lparr>crr_release_id = cr_release_id cmd, crr_container_id = container_id,
              crr_assigned_port = 41000\<rparr>,
         m\<lparr>created_releases := (created_releases m)(cr_release_id cmd \<mapsto> cmd)\<rparr>))"

definition mock_start_release ::
  "uuid \<Rightarrow> string \<Rightarrow> (MockAgentRuntimeAdapter, StartReleaseResponse) runtime_op" where
  "mock_start_release release_id container_id = (\<lambda>m.
     let line = ''Container '' @ container_id @ '' started successfully on port 41000'';
         old = (case logs_store m release_id of Some l \<Rightarrow> l | None \<Rightarrow> [])
     in (Inr \<lparr>srr_started = True, srr_port = 41000\<rparr>,
         m\<lparr>running_containers := (running_containers m)(release_id \<mapsto> container_id),
           logs_store := (logs_store m)(release_id \<mapsto> old @ [line])\<rparr>))"

definition mock_stop_release ::
  "uuid \<Rightarrow> string \<Rightarrow> u32 \<Rightarrow> (MockAgentRuntimeAdapter, StopReleaseResponse) runtime_op" where
  "mock_stop_release release_id container_id grace_period_secs = (\<lambda>m.
     (Inr \<lparr>spr_stopped = True\<rparr>,
      m\<lparr>running_containers := (running_containers m)(release_id := None)\<rparr>))"

definition mock_drain_release ::
  "uuid \<Rightarrow> u32 \<Rightarrow> (MockAgentRuntimeAdapter, DrainReleaseResponse) runtime_op" where
  "mock_drain_release release_id drain_timeout_secs = ret \<lparr>drr_draining = True\<rparr>"

definition mock_get_logs ::
  "uuid \<Rightarrow> u64 option \<Rightarrow> u64 \<Rightarrow> (MockAgentRuntimeAdapter, ReleaseLogsResponse) runtime_op" where
  "mock_get_logs release_id since_seq limit = (\<lambda>m.
     let lines = (case logs_store m release_id of Some l \<Rightarrow> l | None \<Rightarrow> [''Release initialized''])
     in (Inr \<lparr>rlr_logs = take (unat limit) lines, rlr_next_seq = of_nat (length lines)\<rparr>, m))"

definition mock_get_stats :: "uuid \<Rightarrow> (MockAgentRuntimeAdapter, ReleaseStatsResponse) runtime_op" where
  "mock_get_stats release_id =
     ret \<lparr>rsr_cpu_millicores = 120, rsr_memory_bytes = 64 * 1024 * 1024, rsr_uptime_secs = 42\<rparr>"

definition mock_runtime :: "agent_lib \<Rightarrow> MockAgentRuntimeAdapter AgentRuntimeAdapter" where
  "mock_runtime L =
     \<lparr>rt_create_release = mock_create_release L, rt_start_release = mock_start_release,
      rt_stop_release = mock_stop_release, rt_drain_release = mock_drain_release,
      rt_get_logs = mock_get_logs, rt_get_stats = mock_get_stats\<rparr>"

section \<open>The server\<close>

record 'r AgentServer =
  as_node_id :: uuid
  as_credentials :: NodeCredentials
  as_validator :: AgentProtocolValidator
  as_runtime :: 'r
  as_is_draining :: bool
  as_start_time :: int

type_synonym ('r, 'a) server_op = "('r AgentServer, AgentProtocolError, 'a) io"

definition new_server :: "uuid \<Rightarrow> NodeCredentials \<Rightarrow> 'r \<Rightarrow> int \<Rightarrow> 'r AgentServer" where
  "new_server node_id credentials runtime start =
     \<lparr>as_node_id = node_id, as_credentials = credentials,
      as_validator = register_credentials credentials (new_validator (300 * 1000000000)),
      as_runtime = runtime, as_is_draining = False, as_start_time = start\<rparr>"

definition set_draining :: "bool \<Rightarrow> 'r AgentServer \<Rightarrow> 'r AgentServer" where
  "set_draining draining s = s\<lparr>as_is_draining := draining\<rparr>"

text \<open>A call of the runtime, with its answer wrapped in a response.\<close>

definition call_runtime :: "('a \<Rightarrow> AgentResponse) \<Rightarrow> ('r, 'a) runtime_op \<Rightarrow> ('r, AgentResponse) server_op" where
  "call_runtime wrap m = (\<lambda>s.
     case m (as_runtime s) of
       (Inl e, r) \<Rightarrow> (Inl e, s\<lparr>as_runtime := r\<rparr>)
     | (Inr a, r) \<Rightarrow> (Inr (wrap a), s\<lparr>as_runtime := r\<rparr>))"

definition is_create_release :: "AgentCommand \<Rightarrow> bool" where
  "is_create_release command = (case command of CreateRelease _ \<Rightarrow> True | _ \<Rightarrow> False)"

definition health_of :: "int \<Rightarrow> 'r AgentServer \<Rightarrow> HealthResponse" where
  "health_of now_inst s =
     \<lparr>hr_healthy = (\<not> as_is_draining s), hr_version = AGENT_PROTOCOL_VERSION,
      hr_uptime_secs = as_secs (duration_since now_inst (as_start_time s))\<rparr>"

definition dispatch :: "'r AgentRuntimeAdapter \<Rightarrow> int \<Rightarrow> AgentCommand \<Rightarrow> ('r, AgentResponse) server_op" where
  "dispatch R now_inst command =
     (case command of
        CreateRelease cmd \<Rightarrow> call_runtime CreateReleaseR (rt_create_release R cmd)
      | StartRelease release_id container_id \<Rightarrow>
          call_runtime StartReleaseR (rt_start_release R release_id container_id)
      | StopRelease release_id container_id grace \<Rightarrow>
          call_runtime StopReleaseR (rt_stop_release R release_id container_id grace)
      | DrainRelease release_id drain_timeout \<Rightarrow>
          call_runtime DrainReleaseR (rt_drain_release R release_id drain_timeout)
      | ReleaseLogs release_id since_seq limit \<Rightarrow>
          call_runtime ReleaseLogsR (rt_get_logs R release_id since_seq limit)
      | ReleaseStats release_id \<Rightarrow> call_runtime ReleaseStatsR (rt_get_stats R release_id)
      | HealthCommand \<Rightarrow> gets (\<lambda>s. HealthR (health_of now_inst s))
      | RegisterNode _ \<Rightarrow> fail (ForbiddenCommand ''RegisterNode must be handled by scheduler'')
      | Heartbeat _ \<Rightarrow> fail (ForbiddenCommand ''Heartbeat must be handled by scheduler''))"

definition execute_command_direct ::
  "'r AgentRuntimeAdapter \<Rightarrow> int \<Rightarrow> AgentCommand \<Rightarrow> ('r, AgentResponse) server_op" where
  "execute_command_direct R now_inst command =
     and_then (gets as_is_draining) (\<lambda>draining.
     if draining \<and> is_create_release command
     then fail (ForbiddenCommand ''Node is currently in draining mode; cannot accept new releases'')
     else dispatch R now_inst command)"

definition run_validator :: "'a validator_op \<Rightarrow> ('r, 'a) server_op" where
  "run_validator m = (\<lambda>s. case m (as_validator s) of (r, v) \<Rightarrow> (r, s\<lparr>as_validator := v\<rparr>))"

text \<open>The readings of the clocks: the wall clock and the monotonic clock of the validation, and the
  monotonic clock of the execution.\<close>

record clocks =
  ck_now :: timestamp
  ck_inst :: int
  ck_exec :: int

definition handle_envelope ::
  "agent_lib \<Rightarrow> 'r AgentRuntimeAdapter \<Rightarrow> clocks \<Rightarrow> AgentEnvelope \<Rightarrow> ('r, AgentResponse) server_op" where
  "handle_envelope L R ck envelope =
     and_then (run_validator (validate_and_unpack L (ck_now ck) (ck_inst ck) envelope)) (\<lambda>command.
     execute_command_direct R (ck_exec ck) command)"

text \<open>\<^verbatim>\<open>handle_agent_rpc\<close> and \<^verbatim>\<open>handle_health\<close>: the status code and the body of the HTTP response.  A
  body is the value that is serialised, an error object holds its text.\<close>

datatype rpc_body = ResponseBody AgentResponse | ErrorBody string | HealthBody HealthResponse

definition handle_agent_rpc ::
  "agent_lib \<Rightarrow> 'r AgentRuntimeAdapter \<Rightarrow> clocks \<Rightarrow> AgentEnvelope \<Rightarrow> 'r AgentServer \<Rightarrow>
   (u16 \<times> rpc_body) \<times> 'r AgentServer" where
  "handle_agent_rpc L R ck envelope s =
     (case handle_envelope L R ck envelope s of
        (Inr res, s') \<Rightarrow> ((200, ResponseBody res), s')
      | (Inl err, s') \<Rightarrow>
          if err = InvalidSignature then ((401, ErrorBody ''InvalidSignature''), s')
          else ((400, ErrorBody (AgentProtocolError_fmt L err)), s'))"

definition handle_health :: "int \<Rightarrow> 'r AgentServer \<Rightarrow> u16 \<times> rpc_body" where
  "handle_health now_inst s = (200, HealthBody (health_of now_inst s))"

section \<open>The client\<close>

datatype AgentClientError =
    Http string
  | Protocol AgentProtocolError
  | RemoteRejected u16 string
  | Deserialization string

fun AgentClientError_fmt :: "agent_lib \<Rightarrow> AgentClientError \<Rightarrow> string" where
  "AgentClientError_fmt L (Http e) = ''HTTP transport error: '' @ e"
| "AgentClientError_fmt L (Protocol e) = ''Agent protocol error: '' @ AgentProtocolError_fmt L e"
| "AgentClientError_fmt L (RemoteRejected status message) =
     ''Remote agent rejected request with status '' @ show_nat (unat status) @ '': '' @ message"
| "AgentClientError_fmt L (Deserialization msg) = ''Failed to parse agent response: '' @ msg"

record AgentClient =
  ac_node_id :: uuid
  ac_endpoint :: string
  ac_secret_key :: string

definition new_client :: "uuid \<Rightarrow> string \<Rightarrow> string \<Rightarrow> AgentClient" where
  "new_client node_id endpoint secret_key =
     \<lparr>ac_node_id = node_id, ac_endpoint = trim_end_matches CHR ''/'' endpoint,
      ac_secret_key = secret_key\<rparr>"

text \<open>The HTTP client and the parser of responses are parameters: \<open>http_post\<close> sends an envelope to a
  URL in some state of the world and gives a transport error or a status with the text of the body
  (\<open>None\<close> when the body cannot be read).\<close>

record 's http_client =
  http_post :: "string \<Rightarrow> AgentEnvelope \<Rightarrow> ('s, string, u16 \<times> string option) io"
  http_parse :: "string option \<Rightarrow> string + AgentResponse"

definition is_success :: "u16 \<Rightarrow> bool" where
  "is_success status \<longleftrightarrow> 200 \<le> status \<and> status < 300"

definition execute_command :: "agent_lib \<Rightarrow> 's http_client \<Rightarrow> AgentClient \<Rightarrow> uuid \<Rightarrow> timestamp \<Rightarrow>
   AgentCommand \<Rightarrow> ('s, AgentClientError, AgentResponse) io" where
  "execute_command L H c operation_id now command =
     (case new_signed L AGENT_PROTOCOL_VERSION operation_id (ac_node_id c) now command
         (ac_secret_key c) of
        Inl e \<Rightarrow> fail (Protocol e)
      | Inr envelope \<Rightarrow>
          (\<lambda>s. case http_post H (ac_endpoint c @ ''/agent/rpc'') envelope s of
             (Inl e, s') \<Rightarrow> (Inl (Http e), s')
           | (Inr (status, body), s') \<Rightarrow>
               if \<not> is_success status
               then (Inl (RemoteRejected status (case body of Some t \<Rightarrow> t | None \<Rightarrow> [])), s')
               else (case http_parse H body of
                   Inl e \<Rightarrow> (Inl (Deserialization e), s')
                 | Inr r \<Rightarrow> (Inr r, s'))))"

end
