(* ===== verification/Agent_Correct.thy ===== *)
theory Agent_Correct
  imports Agent_Server
begin

text \<open>
  The correctness of the agent protocol: what an accepted envelope guarantees, that an operation is
  executed at most once within the window of the validator, that a signed command reaches the runtime
  and its answer the client, and that revocation and draining hold.  Two findings show where a replay
  and a system path get through.
\<close>

section \<open>Validation\<close>

lemma validate_InrE:
  assumes "validate_and_unpack L now inst e v = (Inr c, v')"
  shows "check_envelope L now e v = Inr ()"
    and "retain_ops inst (max_skew v * 2) (processed_operations v) (ev_operation_id e) = None"
    and "lib_from_json L (ev_payload e) = Inr c" and "inspect_safety c = Inr ()"
    and "v' = v\<lparr>processed_operations :=
      (retain_ops inst (max_skew v * 2) (processed_operations v))(ev_operation_id e \<mapsto> inst)\<rparr>"
  using assms
  by (auto simp: validate_and_unpack_def check_replay_def Let_def io_simps
      split: sum.splits if_splits option.splits)

text \<open>A run of the validator changes only its record of operations: it drops the ones that are too
  old and may add the operation of the envelope.\<close>

lemma validate_state:
  assumes "validate_and_unpack L now inst e v = (r, v')"
  shows "\<exists>ops. v' = v\<lparr>processed_operations := ops\<rparr> \<and>
    (ops = processed_operations v
     \<or> ops = retain_ops inst (max_skew v * 2) (processed_operations v)
     \<or> ops = (retain_ops inst (max_skew v * 2) (processed_operations v))(ev_operation_id e \<mapsto> inst)
       \<and> retain_ops inst (max_skew v * 2) (processed_operations v) (ev_operation_id e) = None)"
proof -
  have "v' = v \<or> v' = snd (check_replay inst (ev_operation_id e) v)"
    using assms by (auto simp: validate_and_unpack_def io_simps split: prod.splits sum.splits)
  then show ?thesis
  proof
    assume "v' = v"
    then show ?thesis by (intro exI [of _ "processed_operations v"]) simp
  next
    assume "v' = snd (check_replay inst (ev_operation_id e) v)"
    then show ?thesis by (auto simp: check_replay_def Let_def)
  qed
qed

definition signed_by :: "agent_lib \<Rightarrow> AgentEnvelope \<Rightarrow> NodeCredentials \<Rightarrow> bool" where
  "signed_by L e creds \<longleftrightarrow>
     compute_signature L (ev_version e) (ev_operation_id e) (ev_node_id e) (ev_timestamp e)
       (ev_payload e) (nc_secret_key creds) = Inr (ev_signature e)"

definition ct_eq_law :: "agent_lib \<Rightarrow> bool" where
  "ct_eq_law L \<longleftrightarrow> (\<forall>a b. length a = length b \<longrightarrow> lib_ct_eq L a b = (a = b))"

definition safe_image_path :: "string \<Rightarrow> bool" where
  "safe_image_path p \<longleftrightarrow>
     ParentDir \<notin> set (path_components p)
     \<and> list_all (\<lambda>q. \<not> str_starts_with p q) [''/etc'', ''/sys'', ''/proc'', ''/dev'', ''/root'']"

lemma inspect_safety_ok:
  "inspect_safety c = Inr () \<longleftrightarrow>
     (case c of CreateRelease cmd \<Rightarrow> safe_image_path (cr_image_path cmd)
      | RegisterNode cmd \<Rightarrow> rn_hostname cmd \<noteq> [] \<and> rn_endpoint cmd \<noteq> []
      | _ \<Rightarrow> True)"
proof (cases c)
  case (CreateRelease cmd)
  have find: "List.find P xs = None \<longleftrightarrow> list_all (\<lambda>q. \<not> P q) xs" for P and xs :: "string list"
    by (induction xs) simp_all
  show ?thesis
    unfolding CreateRelease inspect_safety_def safe_image_path_def forbidden_prefixes_def [symmetric]
      find [symmetric] AgentCommand.case
    by (simp split: option.splits)
qed (simp_all add: inspect_safety_def)

text \<open>C16. An agent acts only on genuine envelopes: an accepted envelope has the protocol version, a
  payload within the limit and a time stamp within the skew of the clock, comes from a registered node
  that is not revoked, carries the signature of that node's key over all its fields, and holds the
  command that is returned, whose image path, for a new release, has no parent component and no
  forbidden prefix.\<close>

theorem accepted_envelope_sound:
  assumes "ct_eq_law L" and "validate_and_unpack L now inst e v = (Inr c, v')"
  shows "ev_version e = ''v1'' \<and> length (ev_payload e) \<le> 1048576
    \<and> \<bar>whole_seconds (now - ev_timestamp e)\<bar> \<le> as_i64 (as_secs (max_skew v))
    \<and> ev_node_id e \<notin> set (revoked_nodes v)
    \<and> (\<exists>creds. credentials_store v (ev_node_id e) = Some creds \<and> signed_by L e creds)
    \<and> lib_from_json L (ev_payload e) = Inr c
    \<and> (\<forall>cmd. c = CreateRelease cmd \<longrightarrow> safe_image_path (cr_image_path cmd))"
proof -
  note ok = validate_InrE [OF assms(2)]
  from ok(4) have "\<forall>cmd. c = CreateRelease cmd \<longrightarrow> safe_image_path (cr_image_path cmd)"
    by (auto simp: inspect_safety_ok)
  moreover from ok(1) have "ev_version e = ''v1'' \<and> length (ev_payload e) \<le> 1048576
      \<and> \<bar>whole_seconds (now - ev_timestamp e)\<bar> \<le> as_i64 (as_secs (max_skew v))
      \<and> ev_node_id e \<notin> set (revoked_nodes v)"
    by (auto simp: check_envelope_def AGENT_PROTOCOL_VERSION_def MAX_PAYLOAD_SIZE_BYTES_def Let_def
        split: if_splits)
  moreover from ok(1) assms(1)
  have "\<exists>creds. credentials_store v (ev_node_id e) = Some creds \<and> signed_by L e creds"
    by (auto simp: check_envelope_def signed_by_def ct_eq_law_def Let_def
        split: if_splits option.splits sum.splits)
  ultimately show ?thesis using ok(3) by simp
qed

section \<open>At most once\<close>

text \<open>The envelopes an agent receives, each with the readings of the clocks at its validation.\<close>

fun validate_all :: "agent_lib \<Rightarrow> (timestamp \<times> int \<times> AgentEnvelope) list \<Rightarrow> AgentProtocolValidator \<Rightarrow>
    AgentProtocolValidator" where
  "validate_all L [] v = v"
| "validate_all L ((now, inst, e) # es) v =
     validate_all L es (snd (validate_and_unpack L now inst e v))"

lemma retain_ops_Some:
  "retain_ops inst limit ops i = Some t \<longleftrightarrow> ops i = Some t \<and> duration_since inst t < limit"
  by (auto simp: retain_ops_def split: option.splits if_splits)

lemma validate_remembers:
  assumes "processed_operations v i = Some t" and "duration_since inst t < max_skew v * 2"
  shows "processed_operations (snd (validate_and_unpack L now inst e v)) i = Some t"
    and "max_skew (snd (validate_and_unpack L now inst e v)) = max_skew v"
proof -
  obtain r v' where run: "validate_and_unpack L now inst e v = (r, v')" by fastforce
  have keep: "retain_ops inst (max_skew v * 2) (processed_operations v) i = Some t"
    using assms by (simp add: retain_ops_Some)
  from validate_state [OF run] keep assms(1)
  show "processed_operations (snd (validate_and_unpack L now inst e v)) i = Some t"
    and "max_skew (snd (validate_and_unpack L now inst e v)) = max_skew v"
    by (auto simp: run)
qed

lemma validate_all_remembers:
  assumes "processed_operations v i = Some t"
    and "\<forall>(now, inst, e)\<in>set es. duration_since inst t < max_skew v * 2"
  shows "processed_operations (validate_all L es v) i = Some t \<and> max_skew (validate_all L es v) = max_skew v"
  using assms
proof (induction es arbitrary: v)
  case (Cons x es)
  obtain now inst e where x: "x = (now, inst, e)" by (cases x)
  have d: "duration_since inst t < max_skew v * 2" using Cons.prems(2) x by auto
  from Cons.IH [of "snd (validate_and_unpack L now inst e v)"]
    validate_remembers [OF Cons.prems(1) d, of L now e] Cons.prems(2)
  show ?case by (auto simp: x)
qed simp

lemma replay_refused:
  assumes "processed_operations v (ev_operation_id e) = Some t"
    and "duration_since inst t < max_skew v * 2"
  shows "\<exists>err. fst (validate_and_unpack L now inst e v) = Inl err"
proof (cases "fst (validate_and_unpack L now inst e v)")
  case (Inr c)
  then have "validate_and_unpack L now inst e v = (Inr c, snd (validate_and_unpack L now inst e v))"
    by (metis prod.collapse)
  from validate_InrE(2) [OF this] assms show ?thesis by (simp add: retain_ops_def)
qed simp

text \<open>C17. An agent executes an operation at most once within its window: after an envelope is accepted
  at the instant \<open>t1\<close>, whatever other envelopes are validated in between, no envelope with the same
  operation identifier is accepted as long as less than twice the allowed skew has passed since \<open>t1\<close>.\<close>

theorem no_replay_within_window:
  assumes "validate_and_unpack L n1 t1 e1 v = (Inr c, v1)"
    and "\<forall>(now, inst, e)\<in>set es. inst \<le> t2"
    and "ev_operation_id e2 = ev_operation_id e1"
    and "t1 \<le> t2" and "t2 - t1 < 2 * int (max_skew v)"
  shows "\<exists>err. fst (validate_and_unpack L n2 t2 e2 (validate_all L es v1)) = Inl err"
proof -
  have v1: "processed_operations v1 (ev_operation_id e1) = Some t1" "max_skew v1 = max_skew v"
    using validate_InrE(5) [OF assms(1)] by simp_all
  have d: "duration_since inst t1 < max_skew v1 * 2" if "inst \<le> t2" for inst
    using that assms(4,5) v1(2) by (simp add: duration_since_def)
  have "\<forall>(now, inst, e)\<in>set es. duration_since inst t1 < max_skew v1 * 2"
    using assms(2) d by fastforce
  from validate_all_remembers [OF v1(1) this, of L] show ?thesis
    using d [of t2] assms(3) by (intro replay_refused) auto
qed

section \<open>From the client to the runtime and back\<close>

lemma execute_ignores_validator:
  "execute_command_direct R t c (s\<lparr>as_validator := v\<rparr>) =
     apsnd (\<lambda>s. s\<lparr>as_validator := v\<rparr>) (execute_command_direct R t c s)"
  by (cases c)
    (simp_all add: execute_command_direct_def dispatch_def call_runtime_def health_of_def io_simps
      split: prod.splits sum.splits)

text \<open>An HTTP client whose requests reach the server of a node, with \<open>enc\<close> the serialisation of the
  bodies.\<close>

definition reaches :: "agent_lib \<Rightarrow> 'r AgentRuntimeAdapter \<Rightarrow> clocks \<Rightarrow> (rpc_body \<Rightarrow> string) \<Rightarrow> string \<Rightarrow>
    'r AgentServer http_client \<Rightarrow> bool" where
  "reaches L R ck enc url H \<longleftrightarrow>
     (\<forall>e s. http_post H url e s =
        (case handle_agent_rpc L R ck e s of ((status, body), s') \<Rightarrow> (Inr (status, Some (enc body)), s')))"

definition json_law :: "agent_lib \<Rightarrow> bool" where
  "json_law L \<longleftrightarrow> (\<forall>c p. lib_to_json L c = Inr p \<longrightarrow> lib_from_json L p = Inr c)"

lemma new_signed_accepted:
  assumes "ct_eq_law L" and "json_law L"
    and "new_signed L AGENT_PROTOCOL_VERSION i n ts c key = Inr e"
    and "credentials_store v n = Some creds" and "nc_secret_key creds = key"
    and "n \<notin> set (revoked_nodes v)"
    and "\<bar>whole_seconds (now - ts)\<bar> \<le> as_i64 (as_secs (max_skew v))"
    and "retain_ops inst (max_skew v * 2) (processed_operations v) i = None" and "inspect_safety c = Inr ()"
  shows "\<exists>v'. validate_and_unpack L now inst e v = (Inr c, v')"
proof -
  from assms(3) obtain p sig where p: "lib_to_json L c = Inr p" "\<not> MAX_PAYLOAD_SIZE_BYTES < length p"
    and sig: "compute_signature L AGENT_PROTOCOL_VERSION i n ts p key = Inr sig"
    and e: "e = \<lparr>ev_version = AGENT_PROTOCOL_VERSION, ev_operation_id = i, ev_node_id = n,
      ev_timestamp = ts, ev_payload = p, ev_signature = sig\<rparr>"
    by (auto simp: new_signed_def split: sum.splits if_splits)
  have "check_envelope L now e v = Inr ()"
    using assms(1,4-7) p(2) sig by (simp add: check_envelope_def e ct_eq_law_def Let_def)
  moreover have "lib_from_json L (ev_payload e) = Inr c" using assms(2) p(1) by (simp add: json_law_def e)
  ultimately show ?thesis
    using assms(8,9) by (simp add: validate_and_unpack_def check_replay_def e Let_def io_simps)
qed

text \<open>C18. A command travels to the runtime and its answer travels back: when the client holds the key
  the server has registered for the node, the clocks differ by no more than the skew, the operation is
  new and the command is safe, then \<open>execute\<close> of the client returns the answer the runtime gives to
  exactly that command, and the runtime ends in the state that command leaves it in.\<close>

theorem client_server_roundtrip:
  assumes "ct_eq_law L" and "json_law L"
    and "reaches L R ck enc (ac_endpoint cl @ ''/agent/rpc'') H"
    and "new_signed L AGENT_PROTOCOL_VERSION i (ac_node_id cl) now c (ac_secret_key cl) = Inr e"
    and "credentials_store (as_validator s) (ac_node_id cl) = Some creds"
    and "nc_secret_key creds = ac_secret_key cl"
    and "ac_node_id cl \<notin> set (revoked_nodes (as_validator s))"
    and "\<bar>whole_seconds (ck_now ck - now)\<bar> \<le> as_i64 (as_secs (max_skew (as_validator s)))"
    and "processed_operations (as_validator s) i = None" and "inspect_safety c = Inr ()"
    and "execute_command_direct R (ck_exec ck) c s = (Inr res, s1)"
    and "http_parse H (Some (enc (ResponseBody res))) = Inr res"
  shows "\<exists>s'. execute_command L H cl i now c s = (Inr res, s') \<and> as_runtime s' = as_runtime s1"
proof -
  have "retain_ops (ck_inst ck) (max_skew (as_validator s) * 2) (processed_operations (as_validator s)) i = None"
    using assms(9) by (simp add: retain_ops_def)
  then obtain v' where "validate_and_unpack L (ck_now ck) (ck_inst ck) e (as_validator s) = (Inr c, v')"
    using new_signed_accepted [OF assms(1,2,4,5,6,7,8) _ assms(10)] by blast
  then have "handle_envelope L R ck e s = (Inr res, s1\<lparr>as_validator := v'\<rparr>)"
    by (simp add: handle_envelope_def run_validator_def io_simps execute_ignores_validator assms(11))
  then have "handle_agent_rpc L R ck e s = ((200, ResponseBody res), s1\<lparr>as_validator := v'\<rparr>)"
    by (simp add: handle_agent_rpc_def)
  with assms(3) have "execute_command L H cl i now c s = (Inr res, s1\<lparr>as_validator := v'\<rparr>)"
    by (simp add: execute_command_def assms(4,12) reaches_def is_success_def)
  then show ?thesis by simp
qed

section \<open>What does not reach the runtime\<close>

text \<open>A refused envelope leaves the runtime alone, and a draining node takes no new release:
  whenever the validator refuses an envelope the runtime is unchanged, and on a draining server an
  envelope with a command to create a release fails with the runtime unchanged, whatever the adapter
  does.\<close>

theorem refused_envelope_keeps_runtime:
  assumes "validate_and_unpack L (ck_now ck) (ck_inst ck) e (as_validator s) = (r, v')"
    and "(\<exists>err. r = Inl err) \<or> as_is_draining s \<and> r = Inr (CreateRelease cmd)"
  shows "(\<exists>err. fst (handle_envelope L R ck e s) = Inl err)
    \<and> as_runtime (snd (handle_envelope L R ck e s)) = as_runtime s"
  using assms
  by (auto simp: handle_envelope_def run_validator_def execute_command_direct_def
      is_create_release_def io_simps)

section \<open>Revocation\<close>

text \<open>The contract that the token manager of the control plane and the credential store of an agent
  share: revoking a node ends the use of its credentials, and an operation on one node does not touch
  another.\<close>

locale credential_book =
  fixes usable :: "'s \<Rightarrow> uuid \<Rightarrow> NodeCredentials option"
    and change :: "'c \<Rightarrow> 's \<Rightarrow> 's"
    and node_of :: "'c \<Rightarrow> uuid"
    and revoke :: "uuid \<Rightarrow> 's \<Rightarrow> 's"
  assumes revoked: "usable (revoke n s) n = None"
    and revoke_frame: "m \<noteq> n \<Longrightarrow> usable (revoke n s) m = usable s m"
    and change_frame: "m \<noteq> node_of c \<Longrightarrow> usable (change c s) m = usable s m"
begin

lemma changes_frame:
  "\<forall>c\<in>set cs. node_of c \<noteq> n \<Longrightarrow> usable (fold change cs s) n = usable s n"
proof (induction cs arbitrary: s)
  case (Cons c cs)
  then have "usable (fold change cs (change c s)) n = usable (change c s) n" by simp
  also have "\<dots> = usable s n" using Cons.prems by (intro change_frame) auto
  finally show ?case by simp
qed simp

lemma revoked_stays: "\<forall>c\<in>set cs. node_of c \<noteq> n \<Longrightarrow> usable (fold change cs (revoke n s)) n = None"
  by (simp add: changes_frame revoked)

end

text \<open>The operations of the token manager, with the random bytes they draw.\<close>

datatype token_change = Issue string uuid | Rotate string uuid

fun token_change_node :: "token_change \<Rightarrow> uuid" where
  "token_change_node (Issue b n) = n"
| "token_change_node (Rotate b n) = n"

fun apply_token_change :: "agent_lib \<Rightarrow> token_change \<Rightarrow> NodeTokenManager \<Rightarrow> NodeTokenManager" where
  "apply_token_change L (Issue b n) m = snd (issue_token L b n m)"
| "apply_token_change L (Rotate b n) m = snd (rotate_token L b n m)"

definition token_usable :: "NodeTokenManager \<Rightarrow> uuid \<Rightarrow> NodeCredentials option" where
  "token_usable m n = (case get_credentials n m of Inr c \<Rightarrow> Some c | Inl _ \<Rightarrow> None)"

definition validator_usable :: "AgentProtocolValidator \<Rightarrow> uuid \<Rightarrow> NodeCredentials option" where
  "validator_usable v n = (if n \<in> set (revoked_nodes v) then None else credentials_store v n)"

interpretation tokens: credential_book token_usable "apply_token_change L" token_change_node revoke_token
proof
  fix m n :: uuid and s :: NodeTokenManager and c :: token_change
  show "token_usable (revoke_token n s) n = None"
    by (auto simp: token_usable_def get_credentials_def revoke_token_def split: option.splits)
  show "m \<noteq> n \<Longrightarrow> token_usable (revoke_token n s) m = token_usable s m"
    by (auto simp: token_usable_def get_credentials_def revoke_token_def split: option.splits)
  show "m \<noteq> token_change_node c \<Longrightarrow> token_usable (apply_token_change L c s) m = token_usable s m"
    by (cases c) (auto simp: token_usable_def get_credentials_def issue_token_def rotate_token_def
        Let_def split: option.splits)
qed

interpretation agent_book: credential_book validator_usable register_credentials nc_node_id revoke_node
  by unfold_locales (auto simp: validator_usable_def revoke_node_def register_credentials_def)

lemma check_envelope_usable:
  "check_envelope L now e v = Inr () \<Longrightarrow> validator_usable v (ev_node_id e) \<noteq> None"
  by (auto simp: check_envelope_def validator_usable_def Let_def split: if_splits option.splits)

text \<open>Revocation cuts a node off on both sides: whatever is done to other nodes afterwards, the
  token manager of the control plane finds no credentials of a revoked node valid, and an agent's
  validator accepts no envelope of it; a rotation alone already invalidates the old credentials.\<close>

theorem revocation_cuts_off:
  assumes "\<forall>x\<in>set xs. token_change_node x \<noteq> n" and "nc_node_id creds = n"
    and "\<forall>x\<in>set ys. nc_node_id x \<noteq> ev_node_id e"
  shows "\<not> is_valid creds (fold (apply_token_change L) xs (revoke_token n m))
    \<and> (is_valid creds m \<longrightarrow> \<not> is_valid creds (snd (rotate_token L b n m)))
    \<and> (\<exists>err. fst (validate_and_unpack L now inst e
          (fold register_credentials ys (revoke_node (ev_node_id e) v))) = Inl err)"
proof (intro conjI impI)
  have "token_usable (fold (apply_token_change L) xs (revoke_token n m)) n = None"
    using assms(1) by (rule tokens.revoked_stays)
  then show "\<not> is_valid creds (fold (apply_token_change L) xs (revoke_token n m))"
    by (auto simp: is_valid_def assms(2) token_usable_def get_credentials_def
        split: option.splits if_splits)
  show "\<not> is_valid creds (snd (rotate_token L b n m))" if "is_valid creds m"
    using that by (auto simp: is_valid_def rotate_token_def assms(2) Let_def split: option.splits)
  let ?v = "fold register_credentials ys (revoke_node (ev_node_id e) v)"
  have "validator_usable ?v (ev_node_id e) = None" using assms(3) by (rule agent_book.revoked_stays)
  then have "check_envelope L now e ?v \<noteq> Inr ()" using check_envelope_usable by blast
  then show "\<exists>err. fst (validate_and_unpack L now inst e ?v) = Inl err"
    using validate_InrE(1) by (metis prod.collapse sum.exhaust)
qed

section \<open>The installed runtime\<close>

text \<open>What every adapter operation keeps, a server keeps over any series of envelopes.\<close>

locale runtime_invariant =
  fixes R :: "'r AgentRuntimeAdapter" and I :: "'r \<Rightarrow> bool"
  assumes create: "keeps I (rt_create_release R cmd)"
    and start: "keeps I (rt_start_release R i cid)"
    and stop: "keeps I (rt_stop_release R i cid g)"
    and drain: "keeps I (rt_drain_release R i t)"
    and logs: "keeps I (rt_get_logs R i q n)"
    and stats: "keeps I (rt_get_stats R i)"
begin

lemma call_runtime_keeps: "keeps I m \<Longrightarrow> keeps (\<lambda>s. I (as_runtime s)) (call_runtime f m)"
  unfolding keeps_def call_runtime_def
  by (auto split: prod.splits sum.splits)

lemma dispatch_keeps: "keeps (\<lambda>s. I (as_runtime s)) (dispatch R t c)"
  by (cases c) (simp_all add: dispatch_def call_runtime_keeps create start stop drain logs stats
      keeps_fail keeps_gets)

lemma handle_envelope_keeps: "keeps (\<lambda>s. I (as_runtime s)) (handle_envelope L R ck e)"
proof -
  have "keeps (\<lambda>s. I (as_runtime s)) (run_validator m)" for m :: "AgentCommand validator_op"
    by (auto simp: keeps_def run_validator_def split: prod.splits)
  then show ?thesis
    unfolding handle_envelope_def execute_command_direct_def
    by (intro keeps_and_then keeps_if keeps_gets keeps_fail dispatch_keeps)
qed

end

definition logged_runtime :: "MockAgentRuntimeAdapter \<Rightarrow> bool" where
  "logged_runtime m \<longleftrightarrow> dom (running_containers m) \<subseteq> dom (logs_store m)"

interpretation mock_agent: runtime_invariant "mock_runtime L" logged_runtime
  by unfold_locales
    (auto simp: mock_runtime_def keeps_def logged_runtime_def mock_create_release_def
      mock_start_release_def mock_stop_release_def mock_drain_release_def mock_get_logs_def
      mock_get_stats_def Let_def io_simps split: if_splits)

section \<open>Examples and findings\<close>

text \<open>A concrete library: the message is its own authentication code, and the commands that have a
  serialisation are the health command and the start of a release.\<close>

definition demo_lib :: agent_lib where
  "demo_lib =
     \<lparr>lib_key_ok = (\<lambda>k. True), lib_hmac = (\<lambda>k m. k @ m), lib_hex = (\<lambda>s. s), lib_ct_eq = (=),
      lib_rfc3339 = (\<lambda>t. Some (show_int t)), lib_uuid_bytes = (\<lambda>i. show_nat (unat i)),
      lib_uuid_str = (\<lambda>i. show_nat (unat i)),
      lib_to_json = (\<lambda>c. case c of HealthCommand \<Rightarrow> Inr ''health''
        | StartRelease i cid \<Rightarrow> if i = 5 \<and> cid = ''c5'' then Inr ''start'' else Inl ''unsupported''
        | _ \<Rightarrow> Inl ''unsupported''),
      lib_from_json = (\<lambda>s. if s = ''health'' then Inr HealthCommand
        else if s = ''start'' then Inr (StartRelease 5 ''c5'') else Inl ''unknown'')\<rparr>"

lemma demo_laws: "ct_eq_law demo_lib" "json_law demo_lib"
  by (auto simp: ct_eq_law_def json_law_def demo_lib_def split: AgentCommand.splits if_splits)

definition demo_creds :: NodeCredentials where
  "demo_creds = \<lparr>nc_node_id = 7, nc_secret_key = ''key'', nc_epoch = 1\<rparr>"

definition demo_server :: "MockAgentRuntimeAdapter AgentServer" where
  "demo_server = new_server 7 demo_creds mock_runtime_new 0"

definition demo_envelope :: "timestamp \<Rightarrow> AgentEnvelope" where
  "demo_envelope ts =
     \<lparr>ev_version = ''v1'', ev_operation_id = 9, ev_node_id = 7, ev_timestamp = ts,
      ev_payload = ''start'',
      ev_signature = ''key'' @ ''v1'' @ show_nat 9 @ show_nat 7 @ show_int ts @ ''start''\<rparr>"

lemma demo_signed:
  "new_signed demo_lib AGENT_PROTOCOL_VERSION 9 7 ts (StartRelease 5 ''c5'') ''key'' = Inr (demo_envelope ts)"
  by (simp add: new_signed_def demo_lib_def compute_signature_def demo_envelope_def
      AGENT_PROTOCOL_VERSION_def MAX_PAYLOAD_SIZE_BYTES_def)

lemma demo_accepts:
  assumes "\<bar>whole_seconds (now - ts)\<bar> \<le> 300"
    and "retain_ops inst (max_skew v * 2) (processed_operations v) 9 = None"
    and "max_skew v = 300 * 1000000000" and "credentials_store v 7 = Some demo_creds" and "revoked_nodes v = []"
  shows "\<exists>v'. validate_and_unpack demo_lib now inst (demo_envelope ts) v = (Inr (StartRelease 5 ''c5''), v')"
proof (rule new_signed_accepted [OF demo_laws demo_signed assms(4)])
  show "\<bar>whole_seconds (now - ts)\<bar> \<le> as_i64 (as_secs (max_skew v))"
    using assms(1,3) by (simp add: as_secs_def as_i64_def)
qed (use assms in \<open>simp_all add: demo_creds_def inspect_safety_def\<close>)

lemma demo_server_fields:
  "as_validator demo_server = \<lparr>max_skew = 300 * 1000000000, processed_operations = Map.empty,
     credentials_store = [7 \<mapsto> demo_creds], revoked_nodes = []\<rparr>"
  "as_is_draining demo_server = False" "as_runtime demo_server = mock_runtime_new"
  by (simp_all add: demo_server_def new_server_def register_credentials_def new_validator_def demo_creds_def)

text \<open>The record of operations forgets too early: an envelope with a time stamp that lies the
  full skew in the future is accepted twice by the same agent, the second time when twice the skew has
  passed on both clocks, because the operation is then pruned while the time stamp is still valid.\<close>

theorem replay_after_window:
  "\<exists>L v e n1 t1 n2 t2 c v1 v2. ct_eq_law L \<and> t1 \<le> t2 \<and> n2 - n1 = t2 - t1
    \<and> validate_and_unpack L n1 t1 e v = (Inr c, v1) \<and> validate_and_unpack L n2 t2 e v1 = (Inr c, v2)"
proof -
  let ?v = "as_validator demo_server" and ?e = "demo_envelope 300000000000"
  let ?c = "StartRelease 5 ''c5''"
  obtain v1 where 1: "validate_and_unpack demo_lib 0 0 ?e ?v = (Inr ?c, v1)"
    using demo_accepts [of 0 300000000000 0 ?v] by (auto simp: demo_server_fields whole_seconds_def retain_ops_def)
  then have v1: "processed_operations v1 = [9 \<mapsto> 0]" "max_skew v1 = 300 * 1000000000"
      "credentials_store v1 = [7 \<mapsto> demo_creds]" "revoked_nodes v1 = []"
    using validate_InrE(5) [OF 1]
    by (simp_all add: demo_server_fields retain_ops_def demo_envelope_def)
  have "\<exists>v2. validate_and_unpack demo_lib 600000000000 600000000000 ?e v1 = (Inr ?c, v2)"
    by (rule demo_accepts) (simp_all add: v1 retain_ops_def duration_since_def whole_seconds_def)
  then obtain v2 where 2: "validate_and_unpack demo_lib 600000000000 600000000000 ?e v1 = (Inr ?c, v2)"
    by blast
  have "(0 :: int) \<le> 600000000000" "(600000000000 :: int) - 0 = 600000000000 - 0" by simp_all
  with 1 2 demo_laws(1) show ?thesis by blast
qed

text \<open>The guard of the image path compares strings, not paths: an image path that begins with two
  separators passes the safety inspection although it has the same components as a path under
  \<^verbatim>\<open>/etc\<close>, which is refused.\<close>

theorem image_path_guard_bypassed:
  "\<exists>p q. path_components p = path_components q
     \<and> inspect_safety (CreateRelease (cmd\<lparr>cr_image_path := p\<rparr>)) = Inr ()
     \<and> inspect_safety (CreateRelease (cmd\<lparr>cr_image_path := q\<rparr>)) \<noteq> Inr ()"
proof -
  have "path_components ''//etc/passwd'' = path_components ''/etc/passwd''" by code_simp
  moreover have "safe_image_path ''//etc/passwd''" by code_simp
  moreover have "\<not> safe_image_path ''/etc/passwd''" by code_simp
  ultimately show ?thesis
    by (intro exI [of _ "''//etc/passwd''"] exI [of _ "''/etc/passwd''"]) (simp add: inspect_safety_ok)
qed

section \<open>Witnesses\<close>

lemma demo_first:
  obtains v1 where "validate_and_unpack demo_lib 0 0 (demo_envelope 0) (as_validator demo_server) =
    (Inr (StartRelease 5 ''c5''), v1)"
  using demo_accepts [of 0 0 0 "as_validator demo_server"]
  by (auto simp: demo_server_fields whole_seconds_def retain_ops_def)

theorem accepted_envelope_sound_witness:
  "\<exists>c v1 creds. validate_and_unpack demo_lib 0 0 (demo_envelope 0) (as_validator demo_server) = (Inr c, v1)
     \<and> credentials_store (as_validator demo_server) 7 = Some creds \<and> signed_by demo_lib (demo_envelope 0) creds"
proof -
  obtain v1 where run: "validate_and_unpack demo_lib 0 0 (demo_envelope 0) (as_validator demo_server) =
    (Inr (StartRelease 5 ''c5''), v1)" by (rule demo_first)
  with accepted_envelope_sound [OF demo_laws(1) run] show ?thesis by (auto simp: demo_envelope_def)
qed

theorem no_replay_within_window_witness:
  "\<exists>v1 err. snd (validate_and_unpack demo_lib 0 0 (demo_envelope 0) (as_validator demo_server)) = v1
     \<and> fst (validate_and_unpack demo_lib 10 10 (demo_envelope 0)
         (validate_all demo_lib [(5, 5, demo_envelope 1)] v1)) = Inl err"
proof -
  obtain v1 where run: "validate_and_unpack demo_lib 0 0 (demo_envelope 0) (as_validator demo_server) =
    (Inr (StartRelease 5 ''c5''), v1)" by (rule demo_first)
  have "\<exists>err. fst (validate_and_unpack demo_lib 10 10 (demo_envelope 0)
      (validate_all demo_lib [(5, 5, demo_envelope 1)] v1)) = Inl err"
    by (rule no_replay_within_window [OF run]) (simp_all add: demo_server_fields)
  with run show ?thesis by (simp del: validate_all.simps)
qed

definition demo_clocks :: clocks where
  "demo_clocks = \<lparr>ck_now = 0, ck_inst = 0, ck_exec = 0\<rparr>"

definition demo_client :: AgentClient where
  "demo_client = new_client 7 ''http://agent/'' ''key''"

definition demo_enc :: "rpc_body \<Rightarrow> string" where
  "demo_enc b = (if b = ResponseBody (StartReleaseR \<lparr>srr_started = True, srr_port = 41000\<rparr>)
     then ''started'' else ''other'')"

definition demo_http :: "MockAgentRuntimeAdapter AgentServer http_client" where
  "demo_http =
     \<lparr>http_post = (\<lambda>url e s.
        case handle_agent_rpc demo_lib (mock_runtime demo_lib) demo_clocks e s of
          ((status, body), s') \<Rightarrow> (Inr (status, Some (demo_enc body)), s')),
      http_parse = (\<lambda>b. if b = Some ''started''
        then Inr (StartReleaseR \<lparr>srr_started = True, srr_port = 41000\<rparr>) else Inl ''unknown'')\<rparr>"

theorem client_server_roundtrip_witness:
  "\<exists>s'. execute_command demo_lib demo_http demo_client 9 0 (StartRelease 5 ''c5'') demo_server =
      (Inr (StartReleaseR \<lparr>srr_started = True, srr_port = 41000\<rparr>), s')
     \<and> running_containers (as_runtime s') 5 = Some ''c5''"
proof -
  have cl: "ac_node_id demo_client = 7" "ac_secret_key demo_client = ''key''"
    by (simp_all add: demo_client_def new_client_def)
  have signed: "new_signed demo_lib AGENT_PROTOCOL_VERSION 9 (ac_node_id demo_client) 0
      (StartRelease 5 ''c5'') (ac_secret_key demo_client) = Inr (demo_envelope 0)"
    using demo_signed by (simp add: cl)
  have reach: "reaches demo_lib (mock_runtime demo_lib) demo_clocks demo_enc
      (ac_endpoint demo_client @ ''/agent/rpc'') demo_http"
    by (simp add: reaches_def demo_http_def)
  obtain s1 where exec: "execute_command_direct (mock_runtime demo_lib) (ck_exec demo_clocks)
      (StartRelease 5 ''c5'') demo_server = (Inr (StartReleaseR \<lparr>srr_started = True, srr_port = 41000\<rparr>), s1)"
    and s1: "running_containers (as_runtime s1) 5 = Some ''c5''"
    by (simp add: execute_command_direct_def dispatch_def call_runtime_def mock_runtime_def
        mock_start_release_def Let_def io_simps demo_server_fields)
  have parse: "http_parse demo_http (Some (demo_enc
      (ResponseBody (StartReleaseR \<lparr>srr_started = True, srr_port = 41000\<rparr>)))) =
      Inr (StartReleaseR \<lparr>srr_started = True, srr_port = 41000\<rparr>)"
    by (simp add: demo_http_def demo_enc_def)
  have cred: "credentials_store (as_validator demo_server) (ac_node_id demo_client) = Some demo_creds"
    "nc_secret_key demo_creds = ac_secret_key demo_client"
    "ac_node_id demo_client \<notin> set (revoked_nodes (as_validator demo_server))"
    "processed_operations (as_validator demo_server) 9 = None"
    by (simp_all add: demo_server_fields cl demo_creds_def)
  have skew: "\<bar>whole_seconds (ck_now demo_clocks - 0)\<bar> \<le> as_i64 (as_secs (max_skew (as_validator demo_server)))"
    by (simp add: demo_server_fields demo_clocks_def whole_seconds_def as_secs_def as_i64_def)
  have safe: "inspect_safety (StartRelease 5 ''c5'') = Inr ()" by (simp add: inspect_safety_def)
  from client_server_roundtrip [OF demo_laws reach signed cred(1-3) skew cred(4) safe exec parse] s1
  show ?thesis by metis
qed

theorem refused_envelope_keeps_runtime_witness:
  "as_runtime (snd (handle_envelope demo_lib (mock_runtime demo_lib) demo_clocks
      ((demo_envelope 0)\<lparr>ev_version := ''v2''\<rparr>) demo_server)) = mock_runtime_new"
proof -
  have "validate_and_unpack demo_lib (ck_now demo_clocks) (ck_inst demo_clocks)
      ((demo_envelope 0)\<lparr>ev_version := ''v2''\<rparr>) (as_validator demo_server) =
      (Inl (VersionMismatch ''v1'' ''v2''), as_validator demo_server)"
    by (simp add: validate_and_unpack_def check_envelope_def AGENT_PROTOCOL_VERSION_def io_simps)
  from refused_envelope_keeps_runtime [OF this] show ?thesis by (simp add: demo_server_fields)
qed

theorem revocation_cuts_off_witness:
  "\<not> is_valid demo_creds (fold (apply_token_change demo_lib) [Issue ''b'' 8]
      (revoke_token 7 [7 \<mapsto> (demo_creds, True)]))
   \<and> (\<exists>err. fst (validate_and_unpack demo_lib 0 0 (demo_envelope 0)
        (fold register_credentials [demo_creds\<lparr>nc_node_id := 8\<rparr>] (revoke_node 7 (as_validator demo_server)))) = Inl err)"
proof -
  have "ev_node_id (demo_envelope 0) = 7" "nc_node_id demo_creds = 7"
    by (simp_all add: demo_envelope_def demo_creds_def)
  with revocation_cuts_off [of "[Issue ''b'' 8]" 7 demo_creds "[demo_creds\<lparr>nc_node_id := 8\<rparr>]"
      "demo_envelope 0" demo_lib "[7 \<mapsto> (demo_creds, True)]" "''b''" 0 0 "as_validator demo_server"]
  show ?thesis by (simp del: fold_simps)
qed

text \<open>With the installed runtime every running container has a log, over any envelopes.\<close>

lemma mock_agent_logged:
  "logged_runtime (as_runtime s) \<Longrightarrow>
   logged_runtime (as_runtime (snd (handle_envelope L (mock_runtime L) ck e s)))"
  by (rule keeps_snd [OF mock_agent.handle_envelope_keeps])

end
