(* ===== verification/Hostname.thy ===== *)
theory Hostname
  imports Schema Strings
begin

text \<open>
  \<^verbatim>\<open>src/hostname.rs\<close>: the DNS label of a preview.  The loop over characters runs over bytes here:
  every byte of a character outside ASCII is not alphanumeric, and the flag turns a run of such
  bytes into one hyphen just as it does with characters.  SHA-256 in hexadecimal is the parameter
  \<open>sha256_hex\<close>.
\<close>

fun sanitize :: "bool \<Rightarrow> string \<Rightarrow> string" where
  "sanitize prev_hyphen [] = []"
| "sanitize prev_hyphen (ch # rest) =
     (if is_ascii_alphanumeric ch then to_ascii_lowercase ch # sanitize False rest
      else if \<not> prev_hyphen then CHR ''-'' # sanitize True rest
      else sanitize prev_hyphen rest)"

definition preview_label :: "(string \<Rightarrow> string) \<Rightarrow> string \<Rightarrow> u64 \<Rightarrow> error + string" where
  "preview_label sha256_hex project_slug pr_number =
     (let suffix = ''-pr-'' @ show_nat (unat pr_number);
          trimmed = trim_matches CHR ''-'' (sanitize False project_slug)
      in if trimmed = []
         then Inl (Message ''invalid project slug: slug cannot be empty after normalization'')
         else
         let max_label_len = 63
         in if length trimmed + length suffix \<le> max_label_len then Inr (trimmed @ suffix)
         else
         let hash_suffix = ''-'' @ take 6 (sha256_hex project_slug);
             overhead = length hash_suffix + length suffix
         in if max_label_len \<le> overhead
            then Inl (Message ''PR number or suffix is too large to fit in a 63-character DNS label'')
            else
            let allowed_slug_len = max_label_len - overhead;
                truncated = trim_end_matches CHR ''-'' (take (min allowed_slug_len (length trimmed)) trimmed)
            in Inr (truncated @ hash_suffix @ suffix))"

definition preview_hostname :: "(string \<Rightarrow> string) \<Rightarrow> string \<Rightarrow> u64 \<Rightarrow> error + string" where
  "preview_hostname sha256_hex project_slug pr_number =
     (case preview_label sha256_hex project_slug pr_number of
        Inl e \<Rightarrow> Inl e
      | Inr label \<Rightarrow> Inr (label @ ''.preview.local''))"

section \<open>Labels are DNS labels\<close>

definition dns_char :: "char \<Rightarrow> bool" where
  "dns_char c \<longleftrightarrow> is_ascii_lower c \<or> is_ascii_digit c \<or> c = CHR ''-''"

text \<open>A label of RFC 1035: at most 63 letters, digits and hyphens, with no hyphen at either end.\<close>

definition dns_label :: "string \<Rightarrow> bool" where
  "dns_label s \<longleftrightarrow>
     s \<noteq> [] \<and> length s \<le> 63 \<and> list_all dns_char s \<and> hd s \<noteq> CHR ''-'' \<and> last s \<noteq> CHR ''-''"

lemma dns_char_digit: "is_ascii_digit c \<Longrightarrow> dns_char c"
  by (simp add: dns_char_def)

lemma set_sanitize: "c \<in> set (sanitize b s) \<Longrightarrow> dns_char c"
  by (induction b s rule: sanitize.induct)
    (auto simp: dns_char_def dest: is_ascii_lower_to_ascii_lowercase split: if_splits)

lemma sanitize_only_hyphens:
  "set (sanitize b s) \<subseteq> {CHR ''-''} \<longleftrightarrow> (\<forall>c\<in>set s. \<not> is_ascii_alphanumeric c)"
proof -
  have "to_ascii_lowercase c \<noteq> CHR ''-''" if "is_ascii_alphanumeric c" for c
    using is_ascii_lower_to_ascii_lowercase [OF that]
    by (auto simp: is_ascii_lower_def is_ascii_digit_def)
  then show ?thesis by (induction b s rule: sanitize.induct) auto
qed

lemma trim_matches_Nil_iff: "trim_matches c s = [] \<longleftrightarrow> set s \<subseteq> {c}"
proof -
  have "trim_matches c s = [] \<longleftrightarrow> set (dropWhile (\<lambda>x. x = c) s) \<subseteq> {c}"
    by (simp add: trim_matches_def trim_end_Nil_iff trim_start_matches_def)
  also have "\<dots> \<longleftrightarrow> set s \<subseteq> {c}" by (induction s) auto
  finally show ?thesis .
qed

definition pr_suffix :: "u64 \<Rightarrow> string" where
  "pr_suffix n = ''-pr-'' @ show_nat (unat n)"

lemma pr_suffix_length: "length (pr_suffix n) \<le> 24"
proof -
  have "unat n < 2 ^ LENGTH(64)" by (rule unsigned_less)
  then have "unat n < 10 ^ 20" by simp
  then have "length (show_nat (unat n)) \<le> 20" by (rule length_show_nat) simp
  then show ?thesis by (simp add: pr_suffix_def)
qed

lemma pr_suffix_chars: "list_all dns_char (pr_suffix n)" "last (pr_suffix n) \<noteq> CHR ''-''"
proof -
  show "list_all dns_char (pr_suffix n)"
    using show_nat_digits [of _ "unat n"]
    by (auto simp: pr_suffix_def list_all_iff dns_char_def is_ascii_lower_def)
  have "last (pr_suffix n) \<in> set (show_nat (unat n))"
    using show_nat_not_Nil by (simp add: pr_suffix_def)
  then have "is_ascii_digit (last (pr_suffix n))" by (rule show_nat_digits)
  then show "last (pr_suffix n) \<noteq> CHR ''-''" by (auto simp: is_ascii_digit_def)
qed

text \<open>A label with a good beginning and the suffix of a pull request.\<close>

lemma dns_label_suffix:
  assumes "s \<noteq> []" and "hd s \<noteq> CHR ''-''" and "list_all dns_char s" and "length s + length (pr_suffix n) \<le> 63"
  shows "dns_label (s @ pr_suffix n)"
proof -
  have "pr_suffix n \<noteq> []" by (simp add: pr_suffix_def)
  with assms pr_suffix_chars [of n] show ?thesis by (simp add: dns_label_def)
qed

definition hex_digest_law :: "(string \<Rightarrow> string) \<Rightarrow> bool" where
  "hex_digest_law h \<longleftrightarrow> (\<forall>s. length (h s) = 64 \<and> list_all (\<lambda>c. is_ascii_lower c \<or> is_ascii_digit c) (h s))"

lemma truncated_label:
  assumes t: "t \<noteq> []" "hd t \<noteq> CHR ''-''" "list_all dns_char t" and "0 < k" and h: "hex_digest_law h"
    and len: "k + 7 + length (pr_suffix n) \<le> 63"
  shows "dns_label (trim_end_matches CHR ''-'' (take k t) @ (''-'' @ take 6 (h s)) @ pr_suffix n)"
proof -
  let ?u = "trim_end_matches CHR ''-'' (take k t)"
  have hd: "hd (take k t) = hd t" "take k t \<noteq> []" using t \<open>0 < k\<close> by (cases t; cases k; simp)+
  then have "\<not> set (take k t) \<subseteq> {CHR ''-''}" using t(2) by (metis hd_in_set singletonD subsetD)
  then have u: "?u \<noteq> []" by (simp add: trim_end_Nil_iff)
  have "length ?u \<le> k" using length_trim_end [of "CHR ''-''" "take k t"] by (simp add: min_def split: if_splits)
  moreover have "list_all dns_char ?u"
    using t(3) trim_end_prefix [of "take k t" "CHR ''-''"]
    by (metis append_take_drop_id list_all_append)
  moreover have "hd ?u \<noteq> CHR ''-''" using trim_end_not_Nil_hd [OF u] hd t(2) by simp
  moreover have "list_all dns_char (take 6 (h s))" "length (take 6 (h s)) \<le> 6"
    using h in_set_takeD [of _ 6 "h s"] by (auto simp: hex_digest_law_def list_all_iff dns_char_def)
  ultimately have "dns_label ((?u @ ''-'' @ take 6 (h s)) @ pr_suffix n)"
    using u len by (intro dns_label_suffix) (auto simp: dns_char_def)
  then show ?thesis by simp
qed

text \<open>C25. Every preview gets a valid DNS label: the label of a slug with an ASCII letter or digit is at
  most 63 characters of lower-case letters, digits and hyphens and neither begins nor ends with a
  hyphen, for every pull request number; a slug without one is refused.\<close>

theorem preview_label_is_dns_label:
  assumes "hex_digest_law h"
  shows "if \<exists>c\<in>set slug. is_ascii_alphanumeric c
    then \<exists>label. preview_label h slug n = Inr label \<and> dns_label label
    else \<exists>e. preview_label h slug n = Inl e"
proof -
  let ?t = "trim_matches CHR ''-'' (sanitize False slug)"
  have nil: "?t = [] \<longleftrightarrow> (\<forall>c\<in>set slug. \<not> is_ascii_alphanumeric c)"
    by (simp only: trim_matches_Nil_iff sanitize_only_hyphens)
  show ?thesis
  proof (cases "?t = []")
    case True
    with nil show ?thesis by (simp add: preview_label_def)
  next
    case False
    have hd: "hd ?t \<noteq> CHR ''-''" using False by (rule hd_trim_matches)
    have chars: "list_all dns_char ?t"
      using set_trim_matches set_sanitize by (fastforce simp: list_all_iff)
    have label: "\<exists>label. preview_label h slug n = Inr label \<and> dns_label label"
    proof (cases "length ?t + length (pr_suffix n) \<le> 63")
      case True
      with False show ?thesis using dns_label_suffix [OF False hd chars True]
        by (simp add: preview_label_def pr_suffix_def)
    next
      case long: False
      let ?k = "min (63 - (7 + length (pr_suffix n))) (length ?t)"
      have six: "length (take 6 (h slug)) = 6" using assms by (simp add: hex_digest_law_def)
      have k: "0 < ?k" "?k + 7 + length (pr_suffix n) \<le> 63"
        using pr_suffix_length [of n] False by auto
      show ?thesis
        using truncated_label [OF False hd chars k(1) assms k(2), of slug] False long six
          pr_suffix_length [of n]
        by (simp add: preview_label_def pr_suffix_def Let_def)
    qed
    with False nil show ?thesis by auto
  qed
qed

theorem preview_label_is_dns_label_witness:
  "\<exists>label. preview_label (\<lambda>s. replicate 64 CHR ''0'') ''My App'' 7 = Inr label \<and> dns_label label"
proof -
  have "hex_digest_law (\<lambda>s. replicate 64 CHR ''0'')"
    by (simp add: hex_digest_law_def list_all_iff is_ascii_digit_def)
  moreover have "\<exists>c\<in>set ''My App''. is_ascii_alphanumeric c" by code_simp
  ultimately show ?thesis
    using preview_label_is_dns_label [of "\<lambda>s. replicate 64 CHR ''0''" "''My App''" 7] by metis
qed

text \<open>Two projects whose names differ in case or in punctuation share the labels of their previews.\<close>

lemma preview_label_collision:
  "preview_label h ''shop.eu'' n = preview_label h ''Shop-EU'' n"
proof -
  have "sanitize False ''shop.eu'' = sanitize False ''Shop-EU''" by code_simp
  moreover have "length (trim_matches CHR ''-'' (sanitize False ''shop.eu'')) = 7" by code_simp
  moreover have "length (''-pr-'' @ show_nat (unat n)) \<le> 24"
    using pr_suffix_length [of n] by (simp add: pr_suffix_def)
  ultimately show ?thesis by (simp add: preview_label_def Let_def)
qed

end
