(* ===== verification/Providers.thy ===== *)
theory Providers
  imports Schema Strings
begin

text \<open>
  \<^verbatim>\<open>src/providers/mod.rs\<close> and the webhook parsers of \<^verbatim>\<open>src/providers/github.rs\<close> and
  \<^verbatim>\<open>src/providers/gitlab.rs\<close>.  A JSON value is the datatype \<open>json\<close> of
  \<open>Schema\<close>; the parser of \<^verbatim>\<open>serde_json\<close> and \<^verbatim>\<open>Url::parse\<close> are parameters.
  A URL is its text.  The \<^verbatim>\<open>unwrap\<close> of an identifier that is a number but no 64-bit integer panics.
\<close>

fun Provider_fmt :: "Provider \<Rightarrow> string" where
  "Provider_fmt GitHub = ''github''"
| "Provider_fmt GitLab = ''gitlab''"

definition Provider_from_str :: "string \<Rightarrow> error + Provider" where
  "Provider_from_str s =
     (let other = to_lowercase s
      in if other = ''github'' then Inr GitHub
         else if other = ''gitlab'' then Inr GitLab
         else Inl (Message (''unknown provider: '' @ other)))"

record RepositoryRef =
  rr_provider :: Provider
  rr_external_id :: string
  rr_clone_url :: string
  rr_default_branch :: string

record SourceEvent =
  sv_delivery_id :: string
  sv_repository :: RepositoryRef
  sv_kind :: SourceEventKind
  sv_commit_sha :: string
  sv_branch :: "string option"
  sv_pull_request :: "PullRequestRef option"

section \<open>JSON values\<close>

text \<open>\<^verbatim>\<open>Value::get\<close>, \<^verbatim>\<open>as_str\<close>, \<^verbatim>\<open>as_u64\<close>, \<^verbatim>\<open>as_i64\<close>, \<^verbatim>\<open>is_number\<close>.\<close>

definition j_get :: "string \<Rightarrow> json \<Rightarrow> json option" where
  "j_get k v = (case v of JObject m \<Rightarrow> map_of m k | _ \<Rightarrow> None)"

definition j_str :: "json \<Rightarrow> string option" where
  "j_str v = (case v of JString s \<Rightarrow> Some s | _ \<Rightarrow> None)"

definition j_u64 :: "json \<Rightarrow> u64 option" where
  "j_u64 v = (case v of JInt i \<Rightarrow> if 0 \<le> i \<and> i < 2 ^ 64 then Some (as_u64 i) else None | _ \<Rightarrow> None)"

definition j_i64 :: "json \<Rightarrow> int option" where
  "j_i64 v = (case v of JInt i \<Rightarrow> if i64_range i then Some i else None | _ \<Rightarrow> None)"

definition j_is_number :: "json \<Rightarrow> bool" where
  "j_is_number v = (case v of JInt _ \<Rightarrow> True | JFloat _ \<Rightarrow> True | _ \<Rightarrow> False)"

definition ok_or :: "'a option \<Rightarrow> 'e \<Rightarrow> 'e + 'a" where
  "ok_or x e = (case x of Some a \<Rightarrow> Inr a | None \<Rightarrow> Inl e)"

definition and_ok :: "'e + 'a \<Rightarrow> ('a \<Rightarrow> 'e + 'b) \<Rightarrow> 'e + 'b" where
  "and_ok r f = (case r of Inl e \<Rightarrow> Inl e | Inr a \<Rightarrow> f a)"

definition or_else :: "'a option \<Rightarrow> 'a option \<Rightarrow> 'a option" where
  "or_else x y = (case x of Some a \<Rightarrow> Some a | None \<Rightarrow> y)"

definition unwrap_or :: "'a option \<Rightarrow> 'a \<Rightarrow> 'a" where
  "unwrap_or x d = (case x of Some a \<Rightarrow> a | None \<Rightarrow> d)"

definition strip_prefix :: "string \<Rightarrow> string \<Rightarrow> string option" where
  "strip_prefix s p = (if str_starts_with s p then Some (drop (length p) s) else None)"

section \<open>Webhook payloads\<close>

record json_lib =
  jl_from_slice :: "string \<Rightarrow> error + json"
  jl_url_parse :: "string \<Rightarrow> error + string"

definition external_id_of :: "string \<Rightarrow> json \<Rightarrow> error + string" where
  "external_id_of what v =
     (if j_is_number v then
        (case j_i64 v of Some i \<Rightarrow> Inr (show_int i) | None \<Rightarrow> Inl (Panicked ''as_i64().unwrap()''))
      else case j_str v of Some s \<Rightarrow> Inr s | None \<Rightarrow> Inl (Message (''invalid '' @ what @ '' id'')))"

definition branch_of_ref :: "string \<Rightarrow> string" where
  "branch_of_ref ref = unwrap_or (strip_prefix ref ''refs/heads/'') ref"

definition all_zero :: "string \<Rightarrow> bool" where
  "all_zero s = list_all (\<lambda>c. c = CHR ''0'') s"

definition github_repository :: "json_lib \<Rightarrow> json \<Rightarrow> error + RepositoryRef" where
  "github_repository J json =
     and_ok (ok_or (j_get ''repository'' json) (Message ''missing repository object'')) (\<lambda>repo_val.
     and_ok (ok_or (j_get ''id'' repo_val) (Message ''missing repository id'')) (\<lambda>repo_id.
     and_ok (external_id_of ''repository'' repo_id) (\<lambda>external_id.
     and_ok (ok_or (Option.bind (j_get ''clone_url'' repo_val) j_str) (Message ''missing clone_url''))
       (\<lambda>clone_url_str.
     and_ok (jl_url_parse J clone_url_str) (\<lambda>clone_url.
     Inr \<lparr>rr_provider = GitHub, rr_external_id = external_id, rr_clone_url = clone_url,
          rr_default_branch =
            unwrap_or (Option.bind (j_get ''default_branch'' repo_val) j_str) ''main''\<rparr>)))))"

definition github_action :: "string \<Rightarrow> error + SourceEventKind \<times> PullRequestAction" where
  "github_action s =
     (if s = ''opened'' then Inr (PullRequestOpened, PrOpened)
      else if s = ''synchronize'' then Inr (PullRequestUpdated, PrSynchronize)
      else if s = ''closed'' then Inr (PullRequestClosed, PrClosed)
      else if s = ''reopened'' then Inr (PullRequestOpened, PrReopened)
      else Inl (Message (''unsupported pull_request action: '' @ s)))"

definition github_push :: "string \<Rightarrow> RepositoryRef \<Rightarrow> json \<Rightarrow> error + SourceEvent" where
  "github_push delivery_id repository json =
     and_ok (ok_or (Option.bind (j_get ''after'' json) j_str)
       (Message ''missing after/commit_sha in push event'')) (\<lambda>after.
     if all_zero after then Inl (Message ''branch deletion push ignored'')
     else
     and_ok (ok_or (Option.bind (j_get ''ref'' json) j_str) (Message ''missing ref in push event''))
       (\<lambda>ref_str.
     Inr \<lparr>sv_delivery_id = delivery_id, sv_repository = repository, sv_kind = Push,
          sv_commit_sha = after, sv_branch = Some (branch_of_ref ref_str),
          sv_pull_request = None\<rparr>))"

definition github_pull_request :: "string \<Rightarrow> RepositoryRef \<Rightarrow> json \<Rightarrow> error + SourceEvent" where
  "github_pull_request delivery_id repository json =
     and_ok (ok_or (Option.bind (j_get ''action'' json) j_str)
       (Message ''missing action in pull_request event'')) (\<lambda>action_str.
     and_ok (github_action action_str) (\<lambda>(kind, action).
     and_ok (ok_or (Option.bind (j_get ''number'' json) j_u64) (Message ''missing pr number'')) (\<lambda>number.
     and_ok (ok_or (j_get ''pull_request'' json) (Message ''missing pull_request object'')) (\<lambda>pr_val.
     and_ok (ok_or (Option.bind (Option.bind (j_get ''head'' pr_val) (j_get ''sha'')) j_str)
       (Message ''missing head.sha in pull_request'')) (\<lambda>head_sha.
     Inr \<lparr>sv_delivery_id = delivery_id, sv_repository = repository, sv_kind = kind,
          sv_commit_sha = head_sha,
          sv_branch = Option.bind (Option.bind (j_get ''head'' pr_val) (j_get ''ref'')) j_str,
          sv_pull_request = Some
            \<lparr>pq_number = number, pq_head_sha = head_sha,
             pq_base_branch = unwrap_or
               (Option.bind (Option.bind (j_get ''base'' pr_val) (j_get ''ref'')) j_str) ''main'',
             pq_action = action\<rparr>\<rparr>)))))"

definition parse_github_webhook ::
  "json_lib \<Rightarrow> string \<Rightarrow> string \<Rightarrow> string \<Rightarrow> error + SourceEvent" where
  "parse_github_webhook J event_type delivery_id payload =
     and_ok (jl_from_slice J payload) (\<lambda>json.
     and_ok (github_repository J json) (\<lambda>repository.
     if event_type = ''push'' then github_push delivery_id repository json
     else if event_type = ''pull_request'' then github_pull_request delivery_id repository json
     else Inl (Message (''unsupported github event type: '' @ event_type))))"

definition gitlab_repository :: "json_lib \<Rightarrow> json \<Rightarrow> error + RepositoryRef" where
  "gitlab_repository J json =
     and_ok (ok_or (j_get ''project'' json) (Message ''missing project object'')) (\<lambda>project_val.
     and_ok (ok_or (j_get ''id'' project_val) (Message ''missing project id'')) (\<lambda>proj_id.
     and_ok (external_id_of ''project'' proj_id) (\<lambda>external_id.
     and_ok (ok_or (Option.bind
         (or_else (j_get ''git_http_url'' project_val) (j_get ''http_url'' project_val)) j_str)
       (Message ''missing git_http_url/http_url'')) (\<lambda>clone_url_str.
     and_ok (jl_url_parse J clone_url_str) (\<lambda>clone_url.
     Inr \<lparr>rr_provider = GitLab, rr_external_id = external_id, rr_clone_url = clone_url,
          rr_default_branch =
            unwrap_or (Option.bind (j_get ''default_branch'' project_val) j_str) ''main''\<rparr>)))))"

definition gitlab_action :: "string \<Rightarrow> error + SourceEventKind \<times> PullRequestAction" where
  "gitlab_action s =
     (if s = ''open'' \<or> s = ''reopen'' then Inr (PullRequestOpened, PrOpened)
      else if s = ''update'' then Inr (PullRequestUpdated, PrSynchronize)
      else if s = ''close'' then Inr (PullRequestClosed, PrClosed)
      else Inl (Message (''unsupported merge request action: '' @ s)))"

definition gitlab_push :: "string \<Rightarrow> RepositoryRef \<Rightarrow> json \<Rightarrow> error + SourceEvent" where
  "gitlab_push delivery_id repository json =
     and_ok (ok_or (Option.bind (or_else (j_get ''checkout_sha'' json) (j_get ''after'' json)) j_str)
       (Message ''missing checkout_sha/after in push event'')) (\<lambda>commit_sha.
     if all_zero commit_sha then Inl (Message ''branch deletion push ignored'')
     else
     and_ok (ok_or (Option.bind (j_get ''ref'' json) j_str) (Message ''missing ref in push event''))
       (\<lambda>ref_str.
     Inr \<lparr>sv_delivery_id = delivery_id, sv_repository = repository, sv_kind = Push,
          sv_commit_sha = commit_sha, sv_branch = Some (branch_of_ref ref_str),
          sv_pull_request = None\<rparr>))"

definition gitlab_merge_request :: "string \<Rightarrow> RepositoryRef \<Rightarrow> json \<Rightarrow> error + SourceEvent" where
  "gitlab_merge_request delivery_id repository json =
     and_ok (ok_or (j_get ''object_attributes'' json) (Message ''missing object_attributes'')) (\<lambda>attrs.
     and_ok (ok_or (Option.bind (j_get ''action'' attrs) j_str)
       (Message ''missing action in merge_request'')) (\<lambda>action_str.
     and_ok (gitlab_action action_str) (\<lambda>(kind, action).
     and_ok (ok_or (Option.bind (or_else (j_get ''iid'' attrs) (j_get ''id'' attrs)) j_u64)
       (Message ''missing iid/id in merge request'')) (\<lambda>iid.
     and_ok (ok_or (Option.bind (Option.bind (j_get ''last_commit'' attrs) (j_get ''id'')) j_str)
       (Message ''missing last_commit.id in merge request'')) (\<lambda>commit_sha.
     Inr \<lparr>sv_delivery_id = delivery_id, sv_repository = repository, sv_kind = kind,
          sv_commit_sha = commit_sha, sv_branch = Option.bind (j_get ''source_branch'' attrs) j_str,
          sv_pull_request = Some
            \<lparr>pq_number = iid, pq_head_sha = commit_sha,
             pq_base_branch = unwrap_or (Option.bind (j_get ''target_branch'' attrs) j_str) ''main'',
             pq_action = action\<rparr>\<rparr>)))))"

definition parse_gitlab_webhook ::
  "json_lib \<Rightarrow> string \<Rightarrow> string \<Rightarrow> string \<Rightarrow> error + SourceEvent" where
  "parse_gitlab_webhook J event_type delivery_id payload =
     and_ok (jl_from_slice J payload) (\<lambda>json.
     and_ok (gitlab_repository J json) (\<lambda>repository.
     if event_type = ''Push Hook'' \<or> event_type = ''push''
     then gitlab_push delivery_id repository json
     else if event_type = ''Merge Request Hook'' \<or> event_type = ''merge_request''
     then gitlab_merge_request delivery_id repository json
     else Inl (Message (''unsupported gitlab event type: '' @ event_type))))"

section \<open>Facts\<close>

lemma Provider_from_str_fmt: "Provider_from_str (Provider_fmt p) = Inr p"
proof -
  have "Provider_from_str (Provider_fmt GitHub) = Inr GitHub"
    "Provider_from_str (Provider_fmt GitLab) = Inr GitLab" by code_simp+
  then show ?thesis by (cases p) simp_all
qed

lemma and_ok_Inr: "and_ok r f = Inr b \<longleftrightarrow> (\<exists>a. r = Inr a \<and> f a = Inr b)"
  by (auto simp: and_ok_def split: sum.splits)

text \<open>The parsers of both providers keep the delivery identifier and attach a pull request exactly to
  the events that are not a push.\<close>

definition event_shape :: "string \<Rightarrow> SourceEvent \<Rightarrow> bool" where
  "event_shape d e \<longleftrightarrow> sv_delivery_id e = d
     \<and> (case sv_pull_request e of
          None \<Rightarrow> sv_kind e = Push
        | Some p \<Rightarrow> sv_kind e \<noteq> Push \<and> pq_head_sha p = sv_commit_sha e
            \<and> (pq_action p = PrClosed \<longleftrightarrow> sv_kind e = PullRequestClosed))"

lemma actions_not_push:
  "github_action s = Inr (k, a) \<Longrightarrow> k \<noteq> Push \<and> (a = PrClosed \<longleftrightarrow> k = PullRequestClosed)"
  "gitlab_action s = Inr (k, a) \<Longrightarrow> k \<noteq> Push \<and> (a = PrClosed \<longleftrightarrow> k = PullRequestClosed)"
  unfolding github_action_def gitlab_action_def by (auto split: if_split_asm)

lemma push_shape:
  "github_push d r j = Inr e \<Longrightarrow> event_shape d e" "gitlab_push d r j = Inr e \<Longrightarrow> event_shape d e"
  unfolding github_push_def gitlab_push_def and_ok_Inr
  by (auto simp: event_shape_def and_ok_Inr split: if_split_asm)

lemma pull_request_shape:
  "github_pull_request d r j = Inr e \<Longrightarrow> event_shape d e"
  "gitlab_merge_request d r j = Inr e \<Longrightarrow> event_shape d e"
  unfolding github_pull_request_def gitlab_merge_request_def
  by (auto simp: event_shape_def and_ok_Inr dest!: actions_not_push)

lemma dispatch_InrE:
  assumes "(if b then x else if c then y else Inl m) = Inr e"
  obtains "x = Inr e" | "y = Inr e"
  using assms by (cases b; cases c) simp_all

lemma parsed_event_shape:
  "parse_github_webhook J t d body = Inr e \<Longrightarrow> event_shape d e"
  "parse_gitlab_webhook J t d body = Inr e \<Longrightarrow> event_shape d e"
  unfolding parse_github_webhook_def parse_gitlab_webhook_def and_ok_Inr
  by (elim exE conjE; erule dispatch_InrE; erule push_shape pull_request_shape)+

end
