(* ===== verification/Previews.thy ===== *)
theory Previews
  imports Queue Hostname Providers
begin

text \<open>
  \<^verbatim>\<open>src/previews.rs\<close> and \<^verbatim>\<open>src/preview_events.rs\<close>: the table of previews and the service that
  turns pull request events into preview deployments.  The queue of the service is optional, as in the
  code.  A \<^verbatim>\<open>Result\<close> that only gains a context keeps its error here.
\<close>

section \<open>The table\<close>

fun PreviewStatus_fmt :: "PreviewStatus \<Rightarrow> string" where
  "PreviewStatus_fmt PvBuilding = ''building''"
| "PreviewStatus_fmt PvReady = ''ready''"
| "PreviewStatus_fmt PvFailed = ''failed''"
| "PreviewStatus_fmt PvClosed = ''closed''"

definition PreviewStatus_from_str :: "string \<Rightarrow> error + PreviewStatus" where
  "PreviewStatus_from_str s =
     (if s = ''building'' then Inr PvBuilding
      else if s = ''ready'' then Inr PvReady
      else if s = ''failed'' then Inr PvFailed
      else if s = ''closed'' then Inr PvClosed
      else Inl (Message (''unknown preview status: '' @ s)))"

record UpsertPreviewInput =
  up_project_id :: uuid
  up_provider :: string
  up_pr_number :: u64
  up_head_sha :: string
  up_base_branch :: string
  up_head_branch :: string
  up_deployment_id :: "uuid option"
  up_hostname :: string
  up_status :: PreviewStatus

definition new_preview :: "UpsertPreviewInput \<Rightarrow> uuid \<Rightarrow> timestamp \<Rightarrow> PreviewRow" where
  "new_preview input i now =
     \<lparr>pv_id = i, pv_project_id = up_project_id input, pv_provider = up_provider input,
      pv_pr_number = as_i64 (up_pr_number input), pv_head_sha = up_head_sha input,
      pv_base_branch = up_base_branch input, pv_head_branch = up_head_branch input,
      pv_deployment_id = up_deployment_id input, pv_hostname = up_hostname input,
      pv_status = up_status input, pv_closed_at = None, pv_cleanup_attempt = 0,
      pv_created_at = now, pv_updated_at = now\<rparr>"

definition same_pull_request :: "PreviewRow \<Rightarrow> PreviewRow \<Rightarrow> bool" where
  "same_pull_request p r \<longleftrightarrow>
     pv_project_id r = pv_project_id p \<and> pv_provider r = pv_provider p
     \<and> pv_pr_number r = pv_pr_number p"

definition update_preview :: "PreviewRow \<Rightarrow> PreviewRow \<Rightarrow> PreviewRow" where
  "update_preview excluded r =
     r\<lparr>pv_head_sha := pv_head_sha excluded, pv_base_branch := pv_base_branch excluded,
       pv_head_branch := pv_head_branch excluded,
       pv_deployment_id := coalesce (pv_deployment_id excluded) (pv_deployment_id r),
       pv_hostname := pv_hostname excluded, pv_status := pv_status excluded,
       pv_updated_at := pv_updated_at excluded\<rparr>"

text \<open>The constraints of the table: the provider is known, and the project and the deployment
  exist.\<close>

definition preview_ok :: "PreviewRow \<Rightarrow> db \<Rightarrow> bool" where
  "preview_ok p d \<longleftrightarrow>
     (pv_provider p = ''github'' \<or> pv_provider p = ''gitlab'')
     \<and> has_key p_id (pv_project_id p) (projects d)
     \<and> (case pv_deployment_id p of Some i \<Rightarrow> has_key d_id i (deployments d) | None \<Rightarrow> True)"

definition upsert_preview :: "PreviewRow \<Rightarrow> db \<Rightarrow> (error + PreviewRow) \<times> db" where
  "upsert_preview p d =
     (if \<not> preview_ok p d then (Inl (Database ''failed to upsert preview''), d)
      else case first_row (returning (same_pull_request p) (update_preview p) (previews d)) of
          Some row \<Rightarrow> (Inr row,
            d\<lparr>previews := update_where (same_pull_request p) (update_preview p) (previews d)\<rparr>)
        | None \<Rightarrow>
            if has_key pv_id (pv_id p) (previews d)
            then (Inl (Database ''failed to upsert preview''), d)
            else (Inr p, d\<lparr>previews := previews d @ [p]\<rparr>))"

definition upsert :: "UpsertPreviewInput \<Rightarrow> ('z, PreviewRow) op" where
  "upsert input =
     and_then uuid_new_v4 (\<lambda>i.
     and_then now_utc (\<lambda>now.
     statement ''failed to upsert preview'' (upsert_preview (new_preview input i now))))"

definition find_by_id :: "uuid \<Rightarrow> ('z, PreviewRow option) op" where
  "find_by_id i =
     select_rows ''failed to find preview by id'' (\<lambda>d. lookup_by pv_id i (previews d))"

definition find_by_pr :: "uuid \<Rightarrow> string \<Rightarrow> u64 \<Rightarrow> ('z, PreviewRow option) op" where
  "find_by_pr project_id provider pr_number =
     select_rows ''failed to find preview by pr'' (\<lambda>d. first_row (filter (\<lambda>r.
       pv_project_id r = project_id \<and> pv_provider r = provider
       \<and> pv_pr_number r = as_i64 pr_number) (previews d)))"

definition list_previews_by_project :: "uuid \<Rightarrow> ('z, PreviewRow list) op" where
  "list_previews_by_project project_id =
     select_rows ''failed to list previews by project'' (\<lambda>d. order_by_desc pv_created_at
       (filter (\<lambda>r. pv_project_id r = project_id) (previews d)))"

definition update_previews :: "string \<Rightarrow> uuid \<Rightarrow> (PreviewRow \<Rightarrow> PreviewRow) \<Rightarrow> ('z, unit) op" where
  "update_previews context i f =
     execute context (\<lambda>d. d\<lparr>previews := update_where (\<lambda>r. pv_id r = i) f (previews d)\<rparr>)"

definition mark_closed :: "uuid \<Rightarrow> timestamp \<Rightarrow> ('z, unit) op" where
  "mark_closed i closed_at =
     update_previews ''failed to mark preview closed'' i
       (\<lambda>r. r\<lparr>pv_status := PvClosed, pv_closed_at := Some closed_at, pv_updated_at := closed_at\<rparr>)"

definition update_status_and_deployment :: "uuid \<Rightarrow> PreviewStatus \<Rightarrow> uuid option \<Rightarrow> ('z, unit) op" where
  "update_status_and_deployment i status deployment_id =
     and_then now_utc (\<lambda>now.
     statement ''failed to update preview status and deployment'' (\<lambda>d.
       if (case deployment_id of Some j \<Rightarrow> has_key d_id j (deployments d) \<or> \<not> has_key pv_id i (previews d)
           | None \<Rightarrow> True)
       then (Inr (), d\<lparr>previews := update_where (\<lambda>r. pv_id r = i)
              (\<lambda>r. r\<lparr>pv_status := status,
                     pv_deployment_id := coalesce deployment_id (pv_deployment_id r),
                     pv_updated_at := now\<rparr>) (previews d)\<rparr>)
       else (Inl (Database ''failed to update preview status and deployment''), d)))"

definition increment_cleanup_attempt :: "uuid \<Rightarrow> ('z, unit) op" where
  "increment_cleanup_attempt i =
     and_then now_utc (\<lambda>now.
     statement ''failed to increment cleanup attempt'' (\<lambda>d.
       let t = update_where (\<lambda>r. pv_id r = i)
             (\<lambda>r. r\<lparr>pv_cleanup_attempt := pv_cleanup_attempt r + 1, pv_updated_at := now\<rparr>) (previews d)
       in if list_all (\<lambda>r. pv_id r = i \<longrightarrow> i32_range (pv_cleanup_attempt r)) t
          then (Inr (), d\<lparr>previews := t\<rparr>)
          else (Inl (Database ''failed to increment cleanup attempt''), d)))"

section \<open>The service\<close>

datatype PreviewOutcome =
    PreviewCreated uuid uuid
  | PreviewUpdated uuid uuid
  | PreviewClosed uuid
  | PreviewUnchanged uuid
  | PreviewIgnoredOlder uuid

text \<open>The row an \<^verbatim>\<open>INSERT\<close> into \<^verbatim>\<open>deployments\<close> without the other columns creates: their
  defaults are \<open>NULL\<close>, the target \<^verbatim>\<open>production\<close> and the cause \<^verbatim>\<open>deploy\<close>.\<close>

definition queued_deployment :: "uuid \<Rightarrow> uuid \<Rightarrow> timestamp \<Rightarrow> string \<Rightarrow> Deployment" where
  "queued_deployment i project_id created_at commit_sha =
     \<lparr>d_id = i, d_project_id = project_id, d_framework = StaticSite, d_status = DepQueued,
      d_image_path = None, d_container_id = None, d_port = None, d_url = None,
      d_created_at = created_at, d_finished_at = None, d_error = None,
      d_commit_sha = Some commit_sha, d_target = ''production'', d_cause = ''deploy'',
      d_rollback_from = None\<rparr>"

definition insert_deployment :: "string \<Rightarrow> Deployment \<Rightarrow> ('z, unit) op" where
  "insert_deployment context dep =
     insert_row context
       (\<lambda>d. \<not> has_key d_id (d_id dep) (deployments d) \<and> has_key p_id (d_project_id dep) (projects d))
       (\<lambda>d. d\<lparr>deployments := deployments d @ [dep]\<rparr>)"

definition fetch_project_name :: "uuid \<Rightarrow> ('z, string) op" where
  "fetch_project_name project_id =
     and_then (select_rows ''failed to fetch project name for preview''
       (\<lambda>d. lookup_by p_id project_id (projects d))) (\<lambda>row.
     and_then (of_option (Database ''failed to fetch project name for preview'') row) (\<lambda>p.
     ret (p_name p)))"

definition when_queue :: "BuildQueue option \<Rightarrow> (BuildQueue \<Rightarrow> ('z, unit) op) \<Rightarrow> ('z, unit) op" where
  "when_queue queue f = (case queue of Some q \<Rightarrow> f q | None \<Rightarrow> ret ())"

definition close_preview :: "BuildQueue option \<Rightarrow> timestamp \<Rightarrow> PreviewRow option \<Rightarrow>
   ('z, PreviewOutcome option) op" where
  "close_preview queue created_at existing =
     (case existing of
        Some existing_preview \<Rightarrow>
          and_then (mark_closed (pv_id existing_preview) created_at) (\<lambda>_.
          and_then (case pv_deployment_id existing_preview of
              Some dep_id \<Rightarrow> when_queue queue (\<lambda>q. ignore (cancel dep_id :: ('z, unit) op))
            | None \<Rightarrow> ret ()) (\<lambda>_.
          ret (Some (PreviewClosed (pv_id existing_preview)))))
      | None \<Rightarrow> ret None)"

definition build_preview :: "(string \<Rightarrow> string) \<Rightarrow> BuildQueue option \<Rightarrow> SourceEventRecord \<Rightarrow>
   PullRequestRef \<Rightarrow> PreviewRow option \<Rightarrow> ('z, PreviewOutcome option) op" where
  "build_preview sha256_hex queue event pr existing =
     and_then (fetch_project_name (se_project_id event)) (\<lambda>project_name.
     and_then (of_result (preview_hostname sha256_hex project_name (pq_number pr))) (\<lambda>hostname.
     and_then uuid_new_v4 (\<lambda>deployment_id.
     and_then (insert_deployment ''failed to create preview deployment record''
       (queued_deployment deployment_id (se_project_id event) (se_created_at event) (pq_head_sha pr))) (\<lambda>_.
     and_then (when_queue queue (\<lambda>q.
       and_then (enqueue_job q deployment_id (se_project_id event) Preview) (\<lambda>_. ret ()))) (\<lambda>_.
     and_then (upsert
       \<lparr>up_project_id = se_project_id event, up_provider = Provider_fmt (se_provider event),
        up_pr_number = pq_number pr, up_head_sha = pq_head_sha pr,
        up_base_branch = pq_base_branch pr,
        up_head_branch = unwrap_or (se_branch event) ''unknown'',
        up_deployment_id = Some deployment_id, up_hostname = hostname, up_status = PvBuilding\<rparr>)
     (\<lambda>preview.
     ret (Some (if existing = None then PreviewCreated (pv_id preview) deployment_id
                else PreviewUpdated (pv_id preview) deployment_id))))))))"

definition apply_event :: "(string \<Rightarrow> string) \<Rightarrow> BuildQueue option \<Rightarrow> SourceEventRecord \<Rightarrow>
   ('z, PreviewOutcome option) op" where
  "apply_event sha256_hex queue event =
     (case se_pull_request event of
        None \<Rightarrow> ret None
      | Some pr \<Rightarrow>
          and_then (find_by_pr (se_project_id event) (Provider_fmt (se_provider event)) (pq_number pr))
          (\<lambda>existing.
          if pq_action pr = PrClosed then close_preview queue (se_created_at event) existing
          else
          (case existing of
             Some existing_preview \<Rightarrow>
               if pv_head_sha existing_preview = pq_head_sha pr \<and> pv_status existing_preview \<noteq> PvClosed
               then ret (Some (PreviewUnchanged (pv_id existing_preview)))
               else if se_created_at event < pv_updated_at existing_preview
               then ret (Some (PreviewIgnoredOlder (pv_id existing_preview)))
               else build_preview sha256_hex queue event pr existing
           | None \<Rightarrow> build_preview sha256_hex queue event pr existing)))"

definition update_deployments :: "string \<Rightarrow> uuid \<Rightarrow> (Deployment \<Rightarrow> Deployment) \<Rightarrow> ('z, unit) op" where
  "update_deployments context i f =
     execute context (\<lambda>d. d\<lparr>deployments := update_where (\<lambda>r. d_id r = i) f (deployments d)\<rparr>)"

definition record_build_success :: "uuid \<Rightarrow> uuid \<Rightarrow> u16 \<Rightarrow> string \<Rightarrow> string \<Rightarrow> ('z, unit) op" where
  "record_build_success preview_id deployment_id port url image_path =
     and_then now_utc (\<lambda>now.
     and_then (update_deployments ''failed to update deployment on preview build success'' deployment_id
       (\<lambda>r. r\<lparr>d_status := DepRunning, d_port := Some (uint port), d_url := Some url,
              d_image_path := Some image_path, d_finished_at := Some now\<rparr>)) (\<lambda>_.
     update_status_and_deployment preview_id PvReady (Some deployment_id)))"

definition record_build_failure :: "uuid \<Rightarrow> uuid \<Rightarrow> string \<Rightarrow> ('z, unit) op" where
  "record_build_failure preview_id failed_deployment_id err =
     and_then now_utc (\<lambda>now.
     and_then (update_deployments ''failed to update deployment on preview build failure''
       failed_deployment_id
       (\<lambda>r. r\<lparr>d_status := DepFailed, d_error := Some err, d_finished_at := Some now\<rparr>)) (\<lambda>_.
     and_then (find_by_id preview_id) (\<lambda>found.
     case found of
       None \<Rightarrow> ret ()
     | Some preview \<Rightarrow>
         if pv_deployment_id preview = Some failed_deployment_id
         then update_status_and_deployment preview_id PvFailed None
         else ret ())))"

definition record_health_failure :: "uuid \<Rightarrow> uuid \<Rightarrow> string \<Rightarrow> ('z, unit) op" where
  "record_health_failure preview_id deployment_id err =
     record_build_failure preview_id deployment_id err"

definition teardown_preview :: "BuildQueue option \<Rightarrow> uuid \<Rightarrow> ('z, unit) op" where
  "teardown_preview queue preview_id =
     and_then (find_by_id preview_id) (\<lambda>found.
     case found of
       None \<Rightarrow> ret ()
     | Some preview \<Rightarrow>
         if pv_status preview = PvClosed then ret ()
         else
         and_then now_utc (\<lambda>now.
         and_then (case pv_deployment_id preview of
             Some dep_id \<Rightarrow>
               and_then (when_queue queue (\<lambda>q. ignore (cancel dep_id :: ('z, unit) op))) (\<lambda>_.
               update_deployments ''failed to stop preview deployment'' dep_id
                 (\<lambda>r. r\<lparr>d_status := DepStopped, d_finished_at := Some now\<rparr>))
           | None \<Rightarrow> ret ()) (\<lambda>_.
         mark_closed preview_id now)))"

definition promote_to_production :: "BuildQueue option \<Rightarrow> uuid \<Rightarrow> ('z, Deployment) op" where
  "promote_to_production queue preview_id =
     and_then (find_by_id preview_id) (\<lambda>found.
     and_then (of_option (Message ''preview not found'') found) (\<lambda>preview.
     if pv_status preview = PvClosed then fail (Message ''cannot promote a closed preview'')
     else
     and_then uuid_new_v4 (\<lambda>new_dep_id.
     and_then now_utc (\<lambda>now.
     and_then (case pv_deployment_id preview of
         Some dep_id \<Rightarrow> select_rows ''image path'' (\<lambda>d.
           Option.bind (lookup_by d_id dep_id (deployments d)) d_image_path)
       | None \<Rightarrow> ret None) (\<lambda>image_path.
     let dep = (queued_deployment new_dep_id (pv_project_id preview) now (pv_head_sha preview))
           \<lparr>d_image_path := image_path\<rparr>
     in and_then (insert_deployment ''failed to create production deployment during promotion'' dep) (\<lambda>_.
        and_then (when_queue queue (\<lambda>q.
          and_then (enqueue_job q new_dep_id (pv_project_id preview) Production) (\<lambda>_. ret ()))) (\<lambda>_.
        ret dep)))))))"

end
