(* ===== verification/Webhooks.thy ===== *)
theory Webhooks
  imports Previews
begin

text \<open>
  \<^verbatim>\<open>src/source_events.rs\<close> and \<^verbatim>\<open>src/webhooks.rs\<close>: the tables of deliveries and events, the
  verification of signatures and tokens, and the handler of webhooks.  HMAC, hexadecimal decoding,
  the constant-time comparison and \<^verbatim>\<open>Uuid::parse_str\<close> are parameters.
\<close>

section \<open>Source events\<close>

definition from_event :: "uuid \<Rightarrow> uuid \<Rightarrow> SourceEvent \<Rightarrow> timestamp \<Rightarrow> SourceEventRecord" where
  "from_event i project_id event created_at =
     \<lparr>se_id = i, se_project_id = project_id, se_provider = rr_provider (sv_repository event),
      se_delivery_id = sv_delivery_id event, se_kind = sv_kind event,
      se_commit_sha = sv_commit_sha event, se_branch = sv_branch event,
      se_pull_request = sv_pull_request event,
      se_idempotency_key = Provider_fmt (rr_provider (sv_repository event)) @ '':'' @
        sv_delivery_id event @ '':'' @ sv_commit_sha event,
      se_created_at = created_at\<rparr>"

definition record_delivery :: "string \<Rightarrow> string \<Rightarrow> uuid option \<Rightarrow> timestamp \<Rightarrow> ('z, bool) op" where
  "record_delivery provider delivery_id project_id created_at =
     and_then uuid_new_v4 (\<lambda>i.
     statement ''failed to record provider delivery'' (\<lambda>d.
       let row = \<lparr>dl_id = i, dl_provider = provider, dl_delivery_id = delivery_id,
                  dl_project_id = project_id, dl_created_at = created_at\<rparr>
       in if has_key (\<lambda>r. (dl_provider r, dl_delivery_id r)) (provider, delivery_id)
              (provider_deliveries d)
          then (Inr False, d)
          else if has_key dl_id i (provider_deliveries d)
            \<or> (case project_id of Some p \<Rightarrow> \<not> has_key p_id p (projects d) | None \<Rightarrow> False)
          then (Inl (Database ''failed to record provider delivery''), d)
          else (Inr True, d\<lparr>provider_deliveries := provider_deliveries d @ [row]\<rparr>)))"

definition record_event :: "SourceEventRecord \<Rightarrow> ('z, unit) op" where
  "record_event event =
     statement ''failed to record source event'' (\<lambda>d.
       if has_key se_idempotency_key (se_idempotency_key event) (source_events d) then (Inr (), d)
       else if has_key se_id (se_id event) (source_events d)
         \<or> \<not> has_key p_id (se_project_id event) (projects d)
       then (Inl (Database ''failed to record source event''), d)
       else (Inr (), d\<lparr>source_events := source_events d @ [event]\<rparr>))"

definition list_events_by_project :: "uuid \<Rightarrow> ('z, SourceEventRecord list) op" where
  "list_events_by_project project_id =
     select_rows ''failed to list source events'' (\<lambda>d. order_by se_created_at
       (filter (\<lambda>e. se_project_id e = project_id) (source_events d)))"

section \<open>Verification\<close>

record webhook_lib =
  wl_hex_decode :: "string \<Rightarrow> string option"
  wl_key_ok :: "string \<Rightarrow> bool"
  wl_verify_slice :: "string \<Rightarrow> string \<Rightarrow> string \<Rightarrow> bool"
  wl_ct_eq :: "string \<Rightarrow> string \<Rightarrow> bool"
  wl_parse_uuid :: "string \<Rightarrow> uuid option"
  wl_sha256_hex :: "string \<Rightarrow> string"
  wl_json :: json_lib

definition verify_github_signature :: "webhook_lib \<Rightarrow> string \<Rightarrow> string option \<Rightarrow> string \<Rightarrow> bool" where
  "verify_github_signature W secret signature_header body =
     (case signature_header of
        None \<Rightarrow> False
      | Some sig_str \<Rightarrow>
          (case strip_prefix sig_str ''sha256='' of
             None \<Rightarrow> False
           | Some hex_sig \<Rightarrow>
               (case wl_hex_decode W hex_sig of
                  None \<Rightarrow> False
                | Some expected_bytes \<Rightarrow>
                    wl_key_ok W secret \<and> wl_verify_slice W secret body expected_bytes)))"

definition verify_gitlab_token :: "webhook_lib \<Rightarrow> string \<Rightarrow> string option \<Rightarrow> bool" where
  "verify_gitlab_token W secret token_header =
     (case token_header of None \<Rightarrow> False | Some token \<Rightarrow> wl_ct_eq W secret token)"

section \<open>The handler\<close>

datatype ApiError =
    BadRequest error
  | ApiUnauthorized string
  | ApiForbidden string
  | ApiNotFound string
  | UnprocessableEntity string
  | Internal error
  | TaskPanicked string

type_synonym ('z, 'a) api = "('z world_scheme, ApiError, 'a) io"

definition map_err :: "('e \<Rightarrow> 'f) \<Rightarrow> ('s, 'e, 'a) io \<Rightarrow> ('s, 'f, 'a) io" where
  "map_err f m = (\<lambda>w. case m w of (Inl e, w') \<Rightarrow> (Inl (f e), w') | (Inr a, w') \<Rightarrow> (Inr a, w'))"

definition internal :: "('z, 'a) op \<Rightarrow> ('z, 'a) api" where
  "internal m = map_err Internal m"

text \<open>A header map holds lower-case names; \<^verbatim>\<open>to_str\<close> refuses a value with bytes that are not visible
  ASCII or tab.\<close>

type_synonym HeaderMap = "(string \<times> string) list"

definition header_to_str :: "string \<Rightarrow> string option" where
  "header_to_str v =
     (if list_all (\<lambda>c. 32 \<le> (of_char c :: nat) \<and> (of_char c :: nat) < 127 \<or> c = CHR 0x09) v
      then Some v else None)"

definition bad_request :: "error \<Rightarrow> ApiError" where
  "bad_request e = (case e of Panicked m \<Rightarrow> TaskPanicked m | _ \<Rightarrow> BadRequest e)"

definition is_verified :: "webhook_lib \<Rightarrow> Provider \<Rightarrow> string \<Rightarrow> HeaderMap \<Rightarrow> string \<Rightarrow> bool" where
  "is_verified W provider secret headers body =
     (case provider of
        GitHub \<Rightarrow> verify_github_signature W secret
          (Option.bind (map_of headers ''x-hub-signature-256'') header_to_str) body
      | GitLab \<Rightarrow> verify_gitlab_token W secret
          (Option.bind (map_of headers ''x-gitlab-token'') header_to_str))"

definition delivery_header :: "HeaderMap \<Rightarrow> string option" where
  "delivery_header headers =
     Option.bind (or_else (or_else (map_of headers ''x-github-delivery'')
       (map_of headers ''x-gitlab-delivery'')) (map_of headers ''x-gitlab-event-uuid'')) header_to_str"

definition event_header :: "HeaderMap \<Rightarrow> string option" where
  "event_header headers =
     Option.bind (or_else (map_of headers ''x-github-event'') (map_of headers ''x-gitlab-event''))
       header_to_str"

definition parse_webhook :: "webhook_lib \<Rightarrow> Provider \<Rightarrow> string \<Rightarrow> string \<Rightarrow> string \<Rightarrow> error + SourceEvent" where
  "parse_webhook W provider event_type delivery_id body =
     (case provider of
        GitHub \<Rightarrow> parse_github_webhook (wl_json W) event_type delivery_id body
      | GitLab \<Rightarrow> parse_gitlab_webhook (wl_json W) event_type delivery_id body)"

text \<open>After the delivery is recorded: persist the event and hand it on.\<close>

definition process_event :: "webhook_lib \<Rightarrow> BuildQueue option \<Rightarrow> uuid \<Rightarrow> timestamp \<Rightarrow> SourceEvent \<Rightarrow>
   ('z, u16) api" where
  "process_event W queue project_id now source_event =
     and_then (internal uuid_new_v4) (\<lambda>record_id.
     let record = from_event record_id project_id source_event now
     in and_then (internal (record_event record)) (\<lambda>_.
        if se_pull_request record \<noteq> None
        then
          and_then (internal (apply_event (wl_sha256_hex W) queue record)) (\<lambda>_. ret 202)
        else
        (case queue of
           Some q \<Rightarrow>
             let priority = (if sv_kind source_event = Push then Production else Preview)
             in and_then (internal uuid_new_v4) (\<lambda>deployment_id.
                and_then (ignore (insert_deployment ''insert deployment''
                  (queued_deployment deployment_id project_id now (sv_commit_sha source_event))
                  :: ('z, unit) op)) (\<lambda>_.
                and_then (ignore (enqueue_job q deployment_id project_id priority
                  :: ('z, BuildJobRecord) op)) (\<lambda>_.
                ret 202)))
         | None \<Rightarrow> ret 200)))"

text \<open>After the signature is verified.\<close>

definition accept_delivery :: "webhook_lib \<Rightarrow> BuildQueue option \<Rightarrow> Provider \<Rightarrow> uuid \<Rightarrow> HeaderMap \<Rightarrow>
   string \<Rightarrow> ('z, u16) api" where
  "accept_delivery W queue provider project_id headers body =
     and_then (of_option (BadRequest (Message ''missing webhook delivery ID header''))
       (delivery_header headers)) (\<lambda>delivery_id.
     and_then (of_option (BadRequest (Message ''missing webhook event type header''))
       (event_header headers)) (\<lambda>event_type.
     and_then (internal now_utc) (\<lambda>now.
     and_then (internal (record_delivery (Provider_fmt provider) delivery_id (Some project_id) now))
     (\<lambda>inserted.
     if \<not> inserted then ret 202
     else
     and_then (map_err bad_request (of_result (parse_webhook W provider event_type delivery_id body)))
     (\<lambda>source_event.
     process_event W queue project_id now source_event)))))"

definition handle_webhook :: "webhook_lib \<Rightarrow> bool \<Rightarrow> BuildQueue option \<Rightarrow> string \<Rightarrow> string \<Rightarrow>
   HeaderMap \<Rightarrow> string \<Rightarrow> ('z, u16) api" where
  "handle_webhook W db_configured queue provider_str project_id_str headers body =
     and_then (map_err BadRequest (of_result (Provider_from_str provider_str))) (\<lambda>provider.
     and_then (of_option (BadRequest (Message ''invalid project UUID''))
       (wl_parse_uuid W project_id_str)) (\<lambda>project_id.
     if \<not> db_configured then fail (Internal (Message ''database not configured''))
     else
     and_then (internal (select_rows ''webhook secret''
       (\<lambda>d. lookup_by p_id project_id (projects d)))) (\<lambda>row_opt.
     and_then (of_option (ApiNotFound ''project not found'') row_opt) (\<lambda>row.
     and_then (of_option (ApiUnauthorized ''webhook secret not configured'') (p_webhook_secret row))
     (\<lambda>secret.
     if \<not> is_verified W provider secret headers body
     then fail (ApiUnauthorized ''invalid webhook signature or token'')
     else accept_delivery W queue provider project_id headers body)))))"

end
