(* ===== verification/Webhooks_Correct.thy ===== *)
theory Webhooks_Correct
  imports Webhooks
begin

text \<open>
  The correctness of the webhook pipeline: nothing happens without a valid signature, a delivery is
  processed at most once, duplicate and stale events leave the previews alone, and one row per pull
  request is kept.  Two findings show a delivery that is lost on a retry and a build that outlives its
  preview.
\<close>

section \<open>Running\<close>

lemma internal_run [io_simps]:
  "internal m w = (case m w of (Inl e, w') \<Rightarrow> (Inl (Internal e), w') | (Inr a, w') \<Rightarrow> (Inr a, w'))"
  by (simp add: internal_def map_err_def)

lemma map_err_run [io_simps]:
  "map_err f m w = (case m w of (Inl e, w') \<Rightarrow> (Inl (f e), w') | (Inr a, w') \<Rightarrow> (Inr a, w'))"
  by (simp add: map_err_def)

lemma keeps_map_err [keeps_intros]: "keeps I m \<Longrightarrow> keeps I (map_err f m)"
  by (auto simp: keeps_def map_err_def split: prod.splits sum.splits)

lemma keeps_internal [keeps_intros]: "keeps I m \<Longrightarrow> keeps I (internal m)"
  by (simp add: internal_def keeps_map_err)

section \<open>Authentication\<close>

text \<open>A request is authentic when it names an existing project that has a secret and proves to know
  that secret.\<close>

definition authentic :: "webhook_lib \<Rightarrow> string \<Rightarrow> string \<Rightarrow> HeaderMap \<Rightarrow> string \<Rightarrow> db \<Rightarrow> bool" where
  "authentic W provider_str project_id_str headers body d \<longleftrightarrow>
     (\<exists>provider i row secret. Provider_from_str provider_str = Inr provider
       \<and> wl_parse_uuid W project_id_str = Some i \<and> lookup_by p_id i (projects d) = Some row
       \<and> p_webhook_secret row = Some secret
       \<and> (case provider of
            GitHub \<Rightarrow> \<exists>sig tag. map_of headers ''x-hub-signature-256'' = Some (''sha256='' @ sig)
              \<and> wl_hex_decode W sig = Some tag \<and> wl_verify_slice W secret body tag
          | GitLab \<Rightarrow> \<exists>token. map_of headers ''x-gitlab-token'' = Some token \<and> wl_ct_eq W secret token))"

lemma strip_prefix_Some: "strip_prefix s p = Some t \<longleftrightarrow> s = p @ t"
  by (auto simp: strip_prefix_def str_starts_with_iff)

lemma header_to_str_Some: "header_to_str v = Some s \<Longrightarrow> s = v"
  by (simp add: header_to_str_def split: if_splits)

lemma is_verified_cases:
  assumes "is_verified W provider secret headers body"
  shows "case provider of
      GitHub \<Rightarrow> \<exists>sig tag. map_of headers ''x-hub-signature-256'' = Some (''sha256='' @ sig)
        \<and> wl_hex_decode W sig = Some tag \<and> wl_verify_slice W secret body tag
    | GitLab \<Rightarrow> \<exists>token. map_of headers ''x-gitlab-token'' = Some token \<and> wl_ct_eq W secret token"
proof (cases provider)
  case GitHub
  with assms obtain v sig tag where "map_of headers ''x-hub-signature-256'' = Some v"
    "header_to_str v = Some (''sha256='' @ sig)" "wl_hex_decode W sig = Some tag"
    "wl_verify_slice W secret body tag"
    by (auto simp: is_verified_def verify_github_signature_def strip_prefix_Some bind_eq_Some_conv
        split: option.splits)
  then show ?thesis using GitHub by (auto dest: header_to_str_Some)
next
  case GitLab
  with assms show ?thesis
    by (auto simp: is_verified_def verify_gitlab_token_def bind_eq_Some_conv dest: header_to_str_Some
        split: option.splits)
qed

lemma handle_webhook_cases:
  assumes "handle_webhook W c queue ps is headers body w = (r, w')"
  obtains (refused) "db w' = db w"
  | (verified) provider i row secret where "Provider_from_str ps = Inr provider"
      "wl_parse_uuid W is = Some i" "lookup_by p_id i (projects (db w)) = Some row"
      "p_webhook_secret row = Some secret" "is_verified W provider secret headers body"
      "accept_delivery W queue provider i headers body (w\<lparr>tick := Suc (tick w)\<rparr>) = (r, w')"
  using assms
  by (cases "env_db_fault (env w) (tick w)")
    (auto simp: handle_webhook_def io_simps select_rows_def statement_def of_option_def
      split: sum.splits option.splits if_splits)

text \<open>C24. No webhook has an effect unless it is authentic: whenever a request changes the database, its
  provider is known, its project exists and has a secret, and the request carries the HMAC signature
  (GitHub) or the token (GitLab) that verifies under that secret.\<close>

theorem webhook_authenticated:
  assumes "handle_webhook W c queue ps is headers body w = (r, w')" and "db w' \<noteq> db w"
  shows "authentic W ps is headers body (db w)"
  using assms(1)
proof (cases rule: handle_webhook_cases)
  case refused
  with assms(2) show ?thesis by simp
next
  case (verified provider i row secret)
  with is_verified_cases [OF verified(5)] show ?thesis unfolding authentic_def by blast
qed

section \<open>At most once\<close>

definition delivered :: "string \<Rightarrow> string \<Rightarrow> db \<Rightarrow> bool" where
  "delivered provider delivery_id d \<longleftrightarrow>
     (\<exists>r\<in>set (provider_deliveries d). dl_provider r = provider \<and> dl_delivery_id r = delivery_id)"

lemma record_delivery_again:
  assumes "delivered provider delivery_id (db w)"
  shows "record_delivery provider delivery_id p now w =
      (if env_db_fault (env w) (Suc (tick w))
       then (Inl (Database ''failed to record provider delivery''), w\<lparr>tick := Suc (Suc (tick w))\<rparr>)
       else (Inr False, w\<lparr>tick := Suc (Suc (tick w))\<rparr>))"
proof -
  have "has_key (\<lambda>r. (dl_provider r, dl_delivery_id r)) (provider, delivery_id) (provider_deliveries (db w))"
    using assms by (auto simp: has_key_iff delivered_def image_iff)
  then show ?thesis by (simp add: record_delivery_def io_simps statement_def)
qed

lemma accept_delivery_again:
  assumes "delivery_header headers = Some i" and "delivered (Provider_fmt provider) i (db w)"
    and "accept_delivery W queue provider pid headers body w = (r, w')"
  shows "db w' = db w" and "no_db_faults w \<Longrightarrow> event_header headers \<noteq> None \<Longrightarrow> r = Inr 202"
proof -
  have again: "delivered (Provider_fmt provider) i (db (w\<lparr>tick := n\<rparr>))" for n using assms(2) by simp
  show "db w' = db w"
    using assms(1,3) by (auto simp: accept_delivery_def of_option_def io_simps
        record_delivery_again [OF again] split: option.splits if_splits)
  show "no_db_faults w \<Longrightarrow> event_header headers \<noteq> None \<Longrightarrow> r = Inr 202"
    using assms(1,3) by (auto simp: accept_delivery_def of_option_def io_simps
        record_delivery_again [OF again] split: option.splits if_splits)
qed

text \<open>A delivery is processed at most once: a request whose delivery identifier is already recorded
  for its provider changes nothing, whatever its body, its project and the failures of the database
  are.\<close>

theorem webhook_delivery_once:
  assumes "Provider_from_str ps = Inr provider" and "delivery_header headers = Some i"
    and "delivered (Provider_fmt provider) i (db w)"
    and "handle_webhook W c queue ps is headers body w = (r, w')"
  shows "db w' = db w"
  using assms(4)
proof (cases rule: handle_webhook_cases)
  case (verified p j row secret)
  with assms have "delivered (Provider_fmt p) i (db (w\<lparr>tick := Suc (tick w)\<rparr>))" by simp
  from accept_delivery_again(1) [OF assms(2) this verified(6)] show ?thesis by simp
qed simp

section \<open>A failed delivery\<close>

definition projects_are :: "ProjectRow list \<Rightarrow> db \<Rightarrow> bool" where
  "projects_are P d \<longleftrightarrow> projects d = P"

lemma projects_kept [keeps_intros]:
  "keeps_db (projects_are P) (insert_deployment c dep)" "keeps_db (projects_are P) (cancel i)"
  "keeps_db (projects_are P) (enqueue q input)" "keeps_db (projects_are P) (upsert inp)"
  "keeps_db (projects_are P) (mark_closed i t)" "keeps_db (projects_are P) (record_event ev)"
  "keeps_db (projects_are P) (record_delivery pr di pi t)"
  unfolding insert_deployment_def cancel_def enqueue_def upsert_def mark_closed_def update_previews_def
    record_event_def record_delivery_def set_deployment_def get_job_by_deployment_def
  by (intro keeps_intros keeps_db_insert_row keeps_db_statement keeps_db_execute;
      auto simp: projects_are_def insert_job_def upsert_preview_def Let_def
        split: if_splits option.splits)+

lemma apply_event_projects: "keeps_db (projects_are P) (apply_event h queue e)"
  unfolding apply_event_def close_preview_def build_preview_def when_queue_def find_by_pr_def
    fetch_project_name_def enqueue_job_def
  by (intro keeps_intros)

lemma accept_delivery_projects:
  "keeps (\<lambda>w. projects_are P (db w)) (accept_delivery W queue provider i headers body)"
proof -
  have op: "keeps (\<lambda>w. projects_are P (db w)) (internal m)" if "keeps_db (projects_are P) m"
    for m :: "('z, 'b) op" using that by (intro keeps_internal) (simp add: keeps_db_def)
  have ig: "keeps (\<lambda>w. projects_are P (db w)) (ignore m)" if "keeps_db (projects_are P) m"
    for m :: "('z, 'b) op" using that by (intro keeps_ignore) (simp add: keeps_db_def)
  show ?thesis
    unfolding accept_delivery_def process_event_def Let_def enqueue_job_def
    by (intro keeps_and_then keeps_of_option keeps_if keeps_option keeps_ret keeps_map_err
        keeps_of_result op ig apply_event_projects projects_kept keeps_db_uuid keeps_db_now)
qed

lemma accept_delivery_event_header:
  "accept_delivery W queue provider i headers body w = (r, w') \<Longrightarrow> db w' \<noteq> db w \<Longrightarrow>
   event_header headers \<noteq> None"
  by (cases "event_header headers")
    (auto simp: accept_delivery_def io_simps of_option_def split: option.splits)

text \<open>A failed delivery is lost: the delivery is recorded before it is processed, so that when the
  processing fails after that, a retry of the provider with the same request is answered with 202 and
  changes nothing, even though the database works again.\<close>

theorem failed_webhook_lost_on_retry:
  assumes first: "handle_webhook W True queue ps is headers body w = (Inl e, w1)"
    and provider: "Provider_from_str ps = Inr provider" and header: "delivery_header headers = Some i"
    and fresh: "\<not> delivered (Provider_fmt provider) i (db w)"
    and recorded: "delivered (Provider_fmt provider) i (db w1)"
    and retry: "db w2 = db w1" "no_db_faults w2"
  shows "\<exists>w3. handle_webhook W True queue ps is headers body w2 = (Inr 202, w3) \<and> db w3 = db w1"
proof -
  have changed: "db w1 \<noteq> db w" using fresh recorded by auto
  from first changed obtain p row secret where v: "wl_parse_uuid W is = Some p"
    "lookup_by p_id p (projects (db w)) = Some row" "p_webhook_secret row = Some secret"
    "is_verified W provider secret headers body"
    and acc: "accept_delivery W queue provider p headers body (w\<lparr>tick := Suc (tick w)\<rparr>) = (Inl e, w1)"
    using provider by (auto elim!: handle_webhook_cases)
  have "projects (db w1) = projects (db w)"
    using keepsD [OF accept_delivery_projects _ acc, of "projects (db w)"]
    by (simp add: projects_are_def)
  then have row: "lookup_by p_id p (projects (db w2)) = Some row" using v(2) retry(1) by simp
  have ev: "event_header headers \<noteq> None"
    using accept_delivery_event_header [OF acc] changed by simp
  let ?w = "w2\<lparr>tick := Suc (tick w2)\<rparr>"
  obtain r w3 where run: "accept_delivery W queue provider p headers body ?w = (r, w3)" by fastforce
  have "delivered (Provider_fmt provider) i (db ?w)" using recorded retry(1) by simp
  from accept_delivery_again [OF header this run] retry ev have "r = Inr 202" "db w3 = db w1" by simp_all
  with run row v retry(2) provider show ?thesis by (simp add: handle_webhook_def io_simps)
qed

section \<open>Previews\<close>

text \<open>A new event of a pull request changes nothing when it repeats the commit of an open preview or is
  older than the preview's last change.\<close>

lemma apply_event_duplicate:
  assumes "se_pull_request ev = Some pr" and "pq_action pr \<noteq> PrClosed"
    and "find_by_pr (se_project_id ev) (Provider_fmt (se_provider ev)) (pq_number pr) w = (Inr (Some p), w1)"
    and "pv_head_sha p = pq_head_sha pr \<and> pv_status p \<noteq> PvClosed \<or> se_created_at ev < pv_updated_at p"
  shows "db (snd (apply_event h queue ev w)) = db w"
proof -
  have "db w1 = db w" using assms(3) unfolding find_by_pr_def by (auto dest: select_rows_InrE)
  then show ?thesis using assms by (auto simp: apply_event_def io_simps)
qed

lemma first_row_filter: "first_row (filter P t) = Some r \<Longrightarrow> r \<in> set t \<and> P r"
  by (induction t) (auto simp: first_row_def split: if_splits)

lemma cancel_other:
  assumes "\<forall>j\<in>set (build_jobs (db w)). j_id j \<noteq> i"
  shows "build_jobs (db (snd (cancel i w))) = build_jobs (db w)"
proof -
  have "update_where (\<lambda>j. j_id j = i \<and> (j_status j = JobQueued \<or> j_status j = JobRunning)) f (build_jobs (db w)) =
      build_jobs (db w)" for f
    using assms by (intro update_where_none) auto
  then show ?thesis
    by (auto simp: cancel_def io_simps statement_def set_deployment_def execute_def Let_def
        split: option.splits)
qed

text \<open>Closing a pull request leaves its build in the queue: the service passes the identifier of the
  deployment where the queue expects the identifier of a job, so that, as long as no job has the
  identifier of a deployment, no job changes when the preview of a pull request is closed, whatever the
  state of its build.\<close>

theorem close_keeps_build_job:
  assumes "se_pull_request ev = Some pr" and "pq_action pr = PrClosed"
    and "\<forall>j\<in>set (build_jobs (db w)). \<forall>p\<in>set (previews (db w)). pv_deployment_id p \<noteq> Some (j_id j)"
  shows "build_jobs (db (snd (apply_event h queue ev w))) = build_jobs (db w)"
proof (cases "find_by_pr (se_project_id ev) (Provider_fmt (se_provider ev)) (pq_number pr) w")
  case (Pair r w1)
  have w1: "db w1 = db w" "\<And>p. r = Inr (Some p) \<Longrightarrow> p \<in> set (previews (db w))"
    using Pair unfolding find_by_pr_def select_rows_def statement_def
    by (auto split: if_splits dest!: first_row_filter)
  have closing: "build_jobs (db (snd (close_preview queue t (Some p) w1))) = build_jobs (db w)"
    if "p \<in> set (previews (db w))" for p t
  proof -
    obtain rc w2 where mc: "mark_closed (pv_id p) t w1 = (rc, w2)" by fastforce
    then have w2: "build_jobs (db w2) = build_jobs (db w)"
      using w1(1) by (auto simp: mark_closed_def update_previews_def execute_def statement_def split: if_splits)
    have "build_jobs (db (snd (cancel i w2))) = build_jobs (db w)" if "pv_deployment_id p = Some i" for i
      using cancel_other [of w2 i] assms(3) that \<open>p \<in> set (previews (db w))\<close> w2 by fastforce
    with mc w2 show ?thesis
      by (auto simp: close_preview_def when_queue_def io_simps split: sum.splits option.splits)
  qed
  have "build_jobs (db (snd (close_preview queue t x w1))) = build_jobs (db w)" if "r = Inr x" for x t
    using closing w1 that by (cases x) (simp_all add: close_preview_def io_simps)
  then show ?thesis
    using w1(1) assms(1,2) Pair by (auto simp: apply_event_def io_simps split: sum.splits)
qed

section \<open>Witnesses\<close>

definition demo_webhook_lib :: webhook_lib where
  "demo_webhook_lib =
     \<lparr>wl_hex_decode = Some, wl_key_ok = (\<lambda>k. True), wl_verify_slice = (\<lambda>key m tag. tag = key),
      wl_ct_eq = (=), wl_parse_uuid = (\<lambda>s. if s = ''1'' then Some 1 else None),
      wl_sha256_hex = (\<lambda>s. replicate 64 CHR ''0''),
      wl_json = \<lparr>jl_from_slice = (\<lambda>s. Inr (JObject
          [(''repository'', JObject [(''id'', JInt 1), (''clone_url'', JString ''u'')]),
           (''after'', JString ''abc''), (''ref'', JString ''refs/heads/main'')])),
        jl_url_parse = Inr\<rparr>\<rparr>"

definition demo_headers :: HeaderMap where
  "demo_headers = [(''x-hub-signature-256'', ''sha256=secret''), (''x-github-delivery'', ''d1''),
     (''x-github-event'', ''push'')]"

definition faulty_world :: world where
  "faulty_world = demo_world\<lparr>env := demo_env\<lparr>env_db_fault := (\<lambda>n. n = 15)\<rparr>\<rparr>"

abbreviation demo_push :: "world \<Rightarrow> (ApiError + u16) \<times> world" where
  "demo_push \<equiv> handle_webhook demo_webhook_lib True None ''github'' ''1'' demo_headers ''body''"

lemma demo_push_runs:
  "fst (demo_push demo_world) = Inr 200"
  "length (provider_deliveries (db (snd (demo_push demo_world)))) = 1"
  "fst (demo_push faulty_world) = Inl (Internal (Database ''failed to record source event''))"
  "length (provider_deliveries (db (snd (demo_push faulty_world)))) = 1"
  by code_simp+

lemma demo_delivered:
  "\<not> delivered ''github'' ''d1'' (db faulty_world)"
  "delivered ''github'' ''d1'' (db (snd (demo_push faulty_world)))"
  "delivered ''github'' ''d1'' (db (snd (demo_push demo_world)))"
  "delivery_header demo_headers = Some ''d1''" "Provider_from_str ''github'' = Inr GitHub"
  by code_simp+

theorem webhook_authenticated_witness:
  "authentic demo_webhook_lib ''github'' ''1'' demo_headers ''body'' (db demo_world)"
proof (rule webhook_authenticated)
  show "demo_push demo_world = (fst (demo_push demo_world), snd (demo_push demo_world))" by simp
  have "length (provider_deliveries (db demo_world)) = 0"
    by (simp add: demo_world_def demo_db_def empty_db_def)
  then show "db (snd (demo_push demo_world)) \<noteq> db demo_world" using demo_push_runs(2) by auto
qed

theorem webhook_delivery_once_witness:
  "db (snd (demo_push (snd (demo_push demo_world)))) = db (snd (demo_push demo_world))"
proof (rule webhook_delivery_once [of "''github''" GitHub demo_headers "''d1''"])
  show "demo_push (snd (demo_push demo_world)) =
    (fst (demo_push (snd (demo_push demo_world))), snd (demo_push (snd (demo_push demo_world))))"
    by simp
qed (use demo_delivered in simp_all)

theorem failed_webhook_lost_on_retry_witness:
  "\<exists>w3. demo_push (demo_world\<lparr>db := db (snd (demo_push faulty_world))\<rparr>) = (Inr 202, w3)
     \<and> db w3 = db (snd (demo_push faulty_world))"
proof (rule failed_webhook_lost_on_retry [where provider = GitHub and i = "''d1''"])
  show "demo_push faulty_world = (Inl (Internal (Database ''failed to record source event'')),
      snd (demo_push faulty_world))"
    using demo_push_runs(3) by (metis prod.collapse)
  show "no_db_faults (demo_world\<lparr>db := db (snd (demo_push faulty_world))\<rparr>)"
    by (simp add: demo_world_def)
qed (use demo_delivered in simp_all)

definition demo_close_event :: SourceEventRecord where
  "demo_close_event =
     \<lparr>se_id = 30, se_project_id = 1, se_provider = GitHub, se_delivery_id = ''d2'',
      se_kind = PullRequestClosed, se_commit_sha = ''abc'', se_branch = None,
      se_pull_request = Some \<lparr>pq_number = 7, pq_head_sha = ''abc'', pq_base_branch = ''main'',
        pq_action = PrClosed\<rparr>, se_idempotency_key = ''k'', se_created_at = 50\<rparr>"

definition preview_queue :: BuildQueue where
  "preview_queue = \<lparr>consumer_group = ''builders'', stream_prefix = ''q''\<rparr>"

definition demo_preview_world :: world where
  "demo_preview_world = demo_world\<lparr>db := demo_db
     \<lparr>previews := [\<lparr>pv_id = 40, pv_project_id = 1, pv_provider = ''github'', pv_pr_number = 7,
        pv_head_sha = ''abc'', pv_base_branch = ''main'', pv_head_branch = ''f'',
        pv_deployment_id = Some 3, pv_hostname = ''h'', pv_status = PvBuilding, pv_closed_at = None,
        pv_cleanup_attempt = 0, pv_created_at = 0, pv_updated_at = 0\<rparr>],
      build_jobs := [\<lparr>j_id = 11, j_deployment_id = 3, j_project_id = 1, j_queue_name = ''q'',
        j_priority = Preview, j_status = JobQueued, j_attempt = 0, j_max_attempts = 3,
        j_force_rebuild = False, j_lease_owner = None, j_lease_expires_at = None,
        j_last_error = None, j_created_at = 0, j_updated_at = 0\<rparr>]\<rparr>\<rparr>"

theorem close_keeps_build_job_witness:
  "map j_status (build_jobs (db (snd (apply_event (\<lambda>s. s) (Some preview_queue) demo_close_event demo_preview_world)))) =
     [JobQueued]"
proof -
  have "build_jobs (db (snd (apply_event (\<lambda>s. s) (Some preview_queue) demo_close_event demo_preview_world))) =
      build_jobs (db demo_preview_world)"
    by (rule close_keeps_build_job [where pr = "the (se_pull_request demo_close_event)"])
      (simp_all add: demo_close_event_def demo_preview_world_def)
  then show ?thesis by (simp add: demo_preview_world_def)
qed

end
