(* ===== verification/Logs.thy ===== *)
theory Logs
  imports Schema Strings
begin

text \<open>
  \<^verbatim>\<open>src/logs.rs\<close>: redaction, the sink that numbers, buffers and stores the lines of a build, and the
  repository the API reads them from.  The regular expressions and the formatter of time stamps are
  parameters.  The insertions the sink spawns are the list of its pending handles; the files it writes
  are a list of paths and contents, and a write may fail.
\<close>

section \<open>Redaction\<close>

record LogEntry =
  le_sequence :: u64
  le_timestamp :: timestamp
  le_stream :: string
  le_message :: string

record LogQuery =
  lq_after_sequence :: "u64 option"
  lq_limit :: "u64 option"
  lq_stream :: "string option"

record LogsResponse =
  lr_lines :: "LogEntry list"
  lr_next_sequence :: "u64 option"
  lr_has_more :: bool
  lr_is_terminal :: bool
  lr_logs :: string

record LogSegmentRecord =
  lsr_id :: uuid
  lsr_deployment_id :: uuid
  lsr_project_id :: uuid
  lsr_start_sequence :: u64
  lsr_end_sequence :: u64
  lsr_storage_path :: string
  lsr_size_bytes :: u64
  lsr_created_at :: timestamp

text \<open>\<^verbatim>\<open>str::replace\<close> for a pattern that is not empty: the leftmost occurrences are replaced.\<close>

function str_replace :: "string \<Rightarrow> string \<Rightarrow> string \<Rightarrow> string" where
  "str_replace s p r =
     (if s = [] \<or> p = [] then s
      else if take (length p) s = p then r @ str_replace (drop (length p) s) p r
      else hd s # str_replace (tl s) p r)"
  by pat_completeness auto
termination
  by (relation "measure (\<lambda>(s, p, r). length s)") auto

declare str_replace.simps [simp del]

record Redactor =
  secret_fingerprints :: "string list"
  re_private_key :: "string \<Rightarrow> string"
  re_aws :: "string \<Rightarrow> string"
  re_bearer :: "string \<Rightarrow> string"
  re_tokens :: "string \<Rightarrow> string"
  re_assignment :: "string \<Rightarrow> string"

definition new_fingerprints :: "string list \<Rightarrow> string list" where
  "new_fingerprints fs = sort_key (\<lambda>f. - int (length f)) (filter (\<lambda>f. str_trim f \<noteq> []) fs)"

definition redact :: "Redactor \<Rightarrow> string \<Rightarrow> string" where
  "redact R input =
     (let text1 = fold (\<lambda>secret t. str_replace t secret ''[REDACTED]'') (secret_fingerprints R) input;
          text2 = re_private_key R text1; text3 = re_aws R text2; text4 = re_bearer R text3;
          text5 = re_tokens R text4
      in re_assignment R text5)"

section \<open>The sink\<close>

datatype LogStream = Stdout | Stderr

datatype pending = PendingLine LogRow | PendingSegment LogSegmentRow

record log_fmt =
  lf_rfc3339 :: "timestamp \<Rightarrow> string option"
  lf_uuid_str :: "uuid \<Rightarrow> string"

record DurableLogSink =
  ds_deployment_id :: uuid
  ds_project_id :: uuid
  ds_redactor :: Redactor
  ds_sequence :: u64
  ds_segment_buffer :: "LogEntry list"
  ds_segment_threshold :: nat
  ds_storage_dir :: "string option"
  ds_handles :: "pending list"
  ds_files :: "(string \<times> string) list"

definition new_sink :: "uuid \<Rightarrow> uuid \<Rightarrow> Redactor \<Rightarrow> string option \<Rightarrow> nat \<Rightarrow> DurableLogSink" where
  "new_sink deployment_id project_id redactor storage_dir segment_threshold =
     \<lparr>ds_deployment_id = deployment_id, ds_project_id = project_id, ds_redactor = redactor,
      ds_sequence = 0, ds_segment_buffer = [],
      ds_segment_threshold = (if segment_threshold = 0 then 500 else segment_threshold),
      ds_storage_dir = storage_dir, ds_handles = [], ds_files = []\<rparr>"

definition rfc3339_or_default :: "log_fmt \<Rightarrow> timestamp \<Rightarrow> string" where
  "rfc3339_or_default F t = (case lf_rfc3339 F t of Some s \<Rightarrow> s | None \<Rightarrow> [])"

definition log_line :: "log_fmt \<Rightarrow> LogEntry \<Rightarrow> string" where
  "log_line F e =
     ''['' @ rfc3339_or_default F (le_timestamp e) @ ''] ['' @ le_stream e @ ''] '' @ le_message e @
     [CHR 0x0A]"

text \<open>\<^verbatim>\<open>{:08}\<close> pads with zeros to eight digits.\<close>

definition pad8 :: "u64 \<Rightarrow> string" where
  "pad8 n = (let s = show_nat (unat n) in replicate (8 - length s) CHR ''0'' @ s)"

type_synonym 'a sink_op = "(DurableLogSink, error, 'a) io"

text \<open>\<open>disk_ok\<close> says whether the directory and the file can be written.\<close>

definition rotate_segment :: "log_fmt \<Rightarrow> bool \<Rightarrow> uuid \<Rightarrow> timestamp \<Rightarrow> unit sink_op" where
  "rotate_segment F disk_ok segment_id now = (\<lambda>s.
     if ds_segment_buffer s = [] then (Inr (), s)
     else
     let start_seq = le_sequence (hd (ds_segment_buffer s));
         end_seq = le_sequence (last (ds_segment_buffer s))
     in case ds_storage_dir s of
          Some storage_dir \<Rightarrow>
            if \<not> disk_ok then (Inl (Message ''i/o error''), s)
            else
            let file_path = storage_dir @ ''/'' @ lf_uuid_str F (ds_deployment_id s) @ ''/'' @
                  pad8 start_seq @ ''-'' @ pad8 end_seq @ ''.log'';
                contents = concat (map (log_line F) (ds_segment_buffer s));
                row = \<lparr>sg_id = segment_id, sg_deployment_id = ds_deployment_id s,
                       sg_project_id = ds_project_id s, sg_start_sequence = as_i64 start_seq,
                       sg_end_sequence = as_i64 end_seq, sg_storage_path = file_path,
                       sg_size_bytes = int (length contents), sg_created_at = now\<rparr>
            in (Inr (), s\<lparr>ds_handles := ds_handles s @ [PendingSegment row],
                          ds_files := ds_files s @ [(file_path, contents)], ds_segment_buffer := []\<rparr>)
        | None \<Rightarrow> (Inr (), s\<lparr>ds_segment_buffer := []\<rparr>))"

definition flush :: "log_fmt \<Rightarrow> bool \<Rightarrow> uuid \<Rightarrow> timestamp \<Rightarrow> unit sink_op" where
  "flush F disk_ok segment_id now = (\<lambda>s.
     if ds_segment_buffer s = [] then (Inr (), s) else rotate_segment F disk_ok segment_id now s)"

definition stream_str :: "LogStream \<Rightarrow> string" where
  "stream_str stream = (case stream of Stdout \<Rightarrow> ''stdout'' | Stderr \<Rightarrow> ''stderr'')"

definition write_line ::
  "log_fmt \<Rightarrow> bool \<Rightarrow> uuid \<Rightarrow> uuid \<Rightarrow> timestamp \<Rightarrow> LogStream \<Rightarrow> string \<Rightarrow> unit sink_op" where
  "write_line F disk_ok line_id segment_id now stream message = (\<lambda>s.
     let redacted = redact (ds_redactor s) message;
         seq = ds_sequence s + 1;
         entry = \<lparr>le_sequence = seq, le_timestamp = now, le_stream = stream_str stream,
                  le_message = redacted\<rparr>;
         row = \<lparr>lg_id = line_id, lg_deployment_id = ds_deployment_id s,
                lg_project_id = ds_project_id s, lg_sequence = as_i64 seq,
                lg_stream = stream_str stream, lg_message = redacted, lg_created_at = now\<rparr>;
         s1 = s\<lparr>ds_sequence := seq, ds_handles := ds_handles s @ [PendingLine row],
                ds_segment_buffer := ds_segment_buffer s @ [entry]\<rparr>
     in if ds_segment_threshold s1 \<le> length (ds_segment_buffer s1)
        then rotate_segment F disk_ok segment_id now s1 else (Inr (), s1))"

section \<open>The repository\<close>

definition entry_of_row :: "LogRow \<Rightarrow> LogEntry" where
  "entry_of_row r =
     \<lparr>le_sequence = as_u64 (lg_sequence r), le_timestamp = lg_created_at r,
      le_stream = lg_stream r, le_message = lg_message r\<rparr>"

definition log_insert_ok :: "LogRow \<Rightarrow> db \<Rightarrow> bool" where
  "log_insert_ok r d \<longleftrightarrow>
     \<not> has_key lg_id (lg_id r) (deployment_logs d)
     \<and> \<not> has_key (\<lambda>x. (lg_deployment_id x, lg_sequence x)) (lg_deployment_id r, lg_sequence r)
          (deployment_logs d)
     \<and> has_key d_id (lg_deployment_id r) (deployments d)
     \<and> has_key p_id (lg_project_id r) (projects d) \<and> varchar 16 (lg_stream r)"

definition append_log ::
  "uuid \<Rightarrow> uuid \<Rightarrow> u64 \<Rightarrow> string \<Rightarrow> string \<Rightarrow> timestamp \<Rightarrow> ('z, LogEntry) op" where
  "append_log deployment_id project_id sequence stream message created_at =
     and_then uuid_new_v4 (\<lambda>i.
     let r = \<lparr>lg_id = i, lg_deployment_id = deployment_id, lg_project_id = project_id,
              lg_sequence = as_i64 sequence, lg_stream = stream, lg_message = message,
              lg_created_at = created_at\<rparr>
     in and_then (insert_row ''failed to append deployment log'' (log_insert_ok r)
          (\<lambda>d. d\<lparr>deployment_logs := deployment_logs d @ [r]\<rparr>)) (\<lambda>_.
        ret (entry_of_row r)))"

definition log_rows :: "uuid \<Rightarrow> int \<Rightarrow> string option \<Rightarrow> db \<Rightarrow> LogRow list" where
  "log_rows deployment_id after_seq stream d =
     order_by lg_sequence (filter (\<lambda>r. lg_deployment_id r = deployment_id \<and> after_seq < lg_sequence r
       \<and> (case stream of None \<Rightarrow> True | Some s \<Rightarrow> lg_stream r = s)) (deployment_logs d))"

definition query_limit :: "LogQuery \<Rightarrow> nat" where
  "query_limit query = min (case lq_limit query of Some l \<Rightarrow> unat l | None \<Rightarrow> 100) 1000"

definition fetched_rows :: "uuid \<Rightarrow> LogQuery \<Rightarrow> db \<Rightarrow> LogRow list" where
  "fetched_rows deployment_id query d =
     take (query_limit query + 1)
       (log_rows deployment_id (as_i64 (case lq_after_sequence query of Some s \<Rightarrow> s | None \<Rightarrow> 0))
         (lq_stream query) d)"

definition logs_page :: "log_fmt \<Rightarrow> LogQuery \<Rightarrow> LogRow list \<Rightarrow> bool \<Rightarrow> LogsResponse" where
  "logs_page F query rows terminal =
     (let all_lines = map entry_of_row rows;
          has_more = query_limit query < length all_lines;
          lines = (if has_more then take (query_limit query) all_lines else all_lines)
      in \<lparr>lr_lines = lines,
          lr_next_sequence = (if lines = [] then None else Some (le_sequence (last lines))),
          lr_has_more = has_more, lr_is_terminal = terminal,
          lr_logs = concat (map (log_line F) lines)\<rparr>)"

definition is_terminal_status :: "DeploymentStatus option \<Rightarrow> bool" where
  "is_terminal_status s =
     (case s of Some DepFailed \<Rightarrow> True | Some DepCancelled \<Rightarrow> True | Some DepStopped \<Rightarrow> True | _ \<Rightarrow> False)"

definition query_logs :: "log_fmt \<Rightarrow> uuid \<Rightarrow> LogQuery \<Rightarrow> ('z, LogsResponse) op" where
  "query_logs F deployment_id query =
     and_then (select_rows ''failed to query deployment logs'' (fetched_rows deployment_id query)) (\<lambda>rows.
     and_then (select_rows ''failed to check deployment status''
       (\<lambda>d. map_option d_status (lookup_by d_id deployment_id (deployments d)))) (\<lambda>status.
     ret (logs_page F query rows (is_terminal_status status))))"

definition get_full_log :: "log_fmt \<Rightarrow> uuid \<Rightarrow> ('z, string) op" where
  "get_full_log F deployment_id =
     and_then (select_rows ''failed to fetch full deployment log'' (\<lambda>d. order_by lg_sequence
       (filter (\<lambda>r. lg_deployment_id r = deployment_id) (deployment_logs d)))) (\<lambda>rows.
     ret (concat (map (\<lambda>r. log_line F (entry_of_row r)) rows)))"

definition purge_logs_older_than :: "timestamp \<Rightarrow> ('z, u64) op" where
  "purge_logs_older_than threshold =
     and_then (statement ''failed to purge old deployment logs'' (\<lambda>d.
       (Inr (count_where (\<lambda>r. lg_created_at r < threshold) (deployment_logs d)),
        d\<lparr>deployment_logs := filter (\<lambda>r. \<not> lg_created_at r < threshold) (deployment_logs d)\<rparr>)))
     (\<lambda>affected.
     and_then (ignore (execute ''purge segments'' (\<lambda>d. d\<lparr>log_segments :=
       filter (\<lambda>r. \<not> sg_created_at r < threshold) (log_segments d)\<rparr>) :: ('z, unit) op)) (\<lambda>_.
     ret (of_nat affected)))"

definition record_segment :: "LogSegmentRecord \<Rightarrow> ('z, unit) op" where
  "record_segment segment =
     (let row = \<lparr>sg_id = lsr_id segment, sg_deployment_id = lsr_deployment_id segment,
          sg_project_id = lsr_project_id segment,
          sg_start_sequence = as_i64 (lsr_start_sequence segment),
          sg_end_sequence = as_i64 (lsr_end_sequence segment),
          sg_storage_path = lsr_storage_path segment,
          sg_size_bytes = as_i64 (lsr_size_bytes segment), sg_created_at = lsr_created_at segment\<rparr>
      in insert_row ''failed to record log segment''
           (\<lambda>d. \<not> has_key sg_id (sg_id row) (log_segments d)
              \<and> has_key d_id (sg_deployment_id row) (deployments d)
              \<and> has_key p_id (sg_project_id row) (projects d))
           (\<lambda>d. d\<lparr>log_segments := log_segments d @ [row]\<rparr>))"

definition list_segments :: "uuid \<Rightarrow> ('z, LogSegmentRecord list) op" where
  "list_segments deployment_id =
     select_rows ''failed to list log segments'' (\<lambda>d. map (\<lambda>r.
         \<lparr>lsr_id = sg_id r, lsr_deployment_id = sg_deployment_id r,
          lsr_project_id = sg_project_id r, lsr_start_sequence = as_u64 (sg_start_sequence r),
          lsr_end_sequence = as_u64 (sg_end_sequence r), lsr_storage_path = sg_storage_path r,
          lsr_size_bytes = as_u64 (sg_size_bytes r), lsr_created_at = sg_created_at r\<rparr>)
       (order_by sg_start_sequence
         (filter (\<lambda>r. sg_deployment_id r = deployment_id) (log_segments d))))"

end
