(* ===== verification/Logs_Correct.thy ===== *)
theory Logs_Correct
  imports Logs
begin

text \<open>
  The correctness of the logs: following the pages of the query gives exactly the whole log, and the
  sink loses, duplicates and reorders no line between the pending insertions, the segment files and its
  buffer.
\<close>

section \<open>Pages\<close>

text \<open>The rows of one deployment: distinct sequence numbers, which is a constraint of the table, positive, since a
  sink numbers its lines from one, and within the range of the column.\<close>

definition sequences_ok :: "db \<Rightarrow> bool" where
  "sequences_ok d \<longleftrightarrow>
     distinct (map (\<lambda>r. (lg_deployment_id r, lg_sequence r)) (deployment_logs d))
     \<and> list_all (\<lambda>r. 0 < lg_sequence r \<and> lg_sequence r < 2 ^ 63) (deployment_logs d)"

lemma log_rows_sorted: "sorted (map lg_sequence (log_rows dep s st d))"
  by (simp add: log_rows_def order_by_def)

lemma set_log_rows:
  "set (log_rows dep s st d) = {r \<in> set (deployment_logs d). lg_deployment_id r = dep \<and> s < lg_sequence r
     \<and> (case st of None \<Rightarrow> True | Some x \<Rightarrow> lg_stream r = x)}"
  by (auto simp: log_rows_def order_by_def)

lemma log_rows_distinct:
  assumes "sequences_ok d"
  shows "distinct (map lg_sequence (log_rows dep s st d))"
proof -
  have "inj_on lg_sequence {r \<in> set (deployment_logs d). lg_deployment_id r = dep}"
    using assms by (auto simp: sequences_ok_def distinct_map inj_on_def)
  moreover have "distinct (deployment_logs d)"
    using assms by (simp add: sequences_ok_def distinct_map)
  then have "distinct (log_rows dep s st d)" by (simp add: log_rows_def order_by_def distinct_sort)
  ultimately show ?thesis
    by (auto simp: distinct_map set_log_rows intro: inj_on_subset)
qed

lemma log_rows_later:
  assumes "s \<le> t"
  shows "log_rows dep t st d = filter (\<lambda>r. t < lg_sequence r) (log_rows dep s st d)"
proof -
  have "filter (\<lambda>r. lg_deployment_id r = dep \<and> t < lg_sequence r
        \<and> (case st of None \<Rightarrow> True | Some x \<Rightarrow> lg_stream r = x)) (deployment_logs d) =
      filter (\<lambda>r. t < lg_sequence r) (filter (\<lambda>r. lg_deployment_id r = dep \<and> s < lg_sequence r
        \<and> (case st of None \<Rightarrow> True | Some x \<Rightarrow> lg_stream r = x)) (deployment_logs d))"
    unfolding filter_filter by (rule filter_cong [OF refl]) (use assms in linarith)
  then show ?thesis by (simp only: log_rows_def order_by_def filter_sort)
qed

lemma filter_after_nth:
  assumes "sorted (map f xs)" and "distinct (map f xs)" and "n < length xs"
  shows "filter (\<lambda>x. f (xs ! n) < f x) xs = drop (Suc n) xs"
  using assms
proof (induction xs arbitrary: n)
  case (Cons x xs)
  show ?case
  proof (cases n)
    case 0
    have "\<forall>y\<in>set xs. f x < f y" using Cons.prems by (auto simp: order_less_le)
    then show ?thesis using 0 by (simp add: filter_id_conv)
  next
    case (Suc m)
    with Cons.prems have m: "m < length xs" by simp
    then have le: "f x \<le> f (xs ! m)" using Cons.prems(1) by simp
    have "filter (\<lambda>x. f (xs ! m) < f x) xs = drop (Suc m) xs" using Cons.IH [OF _ _ m] Cons.prems by simp
    then show ?thesis using Suc le by (simp add: not_less)
  qed
qed simp

text \<open>A reader that follows the pages: it asks for the lines after the last one it has seen until no
  more are announced, at most \<open>k\<close> times.\<close>

fun read_pages ::
  "log_fmt \<Rightarrow> uuid \<Rightarrow> u64 option \<Rightarrow> string option \<Rightarrow> nat \<Rightarrow> u64 \<Rightarrow> ('z, LogEntry list) op" where
  "read_pages F dep limit st 0 after = ret []"
| "read_pages F dep limit st (Suc k) after =
     and_then (query_logs F dep \<lparr>lq_after_sequence = Some after, lq_limit = limit, lq_stream = st\<rparr>)
     (\<lambda>page.
     if lr_has_more page
     then (case lr_next_sequence page of
         Some s \<Rightarrow> and_then (read_pages F dep limit st k s) (\<lambda>rest. ret (lr_lines page @ rest))
       | None \<Rightarrow> ret (lr_lines page))
     else ret (lr_lines page))"

text \<open>The same reader on the tables.\<close>

fun pages_of :: "log_fmt \<Rightarrow> uuid \<Rightarrow> u64 option \<Rightarrow> string option \<Rightarrow> db \<Rightarrow> nat \<Rightarrow> u64 \<Rightarrow> LogEntry list" where
  "pages_of F dep limit st d 0 after = []"
| "pages_of F dep limit st d (Suc k) after =
     (let q = \<lparr>lq_after_sequence = Some after, lq_limit = limit, lq_stream = st\<rparr>;
          page = logs_page F q (fetched_rows dep q d) False
      in lr_lines page @
         (if lr_has_more page
          then (case lr_next_sequence page of
              Some s \<Rightarrow> pages_of F dep limit st d k s | None \<Rightarrow> [])
          else []))"

lemma page_lines:
  assumes rows: "rows = log_rows dep (as_i64 after) st d" and n: "n = query_limit q"
    and q: "q = \<lparr>lq_after_sequence = Some after, lq_limit = limit, lq_stream = st\<rparr>"
  shows "lr_lines (logs_page F q (fetched_rows dep q d) b) = map entry_of_row (take n rows)"
    and "lr_has_more (logs_page F q (fetched_rows dep q d) b) \<longleftrightarrow> n < length rows"
proof -
  have "fetched_rows dep q d = take (n + 1) rows" by (simp add: fetched_rows_def rows n q)
  then show "lr_has_more (logs_page F q (fetched_rows dep q d) b) \<longleftrightarrow> n < length rows"
    and "lr_lines (logs_page F q (fetched_rows dep q d) b) = map entry_of_row (take n rows)"
    by (auto simp: logs_page_def n [symmetric] Let_def take_map)
qed

text \<open>After a full page of \<open>n\<close> rows, the rows after its last sequence number are the remaining ones.\<close>

lemma log_rows_next:
  assumes ok: "sequences_ok d" and rows: "rows = log_rows dep s st d" and s: "0 \<le> s" and n: "0 < n" "n \<le> length rows"
  obtains t where "0 < t" "as_i64 (as_u64 t) = t" "log_rows dep t st d = drop n rows"
    "map entry_of_row (take n rows) \<noteq> []" "le_sequence (last (map entry_of_row (take n rows))) = as_u64 t"
proof -
  define r where "r = rows ! (n - 1)"
  define t where "t = lg_sequence r"
  have "r \<in> set rows" using n by (simp add: r_def)
  then have r: "r \<in> set (deployment_logs d)" "s < t" by (auto simp: rows set_log_rows t_def)
  then have t: "0 < t" "t < 2 ^ 63" using ok by (auto simp: sequences_ok_def list_all_iff t_def)
  have ti: "as_i64 (as_u64 t) = t" using t uint_as_u64 [of t] as_i64_small [of "as_u64 t"] by simp
  have take: "take n rows \<noteq> []" using n by auto
  then have "last (take n rows) = r" using n by (simp add: last_conv_nth min_def r_def)
  then have "map entry_of_row (take n rows) \<noteq> []" "le_sequence (last (map entry_of_row (take n rows))) = as_u64 t"
    using take by (simp_all add: last_map entry_of_row_def t_def)
  moreover have "log_rows dep t st d = drop n rows"
    using log_rows_later [of s t dep st d] r(2) n
      filter_after_nth [of lg_sequence rows "n - 1"] log_rows_sorted log_rows_distinct [OF ok]
    by (simp add: rows t_def r_def)
  ultimately show thesis using that t(1) ti by blast
qed

lemma pages_of_complete:
  assumes ok: "sequences_ok d" and lim: "0 < query_limit \<lparr>lq_after_sequence = None, lq_limit = limit, lq_stream = st\<rparr>"
    and "0 \<le> as_i64 after"
  shows "length (log_rows dep (as_i64 after) st d) \<le> k \<Longrightarrow>
    pages_of F dep limit st d (Suc k) after = map entry_of_row (log_rows dep (as_i64 after) st d)"
  using assms(3)
proof (induction k arbitrary: after)
  case (0 after)
  then show ?case by (simp add: page_lines [OF refl refl refl] Let_def)
next
  case (Suc k after)
  define q where "q = \<lparr>lq_after_sequence = Some after, lq_limit = limit, lq_stream = st\<rparr>"
  define n where "n = query_limit q"
  define rows where "rows = log_rows dep (as_i64 after) st d"
  have n: "0 < n" using lim by (simp add: n_def q_def query_limit_def)
  note page = page_lines [OF rows_def n_def q_def, of F False]
  show ?case
  proof (cases "n < length rows")
    case False
    then show ?thesis using page by (simp add: q_def [symmetric] Let_def rows_def [symmetric])
  next
    case True
    from log_rows_next [OF ok rows_def Suc.prems(2) n less_imp_le [OF True]] obtain t where t: "0 < t"
      and ti: "as_i64 (as_u64 t) = t" and rest: "log_rows dep t st d = drop n rows"
      and line: "map entry_of_row (take n rows) \<noteq> []" "le_sequence (last (map entry_of_row (take n rows))) = as_u64 t" .
    then have nxt: "lr_next_sequence (logs_page F q (fetched_rows dep q d) False) = Some (as_u64 t)"
      using page(1) by (auto simp: logs_page_def Let_def)
    have "pages_of F dep limit st d (Suc k) (as_u64 t) = map entry_of_row (drop n rows)"
      using Suc.IH [of "as_u64 t"] Suc.prems(1) n t True
      by (simp add: ti rest rows_def [symmetric] del: pages_of.simps)
    then show ?thesis
      using page True nxt by (simp add: q_def [symmetric] Let_def rows_def [symmetric] flip: map_append)
  qed
qed

lemma query_logs_run:
  assumes "no_db_faults w"
  obtains b t where "query_logs F dep q w = (Inr (logs_page F q (fetched_rows dep q (db w)) b), w\<lparr>tick := t\<rparr>)"
  using assms by (auto simp: query_logs_def io_simps)

lemma logs_page_status:
  "lr_lines (logs_page F q rows b) = lr_lines (logs_page F q rows False)"
  "lr_has_more (logs_page F q rows b) = lr_has_more (logs_page F q rows False)"
  "lr_next_sequence (logs_page F q rows b) = lr_next_sequence (logs_page F q rows False)"
  by (simp_all add: logs_page_def Let_def)

lemma read_pages_run:
  assumes "no_db_faults w"
  shows "\<exists>t. read_pages F dep limit st k after w =
    (Inr (pages_of F dep limit st (db w) k after), w\<lparr>tick := t\<rparr>)"
  using assms
proof (induction k arbitrary: after w)
  case 0
  show ?case by (rule exI [of _ "tick w"]) (simp add: io_simps)
next
  case (Suc k after w)
  let ?q = "\<lparr>lq_after_sequence = Some after, lq_limit = limit, lq_stream = st\<rparr>"
  obtain b t where q: "query_logs F dep ?q w =
      (Inr (logs_page F ?q (fetched_rows dep ?q (db w)) b), w\<lparr>tick := t\<rparr>)"
    using Suc.prems by (rule query_logs_run)
  have IH: "\<exists>t'. read_pages F dep limit st k s (w\<lparr>tick := t\<rparr>) =
      (Inr (pages_of F dep limit st (db w) k s), w\<lparr>tick := t'\<rparr>)" for s
    using Suc.IH [of "w\<lparr>tick := t\<rparr>" s] Suc.prems by simp
  show ?case
  proof (cases "lr_has_more (logs_page F ?q (fetched_rows dep ?q (db w)) False)")
    case False
    then show ?thesis using q by (auto simp: io_simps logs_page_status [of F ?q _ b] Let_def)
  next
    case True
    show ?thesis
    proof (cases "lr_next_sequence (logs_page F ?q (fetched_rows dep ?q (db w)) False)")
      case None
      then show ?thesis using q True by (auto simp: io_simps logs_page_status [of F ?q _ b] Let_def)
    next
      case (Some s)
      obtain t' where "read_pages F dep limit st k s (w\<lparr>tick := t\<rparr>) =
          (Inr (pages_of F dep limit st (db w) k s), w\<lparr>tick := t'\<rparr>)" using IH by blast
      then show ?thesis
        using q True Some by (auto simp: io_simps logs_page_status [of F ?q _ b] Let_def)
    qed
  qed
qed

definition full_log :: "uuid \<Rightarrow> string option \<Rightarrow> db \<Rightarrow> LogRow list" where
  "full_log dep st d = sort_key lg_sequence (filter (\<lambda>r. lg_deployment_id r = dep
     \<and> (case st of None \<Rightarrow> True | Some s \<Rightarrow> lg_stream r = s)) (deployment_logs d))"

lemma pages_of_full:
  assumes "sequences_ok d" and "limit \<noteq> Some 0"
  shows "pages_of F dep limit st d (Suc (length (deployment_logs d))) 0 = map entry_of_row (full_log dep st d)"
proof -
  have lim: "0 < query_limit \<lparr>lq_after_sequence = None, lq_limit = limit, lq_stream = st\<rparr>"
    using assms(2) by (auto simp: query_limit_def unat_gt_0 split: option.splits)
  have "length (log_rows dep 0 st d) \<le> length (deployment_logs d)"
    by (simp add: log_rows_def order_by_def)
  then have "pages_of F dep limit st d (Suc (length (deployment_logs d))) 0 =
      map entry_of_row (log_rows dep 0 st d)"
    using pages_of_complete [OF assms(1) lim, of 0 dep] by (simp add: as_i64_def)
  also have "filter (\<lambda>r. lg_deployment_id r = dep \<and> 0 < lg_sequence r
        \<and> (case st of None \<Rightarrow> True | Some s \<Rightarrow> lg_stream r = s)) (deployment_logs d) =
      filter (\<lambda>r. lg_deployment_id r = dep \<and> (case st of None \<Rightarrow> True | Some s \<Rightarrow> lg_stream r = s))
        (deployment_logs d)"
    using assms(1) by (intro filter_cong) (auto simp: sequences_ok_def list_all_iff)
  then have "log_rows dep 0 st d = full_log dep st d"
    by (simp add: log_rows_def order_by_def full_log_def)
  finally show ?thesis .
qed

text \<open>C26. Reading a log page by page is the same as reading it at once: for every page size from one up,
  following the announced sequence numbers from the beginning returns every line of the deployment and
  stream exactly once and in order, after at most one request more than there are lines; for all streams
  together these are the lines of the full log.\<close>

theorem pages_are_full_log:
  assumes "no_db_faults w" and "sequences_ok (db w)" and "limit \<noteq> Some 0"
  shows "fst (read_pages F dep limit st (Suc (length (deployment_logs (db w)))) 0 w) =
      Inr (map entry_of_row (full_log dep st (db w)))
    \<and> fst (get_full_log F dep w) =
      Inr (concat (map (log_line F) (map entry_of_row (full_log dep None (db w)))))"
proof
  show "fst (read_pages F dep limit st (Suc (length (deployment_logs (db w)))) 0 w) =
      Inr (map entry_of_row (full_log dep st (db w)))"
    using read_pages_run [OF assms(1)] pages_of_full [OF assms(2,3)] by (metis fst_conv)
  show "fst (get_full_log F dep w) =
      Inr (concat (map (log_line F) (map entry_of_row (full_log dep None (db w)))))"
    using assms(1) by (simp add: get_full_log_def full_log_def io_simps order_by_def comp_def)
qed

definition demo_log_row :: "int \<Rightarrow> string \<Rightarrow> LogRow" where
  "demo_log_row n m = \<lparr>lg_id = word_of_int (50 + n), lg_deployment_id = 3, lg_project_id = 1,
     lg_sequence = n, lg_stream = ''stdout'', lg_message = m, lg_created_at = 0\<rparr>"

definition demo_log_world :: world where
  "demo_log_world = demo_world\<lparr>db := demo_db\<lparr>deployment_logs :=
     [demo_log_row 2 ''b'', demo_log_row 1 ''a'', demo_log_row 3 ''c'']\<rparr>\<rparr>"

definition demo_log_fmt :: log_fmt where
  "demo_log_fmt = \<lparr>lf_rfc3339 = (\<lambda>t. None), lf_uuid_str = (\<lambda>u. ''d'')\<rparr>"

theorem pages_are_full_log_witness:
  "map_sum id (map le_message) (fst (read_pages demo_log_fmt 3 (Some 2) None 4 0 demo_log_world)) =
     Inr [''a'', ''b'', ''c'']"
proof -
  have "fst (read_pages demo_log_fmt 3 (Some 2) None (Suc (length (deployment_logs (db demo_log_world)))) 0
      demo_log_world) = Inr (map entry_of_row (full_log 3 None (db demo_log_world)))"
    by (rule pages_are_full_log [THEN conjunct1])
      (simp_all add: demo_log_world_def demo_world_def sequences_ok_def demo_log_row_def)
  moreover have "length (deployment_logs (db demo_log_world)) = 3" by (simp add: demo_log_world_def)
  moreover have "map entry_of_row (full_log 3 None (db demo_log_world)) =
      map entry_of_row [demo_log_row 1 ''a'', demo_log_row 2 ''b'', demo_log_row 3 ''c'']"
    by (simp add: full_log_def demo_log_world_def demo_log_row_def)
  ultimately show ?thesis by (simp add: entry_of_row_def demo_log_row_def)
qed

section \<open>The sink\<close>

text \<open>One call of \<open>write_line\<close>: whether the disk can be written, the identifiers and the time it is
  given, and the line.\<close>

type_synonym line_call = "bool \<times> uuid \<times> uuid \<times> timestamp \<times> LogStream \<times> string"

fun write_lines :: "log_fmt \<Rightarrow> line_call list \<Rightarrow> DurableLogSink \<Rightarrow> DurableLogSink" where
  "write_lines F [] s = s"
| "write_lines F ((ok, i, j, now, stream, m) # cs) s =
     write_lines F cs (snd (write_line F ok i j now stream m s))"

fun numbered :: "Redactor \<Rightarrow> u64 \<Rightarrow> line_call list \<Rightarrow> LogEntry list" where
  "numbered R n [] = []"
| "numbered R n ((ok, i, j, now, stream, m) # cs) =
     \<lparr>le_sequence = n + 1, le_timestamp = now, le_stream = stream_str stream, le_message = redact R m\<rparr> #
     numbered R (n + 1) cs"

fun line_rows :: "pending list \<Rightarrow> LogRow list" where
  "line_rows [] = []"
| "line_rows (PendingLine r # hs) = r # line_rows hs"
| "line_rows (PendingSegment g # hs) = line_rows hs"

definition stored_text :: "log_fmt \<Rightarrow> DurableLogSink \<Rightarrow> string" where
  "stored_text F s = concat (map snd (ds_files s)) @ concat (map (log_line F) (ds_segment_buffer s))"

lemma line_rows_append [simp]: "line_rows (xs @ ys) = line_rows xs @ line_rows ys"
  by (induction xs rule: line_rows.induct) simp_all

lemma rotate_segment_keeps:
  fixes F ok j now and s :: DurableLogSink
  defines "t \<equiv> snd (rotate_segment F ok j now s)"
  shows "line_rows (ds_handles t) = line_rows (ds_handles s)" "ds_sequence t = ds_sequence s"
    "ds_redactor t = ds_redactor s" "ds_storage_dir t = ds_storage_dir s"
    "ds_storage_dir s \<noteq> None \<Longrightarrow> stored_text F t = stored_text F s"
  by (auto simp: t_def rotate_segment_def Let_def stored_text_def split: option.splits)

lemma write_line_adds:
  fixes F ok i j now stream m and s :: DurableLogSink
  defines "t \<equiv> snd (write_line F ok i j now stream m s)"
    and "e \<equiv> \<lparr>le_sequence = ds_sequence s + 1, le_timestamp = now, le_stream = stream_str stream,
      le_message = redact (ds_redactor s) m\<rparr>"
  shows "map entry_of_row (line_rows (ds_handles t)) = map entry_of_row (line_rows (ds_handles s)) @ [e]"
    "ds_sequence t = ds_sequence s + 1" "ds_redactor t = ds_redactor s"
    "ds_storage_dir t = ds_storage_dir s"
    "ds_storage_dir s \<noteq> None \<Longrightarrow> stored_text F t = stored_text F s @ log_line F e"
  by (auto simp: t_def e_def write_line_def Let_def rotate_segment_keeps entry_of_row_def)
    (simp_all add: stored_text_def)

lemma write_lines_from:
  "map entry_of_row (line_rows (ds_handles (write_lines F cs s))) =
     map entry_of_row (line_rows (ds_handles s)) @ numbered (ds_redactor s) (ds_sequence s) cs"
  "ds_storage_dir s \<noteq> None \<Longrightarrow> stored_text F (write_lines F cs s) =
     stored_text F s @ concat (map (log_line F) (numbered (ds_redactor s) (ds_sequence s) cs))"
  by (induction F cs s rule: write_lines.induct) (simp_all add: write_line_adds)

text \<open>The sink loses, duplicates and reorders no line: whatever writes of segment files fail, the rows
  it submits for a build are exactly the redacted lines in the order they came, numbered from one, and
  the segment files followed by the lines still buffered spell out exactly the same log.\<close>

theorem sink_keeps_every_line:
  assumes "s = write_lines F cs (new_sink dep proj R (Some dir) threshold)"
  shows "map entry_of_row (line_rows (ds_handles s)) = numbered R 0 cs
    \<and> concat (map snd (ds_files s)) @ concat (map (log_line F) (ds_segment_buffer s)) =
      concat (map (log_line F) (numbered R 0 cs))"
  using write_lines_from [where F = F and cs = cs and s = "new_sink dep proj R (Some dir) threshold"] assms
  by (simp_all add: new_sink_def stored_text_def)

definition demo_redactor :: Redactor where
  "demo_redactor = \<lparr>secret_fingerprints = [''pw''], re_private_key = id, re_aws = id, re_bearer = id,
     re_tokens = id, re_assignment = id\<rparr>"

theorem sink_keeps_every_line_witness:
  "map le_message (map entry_of_row (line_rows (ds_handles (write_lines demo_log_fmt
     [(True, 1, 2, 0, Stdout, ''a''), (False, 3, 4, 1, Stderr, ''x=pw'')]
     (new_sink 3 1 demo_redactor (Some ''logs'') 1))))) = [''a'', ''x=[REDACTED]'']"
  unfolding sink_keeps_every_line [OF refl, THEN conjunct1] by code_simp

end
