(* ===== verification/Repository.thy ===== *)
theory Repository
  imports Providers Logs
begin

text \<open>
  \<^verbatim>\<open>src/repository.rs\<close>: the SQL wrappers for users, projects, deployments, audit events and the
  connections to source providers.  A path is its bytes; \<^verbatim>\<open>to_str\<close> fails on bytes that are not UTF-8.
  The collation of text columns and the formatter of identifiers and time stamps are parameters.
\<close>

section \<open>Shared statements\<close>

definition path_to_str :: "string \<Rightarrow> string option" where
  "path_to_str p = (if valid_utf8 p then Some p else None)"

definition fetch_required :: "string \<Rightarrow> error \<Rightarrow> (db \<Rightarrow> 'a option) \<Rightarrow> ('z, 'a) op" where
  "fetch_required context missing f =
     and_then (select_rows context f) (\<lambda>row. of_option missing row)"

section \<open>Users\<close>

definition create_user :: "uuid \<Rightarrow> string \<Rightarrow> string \<Rightarrow> string \<Rightarrow> timestamp \<Rightarrow> ('z, UserRecord) op" where
  "create_user i email password_hash name created_at =
     (let row = \<lparr>u_id = i, u_email = email, u_password_hash = password_hash, u_name = name,
                 u_created_at = created_at\<rparr>
      in and_then (insert_row ''failed to insert user''
           (\<lambda>d. \<not> has_key u_id i (users d) \<and> \<not> has_key u_email email (users d))
           (\<lambda>d. d\<lparr>users := users d @ [row]\<rparr>)) (\<lambda>_. ret row))"

definition get_by_id :: "uuid \<Rightarrow> ('z, UserRecord) op" where
  "get_by_id i = fetch_required ''failed to query user by id'' (Message ''user not found'')
     (\<lambda>d. lookup_by u_id i (users d))"

definition get_by_email :: "string \<Rightarrow> ('z, UserRecord) op" where
  "get_by_email email = fetch_required ''failed to query user by email''
     (Message ''user not found with email'') (\<lambda>d. lookup_by u_email email (users d))"

section \<open>Projects\<close>

record CreateProjectRecord =
  cp_id :: uuid
  cp_user_id :: uuid
  cp_name :: string
  cp_source_dir :: string
  cp_base_image :: string
  cp_server_command :: "string list"
  cp_created_at :: timestamp

record ProjectRecord =
  pj_id :: uuid
  pj_user_id :: uuid
  pj_name :: string
  pj_source_dir :: string
  pj_base_image :: string
  pj_server_command :: "string list"
  pj_active_deployment :: "uuid option"
  pj_created_at :: timestamp

definition project_row :: "CreateProjectRecord \<Rightarrow> ProjectRow" where
  "project_row c =
     \<lparr>p_id = cp_id c, p_user_id = cp_user_id c, p_name = cp_name c,
      p_source_dir = unwrap_or (path_to_str (cp_source_dir c)) [],
      p_base_image = unwrap_or (path_to_str (cp_base_image c)) [],
      p_server_command = cp_server_command c, p_active_deployment = None,
      p_created_at = cp_created_at c, p_repository_id = None, p_webhook_secret = None,
      p_target_branch = Some ''main''\<rparr>"

definition project_record :: "ProjectRow \<Rightarrow> ProjectRecord" where
  "project_record r =
     \<lparr>pj_id = p_id r, pj_user_id = p_user_id r, pj_name = p_name r,
      pj_source_dir = p_source_dir r, pj_base_image = p_base_image r,
      pj_server_command = p_server_command r, pj_active_deployment = p_active_deployment r,
      pj_created_at = p_created_at r\<rparr>"

definition create_project_row :: "CreateProjectRecord \<Rightarrow> ('z, ProjectRecord) op" where
  "create_project_row c =
     and_then (insert_row ''failed to create project''
       (\<lambda>d. \<not> has_key p_id (cp_id c) (projects d)
          \<and> \<not> has_key (\<lambda>r. (p_user_id r, p_name r)) (cp_user_id c, cp_name c) (projects d)
          \<and> has_key u_id (cp_user_id c) (users d))
       (\<lambda>d. d\<lparr>projects := projects d @ [project_row c]\<rparr>)) (\<lambda>_.
     ret \<lparr>pj_id = cp_id c, pj_user_id = cp_user_id c, pj_name = cp_name c,
          pj_source_dir = cp_source_dir c, pj_base_image = cp_base_image c,
          pj_server_command = cp_server_command c, pj_active_deployment = None,
          pj_created_at = cp_created_at c\<rparr>)"

definition get_project :: "uuid \<Rightarrow> ('z, ProjectRecord) op" where
  "get_project i =
     and_then (fetch_required ''failed to query project'' (ProjectNotFound i)
       (\<lambda>d. lookup_by p_id i (projects d))) (\<lambda>r. ret (project_record r))"

definition list_projects :: "uuid \<Rightarrow> ('z, ProjectRecord list) op" where
  "list_projects user_id =
     select_rows ''failed to list projects'' (\<lambda>d. map project_record
       (order_by p_created_at (filter (\<lambda>r. p_user_id r = user_id) (projects d))))"

definition update_projects :: "string \<Rightarrow> uuid \<Rightarrow> (ProjectRow \<Rightarrow> ProjectRow) \<Rightarrow> ('z, unit) op" where
  "update_projects context i f =
     execute context (\<lambda>d. d\<lparr>projects := update_where (\<lambda>r. p_id r = i) f (projects d)\<rparr>)"

definition update_active_deployment :: "uuid \<Rightarrow> uuid option \<Rightarrow> ('z, unit) op" where
  "update_active_deployment i deployment_id =
     update_projects ''failed to update active deployment'' i
       (\<lambda>r. r\<lparr>p_active_deployment := deployment_id\<rparr>)"

record ProjectSourceDetails =
  sd_repository :: "ProviderRepositoryRecord option"
  sd_provider :: "string option"
  sd_target_branch :: "string option"
  sd_webhook_url :: "string option"
  sd_has_webhook_secret :: bool
  sd_last_delivery_at :: "string option"

definition joined_repository :: "ProjectRow \<Rightarrow> db \<Rightarrow> ProviderRepositoryRecord option" where
  "joined_repository p d =
     Option.bind (p_repository_id p) (\<lambda>i. lookup_by pr_id i (provider_repositories d))"

definition joined_provider :: "ProjectRow \<Rightarrow> db \<Rightarrow> string option" where
  "joined_provider p d =
     Option.bind (joined_repository p d) (\<lambda>r.
       map_option (\<lambda>c. Provider_fmt (pc_provider c))
         (lookup_by pc_id (pr_connection_id r) (provider_connections d)))"

definition last_delivery :: "uuid \<Rightarrow> db \<Rightarrow> timestamp option" where
  "last_delivery project_id d =
     map_option dl_created_at (first_row (order_by_desc dl_created_at
       (filter (\<lambda>r. dl_project_id r = Some project_id) (provider_deliveries d))))"

definition get_project_source :: "log_fmt \<Rightarrow> uuid \<Rightarrow> ('z, ProjectSourceDetails) op" where
  "get_project_source F project_id =
     and_then (fetch_required ''failed to query project source'' (ProjectNotFound project_id)
       (\<lambda>d. map_option (\<lambda>p. (p, joined_repository p d, joined_provider p d))
              (lookup_by p_id project_id (projects d)))) (\<lambda>(p, repository, provider).
     and_then (select_rows ''failed to query last delivery'' (last_delivery project_id)) (\<lambda>at.
     ret \<lparr>sd_repository = repository, sd_provider = provider,
          sd_target_branch = p_target_branch p,
          sd_webhook_url = map_option (\<lambda>s. ''/v1/webhooks/'' @ s @ ''/'' @ lf_uuid_str F project_id)
            provider,
          sd_has_webhook_secret = (p_webhook_secret p \<noteq> None),
          sd_last_delivery_at = map_option (rfc3339_or_default F) at\<rparr>))"

definition set_project_source :: "uuid \<Rightarrow> uuid \<Rightarrow> string \<Rightarrow> string \<Rightarrow> ('z, unit) op" where
  "set_project_source project_id repository_id target_branch default_secret =
     statement ''failed to update project source'' (\<lambda>d.
       if has_key p_id project_id (projects d)
          \<and> \<not> has_key pr_id repository_id (provider_repositories d)
       then (Inl (Database ''failed to update project source''), d)
       else (Inr (), d\<lparr>projects := update_where (\<lambda>r. p_id r = project_id)
              (\<lambda>r. r\<lparr>p_repository_id := Some repository_id,
                     p_webhook_secret := coalesce (p_webhook_secret r) (Some default_secret),
                     p_target_branch := Some target_branch\<rparr>) (projects d)\<rparr>))"

definition disconnect_project_source :: "uuid \<Rightarrow> ('z, unit) op" where
  "disconnect_project_source project_id =
     update_projects ''failed to disconnect project source'' project_id
       (\<lambda>r. r\<lparr>p_repository_id := None\<rparr>)"

section \<open>Deployments\<close>

definition parse_status :: "string \<Rightarrow> DeploymentStatus" where
  "parse_status s =
     (if s = ''building'' then DepBuilding
      else if s = ''running'' then DepRunning
      else if s = ''failed'' then DepFailed
      else if s = ''stopped'' then DepStopped
      else DepPending)"

fun status_to_str :: "DeploymentStatus \<Rightarrow> string" where
  "status_to_str DepPending = ''pending''"
| "status_to_str DepQueued = ''queued''"
| "status_to_str DepBuilding = ''building''"
| "status_to_str DepRunning = ''running''"
| "status_to_str DepFailed = ''failed''"
| "status_to_str DepStopped = ''stopped''"
| "status_to_str DepCancelled = ''cancelled''"

record CreateDeploymentRecord =
  cd_id :: uuid
  cd_project_id :: uuid
  cd_framework :: Framework
  cd_status :: DeploymentStatus
  cd_image_path :: "string option"
  cd_container_id :: "uuid option"
  cd_port :: "u16 option"
  cd_url :: "string option"
  cd_created_at :: timestamp

record DeploymentRecord =
  dr_id :: uuid
  dr_project_id :: uuid
  dr_framework :: Framework
  dr_status :: DeploymentStatus
  dr_image_path :: "string option"
  dr_container_id :: "uuid option"
  dr_port :: "u16 option"
  dr_url :: "string option"
  dr_error :: "string option"
  dr_created_at :: timestamp
  dr_finished_at :: "timestamp option"

text \<open>The columns that the statement leaves out have their defaults.\<close>

definition deployment_row :: "CreateDeploymentRecord \<Rightarrow> Deployment" where
  "deployment_row c =
     \<lparr>d_id = cd_id c, d_project_id = cd_project_id c, d_framework = StaticSite,
      d_status = cd_status c, d_image_path = Option.bind (cd_image_path c) path_to_str,
      d_container_id = cd_container_id c, d_port = map_option uint (cd_port c), d_url = cd_url c,
      d_created_at = cd_created_at c, d_finished_at = None, d_error = None, d_commit_sha = None,
      d_target = ''production'', d_cause = ''deploy'', d_rollback_from = None\<rparr>"

definition deployment_record :: "Deployment \<Rightarrow> DeploymentRecord" where
  "deployment_record r =
     \<lparr>dr_id = d_id r, dr_project_id = d_project_id r, dr_framework = StaticSite,
      dr_status = parse_status (status_to_str (d_status r)), dr_image_path = d_image_path r,
      dr_container_id = d_container_id r, dr_port = map_option word_of_int (d_port r),
      dr_url = d_url r, dr_error = d_error r, dr_created_at = d_created_at r,
      dr_finished_at = d_finished_at r\<rparr>"

definition create_deployment :: "CreateDeploymentRecord \<Rightarrow> ('z, DeploymentRecord) op" where
  "create_deployment c =
     and_then (insert_row ''failed to insert deployment''
       (\<lambda>d. \<not> has_key d_id (cd_id c) (deployments d) \<and> has_key p_id (cd_project_id c) (projects d))
       (\<lambda>d. d\<lparr>deployments := deployments d @ [deployment_row c]\<rparr>)) (\<lambda>_.
     ret \<lparr>dr_id = cd_id c, dr_project_id = cd_project_id c, dr_framework = cd_framework c,
          dr_status = cd_status c, dr_image_path = cd_image_path c,
          dr_container_id = cd_container_id c, dr_port = cd_port c, dr_url = cd_url c,
          dr_error = None, dr_created_at = cd_created_at c, dr_finished_at = None\<rparr>)"

definition get_deployment :: "uuid \<Rightarrow> ('z, DeploymentRecord) op" where
  "get_deployment i =
     and_then (fetch_required ''failed to query deployment'' (Message ''deployment not found'')
       (\<lambda>d. lookup_by d_id i (deployments d))) (\<lambda>r. ret (deployment_record r))"

definition list_deployments :: "uuid \<Rightarrow> ('z, DeploymentRecord list) op" where
  "list_deployments project_id =
     select_rows ''failed to list deployments'' (\<lambda>d. map deployment_record
       (order_by d_created_at (filter (\<lambda>r. d_project_id r = project_id) (deployments d))))"

definition update_deployment_status :: "uuid \<Rightarrow> DeploymentStatus \<Rightarrow> u16 option \<Rightarrow> string option \<Rightarrow>
   timestamp option \<Rightarrow> string option \<Rightarrow> ('z, unit) op" where
  "update_deployment_status i status port url finished_at err =
     execute ''failed to update deployment'' (\<lambda>d. d\<lparr>deployments :=
       update_where (\<lambda>r. d_id r = i)
         (\<lambda>r. r\<lparr>d_status := status, d_port := coalesce (map_option uint port) (d_port r),
                d_url := coalesce url (d_url r),
                d_finished_at := coalesce finished_at (d_finished_at r),
                d_error := coalesce err (d_error r)\<rparr>) (deployments d)\<rparr>)"

section \<open>Audit events\<close>

definition audit_record :: "AuditEvent \<Rightarrow> ('z, unit) op" where
  "audit_record event =
     insert_row ''failed to insert audit event''
       (\<lambda>d. \<not> has_key au_id (au_id event) (audit_events d)
          \<and> (case au_user_id event of Some u \<Rightarrow> has_key u_id u (users d) | None \<Rightarrow> True))
       (\<lambda>d. d\<lparr>audit_events := audit_events d @ [event]\<rparr>)"

definition list_audit_by_user :: "uuid \<Rightarrow> ('z, AuditEvent list) op" where
  "list_audit_by_user user_id =
     select_rows ''failed to list audit events'' (\<lambda>d. order_by_desc au_occurred_at
       (filter (\<lambda>e. au_user_id e = Some user_id) (audit_events d)))"

section \<open>Provider connections\<close>

definition save_oauth_state :: "string \<Rightarrow> uuid \<Rightarrow> Provider \<Rightarrow> string option \<Rightarrow> timestamp \<Rightarrow> timestamp \<Rightarrow>
   ('z, unit) op" where
  "save_oauth_state state user_id provider redirect_url expires_at created_at =
     insert_row ''failed to insert oauth state''
       (\<lambda>d. \<not> has_key os_state state (oauth_states d) \<and> has_key u_id user_id (users d))
       (\<lambda>d. d\<lparr>oauth_states := oauth_states d @
          [\<lparr>os_state = state, os_user_id = user_id, os_provider = provider,
            os_redirect_url = redirect_url, os_expires_at = expires_at,
            os_created_at = created_at\<rparr>]\<rparr>)"

text \<open>The clock of \<^verbatim>\<open>NOW()\<close> is read with the statement.\<close>

definition consume_oauth_state :: "string \<Rightarrow> ('z, OAuthStateRecord option) op" where
  "consume_oauth_state state =
     and_then now_utc (\<lambda>db_now.
     statement ''failed to consume oauth state'' (\<lambda>d.
       let P = (\<lambda>r. os_state r = state \<and> db_now < os_expires_at r)
       in (Inr (first_row (filter P (oauth_states d))),
           d\<lparr>oauth_states := filter (\<lambda>r. \<not> P r) (oauth_states d)\<rparr>)))"

definition merge_connection ::
  "ProviderConnectionRecord \<Rightarrow> ProviderConnectionRecord \<Rightarrow> ProviderConnectionRecord" where
  "merge_connection excluded r =
     r\<lparr>pc_external_user_id := pc_external_user_id excluded,
       pc_access_token_encrypted := pc_access_token_encrypted excluded,
       pc_refresh_token_encrypted := pc_refresh_token_encrypted excluded,
       pc_expires_at := pc_expires_at excluded, pc_updated_at := pc_updated_at excluded\<rparr>"

definition upsert_connection :: "ProviderConnectionRecord \<Rightarrow> ('z, ProviderConnectionRecord) op" where
  "upsert_connection input =
     statement ''failed to upsert provider connection'' (\<lambda>d.
       if \<not> has_key u_id (pc_user_id input) (users d)
       then (Inl (Database ''failed to upsert provider connection''), d)
       else case upsert_into
           (\<lambda>r. pc_user_id r = pc_user_id input \<and> pc_provider r = pc_provider input)
           (merge_connection input) pc_id input (provider_connections d) of
         Some (r, t) \<Rightarrow> (Inr r, d\<lparr>provider_connections := t\<rparr>)
       | None \<Rightarrow> (Inl (Database ''failed to upsert provider connection''), d))"

definition get_connection :: "uuid \<Rightarrow> Provider \<Rightarrow> ('z, ProviderConnectionRecord option) op" where
  "get_connection user_id provider =
     select_rows ''failed to get provider connection'' (\<lambda>d. first_row (filter
       (\<lambda>r. pc_user_id r = user_id \<and> pc_provider r = provider) (provider_connections d)))"

record RemoteRepository =
  rm_external_id :: string
  rm_full_name :: string
  rm_clone_url :: string
  rm_default_branch :: string

definition merge_repository ::
  "ProviderRepositoryRecord \<Rightarrow> ProviderRepositoryRecord \<Rightarrow> ProviderRepositoryRecord" where
  "merge_repository excluded r =
     r\<lparr>pr_full_name := pr_full_name excluded, pr_clone_url := pr_clone_url excluded,
       pr_default_branch := pr_default_branch excluded, pr_synced_at := pr_synced_at excluded\<rparr>"

definition save_repository :: "uuid \<Rightarrow> timestamp \<Rightarrow> RemoteRepository \<Rightarrow> ('z, unit) op" where
  "save_repository connection_id synced_at repo =
     and_then uuid_new_v4 (\<lambda>i.
     let row = \<lparr>pr_id = i, pr_connection_id = connection_id, pr_external_id = rm_external_id repo,
                pr_full_name = rm_full_name repo, pr_clone_url = rm_clone_url repo,
                pr_default_branch = rm_default_branch repo, pr_synced_at = synced_at\<rparr>
     in statement ''failed to save repository'' (\<lambda>d.
          if \<not> has_key pc_id connection_id (provider_connections d)
          then (Inl (Database ''failed to save repository''), d)
          else case upsert_into
              (\<lambda>r. pr_connection_id r = connection_id \<and> pr_external_id r = rm_external_id repo)
              (merge_repository row) pr_id row (provider_repositories d) of
            Some (r, t) \<Rightarrow> (Inr (), d\<lparr>provider_repositories := t\<rparr>)
          | None \<Rightarrow> (Inl (Database ''failed to save repository''), d)))"

definition save_repositories :: "uuid \<Rightarrow> RemoteRepository list \<Rightarrow> timestamp \<Rightarrow> ('z, unit) op" where
  "save_repositories connection_id repos synced_at =
     fold_io (\<lambda>repo _. save_repository connection_id synced_at repo) repos ()"

definition list_repositories :: "(string \<Rightarrow> 'k::linorder) \<Rightarrow> uuid \<Rightarrow> Provider \<Rightarrow>
   ('z, ProviderRepositoryRecord list) op" where
  "list_repositories collation user_id provider =
     select_rows ''failed to list provider repositories'' (\<lambda>d.
       order_by (\<lambda>r. collation (pr_full_name r)) (filter (\<lambda>r.
         list_ex (\<lambda>c. pc_id c = pr_connection_id r \<and> pc_user_id c = user_id \<and> pc_provider c = provider)
           (provider_connections d)) (provider_repositories d)))"

end
