(* ===== verification/Auth.thy ===== *)
theory Auth
  imports Repository
begin

text \<open>
  \<^verbatim>\<open>src/auth.rs\<close>: passwords, sessions, API tokens, scopes and the audit service.  Argon2, SHA-256 in hex
  and the random generator of the operating system are parameters; what is drawn at random depends on the
  number of the interaction.
\<close>

record auth_lib =
  al_hash_password :: "nat \<Rightarrow> string \<Rightarrow> error + string"
  al_hash_valid :: "string \<Rightarrow> bool"
  al_verify :: "string \<Rightarrow> string \<Rightarrow> bool"
  al_sha256_hex :: "string \<Rightarrow> string"
  al_random_hex :: "nat \<Rightarrow> nat \<Rightarrow> string"

definition hash_password :: "auth_lib \<Rightarrow> string \<Rightarrow> ('z, string) op" where
  "hash_password L password =
     (\<lambda>w. (al_hash_password L (tick w) password, w\<lparr>tick := Suc (tick w)\<rparr>))"

definition verify_password :: "auth_lib \<Rightarrow> string \<Rightarrow> string \<Rightarrow> error + bool" where
  "verify_password L password hash =
     (if al_hash_valid L hash then Inr (al_verify L password hash)
      else Inl (Message ''invalid password hash format''))"

definition hash_session_token :: "auth_lib \<Rightarrow> string \<Rightarrow> string" where
  "hash_session_token L token = al_sha256_hex L token"

text \<open>\<^verbatim>\<open>OsRng.fill_bytes\<close> and \<^verbatim>\<open>hex::encode\<close>.\<close>

definition random_hex :: "auth_lib \<Rightarrow> nat \<Rightarrow> ('z, string) op" where
  "random_hex L bytes = (\<lambda>w. (Inr (al_random_hex L (tick w) bytes), w\<lparr>tick := Suc (tick w)\<rparr>))"

text \<open>\<^verbatim>\<open>&s[..n]\<close> panics beyond the end and inside a character.\<close>

definition str_slice_to :: "string \<Rightarrow> nat \<Rightarrow> error + string" where
  "str_slice_to s n =
     (if n = length s \<or> n < length s \<and> \<not> (128 \<le> (of_char (s ! n) :: nat) \<and> (of_char (s ! n) :: nat) < 192)
      then Inr (take n s) else Inl (Panicked ''byte index is not a char boundary''))"

section \<open>Scopes and access\<close>

record AuthContext =
  ac_user_id :: uuid
  ac_session_id :: "uuid option"
  ac_scopes :: "string list"

definition has_scope :: "AuthContext \<Rightarrow> string \<Rightarrow> bool" where
  "has_scope auth scope = list_ex (\<lambda>s. s = ''*'' \<or> s = scope) (ac_scopes auth)"

definition is_owner :: "AuthContext \<Rightarrow> uuid option \<Rightarrow> bool" where
  "is_owner auth project_user_id =
     (case project_user_id of
        Some owner_id \<Rightarrow> ac_user_id auth = owner_id \<or> ac_user_id auth = 0
      | None \<Rightarrow> True)"

definition can_read :: "AuthContext \<Rightarrow> uuid option \<Rightarrow> bool" where
  "can_read auth u \<longleftrightarrow> is_owner auth u \<and> (has_scope auth ''*'' \<or> has_scope auth ''project:read'')"

definition can_mutate :: "AuthContext \<Rightarrow> uuid option \<Rightarrow> bool" where
  "can_mutate auth u \<longleftrightarrow> is_owner auth u \<and> (has_scope auth ''*'' \<or> has_scope auth ''project:write'')"

definition can_operate :: "AuthContext \<Rightarrow> uuid option \<Rightarrow> bool" where
  "can_operate auth u \<longleftrightarrow> is_owner auth u
     \<and> (has_scope auth ''*'' \<or> has_scope auth ''deploy:write'' \<or> has_scope auth ''deploy:operate'')"

section \<open>The audit service\<close>

definition audit_service_record :: "bool \<Rightarrow> uuid \<Rightarrow> string \<Rightarrow> string \<Rightarrow> uuid \<Rightarrow> json \<Rightarrow> ('z, unit) op" where
  "audit_service_record db_configured actor_id action target_type target_id metadata =
     (if db_configured
      then and_then uuid_new_v4 (\<lambda>i.
           and_then now_utc (\<lambda>now.
           audit_record \<lparr>au_id = i, au_user_id = Some actor_id, au_action = action,
             au_target_type = target_type, au_target_id = target_id, au_metadata = metadata,
             au_occurred_at = now\<rparr>))
      else ret ())"

section \<open>Sessions\<close>

record SessionInfo =
  si_id :: uuid
  si_user_id :: uuid
  si_token :: string
  si_expires_at :: timestamp

definition register_user :: "auth_lib \<Rightarrow> string \<Rightarrow> string \<Rightarrow> string \<Rightarrow> ('z, UserRecord) op" where
  "register_user L email password name =
     and_then uuid_new_v4 (\<lambda>user_id.
     and_then (hash_password L password) (\<lambda>hash.
     and_then now_utc (\<lambda>now.
     create_user user_id email hash name now)))"

definition revoke_session :: "uuid \<Rightarrow> ('z, unit) op" where
  "revoke_session session_id =
     execute ''failed to revoke session'' (\<lambda>d. d\<lparr>sessions :=
       filter (\<lambda>r. ss_id r \<noteq> session_id) (sessions d)\<rparr>)"

definition create_session :: "auth_lib \<Rightarrow> uuid \<Rightarrow> int \<Rightarrow> ('z, SessionInfo) op" where
  "create_session L user_id duration =
     and_then uuid_new_v4 (\<lambda>session_id.
     and_then (random_hex L 32) (\<lambda>raw_token.
     and_then now_utc (\<lambda>now.
     let token_hash = hash_session_token L raw_token; expires_at = now + duration
     in and_then (insert_row ''failed to insert session''
          (\<lambda>d. \<not> has_key ss_id session_id (sessions d)
             \<and> \<not> has_key ss_token_hash token_hash (sessions d) \<and> has_key u_id user_id (users d))
          (\<lambda>d. d\<lparr>sessions := sessions d @
             [\<lparr>ss_id = session_id, ss_user_id = user_id, ss_token_hash = token_hash,
               ss_expires_at = expires_at, ss_created_at = now\<rparr>]\<rparr>)) (\<lambda>_.
        ret \<lparr>si_id = session_id, si_user_id = user_id, si_token = raw_token,
             si_expires_at = expires_at\<rparr>))))"

definition login :: "auth_lib \<Rightarrow> string \<Rightarrow> string \<Rightarrow> int \<Rightarrow> ('z, UserRecord \<times> SessionInfo) op" where
  "login L email password duration =
     and_then (get_by_email email) (\<lambda>user.
     and_then (of_result (verify_password L password (u_password_hash user))) (\<lambda>ok.
     if \<not> ok then fail (Message ''invalid email or password'')
     else and_then (create_session L (u_id user) duration) (\<lambda>session.
          ret (user, session))))"

definition load_session :: "uuid \<Rightarrow> ('z, SessionInfo option) op" where
  "load_session session_id =
     and_then (select_rows ''failed to load session''
       (\<lambda>d. lookup_by ss_id session_id (sessions d))) (\<lambda>row.
     case row of
       None \<Rightarrow> ret None
     | Some r \<Rightarrow>
         and_then now_utc (\<lambda>now.
         if ss_expires_at r < now
         then and_then (ignore (revoke_session session_id :: ('z, unit) op)) (\<lambda>_. ret None)
         else ret (Some \<lparr>si_id = ss_id r, si_user_id = ss_user_id r, si_token = [],
                         si_expires_at = ss_expires_at r\<rparr>)))"

definition authenticate_session :: "auth_lib \<Rightarrow> string \<Rightarrow> ('z, AuthContext) op" where
  "authenticate_session L token =
     and_then (fetch_required ''failed to query session'' (Message ''session not found or invalid'')
       (\<lambda>d. lookup_by ss_token_hash (hash_session_token L token) (sessions d))) (\<lambda>row.
     and_then now_utc (\<lambda>now.
     if ss_expires_at row < now
     then and_then (ignore (revoke_session (ss_id row) :: ('z, unit) op)) (\<lambda>_.
          fail (Message ''session has expired''))
     else ret \<lparr>ac_user_id = ss_user_id row, ac_session_id = Some (ss_id row),
               ac_scopes = [''*'']\<rparr>))"

section \<open>API tokens\<close>

record ApiTokenSummary =
  ts_id :: uuid
  ts_name :: string
  ts_prefix :: string
  ts_scopes :: "string list"
  ts_revoked :: bool
  ts_last_used_at :: "timestamp option"
  ts_created_at :: timestamp

record IssuedToken =
  it_id :: uuid
  it_name :: string
  it_raw_token :: string
  it_prefix :: string
  it_scopes :: "string list"
  it_created_at :: timestamp

definition list_api_tokens :: "uuid \<Rightarrow> ('z, ApiTokenSummary list) op" where
  "list_api_tokens user_id =
     select_rows ''failed to list api tokens'' (\<lambda>d. map (\<lambda>r.
         \<lparr>ts_id = tk_id r, ts_name = tk_name r, ts_prefix = tk_token_prefix r,
          ts_scopes = tk_scopes r, ts_revoked = tk_revoked r,
          ts_last_used_at = tk_last_used_at r, ts_created_at = tk_created_at r\<rparr>)
       (order_by_desc tk_created_at (filter (\<lambda>r. tk_user_id r = user_id) (api_tokens d))))"

definition issue_api_token :: "auth_lib \<Rightarrow> uuid \<Rightarrow> string \<Rightarrow> string list \<Rightarrow> timestamp option \<Rightarrow>
   ('z, IssuedToken) op" where
  "issue_api_token L user_id name scopes expires_at =
     and_then uuid_new_v4 (\<lambda>token_id.
     and_then (random_hex L 20) (\<lambda>rand_hex.
     let raw_token = ''dp_'' @ rand_hex
     in and_then (of_result (str_slice_to raw_token 10)) (\<lambda>prefix.
        and_then (hash_password L raw_token) (\<lambda>token_hash.
        and_then now_utc (\<lambda>now.
        and_then (insert_row ''failed to insert api token''
          (\<lambda>d. \<not> has_key tk_id token_id (api_tokens d)
             \<and> \<not> has_key tk_token_hash token_hash (api_tokens d) \<and> has_key u_id user_id (users d))
          (\<lambda>d. d\<lparr>api_tokens := api_tokens d @
             [\<lparr>tk_id = token_id, tk_user_id = user_id, tk_name = name, tk_token_prefix = prefix,
               tk_token_hash = token_hash, tk_scopes = scopes, tk_revoked = False,
               tk_last_used_at = None, tk_expires_at = expires_at, tk_created_at = now\<rparr>]\<rparr>)) (\<lambda>_.
        ret \<lparr>it_id = token_id, it_name = name, it_raw_token = raw_token, it_prefix = prefix,
             it_scopes = scopes, it_created_at = now\<rparr>))))))"

text \<open>The expiry of a token, read only when there is one.\<close>

definition check_token_expiry :: "timestamp option \<Rightarrow> ('z, unit) op" where
  "check_token_expiry expires_at =
     (case expires_at of
        None \<Rightarrow> ret ()
      | Some exp \<Rightarrow> and_then now_utc (\<lambda>now.
          if exp < now then fail (Message ''api token has expired'') else ret ()))"

fun try_tokens :: "auth_lib \<Rightarrow> string \<Rightarrow> ApiTokenRow list \<Rightarrow> ('z, AuthContext) op" where
  "try_tokens L raw_token [] = fail (Message ''invalid api token'')"
| "try_tokens L raw_token (row # rows) =
     (if verify_password L raw_token (tk_token_hash row) = Inr True
      then
        and_then (check_token_expiry (tk_expires_at row)) (\<lambda>_.
        and_then now_utc (\<lambda>now.
        and_then (ignore (execute ''last used'' (\<lambda>d. d\<lparr>api_tokens :=
            update_where (\<lambda>r. tk_id r = tk_id row) (\<lambda>r. r\<lparr>tk_last_used_at := Some now\<rparr>) (api_tokens d)\<rparr>)
          :: ('z, unit) op)) (\<lambda>_.
        ret \<lparr>ac_user_id = tk_user_id row, ac_session_id = None, ac_scopes = tk_scopes row\<rparr>)))
      else try_tokens L raw_token rows)"

definition authenticate_api_token :: "auth_lib \<Rightarrow> string \<Rightarrow> ('z, AuthContext) op" where
  "authenticate_api_token L raw_token =
     (if length raw_token < 10 then fail (Message ''invalid token format'')
      else
      and_then (of_result (str_slice_to raw_token 10)) (\<lambda>prefix.
      and_then (select_rows ''failed to query api tokens'' (\<lambda>d.
        filter (\<lambda>r. tk_token_prefix r = prefix \<and> \<not> tk_revoked r) (api_tokens d))) (\<lambda>rows.
      try_tokens L raw_token rows)))"

definition revoke_api_token :: "uuid \<Rightarrow> uuid \<Rightarrow> ('z, unit) op" where
  "revoke_api_token user_id token_id =
     and_then (statement ''failed to revoke api token'' (\<lambda>d.
       let P = (\<lambda>r. tk_id r = token_id \<and> tk_user_id r = user_id)
       in (Inr (count_where P (api_tokens d)),
           d\<lparr>api_tokens := update_where P (\<lambda>r. r\<lparr>tk_revoked := True\<rparr>) (api_tokens d)\<rparr>)))
     (\<lambda>affected.
     if affected = 0 then fail (Message ''token not found or unauthorized'') else ret ())"

end
