(* ===== verification/Rollback.thy ===== *)
theory Rollback
  imports Auth Orchestration
begin

text \<open>
  \<^verbatim>\<open>src/rollback.rs\<close>: the permission check, the selection of the release to go back to, and the rollback
  itself, which is a roll-out of a new deployment of the selected release.
\<close>

record RollbackTarget =
  rt_deployment_id :: uuid
  rt_release_id :: uuid
  rt_project_id :: uuid
  rt_environment :: string
  rt_framework :: Framework
  rt_commit_sha :: "string option"
  rt_image_path :: "string option"
  rt_container_id :: "string option"
  rt_port :: "int option"
  rt_url :: "string option"
  rt_created_at :: timestamp

definition check_rollback_permission :: "AuthContext \<Rightarrow> uuid option \<Rightarrow> string \<Rightarrow> error + unit" where
  "check_rollback_permission auth project_user_id environment =
     (if \<not> is_owner auth project_user_id
      then Inl (Unauthorized ''user does not have access to this project'')
      else if environment = ''production''
      then
        if \<not> (has_scope auth ''*'' \<or> has_scope auth ''production:operate''
               \<or> has_scope auth ''deploy:rollback'')
        then Inl (Unauthorized ''only production operators can rollback production traffic'')
        else Inr ()
      else if \<not> can_operate auth project_user_id
      then Inl (Unauthorized ''insufficient operator permissions to trigger rollback'')
      else Inr ())"

text \<open>The join of a release with its deployment, and the rows the query admits.\<close>

definition joined_releases :: "db \<Rightarrow> (Release \<times> Deployment) list" where
  "joined_releases d =
     concat (map (\<lambda>r. map (\<lambda>dep. (r, dep))
       (filter (\<lambda>dep. d_id dep = r_deployment_id r) (deployments d))) (releases d))"

definition rollback_candidate :: "uuid \<Rightarrow> string \<Rightarrow> uuid \<Rightarrow> Release \<times> Deployment \<Rightarrow> bool" where
  "rollback_candidate project_id environment current_deployment_id = (\<lambda>(r, dep).
     d_project_id dep = project_id \<and> r_environment r = environment
     \<and> d_id dep \<noteq> current_deployment_id
     \<and> (r_status r = Active \<or> r_status r = Stopped)
     \<and> (d_status dep = DepRunning \<or> d_status dep = DepStopped)
     \<and> (d_image_path dep \<noteq> None \<or> d_commit_sha dep \<noteq> None \<or> r_container_id r \<noteq> None))"

definition target_of :: "Release \<times> Deployment \<Rightarrow> RollbackTarget" where
  "target_of = (\<lambda>(r, dep).
     \<lparr>rt_deployment_id = d_id dep, rt_release_id = r_id r, rt_project_id = d_project_id dep,
      rt_environment = r_environment r, rt_framework = d_framework dep,
      rt_commit_sha = d_commit_sha dep, rt_image_path = d_image_path dep,
      rt_container_id = r_container_id r, rt_port = r_port r, rt_url = r_url r,
      rt_created_at = r_created_at r\<rparr>)"

definition select_rollback_target :: "uuid \<Rightarrow> string \<Rightarrow> uuid \<Rightarrow> ('z, RollbackTarget) op" where
  "select_rollback_target project_id environment current_deployment_id =
     and_then (fetch_required ''failed to query rollback target'' (NoRollbackTarget environment)
       (\<lambda>d. first_row (order_by_desc (\<lambda>(r, dep). r_created_at r)
          (filter (rollback_candidate project_id environment current_deployment_id)
            (joined_releases d))))) (\<lambda>row.
     ret (target_of row))"

record RollbackCommand =
  rb_project_id :: uuid
  rb_environment :: string
  rb_current_deployment_id :: uuid
  rb_actor_id :: uuid
  rb_health_policy :: "HealthPolicy option"
  rb_drain_timeout :: "int option"

record RollbackResult =
  rr_new_deployment_id :: uuid
  rr_target :: RollbackTarget
  rr_active_release :: Release
  rr_previous_release :: "Release option"
  rr_drain_result :: "DrainResult option"
  rr_audit_event_id :: uuid

text \<open>The texts of identifiers: \<^verbatim>\<open>to_string\<close> and \<^verbatim>\<open>simple\<close>.\<close>

record uuid_text =
  ut_string :: "uuid \<Rightarrow> string"
  ut_simple :: "uuid \<Rightarrow> string"

definition rollback_deployment :: "RollbackCommand \<Rightarrow> RollbackTarget \<Rightarrow> uuid \<Rightarrow> timestamp \<Rightarrow> Deployment" where
  "rollback_deployment cmd target i now =
     \<lparr>d_id = i, d_project_id = rb_project_id cmd, d_framework = rt_framework target,
      d_status = DepRunning, d_image_path = rt_image_path target, d_container_id = None,
      d_port = None, d_url = None, d_created_at = now, d_finished_at = None, d_error = None,
      d_commit_sha = rt_commit_sha target, d_target = rb_environment cmd, d_cause = ''rollback'',
      d_rollback_from = Some (rb_current_deployment_id cmd)\<rparr>"

definition rollback_insert_ok :: "Deployment \<Rightarrow> db \<Rightarrow> bool" where
  "rollback_insert_ok dep d \<longleftrightarrow>
     \<not> has_key d_id (d_id dep) (deployments d)
     \<and> has_key p_id (d_project_id dep) (projects d)
     \<and> (case d_rollback_from dep of Some i \<Rightarrow> has_key d_id i (deployments d) | None \<Rightarrow> True)"

definition rollback_plan ::
  "uuid_text \<Rightarrow> RollbackCommand \<Rightarrow> RollbackTarget \<Rightarrow> uuid \<Rightarrow> uuid \<Rightarrow> ReleaseOrchestrationPlan" where
  "rollback_plan U cmd target new_deployment_id container =
     (let port = unwrap_or (rt_port target) 8080
      in \<lparr>plan_deployment_id = new_deployment_id, plan_project_id = rb_project_id cmd,
          plan_environment = rb_environment cmd, plan_container_id = ''rb-'' @ ut_simple U container,
          plan_port = port,
          plan_url = unwrap_or (rt_url target) (''http://127.0.0.1:'' @ show_int port),
          plan_health_policy = unwrap_or (rb_health_policy cmd) default_HealthPolicy,
          plan_drain_timeout = unwrap_or (rb_drain_timeout cmd) 5000000000\<rparr>)"

definition opt_json :: "string option \<Rightarrow> json" where
  "opt_json x = (case x of Some s \<Rightarrow> JString s | None \<Rightarrow> JNull)"

definition rollback_audit :: "uuid_text \<Rightarrow> RollbackCommand \<Rightarrow> RollbackTarget \<Rightarrow> ReleaseOrchestrationResult \<Rightarrow>
   uuid \<Rightarrow> uuid \<Rightarrow> timestamp \<Rightarrow> AuditEvent" where
  "rollback_audit U cmd target orch_res audit_event_id new_deployment_id now =
     \<lparr>au_id = audit_event_id, au_user_id = Some (rb_actor_id cmd),
      au_action = ''deployment.rollback'', au_target_type = ''deployment'',
      au_target_id = new_deployment_id,
      au_metadata = JObject
        [(''project_id'', JString (ut_string U (rb_project_id cmd))),
         (''environment'', JString (rb_environment cmd)),
         (''current_deployment_id'', JString (ut_string U (rb_current_deployment_id cmd))),
         (''target_deployment_id'', JString (ut_string U (rt_deployment_id target))),
         (''target_release_id'', JString (ut_string U (rt_release_id target))),
         (''target_commit_sha'', opt_json (rt_commit_sha target)),
         (''previous_active_release_id'',
           opt_json (map_option (\<lambda>r. ut_string U (r_id r)) (previous_release orch_res))),
         (''new_active_release_id'', JString (ut_string U (r_id (active_release orch_res))))],
      au_occurred_at = now\<rparr>"

text \<open>After the permission check and the selection.\<close>

definition roll_back_to ::
  "uuid_text \<Rightarrow> RollbackCommand \<Rightarrow> 'p HealthProbeClient \<Rightarrow> 'r TrafficRouter \<Rightarrow> 'c ContainerStopper \<Rightarrow>
   RollbackTarget \<Rightarrow> ('r, 'p, 'c, 'z, RollbackResult) orch" where
  "roll_back_to U cmd client ops stop_container target =
     and_then uuid_new_v4 (\<lambda>new_deployment_id.
     and_then now_utc (\<lambda>now.
     let dep = rollback_deployment cmd target new_deployment_id now
     in and_then (insert_row ''failed to create rollback deployment'' (rollback_insert_ok dep)
          (\<lambda>d. d\<lparr>deployments := deployments d @ [dep]\<rparr>)) (\<lambda>_.
        and_then uuid_new_v4 (\<lambda>container.
        and_then (orchestrate_release (rollback_plan U cmd target new_deployment_id container)
          client ops stop_container) (\<lambda>orch_res.
        and_then uuid_new_v4 (\<lambda>audit_event_id.
        and_then (audit_record
          (rollback_audit U cmd target orch_res audit_event_id new_deployment_id now)) (\<lambda>_.
        ret \<lparr>rr_new_deployment_id = new_deployment_id, rr_target = target,
             rr_active_release = active_release orch_res,
             rr_previous_release = previous_release orch_res,
             rr_drain_result = drain_result orch_res,
             rr_audit_event_id = audit_event_id\<rparr>)))))))"

definition execute_rollback ::
  "uuid_text \<Rightarrow> AuthContext \<Rightarrow> RollbackCommand \<Rightarrow> 'p HealthProbeClient \<Rightarrow> 'r TrafficRouter \<Rightarrow>
   'c ContainerStopper \<Rightarrow> ('r, 'p, 'c, 'z, RollbackResult) orch" where
  "execute_rollback U auth cmd client ops stop_container =
     and_then (get_project (rb_project_id cmd)) (\<lambda>project.
     and_then (of_result (check_rollback_permission auth (Some (pj_user_id project))
       (rb_environment cmd))) (\<lambda>_.
     and_then (select_rollback_target (rb_project_id cmd) (rb_environment cmd)
       (rb_current_deployment_id cmd)) (\<lambda>target.
     roll_back_to U cmd client ops stop_container target)))"

end
