(* ===== verification/Rollback_Correct.thy ===== *)
theory Rollback_Correct
  imports Rollback
begin

text \<open>
  The correctness of the rollback: who may trigger it, which release it goes back to, and what a successful
  one leaves in the tables.
\<close>

section \<open>What the steps keep\<close>

lemma releases_ops_keep_tables [keeps_intros]:
  "keeps_db (\<lambda>d. P (deployments d) (audit_events d) (users d)) (transition rid v target reason)"
  "keeps_db (\<lambda>d. P (deployments d) (audit_events d) (users d)) (create_release i p e c port url)"
  "keeps_db (\<lambda>d. P (deployments d) (audit_events d) (users d)) (activate_traffic ops rel)"
  "keeps_db (\<lambda>d. P (deployments d) (audit_events d) (users d)) (drain_previous ops st t prev)"
proof -
  show t: "keeps_db (\<lambda>d. P (deployments d) (audit_events d) (users d)) (transition rid v target reason)"
    for rid v target reason
    unfolding transition_def Let_def
    by (intro keeps_intros keeps_db_statement keeps_db_insert_row) auto
  show "keeps_db (\<lambda>d. P (deployments d) (audit_events d) (users d)) (create_release i p e c port url)"
    unfolding create_release_def Let_def by (intro keeps_intros keeps_db_insert_row) auto
  show "keeps_db (\<lambda>d. P (deployments d) (audit_events d) (users d)) (activate_traffic ops rel)"
    unfolding activate_traffic_def Let_def
    by (intro keeps_intros t keeps_db_insert_row) (auto simp: upsert_route_def Let_def)
  show "keeps_db (\<lambda>d. P (deployments d) (audit_events d) (users d)) (drain_previous ops st t prev)" for t
    unfolding drain_previous_def by (intro keeps_intros t)
qed

lemma orchestrate_keeps_tables [keeps_intros]:
  "keeps_db (\<lambda>d. P (deployments d) (audit_events d) (users d)) (orchestrate_release plan client ops st)"
  unfolding orchestrate_release_def finish_roll_out_def Let_def by (intro keeps_intros)

text \<open>Every release that was not there before a roll-out is of the deployment of its plan.\<close>

definition new_releases_of :: "uuid \<Rightarrow> uuid set \<Rightarrow> db \<Rightarrow> bool" where
  "new_releases_of k old d \<longleftrightarrow> (\<forall>r\<in>set (releases d). r_id r \<in> old \<or> r_deployment_id r = k)"

lemma release_ops_new_releases [keeps_intros]:
  "keeps_db (new_releases_of k old) (transition rid v target reason)"
  "keeps_db (new_releases_of k old) (create_release k p e c port url)"
  "keeps_db (new_releases_of k old) (activate_traffic ops rel)"
  "keeps_db (new_releases_of k old) (drain_previous ops st t prev)"
proof -
  show t: "keeps_db (new_releases_of k old) (transition rid v target reason)" for rid v target reason
    unfolding transition_def Let_def
    by (intro keeps_intros keeps_db_statement keeps_db_insert_row)
      (auto simp: new_releases_of_def cas_set_def set_update_where split: if_splits)
  show "keeps_db (new_releases_of k old) (create_release k p e c port url)"
    unfolding create_release_def Let_def
    by (intro keeps_intros keeps_db_insert_row) (auto simp: new_releases_of_def new_release_def)
  show "keeps_db (new_releases_of k old) (activate_traffic ops rel)"
    unfolding activate_traffic_def Let_def
    by (intro keeps_intros t keeps_db_insert_row) (auto simp: upsert_route_def Let_def new_releases_of_def)
  show "keeps_db (new_releases_of k old) (drain_previous ops st t prev)" for t
    unfolding drain_previous_def by (intro keeps_intros t)
qed

lemma orchestrate_release_of_plan:
  assumes "release_inv (db w)" and "orchestrate_release plan client ops st w = (Inr res, w')"
  shows "r_deployment_id (active_release res) = plan_deployment_id plan"
proof -
  let ?I = "new_releases_of (plan_deployment_id plan) (r_id ` set (releases (db w)))"
  have "keeps_db ?I (orchestrate_release plan client ops st)"
    unfolding orchestrate_release_def finish_roll_out_def Let_def by (intro keeps_intros)
  moreover have "?I (db w)" by (simp add: new_releases_of_def)
  ultimately have "?I (db w')" using keeps_dbD assms(2) by (metis snd_conv)
  moreover have "r_id (active_release res) \<notin> r_id ` set (releases (db w))"
    "active_release res \<in> set (releases (db w'))"
    using orchestrate_switches [OF assms] lookup_by_Some by metis+
  ultimately show ?thesis by (auto simp: new_releases_of_def)
qed

lemma fetch_required_InrE:
  "fetch_required c e f w = (Inr a, w') \<Longrightarrow> f (db w) = Some a \<and> w' = w\<lparr>tick := Suc (tick w)\<rparr>"
  unfolding fetch_required_def by (auto elim!: and_then_InrE dest!: select_rows_InrE of_option_InrE)

lemma fetch_required_world: "snd (fetch_required c e f w) = w\<lparr>tick := Suc (tick w)\<rparr>"
  by (cases rule: select_rows_cases [of c f w])
    (simp_all add: fetch_required_def and_then_def of_option_def ret_def fail_def split: option.splits)

lemma release_inv_deployments: "release_inv (d\<lparr>deployments := x\<rparr>) = release_inv d"
proof -
  have "release_row_ok (d\<lparr>deployments := x\<rparr>) = release_row_ok d"
    "transition_row_ok (d\<lparr>deployments := x\<rparr>) = transition_row_ok d"
    by (simp_all add: fun_eq_iff release_row_ok_def transition_row_ok_def history_def)
  then show ?thesis by (simp add: release_inv_def)
qed

section \<open>Permission\<close>

definition may_roll_back :: "AuthContext \<Rightarrow> uuid \<Rightarrow> string \<Rightarrow> bool" where
  "may_roll_back auth owner environment \<longleftrightarrow>
     (ac_user_id auth = owner \<or> ac_user_id auth = 0)
     \<and> (if environment = ''production''
        then set (ac_scopes auth) \<inter> {''*'', ''production:operate'', ''deploy:rollback''} \<noteq> {}
        else set (ac_scopes auth) \<inter> {''*'', ''deploy:write'', ''deploy:operate''} \<noteq> {})"

lemma has_scope_iff: "has_scope auth s \<longleftrightarrow> ''*'' \<in> set (ac_scopes auth) \<or> s \<in> set (ac_scopes auth)"
  by (auto simp: has_scope_def list_ex_iff)

lemma check_rollback_permission_iff:
  "check_rollback_permission auth (Some owner) environment = Inr () \<longleftrightarrow> may_roll_back auth owner environment"
  unfolding check_rollback_permission_def may_roll_back_def is_owner_def can_operate_def has_scope_iff
  by (simp only: if_distrib [of "\<lambda>x. x = Inr ()"] option.case sum.distinct split: if_split) blast

text \<open>C28. Only an authorised request has an effect: a rollback that changes a table, the router or a
  container was triggered for an existing project by its owner (or the nil user of a server without
  accounts), with a scope that covers production traffic for the production environment and deployments
  for any other.\<close>

theorem rollback_authorized:
  assumes run: "execute_rollback U auth cmd client ops st w = (res, w')"
    and effect: "db w' \<noteq> db w \<or> router w' \<noteq> router w \<or> stopper w' \<noteq> stopper w"
  shows "\<exists>p. lookup_by p_id (rb_project_id cmd) (projects (db w)) = Some p
    \<and> may_roll_back auth (p_user_id p) (rb_environment cmd)"
proof -
  let ?w = "w\<lparr>tick := Suc (tick w)\<rparr>"
  have proj: "snd (get_project (rb_project_id cmd) w) = ?w"
    unfolding get_project_def
    by (simp add: and_then_def ret_def fetch_required_world split: prod.splits sum.splits)
      (metis fetch_required_world snd_conv)
  show ?thesis
  proof (cases "fst (get_project (rb_project_id cmd) w)")
    case (Inl e)
    then have "w' = ?w" using run proj
      by (simp add: execute_rollback_def and_then_def split: prod.splits)
    with effect show ?thesis by simp
  next
    case (Inr project)
    then have g: "get_project (rb_project_id cmd) w = (Inr project, ?w)" using proj by (metis prod.collapse)
    then obtain p where p: "lookup_by p_id (rb_project_id cmd) (projects (db w)) = Some p"
      and up: "pj_user_id project = p_user_id p"
      unfolding get_project_def
      by (auto elim!: and_then_InrE dest!: fetch_required_InrE ret_InrE simp: project_record_def)
    show ?thesis
    proof (cases "check_rollback_permission auth (Some (p_user_id p)) (rb_environment cmd)")
      case (Inl e)
      then have "w' = ?w" using run g up
        by (simp add: execute_rollback_def and_then_def of_result_def)
      with effect show ?thesis by simp
    next
      case (Inr u)
      then show ?thesis using p check_rollback_permission_iff by (metis old.unit.exhaust)
    qed
  qed
qed

section \<open>Success\<close>

lemma roll_back_to_InrE:
  fixes w w' :: "('r, 'p, 'c, 'z) orch_world_scheme"
  assumes run: "roll_back_to U cmd client ops st target w = (Inr res, w')"
  obtains new now container orch audit and w1 w2 :: "('r, 'p, 'c, 'z) orch_world_scheme" where
    "rollback_insert_ok (rollback_deployment cmd target new now) (db w)"
    "db w1 = (db w)\<lparr>deployments := deployments (db w) @ [rollback_deployment cmd target new now]\<rparr>"
    "orchestrate_release (rollback_plan U cmd target new container) client ops st w1 = (Inr orch, w2)"
    "db w' = (db w2)\<lparr>audit_events := audit_events (db w2) @ [rollback_audit U cmd target orch audit new now]\<rparr>"
    "res = \<lparr>rr_new_deployment_id = new, rr_target = target, rr_active_release = active_release orch,
       rr_previous_release = previous_release orch, rr_drain_result = drain_result orch,
       rr_audit_event_id = audit\<rparr>"
proof -
  from run obtain new u1 now u2 x1 v1 container w1 orch w2 audit v3 x2 v4 where
    nn: "uuid_new_v4 w = (Inr new, u1)" "now_utc u1 = (Inr now, u2)"
    and ins: "insert_row ''failed to create rollback deployment''
        (rollback_insert_ok (rollback_deployment cmd target new now))
        (\<lambda>d. d\<lparr>deployments := deployments d @ [rollback_deployment cmd target new now]\<rparr>) u2 = (Inr x1, v1)"
    and c: "uuid_new_v4 v1 = (Inr container, w1)"
    and o: "orchestrate_release (rollback_plan U cmd target new container) client ops st w1 = (Inr orch, w2)"
    and a: "uuid_new_v4 w2 = (Inr audit, v3)"
    and rec: "audit_record (rollback_audit U cmd target orch audit new now) v3 = (Inr x2, v4)"
    and res: "res = \<lparr>rr_new_deployment_id = new, rr_target = target, rr_active_release = active_release orch,
       rr_previous_release = previous_release orch, rr_drain_result = drain_result orch,
       rr_audit_event_id = audit\<rparr> \<and> w' = v4"
    unfolding roll_back_to_def Let_def by (elim and_then_InrE) (rule that, assumption+, rule ret_InrE)
  have "db w1 = db v1" "db v3 = db w2" "db u2 = db w" using c a nn by (auto simp: uuid_new_v4_run now_utc_run)
  with insert_row_InrE [OF ins] insert_row_InrE [OF rec [unfolded audit_record_def]] res o
  show thesis by (intro that [of new now w1 container orch w2 audit]) simp_all
qed

lemma select_rollback_target_InrE:
  assumes "select_rollback_target p e cur w = (Inr target, w')"
  obtains r dep where "(r, dep) \<in> set (joined_releases (db w))" "rollback_candidate p e cur (r, dep)"
    "target = target_of (r, dep)" "db w' = db w" "w' = w\<lparr>tick := Suc (tick w)\<rparr>"
    "\<And>r' dep'. (r', dep') \<in> set (joined_releases (db w)) \<Longrightarrow> rollback_candidate p e cur (r', dep') \<Longrightarrow>
       r_created_at r' \<le> r_created_at r"
proof -
  from assms obtain row where f: "first_row (order_by_desc (\<lambda>(r, dep). r_created_at r)
      (filter (rollback_candidate p e cur) (joined_releases (db w)))) = Some row"
    and t: "target = target_of row" and w: "w' = w\<lparr>tick := Suc (tick w)\<rparr>"
    unfolding select_rollback_target_def
    by (auto elim!: and_then_InrE dest!: fetch_required_InrE ret_InrE)
  obtain r dep where row: "row = (r, dep)" by (cases row)
  have "row \<in> set (filter (rollback_candidate p e cur) (joined_releases (db w)))"
    using first_row_Some [OF f] by (simp add: order_by_desc_def)
  moreover have "r_created_at r' \<le> r_created_at r"
    if "(r', dep') \<in> set (joined_releases (db w))" "rollback_candidate p e cur (r', dep')" for r' dep'
    using first_order_by_desc [OF f, of "(r', dep')"] that by (simp add: row)
  ultimately show thesis using that [of r dep] t w row by auto
qed

lemma set_joined_releases:
  "(r, dep) \<in> set (joined_releases d) \<longleftrightarrow>
     r \<in> set (releases d) \<and> dep \<in> set (deployments d) \<and> d_id dep = r_deployment_id r"
  by (auto simp: joined_releases_def)

text \<open>What a rollback leaves in the tables, from the state \<open>d\<close> before to the state \<open>d'\<close> after it.\<close>

definition rolled_back :: "RollbackCommand \<Rightarrow> RollbackResult \<Rightarrow> db \<Rightarrow> db \<Rightarrow> bool" where
  "rolled_back cmd res d d' \<longleftrightarrow>
     (let new = rr_new_deployment_id res; active = rr_active_release res;
          before = route_target_id (rb_project_id cmd) (rb_environment cmd) d
      in new \<notin> d_id ` set (deployments d)
       \<and> (\<exists>now. deployments d' = deployments d @ [rollback_deployment cmd (rr_target res) new now])
       \<and> r_deployment_id active = new \<and> r_id active \<notin> r_id ` set (releases d)
       \<and> r_status active = Active \<and> lookup_by r_id (r_id active) (releases d') = Some active
       \<and> route_target_id (rb_project_id cmd) (rb_environment cmd) d' = Some (r_id active)
       \<and> map_option r_id (rr_previous_release res) = before
       \<and> (\<forall>p. rr_previous_release res = Some p \<longrightarrow> r_status p = Stopped \<and> lookup_by r_id (r_id p) (releases d') = Some p)
       \<and> (\<forall>other. other \<noteq> r_id active \<and> Some other \<noteq> before \<longrightarrow>
            lookup_by r_id other (releases d') = lookup_by r_id other (releases d))
       \<and> (\<exists>e. audit_events d' = audit_events d @ [e] \<and> au_id e = rr_audit_event_id res
            \<and> au_action e = ''deployment.rollback'' \<and> au_user_id e = Some (rb_actor_id cmd) \<and> au_target_id e = new))"

lemma roll_back_to_rolled_back:
  fixes v w' :: "('r, 'p, 'c, 'z) orch_world_scheme"
  assumes inv: "release_inv (db v)" and roll: "roll_back_to U cmd client ops st target v = (Inr res, w')"
  shows "rr_target res = target \<and> rolled_back cmd res (db v) (db w')"
proof -
  from roll obtain new now container orch audit and w1 w2 :: "('r, 'p, 'c, 'z) orch_world_scheme" where
    ok: "rollback_insert_ok (rollback_deployment cmd target new now) (db v)"
    and d1: "db w1 = (db v)\<lparr>deployments := deployments (db v) @ [rollback_deployment cmd target new now]\<rparr>"
    and o: "orchestrate_release (rollback_plan U cmd target new container) client ops st w1 = (Inr orch, w2)"
    and d': "db w' = (db w2)\<lparr>audit_events := audit_events (db w2) @ [rollback_audit U cmd target orch audit new now]\<rparr>"
    and res: "res = \<lparr>rr_new_deployment_id = new, rr_target = target, rr_active_release = active_release orch,
       rr_previous_release = previous_release orch, rr_drain_result = drain_result orch, rr_audit_event_id = audit\<rparr>"
    by (rule roll_back_to_InrE)
  have inv1: "release_inv (db w1)" using inv by (simp add: d1 release_inv_deployments)
  have tables: "deployments (db w2) = deployments (db w1) \<and> audit_events (db w2) = audit_events (db w1)"
    using keeps_dbD [OF orchestrate_keeps_tables [where
        P = "\<lambda>a b c. a = deployments (db w1) \<and> b = audit_events (db w1)"], of w1] o
    by (metis snd_conv)
  have plan: "plan_project_id (rollback_plan U cmd target new container) = rb_project_id cmd"
    "plan_environment (rollback_plan U cmd target new container) = rb_environment cmd"
    "plan_deployment_id (rollback_plan U cmd target new container) = new"
    by (simp_all add: rollback_plan_def Let_def)
  have routes: "route_target_id p e (db w1) = route_target_id p e (db v)"
    "route_target_id p e (db w') = route_target_id p e (db w2)" for p e
    by (simp_all add: d1 d' route_target_id_def route_row_def)
  have "new \<notin> d_id ` set (deployments (db v))"
    using ok by (simp add: rollback_insert_ok_def rollback_deployment_def sql_simps)
  moreover have "releases (db w1) = releases (db v)" "releases (db w') = releases (db w2)" by (simp_all add: d1 d')
  moreover have "audit_events (db w') = audit_events (db v) @ [rollback_audit U cmd target orch audit new now]"
    "deployments (db w') = deployments (db v) @ [rollback_deployment cmd target new now]"
    using tables by (simp_all add: d' d1)
  ultimately show ?thesis
    using orchestrate_switches [OF inv1 o] orchestrate_release_of_plan [OF inv1 o]
    unfolding rolled_back_def Let_def by (auto simp: plan routes res rollback_audit_def)
qed

text \<open>C27. A successful rollback goes back to the newest other release of the environment that was live and
  still has an artifact.  It records a new running deployment, under an identifier that no deployment had, with the
  artifact of that release; a new release of that deployment, under an identifier that no release had, is active and
  routed; the release that was routed before is reported as the previous one and is stopped; every other release is as
  it was; and an audit event of the actor about the new deployment is left.\<close>

theorem rollback_success:
  fixes w w' :: "('r, 'p, 'c, 'z) orch_world_scheme"
  assumes inv: "release_inv (db w)"
    and run: "execute_rollback U auth cmd client ops st w = (Inr res, w')"
  shows "(\<exists>r dep. (r, dep) \<in> set (joined_releases (db w))
      \<and> rollback_candidate (rb_project_id cmd) (rb_environment cmd) (rb_current_deployment_id cmd) (r, dep)
      \<and> rr_target res = target_of (r, dep)
      \<and> (\<forall>r' dep'. (r', dep') \<in> set (joined_releases (db w))
           \<and> rollback_candidate (rb_project_id cmd) (rb_environment cmd) (rb_current_deployment_id cmd) (r', dep')
           \<longrightarrow> r_created_at r' \<le> r_created_at r))
    \<and> rolled_back cmd res (db w) (db w')"
proof -
  from run obtain project v1 target v2 where proj: "get_project (rb_project_id cmd) w = (Inr project, v1)"
    and sel: "select_rollback_target (rb_project_id cmd) (rb_environment cmd) (rb_current_deployment_id cmd) v1 =
      (Inr target, v2)"
    and roll: "roll_back_to U cmd client ops st target v2 = (Inr res, w')"
    unfolding execute_rollback_def
    by (elim and_then_InrE) (simp add: of_result_def)
  have v1: "db v1 = db w"
    using proj unfolding get_project_def by (auto elim!: and_then_InrE dest!: fetch_required_InrE ret_InrE)
  from sel obtain r dep where cand: "(r, dep) \<in> set (joined_releases (db w))"
      "rollback_candidate (rb_project_id cmd) (rb_environment cmd) (rb_current_deployment_id cmd) (r, dep)"
      "target = target_of (r, dep)" and v2: "db v2 = db w"
    and best: "\<And>r' dep'. (r', dep') \<in> set (joined_releases (db w)) \<Longrightarrow>
      rollback_candidate (rb_project_id cmd) (rb_environment cmd) (rb_current_deployment_id cmd) (r', dep') \<Longrightarrow>
      r_created_at r' \<le> r_created_at r"
    by (rule select_rollback_target_InrE) (simp add: v1)
  note sw = roll_back_to_rolled_back [OF inv [folded v2] roll, unfolded v2]
  show ?thesis using cand best sw by auto
qed

section \<open>Examples\<close>

definition demo_uuid_text :: uuid_text where
  "demo_uuid_text = \<lparr>ut_string = (\<lambda>u. ''u''), ut_simple = (\<lambda>u. ''s'')\<rparr>"

text \<open>Deployment 3 is rolled out and active; deployment 4 is the one to leave.\<close>

definition demo_history :: "uuid \<Rightarrow> ReleaseStatus \<Rightarrow> ReleaseStatus \<Rightarrow> ReleaseTransitionRecord" where
  "demo_history i from to = \<lparr>t_id = i, t_release_id = 90, t_from_status = from, t_to_status = to,
     t_reason = None, t_created_at = 0\<rparr>"

definition demo_rollback_world :: "(MockTrafficRouter, MockHealthProbeClient, string list) orch_world" where
  "demo_rollback_world = demo_orch_world\<lparr>tick := 5, db := demo_db
     \<lparr>deployments := [demo_deployment, demo_deployment\<lparr>d_id := 4\<rparr>],
      releases := [\<lparr>r_id = 90, r_deployment_id = 3, r_project_id = 1, r_environment = ''production'',
        r_status = Active, r_version = 4, r_container_id = Some ''c'', r_port = Some 9,
        r_url = Some ''u'', r_created_at = 0, r_updated_at = 0\<rparr>],
      release_transitions := [demo_history 91 Starting HealthChecking, demo_history 92 HealthChecking Ready,
        demo_history 93 Ready Active],
      active_routes := [\<lparr>ar_project_id = 1, ar_environment = ''production'', ar_active_release_id = 90,
        ar_route_target = ''u'', ar_activated_at = 0, ar_updated_at = 0\<rparr>]\<rparr>\<rparr>"

definition demo_command :: "uuid \<Rightarrow> RollbackCommand" where
  "demo_command actor = \<lparr>rb_project_id = 1, rb_environment = ''production'', rb_current_deployment_id = 4,
     rb_actor_id = actor, rb_health_policy = None, rb_drain_timeout = None\<rparr>"

definition demo_auth :: "uuid \<Rightarrow> AuthContext" where
  "demo_auth u = \<lparr>ac_user_id = u, ac_session_id = None, ac_scopes = [''deploy:rollback'']\<rparr>"

abbreviation demo_rollback :: "uuid \<Rightarrow> (MockTrafficRouter, MockHealthProbeClient, string list, unit,
    RollbackResult) orch" where
  "demo_rollback u \<equiv> execute_rollback demo_uuid_text (demo_auth u) (demo_command u) mock_probe mock_router
     mock_stop_container"

lemma demo_rollback_inv: "release_inv (db demo_rollback_world)"
  by code_simp

lemma demo_rollback_eval:
  "case demo_rollback 2 demo_rollback_world of (r, w) \<Rightarrow> \<not> isl r \<and> length (deployments (db w)) = 3"
  by code_simp

lemma demo_rollback_runs:
  "demo_rollback 2 demo_rollback_world =
     (Inr (projr (fst (demo_rollback 2 demo_rollback_world))), snd (demo_rollback 2 demo_rollback_world))"
  using demo_rollback_eval by (intro run_ok) (simp add: split_beta)

lemma demo_rollback_effect: "db (snd (demo_rollback 2 demo_rollback_world)) \<noteq> db demo_rollback_world"
proof
  assume "db (snd (demo_rollback 2 demo_rollback_world)) = db demo_rollback_world"
  moreover have "length (deployments (db demo_rollback_world)) = 2" by (simp add: demo_rollback_world_def)
  ultimately show False using demo_rollback_eval by (simp add: split_beta)
qed

lemma demo_nil_rollback_eval:
  "case demo_rollback 0 demo_rollback_world of (r, w) \<Rightarrow>
     r = Inl (Database ''failed to insert audit event'') \<and> length (deployments (db w)) = 3
     \<and> route_target_id 1 ''production'' (db w) \<noteq> route_target_id 1 ''production'' (db demo_rollback_world)"
  by code_simp

theorem rollback_authorized_witness:
  "\<exists>p. lookup_by p_id 1 (projects (db demo_rollback_world)) = Some p
     \<and> may_roll_back (demo_auth 2) (p_user_id p) ''production''"
  using rollback_authorized [OF surjective_pairing disjI1 [OF demo_rollback_effect]]
  by (simp add: demo_command_def)

theorem rollback_success_witness:
  "r_status (rr_active_release (projr (fst (demo_rollback 2 demo_rollback_world)))) = Active
   \<and> route_target_id 1 ''production'' (db (snd (demo_rollback 2 demo_rollback_world))) =
       Some (r_id (rr_active_release (projr (fst (demo_rollback 2 demo_rollback_world)))))"
  using rollback_success [OF demo_rollback_inv demo_rollback_runs] by (simp add: demo_command_def rolled_back_def Let_def)

text \<open>A rollback can report an error after it has switched the traffic: the audit event is written last
  and refers to the acting user, so for the nil user of a server without accounts the roll-out takes
  effect, with its new deployment and route, and the request fails.\<close>

theorem rollback_error_after_switch:
  "fst (demo_rollback 0 demo_rollback_world) = Inl (Database ''failed to insert audit event'')
   \<and> length (deployments (db (snd (demo_rollback 0 demo_rollback_world)))) = 3
   \<and> route_target_id 1 ''production'' (db (snd (demo_rollback 0 demo_rollback_world))) \<noteq>
       route_target_id 1 ''production'' (db demo_rollback_world)"
  using demo_nil_rollback_eval by (simp add: split_beta)

end
