(* ===== verification/Auth_Correct.thy ===== *)
theory Auth_Correct
  imports Auth Rollback_Correct
begin

text \<open>
  The correctness of authentication: what a login gives, what an accepted API token proves, and that a
  revoked token stays revoked whatever else the service does.
\<close>

section \<open>Sessions\<close>

lemma lookup_snoc_fresh:
  assumes "\<not> has_key key k t" and "key r = k"
  shows "lookup_by key k (t @ [r]) = Some r"
  using assms by (simp add: lookup_by_append has_key_iff lookup_by_None [THEN iffD2]) (simp add: lookup_by_def)

lemma create_session_InrE:
  assumes "create_session L u duration w = (Inr s, w')"
  obtains row where "sessions (db w') = sessions (db w) @ [row]" "ss_id row = si_id s" "ss_user_id row = u"
    "ss_token_hash row = hash_session_token L (si_token s)" "ss_expires_at row = si_expires_at s"
    "\<not> has_key ss_id (si_id s) (sessions (db w))"
    "\<not> has_key ss_token_hash (hash_session_token L (si_token s)) (sessions (db w))"
    "users (db w') = users (db w)"
  using assms unfolding create_session_def Let_def
  by (auto elim!: and_then_InrE dest!: insert_row_InrE ret_InrE
      simp: uuid_new_v4_run now_utc_run random_hex_def)

lemma login_InrE:
  assumes "login L email password duration w = (Inr (user, s), w')"
  obtains w1 where "lookup_by u_email email (users (db w)) = Some user"
    "al_verify L password (u_password_hash user)"
    "create_session L (u_id user) duration w1 = (Inr s, w')" "db w1 = db w"
  using assms unfolding login_def get_by_email_def verify_password_def
  by (auto elim!: and_then_InrE dest!: fetch_required_InrE ret_InrE
      simp: of_result_def fail_def split: if_splits)

lemma authenticate_session_run:
  assumes "no_db_faults w" and row: "lookup_by ss_token_hash (hash_session_token L token) (sessions (db w)) = Some row"
  shows "fst (authenticate_session L token w) =
    (if ss_expires_at row < env_clock (env w) (Suc (tick w)) then Inl (Message ''session has expired'')
     else Inr \<lparr>ac_user_id = ss_user_id row, ac_session_id = Some (ss_id row), ac_scopes = [''*'']\<rparr>)"
  using assms by (simp add: authenticate_session_def fetch_required_def io_simps)

text \<open>A login proves the password and opens a session that is good until it expires or is revoked: the
  returned token authenticates as the user with all scopes exactly while the clock has not passed the
  expiry, and after the session is revoked it is refused.\<close>

theorem login_session_lifecycle:
  assumes login: "login L email password duration w = (Inr (user, s), w1)"
    and later: "sessions (db w2) = sessions (db w1)" "no_db_faults w2"
    and revoke: "revoke_session (si_id s) w2 = (Inr (), w3)" "no_db_faults w3"
  shows "u_email user = email \<and> al_verify L password (u_password_hash user)
    \<and> fst (authenticate_session L (si_token s) w2) =
        (if si_expires_at s < env_clock (env w2) (Suc (tick w2)) then Inl (Message ''session has expired'')
         else Inr \<lparr>ac_user_id = u_id user, ac_session_id = Some (si_id s), ac_scopes = [''*'']\<rparr>)
    \<and> fst (authenticate_session L (si_token s) w3) = Inl (Message ''session not found or invalid'')"
proof -
  from login obtain v where user: "lookup_by u_email email (users (db w)) = Some user"
      "al_verify L password (u_password_hash user)"
    and cs: "create_session L (u_id user) duration v = (Inr s, w1)" by (rule login_InrE)
  from cs obtain row where row: "sessions (db w1) = sessions (db v) @ [row]" "ss_id row = si_id s"
      "ss_user_id row = u_id user" "ss_token_hash row = hash_session_token L (si_token s)"
      "ss_expires_at row = si_expires_at s" "\<not> has_key ss_id (si_id s) (sessions (db v))"
      "\<not> has_key ss_token_hash (hash_session_token L (si_token s)) (sessions (db v))"
    by (rule create_session_InrE)
  have "lookup_by ss_token_hash (hash_session_token L (si_token s)) (sessions (db w2)) = Some row"
    using lookup_snoc_fresh [OF row(7,4)] by (simp add: later row(1))
  note auth = authenticate_session_run [OF later(2) this]
  have s3: "sessions (db w3) = sessions (db v)"
    using execute_InrE [OF revoke(1) [unfolded revoke_session_def]] row(2,6)
    by (auto simp: later row(1) has_key_iff filter_id_conv image_iff)
  have "lookup_by ss_token_hash (hash_session_token L (si_token s)) (sessions (db w3)) = None"
    using row(7) by (simp add: s3 lookup_by_None has_key_iff)
  then have "fst (authenticate_session L (si_token s) w3) = Inl (Message ''session not found or invalid'')"
    using revoke(2) by (simp add: authenticate_session_def fetch_required_def io_simps)
  with auth user row show ?thesis by (auto dest: lookup_by_Some)
qed

section \<open>API tokens\<close>

definition unexpired :: "'z world_scheme \<Rightarrow> timestamp option \<Rightarrow> bool" where
  "unexpired w expires_at \<longleftrightarrow>
     (case expires_at of None \<Rightarrow> True | Some exp \<Rightarrow> \<exists>n \<ge> tick w. env_clock (env w) n \<le> exp)"

lemma try_tokens_InrE:
  "try_tokens L raw rows w = (Inr ctx, w') \<Longrightarrow>
   \<exists>row\<in>set rows. al_verify L raw (tk_token_hash row) \<and> unexpired w (tk_expires_at row)
     \<and> ctx = \<lparr>ac_user_id = tk_user_id row, ac_session_id = None, ac_scopes = tk_scopes row\<rparr>"
proof (induction rows)
  case (Cons row rows)
  show ?case
  proof (cases "verify_password L raw (tk_token_hash row) = Inr True")
    case True
    then have "al_verify L raw (tk_token_hash row)" by (simp add: verify_password_def split: if_splits)
    moreover from Cons.prems True obtain u v where chk: "check_token_expiry (tk_expires_at row) w = (Inr u, v)"
      and ctx: "ctx = \<lparr>ac_user_id = tk_user_id row, ac_session_id = None, ac_scopes = tk_scopes row\<rparr>"
      by (auto elim!: and_then_InrE dest!: ret_InrE)
    moreover have "unexpired w (tk_expires_at row)"
      using chk by (auto simp: check_token_expiry_def unexpired_def now_utc_run ret_def fail_def
          elim!: and_then_InrE split: option.splits if_splits)
    ultimately show ?thesis by auto
  next
    case False
    with Cons show ?thesis by auto
  qed
qed (simp add: fail_def)

lemma authenticate_api_token_InrE:
  assumes "authenticate_api_token L raw w = (Inr ctx, w')"
  shows "\<exists>row\<in>set (api_tokens (db w)). \<not> tk_revoked row \<and> tk_token_prefix row = take 10 raw
     \<and> al_verify L raw (tk_token_hash row) \<and> unexpired w (tk_expires_at row)
     \<and> ctx = \<lparr>ac_user_id = tk_user_id row, ac_session_id = None, ac_scopes = tk_scopes row\<rparr>"
proof -
  from assms obtain rows where t: "try_tokens L raw rows (w\<lparr>tick := Suc (tick w)\<rparr>) = (Inr ctx, w')"
    and rows: "rows = filter (\<lambda>r. tk_token_prefix r = take 10 raw \<and> \<not> tk_revoked r) (api_tokens (db w))"
    unfolding authenticate_api_token_def str_slice_to_def
    by (auto elim!: and_then_InrE dest!: select_rows_InrE simp: of_result_def fail_def split: if_splits)
  have "unexpired w e" if "unexpired (w\<lparr>tick := Suc (tick w)\<rparr>) e" for e
    using that by (auto simp: unexpired_def split: option.splits dest: Suc_leD)
  with try_tokens_InrE [OF t] show ?thesis by (auto simp: rows)
qed

text \<open>Everything the service can do, in any order and with any failures.\<close>

inductive auth_step :: "auth_lib \<Rightarrow> 'z world_scheme \<Rightarrow> 'z world_scheme \<Rightarrow> bool" for L where
  "auth_step L w (snd (register_user L email password name w))"
| "auth_step L w (snd (login L email password duration w))"
| "auth_step L w (snd (load_session sid w))"
| "auth_step L w (snd (create_session L u duration w))"
| "auth_step L w (snd (authenticate_session L token w))"
| "auth_step L w (snd (revoke_session sid w))"
| "auth_step L w (snd (list_api_tokens u w))"
| "auth_step L w (snd (issue_api_token L u name scopes expires w))"
| "auth_step L w (snd (authenticate_api_token L raw w))"
| "auth_step L w (snd (revoke_api_token u t w))"

definition token_revoked :: "uuid \<Rightarrow> db \<Rightarrow> bool" where
  "token_revoked t d \<longleftrightarrow> has_key tk_id t (api_tokens d) \<and> (\<forall>r\<in>set (api_tokens d). tk_id r = t \<longrightarrow> tk_revoked r)"

lemma keeps_auth_random [keeps_intros]:
  "keeps_db I (hash_password L p)" "keeps_db I (random_hex L n)"
  "keeps (\<lambda>w. P (env w)) (random_hex L n)"
  by (simp_all add: keeps_db_def keeps_def hash_password_def random_hex_def)

lemma keeps_fetch_required [keeps_intros]:
  "keeps_db I (fetch_required c m f)" "keeps (\<lambda>w. P (env w)) (fetch_required c m f)"
  unfolding fetch_required_def by (intro keeps_intros)+

lemma keeps_check_expiry [keeps_intros]: "keeps_db I (check_token_expiry e)"
  unfolding check_token_expiry_def by (intro keeps_intros)

lemma login_env [keeps_intros]: "keeps (\<lambda>w. P (env w)) (login L email password duration)"
  unfolding login_def get_by_email_def create_session_def Let_def by (intro keeps_intros)

lemma sessions_frame: "token_revoked t (d\<lparr>sessions := x\<rparr>) = token_revoked t d"
  "token_revoked t (d\<lparr>users := y\<rparr>) = token_revoked t d"
  by (simp_all add: token_revoked_def)

lemma session_ops_keep_revoked [keeps_intros]:
  "keeps_db (token_revoked t) (revoke_session sid)" "keeps_db (token_revoked t) (create_session L u duration)"
  "keeps_db (token_revoked t) (create_user i email h name at)"
  unfolding revoke_session_def create_session_def create_user_def Let_def
  by (intro keeps_intros keeps_db_execute keeps_db_insert_row; simp add: sessions_frame)+

lemma has_key_update_where:
  "(\<And>r. key (f r) = key r) \<Longrightarrow> has_key key k (update_where P f t) = has_key key k t"
  unfolding has_key_iff set_map [symmetric] by (simp add: map_update_where)

lemma token_revoked_update:
  assumes "token_revoked t d" and "\<And>r. tk_id (f r) = tk_id r" and "\<And>r. tk_revoked r \<Longrightarrow> tk_revoked (f r)"
  shows "token_revoked t (d\<lparr>api_tokens := update_where P f (api_tokens d)\<rparr>)"
  using assms by (auto simp: token_revoked_def has_key_update_where set_update_where)

lemma try_tokens_keep_revoked [keeps_intros]: "keeps_db (token_revoked t) (try_tokens L raw rows)"
proof (induction rows)
  case (Cons row rows)
  have "keeps_db (token_revoked t) (execute ''last used'' (\<lambda>d. d\<lparr>api_tokens := update_where
      (\<lambda>r. tk_id r = tk_id row) (\<lambda>r. r\<lparr>tk_last_used_at := Some now\<rparr>) (api_tokens d)\<rparr>))" for now
    by (rule keeps_db_execute) (simp add: token_revoked_update)
  then show ?case by (auto intro!: keeps_intros Cons)
qed (simp add: keeps_intros)

lemma token_ops_keep_revoked [keeps_intros]:
  "keeps_db (token_revoked t) (issue_api_token L u name scopes expires)"
  "keeps_db (token_revoked t) (revoke_api_token u' i)"
  unfolding issue_api_token_def revoke_api_token_def Let_def
  by (intro keeps_intros keeps_db_insert_row; auto simp: token_revoked_def has_key_iff)
    (intro keeps_intros keeps_db_statement; auto simp: token_revoked_update)

lemma service_keeps_revoked [keeps_intros]:
  "keeps_db (token_revoked t) (register_user L email password name)"
  "keeps_db (token_revoked t) (login L email password duration)"
  "keeps_db (token_revoked t) (load_session sid)"
  "keeps_db (token_revoked t) (authenticate_session L token)"
  "keeps_db (token_revoked t) (list_api_tokens u)"
  "keeps_db (token_revoked t) (authenticate_api_token L raw)"
  unfolding register_user_def login_def get_by_email_def load_session_def authenticate_session_def
    list_api_tokens_def authenticate_api_token_def
  by (intro keeps_intros)+

lemma auth_step_keeps_revoked:
  assumes "auth_step L w w'" and "token_revoked t (db w)"
  shows "token_revoked t (db w')"
  using assms(1)
  by cases (simp_all add: keeps_dbD [where I = "token_revoked t"] assms(2)
      service_keeps_revoked session_ops_keep_revoked token_ops_keep_revoked)

lemma auth_steps_keep_revoked:
  assumes "(auth_step L)\<^sup>*\<^sup>* w w'" and "token_revoked t (db w)"
  shows "token_revoked t (db w')"
  using assms by (induction rule: rtranclp_induct) (auto intro: auth_step_keeps_revoked)

lemma revoke_api_token_revokes:
  assumes "revoke_api_token u t w = (Inr (), w')" and "distinct (map tk_id (api_tokens (db w)))"
  shows "token_revoked t (db w')"
proof -
  let ?P = "\<lambda>r. tk_id r = t \<and> tk_user_id r = u"
  from assms(1) have d: "db w' = (db w)\<lparr>api_tokens :=
      update_where ?P (\<lambda>r. r\<lparr>tk_revoked := True\<rparr>) (api_tokens (db w))\<rparr>"
    and n: "count_where ?P (api_tokens (db w)) \<noteq> 0"
    unfolding revoke_api_token_def Let_def
    by (auto elim!: and_then_InrE statement_InrE simp: fail_def ret_def split: if_splits)
  from n obtain r where r: "r \<in> set (api_tokens (db w))" "?P r" by (auto simp: count_where_0)
  then have "r' = r" if "r' \<in> set (api_tokens (db w))" "tk_id r' = t" for r'
    using assms(2) that by (auto simp: distinct_map inj_on_def)
  moreover have "has_key tk_id t (api_tokens (db w))" using r by (auto simp: has_key_iff)
  ultimately show ?thesis using r by (auto simp: d token_revoked_def has_key_update_where set_update_where)
qed

text \<open>A revoked API token is dead for good: after a successful revocation, whatever the service does
  next, every accepted token belongs to another row, one that is not revoked, whose hash the token
  matches, whose expiry the clock had not passed, and whose user and scopes are what the caller gets.\<close>

theorem revoked_token_stays_dead:
  assumes "distinct (map tk_id (api_tokens (db w)))" and "revoke_api_token u t w = (Inr (), w1)"
    and "(auth_step L)\<^sup>*\<^sup>* w1 w2" and "authenticate_api_token L raw w2 = (Inr ctx, w3)"
  shows "\<exists>row\<in>set (api_tokens (db w2)). tk_id row \<noteq> t \<and> \<not> tk_revoked row
    \<and> al_verify L raw (tk_token_hash row) \<and> unexpired w2 (tk_expires_at row)
    \<and> ctx = \<lparr>ac_user_id = tk_user_id row, ac_session_id = None, ac_scopes = tk_scopes row\<rparr>"
  using authenticate_api_token_InrE [OF assms(4)]
    auth_steps_keep_revoked [OF assms(3) revoke_api_token_revokes [OF assms(2,1)]]
  by (auto simp: token_revoked_def)

section \<open>Examples\<close>

text \<open>A hash is the text itself; the random text is fixed.\<close>

definition demo_auth_lib :: auth_lib where
  "demo_auth_lib = \<lparr>al_hash_password = (\<lambda>n p. Inr p), al_hash_valid = (\<lambda>h. True), al_verify = (=),
     al_sha256_hex = id, al_random_hex = (\<lambda>n k. ''0123456789'')\<rparr>"

definition demo_login :: "(error + UserRecord \<times> SessionInfo) \<times> world" where
  "demo_login = login demo_auth_lib ''a@b'' ''hash'' 100 demo_world"

definition demo_issued :: "(error + IssuedToken) \<times> world" where
  "demo_issued = issue_api_token demo_auth_lib 2 ''ci'' [''deploy:write''] None demo_world"

lemma demo_login_runs:
  "demo_login = (Inr (projr (fst demo_login)), snd demo_login)"
  "u_id (fst (projr (fst demo_login))) = 2"
  "si_token (snd (projr (fst demo_login))) = ''0123456789''"
  "env_clock (env (snd demo_login)) (Suc (tick (snd demo_login))) \<le> si_expires_at (snd (projr (fst demo_login)))"
  by (rule run_ok) code_simp+

lemma demo_login_env: "env (snd demo_login) = demo_env"
  unfolding demo_login_def by (rule keeps_snd [OF login_env]) (simp add: demo_world_def)

theorem login_session_lifecycle_witness:
  "\<exists>i. fst (authenticate_session demo_auth_lib ''0123456789'' (snd demo_login)) =
     Inr \<lparr>ac_user_id = 2, ac_session_id = Some i, ac_scopes = [''*'']\<rparr>"
proof -
  let ?s = "snd (projr (fst demo_login))" and ?w = "snd demo_login"
  have l: "login demo_auth_lib ''a@b'' ''hash'' 100 demo_world = (Inr (fst (projr (fst demo_login)), ?s), ?w)"
    using demo_login_runs(1) by (simp add: demo_login_def)
  have r: "revoke_session (si_id ?s) ?w = (Inr (), snd (revoke_session (si_id ?s) ?w))"
    "no_db_faults (snd (revoke_session (si_id ?s) ?w))"
    using demo_login_env by (simp_all add: revoke_session_def io_simps)
  from login_session_lifecycle [OF l refl _ r] demo_login_runs demo_login_env show ?thesis by simp
qed

lemma demo_issued_runs:
  "fst (revoke_api_token 2 (it_id (projr (fst demo_issued))) (snd demo_issued)) = Inr ()"
  "distinct (map tk_id (api_tokens (db (snd demo_issued))))"
  by code_simp+

text \<open>The token of the example is the only one, so it is refused after its revocation.\<close>

theorem revoked_token_stays_dead_witness:
  "\<not> (\<exists>ctx w. authenticate_api_token demo_auth_lib ''dp_0123456789''
     (snd (revoke_api_token 2 (it_id (projr (fst demo_issued))) (snd demo_issued))) = (Inr ctx, w))"
proof
  let ?t = "it_id (projr (fst demo_issued))"
  let ?w = "snd (revoke_api_token 2 ?t (snd demo_issued))"
  assume "\<exists>ctx w. authenticate_api_token demo_auth_lib ''dp_0123456789'' ?w = (Inr ctx, w)"
  then obtain ctx w where a: "authenticate_api_token demo_auth_lib ''dp_0123456789'' ?w = (Inr ctx, w)" by blast
  have r: "revoke_api_token 2 ?t (snd demo_issued) = (Inr (), ?w)"
    using demo_issued_runs(1) by (metis prod.collapse)
  have "list_all (\<lambda>row. tk_id row = ?t) (api_tokens (db ?w))" by code_simp
  with revoked_token_stays_dead [OF demo_issued_runs(2) r rtranclp.rtrancl_refl a] show False
    by (auto simp: list_all_iff)
qed

end
