(* ===== verification/Cache.thy ===== *)
theory Cache
  imports Repository "HOL-Library.List_Lexorder" "HOL-Library.Char_ord"
begin

text \<open>
  \<^verbatim>\<open>src/cache.rs\<close>: the key of a build and the table of cached artifacts.  The JSON printer and SHA-256 in
  hex are parameters; a JSON object lists its members by key, as the printer has them.
\<close>

section \<open>Keys\<close>

record BuildCacheInput =
  ci_schema_version :: string
  ci_framework :: string
  ci_toolchain :: string
  ci_build_command :: string
  ci_lockfile_digest :: string
  ci_declared_env_keys :: "string list"

record CacheKey =
  ck_digest :: string
  ck_canonical_json :: string

text \<open>\<^verbatim>\<open>Vec::dedup\<close> drops consecutive duplicates.\<close>

fun dedup :: "'a list \<Rightarrow> 'a list" where
  "dedup [] = []"
| "dedup [x] = [x]"
| "dedup (x # y # ys) = (if x = y then dedup (y # ys) else x # dedup (y # ys))"

definition canonical_value :: "BuildCacheInput \<Rightarrow> json" where
  "canonical_value input =
     JObject [(''build_command'', JString (ci_build_command input)),
       (''declared_env_keys'', JArray (map JString (dedup (sort (ci_declared_env_keys input))))),
       (''framework'', JString (ci_framework input)),
       (''lockfile_digest'', JString (ci_lockfile_digest input)),
       (''schema_version'', JString (ci_schema_version input)),
       (''toolchain'', JString (ci_toolchain input))]"

definition from_build_inputs ::
  "(json \<Rightarrow> string option) \<Rightarrow> (string \<Rightarrow> string) \<Rightarrow> BuildCacheInput \<Rightarrow> CacheKey" where
  "from_build_inputs to_string sha256_hex input =
     (let canonical_json = unwrap_or (to_string (canonical_value input)) []
      in \<lparr>ck_digest = sha256_hex canonical_json, ck_canonical_json = canonical_json\<rparr>)"

section \<open>The table\<close>

record BuildCacheEntry =
  ce_id :: uuid
  ce_cache_key :: string
  ce_project_id :: uuid
  ce_artifact_checksum :: string
  ce_size_bytes :: u64
  ce_storage_path :: string
  ce_toolchain :: string
  ce_created_at :: timestamp
  ce_last_used_at :: timestamp
  ce_is_invalidated :: bool

record StoreCacheEntryInput =
  sc_cache_key :: string
  sc_project_id :: uuid
  sc_artifact_checksum :: string
  sc_size_bytes :: u64
  sc_storage_path :: string
  sc_toolchain :: string

definition map_row_to_cache_entry :: "CacheRow \<Rightarrow> BuildCacheEntry" where
  "map_row_to_cache_entry r =
     \<lparr>ce_id = bc_id r, ce_cache_key = bc_cache_key r, ce_project_id = bc_project_id r,
      ce_artifact_checksum = bc_artifact_checksum r, ce_size_bytes = as_u64 (bc_size_bytes r),
      ce_storage_path = bc_storage_path r, ce_toolchain = bc_toolchain r,
      ce_created_at = bc_created_at r, ce_last_used_at = bc_last_used_at r,
      ce_is_invalidated = bc_is_invalidated r\<rparr>"

definition new_cache_row :: "StoreCacheEntryInput \<Rightarrow> uuid \<Rightarrow> timestamp \<Rightarrow> CacheRow" where
  "new_cache_row input i now =
     \<lparr>bc_id = i, bc_cache_key = sc_cache_key input, bc_project_id = sc_project_id input,
      bc_artifact_checksum = sc_artifact_checksum input,
      bc_size_bytes = as_i64 (sc_size_bytes input), bc_storage_path = sc_storage_path input,
      bc_toolchain = sc_toolchain input, bc_created_at = now, bc_last_used_at = now,
      bc_is_invalidated = False\<rparr>"

definition merge_cache_row :: "CacheRow \<Rightarrow> CacheRow \<Rightarrow> CacheRow" where
  "merge_cache_row excluded r =
     r\<lparr>bc_artifact_checksum := bc_artifact_checksum excluded,
       bc_size_bytes := bc_size_bytes excluded, bc_storage_path := bc_storage_path excluded,
       bc_toolchain := bc_toolchain excluded, bc_last_used_at := bc_last_used_at excluded,
       bc_is_invalidated := False\<rparr>"

definition has_cache_key :: "uuid \<Rightarrow> string \<Rightarrow> CacheRow \<Rightarrow> bool" where
  "has_cache_key project_id cache_key r \<longleftrightarrow>
     bc_project_id r = project_id \<and> bc_cache_key r = cache_key"

definition store_cache_row :: "CacheRow \<Rightarrow> db \<Rightarrow> (error + CacheRow) \<times> db" where
  "store_cache_row row d =
     (if \<not> has_key p_id (bc_project_id row) (projects d)
      then (Inl (Database ''failed to store cache entry''), d)
      else case upsert_into (has_cache_key (bc_project_id row) (bc_cache_key row))
          (merge_cache_row row) bc_id row (build_cache d) of
        Some (r, t) \<Rightarrow> (Inr r, d\<lparr>build_cache := t\<rparr>)
      | None \<Rightarrow> (Inl (Database ''failed to store cache entry''), d))"

definition store_entry :: "StoreCacheEntryInput \<Rightarrow> ('z, BuildCacheEntry) op" where
  "store_entry input =
     and_then uuid_new_v4 (\<lambda>i.
     and_then now_utc (\<lambda>now.
     and_then (statement ''failed to store cache entry'' (store_cache_row (new_cache_row input i now)))
     (\<lambda>row. ret (map_row_to_cache_entry row))))"

definition valid_row :: "uuid \<Rightarrow> string \<Rightarrow> db \<Rightarrow> CacheRow option" where
  "valid_row project_id cache_key d =
     first_row (filter (\<lambda>r. has_cache_key project_id cache_key r \<and> \<not> bc_is_invalidated r)
       (build_cache d))"

definition get_valid :: "uuid \<Rightarrow> string \<Rightarrow> ('z, BuildCacheEntry option) op" where
  "get_valid project_id cache_key =
     and_then (select_rows ''failed to query build cache'' (valid_row project_id cache_key)) (\<lambda>row.
     ret (map_option map_row_to_cache_entry row))"

definition update_cache :: "string \<Rightarrow> (CacheRow \<Rightarrow> bool) \<Rightarrow> (CacheRow \<Rightarrow> CacheRow) \<Rightarrow> ('z, unit) op" where
  "update_cache context P f =
     execute context (\<lambda>d. d\<lparr>build_cache := update_where P f (build_cache d)\<rparr>)"

definition touch_used :: "uuid \<Rightarrow> string \<Rightarrow> ('z, unit) op" where
  "touch_used project_id cache_key =
     and_then now_utc (\<lambda>now.
     update_cache ''failed to touch cache entry'' (has_cache_key project_id cache_key)
       (\<lambda>r. r\<lparr>bc_last_used_at := now\<rparr>))"

definition invalidate :: "uuid \<Rightarrow> string \<Rightarrow> ('z, unit) op" where
  "invalidate project_id cache_key =
     update_cache ''failed to invalidate cache entry'' (has_cache_key project_id cache_key)
       (\<lambda>r. r\<lparr>bc_is_invalidated := True\<rparr>)"

definition invalidate_project :: "uuid \<Rightarrow> ('z, unit) op" where
  "invalidate_project project_id =
     update_cache ''failed to invalidate project cache entries'' (\<lambda>r. bc_project_id r = project_id)
       (\<lambda>r. r\<lparr>bc_is_invalidated := True\<rparr>)"

end
