(* ===== verification/Refinement.thy ===== *)
theory Refinement
  imports Prelude
begin

text \<open>
  The contract between a table and its abstract view: a command that succeeds acts on the view as its
  specification says, a command that fails leaves the view as it was.  Clients reason about sequences of
  commands on the view alone.
\<close>

fun run_all :: "('c \<Rightarrow> 's \<Rightarrow> ('e + 'a) \<times> 's) \<Rightarrow> 'c list \<Rightarrow> 's \<Rightarrow> 'c list \<times> 's" where
  "run_all run [] s = ([], s)"
| "run_all run (c # cs) s =
     (case run c s of
        (Inl e, s') \<Rightarrow> run_all run cs s'
      | (Inr a, s') \<Rightarrow> (case run_all run cs s' of (done_cs, t) \<Rightarrow> (c # done_cs, t)))"

locale command_refinement =
  fixes run :: "'c \<Rightarrow> 's \<Rightarrow> ('e + 'a) \<times> 's"
    and view :: "'s \<Rightarrow> 'm"
    and inv :: "'s \<Rightarrow> bool"
    and spec :: "'c \<Rightarrow> 'm \<Rightarrow> 'm"
  assumes step: "inv s \<Longrightarrow> run c s = (r, s') \<Longrightarrow>
    inv s' \<and> view s' = (if isl r then view s else spec c (view s))"
begin

lemma run_all_refines:
  assumes "inv s" and "run_all run cs s = (done_cs, s')"
  shows "inv s' \<and> view s' = fold spec done_cs (view s)"
  using assms
proof (induction cs arbitrary: s done_cs)
  case (Cons c cs)
  obtain r t where r: "run c s = (r, t)" by (cases "run c s")
  note st = step [OF Cons.prems(1) r]
  show ?case
  proof (cases r)
    case (Inl e)
    with st r Cons.prems(2) show ?thesis using Cons.IH [of t done_cs] by simp
  next
    case (Inr a)
    obtain ds u where d: "run_all run cs t = (ds, u)" by (cases "run_all run cs t")
    with st r Inr Cons.prems(2) show ?thesis using Cons.IH [of t ds] by auto
  qed
qed simp

lemma run_all_done: "run_all run cs s = (done_cs, s') \<Longrightarrow> set done_cs \<subseteq> set cs"
proof (induction cs arbitrary: s done_cs)
  case (Cons c cs)
  then show ?case by (fastforce split: prod.splits sum.splits)
qed simp

end

end
