(* ===== verification/Cache_Correct.thy ===== *)
theory Cache_Correct
  imports Cache Refinement
begin

text \<open>
  The correctness of the build cache: the key does not depend on the order or repetition of the declared
  variables and on nothing else but the inputs, and the table behaves as a finite map from projects and
  keys to artifacts.
\<close>

section \<open>Keys\<close>

lemma set_dedup [simp]: "set (dedup xs) = set xs"
  by (induction xs rule: dedup.induct) auto

lemma hd_dedup: "xs \<noteq> [] \<Longrightarrow> hd (dedup xs) = hd xs"
  by (induction xs rule: dedup.induct) auto

lemma sorted_dedup: "sorted xs \<Longrightarrow> sorted (dedup xs) \<and> distinct (dedup xs)"
proof (induction xs rule: dedup.induct)
  case (3 x y ys)
  show ?case
  proof (cases "x = y")
    case False
    then have "x < z" if "z \<in> set (y # ys)" for z using 3(3) that by (auto simp: order_le_less)
    then show ?thesis using 3 False by (auto simp: less_imp_le)
  qed (use 3 in simp)
qed simp_all

lemma dedup_sort: "dedup (sort xs) = sorted_list_of_set (set xs)"
proof -
  have "sorted_list_of_set (set (dedup (sort xs))) = dedup (sort xs)"
    by (rule sorted_list_of_set.idem_if_sorted_distinct) (use sorted_dedup [of "sort xs"] in simp_all)
  then show ?thesis by simp
qed

lemma canonical_value_eq_iff:
  "canonical_value a = canonical_value b \<longleftrightarrow>
     ci_schema_version a = ci_schema_version b \<and> ci_framework a = ci_framework b
   \<and> ci_toolchain a = ci_toolchain b \<and> ci_build_command a = ci_build_command b
   \<and> ci_lockfile_digest a = ci_lockfile_digest b
   \<and> set (ci_declared_env_keys a) = set (ci_declared_env_keys b)"
proof -
  have "map JString xs = map JString ys \<longleftrightarrow> xs = ys" for xs ys
    by (simp add: inj_map_eq_map inj_def)
  moreover have "sorted_list_of_set (set xs) = sorted_list_of_set (set ys) \<longleftrightarrow> set xs = set ys" for xs ys :: "string list"
    by (metis List.finite_set sorted_list_of_set.set_sorted_key_list_of_set)
  ultimately show ?thesis by (auto simp: canonical_value_def dedup_sort)
qed

text \<open>The cache key is canonical: two builds get the same canonical text exactly when they agree on the
  schema, framework, toolchain, command and lock file and declare the same set of variables, in any order and
  with any repetition, and then they have the same digest.  The JSON printer is assumed to print the two values
  and to print them differently when they differ.\<close>

theorem cache_key_canonical:
  assumes "to_string (canonical_value a) = Some s" and "to_string (canonical_value b) = Some t"
    and "s = t \<Longrightarrow> canonical_value a = canonical_value b"
  shows "(ck_canonical_json (from_build_inputs to_string sha a) = ck_canonical_json (from_build_inputs to_string sha b)
      \<longleftrightarrow> ci_schema_version a = ci_schema_version b \<and> ci_framework a = ci_framework b
        \<and> ci_toolchain a = ci_toolchain b \<and> ci_build_command a = ci_build_command b
        \<and> ci_lockfile_digest a = ci_lockfile_digest b
        \<and> set (ci_declared_env_keys a) = set (ci_declared_env_keys b))
    \<and> (ck_canonical_json (from_build_inputs to_string sha a) = ck_canonical_json (from_build_inputs to_string sha b)
      \<longrightarrow> from_build_inputs to_string sha a = from_build_inputs to_string sha b)"
proof -
  have "s = t \<longleftrightarrow> canonical_value a = canonical_value b" using assms by auto
  then show ?thesis using assms(1,2)
    by (auto simp: from_build_inputs_def Let_def canonical_value_eq_iff unwrap_or_def)
qed

definition demo_print :: "json \<Rightarrow> string option" where
  "demo_print v = (case v of JObject kvs \<Rightarrow>
     Some (concat (map (\<lambda>(k, v). case v of JString s \<Rightarrow> k @ CHR '':'' # s @ '';''
       | JArray xs \<Rightarrow> concat (map (\<lambda>x. case x of JString s \<Rightarrow> s @ '','' | _ \<Rightarrow> []) xs) | _ \<Rightarrow> []) kvs)) | _ \<Rightarrow> None)"

definition demo_inputs :: "string list \<Rightarrow> BuildCacheInput" where
  "demo_inputs ks = \<lparr>ci_schema_version = ''1'', ci_framework = ''vite'', ci_toolchain = ''node20'',
     ci_build_command = ''npm run build'', ci_lockfile_digest = ''ab'', ci_declared_env_keys = ks\<rparr>"

theorem cache_key_canonical_witness:
  "ck_canonical_json (from_build_inputs demo_print id (demo_inputs [''B'', ''A'', ''B''])) =
   ck_canonical_json (from_build_inputs demo_print id (demo_inputs [''A'', ''B'']))
   \<and> ck_canonical_json (from_build_inputs demo_print id (demo_inputs [''B''])) \<noteq>
   ck_canonical_json (from_build_inputs demo_print id (demo_inputs [''A'', ''B'']))"
proof -
  let ?b = "demo_inputs [''A'', ''B'']"
  have 1: "demo_print (canonical_value (demo_inputs ks)) = Some (the (demo_print (canonical_value (demo_inputs ks))))" for ks
    by (simp add: demo_print_def canonical_value_def)
  have "canonical_value (demo_inputs [''B'', ''A'', ''B'']) = canonical_value ?b"
    by code_simp
  moreover have "the (demo_print (canonical_value (demo_inputs [''B'']))) \<noteq> the (demo_print (canonical_value ?b))"
    by code_simp
  ultimately show ?thesis
    using cache_key_canonical [where to_string = demo_print and sha = id, OF 1 [of "[''B'', ''A'', ''B'']"] 1 [of "[''A'', ''B'']"]]
      cache_key_canonical [where to_string = demo_print and sha = id, OF 1 [of "[''B'']"] 1 [of "[''A'', ''B'']"]]
    by (auto simp: demo_inputs_def)
qed

section \<open>The table is a map\<close>

record artifact =
  af_checksum :: string
  af_size :: u64
  af_path :: string
  af_toolchain :: string

definition artifact_of :: "CacheRow \<Rightarrow> artifact" where
  "artifact_of r = \<lparr>af_checksum = bc_artifact_checksum r, af_size = as_u64 (bc_size_bytes r),
     af_path = bc_storage_path r, af_toolchain = bc_toolchain r\<rparr>"

type_synonym cache_view = "uuid \<times> string \<Rightarrow> artifact option"

definition cache_view :: "db \<Rightarrow> cache_view" where
  "cache_view d = (\<lambda>(p, k). map_option artifact_of (valid_row p k d))"

definition cache_inv :: "db \<Rightarrow> bool" where
  "cache_inv d \<longleftrightarrow> distinct (map bc_id (build_cache d))
     \<and> distinct (map (\<lambda>r. (bc_project_id r, bc_cache_key r)) (build_cache d))"

datatype cache_cmd =
    Store StoreCacheEntryInput
  | Touch uuid string
  | Invalidate uuid string
  | InvalidateProject uuid

fun run_cache :: "cache_cmd \<Rightarrow> ('z, unit) op" where
  "run_cache (Store input) = and_then (store_entry input) (\<lambda>_. ret ())"
| "run_cache (Touch p k) = touch_used p k"
| "run_cache (Invalidate p k) = invalidate p k"
| "run_cache (InvalidateProject p) = invalidate_project p"

fun cache_spec :: "cache_cmd \<Rightarrow> cache_view \<Rightarrow> cache_view" where
  "cache_spec (Store input) m = m((sc_project_id input, sc_cache_key input) \<mapsto>
     \<lparr>af_checksum = sc_artifact_checksum input, af_size = sc_size_bytes input,
      af_path = sc_storage_path input, af_toolchain = sc_toolchain input\<rparr>)"
| "cache_spec (Touch p k) m = m"
| "cache_spec (Invalidate p k) m = m((p, k) := None)"
| "cache_spec (InvalidateProject p) m = (\<lambda>(q, k). if q = p then None else m (q, k))"

lemma first_row_filter_unique:
  assumes "x \<in> set xs" and "P x" and "\<And>y. y \<in> set xs \<Longrightarrow> P y \<Longrightarrow> y = x"
  shows "first_row (filter (\<lambda>y. P y \<and> Q y) xs) = (if Q x then Some x else None)"
proof (cases "filter (\<lambda>y. P y \<and> Q y) xs")
  case Nil
  then show ?thesis using assms(1,2) by (auto simp: filter_empty_conv)
next
  case (Cons z zs)
  then have "z \<in> set (filter (\<lambda>y. P y \<and> Q y) xs)" by (metis list.set_intros(1))
  then have "z = x" "Q z" using assms(3) by auto
  then show ?thesis using Cons by simp
qed

lemma valid_row_unique:
  assumes "cache_inv d" and "r \<in> set (build_cache d)" and "has_cache_key p k r"
  shows "valid_row p k d = (if bc_is_invalidated r then None else Some r)"
proof -
  have u: "r' = r" if "r' \<in> set (build_cache d)" "has_cache_key p k r'" for r'
  proof -
    have "inj_on (\<lambda>r. (bc_project_id r, bc_cache_key r)) (set (build_cache d))"
      using assms(1) by (simp add: cache_inv_def distinct_map)
    then show ?thesis by (rule inj_onD) (use that assms(2,3) in \<open>simp_all add: has_cache_key_def\<close>)
  qed
  show ?thesis unfolding valid_row_def by (subst first_row_filter_unique [where P = "has_cache_key p k", OF assms(2,3) u]) simp_all
qed

lemma valid_row_absent:
  "(\<And>r. r \<in> set (build_cache d) \<Longrightarrow> \<not> has_cache_key p k r) \<Longrightarrow> valid_row p k d = None"
  by (auto simp: valid_row_def filter_empty_conv)

lemma cache_view_row:
  assumes "cache_inv d" and "r \<in> set (build_cache d)"
  shows "cache_view d (bc_project_id r, bc_cache_key r) = (if bc_is_invalidated r then None else Some (artifact_of r))"
  using valid_row_unique [OF assms, of "bc_project_id r" "bc_cache_key r"]
  by (simp add: cache_view_def has_cache_key_def)

lemma cache_view_absent:
  "List.find (has_cache_key p k) (build_cache d) = None \<Longrightarrow> cache_view d (p, k) = None"
  by (simp add: cache_view_def find_None_iff valid_row_absent)

lemma valid_row_update:
  fixes P :: "CacheRow \<Rightarrow> bool"
  assumes inv: "cache_inv d" and key: "\<And>r. bc_project_id (f r) = bc_project_id r \<and> bc_cache_key (f r) = bc_cache_key r
      \<and> bc_id (f r) = bc_id r"
  defines "e \<equiv> d\<lparr>build_cache := update_where P f (build_cache d)\<rparr>"
  shows "cache_inv e" and "cache_view e (p, k) =
    (case List.find (has_cache_key p k) (build_cache d) of
       None \<Rightarrow> None
     | Some r \<Rightarrow> let r' = if P r then f r else r in if bc_is_invalidated r' then None else Some (artifact_of r'))"
proof -
  show i: "cache_inv e"
    using inv key by (simp add: cache_inv_def e_def map_update_where)
  have hk: "has_cache_key p k (if P r then f r else r) = has_cache_key p k r" for r
    using key by (simp add: has_cache_key_def)
  show "cache_view e (p, k) =
    (case List.find (has_cache_key p k) (build_cache d) of
       None \<Rightarrow> None
     | Some r \<Rightarrow> let r' = if P r then f r else r in if bc_is_invalidated r' then None else Some (artifact_of r'))"
  proof (cases "List.find (has_cache_key p k) (build_cache d)")
    case None
    then have "\<not> has_cache_key p k r" if "r \<in> set (build_cache e)" for r
      using that hk by (auto simp: find_None_iff e_def set_update_where split: if_splits) (metis hk)+
    then show ?thesis using None by (simp add: cache_view_def valid_row_absent)
  next
    case (Some r)
    then have r: "r \<in> set (build_cache d)" "has_cache_key p k r" by (auto simp: find_Some_iff)
    then have "(if P r then f r else r) \<in> set (build_cache e)" by (simp add: e_def set_update_where)
    from valid_row_unique [OF i this] r hk Some show ?thesis by (simp add: cache_view_def Let_def)
  qed
qed

lemma update_step:
  assumes inv: "cache_inv d" and key: "\<And>r. bc_project_id (f r) = bc_project_id r \<and> bc_cache_key (f r) = bc_cache_key r
      \<and> bc_id (f r) = bc_id r"
    and spec: "\<And>r. r \<in> set (build_cache d) \<Longrightarrow> P r \<Longrightarrow>
      (if bc_is_invalidated (f r) then None else Some (artifact_of (f r))) =
      m' (bc_project_id r, bc_cache_key r)"
    and same: "\<And>r. r \<in> set (build_cache d) \<Longrightarrow> \<not> P r \<Longrightarrow>
      m' (bc_project_id r, bc_cache_key r) = cache_view d (bc_project_id r, bc_cache_key r)"
    and absent: "\<And>p k. List.find (has_cache_key p k) (build_cache d) = None \<Longrightarrow> m' (p, k) = None"
  shows "cache_view (d\<lparr>build_cache := update_where P f (build_cache d)\<rparr>) = m'"
proof (rule ext, clarify)
  fix p k
  show "cache_view (d\<lparr>build_cache := update_where P f (build_cache d)\<rparr>) (p, k) = m' (p, k)"
  proof (cases "List.find (has_cache_key p k) (build_cache d)")
    case None
    then show ?thesis using absent by (simp add: valid_row_update(2) [OF inv key])
  next
    case (Some r)
    then have r: "r \<in> set (build_cache d)" "p = bc_project_id r" "k = bc_cache_key r"
      by (auto simp: find_Some_iff has_cache_key_def)
    show ?thesis
      using spec [OF r(1)] same [OF r(1)] Some r(2,3) cache_view_row [OF inv r(1)]
      by (cases "P r") (simp_all add: valid_row_update(2) [OF inv key] Let_def)
  qed
qed

lemma store_step:
  assumes inv: "cache_inv d" and st: "store_cache_row (new_cache_row input i now) d = (Inr r, d')"
  shows "cache_inv d' \<and> cache_view d' = cache_spec (Store input) (cache_view d)"
proof -
  let ?row = "new_cache_row input i now" and ?p = "sc_project_id input" and ?k = "sc_cache_key input"
  have pk: "bc_project_id ?row = ?p" "bc_cache_key ?row = ?k" "bc_id ?row = i"
    by (simp_all add: new_cache_row_def)
  have key: "bc_project_id (merge_cache_row x r) = bc_project_id r \<and> bc_cache_key (merge_cache_row x r) = bc_cache_key r
      \<and> bc_id (merge_cache_row x r) = bc_id r" for x r
    by (simp add: merge_cache_row_def)
  have art: "artifact_of (merge_cache_row ?row r) = the (cache_spec (Store input) m (?p, ?k))"
    "artifact_of ?row = the (cache_spec (Store input) m (?p, ?k))" for r m
    by (simp_all add: artifact_of_def merge_cache_row_def new_cache_row_def)
  show ?thesis
  proof (cases "first_row (returning (has_cache_key ?p ?k) (merge_cache_row ?row) (build_cache d))")
    case (Some x)
    then have d': "d' = d\<lparr>build_cache := update_where (has_cache_key ?p ?k) (merge_cache_row ?row) (build_cache d)\<rparr>"
      using st by (auto simp: store_cache_row_def pk upsert_into_def split: if_splits)
    have ex: "\<exists>r\<in>set (build_cache d). has_cache_key ?p ?k r"
      using Some returning_Nil_iff by (metis first_row_None option.distinct(1))
    have "cache_view d' = cache_spec (Store input) (cache_view d)"
      unfolding d'
    proof (rule update_step [OF inv key])
      fix r assume "r \<in> set (build_cache d)" "has_cache_key ?p ?k r"
      then show "(if bc_is_invalidated (merge_cache_row ?row r) then None else Some (artifact_of (merge_cache_row ?row r))) =
          cache_spec (Store input) (cache_view d) (bc_project_id r, bc_cache_key r)"
        using art(1) [of r "cache_view d"] by (simp add: has_cache_key_def merge_cache_row_def)
    next
      fix p k assume "List.find (has_cache_key p k) (build_cache d) = None"
      then show "cache_spec (Store input) (cache_view d) (p, k) = None"
        using ex by (auto simp: cache_view_absent) (auto simp: find_None_iff)
    qed (auto simp: has_cache_key_def)
    then show ?thesis using valid_row_update(1) [OF inv key] by (simp add: d')
  next
    case None
    then have d': "d' = d\<lparr>build_cache := build_cache d @ [?row]\<rparr>" and fresh: "\<not> has_key bc_id i (build_cache d)"
      using st by (auto simp: store_cache_row_def pk upsert_into_def split: if_splits)
    have no: "\<not> has_cache_key ?p ?k r" if "r \<in> set (build_cache d)" for r
      using None that by (simp add: returning_Nil_iff)
    have inv': "cache_inv d'"
      using inv fresh no pk by (fastforce simp: cache_inv_def d' has_key_iff has_cache_key_def)
    have "cache_view d' (p, k) = cache_spec (Store input) (cache_view d) (p, k)" for p k
    proof (cases "(p, k) = (?p, ?k)")
      case True
      have "valid_row ?p ?k d' = Some ?row"
        using valid_row_unique [OF inv', of ?row ?p ?k]
        by (simp add: d' has_cache_key_def pk) (simp add: new_cache_row_def)
      then show ?thesis using True art(2) [of "cache_view d"] by (simp add: cache_view_def)
    next
      case False
      then have "valid_row p k d' = valid_row p k d"
        by (auto simp: valid_row_def d' has_cache_key_def pk)
      then show ?thesis using False by (auto simp: cache_view_def)
    qed
    then show ?thesis using inv' by (auto simp: fun_eq_iff)
  qed
qed

lemma run_cache_step:
  assumes inv: "cache_inv (db w)" and run: "run_cache c w = (r, w')"
  shows "cache_inv (db w') \<and> cache_view (db w') = (if isl r then cache_view (db w) else cache_spec c (cache_view (db w)))"
proof -
  have upd: "cache_inv (db w') \<and> cache_view (db w') = (if isl r then cache_view (db w) else m)"
    if "update_cache ctx P f v = (r, w')" "db v = db w"
      "\<And>r. bc_project_id (f r) = bc_project_id r \<and> bc_cache_key (f r) = bc_cache_key r \<and> bc_id (f r) = bc_id r"
      "cache_view ((db w)\<lparr>build_cache := update_where P f (build_cache (db w))\<rparr>) = m" for ctx P f v m
  proof (cases "env_db_fault (env v) (tick v)")
    case True
    then show ?thesis using that inv by (auto simp: update_cache_def execute_def statement_def)
  next
    case False
    then have "db w' = (db w)\<lparr>build_cache := update_where P f (build_cache (db w))\<rparr>" "\<not> isl r"
      using that(1,2) by (auto simp: update_cache_def execute_def statement_def)
    then show ?thesis using that(4) valid_row_update(1) [OF inv that(3)] by simp
  qed
  show ?thesis
  proof (cases c)
    case (Store input)
    let ?row = "new_cache_row input (env_uuid (env w) (tick w)) (env_clock (env w) (Suc (tick w)))"
    obtain x w1 where s: "statement ''failed to store cache entry'' (store_cache_row ?row)
        (w\<lparr>tick := Suc (Suc (tick w))\<rparr>) = (x, w1)" by fastforce
    then have r: "r = (case x of Inl e \<Rightarrow> Inl e | Inr _ \<Rightarrow> Inr ())" "w' = w1"
      using run by (auto simp: Store store_entry_def and_then_def uuid_new_v4_run now_utc_run ret_def split: sum.splits)
    show ?thesis
    proof (cases x)
      case (Inl e)
      then show ?thesis using s r inv by (auto dest: statement_InlE)
    next
      case (Inr y)
      then obtain d where "store_cache_row ?row (db w) = (Inr y, d)" "db w1 = d"
        using s by (auto elim!: statement_InrE)
      then show ?thesis using store_step [OF inv] r Inr by (auto simp: Store)
    qed
  next
    case (Touch p k)
    have "cache_view ((db w)\<lparr>build_cache := update_where (has_cache_key p k) (\<lambda>r. r\<lparr>bc_last_used_at := now\<rparr>)
        (build_cache (db w))\<rparr>) = cache_view (db w)" for now
      by (rule update_step [OF inv]) (simp_all add: cache_view_row [OF inv] cache_view_absent artifact_of_def)
    moreover have "update_cache ''failed to touch cache entry'' (has_cache_key p k)
        (\<lambda>r. r\<lparr>bc_last_used_at := env_clock (env w) (tick w)\<rparr>) (w\<lparr>tick := Suc (tick w)\<rparr>) = (r, w')"
      using run by (simp add: Touch touch_used_def and_then_def now_utc_run)
    ultimately show ?thesis using upd by (fastforce simp: Touch)
  next
    case (Invalidate p k)
    have "cache_view ((db w)\<lparr>build_cache := update_where (has_cache_key p k) (\<lambda>r. r\<lparr>bc_is_invalidated := True\<rparr>)
        (build_cache (db w))\<rparr>) = cache_spec c (cache_view (db w))"
      by (rule update_step [OF inv]) (auto simp: Invalidate has_cache_key_def cache_view_absent)
    then show ?thesis using run by (intro upd) (auto simp: Invalidate invalidate_def)
  next
    case (InvalidateProject p)
    have "cache_view ((db w)\<lparr>build_cache := update_where (\<lambda>r. bc_project_id r = p) (\<lambda>r. r\<lparr>bc_is_invalidated := True\<rparr>)
        (build_cache (db w))\<rparr>) = cache_spec c (cache_view (db w))"
      by (rule update_step [OF inv]) (auto simp: InvalidateProject cache_view_absent)
    then show ?thesis using run by (intro upd) (auto simp: InvalidateProject invalidate_project_def)
  qed
qed

interpretation cached: command_refinement run_cache "\<lambda>w. cache_view (db w)" "\<lambda>w. cache_inv (db w)" cache_spec
  by unfold_locales (rule run_cache_step)

text \<open>C29. The cache table is a map from projects and keys to artifacts: after any sequence of stores, touches
  and invalidations, of which those that hit a database error or an unknown project are dropped, the entry
  \<^verbatim>\<open>get_valid\<close> reads for a key is the one the specification has, with the checksum, size, path and toolchain
  that were last stored; sizes above \<^verbatim>\<open>i64::MAX\<close> come back unchanged through the signed column.\<close>

theorem cache_refines_map:
  fixes w w' w'' :: "'z world_scheme"
  assumes "cache_inv (db w)" and "run_all run_cache cs w = (done_cs, w')"
    and "get_valid p k w' = (Inr e, w'')"
  shows "map_option (\<lambda>e. \<lparr>af_checksum = ce_artifact_checksum e, af_size = ce_size_bytes e,
      af_path = ce_storage_path e, af_toolchain = ce_toolchain e\<rparr>) e
    = fold cache_spec done_cs (cache_view (db w)) (p, k)
    \<and> cache_inv (db w') \<and> db w'' = db w'"
proof -
  have v: "cache_inv (db w')" "cache_view (db w') = fold cache_spec done_cs (cache_view (db w))"
    using cached.run_all_refines [OF assms(1,2)] by simp_all
  have "e = map_option map_row_to_cache_entry (valid_row p k (db w'))" "db w'' = db w'"
    using assms(3) by (auto simp: get_valid_def and_then_def select_rows_def ret_def statement_def split: if_splits)
  then show ?thesis using v
    by (simp add: option.map_comp comp_def flip: v(2))
      (simp add: cache_view_def option.map_comp comp_def artifact_of_def [abs_def] map_row_to_cache_entry_def)
qed

definition demo_store :: "uuid \<Rightarrow> string \<Rightarrow> StoreCacheEntryInput" where
  "demo_store p c = \<lparr>sc_cache_key = ''k'', sc_project_id = p, sc_artifact_checksum = c, sc_size_bytes = -1,
     sc_storage_path = ''/a'', sc_toolchain = ''node20''\<rparr>"

definition demo_cache_cmds :: "cache_cmd list" where
  "demo_cache_cmds = [Store (demo_store 1 ''c1''), Store (demo_store 9 ''c2''), Invalidate 1 ''k'',
     Store (demo_store 1 ''c3''), Touch 1 ''k'']"

theorem cache_refines_map_witness:
  "\<exists>w' e w''. run_all run_cache demo_cache_cmds demo_world =
       ([Store (demo_store 1 ''c1''), Invalidate 1 ''k'', Store (demo_store 1 ''c3''), Touch 1 ''k''], w')
     \<and> get_valid 1 ''k'' w' = (Inr (Some e), w'')
     \<and> ce_artifact_checksum e = ''c3'' \<and> ce_size_bytes e = -1"
proof -
  let ?run = "run_all run_cache demo_cache_cmds demo_world"
  let ?ds = "[Store (demo_store 1 ''c1''), Invalidate 1 ''k'', Store (demo_store 1 ''c3''), Touch 1 ''k'']"
  let ?get = "get_valid 1 ''k'' (snd ?run)"
  have "cache_inv (db demo_world)" by code_simp
  moreover have "?run = (?ds, snd ?run)" 
  proof -
    have "fst ?run = ?ds" by code_simp
    then show ?thesis by (metis prod.collapse)
  qed
  moreover have "?get = (Inr (projr (fst ?get)), snd ?get)"
  proof -
    have "\<not> isl (fst ?get)" by code_simp
    then show ?thesis by (simp add: sum.expand prod_eq_iff)
  qed
  ultimately have "map_option (\<lambda>e. \<lparr>af_checksum = ce_artifact_checksum e, af_size = ce_size_bytes e,
      af_path = ce_storage_path e, af_toolchain = ce_toolchain e\<rparr>) (projr (fst ?get))
    = fold cache_spec ?ds (cache_view (db demo_world)) (1, ''k'')"
    using cache_refines_map by blast
  then obtain e where "projr (fst ?get) = Some e" "ce_artifact_checksum e = ''c3''" "ce_size_bytes e = -1"
    by (auto simp: demo_store_def)
  then show ?thesis using \<open>?run = (?ds, snd ?run)\<close> \<open>?get = (Inr (projr (fst ?get)), snd ?get)\<close> by metis
qed

end
