(* ===== verification/Sources.thy ===== *)
theory Sources
  imports Cache "HOL-Library.Multiset"
begin

text \<open>
  What the platform does with a directory of sources: \<^verbatim>\<open>src/detector.rs\<close>, \<^verbatim>\<open>src/framework.rs\<close>, the server
  command of \<^verbatim>\<open>src/config.rs\<close> and \<^verbatim>\<open>src/runtime.rs\<close>, and the copy and the lock file digest of
  \<^verbatim>\<open>src/worker.rs\<close>.

  A directory is a tree of what the file system answers: a file that cannot be read has no contents, a
  directory may refuse to be listed, an entry may have no type, a symbolic link carries what it resolves
  to.  A relative path is the list of its components, an absolute one its text.
\<close>

section \<open>Trees\<close>

datatype fnode =
    RegularFile "string option"
  | Directory bool "(string \<times> fnode) list"
  | Symlink "fnode option"
  | SpecialFile
  | NoType

fun is_file :: "fnode \<Rightarrow> bool" where
  "is_file (RegularFile c) = True"
| "is_file (Symlink (Some n)) = is_file n"
| "is_file n = False"

fun is_dir :: "fnode \<Rightarrow> bool" where
  "is_dir (Directory l es) = True"
| "is_dir (Symlink (Some n)) = is_dir n"
| "is_dir n = False"

fun follow :: "fnode \<Rightarrow> fnode" where
  "follow (Symlink (Some n)) = follow n"
| "follow n = n"

fun entries_of :: "fnode \<Rightarrow> (string \<times> fnode) list" where
  "entries_of (Directory l es) = es"
| "entries_of (Symlink (Some n)) = entries_of n"
| "entries_of n = []"

text \<open>\<^verbatim>\<open>fs::read\<close> follows links.\<close>

fun file_bytes :: "fnode \<Rightarrow> string option" where
  "file_bytes (RegularFile c) = c"
| "file_bytes (Symlink (Some n)) = file_bytes n"
| "file_bytes n = None"

definition child :: "fnode \<Rightarrow> string \<Rightarrow> fnode option" where
  "child n name = map_of (entries_of n) name"

definition has_file :: "fnode \<Rightarrow> string \<Rightarrow> bool" where
  "has_file root name = (case child root name of Some n \<Rightarrow> is_file n | None \<Rightarrow> False)"

definition path_join :: "string \<Rightarrow> string \<Rightarrow> string" where
  "path_join p q =
     (if str_starts_with q ''/'' then q
      else if p = [] \<or> last p = CHR ''/'' then p @ q
      else p @ ''/'' @ q)"

definition display :: "string \<Rightarrow> string" where
  "display p = from_utf8_lossy p"

definition abs_path :: "string \<Rightarrow> string list \<Rightarrow> string" where
  "abs_path root rel = fold (\<lambda>c p. path_join p c) rel root"

section \<open>Static sources\<close>

record StaticSource =
  so_root :: string
  so_files :: "string list list"

lemma size_list_sort_key: "size_list f (sort_key k xs) = size_list f xs"
proof -
  have "size_list f ys = sum_mset (image_mset f (mset ys)) + length ys" for ys
    by (induction ys) auto
  then show ?thesis by simp
qed

function walk_entries ::
  "string \<Rightarrow> string list \<Rightarrow> (string \<times> fnode) list \<Rightarrow> string list list \<Rightarrow> error + string list list" where
  "walk_entries root rel [] files = Inr files"
| "walk_entries root rel ((file_name, n) # es) files =
     (let path = display (abs_path root (rel @ [file_name]))
      in if rel = [] \<and> file_name = ''.git'' then walk_entries root rel es files
         else case n of
           NoType \<Rightarrow> Inl (Io (''failed to read file type for '' @ path))
         | Symlink target \<Rightarrow>
             Inl (Message (''symlinks are not permitted in source directory: '' @ path))
         | Directory listable sub \<Rightarrow>
             if \<not> listable then Inl (Io (''failed to read directory: '' @ path))
             else (case walk_entries root (rel @ [file_name]) (sort_key fst sub) files of
                Inl e \<Rightarrow> Inl e
              | Inr files' \<Rightarrow> walk_entries root rel es files')
         | RegularFile c \<Rightarrow> walk_entries root rel es (files @ [rel @ [file_name]])
         | SpecialFile \<Rightarrow>
             Inl (Message (''unsupported special file type in source directory: '' @ path)))"
  by pat_completeness auto
termination
  by (relation "measure (\<lambda>(root, rel, es, files). size_list (\<lambda>(name, n). Suc (size n)) es)")
    (auto simp: size_list_sort_key size_prod_def)

declare walk_entries.simps(2) [simp del]

definition read_tree :: "string \<Rightarrow> fnode \<Rightarrow> error + string list list" where
  "read_tree canonical n =
     (case n of
        Directory True es \<Rightarrow> walk_entries canonical [] (sort_key fst es) []
      | _ \<Rightarrow> Inl (Io (''failed to read directory: '' @ display canonical)))"

fun check_index :: "string \<Rightarrow> fnode option \<Rightarrow> error + unit" where
  "check_index canonical (Some (RegularFile c)) = Inr ()"
| "check_index canonical (Some (Symlink target)) =
     Inl (Message (''root index.html cannot be a symlink: '' @ display (path_join canonical ''index.html'')))"
| "check_index canonical (Some (Directory l es)) =
     Inl (Message (''root index.html must be a regular file: '' @ display (path_join canonical ''index.html'')))"
| "check_index canonical (Some SpecialFile) =
     Inl (Message (''root index.html must be a regular file: '' @ display (path_join canonical ''index.html'')))"
| "check_index canonical _ =
     Inl (Io (''source directory does not contain a root index.html: '' @ display canonical))"

text \<open>The last argument is the answer of \<^verbatim>\<open>canonicalize\<close>: the canonical path and what is there.\<close>

definition detect_static_source :: "string \<Rightarrow> (string \<times> fnode) option \<Rightarrow> error + StaticSource" where
  "detect_static_source source_dir canonicalized =
     (case canonicalized of
        None \<Rightarrow> Inl (Io (''source directory does not exist: '' @ display source_dir))
      | Some (canonical, n) \<Rightarrow>
          if \<not> is_dir n then Inl (Message (''source path is not a directory: '' @ display canonical))
          else
            and_ok (check_index canonical (child n ''index.html'')) (\<lambda>_.
            and_ok (read_tree canonical n) (\<lambda>files.
            Inr \<lparr>so_root = canonical, so_files = sort files\<rparr>)))"

section \<open>Build plans\<close>

record BuildPlan =
  bp_framework :: Framework
  bp_install :: "string list"
  bp_build :: "string list"
  bp_output :: string
  bp_server :: "string list option"

text \<open>The parser of \<^verbatim>\<open>serde_json\<close> is a parameter; it gives the text of its error.\<close>

definition read_package_json :: "(string \<Rightarrow> string + json) \<Rightarrow> string \<Rightarrow> fnode \<Rightarrow> error + json option" where
  "read_package_json from_str root_path root =
     (if \<not> has_file root ''package.json'' then Inr None
      else case Option.bind (child root ''package.json'') file_bytes of
        None \<Rightarrow> Inl (Io (''failed to read '' @ display (path_join root_path ''package.json'')))
      | Some content \<Rightarrow>
          if \<not> valid_utf8 content
          then Inl (Io (''failed to read '' @ display (path_join root_path ''package.json'')))
          else case from_str content of
            Inl e \<Rightarrow> Inl (Message (''invalid package.json in '' @ display root_path @ '': '' @ e))
          | Inr v \<Rightarrow> Inr (Some v))"

definition indicators :: "fnode \<Rightarrow> string list" where
  "indicators root =
     (if has_file root ''Dockerfile'' then [''docker''] else []) @
     (if has_file root ''requirements.txt'' then [''python''] else []) @
     (if has_file root ''package.json'' then [''node''] else []) @
     (if has_file root ''index.html'' \<and> \<not> has_file root ''package.json'' then [''static''] else [])"

fun join_strings :: "string \<Rightarrow> string list \<Rightarrow> string" where
  "join_strings sep [] = []"
| "join_strings sep [x] = x"
| "join_strings sep (x # y # ys) = x @ sep @ join_strings sep (y # ys)"

definition package_manager :: "fnode \<Rightarrow> string" where
  "package_manager root =
     (if has_file root ''pnpm-lock.yaml'' then ''pnpm''
      else if has_file root ''yarn.lock'' then ''yarn''
      else ''npm'')"

definition uses_next :: "json \<Rightarrow> bool" where
  "uses_next pkg \<longleftrightarrow>
     Option.bind (j_get ''dependencies'' pkg) (j_get ''next'') \<noteq> None
   \<or> Option.bind (j_get ''devDependencies'' pkg) (j_get ''next'') \<noteq> None"

definition has_script :: "string \<Rightarrow> json \<Rightarrow> bool" where
  "has_script name pkg \<longleftrightarrow>
     Option.bind (Option.bind (j_get ''scripts'' pkg) (j_get name)) j_str \<noteq> None"

definition node_plan :: "fnode \<Rightarrow> json \<Rightarrow> BuildPlan" where
  "node_plan root pkg =
     (let pm = package_manager root
      in \<lparr>bp_framework = (if uses_next pkg then NextJs else Node),
          bp_install = [pm, ''install''],
          bp_build = (if has_script ''build'' pkg
                      then if pm = ''yarn'' then [''yarn'', ''build''] else [pm, ''run'', ''build'']
                      else []),
          bp_output = (if uses_next pkg then ''.next'' else ''dist''),
          bp_server = (if has_script ''start'' pkg then Some [pm, ''start''] else None)\<rparr>)"

definition docker_plan :: BuildPlan where
  "docker_plan = \<lparr>bp_framework = Docker, bp_install = [],
     bp_build = [''docker'', ''build'', ''-t'', ''app'', ''.''], bp_output = ''.'',
     bp_server = Some [''docker'', ''run'', ''app'']\<rparr>"

definition python_plan :: BuildPlan where
  "python_plan = \<lparr>bp_framework = Python, bp_install = [''pip'', ''install'', ''-r'', ''requirements.txt''],
     bp_build = [], bp_output = ''.'', bp_server = Some [''python3'', ''app.py'']\<rparr>"

definition static_plan :: BuildPlan where
  "static_plan = \<lparr>bp_framework = StaticSite, bp_install = [], bp_build = [], bp_output = ''.'',
     bp_server = Some [''python3'', ''-m'', ''http.server'', ''8080'']\<rparr>"

definition plan_of :: "string \<Rightarrow> fnode \<Rightarrow> json option \<Rightarrow> error + BuildPlan" where
  "plan_of indicator root pkg_value =
     (if indicator = ''docker'' then Inr docker_plan
      else if indicator = ''python'' then Inr python_plan
      else if indicator = ''node'' then
        (case pkg_value of
           Some pkg \<Rightarrow> Inr (node_plan root pkg)
         | None \<Rightarrow> Inl (Panicked ''package.json was already parsed''))
      else if indicator = ''static'' then Inr static_plan
      else Inl (Panicked ''unreachable''))"

definition detect_build_plan :: "(string \<Rightarrow> string + json) \<Rightarrow> string \<Rightarrow> fnode \<Rightarrow> error + BuildPlan" where
  "detect_build_plan from_str root_path root =
     and_ok (read_package_json from_str root_path root) (\<lambda>pkg_value.
     let detected = indicators root
     in if detected = [] then
          Inl (Message (''unsupported framework: no recognized project files found in '' @ display root_path))
        else if 1 < length detected then
          Inl (Message (''ambiguous framework: detected multiple project indicators ('' @
            join_strings '', '' detected @ '') in '' @ display root_path))
        else plan_of (hd detected) root pkg_value)"

section \<open>Server commands\<close>

definition port_token :: string where
  "port_token = ''{PORT}''"

definition one_port :: "string list \<Rightarrow> bool" where
  "one_port tokens \<longleftrightarrow>
     length (filter (\<lambda>t. t = port_token) tokens) = 1
   \<and> length (filter (\<lambda>t. str_contains t port_token) tokens) = 1"

definition parse_server_command :: "string \<Rightarrow> error + string list" where
  "parse_server_command input =
     (let tokens = split_ascii_whitespace input
      in if tokens = [] then Inl (Message ''server command cannot be empty'')
         else if \<not> one_port tokens
         then Inl (Message ''server command must contain exactly one {PORT} token'')
         else Inr tokens)"

definition render_server_command :: "string list \<Rightarrow> u16 \<Rightarrow> error + string list" where
  "render_server_command template port =
     (let exact_matches = length (filter (\<lambda>t. t = port_token) template);
          embedded_matches = length (filter (\<lambda>t. str_contains t port_token \<and> t \<noteq> port_token) template)
      in if 0 < embedded_matches
         then Inl (Message ''{PORT} placeholder must be a complete token, not embedded within an argument'')
         else if exact_matches = 0
         then Inl (Message ''server command template must contain {PORT} placeholder'')
         else if 1 < exact_matches
         then Inl (Message ''server command template must contain exactly one {PORT} token'')
         else Inr (map (\<lambda>t. if t = port_token then show_nat (unat port) else t) template))"

record PlatformConfig =
  cf_state_dir :: string
  cf_listen_addr :: string
  cf_server_command :: "string list"

text \<open>\<^verbatim>\<open>std::env::var\<close> is \<open>None\<close> for a variable that is not set or no UTF-8.\<close>

definition env_or :: "(string \<Rightarrow> string option) \<Rightarrow> string \<Rightarrow> string \<Rightarrow> string" where
  "env_or var name fallback =
     (case var name of Some val \<Rightarrow> if str_trim val \<noteq> [] then val else fallback | None \<Rightarrow> fallback)"

definition from_env :: "(string \<Rightarrow> string option) \<Rightarrow> error + PlatformConfig" where
  "from_env var =
     (let home = unwrap_or (var ''HOME'') ''.'';
          state_dir = env_or var ''PLATFORM_STATE_DIR'' (path_join home ''.deploy-platform'');
          listen_addr = env_or var ''PLATFORM_LISTEN_ADDR'' ''127.0.0.1:8787'';
          server_cmd_raw = env_or var ''PLATFORM_SERVER_COMMAND''
            ''/bin/busybox httpd -f -p {PORT} -h /srv/app''
      in and_ok (parse_server_command server_cmd_raw) (\<lambda>server_command.
         Inr \<lparr>cf_state_dir = state_dir, cf_listen_addr = listen_addr,
              cf_server_command = server_command\<rparr>))"

section \<open>Copies and digests\<close>

text \<open>\<^verbatim>\<open>copy_dir_recursive\<close>: what the copy of a directory holds.  Links and special files are left out.\<close>

fun copy_node :: "fnode \<Rightarrow> error + fnode option" and copy_entries ::
  "(string \<times> fnode) list \<Rightarrow> error + (string \<times> fnode) list" where
  "copy_node (Directory listable es) =
     (if \<not> listable then Inl (Io ''read_dir'')
      else and_ok (copy_entries es) (\<lambda>es'. Inr (Some (Directory True es'))))"
| "copy_node (RegularFile c) = (case c of None \<Rightarrow> Inl (Io ''copy'') | Some s \<Rightarrow> Inr (Some (RegularFile (Some s))))"
| "copy_node NoType = Inl (Io ''file_type'')"
| "copy_node (Symlink target) = Inr None"
| "copy_node SpecialFile = Inr None"
| "copy_entries [] = Inr []"
| "copy_entries ((name, n) # es) =
     and_ok (copy_node n) (\<lambda>c.
     and_ok (copy_entries es) (\<lambda>es'.
     Inr (case c of Some n' \<Rightarrow> (name, n') # es' | None \<Rightarrow> es')))"

definition copy_dir_recursive :: "fnode option \<Rightarrow> error + fnode" where
  "copy_dir_recursive src =
     (case map_option follow src of
        Some (Directory True es) \<Rightarrow> and_ok (copy_entries es) (\<lambda>es'. Inr (Directory True es'))
      | _ \<Rightarrow> Inl (Io ''read_dir''))"

definition lockfiles :: "string list" where
  "lockfiles = [''package-lock.json'', ''yarn.lock'', ''pnpm-lock.yaml'', ''Cargo.lock'', ''Gemfile.lock'',
     ''poetry.lock'', ''requirements.txt'']"

definition lock_bytes :: "fnode \<Rightarrow> string \<Rightarrow> string option" where
  "lock_bytes root lf = Option.bind (child root lf) file_bytes"

text \<open>\<^verbatim>\<open>u64::to_le_bytes\<close>.\<close>

definition to_le_bytes :: "u64 \<Rightarrow> string" where
  "to_le_bytes n = map (\<lambda>i. char_of ((unat n div 256 ^ i) mod 256)) [0..<8]"

text \<open>\<open>meta_len\<close> is the length \<^verbatim>\<open>fs::metadata\<close> reports.\<close>

definition entry_bytes :: "(fnode \<Rightarrow> u64 option) \<Rightarrow> string \<times> fnode \<Rightarrow> string" where
  "entry_bytes meta_len = (\<lambda>(name, n).
     from_utf8_lossy name @
     (case meta_len n of
        None \<Rightarrow> []
      | Some len \<Rightarrow> to_le_bytes len @
          (if is_file n then unwrap_or (file_bytes n) [] else [])))"

definition hashed_bytes :: "(fnode \<Rightarrow> u64 option) \<Rightarrow> fnode \<Rightarrow> string" where
  "hashed_bytes meta_len root =
     (if list_ex (\<lambda>lf. lock_bytes root lf \<noteq> None) lockfiles
      then concat (map (\<lambda>lf. case lock_bytes root lf of Some contents \<Rightarrow> lf @ contents | None \<Rightarrow> []) lockfiles)
      else case root of
          Directory True es \<Rightarrow> concat (map (entry_bytes meta_len) (sort_key fst es))
        | _ \<Rightarrow> [])"

definition compute_lockfile_digest :: "(string \<Rightarrow> string) \<Rightarrow> (fnode \<Rightarrow> u64 option) \<Rightarrow> fnode \<Rightarrow> string" where
  "compute_lockfile_digest sha256_hex meta_len source = sha256_hex (hashed_bytes meta_len source)"

end
