(* ===== verification/Sources_Correct.thy ===== *)
theory Sources_Correct
  imports Sources
begin

text \<open>
  The correctness of detection: the static detector lists exactly the regular files of the source tree, the
  plan depends on exactly one indicator, a server command that was accepted can be rendered for every port,
  and what the cache key does not see.
\<close>

section \<open>Static sources\<close>

inductive regular_at :: "fnode \<Rightarrow> string list \<Rightarrow> bool" where
  here: "regular_at (RegularFile c) []"
| below: "(name, n) \<in> set es \<Longrightarrow> regular_at n p \<Longrightarrow> regular_at (Directory l es) (name # p)"

inductive_simps regular_at_simps [simp]:
  "regular_at (RegularFile c) p"
  "regular_at (Directory l es) p"
  "regular_at (Symlink t) p"
  "regular_at SpecialFile p"
  "regular_at NoType p"

text \<open>A tree the detector admits, and one whose directories have one entry per name.\<close>

fun plain :: "fnode \<Rightarrow> bool" and plain_entries :: "(string \<times> fnode) list \<Rightarrow> bool" where
  "plain (RegularFile c) = True"
| "plain (Directory listable es) = (listable \<and> plain_entries es)"
| "plain (Symlink t) = False"
| "plain SpecialFile = False"
| "plain NoType = False"
| "plain_entries [] = True"
| "plain_entries ((name, n) # es) = (plain n \<and> plain_entries es)"

fun wf_tree :: "fnode \<Rightarrow> bool" and wf_entries :: "(string \<times> fnode) list \<Rightarrow> bool" where
  "wf_tree (Directory listable es) = (distinct (map fst es) \<and> wf_entries es)"
| "wf_tree n = True"
| "wf_entries [] = True"
| "wf_entries ((name, n) # es) = (wf_tree n \<and> wf_entries es)"

lemma plain_entries_iff: "plain_entries es \<longleftrightarrow> (\<forall>(name, n)\<in>set es. plain n)"
  by (induction es) auto

lemma wf_entries_iff: "wf_entries es \<longleftrightarrow> (\<forall>(name, n)\<in>set es. wf_tree n)"
  by (induction es) auto

abbreviation skipped :: "string list \<Rightarrow> string \<Rightarrow> bool" where
  "skipped rel name \<equiv> rel = [] \<and> name = ''.git''"

definition listed :: "string list \<Rightarrow> (string \<times> fnode) list \<Rightarrow> string list set" where
  "listed rel es = {name # p |name n p. (name, n) \<in> set es \<and> \<not> skipped rel name \<and> regular_at n p}"

lemma listed_Nil [simp]: "listed rel [] = {}"
  by (simp add: listed_def)

lemma listed_Cons: "listed rel ((name, n) # es) =
    (if skipped rel name then {} else (#) name ` {p. regular_at n p}) \<union> listed rel es"
  by (auto simp: listed_def)

lemma walk_succeeds_iff:
  "(\<exists>files'. walk_entries root rel es files = Inr files') \<longleftrightarrow>
   (\<forall>(name, n)\<in>set es. skipped rel name \<or> plain n)"
proof (induction root rel es files rule: walk_entries.induct)
  case (2 root rel file_name n es files)
  show ?case
  proof (cases "skipped rel file_name")
    case True
    then show ?thesis using 2(1) [OF refl] by (simp add: walk_entries.simps(2))
  next
    case False
    show ?thesis
    proof (cases n)
      case (RegularFile c)
      then show ?thesis using 2(2) [OF refl False] False by (auto simp: walk_entries.simps(2))
    next
      case (Directory listable sub)
      show ?thesis
      proof (cases listable)
        case True
        note sub = 2(3) [OF refl False Directory, simplified, OF True]
          and rest = 2(4) [OF refl False Directory, simplified, OF True]
        show ?thesis
        proof (cases "walk_entries root (rel @ [file_name]) (sort_key fst sub) files")
          case (Inl e)
          then show ?thesis using sub False True by (auto simp: walk_entries.simps(2) Directory plain_entries_iff)
        next
          case (Inr files')
          then show ?thesis using sub rest [OF Inr] False True
            by (auto simp: walk_entries.simps(2) Directory plain_entries_iff)
        qed
      qed (use False in \<open>auto simp: walk_entries.simps(2) Directory\<close>)
    qed (use False in \<open>auto simp: walk_entries.simps(2)\<close>)
  qed
qed simp

lemma walk_result:
  assumes "walk_entries root rel es files = Inr files'"
    and "sorted (map fst es)" "distinct (map fst es)" "wf_entries es"
  shows "\<exists>ps. files' = files @ map ((@) rel) ps \<and> set ps = listed rel es \<and> sorted_wrt (<) ps"
  using assms
proof (induction root rel es files arbitrary: files' rule: walk_entries.induct)
  case (2 root rel file_name n es files)
  have tl: "sorted (map fst es)" "distinct (map fst es)" "wf_entries es" using "2.prems" by auto
  have later: "p < q" if in1: "p \<in> (#) file_name ` A" and in2: "q \<in> listed rel es" for p q A
  proof -
    obtain name n' q' where q: "q = name # q'" "(name, n') \<in> set es" using in2 by (auto simp: listed_def)
    then have "file_name \<le> name" "file_name \<noteq> name" using "2.prems"(2,3) by force+
    then show ?thesis using in1 q(1) by auto
  qed
  show ?case
  proof (cases "skipped rel file_name")
    case True
    then show ?thesis using 2(1) [OF refl True _ tl] "2.prems"(1) by (simp add: walk_entries.simps(2) listed_Cons)
  next
    case False
    show ?thesis
    proof (cases n)
      case (RegularFile c)
      then obtain ps where "files' = (files @ [rel @ [file_name]]) @ map ((@) rel) ps" "set ps = listed rel es" "sorted_wrt (<) ps"
        using 2(2) [OF refl False RegularFile _ tl] "2.prems"(1) False by (auto simp: walk_entries.simps(2))
      then show ?thesis using False RegularFile later [of "[file_name]" "{[]}"]
        by (intro exI [of _ "[file_name] # ps"]) (auto simp: listed_Cons)
    next
      case (Directory listable sub)
      then obtain files1 where l: "listable"
        and f1: "walk_entries root (rel @ [file_name]) (sort_key fst sub) files = Inr files1"
        and f2: "walk_entries root rel es files1 = Inr files'"
        using "2.prems"(1) False by (auto simp: walk_entries.simps(2) split: sum.splits if_splits)
      have wf: "distinct (map fst (sort_key fst sub))" "wf_entries (sort_key fst sub)" "sorted (map fst (sort_key fst sub))"
        using "2.prems"(4) Directory by (auto simp: wf_entries_iff distinct_map)
      obtain qs where qs: "files1 = files @ map ((@) (rel @ [file_name])) qs" "set qs = listed (rel @ [file_name]) (sort_key fst sub)"
        "sorted_wrt (<) qs"
        using 2(3) [OF refl False Directory _ f1 wf(3,1,2)] l by blast
      obtain ps where ps: "files' = files1 @ map ((@) rel) ps" "set ps = listed rel es" "sorted_wrt (<) ps"
        using 2(4) [OF refl False Directory _ f1 f2 tl] l by blast
      have sub: "set qs = {p. regular_at n p}" using qs(2) by (auto simp: listed_def Directory)
      have "sorted_wrt (<) (map ((#) file_name) qs @ ps)"
        using qs(3) ps(2,3) later [of _ "set qs"] by (auto simp: sorted_wrt_append sorted_wrt_map)
      moreover have "set (map ((#) file_name) qs @ ps) = listed rel ((file_name, n) # es)"
        using sub ps(2) False by (auto simp: listed_Cons)
      moreover have "files' = files @ map ((@) rel) (map ((#) file_name) qs @ ps)"
        using qs(1) ps(1) by simp
      ultimately show ?thesis by blast
    qed (use False "2.prems"(1) in \<open>auto simp: walk_entries.simps(2)\<close>)
  qed
qed simp

lemma sorted_wrt_less_sort: "sorted_wrt (<) (ps :: string list list) \<Longrightarrow> sort ps = ps"
  by (simp add: sorted_sort_id strict_sorted_imp_sorted)

lemma sorted_wrt_less_unique:
  "sorted_wrt (<) (ps :: string list list) \<Longrightarrow> sorted_wrt (<) qs \<Longrightarrow> set ps = set qs \<Longrightarrow> ps = qs"
  by (rule strict_sorted_equal)

lemma read_tree_result:
  assumes "wf_tree (Directory listable es)"
  shows "read_tree root (Directory listable es) = Inr files \<longleftrightarrow>
    listable \<and> (\<forall>(name, n)\<in>set es. name = ''.git'' \<or> plain n)
    \<and> sorted_wrt (<) files \<and> set files = listed [] es"
    (is "_ \<longleftrightarrow> ?r")
proof (cases listable)
  case True
  let ?es = "sort_key fst es"
  have wf: "sorted (map fst ?es)" "distinct (map fst ?es)" "wf_entries ?es" "listed [] ?es = listed [] es"
    using assms by (auto simp: wf_entries_iff distinct_map listed_def)
  have run: "read_tree root (Directory listable es) = walk_entries root [] ?es []"
    by (simp add: read_tree_def True)
  have res: "set fs = listed [] es \<and> sorted_wrt (<) fs" if "walk_entries root [] ?es [] = Inr fs" for fs
    using walk_result [OF that wf(1-3)] wf(4) by (auto simp: map_idI)
  have iff: "(\<exists>fs. walk_entries root [] ?es [] = Inr fs) \<longleftrightarrow> (\<forall>(name, n)\<in>set es. name = ''.git'' \<or> plain n)"
    using walk_succeeds_iff [of root "[]" ?es "[]"] by simp
  show ?thesis unfolding run
  proof
    assume w: "walk_entries root [] ?es [] = Inr files"
    then show ?r using res [OF w] iff True by blast
  next
    assume r: ?r
    then obtain fs where fs: "walk_entries root [] ?es [] = Inr fs" using iff by blast
    have "fs = files" by (rule sorted_wrt_less_unique) (use res [OF fs] r in simp_all)
    then show "walk_entries root [] ?es [] = Inr files" using fs by simp
  qed
qed (simp add: read_tree_def)

text \<open>C31. The static detector lists the tree exactly: it succeeds on a directory if and only if the root has an
  \<^verbatim>\<open>index.html\<close> that is a regular file and everything outside the root's \<^verbatim>\<open>.git\<close> is a regular file or a directory
  that can be listed (no link, no special file), and then its result holds the path of every regular file
  outside \<^verbatim>\<open>.git\<close>, once, in increasing order of paths, and nothing else.\<close>

theorem detect_static_source_exact:
  assumes "wf_tree (Directory listable es)"
  shows "detect_static_source dir (Some (root, Directory listable es)) = Inr r \<longleftrightarrow>
    (\<exists>c. map_of es ''index.html'' = Some (RegularFile c)) \<and> listable
    \<and> (\<forall>(name, n)\<in>set es. name = ''.git'' \<or> plain n)
    \<and> so_root r = root \<and> sorted_wrt (<) (so_files r)
    \<and> set (so_files r) = {name # p |name n p. (name, n) \<in> set es \<and> name \<noteq> ''.git'' \<and> regular_at n p}"
proof -
  have idx: "check_index root m = Inr () \<longleftrightarrow> (\<exists>c. m = Some (RegularFile c))" for m
    by (cases "(root, m)" rule: check_index.cases) auto
  have l: "listed [] es = {name # p |name n p. (name, n) \<in> set es \<and> name \<noteq> ''.git'' \<and> regular_at n p}"
    by (simp add: listed_def)
  have "detect_static_source dir (Some (root, Directory listable es)) = Inr r \<longleftrightarrow>
      (\<exists>c. map_of es ''index.html'' = Some (RegularFile c)) \<and>
      (\<exists>files. read_tree root (Directory listable es) = Inr files \<and> r = \<lparr>so_root = root, so_files = sort files\<rparr>)"
    by (auto simp: detect_static_source_def and_ok_def child_def idx split: sum.splits)
  also have "\<dots> \<longleftrightarrow> (\<exists>c. map_of es ''index.html'' = Some (RegularFile c)) \<and>
      (\<exists>files. listable \<and> (\<forall>(name, n)\<in>set es. name = ''.git'' \<or> plain n) \<and> sorted_wrt (<) files
        \<and> set files = listed [] es \<and> r = \<lparr>so_root = root, so_files = files\<rparr>)"
    unfolding read_tree_result [OF assms] by (metis sorted_wrt_less_sort)
  finally show ?thesis unfolding l [symmetric] by (cases r) auto
qed

definition demo_tree :: fnode where
  "demo_tree = Directory True [(''index.html'', RegularFile (Some ''x'')), (''.git'', Symlink None),
     (''b'', Directory True [(''z'', RegularFile None), (''a'', RegularFile (Some []))])]"

theorem detect_static_source_exact_witness:
  "detect_static_source ''s'' (Some (''/s'', demo_tree)) =
     Inr \<lparr>so_root = ''/s'', so_files = [[''b'', ''a''], [''b'', ''z''], [''index.html'']]\<rparr>"
  unfolding demo_tree_def
  by (subst detect_static_source_exact) (simp, auto)

section \<open>Build plans\<close>

lemma indicators_single:
  "indicators root = [i] \<longleftrightarrow>
     (i = ''docker'' \<and> has_file root ''Dockerfile'' \<and> \<not> has_file root ''requirements.txt''
        \<and> \<not> has_file root ''package.json'' \<and> \<not> has_file root ''index.html'')
   \<or> (i = ''python'' \<and> has_file root ''requirements.txt'' \<and> \<not> has_file root ''Dockerfile''
        \<and> \<not> has_file root ''package.json'' \<and> \<not> has_file root ''index.html'')
   \<or> (i = ''node'' \<and> has_file root ''package.json'' \<and> \<not> has_file root ''Dockerfile''
        \<and> \<not> has_file root ''requirements.txt'')
   \<or> (i = ''static'' \<and> has_file root ''index.html'' \<and> \<not> has_file root ''package.json''
        \<and> \<not> has_file root ''Dockerfile'' \<and> \<not> has_file root ''requirements.txt'')"
  by (cases "has_file root ''Dockerfile''"; cases "has_file root ''requirements.txt''";
      cases "has_file root ''package.json''"; cases "has_file root ''index.html''")
    (simp_all add: indicators_def eq_commute)

lemma detect_build_plan_step:
  "detect_build_plan from_str p root = Inr plan \<longleftrightarrow>
     (\<exists>pkg i. read_package_json from_str p root = Inr pkg \<and> indicators root = [i]
        \<and> plan_of i root pkg = Inr plan)"
proof (cases "read_package_json from_str p root")
  case (Inr pkg)
  then show ?thesis
    by (cases "indicators root"; cases "tl (indicators root)")
      (simp_all add: detect_build_plan_def and_ok_def Let_def)
qed (simp add: detect_build_plan_def and_ok_def)

text \<open>The build plan is decided by exactly one indicator: \<^verbatim>\<open>detect_build_plan\<close> succeeds if and only if the root
  has a Dockerfile, a \<^verbatim>\<open>requirements.txt\<close>, a readable and valid \<^verbatim>\<open>package.json\<close> or an \<^verbatim>\<open>index.html\<close> without
  any indicator of another kind (an \<^verbatim>\<open>index.html\<close> beside a \<^verbatim>\<open>package.json\<close> does not count), and the plan is the
  one of that indicator; every other source is refused.\<close>

theorem detect_build_plan_exact:
  "detect_build_plan from_str p root = Inr plan \<longleftrightarrow>
     (has_file root ''Dockerfile'' \<and> \<not> has_file root ''requirements.txt''
        \<and> \<not> has_file root ''package.json'' \<and> \<not> has_file root ''index.html'' \<and> plan = docker_plan)
   \<or> (has_file root ''requirements.txt'' \<and> \<not> has_file root ''Dockerfile''
        \<and> \<not> has_file root ''package.json'' \<and> \<not> has_file root ''index.html'' \<and> plan = python_plan)
   \<or> (has_file root ''package.json'' \<and> \<not> has_file root ''Dockerfile'' \<and> \<not> has_file root ''requirements.txt''
        \<and> (\<exists>c v. Option.bind (child root ''package.json'') file_bytes = Some c \<and> valid_utf8 c
              \<and> from_str c = Inr v \<and> plan = node_plan root v))
   \<or> (has_file root ''index.html'' \<and> \<not> has_file root ''package.json''
        \<and> \<not> has_file root ''Dockerfile'' \<and> \<not> has_file root ''requirements.txt'' \<and> plan = static_plan)"
proof (cases "has_file root ''package.json''")
  case True
  define ok where "ok c v \<longleftrightarrow> Option.bind (child root ''package.json'') file_bytes = Some c \<and> valid_utf8 c
    \<and> from_str c = Inr v" for c v
  have ind: "indicators root = [i] \<longleftrightarrow> i = ''node'' \<and> \<not> has_file root ''Dockerfile'' \<and> \<not> has_file root ''requirements.txt''" for i
    using True by (simp add: indicators_single)
  have pkg: "read_package_json from_str p root = Inr pkg \<longleftrightarrow> (\<exists>c v. ok c v \<and> pkg = Some v)" for pkg
    using True by (auto simp: ok_def read_package_json_def split: option.splits sum.splits)
  have node: "plan_of ''node'' root (Some v) = Inr (node_plan root v)" for v by (simp add: plan_of_def)
  have "detect_build_plan from_str p root = Inr plan \<longleftrightarrow>
      \<not> has_file root ''Dockerfile'' \<and> \<not> has_file root ''requirements.txt'' \<and> (\<exists>c v. ok c v \<and> node_plan root v = plan)"
    unfolding detect_build_plan_step ind pkg by (metis node Inr_inject)
  then show ?thesis using True unfolding ok_def by (simp only: simp_thms) (metis (no_types))
next
  case False
  then have "detect_build_plan from_str p root = Inr plan \<longleftrightarrow>
      (\<exists>i. indicators root = [i] \<and> plan_of i root None = Inr plan)"
    by (auto simp: detect_build_plan_step read_package_json_def)
  then show ?thesis using False
    by (cases "has_file root ''Dockerfile''"; cases "has_file root ''requirements.txt''"; cases "has_file root ''index.html''")
      (simp_all add: indicators_def plan_of_def eq_commute [of plan])
qed

section \<open>Server commands\<close>

lemma filter_one_split:
  assumes "length (filter P xs) = 1"
  obtains x pre post where "xs = pre @ x # post" "P x" "\<And>y. y \<in> set (pre @ post) \<Longrightarrow> \<not> P y"
proof -
  obtain x where x: "filter P xs = [x]" using assms by (cases "filter P xs") auto
  then obtain pre post where "xs = pre @ x # post" "\<forall>y\<in>set pre. \<not> P y" "P x" "filter P post = []"
    by (auto simp: filter_eq_Cons_iff)
  then show thesis using that [of pre x post] by (auto simp: filter_empty_conv)
qed

lemma contains_self: "str_contains s s"
  by (auto simp: str_contains_iff intro: exI [of _ "[]"])

lemma one_port_split:
  "one_port tokens \<longleftrightarrow>
     (\<exists>pre post. tokens = pre @ port_token # post \<and> (\<forall>t\<in>set (pre @ post). \<not> str_contains t port_token))"
proof
  assume one: "one_port tokens"
  then obtain x pre post where t: "tokens = pre @ x # post" "str_contains x port_token"
    "\<And>t. t \<in> set (pre @ post) \<Longrightarrow> \<not> str_contains t port_token"
    unfolding one_port_def by (metis filter_one_split)
  then have "t \<noteq> port_token" if "t \<in> set (pre @ post)" for t using that contains_self by blast
  then have "filter (\<lambda>t. t = port_token) pre = []" "filter (\<lambda>t. t = port_token) post = []"
    by (auto simp: filter_empty_conv)
  then have "x = port_token" using one t(1) by (auto simp: one_port_def split: if_splits)
  then show "\<exists>pre post. tokens = pre @ port_token # post \<and> (\<forall>t\<in>set (pre @ post). \<not> str_contains t port_token)"
    using t by blast
next
  assume "\<exists>pre post. tokens = pre @ port_token # post \<and> (\<forall>t\<in>set (pre @ post). \<not> str_contains t port_token)"
  then obtain pre post where t: "tokens = pre @ port_token # post"
    "\<And>t. t \<in> set (pre @ post) \<Longrightarrow> \<not> str_contains t port_token" by blast
  then have "filter (\<lambda>t. str_contains t port_token) pre = []" "filter (\<lambda>t. str_contains t port_token) post = []"
    "filter (\<lambda>t. t = port_token) pre = []" "filter (\<lambda>t. t = port_token) post = []"
    using contains_self by (auto simp: filter_empty_conv)
  then show "one_port tokens" by (simp add: one_port_def t contains_self)
qed

lemma render_one_port:
  assumes "tokens = pre @ port_token # post" and "\<forall>t\<in>set (pre @ post). \<not> str_contains t port_token"
  shows "render_server_command tokens port = Inr (pre @ show_nat (unat port) # post)"
proof -
  have ne: "t \<noteq> port_token" "\<not> str_contains t port_token" if "t \<in> set (pre @ post)" for t
    using that assms(2) contains_self by blast+
  have f: "filter (\<lambda>t. t = port_token) ts = []" "filter (\<lambda>t. str_contains t port_token \<and> t \<noteq> port_token) ts = []"
    "map (\<lambda>t. if t = port_token then show_nat (unat port) else t) ts = ts" if "set ts \<subseteq> set (pre @ post)" for ts
    using that ne by (auto simp: filter_empty_conv subset_iff intro!: map_idI)
  show ?thesis using f [of pre] f [of post] by (simp add: render_server_command_def assms(1))
qed

text \<open>A server command that the configuration or the API accepts can always be started: the tokens of an
  accepted command hold the placeholder as a token of its own exactly once and nowhere inside another token,
  and rendering it for any port succeeds, puts the decimal port in that place and changes no other token.
  Rendering refuses every token list the check refuses.\<close>

theorem server_command_renders:
  "(parse_server_command input = Inr tokens \<longrightarrow>
     (\<exists>pre post. tokens = pre @ port_token # post
        \<and> (\<forall>port. render_server_command tokens port = Inr (pre @ show_nat (unat port) # post))))
   \<and> ((\<exists>r. render_server_command ts port = Inr r) \<longleftrightarrow> one_port ts)"
proof (intro conjI impI)
  assume "parse_server_command input = Inr tokens"
  then have "one_port tokens" by (auto simp: parse_server_command_def Let_def split: if_splits)
  then show "\<exists>pre post. tokens = pre @ port_token # post
      \<and> (\<forall>port. render_server_command tokens port = Inr (pre @ show_nat (unat port) # post))"
    using one_port_split [of tokens] render_one_port by metis
next
  show "(\<exists>r. render_server_command ts port = Inr r) \<longleftrightarrow> one_port ts"
  proof
    assume "one_port ts"
    then show "\<exists>r. render_server_command ts port = Inr r"
      using one_port_split [of ts] render_one_port by metis
  next
    assume "\<exists>r. render_server_command ts port = Inr r"
    then have "length (filter (\<lambda>t. t = port_token) ts) = 1"
      and no: "filter (\<lambda>t. str_contains t port_token \<and> t \<noteq> port_token) ts = []"
      by (auto simp: render_server_command_def Let_def less_Suc_eq_le order_antisym Suc_leI split: if_splits)
    moreover have "filter (\<lambda>t. str_contains t port_token) ts = filter (\<lambda>t. t = port_token) ts"
      using no contains_self by (intro filter_cong) (auto simp: filter_empty_conv)
    ultimately show "one_port ts" by (simp add: one_port_def)
  qed
qed

theorem server_command_renders_witness:
  "\<exists>pre post. [''httpd'', ''-p'', ''{PORT}''] = pre @ port_token # post
     \<and> (\<forall>port. render_server_command [''httpd'', ''-p'', ''{PORT}''] port = Inr (pre @ show_nat (unat port) # post))"
proof -
  have "parse_server_command ''httpd -p {PORT}'' = Inr [''httpd'', ''-p'', ''{PORT}'']" by code_simp
  then show ?thesis using server_command_renders by blast
qed

end
