(* ===== verification/State_Store.thy ===== *)
theory State_Store
  imports Sources Refinement
begin

text \<open>
  \<^verbatim>\<open>src/model.rs\<close> and \<^verbatim>\<open>src/store.rs\<close>: the state of the single-host platform and the JSON file that holds it.

  The disk is a map from paths to contents.  Every call of the file system may fail: a write that fails
  leaves any prefix of its bytes behind, and \<^verbatim>\<open>Path::exists\<close> answers no when its own call fails, which
  \<open>stat_fault\<close> decides.  The JSON
  printer and parser and the text of identifiers are parameters.
\<close>

section \<open>The state\<close>

record Project =
  sp_id :: uuid
  sp_name :: string
  sp_user_id :: "uuid option"
  sp_source_dir :: string
  sp_base_image :: string
  sp_server_command :: "string list"
  sp_created_at :: timestamp
  sp_active_deployment :: "uuid option"

record StateDeployment =
  sd_id :: uuid
  sd_project_id :: uuid
  sd_framework :: Framework
  sd_status :: DeploymentStatus
  sd_image_path :: "string option"
  sd_container_id :: "uuid option"
  sd_port :: "u16 option"
  sd_url :: "string option"
  sd_created_at :: timestamp
  sd_finished_at :: "timestamp option"
  sd_error :: "string option"
  sd_commit_sha :: "string option"
  sd_target :: "string option"

record PlatformState =
  ps_version :: "8 word"
  ps_projects :: "Project list"
  ps_deployments :: "StateDeployment list"

definition empty_state :: PlatformState where
  "empty_state = \<lparr>ps_version = 1, ps_projects = [], ps_deployments = []\<rparr>"

record CreateProjectInput =
  in_name :: string
  in_source_dir :: string
  in_base_image :: string
  in_server_command :: "string list"
  in_user_id :: "uuid option"

record RunningContainer =
  rc_id :: uuid
  rc_port :: u16
  rc_url :: string

section \<open>The disk\<close>

record host_world = world +
  disk :: "string \<rightharpoonup> string"
  stat_fault :: "nat \<Rightarrow> bool"

type_synonym ('z, 'a) host_op = "('z host_world_scheme, error, 'a) io"

record host_lib =
  hl_to_json :: "PlatformState \<Rightarrow> string option"
  hl_partial_json :: "PlatformState \<Rightarrow> string"
  hl_from_json :: "string \<Rightarrow> PlatformState option"
  hl_written :: "nat \<Rightarrow> nat"
  hl_uuid_str :: "uuid \<Rightarrow> string"
  hl_simple :: "uuid \<Rightarrow> string"
  hl_alternate :: "error \<Rightarrow> string"
  hl_to_string :: "error \<Rightarrow> string"

definition fs_create :: "string \<Rightarrow> string \<Rightarrow> ('z, unit) host_op" where
  "fs_create context path =
     and_then (io_call context) (\<lambda>_. modify (\<lambda>w. w\<lparr>disk := (disk w)(path \<mapsto> [])\<rparr>))"

definition fs_write :: "host_lib \<Rightarrow> string \<Rightarrow> string \<Rightarrow> string \<Rightarrow> ('z, unit) host_op" where
  "fs_write L context path bytes = (\<lambda>w.
     if env_io_fault (env w) (tick w)
     then (Inl (Io context), w\<lparr>tick := Suc (tick w), disk := (disk w)(path \<mapsto> take (hl_written L (tick w)) bytes)\<rparr>)
     else (Inr (), w\<lparr>tick := Suc (tick w), disk := (disk w)(path \<mapsto> bytes)\<rparr>))"

definition fs_rename :: "string \<Rightarrow> string \<Rightarrow> string \<Rightarrow> ('z, unit) host_op" where
  "fs_rename context from to =
     and_then (io_call context) (\<lambda>_.
     and_then (gets (\<lambda>w. disk w from)) (\<lambda>c.
     case c of
       None \<Rightarrow> fail (Io context)
     | Some bytes \<Rightarrow> modify (\<lambda>w. w\<lparr>disk := (disk w)(to \<mapsto> bytes, from := None)\<rparr>)))"

definition fs_remove :: "string \<Rightarrow> string \<Rightarrow> ('z, unit) host_op" where
  "fs_remove context path =
     and_then (io_call context) (\<lambda>_. modify (\<lambda>w. w\<lparr>disk := (disk w)(path := None)\<rparr>))"

definition fs_exists :: "string \<Rightarrow> ('z, bool) host_op" where
  "fs_exists path = (\<lambda>w.
     (Inr (\<not> stat_fault w (tick w) \<and> disk w path \<noteq> None), w\<lparr>tick := Suc (tick w)\<rparr>))"

definition fs_open_read :: "string \<Rightarrow> string \<Rightarrow> ('z, string) host_op" where
  "fs_open_read context path =
     and_then (io_call context) (\<lambda>_.
     and_then (gets (\<lambda>w. disk w path)) (\<lambda>c. of_option (Io context) c))"

section \<open>The store\<close>

definition state_path :: "string \<Rightarrow> string" where
  "state_path root = path_join root ''state.json''"

definition temp_path :: "string \<Rightarrow> string" where
  "temp_path root = path_join root ''state.json.tmp''"

definition build_dir :: "host_lib \<Rightarrow> string \<Rightarrow> uuid \<Rightarrow> string" where
  "build_dir L root deployment_id =
     path_join (path_join root ''builds'') (hl_uuid_str L deployment_id)"

definition load :: "host_lib \<Rightarrow> string \<Rightarrow> ('z, PlatformState) host_op" where
  "load L root =
     and_then (fs_exists (state_path root)) (\<lambda>exists.
     if \<not> exists then ret empty_state
     else
       and_then (fs_open_read (''failed to open state file at '' @ display (state_path root)) (state_path root)) (\<lambda>text.
       and_then (io_call (''failed to deserialize state from '' @ display (state_path root))) (\<lambda>_.
       of_option (Message (''failed to deserialize state from '' @ display (state_path root)))
         (hl_from_json L text))))"

text \<open>The bytes of a state that cannot be printed in full are written up to some point.\<close>

definition write_json :: "host_lib \<Rightarrow> string \<Rightarrow> PlatformState \<Rightarrow> ('z, unit) host_op" where
  "write_json L temp state =
     (case hl_to_json L state of
        Some text \<Rightarrow> fs_write L ''failed to serialize platform state to JSON'' temp text
      | None \<Rightarrow>
          and_then (modify (\<lambda>w. w\<lparr>disk := (disk w)(temp \<mapsto> hl_partial_json L state)\<rparr>)) (\<lambda>_.
          fail (Message ''failed to serialize platform state to JSON'')))"

definition write_state :: "host_lib \<Rightarrow> string \<Rightarrow> PlatformState \<Rightarrow> ('z, unit) host_op" where
  "write_state L root state =
     and_then (fs_create (''failed to create temporary state file at '' @ display (temp_path root)) (temp_path root)) (\<lambda>_.
     and_then (write_json L (temp_path root) state) (\<lambda>_.
     and_then (io_call (''failed to sync temporary state file at '' @ display (temp_path root))) (\<lambda>_.
     fs_rename (''failed to rename '' @ display (temp_path root) @ '' to '' @ display (state_path root))
       (temp_path root) (state_path root))))"

definition save :: "host_lib \<Rightarrow> string \<Rightarrow> PlatformState \<Rightarrow> ('z, unit) host_op" where
  "save L root state =
     and_then (io_call (''failed to create state root directory at '' @ display root)) (\<lambda>_.
     and_then (attempt (write_state L root state)) (\<lambda>write_res.
     and_then
       (case write_res of
          Inl e \<Rightarrow>
            and_then (fs_exists (temp_path root)) (\<lambda>exists.
            if exists then ignore (fs_remove ''remove'' (temp_path root)) else ret ())
        | Inr _ \<Rightarrow> ret ()) (\<lambda>_.
     of_result write_res)))"

definition project_not_found :: "host_lib \<Rightarrow> uuid \<Rightarrow> error" where
  "project_not_found L i = Message (''project not found: '' @ hl_uuid_str L i)"

definition deployment_not_found :: "host_lib \<Rightarrow> uuid \<Rightarrow> error" where
  "deployment_not_found L i = Message (''deployment not found: '' @ hl_uuid_str L i)"

definition store_project :: "host_lib \<Rightarrow> string \<Rightarrow> uuid \<Rightarrow> ('z, Project) host_op" where
  "store_project L root i =
     and_then (load L root) (\<lambda>state.
     of_option (project_not_found L i) (List.find (\<lambda>p. sp_id p = i) (ps_projects state)))"

definition store_deployment :: "host_lib \<Rightarrow> string \<Rightarrow> uuid \<Rightarrow> ('z, StateDeployment) host_op" where
  "store_deployment L root i =
     and_then (load L root) (\<lambda>state.
     of_option (deployment_not_found L i) (List.find (\<lambda>d. sd_id d = i) (ps_deployments state)))"

definition insert_project :: "host_lib \<Rightarrow> string \<Rightarrow> Project \<Rightarrow> ('z, unit) host_op" where
  "insert_project L root project =
     and_then (load L root) (\<lambda>state.
     if list_ex (\<lambda>p. sp_id p = sp_id project) (ps_projects state)
     then fail (Message (''duplicate project ID: '' @ hl_uuid_str L (sp_id project)))
     else save L root (state\<lparr>ps_projects := ps_projects state @ [project]\<rparr>))"

definition insert_deployment :: "host_lib \<Rightarrow> string \<Rightarrow> StateDeployment \<Rightarrow> ('z, unit) host_op" where
  "insert_deployment L root deployment =
     and_then (load L root) (\<lambda>state.
     if list_ex (\<lambda>d. sd_id d = sd_id deployment) (ps_deployments state)
     then fail (Message (''duplicate deployment ID: '' @ hl_uuid_str L (sd_id deployment)))
     else save L root (state\<lparr>ps_deployments := ps_deployments state @ [deployment]\<rparr>))"

text \<open>\<^verbatim>\<open>iter().position(P)\<close>.\<close>

fun position :: "('a \<Rightarrow> bool) \<Rightarrow> 'a list \<Rightarrow> nat option" where
  "position P [] = None"
| "position P (x # xs) = (if P x then Some 0 else map_option Suc (position P xs))"

definition update_project :: "host_lib \<Rightarrow> string \<Rightarrow> Project \<Rightarrow> ('z, unit) host_op" where
  "update_project L root project =
     and_then (load L root) (\<lambda>state.
     and_then (of_option (project_not_found L (sp_id project))
       (position (\<lambda>p. sp_id p = sp_id project) (ps_projects state))) (\<lambda>pos.
     save L root (state\<lparr>ps_projects := (ps_projects state)[pos := project]\<rparr>)))"

definition update_deployment :: "host_lib \<Rightarrow> string \<Rightarrow> StateDeployment \<Rightarrow> ('z, unit) host_op" where
  "update_deployment L root deployment =
     and_then (load L root) (\<lambda>state.
     and_then (of_option (deployment_not_found L (sd_id deployment))
       (position (\<lambda>d. sd_id d = sd_id deployment) (ps_deployments state))) (\<lambda>pos.
     save L root (state\<lparr>ps_deployments := (ps_deployments state)[pos := deployment]\<rparr>)))"

end
