(* ===== verification/Platform.thy ===== *)
theory Platform
  imports State_Store
begin

text \<open>
  \<^verbatim>\<open>src/service.rs\<close>, \<^verbatim>\<open>src/builder.rs\<close> and \<^verbatim>\<open>src/runtime.rs\<close>: the deploy service of the single host, its image
  builder and its container runtime.  The service works with any \<^verbatim>\<open>ImageBuilder\<close> and any \<^verbatim>\<open>Runtime\<close>; the calls
  of the \<^verbatim>\<open>minidock\<close> crate, the answers of \<^verbatim>\<open>canonicalize\<close> and the contents of source files are parameters.  The
  service's mutex is held for the whole of \<^verbatim>\<open>deploy\<close> and \<^verbatim>\<open>stop\<close>, so each is one operation.
\<close>

section \<open>Traits\<close>

record BuildOutput =
  bo_rootfs_path :: string
  bo_image_path :: string

type_synonym 'z ImageBuilder =
  "string \<Rightarrow> uuid \<Rightarrow> StaticSource \<Rightarrow> string \<Rightarrow> ('z, BuildOutput) host_op"

record 'r Runtime =
  start_static :: "string \<Rightarrow> string \<Rightarrow> string list \<Rightarrow> ('r, error, RunningContainer) io"
  rt_stop :: "uuid \<Rightarrow> ('r, error, unit) io"
  rt_logs :: "uuid \<Rightarrow> 'r \<Rightarrow> error + string"

record 'r platform_world = host_world +
  runtime :: 'r

type_synonym ('r, 'z, 'a) service_op = "(('r, 'z) platform_world_scheme, error, 'a) io"

definition on_runtime :: "('r, error, 'a) io \<Rightarrow> ('r, 'z, 'a) service_op" where
  "on_runtime m = (\<lambda>w. case m (runtime w) of (r, s) \<Rightarrow> (r, w\<lparr>runtime := s\<rparr>))"

type_synonym canonicalizer = "nat \<Rightarrow> string \<Rightarrow> (string \<times> fnode) option"

definition canonicalize :: "canonicalizer \<Rightarrow> string \<Rightarrow> ('z, (string \<times> fnode) option) host_op" where
  "canonicalize C path = (\<lambda>w. (Inr (C (tick w) path), w\<lparr>tick := Suc (tick w)\<rparr>))"

section \<open>The service\<close>

definition canonical_dir :: "canonicalizer \<Rightarrow> string \<Rightarrow> ('z, string) host_op" where
  "canonical_dir C path =
     and_then (canonicalize C path) (\<lambda>c.
     case c of
       None \<Rightarrow> fail (Io (''source directory does not exist: '' @ display path))
     | Some (p, n) \<Rightarrow>
         if is_dir n then ret p else fail (Message (''source path is not a directory: '' @ display p)))"

definition canonical_file :: "canonicalizer \<Rightarrow> string \<Rightarrow> ('z, string) host_op" where
  "canonical_file C path =
     and_then (canonicalize C path) (\<lambda>c.
     case c of
       None \<Rightarrow> fail (Io (''base image does not exist: '' @ display path))
     | Some (p, n) \<Rightarrow>
         if is_file n then ret p else fail (Message (''base image is not a file: '' @ display p)))"

definition check_name :: "string \<Rightarrow> error + unit" where
  "check_name name =
     (if name = [] then Inl (Message ''project name cannot be empty'')
      else if 63 < length name then Inl (Message ''project name cannot exceed 63 bytes'')
      else Inr ())"

definition create_project :: "host_lib \<Rightarrow> canonicalizer \<Rightarrow> string \<Rightarrow> CreateProjectInput \<Rightarrow> ('z, Project) host_op" where
  "create_project L C root input =
     (let name = str_trim (in_name input)
      in and_then (of_result (check_name name)) (\<lambda>_.
         and_then (canonical_dir C (in_source_dir input)) (\<lambda>source_dir.
         and_then (canonical_file C (in_base_image input)) (\<lambda>base_image.
         if \<not> one_port (in_server_command input)
         then fail (Message ''server command must contain exactly one {PORT} token'')
         else
           and_then (load L root) (\<lambda>state.
           if list_ex (\<lambda>p. sp_name p = name) (ps_projects state)
           then fail (Message (''project name already exists: '' @ name))
           else
             and_then uuid_new_v4 (\<lambda>i.
             and_then now_utc (\<lambda>now.
             let project = \<lparr>sp_id = i, sp_name = name, sp_user_id = in_user_id input,
                  sp_source_dir = source_dir, sp_base_image = base_image,
                  sp_server_command = in_server_command input, sp_created_at = now,
                  sp_active_deployment = None\<rparr>
             in and_then (insert_project L root project) (\<lambda>_. ret project))))))))"

definition service_projects :: "host_lib \<Rightarrow> string \<Rightarrow> ('z, Project list) host_op" where
  "service_projects L root = and_then (load L root) (\<lambda>s. ret (ps_projects s))"

definition service_deployments :: "host_lib \<Rightarrow> string \<Rightarrow> uuid \<Rightarrow> ('z, StateDeployment list) host_op" where
  "service_deployments L root project_id =
     and_then (store_project L root project_id) (\<lambda>_.
     and_then (load L root) (\<lambda>state.
     ret (sort_key sd_created_at (filter (\<lambda>d. sd_project_id d = project_id) (ps_deployments state)))))"

definition new_deployment :: "uuid \<Rightarrow> uuid \<Rightarrow> timestamp \<Rightarrow> StateDeployment" where
  "new_deployment deployment_id project_id now =
     \<lparr>sd_id = deployment_id, sd_project_id = project_id, sd_framework = StaticSite,
      sd_status = DepPending, sd_image_path = None, sd_container_id = None, sd_port = None,
      sd_url = None, sd_created_at = now, sd_finished_at = None, sd_error = None,
      sd_commit_sha = None, sd_target = Some ''production''\<rparr>"

text \<open>The three error branches of \<^verbatim>\<open>deploy\<close> record the failure, if they can, and return it.\<close>

definition give_up :: "host_lib \<Rightarrow> string \<Rightarrow> StateDeployment \<Rightarrow> string \<Rightarrow> ('z, 'a) host_op" where
  "give_up L root deployment msg =
     and_then now_utc (\<lambda>now.
     and_then (ignore (update_deployment L root (deployment\<lparr>sd_status := DepFailed,
       sd_finished_at := Some now, sd_error := Some msg\<rparr>))) (\<lambda>_.
     fail (Message msg)))"

definition or_give_up ::
  "host_lib \<Rightarrow> string \<Rightarrow> StateDeployment \<Rightarrow> (error \<Rightarrow> string) \<Rightarrow> error + 'a \<Rightarrow> ('z, 'a) host_op" where
  "or_give_up L root deployment msg r =
     (case r of Inr a \<Rightarrow> ret a | Inl e \<Rightarrow> give_up L root deployment (msg e))"

text \<open>The deployment that was active is stopped: its container, if the runtime can, and its record.\<close>

definition stop_previous :: "host_lib \<Rightarrow> 'r Runtime \<Rightarrow> string \<Rightarrow> uuid \<Rightarrow> ('r, 'z, unit) service_op" where
  "stop_previous L R root old_id =
     and_then (attempt (store_deployment L root old_id)) (\<lambda>found.
     case found of
       Inl e \<Rightarrow> ret ()
     | Inr old \<Rightarrow>
         if sd_status old \<noteq> DepRunning then ret ()
         else
           and_then (case sd_container_id old of
               Some cid \<Rightarrow> attempt (on_runtime (rt_stop R cid))
             | None \<Rightarrow> ret (Inr ())) (\<lambda>stopped.
           let old1 = old\<lparr>sd_status := DepStopped\<rparr>;
               old2 = (case stopped of
                   Inr _ \<Rightarrow> old1
                 | Inl cleanup_err \<Rightarrow> old1\<lparr>sd_error := Some (unwrap_or (sd_error old) [] @
                     ''; cleanup failed: '' @ hl_to_string L cleanup_err)\<rparr>)
           in ignore (update_deployment L root old2)))"

definition persist_running ::
  "host_lib \<Rightarrow> 'r Runtime \<Rightarrow> string \<Rightarrow> StateDeployment \<Rightarrow> RunningContainer \<Rightarrow> ('r, 'z, unit) service_op" where
  "persist_running L R root deployment container =
     and_then (attempt (update_deployment L root deployment)) (\<lambda>saved.
     case saved of
       Inr _ \<Rightarrow> ret ()
     | Inl save_err \<Rightarrow>
         and_then (ignore (on_runtime (rt_stop R (rc_id container)))) (\<lambda>_.
         fail (Message ''failed to persist running deployment state'')))"

definition hostname_of :: "host_lib \<Rightarrow> uuid \<Rightarrow> string" where
  "hostname_of L deployment_id = ''platform-'' @ hl_simple L deployment_id"

definition make_active :: "host_lib \<Rightarrow> 'r Runtime \<Rightarrow> string \<Rightarrow> Project \<Rightarrow> StateDeployment \<Rightarrow>
   RunningContainer \<Rightarrow> ('r, 'z, StateDeployment) service_op" where
  "make_active L R root project deployment container =
     and_then now_utc (\<lambda>now.
     let running = deployment\<lparr>sd_container_id := Some (rc_id container), sd_port := Some (rc_port container),
           sd_url := Some (rc_url container), sd_status := DepRunning, sd_finished_at := Some now\<rparr>
     in and_then (persist_running L R root running container) (\<lambda>_.
        and_then (case sp_active_deployment project of Some old_id \<Rightarrow> stop_previous L R root old_id | None \<Rightarrow> ret ()) (\<lambda>_.
        and_then (update_project L root (project\<lparr>sp_active_deployment := Some (sd_id deployment)\<rparr>)) (\<lambda>_.
        ret running))))"

definition start_container :: "host_lib \<Rightarrow> 'r Runtime \<Rightarrow> string \<Rightarrow> Project \<Rightarrow> StateDeployment \<Rightarrow>
   string \<Rightarrow> ('r, 'z, RunningContainer) service_op" where
  "start_container L R root project deployment image_path =
     (let hostname = hostname_of L (sd_id deployment)
      in and_then (attempt (on_runtime (start_static R image_path hostname (sp_server_command project)))) (\<lambda>running_res.
         or_give_up L root deployment
           (\<lambda>e. ''runtime start failed for '' @ hostname @ '': '' @ hl_alternate L e) running_res))"

text \<open>Detection, build and start of a deployment that is recorded as building.\<close>

definition build_and_start :: "host_lib \<Rightarrow> canonicalizer \<Rightarrow> ('r, 'z) platform_world_ext ImageBuilder \<Rightarrow> 'r Runtime \<Rightarrow>
   string \<Rightarrow> Project \<Rightarrow> StateDeployment \<Rightarrow> ('r, 'z, StateDeployment) service_op" where
  "build_and_start L C builder R root project building =
     and_then (canonicalize C (sp_source_dir project)) (\<lambda>canonical.
     and_then (or_give_up L root building (\<lambda>e. ''detection failed: '' @ hl_alternate L e)
       (detect_static_source (sp_source_dir project) canonical)) (\<lambda>static_source.
     and_then (attempt (builder root (sd_id building) static_source (sp_base_image project))) (\<lambda>built.
     and_then (or_give_up L root building (\<lambda>e. ''build failed: '' @ hl_alternate L e) built) (\<lambda>build_output.
     let imaged = building\<lparr>sd_image_path := Some (bo_image_path build_output)\<rparr>
     in and_then (update_deployment L root imaged) (\<lambda>_.
        and_then (start_container L R root project imaged (bo_image_path build_output)) (\<lambda>container.
        make_active L R root project imaged container))))))"

definition deploy :: "host_lib \<Rightarrow> canonicalizer \<Rightarrow> ('r, 'z) platform_world_ext ImageBuilder \<Rightarrow> 'r Runtime \<Rightarrow> string \<Rightarrow> uuid \<Rightarrow>
   ('r, 'z, StateDeployment) service_op" where
  "deploy L C builder R root project_id =
     and_then (store_project L root project_id) (\<lambda>project.
     and_then uuid_new_v4 (\<lambda>deployment_id.
     and_then now_utc (\<lambda>now.
     let pending = new_deployment deployment_id project_id now;
         building = pending\<lparr>sd_status := DepBuilding\<rparr>
     in and_then (insert_deployment L root pending) (\<lambda>_.
        and_then (update_deployment L root building) (\<lambda>_.
        build_and_start L C builder R root project building)))))"

definition require_container :: "host_lib \<Rightarrow> StateDeployment \<Rightarrow> error + uuid" where
  "require_container L deployment =
     ok_or (sd_container_id deployment)
       (Message (''deployment '' @ hl_uuid_str L (sd_id deployment) @ '' has no container ID''))"

definition clear_active :: "host_lib \<Rightarrow> string \<Rightarrow> StateDeployment \<Rightarrow> ('z, unit) host_op" where
  "clear_active L root deployment =
     and_then (attempt (store_project L root (sd_project_id deployment))) (\<lambda>found.
     case found of
       Inl e \<Rightarrow> ret ()
     | Inr project \<Rightarrow>
         if sp_active_deployment project = Some (sd_id deployment)
         then update_project L root (project\<lparr>sp_active_deployment := None\<rparr>)
         else ret ())"

definition service_stop :: "host_lib \<Rightarrow> 'r Runtime \<Rightarrow> string \<Rightarrow> uuid \<Rightarrow> ('r, 'z, StateDeployment) service_op" where
  "service_stop L R root i =
     and_then (store_deployment L root i) (\<lambda>deployment.
     if sd_status deployment = DepStopped \<or> sd_status deployment = DepFailed then ret deployment
     else
       and_then (of_result (require_container L deployment)) (\<lambda>container_id.
       and_then (on_runtime (rt_stop R container_id)) (\<lambda>_.
       let stopped = deployment\<lparr>sd_status := DepStopped\<rparr>
       in and_then (update_deployment L root stopped) (\<lambda>_.
          and_then (clear_active L root stopped) (\<lambda>_.
          ret stopped)))))"

definition service_logs :: "host_lib \<Rightarrow> 'r Runtime \<Rightarrow> string \<Rightarrow> uuid \<Rightarrow> ('r, 'z, string) service_op" where
  "service_logs L R root i =
     and_then (store_deployment L root i) (\<lambda>deployment.
     and_then (of_result (require_container L deployment)) (\<lambda>container_id.
     and_then (gets (\<lambda>w. rt_logs R container_id (runtime w))) (\<lambda>r. of_result r)))"

section \<open>The image builder\<close>

text \<open>A component that is neither empty nor a dot nor a dot-dot and has no slash is \<^verbatim>\<open>Component::Normal\<close>.\<close>

definition normal_component :: "string \<Rightarrow> bool" where
  "normal_component c \<longleftrightarrow> c \<noteq> [] \<and> c \<noteq> ''.'' \<and> c \<noteq> ''..'' \<and> CHR ''/'' \<notin> set c"

text \<open>What \<^verbatim>\<open>minidock\<close> does to the files of the disk, and whether it got through: \<^verbatim>\<open>extract_rootfs\<close> with its image
  and target, \<^verbatim>\<open>build_image\<close> with the directory and the path of the image; and the bytes of a source file.\<close>

record minidock_images =
  mi_extract_rootfs :: "nat \<Rightarrow> string \<Rightarrow> string \<Rightarrow> (string \<rightharpoonup> string) \<Rightarrow> (string \<rightharpoonup> string) \<times> bool"
  mi_build_image :: "nat \<Rightarrow> string \<Rightarrow> string \<Rightarrow> (string \<rightharpoonup> string) \<Rightarrow> (string \<rightharpoonup> string) \<times> bool"
  mi_source_bytes :: "nat \<Rightarrow> string \<Rightarrow> string option"

definition extract_rootfs :: "minidock_images \<Rightarrow> string \<Rightarrow> string \<Rightarrow> ('z, unit) host_op" where
  "extract_rootfs M base_image rootfs_path = (\<lambda>w.
     case mi_extract_rootfs M (tick w) base_image rootfs_path (disk w) of (files, ok) \<Rightarrow>
       (if ok then Inr () else Inl (Io (''failed to extract base rootfs from '' @ display base_image)),
        w\<lparr>tick := Suc (tick w), disk := files\<rparr>))"

definition build_image :: "minidock_images \<Rightarrow> string \<Rightarrow> string \<Rightarrow> ('z, unit) host_op" where
  "build_image M rootfs_path image_path = (\<lambda>w.
     case mi_build_image M (tick w) rootfs_path image_path (disk w) of (files, ok) \<Rightarrow>
       (if ok then Inr () else Inl (Io (''failed to build minidock image at '' @ display image_path)),
        w\<lparr>tick := Suc (tick w), disk := files\<rparr>))"

definition fs_copy :: "minidock_images \<Rightarrow> string \<Rightarrow> string \<Rightarrow> string \<Rightarrow> ('z, unit) host_op" where
  "fs_copy M context from to =
     and_then (io_call context) (\<lambda>_. \<lambda>w.
       case mi_source_bytes M (tick w) from of
         None \<Rightarrow> (Inl (Io context), w)
       | Some bytes \<Rightarrow> (Inr (), w\<lparr>disk := (disk w)(to \<mapsto> bytes)\<rparr>))"

definition is_under :: "string \<Rightarrow> string \<Rightarrow> bool" where
  "is_under dir p \<longleftrightarrow> p = dir \<or> str_starts_with p (dir @ ''/'')"

definition fs_remove_dir_all :: "string \<Rightarrow> string \<Rightarrow> ('z, unit) host_op" where
  "fs_remove_dir_all context dir =
     and_then (io_call context) (\<lambda>_.
     modify (\<lambda>w. w\<lparr>disk := (\<lambda>p. if is_under dir p then None else disk w p)\<rparr>))"

text \<open>Directories are not recorded: where there is none, removing it changes nothing.\<close>

definition fs_dir_exists :: "string \<Rightarrow> ('z, bool) host_op" where
  "fs_dir_exists dir = (\<lambda>w. (Inr (\<not> stat_fault w (tick w)), w\<lparr>tick := Suc (tick w)\<rparr>))"

text \<open>A path of normal components is relative and stays below the directory it is joined to, so the one check
  stands for the three of the code.\<close>

definition copy_source_file :: "minidock_images \<Rightarrow> string \<Rightarrow> string \<Rightarrow> string list \<Rightarrow> ('z, unit) host_op" where
  "copy_source_file M app_dir source_root relative =
     (if \<not> list_all normal_component relative
      then fail (Message ''invalid path component in source file'')
      else
        let dest_file = abs_path app_dir relative
        in and_then (io_call (''failed to create directory at '' @ display (abs_path app_dir (butlast relative)))) (\<lambda>_.
           fs_copy M (''failed to copy '' @ display (abs_path source_root relative) @ '' to '' @ display dest_file)
             (abs_path source_root relative) dest_file))"

definition run_build :: "minidock_images \<Rightarrow> string \<Rightarrow> StaticSource \<Rightarrow> string \<Rightarrow> ('z, BuildOutput) host_op" where
  "run_build M dir source base_image =
     (let rootfs_path = path_join dir ''rootfs'';
          image_path = path_join dir ''image.tar.gz'';
          app_dir = path_join (path_join rootfs_path ''srv'') ''app''
      in and_then (io_call (''failed to create rootfs directory at '' @ display rootfs_path)) (\<lambda>_.
         and_then (extract_rootfs M base_image rootfs_path) (\<lambda>_.
         and_then (io_call (''failed to create /srv/app directory at '' @ display app_dir)) (\<lambda>_.
         and_then (fold_io (\<lambda>file _. copy_source_file M app_dir (so_root source) file) (so_files source) ()) (\<lambda>_.
         and_then (build_image M rootfs_path image_path) (\<lambda>_.
         ret \<lparr>bo_rootfs_path = rootfs_path, bo_image_path = image_path\<rparr>))))))"

definition build_deployment_image :: "host_lib \<Rightarrow> minidock_images \<Rightarrow> 'z ImageBuilder" where
  "build_deployment_image L M state_root deployment_id source base_image =
     (let dir = build_dir L state_root deployment_id
      in and_then (attempt (run_build M dir source base_image)) (\<lambda>r.
         case r of
           Inr output \<Rightarrow> ret output
         | Inl err \<Rightarrow>
             and_then (fs_dir_exists dir) (\<lambda>exists.
             and_then (if exists then ignore (fs_remove_dir_all ''remove'' dir) else ret ()) (\<lambda>_. fail err))))"

section \<open>The container runtime\<close>

datatype ContainerStatus = CsRunning | CsExited | CsOther

record ContainerState =
  cs_id :: uuid
  cs_hostname :: string
  cs_command :: "string list"
  cs_detached :: bool
  cs_status :: ContainerStatus

definition discover_new_container ::
  "ContainerState list \<Rightarrow> ContainerState list \<Rightarrow> string \<Rightarrow> string list \<Rightarrow> error + ContainerState" where
  "discover_new_container before after hostname command =
     (let found = filter (\<lambda>c. cs_id c \<notin> cs_id ` set before \<and> cs_hostname c = hostname \<and> cs_command c = command
            \<and> cs_detached c \<and> (cs_status c = CsRunning \<or> cs_status c = CsExited)) after
      in if found = [] then Inl (Message (''no new container discovered for hostname '' @ hostname))
         else if 1 < length found
         then Inl (Message (''ambiguous container discovery for hostname '' @ hostname @ '': matched '' @
           show_nat (length found) @ '' containers''))
         else Inr (hd found))"

text \<open>The calls of \<^verbatim>\<open>minidock\<close> and of the network, on a state of their own.  \<open>md_elapsed\<close> reads the time since
  the wait began, in nanoseconds.\<close>

record 'm minidock =
  md_bind_port :: "('m, error, u16) io"
  md_list :: "('m, error, ContainerState list) io"
  md_run :: "string \<Rightarrow> string \<Rightarrow> string list \<Rightarrow> ('m, error, unit) io"
  md_stop :: "uuid \<Rightarrow> ('m, error, unit) io"
  md_log :: "uuid \<Rightarrow> 'm \<Rightarrow> (string option) option"
  md_connect :: "u16 \<Rightarrow> ('m, error, bool) io"
  md_elapsed :: "'m \<Rightarrow> int"
  md_sleep :: "int \<Rightarrow> 'm \<Rightarrow> 'm"

text \<open>\<open>None\<close>: the fuel ran out.\<close>

fun wait_for_port :: "'m minidock \<Rightarrow> nat \<Rightarrow> u16 \<Rightarrow> int \<Rightarrow> 'm \<Rightarrow> ((error + unit) \<times> 'm) option" where
  "wait_for_port D 0 port timeout m = None"
| "wait_for_port D (Suc fuel) port timeout m =
     (case md_connect D port m of
        (Inr True, m') \<Rightarrow> Some (Inr (), m')
      | (_, m') \<Rightarrow>
          if timeout \<le> md_elapsed D m'
          then Some (Inl (Message (''health check timed out waiting for port '' @ show_nat (unat port))), m')
          else wait_for_port D fuel port timeout (md_sleep D 100000000 m'))"

definition wait_or_diverge :: "'m minidock \<Rightarrow> nat \<Rightarrow> u16 \<Rightarrow> int \<Rightarrow> ('m, error, error + unit) io" where
  "wait_or_diverge D fuel port timeout = (\<lambda>m.
     case wait_for_port D fuel port timeout m of
       Some (r, m') \<Rightarrow> (Inr r, m')
     | None \<Rightarrow> (Inl (Panicked ''still waiting''), m))"

definition minidock_start :: "'m minidock \<Rightarrow> nat \<Rightarrow> string \<Rightarrow> string \<Rightarrow> string list \<Rightarrow> ('m, error, RunningContainer) io" where
  "minidock_start D fuel image_path hostname command =
     and_then (md_bind_port D) (\<lambda>port.
     and_then (of_result (render_server_command command port)) (\<lambda>rendered.
     and_then (md_list D) (\<lambda>before.
     and_then (md_run D image_path hostname rendered) (\<lambda>_.
     and_then (md_list D) (\<lambda>after.
     and_then (of_result (discover_new_container before after hostname rendered)) (\<lambda>container.
     and_then (wait_or_diverge D fuel port 5000000000) (\<lambda>health.
     case health of
       Inl health_err \<Rightarrow>
         and_then (ignore (md_stop D (cs_id container))) (\<lambda>_.
         fail (Message (''container health check failed for '' @ hostname)))
     | Inr _ \<Rightarrow>
         ret \<lparr>rc_id = cs_id container, rc_port = port,
              rc_url = ''http://127.0.0.1:'' @ show_nat (unat port)\<rparr>)))))))"

definition minidock_logs :: "'m minidock \<Rightarrow> uuid \<Rightarrow> 'm \<Rightarrow> error + string" where
  "minidock_logs D container_id m =
     (case md_log D container_id m of
        None \<Rightarrow> Inr []
      | Some None \<Rightarrow> Inl (Io ''failed to read container log'')
      | Some (Some text) \<Rightarrow> Inr text)"

definition minidock_runtime :: "'m minidock \<Rightarrow> nat \<Rightarrow> 'm Runtime" where
  "minidock_runtime D fuel =
     \<lparr>start_static = minidock_start D fuel, rt_stop = md_stop D, rt_logs = minidock_logs D\<rparr>"

end
