(* ===== verification/State_Store_Correct.thy ===== *)
theory State_Store_Correct
  imports State_Store
begin

text \<open>
  The state file: saving replaces it as a whole or not at all, the store is a list of projects and
  deployments as long as \<^verbatim>\<open>exists\<close> tells the truth, and what happens when it does not.
\<close>

lemma state_temp_distinct [simp]: "state_path root \<noteq> temp_path root" "temp_path root \<noteq> state_path root"
  by (auto simp: state_path_def temp_path_def path_join_def str_starts_with_def)

definition same_but :: "string set \<Rightarrow> 'z host_world_scheme \<Rightarrow> 'z host_world_scheme \<Rightarrow> bool" where
  "same_but A w w' \<longleftrightarrow> stat_fault w' = stat_fault w \<and> env w' = env w \<and> (\<forall>p. p \<notin> A \<longrightarrow> disk w' p = disk w p)"

lemma same_but_refl [simp]: "same_but A w w"
  by (simp add: same_but_def)

lemma same_but_trans: "same_but A w w' \<Longrightarrow> same_but A w' w'' \<Longrightarrow> same_but A w w''"
  by (simp add: same_but_def)

lemma triple_attempt:
  "triple P m Q E \<Longrightarrow> triple P (attempt m) (\<lambda>r w. case r of Inl e \<Rightarrow> E e w | Inr a \<Rightarrow> Q a w) F"
  unfolding triple_def by (auto simp: io_simps split: prod.splits sum.splits)

lemma keeps_io_call_host: "(\<And>w. I w \<Longrightarrow> I (w\<lparr>tick := Suc (tick w)\<rparr>)) \<Longrightarrow> keeps I (io_call c)"
  by (simp add: keeps_def io_call_def)

lemma keeps_fs_exists: "(\<And>w. I w \<Longrightarrow> I (w\<lparr>tick := Suc (tick w)\<rparr>)) \<Longrightarrow> keeps I (fs_exists p)"
  by (simp add: keeps_def fs_exists_def)

lemma same_but_tick [simp]: "same_but A v (w\<lparr>tick := n\<rparr>) = same_but A v w"
  by (simp add: same_but_def)

lemma same_but_disk: "same_but A v w \<Longrightarrow> p \<in> A \<Longrightarrow> same_but A v (w\<lparr>disk := (disk w)(p := c)\<rparr>)"
  by (simp add: same_but_def)

lemma keeps_fs_temp:
  assumes "p \<in> A"
  shows "keeps (same_but A v) (fs_create c p)" "keeps (same_but A v) (fs_remove c p)"
  using assms unfolding fs_create_def fs_remove_def
  by (auto intro!: keeps_intros keeps_io_call_host keeps_modify same_but_disk)

lemma write_json_triple:
  assumes "p \<in> A"
  shows "triple (same_but A v) (write_json L p s)
    (\<lambda>_ w. same_but A v w \<and> (\<exists>text. hl_to_json L s = Some text \<and> disk w p = Some text)) (\<lambda>_. same_but A v)"
  using assms by (intro tripleI)
    (auto simp: write_json_def fs_write_def io_simps same_but_def split: option.splits if_splits)

lemma write_state_triple:
  "triple (same_but {temp_path root} v) (write_state L root s)
     (\<lambda>_ w. same_but {temp_path root, state_path root} v w
        \<and> (\<exists>text. hl_to_json L s = Some text \<and> disk w (state_path root) = Some text))
     (\<lambda>_. same_but {temp_path root} v)"
  unfolding write_state_def
proof (rule triple_and_then [OF triple_keeps], rule keeps_fs_temp, simp,
    rule triple_and_then [OF write_json_triple], simp)
  let ?R = "\<lambda>w. same_but {temp_path root} v w \<and> (\<exists>text. hl_to_json L s = Some text \<and> disk w (temp_path root) = Some text)"
  fix u
  show "triple ?R (and_then (io_call (''failed to sync temporary state file at '' @ display (temp_path root))) (\<lambda>_.
      fs_rename (''failed to rename '' @ display (temp_path root) @ '' to '' @ display (state_path root))
        (temp_path root) (state_path root)))
     (\<lambda>_ w. same_but {temp_path root, state_path root} v w
        \<and> (\<exists>text. hl_to_json L s = Some text \<and> disk w (state_path root) = Some text))
     (\<lambda>_. same_but {temp_path root} v)"
    by (rule tripleI) (auto simp: fs_rename_def io_call_def io_simps same_but_def split: if_splits)
qed

lemma save_triple:
  "triple (same_but {temp_path root} v) (save L root s)
     (\<lambda>_ w. same_but {temp_path root, state_path root} v w
        \<and> (\<exists>text. hl_to_json L s = Some text \<and> disk w (state_path root) = Some text))
     (\<lambda>_. same_but {temp_path root} v)"
  unfolding save_def
proof (rule triple_and_then [OF triple_keeps], rule keeps_io_call_host, simp,
    rule triple_and_then [OF triple_attempt [OF write_state_triple]], rule triple_and_then)
  fix u r
  let ?Q = "\<lambda>_ w. same_but {temp_path root, state_path root} v w
        \<and> (\<exists>text. hl_to_json L s = Some text \<and> disk w (state_path root) = Some text)"
  show "triple (\<lambda>w. case r of Inl e \<Rightarrow> same_but {temp_path root} v w | Inr a \<Rightarrow> ?Q a w)
    (case r of
       Inl e \<Rightarrow> and_then (fs_exists (temp_path root)) (\<lambda>exists.
         if exists then ignore (fs_remove ''remove'' (temp_path root)) else ret ())
     | Inr _ \<Rightarrow> ret ())
    (\<lambda>_ w. case r of Inl e \<Rightarrow> same_but {temp_path root} v w | Inr a \<Rightarrow> ?Q a w) (\<lambda>_. same_but {temp_path root} v)"
  proof (cases r)
    case (Inl e)
    have "keeps (same_but {temp_path root} v) (and_then (fs_exists (temp_path root)) (\<lambda>exists.
        if exists then ignore (fs_remove ''remove'' (temp_path root)) else ret ()) :: ('a, unit) host_op)"
      by (intro keeps_intros keeps_fs_exists keeps_fs_temp) simp_all
    then show ?thesis using triple_keeps Inl by fastforce
  qed (auto simp: triple_def io_simps)
  show "triple (\<lambda>w. case r of Inl e \<Rightarrow> same_but {temp_path root} v w | Inr a \<Rightarrow> ?Q a w) (of_result r) ?Q
    (\<lambda>_. same_but {temp_path root} v)"
    by (cases r) (auto intro!: tripleI simp: io_simps)
qed

lemma save_effect:
  assumes "save L root s w = (r, w')"
  shows "same_but {temp_path root, state_path root} w w'
    \<and> (case r of
         Inl e \<Rightarrow> disk w' (state_path root) = disk w (state_path root)
       | Inr _ \<Rightarrow> (\<exists>text. hl_to_json L s = Some text \<and> disk w' (state_path root) = Some text))"
proof (cases r)
  case (Inl e)
  then have "same_but {temp_path root} w w'" using triple_Inl [OF save_triple same_but_refl] assms by blast
  then show ?thesis using Inl by (simp add: same_but_def)
next
  case (Inr u)
  then show ?thesis using triple_Inr [OF save_triple same_but_refl] assms by fastforce
qed

section \<open>The store as a list of records\<close>

definition codec :: "host_lib \<Rightarrow> bool" where
  "codec L \<longleftrightarrow> (\<forall>s text. hl_to_json L s = Some text \<longrightarrow> hl_from_json L text = Some s)"

definition store_view :: "host_lib \<Rightarrow> string \<Rightarrow> 'z host_world_scheme \<Rightarrow> PlatformState option" where
  "store_view L root w =
     (case disk w (state_path root) of None \<Rightarrow> Some empty_state | Some text \<Rightarrow> hl_from_json L text)"

definition store_inv :: "host_lib \<Rightarrow> 'z host_world_scheme \<Rightarrow> bool" where
  "store_inv L w \<longleftrightarrow> codec L \<and> (\<forall>n. \<not> stat_fault w n)"

lemma load_effect:
  assumes "load L root w = (r, w')"
  shows "same_but {} w w' \<and> (\<forall>s. r = Inr s \<longrightarrow> store_inv L w \<longrightarrow> store_view L root w = Some s)"
  using assms
  by (auto simp: load_def fs_exists_def fs_open_read_def io_call_def io_simps of_option_def store_view_def
      store_inv_def same_but_def split: if_splits option.splits)

lemma save_view:
  assumes "store_inv L w" and "save L root s w = (r, w')"
  shows "store_inv L w' \<and> store_view L root w' = (if isl r then store_view L root w else Some s)"
  using save_effect [OF assms(2)] assms(1)
  by (auto simp: store_inv_def store_view_def same_but_def codec_def split: sum.splits)

lemma same_but_view: "same_but {} w w' \<Longrightarrow> store_view L root w' = store_view L root w \<and> store_inv L w' = store_inv L w"
  by (simp add: same_but_def store_view_def store_inv_def)

lemma load_save_view:
  assumes inv: "store_inv L w"
    and run: "and_then (load L root) (\<lambda>s. and_then (of_result (g s)) (\<lambda>s'. save L root s')) w = (r, w')"
  shows "store_inv L w' \<and> (if isl r then store_view L root w' = store_view L root w
    else \<exists>s s'. store_view L root w = Some s \<and> g s = Inr s' \<and> store_view L root w' = Some s')"
proof -
  obtain x w1 where l: "load L root w = (x, w1)" by fastforce
  note le = load_effect [OF l]
  show ?thesis
  proof (cases x)
    case (Inl e)
    then show ?thesis using run l le same_but_view [of w w1] inv by (auto simp: io_simps)
  next
    case (Inr s)
    have v: "store_view L root w = Some s" "store_inv L w1" "store_view L root w1 = Some s"
      using le Inr inv same_but_view [of w w1] by auto
    show ?thesis
    proof (cases "g s")
      case (Inl e)
      then show ?thesis using run l Inr v by (auto simp: io_simps)
    next
      case (Inr s')
      then have "save L root s' w1 = (r, w')" using run l \<open>x = Inr s\<close> by (simp add: io_simps)
      from save_view [OF v(2) this] show ?thesis using v Inr by auto
    qed
  qed
qed

datatype store_cmd =
    InsertProject Project
  | InsertDeployment StateDeployment
  | UpdateProject Project
  | UpdateDeployment StateDeployment

fun run_store :: "host_lib \<Rightarrow> string \<Rightarrow> store_cmd \<Rightarrow> ('z, unit) host_op" where
  "run_store L root (InsertProject p) = insert_project L root p"
| "run_store L root (InsertDeployment d) = insert_deployment L root d"
| "run_store L root (UpdateProject p) = update_project L root p"
| "run_store L root (UpdateDeployment d) = update_deployment L root d"

definition replace_by :: "('a \<Rightarrow> 'k) \<Rightarrow> 'a \<Rightarrow> 'a list \<Rightarrow> 'a list" where
  "replace_by key x xs = (case position (\<lambda>y. key y = key x) xs of Some i \<Rightarrow> xs[i := x] | None \<Rightarrow> xs)"

fun store_spec :: "store_cmd \<Rightarrow> PlatformState \<Rightarrow> PlatformState" where
  "store_spec (InsertProject p) s = s\<lparr>ps_projects := ps_projects s @ [p]\<rparr>"
| "store_spec (InsertDeployment d) s = s\<lparr>ps_deployments := ps_deployments s @ [d]\<rparr>"
| "store_spec (UpdateProject p) s = s\<lparr>ps_projects := replace_by sp_id p (ps_projects s)\<rparr>"
| "store_spec (UpdateDeployment d) s = s\<lparr>ps_deployments := replace_by sd_id d (ps_deployments s)\<rparr>"

text \<open>Every command reads the state, checks it and saves its successor.\<close>

fun store_check :: "host_lib \<Rightarrow> store_cmd \<Rightarrow> PlatformState \<Rightarrow> error + PlatformState" where
  "store_check L (InsertProject p) s =
     (if list_ex (\<lambda>x. sp_id x = sp_id p) (ps_projects s)
      then Inl (Message (''duplicate project ID: '' @ hl_uuid_str L (sp_id p))) else Inr (store_spec (InsertProject p) s))"
| "store_check L (InsertDeployment d) s =
     (if list_ex (\<lambda>x. sd_id x = sd_id d) (ps_deployments s)
      then Inl (Message (''duplicate deployment ID: '' @ hl_uuid_str L (sd_id d))) else Inr (store_spec (InsertDeployment d) s))"
| "store_check L (UpdateProject p) s =
     (if position (\<lambda>x. sp_id x = sp_id p) (ps_projects s) = None
      then Inl (project_not_found L (sp_id p)) else Inr (store_spec (UpdateProject p) s))"
| "store_check L (UpdateDeployment d) s =
     (if position (\<lambda>x. sd_id x = sd_id d) (ps_deployments s) = None
      then Inl (deployment_not_found L (sd_id d)) else Inr (store_spec (UpdateDeployment d) s))"

lemma run_store_check:
  "run_store L root c w = and_then (load L root) (\<lambda>s. and_then (of_result (store_check L c s)) (\<lambda>s'. save L root s')) w"
  by (cases c) (auto simp: insert_project_def insert_deployment_def update_project_def update_deployment_def
      replace_by_def io_simps of_option_def split: prod.splits sum.splits option.splits)

lemma store_check_spec: "store_check L c s = Inr s' \<Longrightarrow> s' = store_spec c s"
  by (cases c) (auto split: if_splits)

lemma run_store_step:
  assumes "store_inv L w" and "run_store L root c w = (r, w')"
  shows "store_inv L w' \<and> store_view L root w' =
    (if isl r then store_view L root w else map_option (store_spec c) (store_view L root w))"
  using load_save_view [OF assms(1) assms(2) [unfolded run_store_check]] store_check_spec by (auto split: if_splits)

interpretation state_file: command_refinement "run_store L root" "store_view L root" "store_inv L"
    "\<lambda>c. map_option (store_spec c)" for L root
  by unfold_locales (rule run_store_step)

text \<open>The state file is replaced as a whole or not at all: whichever call of the file system fails, \<^verbatim>\<open>save\<close>
  leaves the old bytes in place when it returns an error and the whole text of the new state when it succeeds,
  and it touches no file but the state file and the temporary file beside it.\<close>

theorem save_is_atomic:
  "case save L root s w of (r, w') \<Rightarrow>
     (if isl r then disk w' (state_path root) = disk w (state_path root)
      else disk w' (state_path root) = hl_to_json L s \<and> hl_to_json L s \<noteq> None)
     \<and> (\<forall>p. p \<noteq> state_path root \<and> p \<noteq> temp_path root \<longrightarrow> disk w' p = disk w p)"
proof -
  obtain r w' where run: "save L root s w = (r, w')" by fastforce
  then show ?thesis using save_effect [OF run] by (cases r) (auto simp: same_but_def)
qed

text \<open>C30. The store is the list of its projects and deployments: as long as \<^verbatim>\<open>Path::exists\<close> does not fail and
  what the printer writes the parser reads back, after any sequence of insertions and updates, whatever other
  calls fail, the state that is loaded is the initial one with the commands that returned \<^verbatim>\<open>Ok\<close> applied in
  order; a command that returned an error has no effect.\<close>

theorem store_refines_lists:
  fixes w w' w'' :: "'z host_world_scheme"
  assumes "codec L" and "\<And>n. \<not> stat_fault w n" and "store_view L root w = Some s"
    and "run_all (run_store L root) cs w = (done_cs, w')" and "load L root w' = (Inr t, w'')"
  shows "t = fold store_spec done_cs s"
proof -
  have inv: "store_inv L w" using assms(1,2) by (simp add: store_inv_def)
  have "store_inv L w' \<and> store_view L root w' = fold (\<lambda>c. map_option (store_spec c)) done_cs (Some s)"
    using state_file.run_all_refines [OF inv assms(4)] assms(3) by simp
  moreover have "fold (\<lambda>c. map_option (store_spec c)) cs (Some x) = Some (fold store_spec cs x)" for cs x
    by (induction cs arbitrary: x) auto
  ultimately show ?thesis using load_effect [OF assms(5)] by simp
qed

section \<open>Examples\<close>

lemma position_Some: "position P xs = Some i \<Longrightarrow> i < length xs \<and> P (xs ! i)"
  by (induction xs arbitrary: i) (auto split: if_splits)

text \<open>A printer for a table of states: the state is printed as its place in the table, in unary.\<close>

definition table_lib :: "PlatformState list \<Rightarrow> host_lib" where
  "table_lib states =
     \<lparr>hl_to_json = (\<lambda>s. map_option (\<lambda>i. replicate i CHR ''x'') (position (\<lambda>t. t = s) states)),
      hl_partial_json = (\<lambda>s. []),
      hl_from_json = (\<lambda>text. if length text < length states then Some (states ! length text) else None),
      hl_written = (\<lambda>n. 0), hl_uuid_str = (\<lambda>u. ''id''), hl_simple = (\<lambda>u. ''id''), hl_alternate = (\<lambda>e. ''error''),
      hl_to_string = (\<lambda>e. ''error'')\<rparr>"

lemma codec_table_lib: "codec (table_lib states)"
  by (auto simp: codec_def table_lib_def dest: position_Some)

definition demo_project :: "uuid \<Rightarrow> Project" where
  "demo_project i = \<lparr>sp_id = i, sp_name = ''site'', sp_user_id = None, sp_source_dir = ''/s'', sp_base_image = ''/b'',
     sp_server_command = [''{PORT}''], sp_created_at = 0, sp_active_deployment = None\<rparr>"

definition demo_states :: "PlatformState list" where
  "demo_states = [empty_state, empty_state\<lparr>ps_projects := [demo_project 1]\<rparr>,
     empty_state\<lparr>ps_projects := [demo_project 2]\<rparr>]"

definition demo_host :: "(nat \<Rightarrow> bool) \<Rightarrow> (string \<rightharpoonup> string) \<Rightarrow> host_world" where
  "demo_host faults files = \<lparr>env = demo_env, tick = 0, db = empty_db, redis_log = [], disk = files, stat_fault = faults\<rparr>"

theorem save_is_atomic_witness:
  "disk (snd (save (table_lib demo_states) ''/r'' empty_state (demo_host (\<lambda>n. False) [''/o'' \<mapsto> ''bytes'']))) ''/o'' = Some ''bytes''"
proof -
  have "''/o'' \<noteq> state_path ''/r'' \<and> ''/o'' \<noteq> temp_path ''/r''" by code_simp
  then show ?thesis
    using save_is_atomic [where L = "table_lib demo_states" and root = "''/r''" and s = empty_state
        and w = "demo_host (\<lambda>n. False) [''/o'' \<mapsto> ''bytes'']"]
    by (auto simp: demo_host_def split: prod.splits)
qed

theorem store_refines_lists_witness:
  "\<exists>w' t w''. run_all (run_store (table_lib demo_states) ''/r'')
       [InsertProject (demo_project 1), InsertProject (demo_project 1)] (demo_host (\<lambda>n. False) Map.empty) =
       ([InsertProject (demo_project 1)], w')
     \<and> load (table_lib demo_states) ''/r'' w' = (Inr t, w'') \<and> ps_projects t = [demo_project 1]"
proof -
  let ?L = "table_lib demo_states" and ?w = "demo_host (\<lambda>n. False) Map.empty"
  let ?run = "run_all (run_store ?L ''/r'') [InsertProject (demo_project 1), InsertProject (demo_project 1)] ?w"
  let ?load = "load ?L ''/r'' (snd ?run)"
  have run: "?run = ([InsertProject (demo_project 1)], snd ?run)"
  proof -
    have "fst ?run = [InsertProject (demo_project 1)]" by code_simp
    then show ?thesis by (metis prod.collapse)
  qed
  have load: "?load = (Inr (projr (fst ?load)), snd ?load)"
  proof -
    have "\<not> isl (fst ?load)" by code_simp
    then show ?thesis by (simp add: sum.expand prod_eq_iff)
  qed
  have "projr (fst ?load) = fold store_spec [InsertProject (demo_project 1)] empty_state"
    by (rule store_refines_lists [OF codec_table_lib _ _ run load]) (simp_all add: demo_host_def store_view_def)
  then have "ps_projects (projr (fst ?load)) = [demo_project 1]" by (simp add: empty_state_def)
  then show ?thesis using run load by metis
qed

text \<open>What \<^verbatim>\<open>load\<close> does when the state file cannot be examined: \<^verbatim>\<open>exists\<close> answers no, the state is taken to be
  empty, and the next insertion returns \<^verbatim>\<open>Ok\<close> and writes a state file that holds the new project alone; the
  project that was there is gone.\<close>

theorem failed_exists_drops_state:
  "case insert_project (table_lib demo_states) ''/r'' (demo_project 2)
      (demo_host (\<lambda>n. n = 0) [state_path ''/r'' \<mapsto> ''x'']) of
     (r, w') \<Rightarrow> hl_from_json (table_lib demo_states) ''x'' = Some (empty_state\<lparr>ps_projects := [demo_project 1]\<rparr>)
       \<and> r = Inr ()
       \<and> store_view (table_lib demo_states) ''/r'' w' = Some (empty_state\<lparr>ps_projects := [demo_project 2]\<rparr>)"
  by code_simp

end
