(* ===== verification/Platform_Correct.thy ===== *)
theory Platform_Correct
  imports Platform State_Store_Correct
begin

text \<open>
  The host of the deploy service: what the operations of the store do when any call of the file system but
  \<^verbatim>\<open>Path::exists\<close> may fail, and that the image builder writes below its own build directory only, which is what the
  deploy service relies on.
\<close>

section \<open>What is assumed of the host\<close>

text \<open>\<^verbatim>\<open>minidock\<close> extracts an image below the directory it is given, and builds an image into the file it is given.\<close>

definition contained :: "minidock_images \<Rightarrow> bool" where
  "contained M \<longleftrightarrow>
     (\<forall>n base target fs p. \<not> is_under target p \<longrightarrow> fst (mi_extract_rootfs M n base target fs) p = fs p)
     \<and> (\<forall>n rootfs img fs p. p \<noteq> img \<longrightarrow> fst (mi_build_image M n rootfs img fs) p = fs p)"

text \<open>What the printer writes the parser reads back, the text of an identifier is a file name, and \<^verbatim>\<open>minidock\<close> keeps to
  its directories.  The printer may fail.\<close>

definition host_ok :: "host_lib \<Rightarrow> minidock_images \<Rightarrow> bool" where
  "host_ok L M \<longleftrightarrow> codec L \<and> (\<forall>u. normal_component (hl_uuid_str L u)) \<and> contained M"

text \<open>\<^verbatim>\<open>Path::exists\<close> does not fail and the state file, if there is one, holds a state.\<close>

definition readable :: "host_lib \<Rightarrow> string \<Rightarrow> 'z host_world_scheme \<Rightarrow> PlatformState \<Rightarrow> bool" where
  "readable L root w s \<longleftrightarrow> (\<forall>n. \<not> stat_fault w n) \<and> store_view L root w = Some s"

text \<open>No call of the file system fails and every state can be printed.\<close>

definition reliable :: "host_lib \<Rightarrow> 'z host_world_scheme \<Rightarrow> bool" where
  "reliable L w \<longleftrightarrow> (\<forall>n. \<not> env_io_fault (env w) n) \<and> (\<forall>s. hl_to_json L s \<noteq> None)"

text \<open>The predicate the proofs carry along: \<open>rel\<close> is true only on a reliable host, and \<open>J\<close> is about what the store does
  not touch.\<close>

definition hosting :: "host_lib \<Rightarrow> minidock_images \<Rightarrow> string \<Rightarrow> bool \<Rightarrow> ('z host_world_scheme \<Rightarrow> bool) \<Rightarrow> PlatformState \<Rightarrow>
   'z host_world_scheme \<Rightarrow> bool" where
  "hosting L M root rel J s w \<longleftrightarrow> host_ok L M \<and> (rel \<longrightarrow> reliable L w) \<and> readable L root w s \<and> J w"

definition framed :: "'z host_world_scheme \<Rightarrow> 'z host_world_scheme \<Rightarrow> bool" where
  "framed w w' \<longleftrightarrow> env w' = env w \<and> host_world.more w' = host_world.more w"

definition steady :: "('z host_world_scheme \<Rightarrow> bool) \<Rightarrow> bool" where
  "steady J \<longleftrightarrow> (\<forall>w w'. framed w w' \<longrightarrow> J w \<longrightarrow> J w')"

lemma framed_refl [simp]: "framed w w"
  by (simp add: framed_def)

lemma framed_trans [trans]: "framed w w' \<Longrightarrow> framed w' w'' \<Longrightarrow> framed w w''"
  by (simp add: framed_def)

lemma framed_update [simp]: "framed v (w\<lparr>tick := n\<rparr>) = framed v w" "framed v (w\<lparr>disk := fs\<rparr>) = framed v w"
  by (simp_all add: framed_def)

lemma hosting_moved:
  assumes "hosting L M root rel J s w" and "steady J" and "framed w w'" and "stat_fault w' = stat_fault w"
    and "store_view L root w' = Some t"
  shows "hosting L M root rel J t w'"
  using assms unfolding hosting_def readable_def reliable_def steady_def framed_def by auto

lemma hosting_tick: "steady J \<Longrightarrow> hosting L M root rel J s w \<Longrightarrow> hosting L M root rel J s (w\<lparr>tick := n\<rparr>)"
  using hosting_moved [of L M root rel J s w "w\<lparr>tick := n\<rparr>" s] by (simp add: hosting_def readable_def store_view_def)

section \<open>The store on such a host\<close>

lemma load_triple:
  assumes "steady J"
  shows "triple (hosting L M root rel J s) (load L root)
    (\<lambda>t w. hosting L M root rel J s w \<and> t = s) (\<lambda>_ w. hosting L M root rel J s w \<and> \<not> rel)"
proof (rule tripleI)
  fix w r w' assume h: "hosting L M root rel J s w"
  have "\<exists>n. snd (load L root w) = w\<lparr>tick := n\<rparr>"
    by (auto simp: load_def fs_exists_def fs_open_read_def io_call_def io_simps of_option_def split: option.splits)
  moreover have "fst (load L root w) = Inr s \<or> isl (fst (load L root w)) \<and> \<not> rel"
    using h by (auto simp: load_def fs_exists_def fs_open_read_def io_call_def io_simps of_option_def hosting_def readable_def
        reliable_def store_view_def split: option.splits)
  ultimately show "load L root w = (Inr r, w') \<Longrightarrow> hosting L M root rel J s w' \<and> r = s"
    and "load L root w = (Inl e, w') \<Longrightarrow> hosting L M root rel J s w' \<and> \<not> rel" for e
    using hosting_tick [OF assms h] by auto
qed

lemma save_framed: "keeps (framed v) (save L root s)"
proof -
  have io: "keeps (framed v) (io_call c)" for c by (rule keeps_io_call_host) simp
  have "keeps (framed v) (fs_create c p)" "keeps (framed v) (fs_remove c p)" "keeps (framed v) (fs_rename c p q)" for c p q
    unfolding fs_create_def fs_remove_def fs_rename_def by (auto intro!: keeps_intros keeps_modify io)
  moreover have "keeps (framed v) (write_json L p s)" for p
    by (auto simp: keeps_def write_json_def fs_write_def io_simps split: option.splits)
  moreover have "keeps (framed v) (fs_exists p)" for p by (rule keeps_fs_exists) simp
  ultimately show ?thesis unfolding save_def write_state_def using io by (auto intro!: keeps_intros)
qed

lemma save_reliable:
  assumes "reliable L w"
  shows "fst (save L root t w) = Inr ()"
proof -
  obtain js where "hl_to_json L t = Some js" "\<And>n. \<not> env_io_fault (env w) n" using assms unfolding reliable_def by blast
  then show ?thesis
    by (simp add: save_def write_state_def write_json_def fs_create_def fs_write_def fs_rename_def io_call_def io_simps)
qed

lemma save_hosting:
  assumes "steady J"
  shows "triple (hosting L M root rel J s) (save L root t)
    (\<lambda>_. hosting L M root rel J t) (\<lambda>_ w. hosting L M root rel J s w \<and> \<not> rel)"
proof (rule tripleI)
  fix w r w' assume h: "hosting L M root rel J s w"
  have fr: "save L root t w = (r, w') \<Longrightarrow> framed w w'" for r w' using keepsD [OF save_framed framed_refl] .
  have inv: "store_inv L w" using h by (simp add: hosting_def host_ok_def readable_def store_inv_def)
  have st: "save L root t w = (r, w') \<Longrightarrow> stat_fault w' = stat_fault w" for r w'
    using save_effect [of L root t w r w'] by (simp add: same_but_def)
  have vw: "store_view L root w = Some s" using h by (simp add: hosting_def readable_def)
  show "save L root t w = (Inr r, w') \<Longrightarrow> hosting L M root rel J t w'"
    using hosting_moved [OF h assms fr st] save_view [OF inv] by auto
  show "save L root t w = (Inl e, w') \<Longrightarrow> hosting L M root rel J s w' \<and> \<not> rel" for e
    using hosting_moved [OF h assms fr st] save_view [OF inv] vw save_reliable [of L w root t] h by (auto simp: hosting_def)
qed

lemma run_store_triple:
  assumes "steady J"
  shows "triple (hosting L M root rel J s) (run_store L root c)
    (\<lambda>_ w. \<exists>t. store_check L c s = Inr t \<and> hosting L M root rel J t w)
    (\<lambda>e w. hosting L M root rel J s w \<and> (rel \<longrightarrow> store_check L c s = Inl e))"
proof -
  let ?H = "hosting L M root rel J"
  let ?Q = "\<lambda>(_ :: unit) w. \<exists>t. store_check L c s = Inr t \<and> ?H t w" and ?E = "\<lambda>e w. ?H s w \<and> (rel \<longrightarrow> store_check L c s = Inl e)"
  have ld: "triple (?H s) (load L root) (\<lambda>t w. ?H s w \<and> t = s) ?E"
    by (rule triple_weaken [OF load_triple [OF assms]]) auto
  have "triple (?H s) (and_then (load L root) (\<lambda>s. and_then (of_result (store_check L c s)) (\<lambda>s'. save L root s'))) ?Q ?E"
  proof (rule triple_and_then [OF ld])
    fix x
    have "triple (?H s) (and_then (of_result (store_check L c s)) (\<lambda>s'. save L root s')) ?Q ?E"
    proof (cases "store_check L c s")
      case (Inl e)
      then show ?thesis by (auto simp: triple_def io_simps)
    next
      case (Inr t)
      have "and_then (of_result (store_check L c s)) (\<lambda>s'. save L root s') = (save L root t :: ('a, unit) host_op)"
        by (simp add: fun_eq_iff Inr io_simps)
      then show ?thesis using triple_weaken [OF save_hosting [OF assms, of L M root rel s t]] Inr by simp
    qed
    then show "triple (\<lambda>w. ?H s w \<and> x = s) (and_then (of_result (store_check L c x)) (\<lambda>s'. save L root s')) ?Q ?E"
      by (intro triple_pure) simp
  qed
  moreover have "run_store L root c = (and_then (load L root) (\<lambda>s. and_then (of_result (store_check L c s)) (\<lambda>s'. save L root s')) :: ('a, unit) host_op)"
    by (rule ext) (rule run_store_check)
  ultimately show ?thesis by simp
qed

section \<open>Builders\<close>

text \<open>What the service relies on: a builder leaves the state file and the runtime alone.\<close>

locale image_builder =
  fixes L :: host_lib and M :: minidock_images and root :: string and builder :: "'z ImageBuilder"
  assumes keeps_state: "steady J \<Longrightarrow> keeps (hosting L M root rel J s) (builder root i src base)"
begin

lemma attempt_keeps_state:
  "steady J \<Longrightarrow> triple (hosting L M root rel J s) (attempt (builder root i src base))
     (\<lambda>r w. hosting L M root rel J s w \<and> (\<exists>v v'. builder root i src base v = (r, v'))) E"
proof (rule tripleI)
  fix w a w' assume "steady J" and "hosting L M root rel J s w" and "attempt (builder root i src base) w = (Inr a, w')"
  moreover from this(3) have "builder root i src base w = (a, w')" by (simp add: io_simps prod_eq_iff)
  ultimately show "hosting L M root rel J s w' \<and> (\<exists>v v'. builder root i src base v = (a, v'))"
    using keepsD [OF keeps_state] by blast
qed (simp add: io_simps)

end

definition under :: "string \<Rightarrow> 'z host_world_scheme \<Rightarrow> 'z host_world_scheme \<Rightarrow> bool" where
  "under dir w w' \<longleftrightarrow> stat_fault w' = stat_fault w \<and> framed w w'
     \<and> (\<forall>p. \<not> is_under dir p \<longrightarrow> disk w' p = disk w p)"

lemma is_under_join:
  assumes "is_under dir p" and "normal_component c" and "dir \<noteq> []" and "last dir \<noteq> CHR ''/''"
  shows "is_under dir (path_join p c)"
proof -
  have c: "\<not> str_starts_with c ''/''" using assms(2) by (cases c) (auto simp: normal_component_def str_starts_with_def)
  from assms(1) consider "p = dir" | t where "p = dir @ ''/'' @ t"
    by (auto simp: is_under_def str_starts_with_iff)
  then show ?thesis
  proof cases
    case 1
    then show ?thesis using c assms(3,4) by (simp add: path_join_def is_under_def str_starts_with_def)
  next
    case 2
    then show ?thesis using c by (simp add: path_join_def is_under_def str_starts_with_def)
  qed
qed

lemma is_under_abs_path:
  assumes "is_under dir p" and "list_all normal_component rel" and "dir \<noteq> []" and "last dir \<noteq> CHR ''/''"
  shows "is_under dir (abs_path p rel)"
  using assms(1,2)
proof (induction rel arbitrary: p)
  case (Cons c rel)
  then show ?case using is_under_join [OF _ _ assms(3,4)] by (simp add: abs_path_def)
qed (simp add: abs_path_def)

lemma build_dir_end:
  assumes "host_ok L M"
  shows "build_dir L root i \<noteq> []" "last (build_dir L root i) \<noteq> CHR ''/''"
    "\<not> is_under (build_dir L root i) (state_path root)"
proof -
  let ?u = "hl_uuid_str L i"
  have u: "?u \<noteq> []" "CHR ''/'' \<notin> set ?u" using assms by (auto simp: host_ok_def normal_component_def)
  then have "\<not> str_starts_with ?u ''/''" by (cases ?u) (auto simp: str_starts_with_def)
  then obtain pre where d: "build_dir L root i = pre @ ''builds/'' @ ?u" "state_path root = pre @ ''state.json''"
    by (cases "root = [] \<or> last root = CHR ''/''")
      (auto simp: build_dir_def state_path_def path_join_def str_starts_with_def)
  show "build_dir L root i \<noteq> []" by (simp add: d)
  have "last (build_dir L root i) = last ?u" using u(1) by (simp add: d)
  then show "last (build_dir L root i) \<noteq> CHR ''/''" using last_in_set [OF u(1)] u(2) by metis
  show "\<not> is_under (build_dir L root i) (state_path root)"
    unfolding d is_under_def by (auto simp: str_starts_with_iff)
qed

lemma under_trans: "under dir w w' \<Longrightarrow> under dir w' w'' \<Longrightarrow> under dir w w''"
  by (auto simp: under_def intro: framed_trans)

lemma under_refl [simp]: "under dir w w"
  by (simp add: under_def)

lemma under_tick [simp]: "under dir v (w\<lparr>tick := n\<rparr>) = under dir v w"
  by (simp add: under_def framed_def)

lemma under_disk: "under dir v w \<Longrightarrow> is_under dir p \<Longrightarrow> under dir v (w\<lparr>disk := (disk w)(p := c)\<rparr>)"
  by (auto simp: under_def framed_def)

lemma is_under_trans: "is_under dir p \<Longrightarrow> is_under p q \<Longrightarrow> is_under dir q"
  by (auto simp: is_under_def str_starts_with_iff)

lemma keeps_extract:
  assumes "contained M" and "is_under dir p"
  shows "keeps (under dir v) (extract_rootfs M base p)"
proof (rule keepsI)
  fix w assume w: "under dir v w"
  have "fst (mi_extract_rootfs M (tick w) base p (disk w)) q = disk w q" if "\<not> is_under dir q" for q
    using assms that is_under_trans unfolding contained_def by blast
  then show "under dir v (snd (extract_rootfs M base p w))"
    using w by (auto simp: extract_rootfs_def under_def framed_def split: prod.splits)
qed

lemma keeps_build_image:
  assumes "contained M" and "is_under dir img"
  shows "keeps (under dir v) (build_image M rootfs img)"
proof (rule keepsI)
  fix w assume w: "under dir v w"
  have "fst (mi_build_image M (tick w) rootfs img (disk w)) q = disk w q" if "\<not> is_under dir q" for q
    using assms that unfolding contained_def by metis
  then show "under dir v (snd (build_image M rootfs img w))"
    using w by (auto simp: build_image_def under_def framed_def split: prod.splits)
qed

lemma keeps_run_build:
  assumes M: "contained M" and dir: "dir \<noteq> []" "last dir \<noteq> CHR ''/''"
  shows "keeps (under dir v) (run_build M dir src base)"
proof -
  have n: "normal_component ''rootfs''" "normal_component ''srv''" "normal_component ''app''" "normal_component ''image.tar.gz''"
    by (simp_all add: normal_component_def)
  have r: "is_under dir (path_join dir ''rootfs'')" "is_under dir (path_join dir ''image.tar.gz'')"
    using is_under_join [OF _ _ dir, of dir] n by (simp_all add: is_under_def)
  then have a: "is_under dir (path_join (path_join (path_join dir ''rootfs'') ''srv'') ''app'')"
    using is_under_join [OF _ _ dir] n by blast
  have io: "keeps (under dir v) (io_call c)" for c by (rule keeps_io_call_host) simp
  have copy: "keeps (under dir v) (fs_copy M c f t)" if "is_under dir t" for c f t
    unfolding fs_copy_def using io that
    by (intro keeps_intros) (auto simp: keeps_def intro: under_disk split: option.splits)
  moreover have "keeps (under dir v) (copy_source_file M (path_join (path_join (path_join dir ''rootfs'') ''srv'') ''app'') q rel)" for q rel
    unfolding copy_source_file_def Let_def using is_under_abs_path [OF a _ dir]
    by (intro keeps_if keeps_fail keeps_and_then io copy) simp
  ultimately show ?thesis
    unfolding run_build_def Let_def using io keeps_extract [OF M r(1)] keeps_build_image [OF M r(2)]
    by (intro keeps_and_then keeps_fold_io keeps_ret)
qed

lemma build_deployment_image_under:
  assumes "host_ok L M"
  shows "keeps (under (build_dir L root i) w) (build_deployment_image L M root i src base)"
  unfolding build_deployment_image_def Let_def
proof (intro keeps_intros)
  let ?dir = "build_dir L root i"
  have "contained M" using assms by (simp add: host_ok_def)
  then show "keeps (under ?dir w) (run_build M ?dir src base)"
    by (rule keeps_run_build [OF _ build_dir_end(1,2) [OF assms]])
  show "keeps (under ?dir w) (fs_dir_exists ?dir)" "keeps (under ?dir w) (fs_remove_dir_all c ?dir)" for c
    by (auto simp: keeps_def fs_dir_exists_def fs_remove_dir_all_def io_call_def io_simps under_def framed_def)
qed

interpretation minidock_builder: image_builder L M root "build_deployment_image L M" for L M root
proof (unfold_locales, rule keepsI)
  fix J :: "'z host_world_scheme \<Rightarrow> bool" and rel s i src base w
  assume J: "steady J" and h: "hosting L M root rel J s w"
  let ?w = "snd (build_deployment_image L M root i src base w)"
  have ok: "host_ok L M" using h by (simp add: hosting_def)
  have u: "under (build_dir L root i) w ?w" by (rule keeps_snd [OF build_deployment_image_under [OF ok]]) simp
  then have "disk ?w (state_path root) = disk w (state_path root)"
    using build_dir_end(3) [OF ok, of root i] by (simp add: under_def)
  then have "store_view L root ?w = Some s" using h by (simp add: hosting_def readable_def store_view_def)
  then show "hosting L M root rel J s ?w" using hosting_moved [OF h J] u by (simp add: under_def)
qed

end
