(* ===== verification/Service_Correct.thy ===== *)
theory Service_Correct
  imports Platform_Correct "HOL-Library.Countable"
begin

text \<open>
  The deploy service of \<^verbatim>\<open>src/service.rs\<close>: what a deployment makes of the state file and which calls of the runtime
  it takes, whichever calls of the file system, the builder and the runtime fail; which containers are left running
  after any sequence of calls; and that the health check of \<^verbatim>\<open>src/runtime.rs\<close> ends.
\<close>

section \<open>The calls of the runtime\<close>

datatype runtime_call =
    RtStart string string "string list" "error + RunningContainer"   \<comment> \<open>image, hostname, command, answer\<close>
  | RtStop uuid "error + unit"                                       \<comment> \<open>container, answer\<close>

text \<open>A runtime that answers as \<open>R\<close> does and notes the calls that start and stop containers.\<close>

definition logged :: "'r Runtime \<Rightarrow> ('r \<times> runtime_call list) Runtime" where
  "logged R =
     \<lparr>start_static = (\<lambda>image_path hostname command (r, cs).
        case start_static R image_path hostname command r of (a, r') \<Rightarrow> (a, r', cs @ [RtStart image_path hostname command a])),
      rt_stop = (\<lambda>i (r, cs). case rt_stop R i r of (a, r') \<Rightarrow> (a, r', cs @ [RtStop i a])),
      rt_logs = (\<lambda>i (r, cs). rt_logs R i r)\<rparr>"

definition called :: "runtime_call list \<Rightarrow> ('r \<times> runtime_call list, 'z) platform_world_scheme \<Rightarrow> bool" where
  "called cs w \<longleftrightarrow> snd (runtime w) = cs"

lemma steady_called: "steady (called cs)"
  unfolding steady_def
proof (intro allI impI)
  fix w w' :: "('r \<times> runtime_call list, 'z) platform_world_scheme"
  assume "framed w w'" and "called cs w"
  then show "called cs w'" by (cases w; cases w') (simp add: framed_def called_def)
qed

lemma hosting_runtime [simp]:
  fixes w :: "('r, 'z) platform_world_scheme"
  shows "readable L root (w\<lparr>runtime := x\<rparr>) = readable L root w" "reliable L (w\<lparr>runtime := x\<rparr>) = reliable L w"
  by (simp_all add: fun_eq_iff readable_def reliable_def store_view_def)

lemma stop_triple:
  "triple (hosting L M root rel (called cs) s) (on_runtime (rt_stop (logged R) i))
     (\<lambda>u. hosting L M root rel (called (cs @ [RtStop i (Inr u)])) s) (\<lambda>e. hosting L M root rel (called (cs @ [RtStop i (Inl e)])) s)"
  by (rule tripleI) (auto simp: on_runtime_def logged_def hosting_def called_def split: prod.splits)

lemma start_triple:
  "triple (hosting L M root rel (called cs) s) (on_runtime (start_static (logged R) im h c))
     (\<lambda>k. hosting L M root rel (called (cs @ [RtStart im h c (Inr k)])) s)
     (\<lambda>e. hosting L M root rel (called (cs @ [RtStart im h c (Inl e)])) s)"
  by (rule tripleI) (auto simp: on_runtime_def logged_def hosting_def called_def split: prod.splits)

lemma triple_try: "triple P m (\<lambda>a. Q (Inr a)) (\<lambda>e. Q (Inl e)) \<Longrightarrow> triple P (attempt m) Q F"
  by (drule triple_attempt [where F = F], erule triple_weaken) (auto split: sum.splits)

lemma triple_ret: "(\<And>w. P w \<Longrightarrow> Q a w) \<Longrightarrow> triple P (ret a) Q E"
  by (simp add: triple_def io_simps)

lemma triple_failI: "(\<And>w. P w \<Longrightarrow> E e w) \<Longrightarrow> triple P (fail e) Q E"
  by (simp add: triple_def io_simps)

lemma triple_ex: "(\<And>x. triple (P x) m Q E) \<Longrightarrow> triple (\<lambda>w. \<exists>x. P x w) m Q E"
  unfolding triple_def by metis

lemma triple_ignore:
  assumes "triple P m (\<lambda>_. Q) (\<lambda>_. Q)"
  shows "triple P (ignore m) (\<lambda>_. Q) E"
proof (rule tripleI)
  fix w a w' assume "P w" and "ignore m w = (Inr a, w')"
  moreover obtain r v where "m w = (r, v)" by fastforce
  ultimately show "Q w'" using triple_Inr [OF assms] triple_Inl [OF assms] by (cases r) (simp_all add: io_simps)
qed (simp add: io_simps)

lemma triple_case_result:
  assumes "\<And>a. r = Inr a \<Longrightarrow> triple P (f a) Q E" and "\<And>e. r = Inl e \<Longrightarrow> triple P (g e) Q E"
  shows "triple P (case r of Inr a \<Rightarrow> f a | Inl e \<Rightarrow> g e) Q E"
  using assms by (cases r) simp_all

lemma clock_triple:
  "steady J \<Longrightarrow> triple (hosting L M root rel J s) now_utc (\<lambda>_. hosting L M root rel J s) E"
  "steady J \<Longrightarrow> triple (hosting L M root rel J s) uuid_new_v4 (\<lambda>_. hosting L M root rel J s) E"
  "steady J \<Longrightarrow> triple (hosting L M root rel J s) (canonicalize C p) (\<lambda>c w. hosting L M root rel J s w \<and> (\<exists>n. c = C n p)) E"
  by (auto intro!: tripleI simp: now_utc_def uuid_new_v4_def canonicalize_def hosting_tick)

section \<open>Records of the state\<close>

abbreviation with_new :: "PlatformState \<Rightarrow> StateDeployment \<Rightarrow> PlatformState" where
  "with_new s d \<equiv> s\<lparr>ps_deployments := ps_deployments s @ [d]\<rparr>"

definition fresh :: "uuid \<Rightarrow> PlatformState \<Rightarrow> bool" where
  "fresh i s \<longleftrightarrow> i \<notin> sd_id ` set (ps_deployments s)"

definition replaced :: "StateDeployment \<Rightarrow> PlatformState \<Rightarrow> PlatformState" where
  "replaced d s = s\<lparr>ps_deployments := replace_by sd_id d (ps_deployments s)\<rparr>"

lemma position_append:
  "position P (xs @ ys) = (case position P xs of Some i \<Rightarrow> Some i | None \<Rightarrow> map_option (\<lambda>i. length xs + i) (position P ys))"
proof (induction xs)
  case Nil
  show ?case by (cases "position P ys") simp_all
next
  case (Cons x xs)
  then show ?case by (cases "position P ys") (auto split: option.splits)
qed

lemma position_None_iff: "position P xs = None \<longleftrightarrow> (\<forall>x\<in>set xs. \<not> P x)"
  by (induction xs) auto

lemma replace_by_append:
  "replace_by key y (xs @ zs) = (if key y \<in> key ` set xs then replace_by key y xs @ zs else xs @ replace_by key y zs)"
proof (cases "position (\<lambda>x. key x = key y) xs")
  case None
  then have "key y \<notin> key ` set xs" by (auto simp: position_None_iff)
  then show ?thesis using None by (auto simp: replace_by_def position_append list_update_append split: option.splits)
next
  case (Some i)
  then have "i < length xs" "key y \<in> key ` set xs" using position_Some [OF Some] by (auto simp: image_iff intro!: bexI [of _ "xs ! i"])
  then show ?thesis using Some by (simp add: replace_by_def position_append list_update_append)
qed

lemma replaced_with_new:
  "fresh (sd_id d) s \<Longrightarrow> sd_id d' = sd_id d \<Longrightarrow> replaced d' (with_new s d) = with_new s d'"
  "\<not> fresh (sd_id d') s \<Longrightarrow> replaced d' (with_new s d) = with_new (replaced d' s) d"
  by (auto simp: replaced_def fresh_def replace_by_append) (simp add: replace_by_def)

lemma replaced_projects [simp]: "ps_projects (replaced d s) = ps_projects s"
  by (simp add: replaced_def)

lemma replace_by_map:
  assumes "distinct (map key xs)"
  shows "replace_by key y xs = map (\<lambda>x. if key x = key y then y else x) xs"
proof -
  have "(case position (\<lambda>x. key x = key y) xs of Some i \<Rightarrow> xs[i := y] | None \<Rightarrow> xs) =
      map (\<lambda>x. if key x = key y then y else x) xs"
    using assms
  proof (induction xs)
    case (Cons x xs)
    show ?case
    proof (cases "key x = key y")
      case True
      then have "map (\<lambda>x. if key x = key y then y else x) xs = xs"
        using Cons.prems by (intro map_idI) (auto simp: image_iff)
      then show ?thesis using True by simp
    next
      case False
      then show ?thesis using Cons by (auto split: option.splits)
    qed
  qed simp
  then show ?thesis by (simp add: replace_by_def)
qed

lemma store_ok_triple:
  assumes "steady J" and "store_check L c s = Inr t"
  shows "triple (hosting L M root rel J s) (run_store L root c)
    (\<lambda>_. hosting L M root rel J t) (\<lambda>_ w. hosting L M root rel J s w \<and> \<not> rel)"
  using run_store_triple [OF assms(1), where c = c and s = s and L = L and M = M and root = root and rel = rel, unfolded assms(2)]
  by simp

lemma update_triple:
  assumes "steady J" and "\<not> fresh (sd_id d) s"
  shows "triple (hosting L M root rel J s) (update_deployment L root d)
    (\<lambda>_. hosting L M root rel J (replaced d s)) (\<lambda>_ w. hosting L M root rel J s w \<and> \<not> rel)"
proof -
  have "store_check L (UpdateDeployment d) s = Inr (replaced d s)"
    using assms(2) by (auto simp: position_None_iff fresh_def replaced_def)
  from store_ok_triple [OF assms(1) this] show ?thesis by simp
qed

lemma update_new_triple:
  assumes "steady J" and "fresh (sd_id d) s" and "sd_id d' = sd_id d"
  shows "triple (hosting L M root rel J (with_new s d)) (update_deployment L root d')
    (\<lambda>_. hosting L M root rel J (with_new s d')) (\<lambda>_ w. hosting L M root rel J (with_new s d) w \<and> \<not> rel)"
proof -
  have "\<not> fresh (sd_id d') (with_new s d)" using assms(3) by (simp add: fresh_def)
  from update_triple [OF assms(1) this] show ?thesis by (simp add: replaced_with_new(1) [OF assms(2,3)])
qed

lemma find_triple:
  assumes "steady J"
  shows "triple (hosting L M root rel J s) (store_deployment L root i)
      (\<lambda>d w. hosting L M root rel J s w \<and> List.find (\<lambda>d. sd_id d = i) (ps_deployments s) = Some d)
      (\<lambda>_ w. hosting L M root rel J s w \<and> (rel \<longrightarrow> List.find (\<lambda>d. sd_id d = i) (ps_deployments s) = None))"
    and "triple (hosting L M root rel J s) (store_project L root i)
      (\<lambda>p w. hosting L M root rel J s w \<and> List.find (\<lambda>p. sp_id p = i) (ps_projects s) = Some p)
      (\<lambda>e w. hosting L M root rel J s w \<and> (rel \<longrightarrow> List.find (\<lambda>p. sp_id p = i) (ps_projects s) = None \<and> e = project_not_found L i))"
proof -
  have d: "triple (\<lambda>w. hosting L M root rel J s w \<and> t = s) (of_option x (List.find (\<lambda>d. sd_id d = i) (ps_deployments t)))
      (\<lambda>d w. hosting L M root rel J s w \<and> List.find (\<lambda>d. sd_id d = i) (ps_deployments s) = Some d)
      (\<lambda>_ w. hosting L M root rel J s w \<and> (rel \<longrightarrow> List.find (\<lambda>d. sd_id d = i) (ps_deployments s) = None))" for t x
    by (auto intro!: tripleI simp: of_option_def io_simps split: option.splits)
  have p: "triple (\<lambda>w. hosting L M root rel J s w \<and> t = s) (of_option (project_not_found L i) (List.find (\<lambda>p. sp_id p = i) (ps_projects t)))
      (\<lambda>p w. hosting L M root rel J s w \<and> List.find (\<lambda>p. sp_id p = i) (ps_projects s) = Some p)
      (\<lambda>e w. hosting L M root rel J s w \<and> (rel \<longrightarrow> List.find (\<lambda>p. sp_id p = i) (ps_projects s) = None \<and> e = project_not_found L i))" for t
    by (auto intro!: tripleI simp: of_option_def io_simps split: option.splits)
  show "triple (hosting L M root rel J s) (store_deployment L root i)
      (\<lambda>d w. hosting L M root rel J s w \<and> List.find (\<lambda>d. sd_id d = i) (ps_deployments s) = Some d)
      (\<lambda>_ w. hosting L M root rel J s w \<and> (rel \<longrightarrow> List.find (\<lambda>d. sd_id d = i) (ps_deployments s) = None))"
    unfolding store_deployment_def by (rule triple_and_then [OF triple_weaken [OF load_triple [OF assms]] d]) auto
  show "triple (hosting L M root rel J s) (store_project L root i)
      (\<lambda>p w. hosting L M root rel J s w \<and> List.find (\<lambda>p. sp_id p = i) (ps_projects s) = Some p)
      (\<lambda>e w. hosting L M root rel J s w \<and> (rel \<longrightarrow> List.find (\<lambda>p. sp_id p = i) (ps_projects s) = None \<and> e = project_not_found L i))"
    unfolding store_project_def by (rule triple_and_then [OF triple_weaken [OF load_triple [OF assms]] p]) auto
qed

section \<open>What a deployment does\<close>

text \<open>The running deployment that is to be replaced, and what becomes of its record when its container answers.\<close>

definition running_previous :: "uuid option \<Rightarrow> PlatformState \<Rightarrow> StateDeployment option" where
  "running_previous active s =
     (case active of None \<Rightarrow> None
      | Some i \<Rightarrow> (case List.find (\<lambda>d. sd_id d = i) (ps_deployments s) of None \<Rightarrow> None
          | Some d \<Rightarrow> if sd_status d = DepRunning then Some d else None))"

definition retired :: "host_lib \<Rightarrow> error + unit \<Rightarrow> StateDeployment \<Rightarrow> StateDeployment" where
  "retired L answer d = d\<lparr>sd_status := DepStopped, sd_error := (case answer of Inr _ \<Rightarrow> sd_error d
     | Inl e \<Rightarrow> Some (unwrap_or (sd_error d) [] @ ''; cleanup failed: '' @ hl_to_string L e))\<rparr>"

text \<open>The calls and the state that follow a new deployment's start: the runtime is told to stop the container of the
  running deployment that was active, and its record says stopped.  On a host that is not reliable the record may
  be left as it is, and if it could not be read nothing is stopped.\<close>

definition superseded :: "host_lib \<Rightarrow> bool \<Rightarrow> uuid option \<Rightarrow> PlatformState \<Rightarrow> runtime_call list \<Rightarrow> PlatformState \<Rightarrow> bool" where
  "superseded L rel active s cs s' \<longleftrightarrow>
     (case running_previous active s of
        None \<Rightarrow> cs = [] \<and> s' = s
      | Some d \<Rightarrow>
          (\<exists>answer. cs = (case sd_container_id d of Some c \<Rightarrow> [RtStop c answer] | None \<Rightarrow> [])
             \<and> (sd_container_id d = None \<longrightarrow> answer = Inr ())
             \<and> (s' = replaced (retired L answer d) s \<or> \<not> rel \<and> s' = s))
          \<or> \<not> rel \<and> cs = [] \<and> s' = s)"

text \<open>A deployment that runs in a container, as its record has it.\<close>

definition runs_in :: "Project \<Rightarrow> StateDeployment \<Rightarrow> string \<Rightarrow> RunningContainer \<Rightarrow> bool" where
  "runs_in p d image_path c \<longleftrightarrow> sd_project_id d = sp_id p \<and> sd_status d = DepRunning \<and> sd_image_path d = Some image_path
     \<and> sd_container_id d = Some (rc_id c) \<and> sd_port d = Some (rc_port c) \<and> sd_url d = Some (rc_url c) \<and> sd_finished_at d \<noteq> None"

text \<open>Why a deployment is recorded as failed: its sources cannot be deployed, its image cannot be built, or its container
  does not start.\<close>

definition deploy_failure :: "host_lib \<Rightarrow> canonicalizer \<Rightarrow> 'z ImageBuilder \<Rightarrow> string \<Rightarrow> Project \<Rightarrow> uuid \<Rightarrow> string \<Rightarrow>
   runtime_call list \<Rightarrow> bool" where
  "deploy_failure L C builder root p i msg cs \<longleftrightarrow>
     (\<exists>n e. cs = [] \<and> detect_static_source (sp_source_dir p) (C n (sp_source_dir p)) = Inl e
        \<and> msg = ''detection failed: '' @ hl_alternate L e)
     \<or> (\<exists>n src v v' e. cs = [] \<and> detect_static_source (sp_source_dir p) (C n (sp_source_dir p)) = Inr src
        \<and> builder root i src (sp_base_image p) v = (Inl e, v') \<and> msg = ''build failed: '' @ hl_alternate L e)
     \<or> (\<exists>image_path e. cs = [RtStart image_path (hostname_of L i) (sp_server_command p) (Inl e)]
        \<and> msg = ''runtime start failed for '' @ hostname_of L i @ '': '' @ hl_alternate L e)"

text \<open>No container was started, or the one that was started was told to stop.\<close>

definition no_container :: "runtime_call list \<Rightarrow> bool" where
  "no_container cs \<longleftrightarrow> cs = [] \<or> (\<exists>im h c e. cs = [RtStart im h c (Inl e)])
     \<or> (\<exists>im h c k answer. cs = [RtStart im h c (Inr k), RtStop (rc_id k) answer])"

text \<open>The ways a call of \<^verbatim>\<open>deploy\<close> can end: what it returns, the calls of the runtime and the state.\<close>

inductive deployed :: "host_lib \<Rightarrow> canonicalizer \<Rightarrow> 'z ImageBuilder \<Rightarrow> string \<Rightarrow> bool \<Rightarrow> uuid \<Rightarrow> PlatformState \<Rightarrow>
   error + StateDeployment \<Rightarrow> runtime_call list \<Rightarrow> PlatformState \<Rightarrow> bool"
  for L C builder root rel project_id s where
  refused: "(rel \<longrightarrow> project_id \<notin> sp_id ` set (ps_projects s) \<and> e = project_not_found L project_id
       \<or> (\<exists>i. \<not> fresh i s \<and> e = Message (''duplicate deployment ID: '' @ hl_uuid_str L i))) \<Longrightarrow>
     deployed L C builder root rel project_id s (Inl e) [] s"
| interrupted: "\<not> rel \<Longrightarrow> fresh (sd_id d) s \<Longrightarrow> sd_project_id d = project_id \<Longrightarrow> sd_status d \<in> {DepPending, DepBuilding} \<Longrightarrow>
     sd_container_id d = None \<Longrightarrow> no_container cs \<Longrightarrow> deployed L C builder root rel project_id s (Inl e) cs (with_new s d)"
| failed: "p \<in> set (ps_projects s) \<Longrightarrow> sp_id p = project_id \<Longrightarrow> fresh (sd_id d) s \<Longrightarrow> sd_project_id d = project_id \<Longrightarrow>
     sd_status d = DepFailed \<Longrightarrow> sd_error d = Some msg \<Longrightarrow> sd_finished_at d \<noteq> None \<Longrightarrow> sd_container_id d = None \<Longrightarrow>
     deploy_failure L C builder root p (sd_id d) msg cs \<Longrightarrow>
     deployed L C builder root rel project_id s (Inl (Message msg)) cs (with_new s d)"
| unswitched: "\<not> rel \<Longrightarrow> p \<in> set (ps_projects s) \<Longrightarrow> sp_id p = project_id \<Longrightarrow> fresh (sd_id d) s \<Longrightarrow> runs_in p d image_path c \<Longrightarrow>
     superseded L rel (sp_active_deployment p) s cs s1 \<Longrightarrow>
     deployed L C builder root rel project_id s (Inl e)
       (RtStart image_path (hostname_of L (sd_id d)) (sp_server_command p) (Inr c) # cs) (with_new s1 d)"
| switched: "p \<in> set (ps_projects s) \<Longrightarrow> sp_id p = project_id \<Longrightarrow> fresh (sd_id d) s \<Longrightarrow> runs_in p d image_path c \<Longrightarrow>
     superseded L rel (sp_active_deployment p) s cs s1 \<Longrightarrow>
     deployed L C builder root rel project_id s (Inr d)
       (RtStart image_path (hostname_of L (sd_id d)) (sp_server_command p) (Inr c) # cs)
       ((with_new s1 d)\<lparr>ps_projects := replace_by sp_id (p\<lparr>sp_active_deployment := Some (sd_id d)\<rparr>) (ps_projects s)\<rparr>)"

section \<open>The steps of a deployment\<close>

lemma find_append: "List.find P (xs @ ys) = (case List.find P xs of Some x \<Rightarrow> Some x | None \<Rightarrow> List.find P ys)"
  by (induction xs) auto

lemma superseded_with_new:
  assumes "superseded L rel active (with_new s d) cs s'" and "\<And>i. active = Some i \<Longrightarrow> \<not> fresh i s"
  obtains s1 where "s' = with_new s1 d" "superseded L rel active s cs s1"
proof -
  have prev: "running_previous active (with_new s d) = running_previous active s"
  proof (cases active)
    case (Some i)
    then have "List.find (\<lambda>d. sd_id d = i) (ps_deployments s) \<noteq> None"
      using assms(2) by (auto simp: fresh_def find_None_iff)
    then show ?thesis by (auto simp: running_previous_def Some find_append split: option.splits)
  qed (simp add: running_previous_def)
  have "replaced (retired L a x) (with_new s d) = with_new (replaced (retired L a x) s) d"
    if "running_previous active s = Some x" for a x
  proof (rule replaced_with_new(2))
    show "\<not> fresh (sd_id (retired L a x)) s"
      using that by (auto simp: running_previous_def retired_def fresh_def find_Some_iff split: option.splits if_splits)
  qed
  then show thesis using assms(1) that by (auto simp: superseded_def prev split: option.splits)
qed

lemma superseded_projects: "superseded L rel active s cs s' \<Longrightarrow> ps_projects s' = ps_projects s"
  by (auto simp: superseded_def split: option.splits)

lemma stop_previous_triple:
  "triple (hosting L M root rel (called cs) s) (stop_previous L (logged R) root old)
     (\<lambda>_ w. \<exists>cs' s'. hosting L M root rel (called (cs @ cs')) s' w \<and> superseded L rel (Some old) s cs' s') E"
  (is "triple ?P _ ?Q E")
  unfolding stop_previous_def
proof (rule triple_and_then [OF triple_try])
  let ?f = "List.find (\<lambda>d. sd_id d = old) (ps_deployments s)"
  let ?R = "\<lambda>r w. ?P w \<and> (case r of Inr d \<Rightarrow> ?f = Some d | Inl _ \<Rightarrow> rel \<longrightarrow> ?f = None)"
  show "triple ?P (store_deployment L root old) (\<lambda>d. ?R (Inr d)) (\<lambda>e. ?R (Inl e))"
    by (rule triple_weaken [OF find_triple(1) [OF steady_called]]) auto
  fix found
  show "triple (?R found) (case found of Inl e \<Rightarrow> ret () | Inr old \<Rightarrow>
      if sd_status old \<noteq> DepRunning then ret ()
      else and_then (case sd_container_id old of Some cid \<Rightarrow> attempt (on_runtime (rt_stop (logged R) cid)) | None \<Rightarrow> ret (Inr ())) (\<lambda>stopped.
        let old1 = old\<lparr>sd_status := DepStopped\<rparr>;
            old2 = (case stopped of Inr _ \<Rightarrow> old1 | Inl cleanup_err \<Rightarrow> old1\<lparr>sd_error := Some (unwrap_or (sd_error old) [] @
                     ''; cleanup failed: '' @ hl_to_string L cleanup_err)\<rparr>)
        in ignore (update_deployment L root old2))) ?Q E"
  proof (cases found)
    case (Inl e)
    have "?Q () w" if "?P w" "rel \<longrightarrow> ?f = None" for w
      using that by (intro exI [of _ "[]"] exI [of _ s]) (auto simp: superseded_def running_previous_def split: option.splits)
    then show ?thesis using Inl by (auto intro: triple_ret)
  next
    case (Inr d)
    show ?thesis
    proof (cases "sd_status d = DepRunning")
      case False
      have "?Q () w" if "?P w" "?f = Some d" for w
        using that False by (intro exI [of _ "[]"] exI [of _ s]) (auto simp: superseded_def running_previous_def)
      then show ?thesis using Inr False by (auto intro: triple_ret)
    next
      case True
      let ?calls = "\<lambda>answer. case sd_container_id d of Some c \<Rightarrow> [RtStop c answer] | None \<Rightarrow> []"
      let ?S = "\<lambda>answer w. hosting L M root rel (called (cs @ ?calls answer)) s w \<and> (sd_container_id d = None \<longrightarrow> answer = Inr ())"
      have "triple ?P (and_then (case sd_container_id d of Some cid \<Rightarrow> attempt (on_runtime (rt_stop (logged R) cid)) | None \<Rightarrow> ret (Inr ()))
          (\<lambda>answer. ignore (update_deployment L root (retired L answer d)))) ?Q E" if f: "?f = Some d"
      proof (rule triple_and_then)
        show "triple ?P (case sd_container_id d of Some cid \<Rightarrow> attempt (on_runtime (rt_stop (logged R) cid)) | None \<Rightarrow> ret (Inr ())) ?S E"
          by (cases "sd_container_id d") (auto intro!: triple_ret triple_try triple_weaken [OF stop_triple])
        fix answer
        have "\<not> fresh (sd_id (retired L answer d)) s" using f by (auto simp: fresh_def retired_def find_Some_iff)
        note upd = update_triple [OF steady_called [of "cs @ ?calls answer"] this, where L = L and M = M and root = root and rel = rel]
        have "triple (?S answer) (update_deployment L root (retired L answer d)) (\<lambda>_. ?Q ()) (\<lambda>_. ?Q ())"
        proof (rule triple_pure)
          assume "sd_container_id d = None \<longrightarrow> answer = Inr ()"
          then have "superseded L rel (Some old) s (?calls answer) s'"
            if "s' = replaced (retired L answer d) s \<or> \<not> rel \<and> s' = s" for s'
            using that f True by (auto simp: superseded_def running_previous_def)
          then have q: "?Q () w" if "hosting L M root rel (called (cs @ ?calls answer)) s' w" "s' = replaced (retired L answer d) s \<or> \<not> rel \<and> s' = s" for w s'
            using that by (intro exI [of _ "?calls answer"] exI [of _ s'] conjI) simp_all
          show "triple (hosting L M root rel (called (cs @ ?calls answer)) s) (update_deployment L root (retired L answer d)) (\<lambda>_. ?Q ()) (\<lambda>_. ?Q ())"
            by (rule triple_weaken [OF upd]) (assumption, erule q, simp, elim conjE, erule q, simp)
        qed
        then show "triple (?S answer) (ignore (update_deployment L root (retired L answer d))) ?Q E" by (rule triple_ignore)
      qed
      moreover have "(case answer of Inr _ \<Rightarrow> d\<lparr>sd_status := DepStopped\<rparr> | Inl c \<Rightarrow> d\<lparr>sd_status := DepStopped,
          sd_error := Some (unwrap_or (sd_error d) [] @ ''; cleanup failed: '' @ hl_to_string L c)\<rparr>) = retired L answer d" for answer
        by (cases answer) (simp_all add: retired_def)
      ultimately show ?thesis using Inr True by (auto simp: Let_def intro: triple_pure)
    qed
  qed
qed

definition outcome :: "host_lib \<Rightarrow> minidock_images \<Rightarrow> canonicalizer \<Rightarrow> ('r \<times> runtime_call list, 'z) platform_world_ext ImageBuilder \<Rightarrow>
   string \<Rightarrow> bool \<Rightarrow> uuid \<Rightarrow> PlatformState \<Rightarrow> runtime_call list \<Rightarrow> error + StateDeployment \<Rightarrow>
   ('r \<times> runtime_call list, 'z) platform_world_scheme \<Rightarrow> bool" where
  "outcome L M C builder root rel project_id s before r w \<longleftrightarrow>
     (\<exists>cs s'. hosting L M root rel (called (before @ cs)) s' w \<and> deployed L C builder root rel project_id s r cs s')"

lemma outcomeI:
  "hosting L M root rel (called (before @ cs)) s' w \<Longrightarrow> deployed L C builder root rel project_id s r cs s' \<Longrightarrow>
     outcome L M C builder root rel project_id s before r w"
  unfolding outcome_def by blast

lemma deploy_failure_no_container: "deploy_failure L C builder root p i msg cs \<Longrightarrow> no_container cs"
  by (auto simp: deploy_failure_def no_container_def)

lemma give_up_triple:
  assumes "p \<in> set (ps_projects s)" and "sp_id p = sd_project_id d" and d: "fresh (sd_id d) s" "sd_status d = DepBuilding" "sd_container_id d = None"
    and f: "deploy_failure L C builder root p (sd_id d) msg cs"
  shows "triple (hosting L M root rel (called (before @ cs)) (with_new s d)) (give_up L root d msg)
    Q (\<lambda>e. outcome L M C builder root rel (sd_project_id d) s before (Inl e))"
  unfolding give_up_def
proof (rule triple_and_then [OF clock_triple(1) [OF steady_called]])
  fix now
  let ?d = "d\<lparr>sd_status := DepFailed, sd_finished_at := Some now, sd_error := Some msg\<rparr>"
  let ?O = "outcome L M C builder root rel (sd_project_id d) s before (Inl (Message msg))"
  have upd: "triple (hosting L M root rel (called (before @ cs)) (with_new s d)) (update_deployment L root ?d)
    (\<lambda>_. hosting L M root rel (called (before @ cs)) (with_new s ?d)) (\<lambda>_ w. hosting L M root rel (called (before @ cs)) (with_new s d) w \<and> \<not> rel)"
    by (rule update_new_triple [OF steady_called d(1)]) simp
  have fld: "deployed L C builder root rel (sd_project_id d) s (Inl (Message msg)) cs (with_new s ?d)"
    by (rule failed [OF assms(1,2)]) (use d f in simp_all)
  have intr: "\<not> rel \<Longrightarrow> deployed L C builder root rel (sd_project_id d) s (Inl (Message msg)) cs (with_new s d)"
    by (rule interrupted) (use d deploy_failure_no_container [OF f] in simp_all)
  have "triple (hosting L M root rel (called (before @ cs)) (with_new s d)) (update_deployment L root ?d) (\<lambda>_. ?O) (\<lambda>_. ?O)"
    by (rule triple_weaken [OF upd]) (assumption, erule outcomeI, rule fld, elim conjE, erule outcomeI, erule intr)
  then have "triple (hosting L M root rel (called (before @ cs)) (with_new s d)) (ignore (update_deployment L root ?d))
      (\<lambda>_. ?O) (\<lambda>e. outcome L M C builder root rel (sd_project_id d) s before (Inl e))"
    by (rule triple_ignore)
  then show "triple (hosting L M root rel (called (before @ cs)) (with_new s d))
      (and_then (ignore (update_deployment L root ?d)) (\<lambda>_. fail (Message msg)))
      Q (\<lambda>e. outcome L M C builder root rel (sd_project_id d) s before (Inl e))"
    by (rule triple_and_then) (rule triple_failI)
qed

lemma or_give_up_triple:
  assumes "\<And>e. r = Inl e \<Longrightarrow> triple P (give_up L root d (msg e)) (\<lambda>a w. P w \<and> r = Inr a) E"
  shows "triple P (or_give_up L root d msg r) (\<lambda>a w. P w \<and> r = Inr a) E"
  using assms unfolding or_give_up_def by (cases r) (auto intro: triple_ret)

lemma persist_running_triple:
  assumes d: "fresh (sd_id d) s" "sd_status d = DepBuilding" "sd_container_id d = None" and "sd_id d' = sd_id d"
  shows "triple (hosting L M root rel (called (before @ [RtStart im h cmd (Inr c)])) (with_new s d)) (persist_running L (logged R) root d' c)
    (\<lambda>_. hosting L M root rel (called (before @ [RtStart im h cmd (Inr c)])) (with_new s d'))
    (\<lambda>e. outcome L M C builder root rel (sd_project_id d) s before (Inl e))"
  unfolding persist_running_def
proof (rule triple_and_then [OF triple_try])
  let ?H = "\<lambda>cs. hosting L M root rel (called (before @ RtStart im h cmd (Inr c) # cs))"
  let ?E = "\<lambda>e. outcome L M C builder root rel (sd_project_id d) s before (Inl e)"
  let ?R = "\<lambda>r w. case r of Inr (_ :: unit) \<Rightarrow> ?H [] (with_new s d') w | Inl (_ :: error) \<Rightarrow> ?H [] (with_new s d) w \<and> \<not> rel"
  show "triple (hosting L M root rel (called (before @ [RtStart im h cmd (Inr c)])) (with_new s d)) (update_deployment L root d')
      (\<lambda>a. ?R (Inr a)) (\<lambda>e. ?R (Inl e))"
    using update_new_triple [OF steady_called d(1) assms(4)] by simp
  fix saved
  have "deployed L C builder root rel (sd_project_id d) s (Inl e) [RtStart im h cmd (Inr c), RtStop (rc_id c) x] (with_new s d)" if "\<not> rel" for e x
    by (rule interrupted [OF that]) (use d in \<open>simp_all add: no_container_def\<close>)
  then have o: "?E e w" if "?H [RtStop (rc_id c) x] (with_new s d) w" "\<not> rel" for e x w
    using that outcomeI by blast
  have "triple (?R (Inl e)) (and_then (ignore (on_runtime (rt_stop (logged R) (rc_id c)))) (\<lambda>_. fail m)) (\<lambda>_. ?H [] (with_new s d')) ?E" for e m
  proof -
    have "triple (?R (Inl e)) (on_runtime (rt_stop (logged R) (rc_id c))) (\<lambda>_. ?E m) (\<lambda>_. ?E m)"
      unfolding sum.case
      by (rule triple_pure) (rule triple_weaken [OF stop_triple], assumption, rule o, simp, assumption, rule o, simp, assumption)
    then show ?thesis by (intro triple_and_then [OF triple_ignore] triple_failI)
  qed
  then show "triple (?R saved) (case saved of Inr _ \<Rightarrow> ret () | Inl save_err \<Rightarrow>
      and_then (ignore (on_runtime (rt_stop (logged R) (rc_id c)))) (\<lambda>_. fail (Message ''failed to persist running deployment state'')))
      (\<lambda>_. hosting L M root rel (called (before @ [RtStart im h cmd (Inr c)])) (with_new s d')) ?E"
    by (cases saved) (auto intro: triple_ret)
qed

lemma project_update_triple:
  assumes "steady J" and "sp_id p \<in> sp_id ` set (ps_projects s)"
  shows "triple (hosting L M root rel J s) (update_project L root p)
    (\<lambda>_. hosting L M root rel J (s\<lparr>ps_projects := replace_by sp_id p (ps_projects s)\<rparr>)) (\<lambda>_ w. hosting L M root rel J s w \<and> \<not> rel)"
proof -
  have "store_check L (UpdateProject p) s = Inr (s\<lparr>ps_projects := replace_by sp_id p (ps_projects s)\<rparr>)"
    using assms(2) by (auto simp: position_None_iff)
  from store_ok_triple [OF assms(1) this] show ?thesis by simp
qed

text \<open>Every active deployment of a project is recorded.\<close>

definition active_known :: "PlatformState \<Rightarrow> bool" where
  "active_known s \<longleftrightarrow> (\<forall>p\<in>set (ps_projects s). \<forall>i. sp_active_deployment p = Some i \<longrightarrow> \<not> fresh i s)"

lemma switch_triple:
  assumes p: "p \<in> set (ps_projects s)" "sp_id p = project_id" and d: "fresh (sd_id d) s" "runs_in p d im c"
    and known: "active_known s"
  shows "triple (hosting L M root rel (called (before @ [RtStart im (hostname_of L (sd_id d)) (sp_server_command p) (Inr c)])) (with_new s d))
     (and_then (case sp_active_deployment p of Some old_id \<Rightarrow> stop_previous L (logged R) root old_id | None \<Rightarrow> ret ()) (\<lambda>_.
      and_then (update_project L root (p\<lparr>sp_active_deployment := Some (sd_id d)\<rparr>)) (\<lambda>_. ret d)))
     (\<lambda>d. outcome L M C builder root rel project_id s before (Inr d)) (\<lambda>e. outcome L M C builder root rel project_id s before (Inl e))"
    (is "triple ?P (and_then ?stop ?rest) ?Q ?E")
proof -
  let ?call = "RtStart im (hostname_of L (sd_id d)) (sp_server_command p) (Inr c)"
  let ?new = "p\<lparr>sp_active_deployment := Some (sd_id d)\<rparr>"
  let ?H = "\<lambda>cs. hosting L M root rel (called (before @ ?call # cs))"
  let ?R = "\<lambda>w. \<exists>cs s1. ?H cs (with_new s1 d) w \<and> superseded L rel (sp_active_deployment p) s cs s1"
  have "triple ?P ?stop (\<lambda>_. ?R) ?E"
  proof (cases "sp_active_deployment p")
    case None
    have "?R w" if "?P w" for w
      using that by (intro exI [of _ "[]"] exI [of _ s]) (simp add: superseded_def running_previous_def None)
    then show ?thesis using None by (auto intro: triple_ret)
  next
    case (Some old)
    have "\<not> fresh i s" if "Some old = Some i" for i using known p(1) Some that by (auto simp: active_known_def)
    then have q: "?R w" if "hosting L M root rel (called ((before @ [?call]) @ cs')) s' w"
      "superseded L rel (Some old) (with_new s d) cs' s'" for w cs' s'
      using superseded_with_new [OF that(2)] that(1) Some by (metis append.assoc append_Cons append_Nil)
    have "triple ?P (stop_previous L (logged R) root old) (\<lambda>_. ?R) ?E"
      by (rule triple_weaken [OF stop_previous_triple]) (assumption, elim exE conjE, rule q, assumption+)
    then show ?thesis using Some by simp
  qed
  moreover have "triple (?H cs (with_new s1 d)) (and_then (update_project L root ?new) (\<lambda>_. ret d)) ?Q ?E"
    if sup: "superseded L rel (sp_active_deployment p) s cs s1" for cs s1
  proof (rule triple_and_then)
    have ps: "ps_projects (with_new s1 d) = ps_projects s" using superseded_projects [OF sup] by simp
    then have "sp_id ?new \<in> sp_id ` set (ps_projects (with_new s1 d))" using p(1) by auto
    note upd = project_update_triple [OF steady_called [of "before @ ?call # cs"] this, of L M root rel]
    show "triple (?H cs (with_new s1 d)) (update_project L root ?new)
        (\<lambda>_. ?H cs ((with_new s1 d)\<lparr>ps_projects := replace_by sp_id ?new (ps_projects s)\<rparr>)) ?E"
      by (rule triple_weaken [OF upd])
        (assumption, simp only: ps, elim conjE, erule outcomeI, erule unswitched, use p d sup in simp_all)
    show "triple (?H cs ((with_new s1 d)\<lparr>ps_projects := replace_by sp_id ?new (ps_projects s)\<rparr>)) (ret d) ?Q ?E" for u :: unit
      by (rule triple_ret, erule outcomeI, rule switched, use p d sup in simp_all)
  qed
  then have "triple ?R (and_then (update_project L root ?new) (\<lambda>_. ret d)) ?Q ?E"
    by (intro triple_ex triple_pure)
  ultimately show ?thesis by (rule triple_and_then)
qed

lemma make_active_triple:
  assumes p: "p \<in> set (ps_projects s)" "sp_id p = project_id" and known: "active_known s"
    and d: "fresh (sd_id d) s" "sd_status d = DepBuilding" "sd_container_id d = None" "sd_project_id d = project_id" "sd_image_path d = Some im"
  shows "triple (hosting L M root rel (called (before @ [RtStart im (hostname_of L (sd_id d)) (sp_server_command p) (Inr c)])) (with_new s d))
     (make_active L (logged R) root p d c)
     (\<lambda>d. outcome L M C builder root rel project_id s before (Inr d)) (\<lambda>e. outcome L M C builder root rel project_id s before (Inl e))"
  unfolding make_active_def Let_def
proof (rule triple_and_then [OF clock_triple(1) [OF steady_called]])
  fix now
  let ?d = "d\<lparr>sd_container_id := Some (rc_id c), sd_port := Some (rc_port c), sd_url := Some (rc_url c),
    sd_status := DepRunning, sd_finished_at := Some now\<rparr>"
  have d': "fresh (sd_id ?d) s" "runs_in p ?d im c" using d p(2) by (simp_all add: runs_in_def)
  have id: "sd_id ?d = sd_id d" by simp
  note per = persist_running_triple [OF d(1-3) id, unfolded d(4)]
  show "triple (hosting L M root rel (called (before @ [RtStart im (hostname_of L (sd_id d)) (sp_server_command p) (Inr c)])) (with_new s d))
      (and_then (persist_running L (logged R) root ?d c) (\<lambda>_.
       and_then (case sp_active_deployment p of Some old_id \<Rightarrow> stop_previous L (logged R) root old_id | None \<Rightarrow> ret ()) (\<lambda>_.
       and_then (update_project L root (p\<lparr>sp_active_deployment := Some (sd_id d)\<rparr>)) (\<lambda>_. ret ?d))))
     (\<lambda>d. outcome L M C builder root rel project_id s before (Inr d)) (\<lambda>e. outcome L M C builder root rel project_id s before (Inl e))"
    by (rule triple_and_then [OF per]) (use switch_triple [OF p d' known] in simp)
qed

lemma start_container_triple:
  assumes p: "p \<in> set (ps_projects s)" "sp_id p = project_id"
    and d: "fresh (sd_id d) s" "sd_status d = DepBuilding" "sd_container_id d = None" "sd_project_id d = project_id"
  shows "triple (hosting L M root rel (called before) (with_new s d)) (start_container L (logged R) root p d im)
     (\<lambda>c. hosting L M root rel (called (before @ [RtStart im (hostname_of L (sd_id d)) (sp_server_command p) (Inr c)])) (with_new s d))
     (\<lambda>e. outcome L M C builder root rel project_id s before (Inl e))"
  unfolding start_container_def Let_def
proof (rule triple_and_then [OF triple_try])
  let ?H = "\<lambda>r. hosting L M root rel (called (before @ [RtStart im (hostname_of L (sd_id d)) (sp_server_command p) r])) (with_new s d)"
  show "triple (hosting L M root rel (called before) (with_new s d))
      (on_runtime (start_static (logged R) im (hostname_of L (sd_id d)) (sp_server_command p))) (\<lambda>c. ?H (Inr c)) (\<lambda>e. ?H (Inl e))"
    by (rule start_triple)
  let ?msg = "\<lambda>e. ''runtime start failed for '' @ hostname_of L (sd_id d) @ '': '' @ hl_alternate L e"
  fix r
  have "deploy_failure L C builder root p (sd_id d) (?msg e) [RtStart im (hostname_of L (sd_id d)) (sp_server_command p) (Inl e)]" for e
    unfolding deploy_failure_def by blast
  note give = give_up_triple [OF p(1) _ d(1-3) this, unfolded d(4), OF p(2)]
  have "triple (?H r) (or_give_up L root d ?msg r) (\<lambda>c w. ?H r w \<and> r = Inr c) (\<lambda>e. outcome L M C builder root rel project_id s before (Inl e))"
    by (rule or_give_up_triple) (simp only:, rule give)
  then show "triple (?H r) (or_give_up L root d ?msg r) (\<lambda>c. ?H (Inr c)) (\<lambda>e. outcome L M C builder root rel project_id s before (Inl e))"
    by (rule triple_weaken) auto
qed

lemma build_and_start_triple:
  assumes p: "p \<in> set (ps_projects s)" "sp_id p = project_id" and known: "active_known s"
    and d: "fresh (sd_id d) s" "sd_status d = DepBuilding" "sd_container_id d = None" "sd_project_id d = project_id"
  shows "triple (hosting L M root rel (called before) (with_new s d)) (build_and_start L C (build_deployment_image L M) (logged R) root p d)
     (\<lambda>d. outcome L M C (build_deployment_image L M) root rel project_id s before (Inr d))
     (\<lambda>e. outcome L M C (build_deployment_image L M) root rel project_id s before (Inl e))"
    (is "triple ?P (build_and_start _ _ ?B _ _ _ _) ?Q ?E")
  unfolding build_and_start_def
proof (rule triple_and_then [OF clock_triple(3) [OF steady_called]])
  note give = give_up_triple [where cs = "[]" and before = before, unfolded append_Nil2, OF p(1) _ d(1-3), unfolded d(4), OF p(2)]
  fix canonical
  let ?detected = "detect_static_source (sp_source_dir p) canonical"
  let ?built = "\<lambda>built src w. ?P w \<and> (\<exists>v v'. ?B root (sd_id d) src (sp_base_image p) v = (built, v'))"
  let ?rest = "\<lambda>out. let imaged = d\<lparr>sd_image_path := Some (bo_image_path out)\<rparr>
     in and_then (update_deployment L root imaged) (\<lambda>_.
        and_then (start_container L (logged R) root p imaged (bo_image_path out)) (\<lambda>container.
        make_active L (logged R) root p imaged container))"
  have rest: "triple ?P (?rest out) ?Q ?E" for out
    unfolding Let_def
  proof (rule triple_and_then)
    let ?d = "d\<lparr>sd_image_path := Some (bo_image_path out)\<rparr>"
    have d': "fresh (sd_id ?d) s" "sd_status ?d = DepBuilding" "sd_container_id ?d = None" "sd_project_id ?d = project_id"
      "sd_image_path ?d = Some (bo_image_path out)" using d by simp_all
    have intr: "\<not> rel \<Longrightarrow> deployed L C ?B root rel project_id s (Inl e) [] (with_new s d)" for e
      by (erule interrupted) (use d in \<open>simp_all add: no_container_def\<close>)
    show "triple ?P (update_deployment L root ?d) (\<lambda>_. hosting L M root rel (called before) (with_new s ?d)) ?E"
      by (rule triple_weaken [OF update_new_triple [OF steady_called d(1), of ?d]])
        (simp, assumption, assumption, elim conjE, rule outcomeI [where cs = "[]"], simp, erule intr)
    show "triple (hosting L M root rel (called before) (with_new s ?d)) (and_then (start_container L (logged R) root p ?d (bo_image_path out)) (\<lambda>container.
        make_active L (logged R) root p ?d container)) ?Q ?E" for u :: unit
      by (rule triple_and_then [OF start_container_triple [OF p d'(1-4)]], rule make_active_triple [OF p known d'])
  qed
  show "triple (\<lambda>w. ?P w \<and> (\<exists>n. canonical = C n (sp_source_dir p)))
     (and_then (or_give_up L root d (\<lambda>e. ''detection failed: '' @ hl_alternate L e) ?detected) (\<lambda>src.
      and_then (attempt (?B root (sd_id d) src (sp_base_image p))) (\<lambda>built.
      and_then (or_give_up L root d (\<lambda>e. ''build failed: '' @ hl_alternate L e) built) ?rest))) ?Q ?E"
  proof (rule triple_pure, elim exE, rule triple_and_then [OF or_give_up_triple])
    fix n assume n: "canonical = C n (sp_source_dir p)"
    show "triple ?P (give_up L root d (''detection failed: '' @ hl_alternate L e)) (\<lambda>src w. ?P w \<and> ?detected = Inr src) ?E"
      if "?detected = Inl e" for e
      by (rule give) (use that n in \<open>auto simp: deploy_failure_def\<close>)
    fix src
    show "triple (\<lambda>w. ?P w \<and> ?detected = Inr src) (and_then (attempt (?B root (sd_id d) src (sp_base_image p))) (\<lambda>built.
        and_then (or_give_up L root d (\<lambda>e. ''build failed: '' @ hl_alternate L e) built) ?rest)) ?Q ?E"
    proof (rule triple_pure, rule triple_and_then [OF minidock_builder.attempt_keeps_state [OF steady_called]], rule triple_pure, elim exE)
      fix built v v'
      assume src: "?detected = Inr src" and b: "?B root (sd_id d) src (sp_base_image p) v = (built, v')"
      have "deploy_failure L C ?B root p (sd_id d) (''build failed: '' @ hl_alternate L e) []" if "built = Inl e" for e
        using src b unfolding that n deploy_failure_def by blast
      then have "triple ?P (give_up L root d (''build failed: '' @ hl_alternate L e)) (\<lambda>out w. ?P w \<and> built = Inr out) ?E" if "built = Inl e" for e
        using that by (intro give)
      then have "triple ?P (or_give_up L root d (\<lambda>e. ''build failed: '' @ hl_alternate L e) built) (\<lambda>out w. ?P w \<and> built = Inr out) ?E"
        by (rule or_give_up_triple)
      then show "triple ?P (and_then (or_give_up L root d (\<lambda>e. ''build failed: '' @ hl_alternate L e) built) ?rest) ?Q ?E"
        by (rule triple_and_then) (rule triple_pure, rule rest)
    qed
  qed
qed

lemma deploy_triple:
  assumes known: "active_known s"
  shows "triple (hosting L M root rel (called before) s) (deploy L C (build_deployment_image L M) (logged R) root project_id)
     (\<lambda>d. outcome L M C (build_deployment_image L M) root rel project_id s before (Inr d))
     (\<lambda>e. outcome L M C (build_deployment_image L M) root rel project_id s before (Inl e))"
    (is "triple ?P (deploy _ _ ?B _ _ _) ?Q ?E")
  unfolding deploy_def Let_def
proof (rule triple_and_then)
  let ?find = "List.find (\<lambda>p. sp_id p = project_id) (ps_projects s)"
  have unchanged: "?E e w" if "?P w" "deployed L C ?B root rel project_id s (Inl e) [] s" for e w
    by (rule outcomeI [where cs = "[]" and s' = s]) (simp_all add: that)
  show "triple ?P (store_project L root project_id) (\<lambda>p w. ?P w \<and> ?find = Some p) ?E"
    by (rule triple_weaken [OF find_triple(2) [OF steady_called]]) (auto intro!: unchanged refused simp: find_None_iff)
  fix p
  show "triple (\<lambda>w. ?P w \<and> ?find = Some p) (and_then uuid_new_v4 (\<lambda>i. and_then now_utc (\<lambda>now.
      and_then (insert_deployment L root (new_deployment i project_id now)) (\<lambda>_.
      and_then (update_deployment L root ((new_deployment i project_id now)\<lparr>sd_status := DepBuilding\<rparr>)) (\<lambda>_.
      build_and_start L C ?B (logged R) root p ((new_deployment i project_id now)\<lparr>sd_status := DepBuilding\<rparr>)))))) ?Q ?E"
  proof (rule triple_pure, rule triple_and_then [OF clock_triple(2) [OF steady_called]],
      rule triple_and_then [OF clock_triple(1) [OF steady_called]], rule triple_and_then)
    fix i now assume "?find = Some p"
    then have p: "p \<in> set (ps_projects s)" "sp_id p = project_id" by (auto simp: find_Some_iff)
    let ?d = "new_deployment i project_id now"
    let ?b = "?d\<lparr>sd_status := DepBuilding\<rparr>"
    let ?dup = "Message (''duplicate deployment ID: '' @ hl_uuid_str L (sd_id ?d))"
    have "list_ex (\<lambda>x. sd_id x = sd_id ?d) (ps_deployments s) \<longleftrightarrow> \<not> fresh (sd_id ?d) s" unfolding fresh_def list_ex_iff image_iff by metis
    then have chk: "store_check L (InsertDeployment ?d) s = (if fresh (sd_id ?d) s then Inr (with_new s ?d) else Inl ?dup)" by simp
    have ref: "?E e w" if "?P w" "rel \<longrightarrow> \<not> fresh (sd_id ?d) s \<and> e = ?dup" for e w
      by (rule unchanged [OF that(1)], rule refused) (use that(2) in auto)
    have "triple ?P (run_store L root (InsertDeployment ?d)) (\<lambda>_ w. hosting L M root rel (called before) (with_new s ?d) w \<and> fresh (sd_id ?d) s) ?E"
      by (rule triple_weaken [OF run_store_triple [OF steady_called, where c = "InsertDeployment ?d"]], assumption)
        (use chk in \<open>simp only: chk split: if_splits; (blast | auto)\<close>, elim conjE, rule ref, assumption, simp only: chk split: if_splits, auto)
    then show "triple ?P (insert_deployment L root ?d) (\<lambda>_ w. hosting L M root rel (called before) (with_new s ?d) w \<and> fresh (sd_id ?d) s) ?E"
      by simp
    fix u :: unit
    have b: "sd_status ?b = DepBuilding" "sd_container_id ?b = None" "sd_project_id ?b = project_id" "sd_id ?b = sd_id ?d"
      by (simp_all add: new_deployment_def)
    have "triple (hosting L M root rel (called before) (with_new s ?d)) (and_then (update_deployment L root ?b) (\<lambda>_.
        build_and_start L C ?B (logged R) root p ?b)) ?Q ?E" if fr: "fresh (sd_id ?d) s"
    proof (rule triple_and_then)
      have intr: "\<not> rel \<Longrightarrow> deployed L C ?B root rel project_id s (Inl e) [] (with_new s ?d)" for e
        by (erule interrupted) (use fr in \<open>simp_all add: no_container_def new_deployment_def\<close>)
      show "triple (hosting L M root rel (called before) (with_new s ?d)) (update_deployment L root ?b)
          (\<lambda>_. hosting L M root rel (called before) (with_new s ?b)) ?E"
        by (rule triple_weaken [OF update_new_triple [OF steady_called fr b(4)]])
          (assumption, assumption, elim conjE, rule outcomeI [where cs = "[]"], simp, erule intr)
      show "triple (hosting L M root rel (called before) (with_new s ?b)) (build_and_start L C ?B (logged R) root p ?b) ?Q ?E" for u :: unit
        using fr by (intro build_and_start_triple [OF p known _ b(1-3)]) (simp add: new_deployment_def)
    qed
    then show "triple (\<lambda>w. hosting L M root rel (called before) (with_new s ?d) w \<and> fresh (sd_id ?d) s) (and_then (update_deployment L root ?b) (\<lambda>_.
        build_and_start L C ?B (logged R) root p ?b)) ?Q ?E"
      by (rule triple_pure)
  qed
qed

section \<open>Creating projects and stopping deployments\<close>

definition project_added :: "PlatformState \<Rightarrow> Project \<Rightarrow> PlatformState \<Rightarrow> bool" where
  "project_added s p s' \<longleftrightarrow> s' = s\<lparr>ps_projects := ps_projects s @ [p]\<rparr>
     \<and> sp_id p \<notin> sp_id ` set (ps_projects s) \<and> sp_name p \<notin> sp_name ` set (ps_projects s)
     \<and> sp_active_deployment p = None \<and> one_port (sp_server_command p)
     \<and> sp_name p \<noteq> [] \<and> length (sp_name p) \<le> 63"

lemma canonical_triple:
  "steady J \<Longrightarrow> triple (hosting L M root rel J s) (canonical_dir C p) (\<lambda>_. hosting L M root rel J s) (\<lambda>_. hosting L M root rel J s)"
  "steady J \<Longrightarrow> triple (hosting L M root rel J s) (canonical_file C p) (\<lambda>_. hosting L M root rel J s) (\<lambda>_. hosting L M root rel J s)"
  by (auto intro!: tripleI simp: canonical_dir_def canonical_file_def canonicalize_def io_simps hosting_tick split: option.splits if_splits)

lemma insert_project_triple:
  assumes "steady J" and p: "sp_active_deployment p = None" "one_port (sp_server_command p)" "sp_name p \<noteq> []" "length (sp_name p) \<le> 63"
    "sp_name p \<notin> sp_name ` set (ps_projects s)"
  shows "triple (hosting L M root rel J s) (and_then (insert_project L root p) (\<lambda>_. ret p))
    (\<lambda>p w. \<exists>s'. hosting L M root rel J s' w \<and> project_added s p s') (\<lambda>_. hosting L M root rel J s)"
proof (rule triple_and_then)
  have "list_ex (\<lambda>x. sp_id x = sp_id p) (ps_projects s) \<longleftrightarrow> sp_id p \<in> sp_id ` set (ps_projects s)"
    unfolding list_ex_iff image_iff by metis
  then have chk: "store_check L (InsertProject p) s = Inr t \<Longrightarrow> project_added s p t" for t
    using p by (auto simp: project_added_def split: if_splits)
  have "triple (hosting L M root rel J s) (run_store L root (InsertProject p))
      (\<lambda>_ w. \<exists>s'. hosting L M root rel J s' w \<and> project_added s p s') (\<lambda>_. hosting L M root rel J s)"
    by (rule triple_weaken [OF run_store_triple [OF assms(1), where c = "InsertProject p"]]) (use chk in blast)+
  then show "triple (hosting L M root rel J s) (insert_project L root p)
      (\<lambda>_ w. \<exists>s'. hosting L M root rel J s' w \<and> project_added s p s') (\<lambda>_. hosting L M root rel J s)" by simp
qed (rule triple_ret)

lemma create_project_triple:
  assumes "steady J"
  shows "triple (hosting L M root rel J s) (create_project L C root input)
    (\<lambda>p w. \<exists>s'. hosting L M root rel J s' w \<and> project_added s p s') (\<lambda>_. hosting L M root rel J s)"
    (is "triple ?P _ ?Q ?E")
proof -
  let ?name = "str_trim (in_name input)"
  have load: "triple ?P (load L root) (\<lambda>t w. ?P w \<and> t = s) ?E" by (rule triple_weaken [OF load_triple [OF assms]]) auto
  have name: "triple ?P (of_result (check_name ?name)) (\<lambda>_ w. ?P w \<and> ?name \<noteq> [] \<and> length ?name \<le> 63) ?E"
    by (auto intro!: tripleI simp: io_simps check_name_def split: if_splits)
  show ?thesis
    unfolding create_project_def Let_def
  proof (rule triple_and_then [OF name], rule triple_pure, elim conjE,
      rule triple_and_then [OF canonical_triple(1) [OF assms]], rule triple_and_then [OF canonical_triple(2) [OF assms]])
    fix src base assume n: "?name \<noteq> []" "length ?name \<le> 63"
    have new: "triple ?P (and_then uuid_new_v4 (\<lambda>i. and_then now_utc (\<lambda>now. and_then (insert_project L root (project i now)) (\<lambda>_. ret (project i now))))) ?Q ?E"
      if "\<And>i now. sp_active_deployment (project i now) = None \<and> one_port (sp_server_command (project i now)) \<and> sp_name (project i now) = ?name"
        and "\<forall>p\<in>set (ps_projects s). sp_name p \<noteq> ?name" for project
      by (intro triple_and_then [OF clock_triple(2) [OF assms]] triple_and_then [OF clock_triple(1) [OF assms]] insert_project_triple [OF assms])
        (use that n in auto)
    show "triple ?P (if \<not> one_port (in_server_command input) then fail (Message ''server command must contain exactly one {PORT} token'')
        else and_then (load L root) (\<lambda>state. if list_ex (\<lambda>p. sp_name p = ?name) (ps_projects state)
          then fail (Message (''project name already exists: '' @ ?name))
          else and_then uuid_new_v4 (\<lambda>i. and_then now_utc (\<lambda>now.
            and_then (insert_project L root \<lparr>sp_id = i, sp_name = ?name, sp_user_id = in_user_id input, sp_source_dir = src,
              sp_base_image = base, sp_server_command = in_server_command input, sp_created_at = now, sp_active_deployment = None\<rparr>)
            (\<lambda>_. ret \<lparr>sp_id = i, sp_name = ?name, sp_user_id = in_user_id input, sp_source_dir = src,
              sp_base_image = base, sp_server_command = in_server_command input, sp_created_at = now, sp_active_deployment = None\<rparr>))))) ?Q ?E"
      by (auto intro!: triple_failI triple_and_then [OF load] triple_pure new simp: list_ex_iff simp del: append.simps append_Cons)
  qed
qed

text \<open>The project of a stopped deployment forgets it.\<close>

definition cleared :: "StateDeployment \<Rightarrow> PlatformState \<Rightarrow> PlatformState" where
  "cleared d s = (case List.find (\<lambda>p. sp_id p = sd_project_id d) (ps_projects s) of
     Some p \<Rightarrow> if sp_active_deployment p = Some (sd_id d)
       then s\<lparr>ps_projects := replace_by sp_id (p\<lparr>sp_active_deployment := None\<rparr>) (ps_projects s)\<rparr> else s
   | None \<Rightarrow> s)"

text \<open>The ways a call of \<^verbatim>\<open>stop\<close> can end.\<close>

inductive stopped :: "bool \<Rightarrow> uuid \<Rightarrow> PlatformState \<Rightarrow> error + StateDeployment \<Rightarrow> runtime_call list \<Rightarrow> PlatformState \<Rightarrow> bool"
  for rel i s where
  stop_nothing: "(\<And>d. r = Inr d \<Longrightarrow> d \<in> set (ps_deployments s) \<and> sd_id d = i \<and> sd_status d \<in> {DepStopped, DepFailed}) \<Longrightarrow>
     stopped rel i s r [] s"
| stop_refused: "stopped rel i s (Inl e) [RtStop c (Inl e)] s"
| stop_unrecorded: "\<not> rel \<Longrightarrow> stopped rel i s (Inl e) [RtStop c (Inr ())] s"
| stop_recorded: "d \<in> set (ps_deployments s) \<Longrightarrow> sd_id d = i \<Longrightarrow> sd_container_id d = Some c \<Longrightarrow> d' = d\<lparr>sd_status := DepStopped\<rparr> \<Longrightarrow>
     s' = replaced d' s \<and> \<not> rel \<or> s' = cleared d' (replaced d' s) \<and> r = Inr d' \<Longrightarrow>
     stopped rel i s r [RtStop c (Inr ())] s'"

lemma clear_active_triple:
  assumes "steady J"
  shows "triple (hosting L M root rel J s) (clear_active L root d)
    (\<lambda>_ w. hosting L M root rel J (cleared d s) w \<or> hosting L M root rel J s w \<and> \<not> rel) (\<lambda>_ w. hosting L M root rel J s w \<and> \<not> rel)"
    (is "triple ?P _ ?Q ?E")
  unfolding clear_active_def
proof (rule triple_and_then [OF triple_try])
  let ?f = "List.find (\<lambda>p. sp_id p = sd_project_id d) (ps_projects s)"
  let ?R = "\<lambda>r w. ?P w \<and> (case r of Inr p \<Rightarrow> ?f = Some p | Inl _ \<Rightarrow> rel \<longrightarrow> ?f = None)"
  show "triple ?P (store_project L root (sd_project_id d)) (\<lambda>p. ?R (Inr p)) (\<lambda>e. ?R (Inl e))"
    by (rule triple_weaken [OF find_triple(2) [OF assms]]) auto
  fix found
  show "triple (?R found) (case found of Inl e \<Rightarrow> ret () | Inr project \<Rightarrow>
      if sp_active_deployment project = Some (sd_id d) then update_project L root (project\<lparr>sp_active_deployment := None\<rparr>) else ret ()) ?Q ?E"
  proof (cases found)
    case (Inl e)
    then show ?thesis by (auto intro!: triple_ret simp: cleared_def)
  next
    case (Inr p)
    have "triple ?P (update_project L root (p\<lparr>sp_active_deployment := None\<rparr>)) ?Q ?E"
      if "?f = Some p" "sp_active_deployment p = Some (sd_id d)"
    proof (rule triple_weaken [OF project_update_triple [OF assms]])
      show "sp_id (p\<lparr>sp_active_deployment := None\<rparr>) \<in> sp_id ` set (ps_projects s)" using that(1) by (auto simp: find_Some_iff)
    qed (use that in \<open>simp_all add: cleared_def\<close>)
    then show ?thesis using Inr by (auto intro!: triple_ret triple_pure simp: cleared_def)
  qed
qed

lemma service_stop_triple:
  "triple (hosting L M root rel (called before) s) (service_stop L (logged R) root i)
     (\<lambda>d w. \<exists>cs s'. hosting L M root rel (called (before @ cs)) s' w \<and> stopped rel i s (Inr d) cs s')
     (\<lambda>e w. \<exists>cs s'. hosting L M root rel (called (before @ cs)) s' w \<and> stopped rel i s (Inl e) cs s')"
    (is "triple ?P _ ?Q ?E")
  unfolding service_stop_def
proof (rule triple_and_then)
  let ?f = "List.find (\<lambda>d. sd_id d = i) (ps_deployments s)"
  have same: "\<exists>cs s'. hosting L M root rel (called (before @ cs)) s' w \<and> stopped rel i s r cs s'"
    if "?P w" "\<And>d. r = Inr d \<Longrightarrow> ?f = Some d \<and> sd_status d \<in> {DepStopped, DepFailed}" for r w
    by (intro exI [of _ "[]"] exI [of _ s] conjI stop_nothing) (use that in \<open>auto simp: find_Some_iff\<close>)
  show "triple ?P (store_deployment L root i) (\<lambda>d w. ?P w \<and> ?f = Some d) ?E"
    by (rule triple_weaken [OF find_triple(1) [OF steady_called]]) (auto intro: same)
  fix d :: StateDeployment
  let ?d = "d\<lparr>sd_status := DepStopped\<rparr>"
  have stop: "triple ?P (and_then (on_runtime (rt_stop (logged R) c)) (\<lambda>_. let stopped = ?d in
      and_then (update_deployment L root stopped) (\<lambda>_. and_then (clear_active L root stopped) (\<lambda>_. ret stopped)))) ?Q ?E"
    if f: "?f = Some d" and c: "sd_container_id d = Some c" for c
    unfolding Let_def
  proof (rule triple_and_then)
    let ?H = "hosting L M root rel (called (before @ [RtStop c (Inr ())]))"
    have d: "d \<in> set (ps_deployments s)" "sd_id d = i" using f by (auto simp: find_Some_iff)
    show "triple ?P (on_runtime (rt_stop (logged R) c)) (\<lambda>_. ?H s) ?E"
      by (rule triple_weaken [OF stop_triple]) (auto intro: stop_refused)
    have rec: "\<exists>cs s'. hosting L M root rel (called (before @ cs)) s' w \<and> stopped rel i s r cs s'"
      if "?H s' w" "s' = replaced ?d s \<and> \<not> rel \<or> s' = cleared ?d (replaced ?d s) \<and> r = Inr ?d" for r s' w
      using that(1) stop_recorded [OF d c refl that(2)] by blast
    fix u :: unit
    have upd: "triple (?H s) (update_deployment L root ?d) (\<lambda>_. ?H (replaced ?d s)) ?E"
      using d by (intro triple_weaken [OF update_triple [OF steady_called]]) (auto simp: fresh_def intro: stop_unrecorded)
    have clr: "triple (?H (replaced ?d s)) (clear_active L root ?d)
        (\<lambda>_ w. ?Q ?d w) ?E"
      by (rule triple_weaken [OF clear_active_triple [OF steady_called]]) (auto intro: rec)
    show "triple (?H s) (and_then (update_deployment L root ?d) (\<lambda>_. and_then (clear_active L root ?d) (\<lambda>_. ret ?d))) ?Q ?E"
      by (rule triple_and_then [OF upd], rule triple_and_then [OF clr], rule triple_ret)
  qed
  show "triple (\<lambda>w. ?P w \<and> ?f = Some d) (if sd_status d = DepStopped \<or> sd_status d = DepFailed then ret d
      else and_then (of_result (require_container L d)) (\<lambda>container_id. and_then (on_runtime (rt_stop (logged R) container_id)) (\<lambda>_. let stopped = ?d in
        and_then (update_deployment L root stopped) (\<lambda>_. and_then (clear_active L root stopped) (\<lambda>_. ret stopped))))) ?Q ?E"
  proof (rule triple_pure)
    assume f: "?f = Some d"
    have req: "triple ?P (of_result (require_container L d)) (\<lambda>c w. ?P w \<and> sd_container_id d = Some c) ?E"
      by (rule tripleI) (auto simp: io_simps require_container_def ok_or_def intro: same split: option.splits)
    show "triple ?P (if sd_status d = DepStopped \<or> sd_status d = DepFailed then ret d
      else and_then (of_result (require_container L d)) (\<lambda>container_id. and_then (on_runtime (rt_stop (logged R) container_id)) (\<lambda>_. let stopped = ?d in
        and_then (update_deployment L root stopped) (\<lambda>_. and_then (clear_active L root stopped) (\<lambda>_. ret stopped))))) ?Q ?E"
      by (auto intro!: triple_ret same triple_and_then [OF req] triple_pure stop [OF f] simp: f)
  qed
qed

section \<open>What runs\<close>

text \<open>The containers that were started and that the runtime has not been told to stop since.\<close>

fun track :: "runtime_call \<Rightarrow> uuid set \<Rightarrow> uuid set" where
  "track (RtStart im h c (Inr k)) A = insert (rc_id k) A"
| "track (RtStart im h c (Inl e)) A = A"
| "track (RtStop i answer) A = A - {i}"

definition left_running :: "runtime_call list \<Rightarrow> uuid set" where
  "left_running cs = fold track cs {}"

lemma left_running_append: "left_running (cs @ ds) = fold track ds (left_running cs)"
  by (simp add: left_running_def)

lemma left_running_stops:
  assumes "\<forall>c\<in>set ds. \<exists>i answer. c = RtStop i answer"
  shows "fold track ds A \<subseteq> {i \<in> A. \<forall>answer. RtStop i answer \<notin> set ds}"
  using assms
proof (induction ds arbitrary: A)
  case (Cons c ds)
  then obtain i answer where "c = RtStop i answer" by auto
  then show ?case using Cons.IH [of "A - {i}"] Cons.prems by fastforce
qed simp

lemma left_running_no_container: "no_container ds \<Longrightarrow> left_running (cs @ ds) \<subseteq> left_running cs"
  by (auto simp: no_container_def left_running_append)

definition recorded :: "PlatformState \<Rightarrow> uuid set" where
  "recorded s = {c. \<exists>d\<in>set (ps_deployments s). sd_status d = DepRunning \<and> sd_container_id d = Some c}"

text \<open>Names and identifiers are unique, and the active deployment of a project is a deployment of this project that has a
  container, and was not recorded as failed.  On a reliable host, only active deployments are recorded as running.\<close>

definition is_active :: "StateDeployment \<Rightarrow> PlatformState \<Rightarrow> bool" where
  "is_active d s \<longleftrightarrow> (\<exists>p\<in>set (ps_projects s). sp_id p = sd_project_id d \<and> sp_active_deployment p = Some (sd_id d))"

definition state_inv :: "bool \<Rightarrow> PlatformState \<Rightarrow> bool" where
  "state_inv rel s \<longleftrightarrow> distinct (map sp_id (ps_projects s)) \<and> distinct (map sp_name (ps_projects s)) \<and> distinct (map sd_id (ps_deployments s))
     \<and> (\<forall>p\<in>set (ps_projects s). \<forall>i. sp_active_deployment p = Some i \<longrightarrow> (\<exists>d\<in>set (ps_deployments s). sd_id d = i
          \<and> sd_project_id d = sp_id p \<and> sd_container_id d \<noteq> None \<and> sd_status d \<in> {DepRunning, DepStopped}))
     \<and> (rel \<longrightarrow> (\<forall>d\<in>set (ps_deployments s). sd_status d = DepRunning \<longrightarrow> is_active d s))"

definition service_inv :: "bool \<Rightarrow> PlatformState \<Rightarrow> runtime_call list \<Rightarrow> bool" where
  "service_inv rel s cs \<longleftrightarrow> state_inv rel s \<and> left_running cs \<subseteq> recorded s"

lemma state_inv_active_known: "state_inv rel s \<Longrightarrow> active_known s"
  by (force simp: state_inv_def active_known_def fresh_def)

lemma state_inv_added: "state_inv rel s \<Longrightarrow> project_added s p s' \<Longrightarrow> state_inv rel s' \<and> recorded s' = recorded s"
  by (fastforce simp: state_inv_def project_added_def recorded_def is_active_def)

lemma state_inv_new:
  "state_inv rel s \<Longrightarrow> fresh (sd_id d) s \<Longrightarrow> sd_status d \<noteq> DepRunning \<Longrightarrow>
     state_inv rel (with_new s d) \<and> recorded (with_new s d) = recorded s"
  by (auto simp: state_inv_def fresh_def recorded_def is_active_def)

text \<open>A record that is kept or that goes from running to stopped.\<close>

definition after :: "StateDeployment \<Rightarrow> StateDeployment \<Rightarrow> bool" where
  "after x y \<longleftrightarrow> sd_id y = sd_id x \<and> sd_project_id y = sd_project_id x \<and> sd_container_id y = sd_container_id x
     \<and> (sd_status y = sd_status x \<or> sd_status y = DepStopped)"

lemma replaced_map:
  assumes "distinct (map sd_id (ps_deployments s))" and "d \<in> set (ps_deployments s)" and "\<And>x. sd_id (f x) = sd_id x"
  shows "ps_deployments (replaced (f d) s) = map (\<lambda>x. if sd_id x = sd_id d then f x else x) (ps_deployments s)"
proof -
  have "x = d" if "x \<in> set (ps_deployments s)" "sd_id x = sd_id d" for x
    using that assms(1,2) by (metis (mono_tags) distinct_map inj_onD)
  then show ?thesis unfolding replaced_def
    by (simp add: replace_by_map [OF assms(1)] assms(3)) metis
qed

lemma find_unique: "distinct (map key xs) \<Longrightarrow> x \<in> set xs \<Longrightarrow> List.find (\<lambda>y. key y = key x) xs = Some x"
  by (induction xs) auto

lemma superseded_effect:
  assumes dist: "distinct (map sd_id (ps_deployments s))" and sup: "superseded L rel active s cs s1"
  obtains f where "ps_deployments s1 = map f (ps_deployments s)" "\<And>x. after x (f x)"
    "\<And>x. rel \<Longrightarrow> x \<in> set (ps_deployments s) \<Longrightarrow> active = Some (sd_id x) \<Longrightarrow> sd_status (f x) \<noteq> DepRunning"
    "\<And>x c. x \<in> set (ps_deployments s) \<Longrightarrow> sd_status x = DepRunning \<Longrightarrow> sd_container_id x = Some c \<Longrightarrow> sd_status (f x) \<noteq> DepRunning \<Longrightarrow>
       \<exists>answer. RtStop c answer \<in> set cs"
    "\<forall>c\<in>set cs. \<exists>i answer. c = RtStop i answer"
proof (cases "running_previous active s")
  case None
  have "sd_status x \<noteq> DepRunning" if "x \<in> set (ps_deployments s)" "active = Some (sd_id x)" for x
  proof -
    have "List.find (\<lambda>d. sd_id d = sd_id x) (ps_deployments s) = Some x" by (rule find_unique [OF dist that(1)])
    then show ?thesis using None that(2) by (auto simp: running_previous_def split: if_splits)
  qed
  then show thesis using that [of id] sup None by (simp add: superseded_def after_def)
next
  case (Some d)
  then have d: "d \<in> set (ps_deployments s)" "active = Some (sd_id d)" "sd_status d = DepRunning"
    by (auto simp: running_previous_def find_Some_iff split: option.splits if_splits)
  have uniq: "x = d" if "x \<in> set (ps_deployments s)" "sd_id x = sd_id d" for x
    using that d(1) dist by (metis (mono_tags) distinct_map inj_onD)
  note fin = that
  have keep: thesis if "cs = [] \<or> (\<exists>c answer. cs = [RtStop c answer])" "s1 = s" "\<not> rel"
    using that(1,2,3) by (intro fin [of id]) (auto simp: after_def)
  from sup Some consider "\<not> rel" "s1 = s" "cs = [] \<or> (\<exists>c answer. cs = [RtStop c answer])"
    | answer where "s1 = replaced (retired L answer d) s" "cs = (case sd_container_id d of Some c \<Rightarrow> [RtStop c answer] | None \<Rightarrow> [])"
    by (auto simp: superseded_def split: option.splits)
  then show thesis
  proof cases
    case 1
    then show thesis by (intro keep) simp_all
  next
    case 2
    let ?f = "\<lambda>x. if sd_id x = sd_id d then retired L answer x else x"
    have "ps_deployments s1 = map ?f (ps_deployments s)"
      unfolding 2(1) by (rule replaced_map [OF dist d(1)]) (simp add: retired_def)
    moreover have "after x (?f x)" for x by (simp add: after_def retired_def)
    moreover have "\<exists>a. RtStop c a \<in> set cs" if "x \<in> set (ps_deployments s)" "sd_status x = DepRunning" "sd_container_id x = Some c"
      "sd_status (?f x) \<noteq> DepRunning" for x c
    proof -
      have "x = d" using that(2,4) by (intro uniq [OF that(1)]) (auto split: if_splits)
      then show ?thesis using that(3) 2(2) by simp
    qed
    ultimately show thesis using d(2) 2(2) by (intro that [of ?f]) (auto simp: retired_def split: option.splits)
  qed
qed

lemma superseded_inv:
  assumes inv: "service_inv rel s before" and sup: "superseded L rel (sp_active_deployment p) s cs s1"
    and p: "p \<in> set (ps_projects s)" and d: "fresh (sd_id d) s" "runs_in p d im c"
  shows "service_inv False (with_new s1 d) (before @ RtStart im h cmd (Inr c) # cs)"
    and "service_inv rel ((with_new s1 d)\<lparr>ps_projects := replace_by sp_id (p\<lparr>sp_active_deployment := Some (sd_id d)\<rparr>) (ps_projects s)\<rparr>)
      (before @ RtStart im h cmd (Inr c) # cs)"
proof -
  have dist: "distinct (map sd_id (ps_deployments s))" "distinct (map sp_id (ps_projects s))" "distinct (map sp_name (ps_projects s))"
    using inv by (auto simp: service_inv_def state_inv_def)
  obtain f where f: "ps_deployments s1 = map f (ps_deployments s)" "\<And>x. after x (f x)"
    and off: "\<And>x. rel \<Longrightarrow> x \<in> set (ps_deployments s) \<Longrightarrow> sp_active_deployment p = Some (sd_id x) \<Longrightarrow> sd_status (f x) \<noteq> DepRunning"
    and told: "\<And>x k. x \<in> set (ps_deployments s) \<Longrightarrow> sd_status x = DepRunning \<Longrightarrow> sd_container_id x = Some k \<Longrightarrow>
       sd_status (f x) \<noteq> DepRunning \<Longrightarrow> \<exists>answer. RtStop k answer \<in> set cs"
    and stops: "\<forall>c\<in>set cs. \<exists>i answer. c = RtStop i answer"
    using superseded_effect [OF dist(1) sup] by blast
  note ps = superseded_projects [OF sup]
  have ids: "sd_id (f x) = sd_id x" "sd_project_id (f x) = sd_project_id x" "sd_container_id (f x) = sd_container_id x"
    "sd_status (f x) = sd_status x \<or> sd_status (f x) = DepStopped" for x using f(2) [of x] by (auto simp: after_def)
  have run: "left_running (before @ RtStart im h cmd (Inr c) # cs) \<subseteq> recorded (with_new s1 d)"
  proof
    fix k assume "k \<in> left_running (before @ RtStart im h cmd (Inr c) # cs)"
    then have k: "k \<in> insert (rc_id c) (left_running before)" "\<forall>answer. RtStop k answer \<notin> set cs"
      using left_running_stops [OF stops] by (auto simp: left_running_append)
    show "k \<in> recorded (with_new s1 d)"
    proof (cases "k = rc_id c")
      case True
      then show ?thesis using d(2) by (auto simp: recorded_def runs_in_def)
    next
      case False
      then obtain x where x: "x \<in> set (ps_deployments s)" "sd_status x = DepRunning" "sd_container_id x = Some k"
        using k(1) inv by (auto simp: service_inv_def recorded_def)
      then have "sd_status (f x) = DepRunning" using told k(2) by blast
      then show ?thesis using x ids(3) [of x] by (auto simp: recorded_def f(1))
    qed
  qed
  have ds: "distinct (map sd_id (ps_deployments (with_new s1 d)))" using dist(1) d(1) by (simp add: f(1) comp_def ids(1) fresh_def)
  have known: "\<exists>y\<in>set (ps_deployments (with_new s1 d)). sd_id y = i \<and> sd_project_id y = sp_id q
      \<and> sd_container_id y \<noteq> None \<and> sd_status y \<in> {DepRunning, DepStopped}"
    if q: "q \<in> set (ps_projects s)" "sp_active_deployment q = Some i" for q i
  proof -
    obtain x where x: "x \<in> set (ps_deployments s)" "sd_id x = i" "sd_project_id x = sp_id q" "sd_container_id x \<noteq> None"
      "sd_status x \<in> {DepRunning, DepStopped}" using inv q unfolding service_inv_def state_inv_def by blast
    then show ?thesis using ids [of x] by (intro bexI [of _ "f x"]) (auto simp: f(1))
  qed
  show "service_inv False (with_new s1 d) (before @ RtStart im h cmd (Inr c) # cs)"
    using run ds dist known by (auto simp: service_inv_def state_inv_def ps)
  let ?p = "p\<lparr>sp_active_deployment := Some (sd_id d)\<rparr>"
  let ?s = "(with_new s1 d)\<lparr>ps_projects := replace_by sp_id ?p (ps_projects s)\<rparr>"
  let ?g = "\<lambda>x. if sp_id x = sp_id p then ?p else x"
  have uniq: "x = p" if "x \<in> set (ps_projects s)" "sp_id x = sp_id p" for x
    using that p dist(2) by (metis (mono_tags) distinct_map inj_onD)
  have qs: "ps_projects ?s = map ?g (ps_projects s)" using replace_by_map [OF dist(2), of ?p] by simp
  have "map sp_id (ps_projects ?s) = map sp_id (ps_projects s)" "map sp_name (ps_projects ?s) = map sp_name (ps_projects s)"
    unfolding qs using uniq by auto
  then have keys: "distinct (map sp_id (ps_projects ?s))" "distinct (map sp_name (ps_projects ?s))" using dist by metis+
  have act: "\<exists>y\<in>set (ps_deployments ?s). sd_id y = i \<and> sd_project_id y = sp_id q
      \<and> sd_container_id y \<noteq> None \<and> sd_status y \<in> {DepRunning, DepStopped}"
    if "q \<in> set (ps_projects ?s)" "sp_active_deployment q = Some i" for q i
    using that known d(2) unfolding qs by (auto simp: runs_in_def split: if_splits)
  have "is_active y ?s" if rel and y: "y \<in> set (ps_deployments ?s)" "sd_status y = DepRunning" for y
  proof (cases "y = d")
    case True
    have "?g p \<in> set (ps_projects ?s)" using p by (auto simp: qs)
    then show ?thesis using True d(2) by (auto simp: is_active_def runs_in_def intro!: bexI [of _ "?g p"])
  next
    case False
    then obtain x where x: "x \<in> set (ps_deployments s)" "y = f x" using y(1) by (auto simp: f(1))
    then have x': "sd_status x = DepRunning" "sp_active_deployment p \<noteq> Some (sd_id x)" using y(2) ids(4) [of x] off [OF \<open>rel\<close>] by auto
    then obtain q where q: "q \<in> set (ps_projects s)" "sp_id q = sd_project_id x" "sp_active_deployment q = Some (sd_id x)"
      using inv x(1) \<open>rel\<close> unfolding service_inv_def state_inv_def is_active_def by blast
    then have "sp_id q \<noteq> sp_id p" using uniq [of q] x'(2) by metis
    then have "q \<in> set (ps_projects ?s)" using q(1) by (auto simp: qs image_iff)
    then show ?thesis using q by (auto simp: is_active_def x(2) ids)
  qed
  moreover have "recorded ?s = recorded (with_new s1 d)" by (simp add: recorded_def)
  ultimately show "service_inv rel ?s (before @ RtStart im h cmd (Inr c) # cs)"
    using run ds keys act unfolding service_inv_def state_inv_def by simp
qed

lemma deployed_inv:
  assumes inv: "service_inv rel s before" and run: "deployed L C builder root rel project_id s r cs s'"
  shows "service_inv rel s' (before @ cs)"
  using run
proof cases
  case (interrupted d)
  then show ?thesis using inv state_inv_new [of rel s d] left_running_no_container [of cs before] by (auto simp: service_inv_def)
next
  case (failed p d msg)
  then show ?thesis using inv state_inv_new [of rel s d] left_running_no_container [OF deploy_failure_no_container, of L C builder root p "sd_id d" msg cs before]
    by (auto simp: service_inv_def)
next
  case (unswitched p d im c ds s1)
  then show ?thesis using superseded_inv(1) [OF inv unswitched(9,5,7,8)] by simp
next
  case (switched p d im c ds s1)
  then show ?thesis using superseded_inv(2) [OF inv switched(8,4,6,7)] by simp
qed (use inv in simp)

lemma cleared_effect:
  assumes "distinct (map sp_id (ps_projects s))"
  shows "ps_deployments (cleared d s) = ps_deployments s"
    and "ps_projects (cleared d s) = map (\<lambda>p. if sp_id p = sd_project_id d \<and> sp_active_deployment p = Some (sd_id d)
      then p\<lparr>sp_active_deployment := None\<rparr> else p) (ps_projects s)"
proof -
  show "ps_deployments (cleared d s) = ps_deployments s" by (simp add: cleared_def split: option.split)
  show "ps_projects (cleared d s) = map (\<lambda>p. if sp_id p = sd_project_id d \<and> sp_active_deployment p = Some (sd_id d)
      then p\<lparr>sp_active_deployment := None\<rparr> else p) (ps_projects s)" (is "_ = map ?f _")
  proof (cases "List.find (\<lambda>p. sp_id p = sd_project_id d) (ps_projects s)")
    case None
    then have "map ?f (ps_projects s) = ps_projects s" by (intro map_idI) (auto simp: find_None_iff)
    then show ?thesis using None by (simp add: cleared_def)
  next
    case (Some p)
    then have p: "p \<in> set (ps_projects s)" "sp_id p = sd_project_id d" by (auto simp: find_Some_iff)
    have uniq: "x = p" if "x \<in> set (ps_projects s)" "sp_id x = sd_project_id d" for x
      using that p assms by (metis (mono_tags) distinct_map inj_onD)
    show ?thesis
    proof (cases "sp_active_deployment p = Some (sd_id d)")
      case True
      then have "map ?f (ps_projects s) = map (\<lambda>x. if sp_id x = sd_project_id d then p\<lparr>sp_active_deployment := None\<rparr> else x) (ps_projects s)"
        by (intro map_cong) (auto dest: uniq)
      then show ?thesis using Some True p(2) by (simp add: cleared_def replace_by_map [OF assms])
    next
      case False
      then have "map ?f (ps_projects s) = ps_projects s" by (intro map_idI) (auto dest: uniq)
      then show ?thesis using Some False by (simp add: cleared_def)
    qed
  qed
qed

lemma stopped_inv:
  assumes inv: "service_inv rel s before" and run: "stopped rel i s r cs s'"
  shows "service_inv rel s' (before @ cs)"
  using run
proof cases
  case (stop_recorded d c d')
  have dist: "distinct (map sd_id (ps_deployments s))" "distinct (map sp_id (ps_projects s))" "distinct (map sp_name (ps_projects s))"
    using inv by (auto simp: service_inv_def state_inv_def)
  let ?f = "\<lambda>x. if sd_id x = sd_id d then x\<lparr>sd_status := DepStopped\<rparr> else x" and ?s1 = "replaced d' s"
  let ?g = "\<lambda>p. if sp_id p = sd_project_id d' \<and> sp_active_deployment p = Some (sd_id d') then p\<lparr>sp_active_deployment := None\<rparr> else p"
  have ds: "ps_deployments ?s1 = map ?f (ps_deployments s)"
    unfolding stop_recorded(5) by (rule replaced_map [OF dist(1) stop_recorded(2)]) simp
  have uniq: "x = d" if "x \<in> set (ps_deployments s)" "sd_id x = sd_id d" for x
    using that stop_recorded(2) dist(1) by (metis (mono_tags) distinct_map inj_onD)
  have ids: "map sd_id (ps_deployments ?s1) = map sd_id (ps_deployments s)" by (simp add: ds)
  have run: "left_running (before @ [RtStop c (Inr ())]) \<subseteq> recorded ?s1"
  proof
    fix k assume "k \<in> left_running (before @ [RtStop c (Inr ())])"
    then have k: "k \<in> left_running before" "k \<noteq> c" by (auto simp: left_running_append)
    then obtain x where x: "x \<in> set (ps_deployments s)" "sd_status x = DepRunning" "sd_container_id x = Some k"
      using inv by (auto simp: service_inv_def recorded_def)
    then have "sd_id x \<noteq> sd_id d" using uniq [of x] k(2) stop_recorded(4) by (metis option.inject)
    then have "?f x = x" by simp
    then show "k \<in> recorded ?s1" using x by (force simp: recorded_def ds)
  qed
  have known: "\<exists>y\<in>set (ps_deployments ?s1). sd_id y = j \<and> sd_project_id y = sp_id q
      \<and> sd_container_id y \<noteq> None \<and> sd_status y \<in> {DepRunning, DepStopped}"
    if q: "q \<in> set (ps_projects s)" "sp_active_deployment q = Some j" for q j
  proof -
    obtain x where x: "x \<in> set (ps_deployments s)" "sd_id x = j" "sd_project_id x = sp_id q" "sd_container_id x \<noteq> None"
      "sd_status x \<in> {DepRunning, DepStopped}" using inv q unfolding service_inv_def state_inv_def by blast
    then show ?thesis by (intro bexI [of _ "?f x"]) (auto simp: ds)
  qed
  from stop_recorded(6) show ?thesis
  proof
    assume "s' = ?s1 \<and> \<not> rel"
    then show ?thesis using run dist ids known unfolding stop_recorded(1) service_inv_def state_inv_def by simp
  next
    assume s': "s' = cleared d' ?s1 \<and> r = Inr d'"
    have ps: "ps_projects s' = map ?g (ps_projects s)" and ds': "ps_deployments s' = ps_deployments ?s1"
      using cleared_effect [of ?s1 d'] dist(2) s' by simp_all
    have keys: "map sp_id (ps_projects s') = map sp_id (ps_projects s)" "map sp_name (ps_projects s') = map sp_name (ps_projects s)"
      by (simp_all add: ps)
    have "is_active y s'" if rel and y: "y \<in> set (ps_deployments s')" "sd_status y = DepRunning" for y
    proof -
      have y': "y \<in> set (ps_deployments s)" "sd_id y \<noteq> sd_id d'" using y unfolding ds' ds by (auto simp: stop_recorded(5) split: if_splits)
      then obtain q where q: "q \<in> set (ps_projects s)" "sp_id q = sd_project_id y" "sp_active_deployment q = Some (sd_id y)"
        using inv y(2) \<open>rel\<close> unfolding service_inv_def state_inv_def is_active_def by blast
      have "?g q = q" using y'(2) q(3) by simp
      moreover have "?g q \<in> set (ps_projects s')" using q(1) unfolding ps set_map by (rule imageI)
      ultimately have "q \<in> set (ps_projects s')" by (simp only:)
      then show ?thesis using q by (auto simp: is_active_def)
    qed
    moreover have "\<exists>y\<in>set (ps_deployments s'). sd_id y = j \<and> sd_project_id y = sp_id q
      \<and> sd_container_id y \<noteq> None \<and> sd_status y \<in> {DepRunning, DepStopped}"
      if q: "q \<in> set (ps_projects s')" "sp_active_deployment q = Some j" for q j
      using q known unfolding ds' ps by (auto split: if_splits)
    moreover have "recorded s' = recorded ?s1" by (simp add: recorded_def ds')
    ultimately show ?thesis using run dist ids unfolding stop_recorded(1) service_inv_def state_inv_def keys ds' by simp
  qed
qed (use inv in \<open>auto simp: service_inv_def left_running_append\<close>)

datatype ServiceCall = CreateCall CreateProjectInput | DeployCall uuid | StopCall uuid

definition service_call :: "host_lib \<Rightarrow> canonicalizer \<Rightarrow> minidock_images \<Rightarrow> 'r Runtime \<Rightarrow> string \<Rightarrow> ServiceCall \<Rightarrow>
   ('r, 'z) platform_world_scheme \<Rightarrow> ('r, 'z) platform_world_scheme" where
  "service_call L C M R root c w =
     (case c of
        CreateCall input \<Rightarrow> snd (create_project L C root input w)
      | DeployCall i \<Rightarrow> snd (deploy L C (build_deployment_image L M) R root i w)
      | StopCall i \<Rightarrow> snd (service_stop L R root i w))"

definition served :: "host_lib \<Rightarrow> minidock_images \<Rightarrow> string \<Rightarrow> bool \<Rightarrow> ('r \<times> runtime_call list, 'z) platform_world_scheme \<Rightarrow> bool" where
  "served L M root rel w \<longleftrightarrow> (\<exists>s cs. hosting L M root rel (called cs) s w \<and> service_inv rel s cs)"

lemma triple_snd: "triple P m (\<lambda>_. Q) (\<lambda>_. Q) \<Longrightarrow> P w \<Longrightarrow> Q (snd (m w))"
  by (cases "m w"; cases "fst (m w)") (auto dest: triple_Inr triple_Inl)

lemma service_call_keeps:
  fixes w :: "('r \<times> runtime_call list, 'z) platform_world_scheme"
  assumes "served L M root rel w"
  shows "served L M root rel (service_call L C M (logged R) root c w)"
proof -
  obtain s cs where h: "hosting L M root rel (called cs) s w" and inv: "service_inv rel s cs" using assms unfolding served_def by blast
  let ?ok = "served L M root rel :: ('r \<times> runtime_call list, 'z) platform_world_scheme \<Rightarrow> bool"
  have inv': "state_inv rel s" using inv by (simp add: service_inv_def)
  have added: "project_added s p s' \<Longrightarrow> service_inv rel s' cs" for p s'
    using state_inv_added [OF inv'] inv by (auto simp: service_inv_def)
  have new: "triple (hosting L M root rel (called cs) s) (create_project L C root input) (\<lambda>_. ?ok) (\<lambda>_. ?ok)" for input
    by (rule triple_weaken [OF create_project_triple [OF steady_called]])
      (use inv added in \<open>unfold served_def, blast+\<close>)
  have dep: "triple (hosting L M root rel (called cs) s) (deploy L C (build_deployment_image L M) (logged R) root i) (\<lambda>_. ?ok) (\<lambda>_. ?ok)" for i
    by (rule triple_weaken [OF deploy_triple [OF state_inv_active_known [OF inv']]])
      (use deployed_inv [OF inv] in \<open>unfold served_def outcome_def, blast+\<close>)
  have stop: "triple (hosting L M root rel (called cs) s) (service_stop L (logged R) root i) (\<lambda>_. ?ok) (\<lambda>_. ?ok)" for i
    by (rule triple_weaken [OF service_stop_triple]) (use stopped_inv [OF inv] in \<open>unfold served_def, blast+\<close>)
  show ?thesis unfolding service_call_def
    by (cases c) (simp_all add: triple_snd [OF new h] triple_snd [OF dep h] triple_snd [OF stop h])
qed

lemma service_calls_keep:
  "served L M root rel w \<Longrightarrow> served L M root rel (fold (service_call L C M (logged R) root) calls w)"
  by (induction calls arbitrary: w) (simp_all add: service_call_keeps)

section \<open>A host for the witnesses\<close>

text \<open>A printer of states that can be read back: the state's number in unary.\<close>

instance Framework :: countable by countable_datatype
instance DeploymentStatus :: countable by countable_datatype

definition name_code :: "string \<Rightarrow> nat list" where
  "name_code = map of_char"

lemma name_code_inj: "name_code a = name_code b \<longleftrightarrow> a = b"
  unfolding name_code_def by (rule inj_map_eq_map) (auto simp: inj_def)

definition project_code :: "Project \<Rightarrow> nat" where
  "project_code p = to_nat (unat (sp_id p), name_code (sp_name p), map_option unat (sp_user_id p), name_code (sp_source_dir p),
     name_code (sp_base_image p), map name_code (sp_server_command p), sp_created_at p, map_option unat (sp_active_deployment p))"

definition deployment_code :: "StateDeployment \<Rightarrow> nat" where
  "deployment_code d = to_nat ((unat (sd_id d), unat (sd_project_id d), sd_framework d, sd_status d, map_option name_code (sd_image_path d)),
     (map_option unat (sd_container_id d), map_option unat (sd_port d), map_option name_code (sd_url d), sd_created_at d),
     (sd_finished_at d, map_option name_code (sd_error d), map_option name_code (sd_commit_sha d), map_option name_code (sd_target d)))"

definition state_code :: "PlatformState \<Rightarrow> nat" where
  "state_code s = to_nat (unat (ps_version s), map project_code (ps_projects s), map deployment_code (ps_deployments s))"

lemma map_option_code: "inj f \<Longrightarrow> map_option f a = map_option f b \<longleftrightarrow> a = b"
  by (cases a; cases b) (auto dest: injD)

lemma inj_codes: "inj name_code" "inj (unat :: ('a :: len) word \<Rightarrow> nat)"
  by (auto simp: inj_def name_code_inj word_unat_eq_iff)

lemma inj_project_code: "inj project_code"
proof (rule injI)
  fix p q assume "project_code p = project_code q"
  then show "p = q"
    by (cases p; cases q) (simp add: project_code_def map_option_code [OF inj_codes(1)] map_option_code [OF inj_codes(2)]
        name_code_inj inj_map_eq_map [OF inj_codes(1)] word_unat_eq_iff [symmetric])
qed

lemma inj_deployment_code: "inj deployment_code"
proof (rule injI)
  fix p q assume "deployment_code p = deployment_code q"
  then show "p = q"
    by (cases p; cases q) (simp add: deployment_code_def map_option_code [OF inj_codes(1)] map_option_code [OF inj_codes(2)] word_unat_eq_iff [symmetric])
qed

lemma inj_state_code: "inj state_code"
proof (rule injI)
  fix s t assume "state_code s = state_code t"
  then show "s = t"
    by (cases s; cases t) (simp add: state_code_def inj_map_eq_map [OF inj_project_code] inj_map_eq_map [OF inj_deployment_code] word_unat_eq_iff [symmetric])
qed

definition unary_lib :: host_lib where
  "unary_lib = \<lparr>hl_to_json = (\<lambda>s. Some (replicate (state_code s) CHR ''1'')), hl_partial_json = (\<lambda>_. []),
     hl_from_json = (\<lambda>text. Some (inv state_code (length text))), hl_written = id,
     hl_uuid_str = (\<lambda>u. show_nat (unat u)), hl_simple = (\<lambda>u. show_nat (unat u)),
     hl_alternate = (\<lambda>_. ''error''), hl_to_string = (\<lambda>_. ''error'')\<rparr>"

definition demo_images :: minidock_images where
  "demo_images = \<lparr>mi_extract_rootfs = (\<lambda>_ _ target fs. (fs(target @ ''/bin/sh'' \<mapsto> ''elf''), True)),
     mi_build_image = (\<lambda>_ _ img fs. (fs(img \<mapsto> ''tar''), True)), mi_source_bytes = (\<lambda>_ _. Some ''<html>'')\<rparr>"

lemma host_ok_demo: "host_ok unary_lib demo_images"
proof -
  have "normal_component (show_nat n)" for n
    using show_nat_not_Nil [of n] show_nat_digits [of _ n]
    by (fastforce simp: normal_component_def is_ascii_digit_def)
  moreover have "codec unary_lib" using inv_f_f [OF inj_state_code] by (simp add: codec_def unary_lib_def)
  moreover have "contained demo_images" by (simp add: contained_def demo_images_def is_under_def str_starts_with_def)
  ultimately show ?thesis by (simp add: host_ok_def unary_lib_def)
qed

definition demo_canon :: canonicalizer where
  "demo_canon n path = (if path = ''/b'' then Some (''/b'', RegularFile (Some ''tar''))
     else Some (path, Directory True [(''index.html'', RegularFile (Some ''<html>''))]))"

text \<open>A runtime that numbers its containers and keeps the ones that run.\<close>

definition demo_runtime :: "uuid list Runtime" where
  "demo_runtime = \<lparr>start_static = (\<lambda>_ _ _ cs. let i = of_nat (Suc (length cs)) in
       (Inr \<lparr>rc_id = i, rc_port = 8080, rc_url = ''http://127.0.0.1:8080''\<rparr>, i # cs)),
     rt_stop = (\<lambda>i cs. (Inr (), removeAll i cs)), rt_logs = (\<lambda>_ _. Inr [])\<rparr>"

definition demo_platform :: "PlatformState \<Rightarrow> (uuid list \<times> runtime_call list) platform_world" where
  "demo_platform s = \<lparr>env = demo_env, tick = 0, db = empty_db, redis_log = [],
     disk = [state_path ''/r'' \<mapsto> replicate (state_code s) CHR ''1''], stat_fault = (\<lambda>_. False), runtime = ([], [])\<rparr>"

lemma readable_demo: "readable unary_lib ''/r'' (demo_platform s) s" "reliable unary_lib (demo_platform s)"
  using inv_f_f [OF inj_state_code]
  by (simp_all add: readable_def reliable_def demo_platform_def store_view_def unary_lib_def demo_env_def)

section \<open>Claims\<close>



text \<open>C38. What runs.  On a host that starts with no state file and whose \<^verbatim>\<open>Path::exists\<close> does not fail, after any sequence
  of calls that create projects, deploy them and stop deployments, whichever other calls of the file system fail and
  whatever the builder, the runtime and the source directories do, the state can be read; project names are unique; a
  container that was started and that the runtime has not been told to stop since is the container of a deployment
  that is recorded as running; and the active deployment of a project is a deployment of this project that has a container and is
  recorded as running or stopped.  If, besides, no call of the file system fails and every state can be printed,
  then a deployment that is recorded as running is the active one of its project, so that the containers that are
  left running are those of active deployments.\<close>

theorem only_active_runs:
  fixes w :: "('r \<times> runtime_call list, 'z) platform_world_scheme"
  assumes "host_ok L M" and "\<And>n. \<not> stat_fault w n" and "disk w (state_path root) = None" and "snd (runtime w) = []"
  shows "let w' = fold (service_call L C M (logged R) root) calls w
    in \<exists>t. readable L root w' t \<and> distinct (map sp_name (ps_projects t))
      \<and> (\<forall>c\<in>left_running (snd (runtime w')). \<exists>d\<in>set (ps_deployments t). sd_container_id d = Some c \<and> sd_status d = DepRunning
           \<and> (reliable L w \<longrightarrow> is_active d t))
      \<and> (\<forall>p\<in>set (ps_projects t). \<forall>i. sp_active_deployment p = Some i \<longrightarrow> (\<exists>d\<in>set (ps_deployments t). sd_id d = i
           \<and> sd_project_id d = sp_id p \<and> sd_container_id d \<noteq> None \<and> sd_status d \<in> {DepRunning, DepStopped}))
      \<and> (reliable L w \<longrightarrow> (\<forall>d\<in>set (ps_deployments t). sd_status d = DepRunning \<longrightarrow> is_active d t))"
proof -
  have "hosting L M root (reliable L w) (called []) empty_state w"
    using assms by (simp add: hosting_def readable_def store_view_def called_def)
  moreover have "service_inv (reliable L w) empty_state []"
    by (simp add: service_inv_def state_inv_def empty_state_def left_running_def)
  ultimately have "served L M root (reliable L w) w" unfolding served_def by blast
  from service_calls_keep [OF this] obtain t cs
    where t: "hosting L M root (reliable L w) (called cs) t (fold (service_call L C M (logged R) root) calls w)"
      "service_inv (reliable L w) t cs" unfolding served_def by blast
  have cs: "snd (runtime (fold (service_call L C M (logged R) root) calls w)) = cs" using t(1) by (simp add: hosting_def called_def)
  have "\<exists>d\<in>set (ps_deployments t). sd_container_id d = Some c \<and> sd_status d = DepRunning \<and> (reliable L w \<longrightarrow> is_active d t)"
    if "c \<in> left_running cs" for c
    using t(2) that unfolding service_inv_def recorded_def state_inv_def by blast
  then show ?thesis using t unfolding Let_def cs hosting_def service_inv_def state_inv_def by blast
qed

theorem only_active_runs_witness:
  "let w' = fold (service_call unary_lib demo_canon demo_images (logged demo_runtime) ''/r'')
       [CreateCall \<lparr>in_name = ''site'', in_source_dir = ''/s'', in_base_image = ''/b'', in_server_command = [''{PORT}''],
          in_user_id = None\<rparr>, DeployCall 1, DeployCall 1, StopCall 2]
       ((demo_platform empty_state)\<lparr>disk := Map.empty\<rparr>)
   in \<exists>t. readable unary_lib ''/r'' w' t
      \<and> (\<forall>c\<in>left_running (snd (runtime w')). \<exists>d\<in>set (ps_deployments t). sd_container_id d = Some c \<and> is_active d t)"
proof -
  let ?w = "(demo_platform empty_state)\<lparr>disk := Map.empty\<rparr>"
  have w: "\<not> stat_fault ?w n" "disk ?w (state_path ''/r'') = None" "snd (runtime ?w) = []" "reliable unary_lib ?w" for n
    using readable_demo(2) [of empty_state] by (simp_all add: demo_platform_def reliable_def)
  let ?calls = "[CreateCall \<lparr>in_name = ''site'', in_source_dir = ''/s'', in_base_image = ''/b'', in_server_command = [''{PORT}''],
    in_user_id = None\<rparr>, DeployCall 1, DeployCall 1, StopCall 2]"
  from only_active_runs [OF host_ok_demo w(1-3), where C = demo_canon and R = demo_runtime and calls = ?calls] w(4)
  show ?thesis unfolding Let_def by blast
qed

text \<open>Elapsed time does not run backwards and \<^verbatim>\<open>sleep\<close> waits at least as long as it is told.\<close>

definition clock_runs :: "'m minidock \<Rightarrow> bool" where
  "clock_runs D \<longleftrightarrow> (\<forall>p m. md_elapsed D m \<le> md_elapsed D (snd (md_connect D p m)))
     \<and> (\<forall>n m. md_elapsed D m + n \<le> md_elapsed D (md_sleep D n m))"

lemma clock_runsD:
  assumes "clock_runs D" and "md_connect D p m = (a, m1)"
  shows "md_elapsed D m \<le> md_elapsed D m1" "md_elapsed D m + n \<le> md_elapsed D (md_sleep D n m1)"
proof -
  show "md_elapsed D m \<le> md_elapsed D m1" using assms unfolding clock_runs_def by (metis snd_conv)
  moreover have "md_elapsed D m1 + n \<le> md_elapsed D (md_sleep D n m1)" using assms(1) by (simp add: clock_runs_def)
  ultimately show "md_elapsed D m + n \<le> md_elapsed D (md_sleep D n m1)" by linarith
qed

lemma wait_for_port_enough:
  assumes "clock_runs D" and "timeout \<le> md_elapsed D m + int fuel * 100000000"
  shows "\<exists>r m'. wait_for_port D (Suc fuel) port timeout m = Some (r, m')"
  using assms(2)
proof (induction fuel arbitrary: m)
  case 0
  obtain a m1 where a: "md_connect D port m = (a, m1)" by fastforce
  have "timeout \<le> md_elapsed D m1" using clock_runsD(1) [OF assms(1) a] 0 by simp
  then show ?case using a by (auto split: sum.splits bool.splits)
next
  case (Suc fuel)
  obtain a m1 where a: "md_connect D port m = (a, m1)" by fastforce
  have "timeout \<le> md_elapsed D (md_sleep D 100000000 m1) + int fuel * 100000000"
    using clock_runsD(2) [OF assms(1) a, of 100000000] Suc.prems by simp
  from Suc.IH [OF this] show ?case
    unfolding wait_for_port.simps(2) [of D "Suc fuel"] using a
    by (auto simp del: wait_for_port.simps(2) split: sum.splits bool.splits)
qed

text \<open>The health check of a new container ends: with the five seconds that \<^verbatim>\<open>start_static\<close> allows and a
  pause of a tenth of a second after each refused connection, at most fifty-one connections are tried.\<close>

theorem health_check_ends:
  assumes "clock_runs D" and "0 \<le> md_elapsed D m"
  shows "\<exists>r m'. wait_for_port D 51 port 5000000000 m = Some (r, m')"
proof -
  have "(5000000000 :: int) \<le> md_elapsed D m + int 50 * 100000000" using assms(2) by simp
  moreover have "(51 :: nat) = Suc 50" by simp
  ultimately show ?thesis using wait_for_port_enough [OF assms(1)] by metis
qed

definition deaf_minidock :: "int minidock" where
  "deaf_minidock = \<lparr>md_bind_port = (\<lambda>m. (Inr 1, m)), md_list = (\<lambda>m. (Inr [], m)), md_run = (\<lambda>_ _ _ m. (Inr (), m)),
     md_stop = (\<lambda>_ m. (Inr (), m)), md_log = (\<lambda>_ _. None), md_connect = (\<lambda>_ m. (Inr False, m)), md_elapsed = id,
     md_sleep = (\<lambda>n m. m + n)\<rparr>"

theorem health_check_ends_witness:
  "(\<exists>r m'. wait_for_port deaf_minidock 51 7 5000000000 0 = Some (r, m')) \<and> wait_for_port deaf_minidock 50 7 5000000000 0 = None"
proof
  have "clock_runs deaf_minidock" by (simp add: clock_runs_def deaf_minidock_def)
  then show "\<exists>r m'. wait_for_port deaf_minidock 51 7 5000000000 0 = Some (r, m')"
    by (rule health_check_ends) (simp add: deaf_minidock_def)
  show "wait_for_port deaf_minidock 50 7 5000000000 0 = None" by code_simp
qed

end
