(* ===== verification/Build_Steps.thy ===== *)
theory Build_Steps
  imports Queue Logs Sources
begin

text \<open>
  What a build worker calls: \<^verbatim>\<open>src/artifacts.rs\<close>, \<^verbatim>\<open>src/build_executor.rs\<close> and \<^verbatim>\<open>src/source_checkout.rs\<close>.

  The world of a worker is the world of the queue with the files of the artifact store and the list of the
  commands that were started.  A working directory is a tree of \<^verbatim>\<open>Sources\<close>.  What a child process prints,
  when, what it leaves in the working directory and how it ends are parameters, as are \<^verbatim>\<open>git\<close>,
  \<^verbatim>\<open>minidock::build_image\<close>, SHA-256 in hex and the formats of \<^verbatim>\<open>Debug\<close>.
\<close>

section \<open>The world of a worker\<close>

record worker_world = queue_world +
  files :: "string \<rightharpoonup> string"
  commands :: "string list list"

type_synonym ('z, 'a) worker_op = "('z worker_world_scheme, error, 'a) io"

text \<open>\<open>wl_partial n\<close>: what a copy that fails at the \<open>n\<close>-th interaction leaves of its bytes, if it created the file.\<close>

record worker_lib =
  wl_uuid_str :: "uuid \<Rightarrow> string"
  wl_simple :: "uuid \<Rightarrow> string"
  wl_sha256 :: "string \<Rightarrow> string"
  wl_partial :: "nat \<Rightarrow> nat option"
  wl_debug :: "string list \<Rightarrow> string"
  wl_debug_path :: "string \<Rightarrow> string"
  wl_debug_code :: "int option \<Rightarrow> string"
  wl_debug_duration :: "int \<Rightarrow> string"

section \<open>Artifacts\<close>

record ArtifactMeta =
  am_id :: uuid
  am_deployment_id :: uuid
  am_file_path :: string
  am_size_bytes :: u64
  am_sha256 :: string
  am_created_at :: timestamp

definition artifact_dir :: "worker_lib \<Rightarrow> string \<Rightarrow> uuid \<Rightarrow> string" where
  "artifact_dir W base deployment_id = path_join base (wl_uuid_str W deployment_id)"

definition artifact_path :: "worker_lib \<Rightarrow> string \<Rightarrow> uuid \<Rightarrow> string" where
  "artifact_path W base deployment_id = path_join (artifact_dir W base deployment_id) ''artifact.tar.gz''"

text \<open>\<^verbatim>\<open>Path\<close>s are compared by their components: repeated slashes and dots inside do not count.\<close>

fun split_char :: "char \<Rightarrow> string \<Rightarrow> string list" where
  "split_char c [] = [[]]"
| "split_char c (x # s) =
     (if x = c then [] # split_char c s
      else case split_char c s of part # parts \<Rightarrow> (x # part) # parts | [] \<Rightarrow> [[x]])"

definition is_absolute :: "string \<Rightarrow> bool" where
  "is_absolute p \<longleftrightarrow> str_starts_with p ''/''"

definition components :: "string \<Rightarrow> string list" where
  "components p =
     (case split_char CHR ''/'' p of
        c # cs \<Rightarrow> (if c = [] then [] else [c]) @ filter (\<lambda>x. x \<noteq> [] \<and> x \<noteq> ''.'') cs
      | [] \<Rightarrow> [])"

definition path_eq :: "string \<Rightarrow> string \<Rightarrow> bool" where
  "path_eq p q \<longleftrightarrow> is_absolute p = is_absolute q \<and> components p = components q"

definition copy_file :: "worker_lib \<Rightarrow> string \<Rightarrow> string \<Rightarrow> string \<Rightarrow> ('z, unit) worker_op" where
  "copy_file W context from to = (\<lambda>w.
     case files w from of
       None \<Rightarrow> (Inl (Io context), w\<lparr>tick := Suc (tick w)\<rparr>)
     | Some bytes \<Rightarrow>
         if \<not> env_io_fault (env w) (tick w)
         then (Inr (), w\<lparr>tick := Suc (tick w), files := (files w)(to \<mapsto> bytes)\<rparr>)
         else (Inl (Io context),
           case wl_partial W (tick w) of
             None \<Rightarrow> w\<lparr>tick := Suc (tick w)\<rparr>
           | Some n \<Rightarrow> w\<lparr>tick := Suc (tick w), files := (files w)(to \<mapsto> take n bytes)\<rparr>))"

definition rename_file :: "string \<Rightarrow> string \<Rightarrow> string \<Rightarrow> ('z, unit) worker_op" where
  "rename_file context from to =
     and_then (io_call context) (\<lambda>_.
     and_then (gets (\<lambda>w. files w from)) (\<lambda>c.
     case c of
       None \<Rightarrow> fail (Io context)
     | Some bytes \<Rightarrow> modify (\<lambda>w. w\<lparr>files := (files w)(from := None, to \<mapsto> bytes)\<rparr>)))"

definition read_file :: "string \<Rightarrow> string \<Rightarrow> ('z, string) worker_op" where
  "read_file context path =
     and_then (io_call context) (\<lambda>_.
     and_then (gets (\<lambda>w. files w path)) (\<lambda>c. of_option (Io context) c))"

text \<open>The file is opened and then read to its end, which may fail again.\<close>

definition compute_sha256 :: "worker_lib \<Rightarrow> string \<Rightarrow> ('z, string) worker_op" where
  "compute_sha256 W path =
     and_then (read_file (''failed to open file for checksum: '' @ display path) path) (\<lambda>bytes.
     and_then (io_call ''read'') (\<lambda>_.
     ret (wl_sha256 W bytes)))"

definition eq_ignore_ascii_case :: "string \<Rightarrow> string \<Rightarrow> bool" where
  "eq_ignore_ascii_case a b \<longleftrightarrow> map to_ascii_lowercase a = map to_ascii_lowercase b"

definition verify_checksum :: "worker_lib \<Rightarrow> string \<Rightarrow> string \<Rightarrow> ('z, unit) worker_op" where
  "verify_checksum W path expected_sha256 =
     and_then (compute_sha256 W path) (\<lambda>actual.
     if eq_ignore_ascii_case actual expected_sha256 then ret ()
     else fail (Message (''checksum mismatch for '' @ display path @ '': expected '' @ expected_sha256 @
       '', got '' @ actual)))"

definition put_in_place :: "worker_lib \<Rightarrow> string \<Rightarrow> string \<Rightarrow> string \<Rightarrow> ('z, unit) worker_op" where
  "put_in_place W target_dir source_archive target_path =
     (if path_eq source_archive target_path then ret ()
      else
        and_then uuid_new_v4 (\<lambda>u.
        let tmp_path = path_join target_dir (''artifact.tmp.'' @ wl_simple W u)
        in and_then (copy_file W (''failed to copy artifact from '' @ display source_archive @ '' to '' @ display tmp_path)
             source_archive tmp_path) (\<lambda>_.
           rename_file (''failed to rename atomic artifact from '' @ display tmp_path @ '' to '' @ display target_path)
             tmp_path target_path)))"

definition store_artifact :: "worker_lib \<Rightarrow> string \<Rightarrow> uuid \<Rightarrow> string \<Rightarrow> ('z, ArtifactMeta) worker_op" where
  "store_artifact W base deployment_id source_archive =
     (let target_dir = artifact_dir W base deployment_id; target_path = artifact_path W base deployment_id
      in and_then (io_call (''failed to create artifact directory: '' @ display target_dir)) (\<lambda>_.
         and_then (put_in_place W target_dir source_archive target_path) (\<lambda>_.
         and_then (read_file (''failed to read metadata of '' @ display target_path) target_path) (\<lambda>bytes.
         and_then (compute_sha256 W target_path) (\<lambda>sha256.
         and_then uuid_new_v4 (\<lambda>i.
         and_then now_utc (\<lambda>now.
         ret \<lparr>am_id = i, am_deployment_id = deployment_id, am_file_path = target_path,
              am_size_bytes = of_nat (length bytes), am_sha256 = sha256, am_created_at = now\<rparr>)))))))"

section \<open>Running commands\<close>

text \<open>An operation on the log sink and the world, and the two kinds it is made of.\<close>

type_synonym ('s, 'z, 'a) build_op = "('s \<times> 'z worker_world_scheme, error, 'a) io"

definition on_world :: "('z, 'a) worker_op \<Rightarrow> ('s, 'z, 'a) build_op" where
  "on_world m = (\<lambda>(s, w). case m w of (r, w') \<Rightarrow> (r, (s, w')))"

record BuildLogLine =
  bl_sequence :: u64
  bl_timestamp :: timestamp
  bl_stream :: LogStream
  bl_message :: string

record MemoryLogSink =
  ms_lines :: "BuildLogLine list"
  ms_sequence :: u64

definition memory_write_line :: "LogStream \<Rightarrow> string \<Rightarrow> (MemoryLogSink, 'z, unit) build_op" where
  "memory_write_line stream message =
     and_then (on_world now_utc) (\<lambda>now.
     modify (\<lambda>(s, w). (s\<lparr>ms_lines := ms_lines s @ [\<lparr>bl_sequence = ms_sequence s + 1, bl_timestamp = now,
       bl_stream = stream, bl_message = message\<rparr>], ms_sequence := ms_sequence s + 1\<rparr>, w)))"

definition redact_text :: "string \<Rightarrow> string list \<Rightarrow> string" where
  "redact_text line secrets =
     fold (\<lambda>secret result. if secret \<noteq> [] then str_replace result secret ''[REDACTED]'' else result) secrets line"

text \<open>What one turn of the loop sees: the clock, and the answer of \<^verbatim>\<open>recv_timeout\<close>.  A process is what the
  turns of its loop see, what it leaves in the working directory, and what \<^verbatim>\<open>wait\<close> answers.\<close>

datatype received = RecvLine LogStream string | RecvFinished | RecvTimeout | RecvDisconnected

record process =
  pc_turns :: "(int \<times> received) list"
  pc_tree :: fnode
  pc_wait :: "(int option) option"

record MinidockBuildExecutor =
  artifacts_dir :: string
  exec_timeout :: int
  secrets :: "string list"

record toolbox =
  tb_spawn :: "nat \<Rightarrow> string list \<Rightarrow> fnode \<Rightarrow> process option"
  tb_build_image :: "nat \<Rightarrow> fnode \<Rightarrow> string option"

text \<open>A loop whose turns have all been used waits until its deadline.\<close>

fun pump :: "(LogStream \<Rightarrow> string \<Rightarrow> ('s, 'z, unit) build_op) \<Rightarrow> string list \<Rightarrow> error \<Rightarrow> int \<Rightarrow> nat \<Rightarrow>
   (int \<times> received) list \<Rightarrow> ('s, 'z, unit) build_op" where
  "pump write secs late deadline finished [] = (if finished < 2 then fail late else ret ())"
| "pump write secs late deadline finished ((now, item) # turns) =
     (if \<not> finished < 2 then ret ()
      else if deadline \<le> now then fail late
      else case item of
        RecvLine stream line \<Rightarrow>
          and_then (write stream (redact_text line secs)) (\<lambda>_. pump write secs late deadline finished turns)
      | RecvFinished \<Rightarrow> pump write secs late deadline (Suc finished) turns
      | RecvTimeout \<Rightarrow> fail late
      | RecvDisconnected \<Rightarrow> ret ())"

text \<open>The result is the working directory after the command.\<close>

definition run_command_streamed ::
  "worker_lib \<Rightarrow> toolbox \<Rightarrow> MinidockBuildExecutor \<Rightarrow> (LogStream \<Rightarrow> string \<Rightarrow> ('s, 'z, unit) build_op) \<Rightarrow>
   string list \<Rightarrow> fnode \<Rightarrow> ('s, 'z, fnode) build_op" where
  "run_command_streamed W T X write cmd tree =
     (if cmd = [] then ret tree
      else
        and_then (on_world (gets tick)) (\<lambda>n.
        and_then (on_world (io_call (''failed to spawn command: '' @ wl_debug W cmd))) (\<lambda>_.
        and_then (of_option (Io (''failed to spawn command: '' @ wl_debug W cmd)) (tb_spawn T n cmd tree)) (\<lambda>child.
        and_then (on_world (modify (\<lambda>w. w\<lparr>commands := commands w @ [cmd]\<rparr>))) (\<lambda>_.
        and_then (on_world instant_now) (\<lambda>started.
        and_then (pump write (secrets X)
          (Message (''command '' @ wl_debug W cmd @ '' timed out after '' @ wl_debug_duration W (exec_timeout X)))
          (started + exec_timeout X) 0 (pc_turns child)) (\<lambda>_.
        case pc_wait child of
          None \<Rightarrow> fail (Io (''failed waiting for command '' @ wl_debug W cmd))
        | Some code \<Rightarrow>
            if code = Some 0 then ret (pc_tree child)
            else fail (Message (''command '' @ wl_debug W cmd @ '' failed with status: '' @ wl_debug_code W code)))))))))"

record BuildResult =
  br_artifact_path :: string
  br_cache_key :: string
  br_duration :: int

definition check_output :: "string \<Rightarrow> error + unit" where
  "check_output output =
     (if is_absolute output then Inl (Message (''absolute output path escapes workspace: '' @ display output))
      else if ''..'' \<in> set (components output)
      then Inl (Message (''path traversal detected in output path: '' @ display output))
      else Inr ())"

fun node_at :: "fnode \<Rightarrow> string list \<Rightarrow> fnode option" where
  "node_at n [] = Some n"
| "node_at n (c # cs) =
     (if c = ''.'' then node_at n cs
      else case child n c of None \<Rightarrow> None | Some m \<Rightarrow> node_at m cs)"

definition exists_node :: "fnode option \<Rightarrow> bool" where
  "exists_node n \<longleftrightarrow> (case n of None \<Rightarrow> False | Some n \<Rightarrow> follow n \<noteq> Symlink None)"

definition build_image_of :: "toolbox \<Rightarrow> string \<Rightarrow> fnode \<Rightarrow> string \<Rightarrow> ('z, unit) worker_op" where
  "build_image_of T context n artifact = (\<lambda>w.
     case tb_build_image T (tick w) n of
       Some bytes \<Rightarrow> (Inr (), w\<lparr>tick := Suc (tick w), files := (files w)(artifact \<mapsto> bytes)\<rparr>)
     | None \<Rightarrow> (Inl (Io context), w\<lparr>tick := Suc (tick w)\<rparr>))"

fun Framework_debug :: "Framework \<Rightarrow> string" where
  "Framework_debug StaticSite = ''Static''"
| "Framework_debug Node = ''Node''"
| "Framework_debug NextJs = ''NextJs''"
| "Framework_debug Python = ''Python''"
| "Framework_debug Docker = ''Docker''"

definition executor_key :: "worker_lib \<Rightarrow> BuildPlan \<Rightarrow> fnode \<Rightarrow> string" where
  "executor_key W plan tree =
     wl_sha256 W (Framework_debug (bp_framework plan) @ concat (bp_install plan) @ concat (bp_build plan) @
       (case tree of Directory True es \<Rightarrow> concat (filter valid_utf8 (map fst es)) | _ \<Rightarrow> []))"

text \<open>The image of the output, or of the directory that holds it.\<close>

definition package_output ::
  "worker_lib \<Rightarrow> toolbox \<Rightarrow> MinidockBuildExecutor \<Rightarrow> string \<Rightarrow> string \<Rightarrow> fnode \<Rightarrow> ('z, string) worker_op" where
  "package_output W T X workspace output tree =
     (let output_path = path_join workspace output; comps = components output; found = node_at tree comps
      in and_then (gets (\<lambda>w. exists_node found \<and> \<not> env_io_fault (env w) (tick w))) (\<lambda>exists.
         and_then (modify (\<lambda>w. w\<lparr>tick := Suc (tick w)\<rparr>)) (\<lambda>_.
         if \<not> exists then fail (Message (''build output path does not exist: '' @ display output_path))
         else
           and_then (io_call (''failed to create artifacts directory: '' @ display (artifacts_dir X))) (\<lambda>_.
           and_then uuid_new_v4 (\<lambda>u.
           let artifact = path_join (artifacts_dir X) (wl_uuid_str W u @ ''.tar.gz'')
           in and_then
                (if is_dir (the found)
                 then build_image_of T (''failed to build artifact image from '' @ display output_path) (the found) artifact
                 else build_image_of T (''failed to build artifact image from '' @ display (abs_path workspace (butlast comps)))
                   (the (node_at tree (butlast comps))) artifact) (\<lambda>_.
              ret artifact))))))"

definition execute_plan ::
  "worker_lib \<Rightarrow> toolbox \<Rightarrow> MinidockBuildExecutor \<Rightarrow> (LogStream \<Rightarrow> string \<Rightarrow> ('s, 'z, unit) build_op) \<Rightarrow>
   BuildPlan \<Rightarrow> string \<Rightarrow> fnode \<Rightarrow> ('s, 'z, BuildResult) build_op" where
  "execute_plan W T X write plan workspace tree =
     and_then (of_result (check_output (bp_output plan))) (\<lambda>_.
     and_then (on_world instant_now) (\<lambda>start.
     and_then (run_command_streamed W T X write (bp_install plan) tree) (\<lambda>tree1.
     and_then (run_command_streamed W T X write (bp_build plan) tree1) (\<lambda>tree2.
     and_then (on_world (package_output W T X workspace (bp_output plan) tree2)) (\<lambda>artifact.
     and_then (on_world instant_now) (\<lambda>finish.
     ret \<lparr>br_artifact_path = artifact, br_cache_key = executor_key W plan tree2, br_duration = finish - start\<rparr>))))))"

section \<open>Checkouts\<close>

record Checkout =
  co_directory :: string
  co_commit_sha :: string

record git_output =
  go_success :: bool
  go_status :: string
  go_stdout :: string
  go_stderr :: string

text \<open>\<open>gt_run\<close>: what \<^verbatim>\<open>git\<close> answers when it is run, or nothing if it cannot be run; \<open>gt_scheme\<close> and
  \<open>gt_file_path\<close> read a URL; \<open>gt_tree\<close>: what a checkout leaves in its directory.\<close>

record git_tool =
  gt_run :: "nat \<Rightarrow> string list \<Rightarrow> git_output option"
  gt_scheme :: "string \<Rightarrow> string"
  gt_file_path :: "string \<Rightarrow> string option"
  gt_tree :: "nat \<Rightarrow> fnode"

definition run_git :: "worker_lib \<Rightarrow> git_tool \<Rightarrow> string list \<Rightarrow> ('z, string) worker_op" where
  "run_git W G args = (\<lambda>w.
     let w' = w\<lparr>tick := Suc (tick w), commands := commands w @ [''git'' # args]\<rparr>
     in case gt_run G (tick w) args of
          None \<Rightarrow> (Inl (Io (''failed to execute git command: '' @ wl_debug W args)), w\<lparr>tick := Suc (tick w)\<rparr>)
        | Some out \<Rightarrow>
            if go_success out then (Inr (from_utf8_lossy (go_stdout out)), w')
            else (Inl (Message (''git command '' @ wl_debug W args @ '' failed with status '' @ go_status out @ '': '' @
              from_utf8_lossy (go_stderr out))), w'))"

definition is_ascii_hexdigit :: "char \<Rightarrow> bool" where
  "is_ascii_hexdigit c \<longleftrightarrow> is_ascii_digit c
     \<or> (65 \<le> (of_char c :: nat) \<and> (of_char c :: nat) \<le> 70) \<or> (97 \<le> (of_char c :: nat) \<and> (of_char c :: nat) \<le> 102)"

definition clone_url_str :: "git_tool \<Rightarrow> string \<Rightarrow> error + string" where
  "clone_url_str G url =
     (if gt_scheme G url = ''file''
      then case gt_file_path G url of
          Some p \<Rightarrow> Inr (from_utf8_lossy p)
        | None \<Rightarrow> Inl (Message ''invalid file url'')
      else Inr url)"

definition fetch_commit :: "worker_lib \<Rightarrow> git_tool \<Rightarrow> string \<Rightarrow> ('z, unit) worker_op" where
  "fetch_commit W G commit =
     and_then (attempt (run_git W G [''fetch'', ''--depth'', ''1'', ''origin'', commit])) (\<lambda>r.
     if isl (r :: error + string) then and_then (run_git W G [''fetch'', ''origin'']) (\<lambda>_. ret ()) else ret ())"

definition checkout_commit ::
  "worker_lib \<Rightarrow> git_tool \<Rightarrow> RepositoryRef \<Rightarrow> string \<Rightarrow> string \<Rightarrow> ('z, Checkout) worker_op" where
  "checkout_commit W G source commit0 workspace =
     (let commit = str_trim commit0; checkout_dir = path_join workspace ''source''
      in if length commit < 7 \<or> 64 < length commit \<or> \<not> list_all is_ascii_hexdigit commit
         then fail (Message (''invalid commit sha: '' @ commit))
         else if take (length (components workspace)) (components checkout_dir) \<noteq> components workspace
         then fail (Message ''path traversal detected in workspace'')
         else
           and_then (io_call (''failed to create directory '' @ wl_debug_path W checkout_dir)) (\<lambda>_.
           and_then (of_result (clone_url_str G (rr_clone_url source))) (\<lambda>url.
           and_then (run_git W G [''init'']) (\<lambda>_.
           and_then (ignore (run_git W G [''remote'', ''add'', ''origin'', url])) (\<lambda>_.
           and_then (fetch_commit W G commit) (\<lambda>_.
           and_then (run_git W G [''checkout'', ''--detach'', commit]) (\<lambda>_.
           and_then (run_git W G [''rev-parse'', ''HEAD'']) (\<lambda>out.
           let head_sha = str_trim out
           in if \<not> str_starts_with head_sha commit \<and> \<not> str_starts_with commit head_sha
              then fail (Message (''checked out commit '' @ head_sha @ '' does not match requested commit '' @ commit))
              else ret \<lparr>co_directory = checkout_dir, co_commit_sha = head_sha\<rparr>))))))))"

end
