(* ===== verification/Worker.thy ===== *)
theory Worker
  imports Build_Steps Cache
begin

text \<open>
  \<^verbatim>\<open>src/worker.rs\<close>: a build worker.  It claims a job, prepares the sources, asks the cache, builds with any
  \<^verbatim>\<open>BuildExecutor\<close>, stores the artifact, and tells the queue and the deployment how the build ended.

  While a build runs, its lease is renewed in the background and other processes work on the database:
  \<open>meanwhile\<close> is whatever they do between the end of the build and what the worker records of it.
\<close>

section \<open>Errors that are tried again\<close>

definition hopeless_phrases :: "string list" where
  "hopeless_phrases = [''invalid package.json'', ''ambiguous framework'', ''unsupported framework'', ''traversal'',
     ''failed with status'', ''exit code'', ''build output path does not exist'', ''cannot be empty'']"

definition is_retryable_error :: "string \<Rightarrow> bool" where
  "is_retryable_error msg \<longleftrightarrow>
     (let lower = to_lowercase msg in \<not> list_ex (\<lambda>phrase. str_contains lower phrase) hopeless_phrases)"

section \<open>The worker\<close>

datatype BuildWorkerOutcome =
    WoCompleted uuid | WoRetried uuid | WoFailed uuid | WoCancelled uuid | WoIdle

record BuildWorker =
  bw_worker_id :: string
  bw_queue :: BuildQueue
  bw_base_dir :: string
  bw_workspace_root :: string
  bw_lease_duration :: int

type_synonym 'z BuildExecutor =
  "(LogStream \<Rightarrow> string \<Rightarrow> (DurableLogSink, 'z, unit) build_op) \<Rightarrow> BuildPlan \<Rightarrow> string \<Rightarrow> fnode \<Rightarrow>
   (DurableLogSink, 'z, BuildResult) build_op"

text \<open>The libraries and the host: the text of an error whose message is not made by this program, the
  parsers, the printer of JSON, the patterns of the redactor, the directories of sources, and the column
  \<^verbatim>\<open>build_jobs.commit_sha\<close>, which no statement of the program writes.\<close>

record host_env =
  he_lib :: worker_lib
  he_git :: git_tool
  he_fmt :: log_fmt
  he_error_text :: "error \<Rightarrow> string"
  he_parse_uuid :: "string \<Rightarrow> uuid option"
  he_from_str :: "string \<Rightarrow> string + json"
  he_to_string :: "json \<Rightarrow> string option"
  he_url_parse :: "string \<Rightarrow> error + string"
  he_meta_len :: "fnode \<Rightarrow> u64 option"
  he_redactor :: Redactor
  he_source :: "nat \<Rightarrow> string \<Rightarrow> fnode option"
  he_commit_sha :: "uuid \<Rightarrow> string option"

definition err_text :: "host_env \<Rightarrow> error \<Rightarrow> string" where
  "err_text H e = (case e of Message m \<Rightarrow> m | _ \<Rightarrow> he_error_text H e)"

definition event_insert_ok :: "BuildEventRow \<Rightarrow> db \<Rightarrow> bool" where
  "event_insert_ok r d \<longleftrightarrow> \<not> has_key be_id (be_id r) (build_events d)
     \<and> has_key j_id (be_job_id r) (build_jobs d) \<and> has_key d_id (be_deployment_id r) (deployments d)"

definition publish_event :: "uuid \<Rightarrow> uuid \<Rightarrow> string \<Rightarrow> json \<Rightarrow> ('z, unit) op" where
  "publish_event job_id deployment_id event_type payload =
     and_then now_utc (\<lambda>now.
     and_then uuid_new_v4 (\<lambda>i.
     let r = \<lparr>be_id = i, be_job_id = job_id, be_deployment_id = deployment_id, be_event_type = event_type,
              be_payload = payload, be_created_at = now\<rparr>
     in insert_row ''failed to publish build event'' (event_insert_ok r)
          (\<lambda>d. d\<lparr>build_events := build_events d @ [r]\<rparr>)))"

section \<open>The sources of a build\<close>

definition job_commit :: "host_env \<Rightarrow> uuid \<Rightarrow> ('z, string option) op" where
  "job_commit H job_id =
     and_then (attempt (select_rows ''commit_sha'' (\<lambda>d. if has_key j_id job_id (build_jobs d)
       then he_commit_sha H job_id else None) :: ('z, string option) op)) (\<lambda>r.
     ret (case r of Inr c \<Rightarrow> c | Inl _ \<Rightarrow> None))"

definition joined_source :: "uuid \<Rightarrow> db \<Rightarrow> (Provider \<times> ProviderRepositoryRecord) option" where
  "joined_source repo_id d =
     Option.bind (lookup_by pr_id repo_id (provider_repositories d)) (\<lambda>r.
     map_option (\<lambda>c. (pc_provider c, r)) (lookup_by pc_id (pr_connection_id r) (provider_connections d)))"

definition copy_sources :: "host_env \<Rightarrow> string \<Rightarrow> ('z, fnode) worker_op" where
  "copy_sources H source_dir =
     and_then (gets (\<lambda>w. he_source H (tick w) source_dir)) (\<lambda>src.
     and_then (io_call ''copy_dir_recursive'') (\<lambda>_.
     of_result (copy_dir_recursive src)))"

definition checkout_sources ::
  "host_env \<Rightarrow> Provider \<times> ProviderRepositoryRecord \<Rightarrow> string \<Rightarrow> string \<Rightarrow> ('z, fnode) worker_op" where
  "checkout_sources H found commit workspace =
     (case found of (provider, r) \<Rightarrow>
       and_then (of_result (he_url_parse H (pr_clone_url r))) (\<lambda>clone_url.
       and_then (checkout_commit (he_lib H) (he_git H)
         \<lparr>rr_provider = provider, rr_external_id = pr_external_id r, rr_clone_url = clone_url,
          rr_default_branch = pr_default_branch r\<rparr> commit workspace) (\<lambda>_.
       gets (\<lambda>w. gt_tree (he_git H) (tick w)))))"

definition prepare_source :: "host_env \<Rightarrow> ProjectRow \<Rightarrow> uuid \<Rightarrow> string \<Rightarrow> ('z, fnode) worker_op" where
  "prepare_source H project job_id workspace =
     and_then (job_commit H job_id) (\<lambda>commit_sha.
     case (p_repository_id project, commit_sha) of
       (Some repo_id, Some commit) \<Rightarrow>
         and_then (select_rows ''repository'' (joined_source repo_id)) (\<lambda>row.
         case row of
           Some found \<Rightarrow> checkout_sources H found commit workspace
         | None \<Rightarrow> copy_sources H (p_source_dir project))
     | _ \<Rightarrow> copy_sources H (p_source_dir project))"

section \<open>The cache\<close>

definition build_command :: "BuildPlan \<Rightarrow> string" where
  "build_command plan =
     str_trim (join_strings '' '' (bp_install plan) @ '' ; '' @ join_strings '' '' (bp_build plan))"

definition cache_input :: "host_env \<Rightarrow> BuildPlan \<Rightarrow> fnode \<Rightarrow> string list \<Rightarrow> BuildCacheInput" where
  "cache_input H plan tree keys =
     \<lparr>ci_schema_version = ''v1'', ci_framework = to_lowercase (Framework_debug (bp_framework plan)),
      ci_toolchain = ''default'', ci_build_command = build_command plan,
      ci_lockfile_digest = compute_lockfile_digest (wl_sha256 (he_lib H)) (he_meta_len H) tree,
      ci_declared_env_keys = keys\<rparr>"

definition worker_cache_key :: "host_env \<Rightarrow> BuildPlan \<Rightarrow> fnode \<Rightarrow> string list \<Rightarrow> string" where
  "worker_cache_key H plan tree keys =
     ck_digest (from_build_inputs (he_to_string H) (wl_sha256 (he_lib H)) (cache_input H plan tree keys))"

definition env_column :: "string \<Rightarrow> (EnvVarRow list \<Rightarrow> string list) \<Rightarrow> uuid \<Rightarrow> ('z, string list) op" where
  "env_column context col project_id =
     and_then (attempt (select_rows context (\<lambda>d.
       col (filter (\<lambda>r. ev_project_id r = project_id) (environment_variables d)))
       :: ('z, string list) op)) (\<lambda>r.
     ret (case r of Inr keys \<Rightarrow> keys | Inl _ \<Rightarrow> []))"

text \<open>The artifact of the cache that can be used: its row is valid, its file is there and its bytes have the
  checksum of the row.\<close>

definition usable_entry :: "host_env \<Rightarrow> uuid \<Rightarrow> string \<Rightarrow> ('z, BuildCacheEntry option) worker_op" where
  "usable_entry H project_id key =
     and_then (attempt (get_valid project_id key)) (\<lambda>found.
     case found of
       Inl _ \<Rightarrow> ret None
     | Inr None \<Rightarrow> ret None
     | Inr (Some entry) \<Rightarrow>
         and_then (gets (\<lambda>w. files w (ce_storage_path entry) \<noteq> None \<and> \<not> env_io_fault (env w) (tick w))) (\<lambda>there.
         and_then (modify (\<lambda>w. w\<lparr>tick := Suc (tick w)\<rparr>)) (\<lambda>_.
         if \<not> there then ret None
         else
           and_then (attempt (verify_checksum (he_lib H) (ce_storage_path entry) (ce_artifact_checksum entry))) (\<lambda>v.
           case v of Inr _ \<Rightarrow> ret (Some entry) | Inl e \<Rightarrow> ret None))))"

definition use_cached :: "host_env \<Rightarrow> BuildWorker \<Rightarrow> ClaimedJob \<Rightarrow> string \<Rightarrow> BuildCacheEntry \<Rightarrow> ('z, ArtifactMeta) worker_op" where
  "use_cached H B claimed key entry =
     (let job = cj_job claimed
      in and_then (store_artifact (he_lib H) (bw_base_dir B) (j_deployment_id job) (ce_storage_path entry)) (\<lambda>meta.
         and_then (ignore (touch_used (j_project_id job) key)) (\<lambda>_.
         and_then (publish_event (j_id job) (j_deployment_id job) ''build.cache.checked''
           (JObject [(''cache_key'', JString key), (''checksum'', JString (ce_artifact_checksum entry)), (''hit'', JBool True)])) (\<lambda>_.
         ret meta))))"

section \<open>The build\<close>

definition durable_write :: "log_fmt \<Rightarrow> LogStream \<Rightarrow> string \<Rightarrow> (DurableLogSink, 'z, unit) build_op" where
  "durable_write F stream message =
     and_then (on_world now_utc) (\<lambda>now.
     and_then (on_world uuid_new_v4) (\<lambda>line_id.
     and_then (on_world uuid_new_v4) (\<lambda>segment_id.
     and_then (on_world (gets (\<lambda>w. \<not> env_io_fault (env w) (tick w)))) (\<lambda>disk_ok. \<lambda>(s, w).
     case write_line F disk_ok line_id segment_id now stream message s of
       (r, s') \<Rightarrow> (r, (s', w\<lparr>tick := Suc (tick w)\<rparr>))))))"

definition segment_insert_ok :: "LogSegmentRow \<Rightarrow> db \<Rightarrow> bool" where
  "segment_insert_ok row d \<longleftrightarrow> \<not> has_key sg_id (sg_id row) (log_segments d)
     \<and> has_key d_id (sg_deployment_id row) (deployments d) \<and> has_key p_id (sg_project_id row) (projects d)"

definition run_pending :: "pending \<Rightarrow> ('z, unit) op" where
  "run_pending p =
     (case p of
        PendingLine row \<Rightarrow> ignore (insert_row ''line'' (log_insert_ok row)
          (\<lambda>d. d\<lparr>deployment_logs := deployment_logs d @ [row]\<rparr>) :: ('z, unit) op)
      | PendingSegment row \<Rightarrow> ignore (insert_row ''segment'' (segment_insert_ok row)
          (\<lambda>d. d\<lparr>log_segments := log_segments d @ [row]\<rparr>) :: ('z, unit) op))"

text \<open>The inserts a sink has spawned run whether they are waited for or not.\<close>

definition wait_all :: "DurableLogSink \<Rightarrow> ('z, unit) op" where
  "wait_all s = fold_io (\<lambda>p _. run_pending p) (ds_handles s) ()"

definition flush_sink :: "log_fmt \<Rightarrow> DurableLogSink \<Rightarrow> ('z, DurableLogSink) op" where
  "flush_sink F s =
     and_then uuid_new_v4 (\<lambda>segment_id.
     and_then now_utc (\<lambda>now.
     and_then (gets (\<lambda>w. \<not> env_io_fault (env w) (tick w))) (\<lambda>disk_ok.
     and_then (modify (\<lambda>w. w\<lparr>tick := Suc (tick w)\<rparr>)) (\<lambda>_.
     ret (snd (flush F disk_ok segment_id now s))))))"

text \<open>A sink that goes out of scope writes what is left in its buffer (\<^verbatim>\<open>Drop\<close>); the writes it has spawned are taken
  to run at that point.\<close>

definition drop_sink :: "log_fmt \<Rightarrow> DurableLogSink \<Rightarrow> ('z, unit) op" where
  "drop_sink F s = and_then (flush_sink F s) wait_all"

definition run_executor :: "host_env \<Rightarrow> 'z BuildExecutor \<Rightarrow> BuildPlan \<Rightarrow> string \<Rightarrow> fnode \<Rightarrow> DurableLogSink \<Rightarrow>
   ('z, BuildResult \<times> DurableLogSink) worker_op" where
  "run_executor H X plan source_path tree sink = (\<lambda>w.
     case X (durable_write (he_fmt H)) plan source_path tree (sink, w) of
       (Inl e, (s, w')) \<Rightarrow> and_then (drop_sink (he_fmt H) s) (\<lambda>_. fail e) w'
     | (Inr r, (s, w')) \<Rightarrow>
         and_then (flush_sink (he_fmt H) s) (\<lambda>s'. and_then (wait_all s') (\<lambda>_.
         ret (r, s'\<lparr>ds_handles := []\<rparr>))) w')"

definition store_build :: "host_env \<Rightarrow> BuildWorker \<Rightarrow> BuildJobRecord \<Rightarrow> string \<Rightarrow> BuildResult \<Rightarrow> ('z, ArtifactMeta) worker_op" where
  "store_build H B job key build_res =
     and_then (store_artifact (he_lib H) (bw_base_dir B) (j_deployment_id job) (br_artifact_path build_res)) (\<lambda>meta.
     and_then (ignore (store_entry \<lparr>sc_cache_key = key, sc_project_id = j_project_id job,
       sc_artifact_checksum = am_sha256 meta, sc_size_bytes = am_size_bytes meta,
       sc_storage_path = from_utf8_lossy (am_file_path meta), sc_toolchain = ''default''\<rparr>)) (\<lambda>_.
     ret meta))"

definition build_and_store :: "host_env \<Rightarrow> 'z BuildExecutor \<Rightarrow> BuildWorker \<Rightarrow> ClaimedJob \<Rightarrow> string \<Rightarrow> BuildPlan \<Rightarrow> fnode \<Rightarrow>
   string \<Rightarrow> ('z, ArtifactMeta) worker_op" where
  "build_and_store H X B claimed source_path plan tree key =
     (let job = cj_job claimed
      in and_then (publish_event (j_id job) (j_deployment_id job) ''build.cache.checked''
           (JObject [(''cache_key'', JString key), (''hit'', JBool False),
             (''reason'', JString (if j_force_rebuild job then ''force_rebuild'' else ''cache_miss''))])) (\<lambda>_.
         and_then (env_column ''secrets'' (map ev_value) (j_project_id job)) (\<lambda>secret_fingerprints.
         let redactor = (he_redactor H)\<lparr>secret_fingerprints := new_fingerprints secret_fingerprints\<rparr>;
             sink = new_sink (j_deployment_id job) (j_project_id job) redactor
               (Some (path_join (bw_workspace_root B) ''logs'')) 100
         in and_then (run_executor H X plan source_path tree sink) (\<lambda>(build_res, sink').
            and_then (attempt (store_build H B job key build_res)) (\<lambda>stored.
            and_then (drop_sink (he_fmt H) sink') (\<lambda>_.
            of_result stored))))))"

definition execute_pipeline :: "host_env \<Rightarrow> 'z BuildExecutor \<Rightarrow> BuildWorker \<Rightarrow> ClaimedJob \<Rightarrow> string \<Rightarrow>
   ('z, ArtifactMeta) worker_op" where
  "execute_pipeline H X B claimed workspace =
     (let job = cj_job claimed; source_path = path_join workspace ''source''
      in and_then (select_rows ''failed to fetch project for build'' (\<lambda>d. lookup_by p_id (j_project_id job) (projects d))) (\<lambda>found.
         and_then (of_option (Database ''failed to fetch project for build'') found) (\<lambda>project.
         and_then (prepare_source H project (j_id job) workspace) (\<lambda>tree.
         and_then (of_result (detect_build_plan (he_from_str H) source_path tree)) (\<lambda>plan.
         and_then (env_column ''keys'' (\<lambda>rs. map ev_key (order_by ev_key rs)) (j_project_id job)) (\<lambda>keys.
         let key = worker_cache_key H plan tree keys
         in and_then (if j_force_rebuild job then ret None else usable_entry H (j_project_id job) key) (\<lambda>hit.
            case hit of
              Some entry \<Rightarrow> use_cached H B claimed key entry
            | None \<Rightarrow> build_and_store H X B claimed source_path plan tree key)))))))"

section \<open>One round\<close>

definition upsert_attempt :: "BuildAttempt \<Rightarrow> db \<Rightarrow> (error + unit) \<times> db" where
  "upsert_attempt a d =
     (if \<not> has_key j_id (a_job_id a) (build_jobs d) then (Inl (Database ''record attempt''), d)
      else case upsert_into (\<lambda>b. a_job_id b = a_job_id a \<and> a_attempt_number b = a_attempt_number a)
          (\<lambda>b. b\<lparr>a_worker_id := a_worker_id a, a_status := AttRunning, a_started_at := a_started_at a,
                 a_finished_at := None, a_error_message := None\<rparr>) a_id a (build_attempts d) of
        Some (_, t) \<Rightarrow> (Inr (), d\<lparr>build_attempts := t\<rparr>)
      | None \<Rightarrow> (Inl (Database ''record attempt''), d))"

definition start_attempt :: "BuildWorker \<Rightarrow> ClaimedJob \<Rightarrow> ('z, unit) op" where
  "start_attempt B claimed =
     (let job = cj_job claimed
      in and_then uuid_new_v4 (\<lambda>attempt_id.
         and_then now_utc (\<lambda>now.
         and_then (statement ''record attempt'' (upsert_attempt \<lparr>a_id = attempt_id, a_job_id = j_id job,
           a_attempt_number = cj_attempt_number claimed, a_worker_id = bw_worker_id B, a_status = AttRunning,
           a_error_message = None, a_started_at = now, a_finished_at = None\<rparr>)) (\<lambda>_.
         publish_event (j_id job) (j_deployment_id job) ''build.started''
           (JObject [(''attempt'', JInt (cj_attempt_number claimed)), (''worker_id'', JString (bw_worker_id B))])))))"

definition build_succeeded :: "host_env \<Rightarrow> BuildWorker \<Rightarrow> ClaimedJob \<Rightarrow> ArtifactMeta \<Rightarrow> ('z, BuildWorkerOutcome) op" where
  "build_succeeded H B claimed meta =
     (let job = cj_job claimed
      in and_then now_utc (\<lambda>finish_time.
         and_then (set_deployment (j_deployment_id job) (\<lambda>r. r\<lparr>d_status := DepRunning,
           d_image_path := Some (from_utf8_lossy (am_file_path meta)), d_finished_at := Some finish_time\<rparr>)) (\<lambda>_.
         and_then (publish_event (j_id job) (j_deployment_id job) ''build.succeeded''
           (JObject [(''artifact_id'', JString (wl_uuid_str (he_lib H) (am_id meta))), (''sha256'', JString (am_sha256 meta)),
             (''size_bytes'', JInt (int (unat (am_size_bytes meta))))])) (\<lambda>_.
         and_then (ack (bw_queue B) (j_id job) (bw_worker_id B) (cj_stream_name claimed) (cj_stream_id claimed)) (\<lambda>_.
         ret (WoCompleted (j_id job)))))))"

definition build_failed :: "host_env \<Rightarrow> BuildWorker \<Rightarrow> ClaimedJob \<Rightarrow> error \<Rightarrow> ('z, BuildWorkerOutcome) op" where
  "build_failed H B claimed err =
     (let job = cj_job claimed; err_str = err_text H err; retryable = is_retryable_error err_str
      in and_then now_utc (\<lambda>finish_time.
         and_then (if retryable then ret () else set_deployment (j_deployment_id job)
           (\<lambda>r. r\<lparr>d_status := DepFailed, d_error := Some err_str, d_finished_at := Some finish_time\<rparr>)) (\<lambda>_.
         and_then (publish_event (j_id job) (j_deployment_id job) (if retryable then ''build.retry'' else ''build.failed'')
           (JObject [(''error'', JString err_str), (''retryable'', JBool retryable)])) (\<lambda>_.
         and_then (queue_fail (bw_queue B) (j_id job) (bw_worker_id B) (cj_stream_name claimed) (cj_stream_id claimed)
           err_str retryable) (\<lambda>_.
         ret (if retryable then WoRetried (j_id job) else WoFailed (j_id job)))))))"

definition lease_millis :: "BuildWorker \<Rightarrow> int" where
  "lease_millis B = as_i64 (as_u64 (bw_lease_duration B div 1000000)) * 1000000"

text \<open>What follows the start of an attempt: the working directory, the build under renewals, the record of its end.\<close>

definition build_job ::
  "host_env \<Rightarrow> 'z BuildExecutor \<Rightarrow> ('z worker_world_scheme \<Rightarrow> 'z worker_world_scheme) \<Rightarrow> nat \<Rightarrow> BuildWorker \<Rightarrow>
   ClaimedJob \<Rightarrow> ('z, BuildWorkerOutcome) worker_op" where
  "build_job H X meanwhile renewals B claimed =
     (let job = cj_job claimed; workspace = path_join (bw_workspace_root B) (wl_uuid_str (he_lib H) (j_id job))
      in and_then (attempt (io_call ''workspace'')) (\<lambda>made.
         case made of
           Inl e \<Rightarrow>
             and_then (queue_fail (bw_queue B) (j_id job) (bw_worker_id B) (cj_stream_name claimed) (cj_stream_id claimed)
               (''failed to create workspace: '' @ err_text H e) True) (\<lambda>_.
             ret (WoRetried (j_id job)))
         | Inr _ \<Rightarrow>
             and_then (attempt (execute_pipeline H X B claimed workspace)) (\<lambda>res.
             and_then (fold_io (\<lambda>_ _. ignore (renew (j_id job) (bw_worker_id B) (lease_millis B))) [0..<renewals] ()) (\<lambda>_.
             and_then (modify meanwhile) (\<lambda>_.
             case res of
               Inr meta \<Rightarrow> build_succeeded H B claimed meta
             | Inl err \<Rightarrow> build_failed H B claimed err)))))"

definition run_build_job ::
  "host_env \<Rightarrow> 'z BuildExecutor \<Rightarrow> ('z worker_world_scheme \<Rightarrow> 'z worker_world_scheme) \<Rightarrow> nat \<Rightarrow> BuildWorker \<Rightarrow>
   ClaimedJob \<Rightarrow> ('z, BuildWorkerOutcome) worker_op" where
  "run_build_job H X meanwhile renewals B claimed =
     and_then (start_attempt B claimed) (\<lambda>_. build_job H X meanwhile renewals B claimed)"

definition run_once ::
  "host_env \<Rightarrow> 'z BuildExecutor \<Rightarrow> ('z worker_world_scheme \<Rightarrow> 'z worker_world_scheme) \<Rightarrow> nat \<Rightarrow> BuildWorker \<Rightarrow>
   ('z, BuildWorkerOutcome) worker_op" where
  "run_once H X meanwhile renewals B =
     and_then (claim (he_parse_uuid H) (bw_queue B) (bw_worker_id B) (lease_millis B)) (\<lambda>c.
     case c of
       None \<Rightarrow> ret WoIdle
     | Some claimed \<Rightarrow>
         and_then (select_rows ''status'' (\<lambda>d. map_option j_status (lookup_by j_id (j_id (cj_job claimed)) (build_jobs d)))) (\<lambda>status.
         if status = Some JobCancelled
         then
           and_then (ignore (ack (bw_queue B) (j_id (cj_job claimed)) (bw_worker_id B) (cj_stream_name claimed) (cj_stream_id claimed))) (\<lambda>_.
           ret (WoCancelled (j_id (cj_job claimed))))
         else run_build_job H X meanwhile renewals B claimed))"

end
