(* ===== verification/Worker_Correct.thy ===== *)
theory Worker_Correct
  imports Worker Queue_Examples
begin

text \<open>
  The build worker: what the artifact store leaves on disk, what is deployed on a hit and on a miss of the
  cache, how the end of a build is recorded, and that a round of a worker moves jobs along their life cycle
  only, whatever fails and whatever other processes do in the meantime.
\<close>

section \<open>Artifacts\<close>

lemma path_join_name:
  assumes "\<not> str_starts_with a ''/''" and "\<not> str_starts_with b ''/''"
  shows "path_join d a = path_join d b \<longleftrightarrow> a = b"
  using assms by (simp add: path_join_def)

lemma tmp_not_target: "path_join d (''artifact.tmp.'' @ x) \<noteq> path_join d ''artifact.tar.gz''"
  by (subst path_join_name) (simp_all add: str_starts_with_def)

definition stored :: "string \<Rightarrow> string \<Rightarrow> string \<Rightarrow> 'z worker_world_scheme \<Rightarrow> 'z worker_world_scheme \<Rightarrow> bool" where
  "stored dir src target w w' \<longleftrightarrow> db w' = db w
     \<and> (files w' target = files w target \<or> files w' target = files w src \<and> files w src \<noteq> None)
     \<and> (\<forall>p. p \<noteq> target \<and> (\<forall>x. p \<noteq> path_join dir (''artifact.tmp.'' @ x)) \<longrightarrow> files w' p = files w p)"

lemma stored_tick: "stored dir src target w (w\<lparr>tick := n\<rparr>)"
  by (simp add: stored_def)

lemma put_in_place_stored:
  assumes run: "put_in_place W dir src target w = (r, w')" and target: "\<And>x. path_join dir (''artifact.tmp.'' @ x) \<noteq> target"
  shows "stored dir src target w w'"
    and "r = Inr () \<Longrightarrow> \<not> path_eq src target \<Longrightarrow> files w' target = files w src \<and> files w src \<noteq> None"
    and "path_eq src target \<Longrightarrow> w' = w"
proof -
  let ?tmp = "path_join dir (''artifact.tmp.'' @ wl_simple W (env_uuid (env w) (tick w)))"
  have t: "?tmp \<noteq> target" "target \<noteq> ?tmp" using target by metis+
  show "stored dir src target w w'"
    and "r = Inr () \<Longrightarrow> \<not> path_eq src target \<Longrightarrow> files w' target = files w src \<and> files w src \<noteq> None"
    and "path_eq src target \<Longrightarrow> w' = w"
    using run t by (auto simp: put_in_place_def stored_def copy_file_def rename_file_def io_call_def uuid_new_v4_def Let_def io_simps
        simp del: append.simps append_Cons split: if_splits option.splits)
qed

lemma read_file_effect: "read_file c p w = (r, w') \<Longrightarrow> \<exists>n. w' = w\<lparr>tick := n\<rparr>"
  "read_file c p w = (Inr bytes, w') \<Longrightarrow> files w p = Some bytes"
  by (auto simp: read_file_def io_call_def io_simps of_option_def split: if_splits option.splits)

lemma compute_sha256_effect: "compute_sha256 W p w = (r, w') \<Longrightarrow> \<exists>n. w' = w\<lparr>tick := n\<rparr>"
  "compute_sha256 W p w = (Inr sha, w') \<Longrightarrow> \<exists>bytes. files w p = Some bytes \<and> sha = wl_sha256 W bytes"
  by (auto simp: compute_sha256_def read_file_def io_call_def io_simps of_option_def simp del: append.simps append_Cons
      split: if_splits option.splits)

definition describes :: "worker_lib \<Rightarrow> string \<Rightarrow> uuid \<Rightarrow> ArtifactMeta \<Rightarrow> string \<Rightarrow> bool" where
  "describes W base i meta bytes \<longleftrightarrow> am_deployment_id meta = i \<and> am_file_path meta = artifact_path W base i
     \<and> am_sha256 meta = wl_sha256 W bytes \<and> am_size_bytes meta = of_nat (length bytes)"

lemma store_artifact_effect:
  assumes run: "store_artifact W base i src w = (r, w')"
  obtains r1 w1 n where "put_in_place W (artifact_dir W base i) src (artifact_path W base i) (w\<lparr>tick := Suc (tick w)\<rparr>) = (r1, w1)"
      "w' = w1\<lparr>tick := n\<rparr>" "isl r \<or> r1 = Inr () \<and> (\<exists>bytes. files w1 (artifact_path W base i) = Some bytes \<and> describes W base i (projr r) bytes)"
  | n where "w' = w\<lparr>tick := n\<rparr>" "isl r"
proof -
  obtain r1 w1 where p: "put_in_place W (artifact_dir W base i) src (artifact_path W base i) (w\<lparr>tick := Suc (tick w)\<rparr>) = (r1, w1)"
    by fastforce
  show thesis
  proof (cases "env_io_fault (env w) (tick w)")
    case True
    then show thesis using that(2) run by (auto simp: store_artifact_def Let_def io_call_def io_simps simp del: append.simps append_Cons)
  next
    case False
    have "(\<exists>n. w' = w1\<lparr>tick := n\<rparr>) \<and> (isl r \<or> r1 = Inr () \<and>
        (\<exists>bytes. files w1 (artifact_path W base i) = Some bytes \<and> describes W base i (projr r) bytes))"
    proof (cases r1)
      case (Inl e)
      then show ?thesis using run p False
        by (auto simp: store_artifact_def Let_def io_call_def io_simps simp del: append.simps append_Cons intro: exI [of _ "tick w1"])
    next
      case inr: (Inr u)
      let ?t = "artifact_path W base i"
      obtain r2 w2 where m: "read_file (''failed to read metadata of '' @ display ?t) ?t w1 = (r2, w2)" by fastforce
      then obtain n2 where n2: "w2 = w1\<lparr>tick := n2\<rparr>" using read_file_effect(1) by blast
      obtain r3 w3 where c: "compute_sha256 W ?t w2 = (r3, w3)" by fastforce
      then obtain n3 where n3: "w3 = w2\<lparr>tick := n3\<rparr>" using compute_sha256_effect(1) by blast
      show ?thesis
      proof (cases r2; cases r3)
        fix bytes sha assume ok: "r2 = Inr bytes" "r3 = Inr sha"
        have "files w1 ?t = Some bytes" using read_file_effect(2) m ok by blast
        moreover have "sha = wl_sha256 W bytes" using compute_sha256_effect(2) [OF c [unfolded ok]] calculation n2 by auto
        ultimately show ?thesis using run p False inr m c ok n2 n3
          by (auto simp: store_artifact_def Let_def io_call_def io_simps uuid_new_v4_def now_utc_def describes_def
              simp del: append.simps append_Cons)
      qed (use run p False inr m c n2 n3 in \<open>auto simp: store_artifact_def Let_def io_call_def io_simps simp del: append.simps append_Cons\<close>)
    qed
    then show thesis using that(1) p by blast
  qed
qed

lemma store_artifact_stored:
  assumes "store_artifact W base i src w = (r, w')"
  shows "stored (artifact_dir W base i) src (artifact_path W base i) w w'"
    and "r = Inr meta \<Longrightarrow> \<exists>bytes. files w' (am_file_path meta) = Some bytes \<and> describes W base i meta bytes
      \<and> (if path_eq src (artifact_path W base i) then files w' = files w else files w src = Some bytes)"
proof -
  let ?t = "artifact_path W base i"
  have t: "path_join (artifact_dir W base i) (''artifact.tmp.'' @ x) \<noteq> ?t" for x
    unfolding artifact_path_def by (rule tmp_not_target)
  have "stored (artifact_dir W base i) src ?t w w' \<and> (r = Inr meta \<longrightarrow> (\<exists>bytes. files w' ?t = Some bytes
      \<and> describes W base i meta bytes \<and> (if path_eq src ?t then files w' = files w else files w src = Some bytes)))"
    using assms
  proof (cases rule: store_artifact_effect)
    case (1 r1 w1 n)
    note p = put_in_place_stored [OF 1(1) t]
    have "stored (artifact_dir W base i) src ?t w w'" using p(1) 1(2) by (simp add: stored_def)
    then show ?thesis using 1(2,3) p(2,3) by auto
  next
    case (2 n)
    then show ?thesis using stored_tick by auto
  qed
  then show "stored (artifact_dir W base i) src ?t w w'"
    and "r = Inr meta \<Longrightarrow> \<exists>bytes. files w' (am_file_path meta) = Some bytes \<and> describes W base i meta bytes
      \<and> (if path_eq src ?t then files w' = files w else files w src = Some bytes)"
    by (auto simp: describes_def)
qed

section \<open>What a pipeline delivers\<close>

lemma keeps_files_prims [keeps_intros]:
  fixes P :: "(string \<rightharpoonup> string) \<Rightarrow> bool"
  shows "keeps (\<lambda>w. P (files w)) uuid_new_v4" "keeps (\<lambda>w. P (files w)) now_utc"
    "keeps (\<lambda>w. P (files w)) (statement c f)" "keeps (\<lambda>w. P (files w)) (select_rows c g)"
    "keeps (\<lambda>w. P (files w)) (execute c h)" "keeps (\<lambda>w. P (files w)) (insert_row c ok h)"
  by (auto simp: keeps_def uuid_new_v4_def now_utc_def statement_def select_rows_def execute_def insert_row_def
      split: prod.splits sum.splits)

lemma keeps_files_records [keeps_intros]:
  fixes P :: "(string \<rightharpoonup> string) \<Rightarrow> bool"
  shows "keeps (\<lambda>w. P (files w)) (publish_event i j t v)" "keeps (\<lambda>w. P (files w)) (touch_used i k)"
    "keeps (\<lambda>w. P (files w)) (store_entry input)"
  unfolding publish_event_def touch_used_def update_cache_def store_entry_def by (intro keeps_intros)+

definition artifact_at :: "worker_lib \<Rightarrow> string \<Rightarrow> uuid \<Rightarrow> ArtifactMeta \<Rightarrow> (string \<rightharpoonup> string) \<Rightarrow> bool" where
  "artifact_at W base i meta fs \<longleftrightarrow> (\<exists>bytes. fs (am_file_path meta) = Some bytes \<and> describes W base i meta bytes)"

definition delivers :: "worker_lib \<Rightarrow> string \<Rightarrow> uuid \<Rightarrow> ('z, ArtifactMeta) worker_op \<Rightarrow> bool" where
  "delivers W base i m \<longleftrightarrow> (\<forall>w meta w'. m w = (Inr meta, w') \<longrightarrow> artifact_at W base i meta (files w'))"

lemma delivers_store: "delivers W base i (store_artifact W base i src)"
  using store_artifact_stored(2) unfolding delivers_def artifact_at_def by blast

lemma delivers_after:
  assumes "\<And>a. delivers W base i (f a)"
  shows "delivers W base i (and_then m f)"
  using assms unfolding delivers_def by (auto simp: io_simps split: prod.splits sum.splits)

lemma delivers_then:
  assumes "delivers W base i m" and "\<And>meta. keeps (\<lambda>w. artifact_at W base i meta (files w)) (g meta)"
  shows "delivers W base i (and_then m (\<lambda>meta. and_then (g meta) (\<lambda>_. ret meta)))"
  unfolding delivers_def
proof (intro allI impI)
  fix w meta w' assume "and_then m (\<lambda>meta. and_then (g meta) (\<lambda>_. ret meta)) w = (Inr meta, w')"
  then obtain w1 u where "m w = (Inr meta, w1)" "g meta w1 = (Inr u, w')"
    by (auto simp: io_simps split: prod.splits sum.splits)
  then show "artifact_at W base i meta (files w')"
    using assms(1) keepsD [OF assms(2)] unfolding delivers_def by blast
qed

lemma use_cached_stored:
  fixes w w' :: "'z worker_world_scheme"
  assumes "use_cached H B c key entry w = (Inr meta, w')"
  shows "\<exists>w1. store_artifact (he_lib H) (bw_base_dir B) (j_deployment_id (cj_job c)) (ce_storage_path entry) w = (Inr meta, w1)
    \<and> files w' = files w1"
proof -
  define g :: "('z, unit) worker_op" where "g = and_then (ignore (touch_used (j_project_id (cj_job c)) key)) (\<lambda>_.
    publish_event (j_id (cj_job c)) (j_deployment_id (cj_job c)) ''build.cache.checked''
      (JObject [(''cache_key'', JString key), (''checksum'', JString (ce_artifact_checksum entry)), (''hit'', JBool True)]))"
  have "keeps (\<lambda>w. files w = F) g" for F unfolding g_def by (intro keeps_intros)
  moreover have "use_cached H B c key entry = and_then (store_artifact (he_lib H) (bw_base_dir B) (j_deployment_id (cj_job c)) (ce_storage_path entry))
      (\<lambda>meta. and_then g (\<lambda>_. ret meta))"
    unfolding use_cached_def Let_def g_def and_then_assoc ..
  ultimately show ?thesis using assms by (auto simp: io_simps dest: keepsD split: prod.splits sum.splits)
qed

lemma use_cached_delivers:
  "delivers (he_lib H) (bw_base_dir B) (j_deployment_id (cj_job c)) (use_cached H B c key entry)"
  unfolding delivers_def
  using use_cached_stored delivers_store [unfolded delivers_def] by metis

lemma delivers_finally:
  assumes "delivers W base i m" and "\<And>fs. keeps (\<lambda>w. files w = fs) g"
  shows "delivers W base i (and_then (attempt m) (\<lambda>r. and_then g (\<lambda>_. of_result r)))"
  unfolding delivers_def
proof (intro allI impI)
  fix w meta w' assume "and_then (attempt m) (\<lambda>r. and_then g (\<lambda>_. of_result r)) w = (Inr meta, w')"
  then obtain u where "m w = (Inr meta, snd (m w))" "g (snd (m w)) = (Inr u, w')"
    by (auto simp: io_simps of_result_def prod_eq_iff split: prod.splits sum.splits)
  then show "artifact_at W base i meta (files w')"
    using assms(1) keepsD [OF assms(2)] unfolding delivers_def by metis
qed

lemma keeps_files_sink [keeps_intros]:
  fixes P :: "(string \<rightharpoonup> string) \<Rightarrow> bool"
  shows "keeps (\<lambda>w. P (files w)) (drop_sink F s)"
proof -
  have "keeps (\<lambda>w. P (files w)) (run_pending p)" for p
    unfolding run_pending_def by (cases p) (auto intro!: keeps_intros)
  moreover have "keeps (\<lambda>w. P (files w)) (flush_sink F s)"
    unfolding flush_sink_def by (intro keeps_intros keeps_modify) simp
  ultimately show ?thesis unfolding drop_sink_def wait_all_def by (intro keeps_intros)
qed

lemma build_and_store_delivers:
  "delivers (he_lib H) (bw_base_dir B) (j_deployment_id (cj_job c)) (build_and_store H X B c path plan tree key)"
proof -
  have store: "delivers (he_lib H) (bw_base_dir B) (j_deployment_id job) (store_build H B job key r)" for job r
    unfolding store_build_def by (intro delivers_then delivers_store keeps_intros)
  show ?thesis
    unfolding build_and_store_def Let_def split_beta by (intro delivers_after delivers_finally store keeps_intros)
qed

lemma delivers_option: "delivers W base i m \<Longrightarrow> (\<And>a. delivers W base i (f a)) \<Longrightarrow>
   delivers W base i (case x of None \<Rightarrow> m | Some a \<Rightarrow> f a)"
  by (cases x) simp_all

lemma pipeline_delivers:
  "delivers (he_lib H) (bw_base_dir B) (j_deployment_id (cj_job c)) (execute_pipeline H X B c workspace)"
  unfolding execute_pipeline_def Let_def
  by (intro delivers_after delivers_option use_cached_delivers build_and_store_delivers)

lemma usable_entry_checked:
  assumes "usable_entry H project key w = (Inr (Some entry), w')"
  obtains bytes row where "files w' = files w" "files w (ce_storage_path entry) = Some bytes"
    "eq_ignore_ascii_case (wl_sha256 (he_lib H) bytes) (ce_artifact_checksum entry)"
    "valid_row project key (db w) = Some row" "entry = map_row_to_cache_entry row"
proof -
  from assms obtain row where row: "valid_row project key (db w) = Some row" "entry = map_row_to_cache_entry row"
    by (auto simp: usable_entry_def get_valid_def select_rows_def statement_def io_simps
        split: if_splits option.splits sum.splits prod.splits)
  let ?v = "verify_checksum (he_lib H) (ce_storage_path entry) (ce_artifact_checksum entry) (w\<lparr>tick := Suc (Suc (tick w))\<rparr>)"
  from assms have "fst ?v = Inr ()" "snd ?v = w'"
    by (auto simp: usable_entry_def get_valid_def select_rows_def statement_def io_simps
        split: if_splits option.splits sum.splits prod.splits)
  then have v: "?v = (Inr (), w')" by (metis prod.collapse)
  obtain r2 w2 where c: "compute_sha256 (he_lib H) (ce_storage_path entry) (w\<lparr>tick := Suc (Suc (tick w))\<rparr>) = (r2, w2)" by fastforce
  then obtain sha where sha: "r2 = Inr sha" "w' = w2" "eq_ignore_ascii_case sha (ce_artifact_checksum entry)"
    using v by (cases r2) (auto simp: verify_checksum_def io_simps simp del: append.simps append_Cons split: if_splits)
  obtain n where "w2 = (w\<lparr>tick := Suc (Suc (tick w))\<rparr>)\<lparr>tick := n\<rparr>" using compute_sha256_effect(1) [OF c] by blast
  then show thesis using that row sha compute_sha256_effect(2) [OF c [unfolded sha(1)]] by auto
qed

text \<open>C34. The artifact store.  Whatever fails on the way, the artifact of a deployment is either what it was or the
  whole of the source archive, never a part of it; only that file and temporary files of its directory are
  written and the database is not touched; and a result describes the file that is there: its size, its
  checksum, the bytes of the source archive.\<close>

theorem store_artifact_atomic:
  "case store_artifact W base i src w of (r, w') \<Rightarrow>
     db w' = db w
   \<and> (files w' (artifact_path W base i) = files w (artifact_path W base i)
       \<or> files w' (artifact_path W base i) = files w src \<and> files w src \<noteq> None)
   \<and> {p. files w' p \<noteq> files w p} \<subseteq> insert (artifact_path W base i)
       (range (\<lambda>x. path_join (artifact_dir W base i) (''artifact.tmp.'' @ x)))
   \<and> (case r of Inl e \<Rightarrow> True
       | Inr meta \<Rightarrow> (\<exists>bytes. files w' (am_file_path meta) = Some bytes \<and> am_file_path meta = artifact_path W base i
           \<and> am_sha256 meta = wl_sha256 W bytes \<and> am_size_bytes meta = of_nat (length bytes)
           \<and> (if path_eq src (artifact_path W base i) then files w' = files w else files w src = Some bytes)))"
proof -
  obtain r w' where run: "store_artifact W base i src w = (r, w')" by fastforce
  note st = store_artifact_stored(1) [OF run] and meta = store_artifact_stored(2) [OF run]
  have "{p. files w' p \<noteq> files w p} \<subseteq> insert (artifact_path W base i)
      (range (\<lambda>x. path_join (artifact_dir W base i) (''artifact.tmp.'' @ x)))"
    using st unfolding stored_def by blast
  then show ?thesis using run st meta by (cases r) (auto simp: stored_def describes_def)
qed

text \<open>What a pipeline delivers.  With any executor, any cache, any sources and any failures, a pipeline that
  returns an artifact has put it at the path of the deployment, and the size and the checksum it returns, which
  are recorded in the cache and in the event of the build, are those of the bytes that are there.\<close>

theorem pipeline_artifact_described:
  "case execute_pipeline H X B claimed workspace w of (r, w') \<Rightarrow>
     (case r of Inl e \<Rightarrow> True
      | Inr meta \<Rightarrow> am_file_path meta = artifact_path (he_lib H) (bw_base_dir B) (j_deployment_id (cj_job claimed))
          \<and> (\<exists>bytes. files w' (am_file_path meta) = Some bytes \<and> am_sha256 meta = wl_sha256 (he_lib H) bytes
              \<and> am_size_bytes meta = of_nat (length bytes)))"
proof -
  obtain r w' where run: "execute_pipeline H X B claimed workspace w = (r, w')" by fastforce
  show ?thesis
  proof (cases r)
    case (Inr meta)
    have "artifact_at (he_lib H) (bw_base_dir B) (j_deployment_id (cj_job claimed)) meta (files w')"
      using pipeline_delivers run Inr unfolding delivers_def by blast
    then show ?thesis unfolding run Inr by (auto simp: artifact_at_def describes_def)
  qed (simp add: run)
qed

text \<open>C35. A hit of the cache.  What is deployed from the cache are the bytes the cache row points to, and they have
  the checksum of that row, which is valid and of this project and key: an artifact that was damaged or
  replaced on disk is not deployed.\<close>

theorem cache_hit_checked:
  "case usable_entry H project key w of
     (Inr (Some entry), w1) \<Rightarrow>
       (\<exists>bytes row. valid_row project key (db w) = Some row \<and> entry = map_row_to_cache_entry row
          \<and> files w (bc_storage_path row) = Some bytes
          \<and> eq_ignore_ascii_case (wl_sha256 (he_lib H) bytes) (bc_artifact_checksum row)
          \<and> (case use_cached H B claimed key entry w1 of
               (Inr meta, w2) \<Rightarrow> files w2 (am_file_path meta) = Some bytes
                 \<or> path_eq (bc_storage_path row) (am_file_path meta) \<and> files w2 (bc_storage_path row) = Some bytes
             | _ \<Rightarrow> True))
   | _ \<Rightarrow> True"
proof -
  have "\<exists>bytes row. valid_row project key (db w) = Some row \<and> entry = map_row_to_cache_entry row
          \<and> files w (bc_storage_path row) = Some bytes
          \<and> eq_ignore_ascii_case (wl_sha256 (he_lib H) bytes) (bc_artifact_checksum row)
          \<and> (case use_cached H B claimed key entry w1 of
               (Inr meta, w2) \<Rightarrow> files w2 (am_file_path meta) = Some bytes
                 \<or> path_eq (bc_storage_path row) (am_file_path meta) \<and> files w2 (bc_storage_path row) = Some bytes
             | _ \<Rightarrow> True)"
    if u: "usable_entry H project key w = (Inr (Some entry), w1)" for entry w1
  proof -
    obtain bytes row where b: "files w1 = files w" "files w (ce_storage_path entry) = Some bytes"
      "eq_ignore_ascii_case (wl_sha256 (he_lib H) bytes) (ce_artifact_checksum entry)"
      "valid_row project key (db w) = Some row" "entry = map_row_to_cache_entry row"
      using usable_entry_checked [OF u] .
    have same: "ce_storage_path entry = bc_storage_path row" "ce_artifact_checksum entry = bc_artifact_checksum row"
      using b(5) by (simp_all add: map_row_to_cache_entry_def)
    have "files w2 (am_file_path meta) = Some bytes \<or> path_eq (bc_storage_path row) (am_file_path meta) \<and> files w2 (bc_storage_path row) = Some bytes"
      if run: "use_cached H B claimed key entry w1 = (Inr meta, w2)" for meta w2
    proof -
      obtain w3 where st: "store_artifact (he_lib H) (bw_base_dir B) (j_deployment_id (cj_job claimed)) (bc_storage_path row) w1 = (Inr meta, w3)"
        "files w2 = files w3" using use_cached_stored [OF run] same(1) by auto
      then show ?thesis using store_artifact_stored(2) [OF st(1) refl] b(1,2) same(1)
        by (auto simp: describes_def split: if_splits)
    qed
    then show ?thesis using b same by (intro exI [of _ bytes] exI [of _ row]) (auto split: prod.splits sum.splits)
  qed
  note hit = this
  obtain r w1 where u: "usable_entry H project key w = (r, w1)" by fastforce
  show ?thesis
  proof (cases "\<exists>entry. r = Inr (Some entry)")
    case True
    then obtain entry where "r = Inr (Some entry)" by blast
    then show ?thesis using hit [of entry w1] u by (simp only: prod.case sum.case option.case)
  next
    case False
    then show ?thesis by (simp add: u split: sum.split option.split)
  qed
qed

section \<open>Rounds and the life cycle of jobs\<close>

lemma keeps_db_io_call [keeps_intros]: "keeps_db I (io_call c)"
  by (simp add: keeps_db_def keeps_def io_call_def)

lemma keeps_db_files [keeps_intros]:
  "keeps_db I (copy_file W c f t)" "keeps_db I (rename_file c f t)" "keeps_db I (read_file c p)"
  "keeps_db I (build_image_of T c n a)" "keeps_db I (run_git W G args)"
  by (auto simp: keeps_db_def keeps_def copy_file_def rename_file_def read_file_def build_image_of_def run_git_def
      io_call_def io_simps of_option_def Let_def split: option.splits)

lemma keeps_db_tick [keeps_intros]: "keeps_db I (modify (\<lambda>w. w\<lparr>tick := f w\<rparr>))"
  by (simp add: keeps_db_def keeps_def io_simps)

lemma keeps_db_artifacts [keeps_intros]:
  "keeps_db I (store_artifact W base i src)" "keeps_db I (verify_checksum W p sha)"
  unfolding store_artifact_def put_in_place_def verify_checksum_def compute_sha256_def by (intro keeps_intros)+

lemma keeps_db_checkout [keeps_intros]: "keeps_db I (checkout_commit W G src commit workspace)"
  unfolding checkout_commit_def fetch_commit_def by (intro keeps_intros)

lemma keeps_db_sources [keeps_intros]: "keeps_db I (prepare_source H project i workspace)"
  unfolding prepare_source_def job_commit_def copy_sources_def checkout_sources_def by (intro keeps_intros)

lemma keeps_db_env_column [keeps_intros]: "keeps_db I (env_column c col i)"
  unfolding env_column_def by (intro keeps_intros)

lemma keeps_db_usable_entry [keeps_intros]: "keeps_db I (usable_entry H project key)"
  unfolding usable_entry_def get_valid_def by (intro keeps_intros)

lemma keeps_db_flush_sink [keeps_intros]: "keeps_db I (flush_sink F s)"
  unfolding flush_sink_def by (intro keeps_intros)

lemma job_inv_from_frame:
  assumes "job_inv_from pre d" and "build_jobs d' = build_jobs d" and "build_attempts d' = build_attempts d"
  shows "job_inv_from pre d'"
  using assms job_inv_from_cong by blast

lemma worker_records_keep [keeps_intros]:
  "keeps_db (job_inv_from pre) (publish_event i j t v)" "keeps_db (job_inv_from pre) (touch_used k c)"
  "keeps_db (job_inv_from pre) (store_entry input)" "keeps_db (job_inv_from pre) (wait_all s)"
proof -
  have ins: "keeps_db (job_inv_from pre) (insert_row c ok f)"
    if "\<And>d. build_jobs (f d) = build_jobs d \<and> build_attempts (f d) = build_attempts d" for c ok and f :: "db \<Rightarrow> db"
    using that by (intro keeps_db_insert_row) (auto elim: job_inv_from_frame)
  show "keeps_db (job_inv_from pre) (publish_event i j t v)"
    unfolding publish_event_def by (intro keeps_intros ins) simp
  show "keeps_db (job_inv_from pre) (touch_used k c)"
    unfolding touch_used_def update_cache_def by (intro keeps_intros keeps_db_execute) (auto elim: job_inv_from_frame)
  show "keeps_db (job_inv_from pre) (store_entry input)"
    unfolding store_entry_def
    by (intro keeps_intros keeps_db_statement) (auto simp: store_cache_row_def elim: job_inv_from_frame split: if_splits option.splits)
  have "keeps_db (job_inv_from pre) (run_pending p)" for p
    unfolding run_pending_def by (cases p) (auto intro!: keeps_db_ignore ins)
  then show "keeps_db (job_inv_from pre) (wait_all s)"
    unfolding wait_all_def by (intro keeps_intros)
qed

lemma drop_sink_keeps [keeps_intros]: "keeps_db (job_inv_from pre) (drop_sink F s)"
  unfolding drop_sink_def by (intro keeps_intros)

abbreviation on_db :: "(db \<Rightarrow> bool) \<Rightarrow> 's \<times> 'z worker_world_scheme \<Rightarrow> bool" where
  "on_db I \<equiv> \<lambda>sw. I (db (snd sw))"

lemma keeps_on_world: "keeps_db I m \<Longrightarrow> keeps (on_db I) (on_world m)"
  by (auto simp: keeps_db_def keeps_def on_world_def split: prod.splits)

lemma evolved_iff:
  "evolved pre d \<longleftrightarrow> length (build_jobs pre) \<le> length (build_jobs d)
     \<and> (\<forall>n<length (build_jobs pre). job_step\<^sup>*\<^sup>* (build_jobs pre ! n) (build_jobs d ! n))"
  by (auto simp: evolved_def list_all2_conv_all_nth)

lemma evolved_trans: "evolved a b \<Longrightarrow> evolved b c \<Longrightarrow> evolved a c"
  unfolding evolved_iff by (meson order_trans order_less_le_trans rtranclp_trans)

lemma upsert_attempt_inv:
  assumes inv: "job_inv_from pre d" and row: "lookup_by j_id (a_job_id a) (build_jobs d) = Some j"
    and n: "1 \<le> a_attempt_number a" "a_attempt_number a \<le> j_attempt j" and up: "upsert_attempt a d = (Inr u, d')"
  shows "job_inv_from pre d'"
proof -
  let ?P = "\<lambda>b. a_job_id b = a_job_id a \<and> a_attempt_number b = a_attempt_number a"
  let ?f = "\<lambda>b. b\<lparr>a_worker_id := a_worker_id a, a_status := AttRunning, a_started_at := a_started_at a,
    a_finished_at := None, a_error_message := None\<rparr>"
  from up consider (merged) "d' = d\<lparr>build_attempts := update_where ?P ?f (build_attempts d)\<rparr>"
    | (added) "d' = d\<lparr>build_attempts := build_attempts d @ [a]\<rparr>" "returning ?P ?f (build_attempts d) = []"
    by (auto simp: upsert_attempt_def upsert_into_def first_row_def split: if_splits option.splits list.splits)
  then show ?thesis
  proof cases
    case merged
    show ?thesis unfolding merged by (rule job_inv_from_attempts [OF inv]) simp
  next
    case added
    then have "\<forall>b\<in>set (build_attempts d). \<not> ?P b" by (auto simp: returning_def filter_empty_conv)
    then show ?thesis using inv row n
      by (auto simp: added(1) job_inv_from_def job_inv_def evolved_def attempt_row_ok_def)
  qed
qed

lemma start_attempt_inv:
  assumes run: "start_attempt B claimed w = (r, w')" and inv: "job_inv_from pre (db w)"
    and row: "lookup_by j_id (j_id (cj_job claimed)) (build_jobs (db w)) = Some (cj_job claimed)"
    and n: "cj_attempt_number claimed = j_attempt (cj_job claimed)" "1 \<le> j_attempt (cj_job claimed)"
  shows "job_inv_from pre (db w')"
proof -
  let ?a = "\<lparr>a_id = env_uuid (env w) (tick w), a_job_id = j_id (cj_job claimed), a_attempt_number = cj_attempt_number claimed,
    a_worker_id = bw_worker_id B, a_status = AttRunning, a_error_message = None,
    a_started_at = env_clock (env w) (Suc (tick w)), a_finished_at = None\<rparr>"
  let ?w = "w\<lparr>tick := Suc (Suc (tick w))\<rparr>"
  obtain r1 w1 where st: "statement ''record attempt'' (upsert_attempt ?a) ?w = (r1, w1)" by fastforce
  have w1: "job_inv_from pre (db w1)"
  proof (cases r1)
    case (Inl e)
    then show ?thesis using statement_InlE st inv by fastforce
  next
    case (Inr u)
    then obtain d where "upsert_attempt ?a (db ?w) = (Inr u, d)" "w1 = ?w\<lparr>db := d, tick := Suc (tick ?w)\<rparr>"
      using st statement_InrE by metis
    then show ?thesis using upsert_attempt_inv [of pre "db w" ?a "cj_job claimed" u d] inv row n by simp
  qed
  let ?p = "publish_event (j_id (cj_job claimed)) (j_deployment_id (cj_job claimed)) ''build.started''
    (JObject [(''attempt'', JInt (cj_attempt_number claimed)), (''worker_id'', JString (bw_worker_id B))])"
  have "w' = w1 \<or> w' = snd (?p w1)"
    using run st by (cases r1) (auto simp: start_attempt_def Let_def uuid_new_v4_def now_utc_def io_simps)
  then show ?thesis using w1 keeps_dbD [OF worker_records_keep(1) w1] by auto
qed

text \<open>What a worker relies on: an executor leaves the database alone, but for what its log sink does.\<close>

locale build_executor =
  fixes X :: "'z BuildExecutor"
  assumes keeps_database:
    "(\<And>stream message. keeps (on_db I) (write stream message)) \<Longrightarrow> keeps (on_db I) (X write plan path tree)"
begin

lemma run_executor_keeps: "keeps_db (job_inv_from pre) (run_executor H X plan path tree sink)"
  unfolding keeps_db_def
proof (rule keepsI)
  fix w :: "'z worker_world_scheme" assume inv: "job_inv_from pre (db w)"
  have "keeps (on_db I) (durable_write F stream message)" for I F stream message
    unfolding durable_write_def
    by (intro keeps_and_then keeps_on_world keeps_intros) (auto simp: keeps_def split: prod.splits)
  then have x: "keeps (on_db (job_inv_from pre)) (X (durable_write (he_fmt H)) plan path tree)"
    by (rule keeps_database)
  obtain r s w1 where run: "X (durable_write (he_fmt H)) plan path tree (sink, w) = (r, s, w1)"
    by (metis prod_cases3)
  have w1: "job_inv_from pre (db w1)" using keepsD [OF x _ run] inv by simp
  have "keeps_db (job_inv_from pre) (and_then (drop_sink (he_fmt H) s) (\<lambda>_. fail e) :: ('z, BuildResult \<times> DurableLogSink) worker_op)"
    "keeps_db (job_inv_from pre) (and_then (flush_sink (he_fmt H) s) (\<lambda>s'. and_then (wait_all s') (\<lambda>_. ret (a, s'\<lparr>ds_handles := []\<rparr>)))
       :: ('z, BuildResult \<times> DurableLogSink) worker_op)" for e a
    by (intro keeps_intros)+
  from keeps_dbD [OF this(1) w1] keeps_dbD [OF this(2) w1]
  show "job_inv_from pre (db (snd (run_executor H X plan path tree sink w)))"
    by (cases r) (simp_all add: run_executor_def run)
qed

lemma pipeline_keeps: "keeps_db (job_inv_from pre) (execute_pipeline H X B claimed workspace)"
  unfolding execute_pipeline_def use_cached_def build_and_store_def store_build_def split_beta
  by (intro keeps_intros run_executor_keeps)

lemma run_build_job_keeps:
  fixes w :: "'z worker_world_scheme"
  assumes inv: "job_inv_from pre (db w)" and row: "lookup_by j_id (j_id (cj_job claimed)) (build_jobs (db w)) = Some (cj_job claimed)"
    and n: "cj_attempt_number claimed = j_attempt (cj_job claimed)" "1 \<le> j_attempt (cj_job claimed)"
    and others: "\<And>v :: 'z worker_world_scheme. job_inv (db v) \<Longrightarrow> job_inv_from (db v) (db (meanwhile v))"
  shows "job_inv_from pre (db (snd (run_build_job H X meanwhile renewals B claimed w)))"
proof -
  obtain r w1 where st: "start_attempt B claimed w = (r, w1)" by fastforce
  have w1: "job_inv_from pre (db w1)" using start_attempt_inv [OF st inv row n] .
  have m: "keeps_db (job_inv_from pre) (modify meanwhile :: ('z, unit) worker_op)"
    using others evolved_trans by (auto simp: keeps_db_def keeps_def io_simps job_inv_from_def)
  show ?thesis
  proof (cases r)
    case (Inl e)
    then show ?thesis using st w1 by (simp add: run_build_job_def io_simps)
  next
    case (Inr u)
    have "keeps_db (job_inv_from pre) (build_job H X meanwhile renewals B claimed)"
      unfolding build_job_def build_succeeded_def build_failed_def by (intro keeps_intros pipeline_keeps m)
    from keeps_dbD [OF this w1] show ?thesis using st Inr by (simp add: run_build_job_def io_simps)
  qed
qed

lemma run_once_inv:
  fixes w :: "'z worker_world_scheme"
  assumes inv: "job_inv (db w)" and run: "run_once H X meanwhile renewals B w = (r, w')"
    and others: "\<And>v :: 'z worker_world_scheme. job_inv (db v) \<Longrightarrow> job_inv_from (db v) (db (meanwhile v))"
  shows "job_inv_from (db w) (db w')"
proof -
  let ?claim = "claim (he_parse_uuid H) (bw_queue B) (bw_worker_id B) (lease_millis B)"
  obtain c w1 where cl: "?claim w = (c, w1)" by fastforce
  have w1: "job_inv_from (db w) (db w1)" using claim_outcome_claim [OF inv cl] by (simp add: claim_outcome_def)
  show ?thesis
  proof (cases "\<exists>claimed. c = Inr (Some claimed)")
    case False
    then have "w' = w1" using run cl by (auto simp: run_once_def io_simps split: sum.splits option.splits)
    then show ?thesis using w1 by simp
  next
    case True
    then obtain claimed where c: "c = Inr (Some claimed)" by blast
    have out: "leased (bw_worker_id B) (db w) (cj_job claimed) (db w1)" "cj_attempt_number claimed = j_attempt (cj_job claimed)"
      using claim_outcome_claim [OF inv cl] unfolding c claim_outcome_def by simp_all
    note l = leased_lookup [OF inv out(1)]
    show ?thesis
    proof (cases "env_db_fault (env w1) (tick w1)")
      case True
      then have "w' = w1\<lparr>tick := Suc (tick w1)\<rparr>" using run cl c by (auto simp: run_once_def io_simps select_rows_def statement_def)
      then show ?thesis using w1 by simp
    next
      case False
      then have "w' = snd (run_build_job H X meanwhile renewals B claimed (w1\<lparr>tick := Suc (tick w1)\<rparr>))"
        using run cl c l(1,5) by (auto simp: run_once_def io_simps select_rows_def statement_def)
      then show ?thesis
        using run_build_job_keeps [of "db w" "w1\<lparr>tick := Suc (tick w1)\<rparr>" claimed meanwhile H renewals B] w1 l(1,3) out(2) others by simp
    qed
  qed
qed

end


lemma keeps_pump:
  assumes "\<And>stream message. keeps I (write stream message)"
  shows "keeps I (pump write secs late deadline fin turns)"
proof (induction turns arbitrary: fin)
  case Nil
  then show ?case by (simp add: keeps_ret keeps_fail)
next
  case (Cons t turns)
  then show ?case using assms
    by (cases t; cases "snd t") (auto intro!: keeps_ret keeps_fail keeps_and_then)
qed

interpretation minidock_executor: build_executor "execute_plan W T E" for W T E
proof
  fix I and wr :: "LogStream \<Rightarrow> string \<Rightarrow> (DurableLogSink, 'z, unit) build_op" and plan path tree
  assume w: "\<And>stream message. keeps (on_db I) (wr stream message)"
  have "keeps_db I (modify (\<lambda>w. w\<lparr>commands := commands w @ [cmd]\<rparr>) :: ('z, unit) worker_op)" for cmd
    by (simp add: keeps_db_def keeps_def io_simps)
  then have "keeps (on_db I) (run_command_streamed W T E wr cmd t)" for cmd t
    unfolding run_command_streamed_def using w
    by (intro keeps_if keeps_and_then keeps_ret keeps_on_world keeps_of_option keeps_pump keeps_option keeps_fail keeps_intros)
  moreover have "keeps_db I (package_output W T E path out t :: ('z, string) worker_op)" for out t
    unfolding package_output_def by (intro keeps_intros)
  ultimately show "keeps (on_db I) (execute_plan W T E wr plan path tree)"
    unfolding execute_plan_def by (intro keeps_and_then keeps_of_result keeps_on_world keeps_ret keeps_intros)
qed

text \<open>C32. A round of a worker moves every job along its life cycle and keeps the invariant of the queue: the attempts
  it records are within the claims of their job and a lease is held exactly while a job runs.  This holds for
  every pattern of failures, every source, every child process and every reply of Redis, and whatever other
  processes do while the build runs, as long as they, too, keep to the life cycle.\<close>

theorem round_refines_lifecycle:
  fixes w :: "'z worker_world_scheme"
  assumes "job_inv (db w)" and "\<And>v :: 'z worker_world_scheme. job_inv (db v) \<Longrightarrow> job_inv_from (db v) (db (meanwhile v))"
    and "run_once H (execute_plan W T E) meanwhile renewals B w = (r, w')"
  shows "job_inv (db w') \<and> evolved (db w) (db w')"
  using minidock_executor.run_once_inv [OF assms(1,3,2)] by (simp add: job_inv_from_def)

end
