(* ===== verification/Worker_Claims.thy ===== *)
theory Worker_Claims
  imports Worker_Correct
begin

text \<open>
  How the end of a build is recorded, which errors are tried again, what a checkout runs, and examples of a
  worker at work.
\<close>

section \<open>The record of a failure\<close>

lemma publish_event_run:
  assumes "no_db_faults w" and "\<And>n. env_uuid (env w) n \<notin> be_id ` set (build_events (db w))"
    and "has_key j_id i (build_jobs (db w))" and "has_key d_id k (deployments (db w))"
  obtains r n where "publish_event i k t v w = (Inr (), w\<lparr>db := (db w)\<lparr>build_events := build_events (db w) @ [r]\<rparr>, tick := n\<rparr>)"
    "be_event_type r = t" "be_payload r = v" "be_job_id r = i"
proof -
  have "\<not> has_key be_id (env_uuid (env w) n) (build_events (db w))" for n
    using assms(2) by (simp add: sql_simps)
  then show thesis using assms that
    by (simp add: publish_event_def now_utc_def uuid_new_v4_def insert_row_def statement_def event_insert_ok_def Let_def io_simps
        no_db_faults_def)
qed

definition fail_status :: "bool \<Rightarrow> BuildJobRecord \<Rightarrow> JobStatus" where
  "fail_status retryable j = (if retryable \<and> j_attempt j < j_max_attempts j then JobQueued else JobFailed)"

text \<open>The attempt of a worker that is running is closed with the error; every other attempt stays as it is.\<close>

definition attempt_failed :: "uuid \<Rightarrow> string \<Rightarrow> string \<Rightarrow> timestamp \<Rightarrow> BuildAttempt \<Rightarrow> BuildAttempt" where
  "attempt_failed i worker e now a =
     (if a_job_id a = i \<and> a_worker_id a = worker \<and> a_status a = AttRunning
      then a\<lparr>a_status := AttFailed, a_finished_at := Some now, a_error_message := Some e\<rparr> else a)"

lemma attempt_failed_map:
  "map (attempt_failed i worker e now) as =
     update_where (\<lambda>a. a_job_id a = i \<and> a_worker_id a = worker \<and> a_status a = AttRunning)
       (\<lambda>a. a\<lparr>a_status := AttFailed, a_finished_at := Some now, a_error_message := Some e\<rparr>) as"
  by (simp add: attempt_failed_def update_where_def)

lemma queue_fail_run:
  assumes "no_db_faults w" and "no_redis_faults w" and row: "lookup_by j_id i (build_jobs (db w)) = Some j"
    and "j_lease_owner j = Some worker"
  obtains w' now where "queue_fail q i worker s m e retryable w = (Inr (), w')"
    "lookup_by j_id i (build_jobs (db w')) = Some (release_job (fail_status retryable j) (Some e) now j)"
    "deployments (db w') = (if fail_status retryable j = JobQueued then deployments (db w)
       else update_where (\<lambda>r. d_id r = j_deployment_id j) (\<lambda>r. r\<lparr>d_status := DepFailed, d_error := Some e\<rparr>) (deployments (db w)))"
    "redis_log w' = redis_log w @ (if fail_status retryable j = JobQueued then [XADD s i (j_deployment_id j)] else []) @ [XACK s (consumer_group q) m]"
    "build_attempts (db w') = map (attempt_failed i worker e now) (build_attempts (db w))"
proof -
  have j: "j_id j = i" using row lookup_by_Some by metis
  have held: "held_by i worker j" using assms(4) j by (simp add: held_by_def)
  have key: "j_id (release_job st er now x) = j_id x" for st er now x by (simp add: release_job_def)
  have look: "lookup_by j_id i (update_where (held_by i worker) (release_job st er now) (build_jobs (db w))) = Some (release_job st er now j)" for st er now
    using row held key by (simp add: lookup_by_update_where)
  let ?run = "queue_fail q i worker s m e retryable w"
  note defs = queue_fail_def now_utc_def get_job_def select_rows_def statement_def update_jobs_def close_attempts_def
    set_deployment_def execute_def redis_connect_def redis_send_def io_simps of_option_def
  have f: "\<not> env_db_fault (env w) n" "\<not> env_redis_fault (env w) n" for n
    using assms(1,2) by (simp_all add: no_db_faults_def no_redis_faults_def)
  have "fst ?run = Inr ()" "redis_log (snd ?run) = redis_log w @ (if fail_status retryable j = JobQueued then [XADD s i (j_deployment_id j)] else []) @ [XACK s (consumer_group q) m]"
    by (auto simp: defs f row j fail_status_def)
  moreover have "lookup_by j_id i (build_jobs (db (snd ?run))) =
        Some (release_job (fail_status retryable j) (Some e) (env_clock (env w) (tick w)) j)"
    by (cases "retryable \<and> j_attempt j < j_max_attempts j") (auto simp: defs f row j fail_status_def look)
  moreover have "build_attempts (db (snd ?run)) = map (attempt_failed i worker e (env_clock (env w) (tick w))) (build_attempts (db w))"
    unfolding attempt_failed_map
    by (cases "retryable \<and> j_attempt j < j_max_attempts j") (auto simp: defs f row j fail_status_def)
  moreover have "deployments (db (snd ?run)) = (if fail_status retryable j = JobQueued then deployments (db w)
       else update_where (\<lambda>r. d_id r = j_deployment_id j) (\<lambda>r. r\<lparr>d_status := DepFailed, d_error := Some e\<rparr>) (deployments (db w)))"
    by (auto simp: defs f row j fail_status_def)
  ultimately show thesis using that by (metis prod.collapse)
qed

lemma and_then_Inr: "m w = (Inr a, w') \<Longrightarrow> and_then m f w = f a w'"
  by (simp add: io_simps)

lemma set_deployment_run2:
  assumes "no_db_faults w"
  shows "set_deployment k f w = (Inr (), w\<lparr>db := (db w)\<lparr>deployments := update_where (\<lambda>r. d_id r = k) f (deployments (db w))\<rparr>,
    tick := Suc (tick w)\<rparr>)"
  using assms by (simp add: set_deployment_def execute_def statement_def io_simps no_db_faults_def)

definition shown :: "uuid \<Rightarrow> db \<Rightarrow> (DeploymentStatus \<times> string option) option" where
  "shown k d = map_option (\<lambda>r. (d_status r, d_error r)) (lookup_by d_id k (deployments d))"

lemma lookup_set_deployment:
  assumes "\<And>r. d_id (f r) = d_id r"
  shows "lookup_by d_id k (update_where (\<lambda>r. d_id r = k) f t) = map_option f (lookup_by d_id k t)"
  using assms by (induction t) (auto simp: sql_simps)

text \<open>What is left to do once the deployment is marked failed, if it has to be.\<close>

lemma build_failed_run:
  fixes H err
  defines "msg \<equiv> err_text H err"
  defines "retry \<equiv> is_retryable_error msg"
  assumes "no_db_faults w" and "k = j_deployment_id (cj_job claimed)"
    and "ds = (if retry then deployments (db w) else update_where (\<lambda>r. d_id r = k)
       (\<lambda>r. r\<lparr>d_status := DepFailed, d_error := Some msg, d_finished_at := Some (env_clock (env w) (tick w))\<rparr>) (deployments (db w)))"
    and "w1 = (if retry then w\<lparr>tick := Suc (tick w)\<rparr> else w\<lparr>db := (db w)\<lparr>deployments := ds\<rparr>, tick := Suc (Suc (tick w))\<rparr>)"
  shows "build_failed H B claimed err w =
    and_then (publish_event (j_id (cj_job claimed)) k (if retry then ''build.retry'' else ''build.failed'')
        (JObject [(''error'', JString msg), (''retryable'', JBool retry)])) (\<lambda>_.
    and_then (queue_fail (bw_queue B) (j_id (cj_job claimed)) (bw_worker_id B) (cj_stream_name claimed) (cj_stream_id claimed) msg retry) (\<lambda>_.
    ret (if retry then WoRetried (j_id (cj_job claimed)) else WoFailed (j_id (cj_job claimed))))) w1"
  using assms(3,4) set_deployment_run2 [of "w\<lparr>tick := Suc (tick w)\<rparr>" k]
  by (cases retry) (simp_all add: build_failed_def Let_def and_then_Inr [OF now_utc_run] and_then_Inr [OF ret_run] and_then_Inr
      assms(5,6) no_db_faults_def flip: msg_def retry_def)

text \<open>C33. The record of a failed build.  A worker that holds the lease and reaches PostgreSQL and Redis records how its
  build failed: an error that may go away puts the job back in the queue with a new message, as long as attempts
  are left, and leaves the deployment as it is; any other error, and the last attempt, mark the job and the
  deployment failed with the text of the error.  In every case the running attempt of the worker is closed as failed
  with the text of the error and every other attempt stays as it is, the lease is given up and the message is
  acknowledged.\<close>

theorem failed_build_recorded:
  assumes "no_db_faults w" and "no_redis_faults w"
    and "lookup_by j_id (j_id (cj_job claimed)) (build_jobs (db w)) = Some j" and "j_lease_owner j = Some (bw_worker_id B)"
    and "j_deployment_id j = j_deployment_id (cj_job claimed)" and "shown (j_deployment_id j) (db w) = Some before"
    and "\<And>n. env_uuid (env w) n \<notin> be_id ` set (build_events (db w))"
  shows "\<exists>w' now. build_failed H B claimed err w =
       (Inr (if is_retryable_error (err_text H err) then WoRetried (j_id j) else WoFailed (j_id j)), w')
     \<and> build_attempts (db w') = map (attempt_failed (j_id j) (bw_worker_id B) (err_text H err) now) (build_attempts (db w))
     \<and> (if is_retryable_error (err_text H err) \<and> j_attempt j < j_max_attempts j
        then lookup_by j_id (j_id j) (build_jobs (db w')) = Some (release_job JobQueued (Some (err_text H err)) now j)
          \<and> shown (j_deployment_id j) (db w') = Some before
          \<and> redis_log w' = redis_log w @ [XADD (cj_stream_name claimed) (j_id j) (j_deployment_id j),
              XACK (cj_stream_name claimed) (consumer_group (bw_queue B)) (cj_stream_id claimed)]
        else lookup_by j_id (j_id j) (build_jobs (db w')) = Some (release_job JobFailed (Some (err_text H err)) now j)
          \<and> shown (j_deployment_id j) (db w') = Some (DepFailed, Some (err_text H err))
          \<and> redis_log w' = redis_log w @ [XACK (cj_stream_name claimed) (consumer_group (bw_queue B)) (cj_stream_id claimed)])"
proof -
  let ?text = "err_text H err" and ?k = "j_deployment_id j" and ?i = "j_id (cj_job claimed)"
  let ?retry = "is_retryable_error ?text"
  let ?failed = "\<lambda>r. r\<lparr>d_status := DepFailed, d_error := Some ?text, d_finished_at := Some (env_clock (env w) (tick w))\<rparr>"
  define ds where "ds = (if ?retry then deployments (db w) else update_where (\<lambda>r. d_id r = ?k) ?failed (deployments (db w)))"
  define w1 where "w1 = (if ?retry then w\<lparr>tick := Suc (tick w)\<rparr> else w\<lparr>db := (db w)\<lparr>deployments := ds\<rparr>, tick := Suc (Suc (tick w))\<rparr>)"
  have i: "j_id j = ?i" using assms(3) lookup_by_Some by metis
  obtain row where row: "lookup_by d_id ?k (deployments (db w)) = Some row" "before = (d_status row, d_error row)"
    using assms(6) by (auto simp: shown_def)
  have ds: "lookup_by d_id ?k ds = Some (if ?retry then row else ?failed row)"
    using row(1) by (simp add: ds_def lookup_set_deployment)
  have w1: "no_db_faults w1" "no_redis_faults w1" "build_jobs (db w1) = build_jobs (db w)" "deployments (db w1) = ds"
    "redis_log w1 = redis_log w" "env w1 = env w" "build_events (db w1) = build_events (db w)"
    "build_attempts (db w1) = build_attempts (db w)"
    using assms(1,2) by (simp_all add: w1_def ds_def no_db_faults_def no_redis_faults_def)
  have keys: "has_key j_id ?i (build_jobs (db w1))" "has_key d_id ?k (deployments (db w1))"
    using assms(3) ds w1(3,4) lookup_by_None [of j_id] lookup_by_None [of d_id] by (metis has_key_iff option.distinct(1))+
  have fresh: "env_uuid (env w1) n \<notin> be_id ` set (build_events (db w1))" for n using assms(7) w1(6,7) by simp
  obtain ev n where pub: "publish_event ?i ?k (if ?retry then ''build.retry'' else ''build.failed'')
      (JObject [(''error'', JString ?text), (''retryable'', JBool ?retry)]) w1 =
      (Inr (), w1\<lparr>db := (db w1)\<lparr>build_events := build_events (db w1) @ [ev]\<rparr>, tick := n\<rparr>)"
    using publish_event_run [OF w1(1) fresh keys] by metis
  let ?w2 = "w1\<lparr>db := (db w1)\<lparr>build_events := build_events (db w1) @ [ev]\<rparr>, tick := n\<rparr>"
  have w2: "no_db_faults ?w2" "no_redis_faults ?w2" "lookup_by j_id ?i (build_jobs (db ?w2)) = Some j"
    using w1 assms(3) by (simp_all add: no_db_faults_def no_redis_faults_def)
  have w2': "deployments (db ?w2) = ds" "redis_log ?w2 = redis_log w" "build_attempts (db ?w2) = build_attempts (db w)"
    using w1(4,5,8) by simp_all
  obtain w3 now where q: "queue_fail (bw_queue B) ?i (bw_worker_id B) (cj_stream_name claimed) (cj_stream_id claimed) ?text ?retry ?w2 = (Inr (), w3)"
    "lookup_by j_id ?i (build_jobs (db w3)) = Some (release_job (fail_status ?retry j) (Some ?text) now j)"
    "deployments (db w3) = (if fail_status ?retry j = JobQueued then ds
       else update_where (\<lambda>r. d_id r = ?k) (\<lambda>r. r\<lparr>d_status := DepFailed, d_error := Some ?text\<rparr>) ds)"
    "redis_log w3 = redis_log w @ (if fail_status ?retry j = JobQueued then [XADD (cj_stream_name claimed) ?i ?k] else []) @
       [XACK (cj_stream_name claimed) (consumer_group (bw_queue B)) (cj_stream_id claimed)]"
    "build_attempts (db w3) = map (attempt_failed ?i (bw_worker_id B) ?text now) (build_attempts (db w))"
    by (rule queue_fail_run [OF w2 assms(4), unfolded w2'])
  have "build_failed H B claimed err w = (Inr (if ?retry then WoRetried ?i else WoFailed ?i), w3)"
    unfolding build_failed_run [OF assms(1,5) ds_def w1_def] using pub q(1) by (simp add: io_simps)
  moreover have "shown ?k (db w3) = Some (if fail_status ?retry j = JobQueued then before else (DepFailed, Some ?text))"
    using ds row(2) by (auto simp: shown_def q(3) lookup_set_deployment fail_status_def split: if_splits)
  ultimately show ?thesis using q(2,4,5) i by (auto simp: fail_status_def)
qed

section \<open>A worker at work\<close>

definition demo_lib :: worker_lib where
  "demo_lib = \<lparr>wl_uuid_str = (\<lambda>u. show_nat (unat u)), wl_simple = (\<lambda>u. show_nat (unat u)), wl_sha256 = (\<lambda>s. ''sha'' @ s),
     wl_partial = (\<lambda>_. None), wl_debug = (\<lambda>_. ''cmd''), wl_debug_path = id, wl_debug_code = (\<lambda>_. ''code''),
     wl_debug_duration = (\<lambda>_. ''time'')\<rparr>"

definition demo_host_env :: "fnode \<Rightarrow> host_env" where
  "demo_host_env tree = \<lparr>he_lib = demo_lib,
     he_git = \<lparr>gt_run = (\<lambda>_ _. None), gt_scheme = (\<lambda>_. ''https''), gt_file_path = (\<lambda>_. None), gt_tree = (\<lambda>_. NoType)\<rparr>,
     he_fmt = \<lparr>lf_rfc3339 = (\<lambda>_. None), lf_uuid_str = (\<lambda>_. ''id'')\<rparr>, he_error_text = (\<lambda>_. ''error''),
     he_parse_uuid = demo_parse_uuid, he_from_str = (\<lambda>_. Inr JNull), he_to_string = (\<lambda>_. Some ''json''),
     he_url_parse = Inr, he_meta_len = (\<lambda>_. None),
     he_redactor = \<lparr>secret_fingerprints = [], re_private_key = id, re_aws = id, re_bearer = id, re_tokens = id, re_assignment = id\<rparr>,
     he_source = (\<lambda>_ _. Some tree), he_commit_sha = (\<lambda>_. None)\<rparr>"

definition site :: "string \<Rightarrow> fnode" where
  "site page = Directory True [(''index.html'', RegularFile (Some page))]"

definition demo_tools :: toolbox where
  "demo_tools = \<lparr>tb_spawn = (\<lambda>_ _ _. None),
     tb_build_image = (\<lambda>_ n. Option.bind (child n ''index.html'') file_bytes)\<rparr>"

definition demo_executor :: "unit BuildExecutor" where
  "demo_executor = execute_plan demo_lib demo_tools \<lparr>artifacts_dir = ''/a'', exec_timeout = 900, secrets = []\<rparr>"

definition demo_worker :: BuildWorker where
  "demo_worker = \<lparr>bw_worker_id = ''w1'', bw_queue = demo_queue, bw_base_dir = ''/b'', bw_workspace_root = ''/w'',
     bw_lease_duration = 30000000000\<rparr>"

definition worker_of :: "queue_world \<Rightarrow> worker_world" where
  "worker_of w = \<lparr>env = env w, tick = tick w, db = db w, redis_log = redis_log w,
     prod_claims_counter = prod_claims_counter w, files = Map.empty, commands = []\<rparr>"

definition demo_round :: "(worker_world \<Rightarrow> worker_world) \<Rightarrow> (error + BuildWorkerOutcome) \<times> worker_world" where
  "demo_round meanwhile = run_once (demo_host_env (site ''hi'')) demo_executor meanwhile 1 demo_worker (worker_of demo_enqueued)"

text \<open>Job 11 as worker \<open>w1\<close> has claimed it.\<close>

definition demo_claimed_job :: ClaimedJob where
  "demo_claimed_job = \<lparr>cj_job = lease_job ''w1'' 29 24 demo_job1, cj_attempt_number = 1,
     cj_stream_name = ''build_jobs:production'', cj_stream_id = ''1-0''\<rparr>"

theorem failed_build_recorded_witness:
  "\<exists>w' now. build_failed (demo_host_env NoType) demo_worker demo_claimed_job (Message ''unsupported framework'') (worker_of demo_claimed) =
       (Inr (WoFailed 11), w')
     \<and> lookup_by j_id 11 (build_jobs (db w')) = Some (release_job JobFailed (Some ''unsupported framework'') now (lease_job ''w1'' 29 24 demo_job1))
     \<and> build_attempts (db w') = map (attempt_failed 11 ''w1'' ''unsupported framework'' now) (build_attempts (db demo_claimed))
     \<and> shown 3 (db w') = Some (DepFailed, Some ''unsupported framework'')"
proof -
  let ?w = "worker_of demo_claimed" and ?j = "lease_job ''w1'' 29 24 demo_job1" and ?H = "demo_host_env NoType"
  have "\<not> is_retryable_error (err_text ?H (Message ''unsupported framework''))"
    "err_text ?H (Message ''unsupported framework'') = ''unsupported framework''" by code_simp+
  moreover have "no_db_faults ?w" "no_redis_faults ?w"
    using demo_env_faults by (simp_all add: worker_of_def demo_claimed_eq demo_enqueued_eq no_db_faults_def no_redis_faults_def)
  moreover have "lookup_by j_id (j_id (cj_job demo_claimed_job)) (build_jobs (db ?w)) = Some ?j"
    "shown (j_deployment_id ?j) (db ?w) = Some (DepBuilding, None)"
    "env_uuid (env ?w) n \<notin> be_id ` set (build_events (db ?w))" for n
    by (simp_all add: worker_of_def demo_claimed_eq demo_enqueued_eq demo_claimed_job_def shown_def sql_simps lease_job_def new_job_def
        demo_input_def demo_deployment_def demo_queue_world_def demo_db_def empty_db_def)
  moreover have "j_lease_owner ?j = Some (bw_worker_id demo_worker)" "j_deployment_id ?j = j_deployment_id (cj_job demo_claimed_job)"
    "j_id ?j = 11" "j_deployment_id ?j = 3"
    "bw_worker_id demo_worker = ''w1''" "build_attempts (db ?w) = build_attempts (db demo_claimed)"
    by (simp_all add: lease_job_def new_job_def demo_input_def demo_claimed_job_def demo_worker_def worker_of_def)
  ultimately show ?thesis
    using failed_build_recorded [of ?w demo_claimed_job ?j demo_worker "(DepBuilding, None)" ?H "Message ''unsupported framework''"]
    by auto
qed

theorem round_refines_lifecycle_witness:
  "\<exists>r w'. demo_round id = (r, w') \<and> job_inv (db w') \<and> evolved (db (worker_of demo_enqueued)) (db w')"
proof -
  obtain r w' where run: "demo_round id = (r, w')" by fastforce
  have inv: "job_inv (db (worker_of demo_enqueued))" using queue_reach_inv [OF demo_queue_reach(2)] by (simp add: worker_of_def)
  have "job_inv (db v) \<Longrightarrow> job_inv_from (db v) (db (id v))" for v :: worker_world by simp
  from round_refines_lifecycle [OF inv this run [unfolded demo_round_def demo_executor_def]] run show ?thesis by blast
qed

text \<open>What the last update of a build does not ask: a build that was cancelled while it ran is finished all the same.
  The job stays cancelled, and the deployment is recorded as running.\<close>

theorem cancelled_build_deployed:
  "case build_succeeded (demo_host_env NoType) demo_worker demo_claimed_job
       \<lparr>am_id = 1, am_deployment_id = 3, am_file_path = ''/b/3/artifact.tar.gz'', am_size_bytes = 2, am_sha256 = ''sha'', am_created_at = 0\<rparr>
       (snd (cancel 11 (worker_of demo_claimed))) of
     (r, w') \<Rightarrow> r = Inr (WoCompleted 11)
       \<and> map_option j_status (lookup_by j_id 11 (build_jobs (db w'))) = Some JobCancelled
       \<and> map_option d_status (lookup_by d_id 3 (deployments (db w'))) = Some DepRunning"
  by code_simp

section \<open>Errors that are not tried again\<close>

lemma str_contains_append: "str_contains s p \<Longrightarrow> str_contains (a @ s) p"
  by (induction a) auto

lemma str_contains_prefix: "str_contains (p @ b) p"
proof -
  have "take (length p) (p @ b) = p" by simp
  then show ?thesis by (metis append_is_Nil_conv list.exhaust str_contains.simps)
qed

lemma hopelessI:
  assumes "phrase \<in> set hopeless_phrases"
  shows "\<not> is_retryable_error (a @ phrase @ b)"
proof -
  have "list_all (\<lambda>p. to_lowercase p = p) hopeless_phrases" by code_simp
  then have "to_lowercase phrase = phrase" using assms by (simp add: list_all_iff)
  then have "str_contains (to_lowercase (a @ phrase @ b)) phrase"
    using str_contains_append [OF str_contains_prefix] by (simp add: to_lowercase_def)
  then show ?thesis using assms by (auto simp: is_retryable_error_def Let_def list_ex_iff)
qed

lemma hopeless_messages:
  "\<not> is_retryable_error (''unsupported framework: no recognized project files found in '' @ b)"
  "\<not> is_retryable_error (''ambiguous framework: detected multiple project indicators ('' @ b)"
  "\<not> is_retryable_error (''invalid package.json in '' @ b)"
  "\<not> is_retryable_error (''build output path does not exist: '' @ b)"
  "\<not> is_retryable_error (a @ '' failed with status: '' @ b)"
  "\<not> is_retryable_error (''path traversal detected in output path: '' @ b)"
  using hopelessI [of "''unsupported framework''" "[]" "'': no recognized project files found in '' @ b"]
    hopelessI [of "''ambiguous framework''" "[]" "'': detected multiple project indicators ('' @ b"]
    hopelessI [of "''invalid package.json''" "[]" "'' in '' @ b"]
    hopelessI [of "''build output path does not exist''" "[]" "'': '' @ b"]
    hopelessI [of "''failed with status''" "a @ '' ''" "'': '' @ b"]
    hopelessI [of "''traversal''" "''path ''" "'' detected in output path: '' @ b"]
  by (simp_all add: hopeless_phrases_def)

text \<open>Errors of the sources are final.  A build is not tried again when its sources have no framework or more than
  one, when their \<^verbatim>\<open>package.json\<close> cannot be parsed, or when the build has not left the output of its plan: the
  messages of these errors, whatever paths and names are in them, are never taken for errors that may go away.\<close>

theorem source_errors_final:
  "(case detect_build_plan from_str path tree of Inl (Message m) \<Rightarrow> \<not> is_retryable_error m | _ \<Rightarrow> True)
   \<and> (case package_output W T E workspace out tree w of (Inl (Message m), _) \<Rightarrow> \<not> is_retryable_error m | _ \<Rightarrow> True)"
proof -
  have "case detect_build_plan from_str path tree of Inl (Message m) \<Rightarrow> \<not> is_retryable_error m | _ \<Rightarrow> True"
    unfolding detect_build_plan_def read_package_json_def plan_of_def and_ok_def Let_def
    by (auto simp: hopeless_messages simp del: append.simps append_Cons split: sum.splits option.splits error.splits if_splits)
  moreover have "case package_output W T E workspace out tree w of (Inl (Message m), _) \<Rightarrow> \<not> is_retryable_error m | _ \<Rightarrow> True"
    by (auto simp: package_output_def Let_def io_simps io_call_def uuid_new_v4_def build_image_of_def hopeless_messages
        simp del: append.simps append_Cons split: if_splits option.splits)
  ultimately show ?thesis by blast
qed

section \<open>The key of the cache\<close>

text \<open>What the key leaves out: two sources with the same lock files and the same plan have the same key, whatever
  else is in them, so that a changed page is served from the artifact of the old one.\<close>

theorem cache_key_ignores_sources:
  assumes "list_ex (\<lambda>lf. lock_bytes t1 lf \<noteq> None) lockfiles" and "\<And>lf. lock_bytes t1 lf = lock_bytes t2 lf"
  shows "worker_cache_key H plan t1 keys = worker_cache_key H plan t2 keys"
proof -
  have "hashed_bytes (he_meta_len H) t1 = hashed_bytes (he_meta_len H) t2"
    using assms unfolding hashed_bytes_def by simp
  then show ?thesis by (simp add: worker_cache_key_def cache_input_def compute_lockfile_digest_def)
qed

section \<open>Checkouts\<close>

text \<open>The command lines of a checkout of a commit from a URL.\<close>

definition git_calls :: "error + string \<Rightarrow> string \<Rightarrow> string list set" where
  "git_calls url commit = {[''git'', ''init''], [''git'', ''fetch'', ''origin''], [''git'', ''rev-parse'', ''HEAD''],
     [''git'', ''fetch'', ''--depth'', ''1'', ''origin'', commit], [''git'', ''checkout'', ''--detach'', commit]}
     \<union> {[''git'', ''remote'', ''add'', ''origin'', u] |u. url = Inr u}"

text \<open>The last thing that was run is \<^verbatim>\<open>git rev-parse HEAD\<close>, right after the checkout of the commit, and it answered \<open>sha\<close>.\<close>

definition head_is :: "git_tool \<Rightarrow> string \<Rightarrow> string \<Rightarrow> 'z worker_world_scheme \<Rightarrow> bool" where
  "head_is G commit sha w \<longleftrightarrow>
     (\<exists>n out cs. tick w = Suc n \<and> gt_run G n [''rev-parse'', ''HEAD''] = Some out \<and> go_success out
        \<and> sha = str_trim (from_utf8_lossy (go_stdout out))
        \<and> commands w = cs @ [[''git'', ''checkout'', ''--detach'', commit], [''git'', ''rev-parse'', ''HEAD'']])"

lemma run_git_InrE:
  assumes "run_git W G args w = (Inr out, w')"
  obtains ans where "gt_run G (tick w) args = Some ans" "go_success ans" "out = from_utf8_lossy (go_stdout ans)"
    "tick w' = Suc (tick w)" "commands w' = commands w @ [''git'' # args]"
  using assms that by (auto simp: run_git_def Let_def split: option.splits if_splits)

definition ran :: "string list list \<Rightarrow> string list set \<Rightarrow> 'z worker_world_scheme \<Rightarrow> bool" where
  "ran before A w \<longleftrightarrow> (\<exists>cs. commands w = before @ cs \<and> set cs \<subseteq> A)"

lemma ran_git: "''git'' # args \<in> A \<Longrightarrow> keeps (ran before A) (run_git W G args)"
proof (rule keepsI)
  fix w :: "'z worker_world_scheme" assume "''git'' # args \<in> A" and "ran before A w"
  moreover from this obtain cs where "commands w = before @ cs" "set cs \<subseteq> A" by (auto simp: ran_def)
  moreover have "commands (snd (run_git W G args w)) = commands w
      \<or> commands (snd (run_git W G args w)) = commands w @ [''git'' # args]"
    by (auto simp: run_git_def Let_def split: option.split)
  ultimately show "ran before A (snd (run_git W G args w))"
    unfolding ran_def by (metis append.assoc append.right_neutral empty_set empty_subsetI insert_subset list.simps(15) set_append sup.bounded_iff)
qed

lemma keeps_of_result_then: "(\<And>u. x = Inr u \<Longrightarrow> keeps I (f u)) \<Longrightarrow> keeps I (and_then (of_result x) f)"
  by (cases x) (auto simp: keeps_def io_simps)

lemma checkout_commit_head:
  assumes "checkout_commit W G source commit workspace w = (Inr co, w')"
  shows "co_directory co = path_join workspace ''source'' \<and> head_is G (str_trim commit) (co_commit_sha co) w'
    \<and> (str_starts_with (co_commit_sha co) (str_trim commit) \<or> str_starts_with (str_trim commit) (co_commit_sha co))"
proof -
  from assms obtain x out and v1 v2 :: "'a worker_world_scheme" where
    c: "run_git W G [''checkout'', ''--detach'', str_trim commit] v1 = (Inr x, v2)"
    and h: "run_git W G [''rev-parse'', ''HEAD''] v2 = (Inr out, w')"
    and co: "co = \<lparr>co_directory = path_join workspace ''source'', co_commit_sha = str_trim out\<rparr>"
    and m: "str_starts_with (str_trim out) (str_trim commit) \<or> str_starts_with (str_trim commit) (str_trim out)"
    unfolding checkout_commit_def Let_def
    by (auto simp: ret_run fail_run elim!: and_then_InrE simp del: append.simps append_Cons split: if_splits)
  have "head_is G (str_trim commit) (str_trim out) w'"
    using c h by (auto simp: head_is_def elim!: run_git_InrE)
  then show ?thesis using m by (simp add: co)
qed

text \<open>C36. What a checkout runs and returns.  Only \<^verbatim>\<open>git\<close> is run, with five argument lists that are fixed but for the
  commit, and \<^verbatim>\<open>remote add origin\<close> with the clone URL of the source (its path, for a \<^verbatim>\<open>file\<close> URL); whenever anything is
  run, the commit is of 7 to 64 hexadecimal digits, so that it cannot be taken for an option.  A checkout that
  succeeds has checked the commit out and then read \<^verbatim>\<open>HEAD\<close>; it returns the hash \<^verbatim>\<open>git\<close> answered, which the
  commit abbreviates or which abbreviates the commit.\<close>

theorem checkout_safe:
  "case checkout_commit W G source commit workspace w of (r, w') \<Rightarrow>
     (\<exists>cs. commands w' = commands w @ cs \<and> set cs \<subseteq> git_calls (clone_url_str G (rr_clone_url source)) (str_trim commit)
        \<and> (cs = [] \<or> 7 \<le> length (str_trim commit) \<and> length (str_trim commit) \<le> 64 \<and> list_all is_ascii_hexdigit (str_trim commit)))
   \<and> (case r of Inl e \<Rightarrow> True
       | Inr co \<Rightarrow> co_directory co = path_join workspace ''source'' \<and> head_is G (str_trim commit) (co_commit_sha co) w'
           \<and> (str_starts_with (co_commit_sha co) (str_trim commit) \<or> str_starts_with (str_trim commit) (co_commit_sha co)))"
proof -
  obtain r w' where run: "checkout_commit W G source commit workspace w = (r, w')" by fastforce
  let ?c = "str_trim commit" and ?A = "git_calls (clone_url_str G (rr_clone_url source)) (str_trim commit)"
  have io: "keeps (ran (commands w) ?A) (io_call x)" for x
    by (simp add: keeps_def io_call_def ran_def)
  have git: "''git'' # args \<in> ?A \<Longrightarrow> keeps (ran (commands w) ?A) (run_git W G args)" for args by (rule ran_git)
  have "keeps (ran (commands w) ?A) (checkout_commit W G source commit workspace)"
    unfolding checkout_commit_def fetch_commit_def Let_def
    by (rule keeps_of_result_then keeps_and_then [OF io] keeps_if keeps_fail keeps_and_then keeps_ret keeps_ignore keeps_attempt git
        | (simp add: git_calls_def; fail))+
  from keepsD [OF this _ run] obtain cs where cs: "commands w' = commands w @ cs" "set cs \<subseteq> ?A"
    by (auto simp: ran_def)
  show ?thesis
  proof (cases "length ?c < 7 \<or> 64 < length ?c \<or> \<not> list_all is_ascii_hexdigit ?c")
    case True
    then have "w' = w" "isl r" using run by (auto simp: checkout_commit_def Let_def io_simps simp del: append.simps append_Cons)
    then show ?thesis unfolding run by (auto simp: isl_def)
  next
    case False
    show ?thesis
    proof (cases r)
      case (Inl e)
      then show ?thesis unfolding run using cs False by auto
    next
      case (Inr co)
      from checkout_commit_head [OF run [unfolded this]] show ?thesis unfolding run using cs False Inr by auto
    qed
  qed
qed

end
