(* ===== verification/Metrics.thy ===== *)
theory Metrics
  imports Schema Strings Providers Float64 "HOL-Library.Signed_Division"
begin

text \<open>
  \<^verbatim>\<open>src/metrics.rs\<close>: samples of metrics, their aggregation into buckets of time, and their tables.  Values are
  the numbers of \<^verbatim>\<open>Float64\<close>; the two tables are fields of the world.  An index that is out of range panics.
\<close>

section \<open>Names, units, ranges\<close>

definition all_metrics :: "string list" where
  "all_metrics = [''build_duration_seconds'', ''build_cache_hit_total'', ''deployment_health_check_total'',
     ''request_total'', ''request_error_total'', ''request_latency_ms'', ''container_cpu_seconds'', ''container_memory_bytes'']"

definition metric_unit :: "string \<Rightarrow> string" where
  "metric_unit name =
     (if name = ''build_duration_seconds'' then ''seconds''
      else if name = ''build_cache_hit_total'' then ''count''
      else if name = ''deployment_health_check_total'' then ''count''
      else if name = ''request_total'' then ''count''
      else if name = ''request_error_total'' then ''count''
      else if name = ''request_latency_ms'' then ''milliseconds''
      else if name = ''container_cpu_seconds'' then ''seconds''
      else if name = ''container_memory_bytes'' then ''bytes''
      else ''value'')"

definition parse_resolution_secs :: "string \<Rightarrow> int" where
  "parse_resolution_secs res =
     (if res = ''1m'' then 60 else if res = ''5m'' then 300 else if res = ''15m'' then 900
      else if res = ''1h'' then 3600 else if res = ''1d'' then 86400 else 60)"

definition second :: int where
  "second = 1000000000"

definition parse_range_duration :: "string \<Rightarrow> int" where
  "parse_range_duration range_str =
     (if range_str = ''15m'' then 15 * 60 else if range_str = ''1h'' then 3600 else if range_str = ''6h'' then 6 * 3600
      else if range_str = ''24h'' then 24 * 3600 else if range_str = ''7d'' then 7 * 86400 else 3600) * second"

definition default_resolution_for_range :: "string \<Rightarrow> string" where
  "default_resolution_for_range range_str =
     (if range_str = ''15m'' then ''1m'' else if range_str = ''1h'' then ''1m'' else if range_str = ''6h'' then ''5m''
      else if range_str = ''24h'' then ''5m'' else if range_str = ''7d'' then ''1h'' else ''1m'')"

section \<open>Percentiles\<close>

fun f64_mul :: "f64 \<Rightarrow> f64 \<Rightarrow> f64" where
  "f64_mul (Fin a) (Fin b) = Fin (f64_round (a * b))"
| "f64_mul _ _ = NaN"

text \<open>\<^verbatim>\<open>floor() as usize\<close> and \<^verbatim>\<open>ceil() as usize\<close>: a number below zero and one that is not a number become 0.\<close>

fun f64_floor :: "f64 \<Rightarrow> nat" where
  "f64_floor (Fin q) = nat \<lfloor>q\<rfloor>"
| "f64_floor NaN = 0"

fun f64_ceil :: "f64 \<Rightarrow> nat" where
  "f64_ceil (Fin q) = nat \<lceil>q\<rceil>"
| "f64_ceil NaN = 0"

definition f64_of_nat :: "nat \<Rightarrow> f64" where
  "f64_of_nat n = Fin (f64_round (of_nat n))"

definition index :: "'a list \<Rightarrow> nat \<Rightarrow> error + 'a" where
  "index xs i = (if i < length xs then Inr (xs ! i) else Inl (Panicked ''index out of bounds''))"

definition rank_of :: "nat \<Rightarrow> f64 \<Rightarrow> f64" where
  "rank_of n pct = f64_mul (f64_div pct (Fin 100)) (f64_of_nat (n - 1))"

definition calculate_percentile :: "f64 list \<Rightarrow> f64 \<Rightarrow> error + f64" where
  "calculate_percentile sorted_values pct =
     (if sorted_values = [] then Inr (Fin 0)
      else if length sorted_values = 1 then index sorted_values 0
      else
        let rank = rank_of (length sorted_values) pct; lower_idx = f64_floor rank; upper_idx = f64_ceil rank
        in if lower_idx = upper_idx then index sorted_values lower_idx
           else
             let weight = f64_sub rank (f64_of_nat lower_idx)
             in and_ok (index sorted_values lower_idx) (\<lambda>lower.
                and_ok (index sorted_values upper_idx) (\<lambda>upper.
                Inr (f64_add (f64_mul lower (f64_sub (Fin 1) weight)) (f64_mul upper weight)))))"

section \<open>Series\<close>

record MetricSample =
  sm_project_id :: uuid
  sm_deployment_id :: "uuid option"
  sm_environment :: string
  sm_metric_name :: string
  sm_value :: f64
  sm_unit :: string
  sm_recorded_at :: timestamp

record MetricPoint =
  mp_timestamp :: timestamp
  mp_count :: nat
  mp_value :: f64
  mp_sum :: f64
  mp_min :: f64
  mp_max :: f64
  mp_avg :: f64
  mp_p50 :: "f64 option"
  mp_p95 :: "f64 option"
  mp_p99 :: "f64 option"
  mp_is_partial :: bool

record MetricSummary =
  su_total :: f64
  su_count :: nat
  su_avg :: f64
  su_min :: f64
  su_max :: f64
  su_p50 :: "f64 option"
  su_p95 :: "f64 option"
  su_p99 :: "f64 option"

record MetricSeries =
  mr_metric_name :: string
  mr_unit :: string
  mr_environment :: "string option"
  mr_points :: "MetricPoint list"
  mr_summary :: MetricSummary
  mr_has_data :: bool
  mr_is_partial :: bool

definition is_counter :: "string \<Rightarrow> bool" where
  "is_counter name \<longleftrightarrow> name \<in> {''build_cache_hit_total'', ''deployment_health_check_total'', ''request_total'', ''request_error_total''}"

definition unix_timestamp :: "timestamp \<Rightarrow> int" where
  "unix_timestamp t = t div second"

text \<open>\<^verbatim>\<open>OffsetDateTime::from_unix_timestamp\<close>: the years from -9999 to 9999.\<close>

definition from_unix_timestamp :: "int \<Rightarrow> timestamp option" where
  "from_unix_timestamp s = (if -377705116800 \<le> s \<and> s \<le> 253402300799 then Some (s * second) else None)"

definition matches :: "string \<Rightarrow> string option \<Rightarrow> timestamp \<Rightarrow> timestamp \<Rightarrow> MetricSample \<Rightarrow> bool" where
  "matches name environment start end s \<longleftrightarrow> sm_metric_name s = name
     \<and> (case environment of None \<Rightarrow> True | Some e \<Rightarrow> sm_environment s = e)
     \<and> start \<le> sm_recorded_at s \<and> sm_recorded_at s \<le> end"

text \<open>Division of an \<^verbatim>\<open>i64\<close> rounds toward zero.\<close>

definition align :: "int \<Rightarrow> timestamp \<Rightarrow> int" where
  "align resolution_secs t = (unix_timestamp t sdiv resolution_secs) * resolution_secs"

definition f64_order :: "f64 \<Rightarrow> f64 \<Rightarrow> ordering" where
  "f64_order a b = (case f64_partial_cmp a b of Some c \<Rightarrow> c | None \<Rightarrow> Equal)"

definition f64_sum :: "f64 list \<Rightarrow> f64" where
  "f64_sum xs = fold (\<lambda>x acc. f64_add acc x) xs (Fin 0)"

text \<open>The samples of a bucket, and the samples that are left.\<close>

fun fill_bucket :: "int \<Rightarrow> int \<Rightarrow> MetricSample list \<Rightarrow> f64 list \<times> MetricSample list" where
  "fill_bucket current_epoch bucket_end_epoch [] = ([], [])"
| "fill_bucket current_epoch bucket_end_epoch (s # rest) =
     (let s_epoch = unix_timestamp (sm_recorded_at s)
      in if s_epoch < current_epoch then fill_bucket current_epoch bucket_end_epoch rest
         else if bucket_end_epoch \<le> s_epoch then ([], s # rest)
         else case fill_bucket current_epoch bucket_end_epoch rest of (vs, left) \<Rightarrow> (sm_value s # vs, left))"

definition percentiles :: "f64 list \<Rightarrow> error + f64 \<times> f64 \<times> f64" where
  "percentiles vs =
     and_ok (calculate_percentile vs (Fin 50)) (\<lambda>p50.
     and_ok (calculate_percentile vs (Fin 95)) (\<lambda>p95.
     and_ok (calculate_percentile vs (Fin 99)) (\<lambda>p99.
     Inr (p50, p95, p99))))"

definition make_point :: "bool \<Rightarrow> timestamp \<Rightarrow> bool \<Rightarrow> f64 list \<Rightarrow> error + MetricPoint" where
  "make_point counter bucket_start is_partial values =
     (let vs = sort_by f64_order values; total = f64_sum vs; avg = f64_div total (f64_of_nat (length vs))
      in if vs = []
         then Inr \<lparr>mp_timestamp = bucket_start, mp_count = 0, mp_value = Fin 0, mp_sum = total, mp_min = Fin 0, mp_max = Fin 0,
           mp_avg = Fin 0, mp_p50 = None, mp_p95 = None, mp_p99 = None, mp_is_partial = is_partial\<rparr>
         else
           and_ok (percentiles vs) (\<lambda>(p50, p95, p99).
           Inr \<lparr>mp_timestamp = bucket_start, mp_count = length vs, mp_value = (if counter then total else avg), mp_sum = total,
             mp_min = hd vs, mp_max = last vs, mp_avg = avg, mp_p50 = Some p50, mp_p95 = Some p95, mp_p99 = Some p99,
             mp_is_partial = is_partial\<rparr>))"

definition make_summary :: "bool \<Rightarrow> f64 list \<Rightarrow> error + MetricSummary" where
  "make_summary counter all_values =
     (let vs = sort_by f64_order all_values; total = f64_sum vs; avg = f64_div total (f64_of_nat (length vs))
      in if vs = []
         then Inr \<lparr>su_total = Fin 0, su_count = 0, su_avg = Fin 0, su_min = Fin 0, su_max = Fin 0,
           su_p50 = None, su_p95 = None, su_p99 = None\<rparr>
         else
           and_ok (percentiles vs) (\<lambda>(p50, p95, p99).
           Inr \<lparr>su_total = (if counter then total else avg), su_count = length vs, su_avg = avg, su_min = hd vs,
             su_max = last vs, su_p50 = Some p50, su_p95 = Some p95, su_p99 = Some p99\<rparr>))"

text \<open>The loop over the buckets.  The callers pass a resolution of at least a minute; with one that is not positive
  the loop of the source would not end, and the model returns no bucket.\<close>

function walk_buckets :: "bool \<Rightarrow> timestamp \<Rightarrow> timestamp \<Rightarrow> int \<Rightarrow> int \<Rightarrow> int \<Rightarrow> MetricSample list \<Rightarrow>
   error + MetricPoint list \<times> f64 list" where
  "walk_buckets counter start now res end_epoch current_epoch samples =
     (if end_epoch < current_epoch \<or> res \<le> 0 then Inr ([], [])
      else
        let bucket_start = unwrap_or (from_unix_timestamp current_epoch) start;
            is_partial = unix_timestamp now < current_epoch + res
        in case fill_bucket current_epoch (current_epoch + res) samples of (values, left) \<Rightarrow>
           and_ok (make_point counter bucket_start is_partial values) (\<lambda>point.
           and_ok (walk_buckets counter start now res end_epoch (current_epoch + res) left) (\<lambda>(points, all_values).
           Inr (point # points, values @ all_values))))"
  by pat_completeness auto
termination
  by (relation "measure (\<lambda>(c, s, n, res, e, cur, ss). nat (e + 1 - cur))") auto

declare walk_buckets.simps [simp del]

definition aggregate_samples_into_series :: "string \<Rightarrow> string option \<Rightarrow> MetricSample list \<Rightarrow> timestamp \<Rightarrow> timestamp \<Rightarrow>
   int \<Rightarrow> timestamp \<Rightarrow> error + MetricSeries" where
  "aggregate_samples_into_series metric_name environment samples start end resolution_secs now =
     (if resolution_secs = 0 then Inl (Panicked ''attempt to divide by zero'')
      else
        let matching = sort_key sm_recorded_at (filter (matches metric_name environment start end) samples);
            counter = is_counter metric_name
        in and_ok (walk_buckets counter start now resolution_secs (align resolution_secs end) (align resolution_secs start) matching)
             (\<lambda>(points, all_values).
           and_ok (make_summary counter all_values) (\<lambda>summary.
           Inr \<lparr>mr_metric_name = metric_name, mr_unit = metric_unit metric_name, mr_environment = environment,
             mr_points = points, mr_summary = summary, mr_has_data = (all_values \<noteq> []),
             mr_is_partial = list_ex mp_is_partial points\<rparr>)))"

section \<open>The tables\<close>

record SampleRow =
  sr_id :: uuid
  sr_sample :: MetricSample
  sr_created_at :: timestamp

record MetricRollupRecord =
  ru_id :: uuid
  ru_project_id :: uuid
  ru_environment :: string
  ru_metric_name :: string
  ru_resolution :: string
  ru_bucket_start :: timestamp
  ru_sample_count :: int
  ru_sample_sum :: f64
  ru_sample_min :: f64
  ru_sample_max :: f64
  ru_p50 :: "f64 option"
  ru_p95 :: "f64 option"
  ru_p99 :: "f64 option"
  ru_is_partial :: bool
  ru_created_at :: timestamp

record metric_tables =
  metric_samples :: "SampleRow list"
  metric_rollups :: "MetricRollupRecord list"

record metrics_world = world +
  metric_store :: metric_tables

type_synonym ('z, 'a) metric_op = "('z metrics_world_scheme, error, 'a) io"

text \<open>A statement on the tables of metrics, which may look at the other tables.\<close>

definition metric_statement :: "string \<Rightarrow> (db \<Rightarrow> metric_tables \<Rightarrow> (error + 'a) \<times> metric_tables) \<Rightarrow> ('z, 'a) metric_op" where
  "metric_statement context f = (\<lambda>w.
     if env_db_fault (env w) (tick w) then (Inl (Database context), w\<lparr>tick := Suc (tick w)\<rparr>)
     else case f (db w) (metric_store w) of
         (Inl e, _) \<Rightarrow> (Inl e, w\<lparr>tick := Suc (tick w)\<rparr>)
       | (Inr a, t) \<Rightarrow> (Inr a, w\<lparr>tick := Suc (tick w), metric_store := t\<rparr>))"

definition sample_ok :: "SampleRow \<Rightarrow> db \<Rightarrow> metric_tables \<Rightarrow> bool" where
  "sample_ok r d t \<longleftrightarrow>
     (let s = sr_sample r
      in \<not> has_key sr_id (sr_id r) (metric_samples t) \<and> has_key p_id (sm_project_id s) (projects d)
       \<and> (case sm_deployment_id s of None \<Rightarrow> True | Some i \<Rightarrow> has_key d_id i (deployments d))
       \<and> varchar 32 (sm_environment s) \<and> varchar 64 (sm_metric_name s) \<and> varchar 32 (sm_unit s))"

definition ingest_sample :: "MetricSample \<Rightarrow> ('z, unit) metric_op" where
  "ingest_sample sample =
     and_then uuid_new_v4 (\<lambda>i.
     and_then now_utc (\<lambda>now.
     let r = \<lparr>sr_id = i, sr_sample = sample, sr_created_at = now\<rparr>
     in metric_statement ''failed to insert metric sample'' (\<lambda>d t.
          if sample_ok r d t then (Inr (), t\<lparr>metric_samples := metric_samples t @ [r]\<rparr>)
          else (Inl (Database ''failed to insert metric sample''), t))))"

definition ingest_samples :: "MetricSample list \<Rightarrow> ('z, nat) metric_op" where
  "ingest_samples samples =
     fold_io (\<lambda>s count. and_then (ingest_sample s) (\<lambda>_. ret (Suc count))) samples 0"

record MetricsQuery =
  mq_metric :: "string option"
  mq_range :: "string option"
  mq_resolution :: "string option"
  mq_environment :: "string option"
  mq_start :: "timestamp option"
  mq_end :: "timestamp option"

record MetricsResponse =
  ms_project_id :: uuid
  ms_range :: string
  ms_resolution :: string
  ms_start :: timestamp
  ms_end :: timestamp
  ms_series :: "MetricSeries list"
  ms_last_updated :: timestamp

definition query_window :: "MetricsQuery \<Rightarrow> string \<Rightarrow> timestamp \<Rightarrow> timestamp \<times> timestamp" where
  "query_window q range_str now =
     (case (mq_start q, mq_end q) of
        (Some s, Some e) \<Rightarrow> (s, e)
      | (Some s, None) \<Rightarrow> (s, s + parse_range_duration range_str)
      | _ \<Rightarrow> (now - parse_range_duration range_str, now))"

fun map_ok :: "('a \<Rightarrow> 'e + 'b) \<Rightarrow> 'a list \<Rightarrow> 'e + 'b list" where
  "map_ok f [] = Inr []"
| "map_ok f (x # xs) = and_ok (f x) (\<lambda>y. and_ok (map_ok f xs) (\<lambda>ys. Inr (y # ys)))"

definition samples_between :: "uuid \<Rightarrow> timestamp \<Rightarrow> timestamp \<Rightarrow> metric_tables \<Rightarrow> MetricSample list" where
  "samples_between project_id start end t =
     order_by sm_recorded_at (filter (\<lambda>s. sm_project_id s = project_id \<and> start \<le> sm_recorded_at s \<and> sm_recorded_at s \<le> end)
       (map sr_sample (metric_samples t)))"

definition query_metrics :: "uuid \<Rightarrow> MetricsQuery \<Rightarrow> ('z, MetricsResponse) metric_op" where
  "query_metrics project_id q =
     and_then now_utc (\<lambda>now.
     let range_str = unwrap_or (mq_range q) ''1h''
     in case query_window q range_str now of (start, end) \<Rightarrow>
        let res = unwrap_or (mq_resolution q) (default_resolution_for_range range_str);
            names = (case mq_metric q of Some m \<Rightarrow> [m] | None \<Rightarrow> all_metrics)
        in and_then (metric_statement ''failed to query metric samples'' (\<lambda>d t. (Inr (samples_between project_id start end t), t))) (\<lambda>samples.
           and_then (of_result (map_ok (\<lambda>name. aggregate_samples_into_series name (mq_environment q) samples start end
             (parse_resolution_secs res) now) names)) (\<lambda>series.
           ret \<lparr>ms_project_id = project_id, ms_range = range_str, ms_resolution = res, ms_start = start, ms_end = end,
                ms_series = series, ms_last_updated = now\<rparr>)))"

definition same_rollup :: "MetricRollupRecord \<Rightarrow> MetricRollupRecord \<Rightarrow> bool" where
  "same_rollup a b \<longleftrightarrow> ru_project_id a = ru_project_id b \<and> ru_environment a = ru_environment b
     \<and> ru_metric_name a = ru_metric_name b \<and> ru_resolution a = ru_resolution b \<and> ru_bucket_start a = ru_bucket_start b"

definition merge_rollup :: "MetricRollupRecord \<Rightarrow> MetricRollupRecord \<Rightarrow> MetricRollupRecord" where
  "merge_rollup excluded r =
     r\<lparr>ru_sample_count := ru_sample_count excluded, ru_sample_sum := ru_sample_sum excluded,
       ru_sample_min := ru_sample_min excluded, ru_sample_max := ru_sample_max excluded, ru_p50 := ru_p50 excluded,
       ru_p95 := ru_p95 excluded, ru_p99 := ru_p99 excluded, ru_is_partial := ru_is_partial excluded,
       ru_created_at := ru_created_at excluded\<rparr>"

definition record_rollup :: "MetricRollupRecord \<Rightarrow> ('z, unit) metric_op" where
  "record_rollup rollup =
     and_then now_utc (\<lambda>now.
     let row = rollup\<lparr>ru_created_at := now\<rparr>
     in metric_statement ''failed to record metric rollup'' (\<lambda>d t.
          if \<not> has_key p_id (ru_project_id row) (projects d) \<or> \<not> varchar 32 (ru_environment row)
             \<or> \<not> varchar 64 (ru_metric_name row) \<or> \<not> varchar 16 (ru_resolution row)
          then (Inl (Database ''failed to record metric rollup''), t)
          else case upsert_into (same_rollup row) (merge_rollup row) ru_id row (metric_rollups t) of
              Some (_, rows) \<Rightarrow> (Inr (), t\<lparr>metric_rollups := rows\<rparr>)
            | None \<Rightarrow> (Inl (Database ''failed to record metric rollup''), t)))"

definition purge_samples_older_than :: "int \<Rightarrow> ('z, nat) metric_op" where
  "purge_samples_older_than age =
     and_then now_utc (\<lambda>now.
     metric_statement ''failed to purge old metric samples'' (\<lambda>d t.
       (Inr (count_where (\<lambda>r. sm_recorded_at (sr_sample r) < now - age) (metric_samples t)),
        t\<lparr>metric_samples := filter (\<lambda>r. \<not> sm_recorded_at (sr_sample r) < now - age) (metric_samples t)\<rparr>)))"

end
