(* ===== verification/Metrics_Correct.thy ===== *)
theory Metrics_Correct
  imports Metrics
begin

text \<open>
  Metrics: the indices of a percentile are in range, and the aggregation, which walks over the sorted samples
  once, puts every sample in the one bucket its time belongs to.
\<close>

section \<open>Rounding below an integer\<close>

lemma f64_exponent_small:
  assumes "0 < q" and "q < 2 ^ 53"
  shows "f64_exponent q \<le> 52"
proof (rule ccontr)
  assume "\<not> f64_exponent q \<le> 52"
  then have "53 \<le> f64_exponent q" by simp
  then have "pow2 53 \<le> pow2 (f64_exponent q)" unfolding pow2_def by (rule power_int_increasing) simp
  also have "\<dots> \<le> q" by (rule f64_exponent_le [OF assms(1)])
  finally show False using assms(2) by (simp add: pow2_def)
qed

lemma round_half_even_le: "x \<le> of_int n \<Longrightarrow> round_half_even x \<le> n"
proof -
  assume le: "x \<le> of_int n"
  show "round_half_even x \<le> n"
  proof (cases "x = of_int n")
    case True
    then show ?thesis by (simp add: round_half_even_int)
  next
    case False
    then have "\<lfloor>x\<rfloor> < n" using le by (simp add: floor_less_iff)
    then show ?thesis by (auto simp: round_half_even_def Let_def)
  qed
qed

lemma f64_round_below:
  assumes "0 \<le> q" and "q \<le> of_int m" and "m < 2 ^ 53"
  shows "0 \<le> f64_round q \<and> f64_round q \<le> of_int m"
proof (cases "q = 0")
  case True
  then show ?thesis using assms(2) by (simp add: f64_round_0)
next
  case False
  then have pos: "0 < q" using assms(1) by simp
  have "of_int m < (of_int (2 ^ 53) :: rat)" using assms(3) by (simp only: of_int_less_iff)
  then have "q < 2 ^ 53" using assms(2) by simp
  then have e: "f64_exponent q \<le> 52" by (rule f64_exponent_small [OF pos])
  let ?u = "pow2 (f64_exponent q - 52)" and ?k = "nat (52 - f64_exponent q)"
  have u: "?u * 2 ^ ?k = 1"
  proof -
    have "?u * pow2 (int ?k) = 1" using e by (simp add: pow2_add [symmetric]) (simp add: pow2_def)
    then show ?thesis unfolding pow2_int .
  qed
  have "q / ?u \<le> of_int (m * 2 ^ ?k)"
  proof -
    have "q \<le> of_int m * (?u * 2 ^ ?k)" using assms(2) u by simp
    then show ?thesis by (simp add: pos_divide_le_eq mult_ac)
  qed
  then have "round_half_even (q / ?u) \<le> m * 2 ^ ?k" by (rule round_half_even_le)
  then have "of_int (round_half_even (q / ?u)) \<le> (of_int (m * 2 ^ ?k) :: rat)" by (simp only: of_int_le_iff)
  then have "of_int (round_half_even (q / ?u)) * ?u \<le> of_int (m * 2 ^ ?k) * ?u"
    by (rule mult_right_mono) (simp add: less_imp_le)
  also have "\<dots> = of_int m" using u by (simp add: mult_ac)
  finally have "f64_round q \<le> of_int m" using pos by (simp add: f64_round_def Let_def)
  then show ?thesis using f64_round_pos [OF pos] by simp
qed

lemma rank_bounds:
  assumes "0 \<le> pct" and "pct \<le> 100" and "0 < n" and "n \<le> 2 ^ 53"
  obtains q where "rank_of n (Fin pct) = Fin q" "0 \<le> q" "q \<le> of_nat (n - 1)"
proof -
  have p: "0 \<le> f64_round (pct / 100)" "f64_round (pct / 100) \<le> 1"
    using f64_round_below [of "pct / 100" 1] assms(1,2) by simp_all
  have "n - 1 < 2 ^ 53" using assms(3,4) by linarith
  then have "int (n - 1) < int (2 ^ 53)" by (simp only: of_nat_less_iff)
  then have small: "int (n - 1) < 2 ^ 53" by simp
  have m: "0 \<le> f64_round (of_nat (n - 1))" "f64_round (of_nat (n - 1)) \<le> of_nat (n - 1)"
    using f64_round_below [of "of_nat (n - 1)" "int (n - 1)"] small by simp_all
  have "f64_round (pct / 100) * f64_round (of_nat (n - 1)) \<le> 1 * of_nat (n - 1)"
    using p m by (intro mult_mono) simp_all
  then have "0 \<le> f64_round (f64_round (pct / 100) * f64_round (of_nat (n - 1)))
      \<and> f64_round (f64_round (pct / 100) * f64_round (of_nat (n - 1))) \<le> of_int (int (n - 1))"
    using p m small by (intro f64_round_below) simp_all
  then show thesis using that by (simp add: rank_of_def f64_of_nat_def)
qed

lemma percentile_indices:
  assumes "0 \<le> pct" and "pct \<le> 100" and "0 < n" and "n \<le> 2 ^ 53"
  shows "f64_floor (rank_of n (Fin pct)) \<le> f64_ceil (rank_of n (Fin pct))" "f64_ceil (rank_of n (Fin pct)) < n"
proof -
  obtain q where q: "rank_of n (Fin pct) = Fin q" "0 \<le> q" "q \<le> of_nat (n - 1)" using rank_bounds [OF assms] .
  have "\<lceil>q\<rceil> \<le> int (n - 1)" using q(3) by (simp add: ceiling_le_iff)
  then show "f64_ceil (rank_of n (Fin pct)) < n" using assms(3) by (simp add: q(1))
  show "f64_floor (rank_of n (Fin pct)) \<le> f64_ceil (rank_of n (Fin pct))"
    using floor_le_ceiling [of q] by (simp add: q(1) nat_mono)
qed

lemma percentile_returns:
  assumes "0 \<le> pct" and "pct \<le> 100" and "length vs \<le> 2 ^ 53"
  shows "\<exists>v. calculate_percentile vs (Fin pct) = Inr v"
proof (cases "length vs \<le> 1")
  case True
  then show ?thesis by (cases vs) (auto simp: calculate_percentile_def index_def)
next
  case False
  then have "0 < length vs" by (cases vs) auto
  note i = percentile_indices [OF assms(1,2) this assms(3)]
  have "f64_floor (rank_of (length vs) (Fin pct)) < length vs" using i by simp
  then show ?thesis using i False by (auto simp: calculate_percentile_def index_def Let_def and_ok_def)
qed

section \<open>Buckets\<close>

abbreviation epoch :: "MetricSample \<Rightarrow> int" where
  "epoch s \<equiv> unix_timestamp (sm_recorded_at s)"

definition in_bucket :: "int \<Rightarrow> int \<Rightarrow> MetricSample \<Rightarrow> bool" where
  "in_bucket res b s \<longleftrightarrow> b \<le> epoch s \<and> epoch s < b + res"

definition bucket_values :: "int \<Rightarrow> int \<Rightarrow> MetricSample list \<Rightarrow> f64 list" where
  "bucket_values res b ss = map sm_value (filter (in_bucket res b) ss)"

lemma epoch_mono: "sorted (map sm_recorded_at ss) \<Longrightarrow> sorted (map epoch ss)"
  by (induction ss) (auto simp: unix_timestamp_def second_def intro: zdiv_mono1)

lemma fill_bucket_sorted:
  assumes "sorted (map epoch ss)" and "\<forall>s\<in>set ss. b \<le> epoch s"
  shows "fill_bucket b e ss = (map sm_value (filter (\<lambda>s. epoch s < e) ss), filter (\<lambda>s. \<not> epoch s < e) ss)"
  using assms
proof (induction ss)
  case (Cons s ss)
  show ?case
  proof (cases "epoch s < e")
    case True
    then show ?thesis using Cons by (simp add: Let_def)
  next
    case False
    then have "\<forall>x\<in>set ss. \<not> epoch x < e" using Cons.prems(1) by fastforce
    then have "filter (\<lambda>s. epoch s < e) ss = []" "filter (\<lambda>s. \<not> epoch s < e) ss = ss"
      by (simp_all add: filter_empty_conv filter_id_conv)
    then show ?thesis using False Cons.prems(2) by (simp add: Let_def)
  qed
qed simp

lemma percentiles_return:
  assumes "length vs \<le> 2 ^ 53"
  shows "\<exists>p. percentiles vs = Inr p"
proof -
  obtain a b c where "calculate_percentile vs (Fin 50) = Inr a" "calculate_percentile vs (Fin 95) = Inr b"
    "calculate_percentile vs (Fin 99) = Inr c"
    using percentile_returns [of 50 vs] percentile_returns [of 95 vs] percentile_returns [of 99 vs] assms by auto
  then show ?thesis by (simp add: percentiles_def and_ok_def)
qed

lemma make_point_returns:
  assumes "length vs \<le> 2 ^ 53"
  shows "\<exists>p. make_point counter t partial vs = Inr p \<and> mp_timestamp p = t \<and> mp_count p = length vs
     \<and> mp_sum p = f64_sum (sort_by f64_order vs) \<and> mp_is_partial p = partial"
proof -
  obtain a b c where "percentiles (sort_by f64_order vs) = Inr (a, b, c)"
    using percentiles_return [of "sort_by f64_order vs"] assms length_sort_by [of f64_order vs] by auto
  then show ?thesis by (auto simp: make_point_def Let_def and_ok_def length_sort_by)
qed

lemma make_summary_returns:
  assumes "length vs \<le> 2 ^ 53"
  shows "\<exists>p. make_summary counter vs = Inr p \<and> su_count p = length vs"
proof -
  obtain a b c where "percentiles (sort_by f64_order vs) = Inr (a, b, c)"
    using percentiles_return [of "sort_by f64_order vs"] assms length_sort_by [of f64_order vs] by auto
  then show ?thesis by (auto simp: make_summary_def Let_def and_ok_def length_sort_by)
qed

definition point_for :: "timestamp \<Rightarrow> timestamp \<Rightarrow> int \<Rightarrow> MetricSample list \<Rightarrow> int \<Rightarrow> MetricPoint \<Rightarrow> bool" where
  "point_for start now res ss b p \<longleftrightarrow> mp_timestamp p = unwrap_or (from_unix_timestamp b) start
     \<and> mp_count p = length (filter (in_bucket res b) ss)
     \<and> mp_sum p = f64_sum (sort_by f64_order (bucket_values res b ss))
     \<and> mp_is_partial p = (unix_timestamp now < b + res)"

lemma in_later_bucket: "0 \<le> m \<Longrightarrow> (in_bucket res (b + res + m) x \<and> \<not> epoch x < b + res) = in_bucket res (b + res + m) x"
  by (auto simp: in_bucket_def)

lemma walk_buckets_exact:
  assumes "0 < res" and "sorted (map epoch ss)" and "\<forall>s\<in>set ss. b \<le> epoch s \<and> epoch s < b + res * int n"
    and "length ss \<le> 2 ^ 53"
  shows "\<exists>pts. walk_buckets counter start now res (b + res * (int n - 1)) b ss = Inr (pts, map sm_value ss)
     \<and> list_all2 (point_for start now res ss) (map (\<lambda>k. b + res * int k) [0..<n]) pts"
  using assms(2,3,4)
proof (induction n arbitrary: b ss)
  case 0
  then have "ss = []" by (cases ss) auto
  then show ?case using assms(1) by (simp add: walk_buckets.simps [of counter start now res "b - res"])
next
  case (Suc n)
  let ?here = "filter (\<lambda>s. epoch s < b + res) ss" and ?rest = "filter (\<lambda>s. \<not> epoch s < b + res) ss"
  have fill: "fill_bucket b (b + res) ss = (map sm_value ?here, ?rest)"
    using Suc.prems by (intro fill_bucket_sorted) auto
  have here: "?here = filter (in_bucket res b) ss"
    using Suc.prems(2) by (intro filter_cong) (auto simp: in_bucket_def)
  have split: "ss = ?here @ ?rest" using Suc.prems(1)
  proof (induction ss)
    case (Cons s ss)
    then show ?case
    proof (cases "epoch s < b + res")
      case False
      then have "\<forall>x\<in>set ss. \<not> epoch x < b + res" using Cons.prems by fastforce
      then show ?thesis using False by (simp add: filter_empty_conv filter_id_conv)
    qed simp
  qed simp
  have len: "length (map sm_value ?here) \<le> 2 ^ 53" "length ?rest \<le> 2 ^ 53"
    using Suc.prems(3) length_filter_le order_trans by (metis length_map, metis)
  obtain p where p: "make_point counter (unwrap_or (from_unix_timestamp b) start) (unix_timestamp now < b + res) (map sm_value ?here) = Inr p"
    "mp_timestamp p = unwrap_or (from_unix_timestamp b) start" "mp_count p = length (map sm_value ?here)"
    "mp_sum p = f64_sum (sort_by f64_order (map sm_value ?here))" "mp_is_partial p = (unix_timestamp now < b + res)"
    using make_point_returns [OF len(1)] by blast
  have pb: "point_for start now res ss b p"
    unfolding point_for_def bucket_values_def here [symmetric] using p(2-5) by simp
  have "sorted (map epoch ?rest)" using Suc.prems(1) sorted_filter by blast
  moreover have "\<forall>s\<in>set ?rest. b + res \<le> epoch s \<and> epoch s < b + res + res * int n"
    using Suc.prems(2) by (auto simp: algebra_simps)
  ultimately obtain pts where w: "walk_buckets counter start now res (b + res + res * (int n - 1)) (b + res) ?rest = Inr (pts, map sm_value ?rest)"
    "list_all2 (point_for start now res ?rest) (map (\<lambda>k. b + res + res * int k) [0..<n]) pts"
    using Suc.IH len(2) by blast
  have pf: "point_for start now res ?rest (b + res + res * int k) q = point_for start now res ss (b + res + res * int k) q" for k q
  proof -
    have "0 \<le> res * int k" using assms(1) by simp
    then have "(in_bucket res (b + res + res * int k) x \<and> \<not> epoch x < b + res) = in_bucket res (b + res + res * int k) x" for x
      by (rule in_later_bucket)
    then have "filter (in_bucket res (b + res + res * int k)) ?rest = filter (in_bucket res (b + res + res * int k)) ss"
      unfolding filter_filter by (simp add: conj_commute)
    then show ?thesis by (simp add: point_for_def bucket_values_def)
  qed
  define stop where "stop = b + res + res * (int n - 1)"
  have e: "b + res * (int (Suc n) - 1) = stop" by (simp add: stop_def algebra_simps)
  have "0 \<le> res * int n" using assms(1) by simp
  moreover have "stop = b + res * int n" by (simp add: stop_def algebra_simps)
  ultimately have go: "\<not> (stop < b \<or> res \<le> 0)" using assms(1) by linarith
  have vals: "map sm_value ?here @ map sm_value ?rest = map sm_value ss" by (subst (3) split) simp
  have "walk_buckets counter start now res stop b ss = Inr (p # pts, map sm_value ss)"
    using w(1) [folded stop_def] unfolding walk_buckets.simps [of counter start now res stop b ss]
    by (simp add: go fill p(1) vals Let_def and_ok_def del: filter.simps)
  then have "walk_buckets counter start now res (b + res * (int (Suc n) - 1)) b ss = Inr (p # pts, map sm_value ss)" unfolding e .
  moreover have "map (\<lambda>k. b + res * int k) [0..<Suc n] = b # map (\<lambda>k. b + res + res * int k) [0..<n]"
    by (simp add: upt_conv_Cons map_Suc_upt [symmetric] algebra_simps del: upt_Suc)
  moreover have "list_all2 (point_for start now res ss) (map (\<lambda>k. b + res + res * int k) [0..<n]) pts"
    using w(2) pf by (auto simp: list_all2_conv_all_nth)
  ultimately show ?case using pb by simp
qed

lemma count_split:
  "b \<le> m \<Longrightarrow> 0 < res \<Longrightarrow> length (filter (\<lambda>s. b \<le> epoch s \<and> epoch s < m) ss) + length (filter (in_bucket res m) ss) =
     length (filter (\<lambda>s. b \<le> epoch s \<and> epoch s < m + res) ss)"
  by (induction ss) (auto simp: in_bucket_def)

lemma bucket_counts:
  assumes "0 < res"
  shows "sum_list (map (\<lambda>k. length (filter (in_bucket res (b + res * int k)) ss)) [0..<n]) =
    length (filter (\<lambda>s. b \<le> epoch s \<and> epoch s < b + res * int n) ss)"
proof (induction n)
  case 0
  show ?case by (simp add: filter_empty_conv)
next
  case (Suc n)
  let ?m = "b + res * int n"
  have m: "b \<le> ?m" "b + res * int (Suc n) = ?m + res" using assms by (simp_all add: algebra_simps)
  have "length (filter (\<lambda>s. b \<le> epoch s \<and> epoch s < ?m) ss) + length (filter (in_bucket res ?m) ss) =
      length (filter (\<lambda>s. b \<le> epoch s \<and> epoch s < ?m + res) ss)"
    by (rule count_split [OF m(1) assms])
  then show ?case unfolding m(2) using Suc.IH by simp
qed

lemma align_bounds:
  assumes "0 < res" and "0 \<le> t"
  shows "align res t \<le> unix_timestamp t" "unix_timestamp t < align res t + res" "align res t mod res = 0"
proof -
  have n: "0 \<le> unix_timestamp t" using assms(2) by (simp add: unix_timestamp_def second_def pos_imp_zdiv_nonneg_iff)
  then have "unix_timestamp t sdiv res = unix_timestamp t div res"
    using assms(1) by (cases "unix_timestamp t = 0") (simp_all add: signed_divide_int_def sgn_if)
  then have a: "align res t = unix_timestamp t div res * res" by (simp add: align_def)
  show "align res t mod res = 0" by (simp add: a)
  show "align res t \<le> unix_timestamp t" "unix_timestamp t < align res t + res"
    using assms(1) pos_mod_bound [of res "unix_timestamp t"] pos_mod_sign [of res "unix_timestamp t"]
      div_mult_mod_eq [of "unix_timestamp t" res] unfolding a by linarith+
qed

section \<open>Claims\<close>

text \<open>C39. A percentile between 0 and 100 of at most \<open>2\<^sup>5\<^sup>3\<close> values is computed without a panic: with the rounding of
  binary floating point, the two indices between which it interpolates are in order and inside the list.\<close>

theorem percentile_in_range:
  assumes "0 \<le> pct" and "pct \<le> 100" and "length vs \<le> 2 ^ 53"
  shows "(vs = [] \<or> f64_floor (rank_of (length vs) (Fin pct)) \<le> f64_ceil (rank_of (length vs) (Fin pct))
        \<and> f64_ceil (rank_of (length vs) (Fin pct)) < length vs)
     \<and> (\<exists>v. calculate_percentile vs (Fin pct) = Inr v)"
  using percentile_indices [OF assms(1,2) _ assms(3)] percentile_returns [OF assms] by (cases vs) auto

theorem percentile_in_range_witness:
  "(\<exists>v. calculate_percentile [Fin 1, Fin 2, Fin 4] (Fin 95) = Inr v) \<and> f64_ceil (rank_of 3 (Fin 95)) < 3"
  using percentile_in_range [of 95 "[Fin 1, Fin 2, Fin 4]"] by (auto simp: numeral_3_eq_3)

text \<open>C40. Aggregation.  For samples in any order and a window that starts after 1970, the one pass over the sorted
  samples gives what its definition says: one point per bucket of the resolution from the first to the last
  instant of the window, in order; the point of a bucket counts and sums the matching samples of that bucket and
  no others, and says whether the bucket is still open; and every matching sample is in exactly one bucket, so
  that the counts of the points and of the summary add up.\<close>

theorem aggregation_exact:
  assumes "0 < res" and "0 \<le> start" and "start \<le> stop" and "length samples \<le> 2 ^ 53"
  shows "\<exists>series. aggregate_samples_into_series name environment samples start stop res now = Inr series
     \<and> list_all2 (point_for start now res (sort_key sm_recorded_at (filter (matches name environment start stop) samples)))
         (map (\<lambda>k. align res start + res * int k) [0..<Suc (nat ((align res stop - align res start) div res))]) (mr_points series)
     \<and> su_count (mr_summary series) = length (filter (matches name environment start stop) samples)
     \<and> sum_list (map mp_count (mr_points series)) = length (filter (matches name environment start stop) samples)"
proof -
  define ss where "ss = sort_key sm_recorded_at (filter (matches name environment start stop) samples)"
  let ?b = "align res start" and ?e = "align res stop"
  let ?n = "Suc (nat ((?e - ?b) div res))"
  have a: "?b \<le> unix_timestamp start" "?b mod res = 0" and z: "unix_timestamp stop < ?e + res" "?e mod res = 0"
    using align_bounds [OF assms(1,2)] align_bounds [OF assms(1), of stop] assms(2,3) by simp_all
  have mono: "unix_timestamp x \<le> unix_timestamp y" if "x \<le> y" for x y
    using that by (simp add: unix_timestamp_def second_def zdiv_mono1)
  have "?b < ?e + res" using mono [OF assms(3)] a(1) z(1) by simp
  moreover have dvd: "res dvd ?e - ?b" using a(2) z(2) by (simp add: mod_0_imp_dvd)
  ultimately have le: "?b \<le> ?e"
    using assms(1) by (metis a(2) z(2) add_diff_cancel_left' diff_add_cancel dvd_diff_commute dvd_imp_le_int
        leI less_diff_eq mod_0_imp_dvd not_less zdvd_not_zless diff_gt_0_iff_gt)
  then have e: "?e = ?b + res * (int ?n - 1)" using dvd assms(1) by (simp add: pos_imp_zdiv_nonneg_iff)
  have members: "?b \<le> epoch s \<and> epoch s < ?b + res * int ?n" if "s \<in> set ss" for s
  proof -
    have "start \<le> sm_recorded_at s" "sm_recorded_at s \<le> stop" using that by (auto simp: ss_def matches_def)
    then have "?b \<le> epoch s" "epoch s < ?e + res" using mono a(1) z(1) by (meson order_trans order_le_less_trans)+
    moreover have "?e + res = ?b + res * int ?n" by (subst e) (simp add: algebra_simps)
    ultimately show ?thesis by simp
  qed
  have len: "length ss \<le> 2 ^ 53" "length ss = length (filter (matches name environment start stop) samples)"
    using assms(4) length_filter_le order_trans unfolding ss_def by (metis length_sort)+
  have "sorted (map epoch ss)" unfolding ss_def by (intro epoch_mono) simp
  then obtain pts where w: "walk_buckets (is_counter name) start now res ?e ?b ss = Inr (pts, map sm_value ss)"
    "list_all2 (point_for start now res ss) (map (\<lambda>k. ?b + res * int k) [0..<?n]) pts"
    using walk_buckets_exact [OF assms(1) _ _ len(1), of ?b ?n] members e by metis
  obtain su where su: "make_summary (is_counter name) (map sm_value ss) = Inr su" "su_count su = length ss"
    using make_summary_returns [of "map sm_value ss"] len(1) by auto
  have "map mp_count pts = map (\<lambda>k. length (filter (in_bucket res (?b + res * int k)) ss)) [0..<?n]"
    using w(2) by (intro nth_equalityI) (auto simp: list_all2_conv_all_nth point_for_def simp del: upt_Suc)
  then have "sum_list (map mp_count pts) = length ss"
    using bucket_counts [OF assms(1), of ?b ss ?n] members by (simp add: filter_id_conv del: upt_Suc)
  then show ?thesis using w su len(2) assms(1)
    by (auto simp: aggregate_samples_into_series_def Let_def and_ok_def ss_def [symmetric])
qed

definition demo_samples :: "MetricSample list" where
  "demo_samples = map (\<lambda>t. \<lparr>sm_project_id = 1, sm_deployment_id = None, sm_environment = ''production'',
     sm_metric_name = ''request_total'', sm_value = Fin 1, sm_unit = ''count'', sm_recorded_at = t * second\<rparr>) [130, 20, 500]"

theorem aggregation_exact_witness:
  "\<exists>series. aggregate_samples_into_series ''request_total'' None demo_samples 0 (200 * second) 60 (1000 * second) = Inr series
     \<and> length (mr_points series) = 4 \<and> su_count (mr_summary series) = 2"
proof -
  have "length (filter (matches ''request_total'' None 0 (200 * second)) demo_samples) = 2"
    "Suc (nat ((align 60 (200 * second) - align 60 0) div 60)) = 4" by code_simp+
  moreover have "(0 :: int) \<le> 200 * second" "length demo_samples \<le> 2 ^ 53" by (simp_all add: second_def demo_samples_def)
  ultimately show ?thesis
    using aggregation_exact [of 60 0 "200 * second" demo_samples "''request_total''" None "1000 * second"]
    by (auto dest!: list_all2_lengthD simp del: upt_Suc)
qed

end
