(* ===== verification/Token_Crypto.thy ===== *)
theory Token_Crypto
  imports Providers
begin

text \<open>
  \<^verbatim>\<open>src/providers/crypto.rs\<close>: the tokens of source providers are stored encrypted.  AES-256-GCM, the nonces of
  the operating system and the hexadecimal codec are parameters; nonces are numbered by the interaction that
  draws them.
\<close>

record crypto_lib =
  cy_nonce :: "nat \<Rightarrow> string"
  cy_encrypt :: "string \<Rightarrow> string \<Rightarrow> string \<Rightarrow> string option"
  cy_decrypt :: "string \<Rightarrow> string \<Rightarrow> string \<Rightarrow> string option"
  cy_hex_encode :: "string \<Rightarrow> string"
  cy_hex_decode :: "string \<Rightarrow> string option"

text \<open>A key is an array of 32 bytes, which \<^verbatim>\<open>new_from_slice\<close> always accepts.\<close>

definition encrypt_token :: "crypto_lib \<Rightarrow> nat \<Rightarrow> string \<Rightarrow> string \<Rightarrow> error + string" where
  "encrypt_token Y n token key =
     (case cy_encrypt Y key (cy_nonce Y n) token of
        None \<Rightarrow> Inl (Message ''encryption failure'')
      | Some ciphertext \<Rightarrow> Inr (cy_hex_encode Y (cy_nonce Y n @ ciphertext)))"

definition decrypt_token :: "crypto_lib \<Rightarrow> string \<Rightarrow> string \<Rightarrow> error + string" where
  "decrypt_token Y encrypted_hex key =
     and_ok (ok_or (cy_hex_decode Y encrypted_hex) (Message ''invalid hex for encrypted token'')) (\<lambda>bytes.
     if length bytes < 12 then Inl (Message ''encrypted token payload too short'')
     else
       and_ok (ok_or (cy_decrypt Y key (take 12 bytes) (drop 12 bytes)) (Message ''decryption failure'')) (\<lambda>decrypted.
       if valid_utf8 decrypted then Inr decrypted else Inl (Message ''invalid utf-8'')))"

definition default_encryption_key :: "crypto_lib \<Rightarrow> (string \<Rightarrow> string option) \<Rightarrow> string" where
  "default_encryption_key Y var =
     (let built_in = ''deploy_platform_32byte_secret_k!''
      in case Option.bind (var ''PROVIDER_ENCRYPTION_KEY'') (\<lambda>val. cy_hex_decode Y (str_trim val)) of
           Some bytes \<Rightarrow> if length bytes = 32 then bytes else built_in
         | None \<Rightarrow> built_in)"

text \<open>Every key the program uses has the length AES-256 needs.\<close>

lemma default_key_length: "length (default_encryption_key Y var) = 32"
  by (simp add: default_encryption_key_def Let_def split: option.splits)

text \<open>What the code relies on: the codec and the cipher are inverse on what they produce, and a nonce has 96
  bits.\<close>

definition token_cipher :: "crypto_lib \<Rightarrow> bool" where
  "token_cipher Y \<longleftrightarrow> (\<forall>bytes. cy_hex_decode Y (cy_hex_encode Y bytes) = Some bytes)
     \<and> (\<forall>n. length (cy_nonce Y n) = 12)
     \<and> (\<forall>key nonce token c. cy_encrypt Y key nonce token = Some c \<longrightarrow> cy_decrypt Y key nonce c = Some token)"

text \<open>A token that was stored encrypted is read back.\<close>

theorem token_roundtrip:
  assumes "token_cipher Y" and "encrypt_token Y n token key = Inr stored" and "valid_utf8 token"
  shows "decrypt_token Y stored key = Inr token"
  using assms
  by (auto simp: token_cipher_def encrypt_token_def decrypt_token_def and_ok_def ok_or_def split: option.splits)

text \<open>A cipher that reverses its input satisfies the laws.\<close>

definition mirror_crypto :: crypto_lib where
  "mirror_crypto = \<lparr>cy_nonce = (\<lambda>n. replicate 12 (CHR ''n'')), cy_encrypt = (\<lambda>k n t. Some (rev t)),
     cy_decrypt = (\<lambda>k n c. Some (rev c)), cy_hex_encode = (\<lambda>b. b), cy_hex_decode = Some\<rparr>"

theorem token_roundtrip_witness:
  "decrypt_token mirror_crypto ''nnnnnnnnnnnnba'' [] = Inr ''ab''"
proof (rule token_roundtrip [where n = 0])
  show "token_cipher mirror_crypto" by (simp add: token_cipher_def mirror_crypto_def)
  show "encrypt_token mirror_crypto 0 ''ab'' [] = Inr ''nnnnnnnnnnnnba''"
    by (simp add: encrypt_token_def mirror_crypto_def numeral_eq_Suc)
  show "valid_utf8 ''ab''" by code_simp
qed

end
