(* ===== verification/Api.thy ===== *)
theory Api
  imports Platform Metrics Webhooks Rollback Cache Token_Crypto
begin

text \<open>
  \<^verbatim>\<open>src/api.rs\<close>, the foundations: the state of the server, its errors, the authentication of a request and the
  accounts.  The services behind the trait \<^verbatim>\<open>PlatformService\<close> are a record of operations on the world;
  \<open>deployment_service\<close> is the one the program installs.  JSON and UUID text, the random generator, the
  environment of the process and the clients of the providers are parameters.
\<close>

section \<open>The platform service\<close>

record 'w PlatformService =
  svc_create_project :: "CreateProjectInput \<Rightarrow> ('w, error, Project) io"
  svc_project :: "uuid \<Rightarrow> ('w, error, Project) io"
  svc_projects :: "('w, error, Project list) io"
  svc_deploy :: "uuid \<Rightarrow> ('w, error, StateDeployment) io"
  svc_deployments :: "uuid \<Rightarrow> ('w, error, StateDeployment list) io"
  svc_deployment :: "uuid \<Rightarrow> ('w, error, StateDeployment) io"
  svc_stop :: "uuid \<Rightarrow> ('w, error, StateDeployment) io"
  svc_logs :: "uuid \<Rightarrow> ('w, error, string) io"

text \<open>The world of the server: the tables of metrics beside the database, and the disk and the container runtime
  of the host.  An operation of the host runs on its part of it.\<close>

record 'r host_state =
  hs_disk :: "string \<rightharpoonup> string"
  hs_stat_fault :: "nat \<Rightarrow> bool"
  hs_runtime :: 'r

record 'r api_world = metrics_world +
  host :: "'r host_state"

definition platform_of :: "('r, 'z) api_world_scheme \<Rightarrow> 'r platform_world" where
  "platform_of w = \<lparr>env = env w, tick = tick w, db = db w, redis_log = redis_log w, disk = hs_disk (host w),
     stat_fault = hs_stat_fault (host w), runtime = hs_runtime (host w)\<rparr>"

definition put_platform :: "'r platform_world \<Rightarrow> ('r, 'z) api_world_scheme \<Rightarrow> ('r, 'z) api_world_scheme" where
  "put_platform p w = w\<lparr>env := env p, tick := tick p, db := db p, redis_log := redis_log p,
     host := \<lparr>hs_disk = disk p, hs_stat_fault = stat_fault p, hs_runtime = runtime p\<rparr>\<rparr>"

definition on_host :: "('r platform_world, 'e, 'a) io \<Rightarrow> (('r, 'z) api_world_scheme, 'e, 'a) io" where
  "on_host m = (\<lambda>w. case m (platform_of w) of (r, p) \<Rightarrow> (r, put_platform p w))"

definition deployment_service :: "host_lib \<Rightarrow> canonicalizer \<Rightarrow> ('r, unit) platform_world_ext ImageBuilder \<Rightarrow> 'r Runtime \<Rightarrow>
   string \<Rightarrow> ('r, 'z) api_world_scheme PlatformService" where
  "deployment_service L C builder R state_root =
     \<lparr>svc_create_project = (\<lambda>input. on_host (create_project L C state_root input)),
      svc_project = (\<lambda>i. on_host (store_project L state_root i)),
      svc_projects = on_host (service_projects L state_root),
      svc_deploy = (\<lambda>i. on_host (deploy L C builder R state_root i)),
      svc_deployments = (\<lambda>i. on_host (service_deployments L state_root i)),
      svc_deployment = (\<lambda>i. on_host (store_deployment L state_root i)),
      svc_stop = (\<lambda>i. on_host (service_stop L R state_root i)),
      svc_logs = (\<lambda>i. on_host (service_logs L R state_root i))\<rparr>"

section \<open>State and errors\<close>

record OAuthTokenResponse =
  ot_access_token :: string
  ot_refresh_token :: "string option"
  ot_expires_in :: "int option"
  ot_external_user_id :: string

text \<open>The methods of a provider's client that the server calls; an answer depends on the number of the
  interaction.\<close>

record ProviderClient =
  cl_provider :: Provider
  cl_begin_authorization :: "string \<Rightarrow> string \<Rightarrow> string"
  cl_complete_authorization :: "nat \<Rightarrow> string \<Rightarrow> string \<Rightarrow> error + OAuthTokenResponse"
  cl_list_repositories :: "nat \<Rightarrow> string \<Rightarrow> error + RemoteRepository list"

record 'w ApiState =
  as_service :: "'w PlatformService"
  as_auth :: "auth_lib option"
  as_db :: bool
  as_providers :: "ProviderClient list"
  as_queue :: "BuildQueue option"

definition get_provider :: "'w ApiState \<Rightarrow> Provider \<Rightarrow> ProviderClient option" where
  "get_provider S provider = List.find (\<lambda>p. cl_provider p = provider) (as_providers S)"

record api_lib =
  ax_parse_uuid :: "string \<Rightarrow> uuid option"
  ax_uuid_text :: uuid_text
  ax_fmt :: log_fmt
  ax_to_string :: "error \<Rightarrow> string"
  ax_alternate :: "error \<Rightarrow> string"
  ax_var :: "string \<Rightarrow> string option"
  ax_random_hex :: "nat \<Rightarrow> nat \<Rightarrow> string"
  ax_crypto :: crypto_lib
  ax_collation :: "string \<Rightarrow> nat"
  ax_rollback_body :: "string \<Rightarrow> (HealthPolicy option \<times> u64 option) option"
  ax_entry_json :: "LogEntry \<Rightarrow> string option"

type_synonym ('z, 'a) api_op = "('z metrics_world_scheme, ApiError, 'a) io"
type_synonym 'z api_state = "'z metrics_world_scheme ApiState"

text \<open>The status and the text of an error; a task that panicked sends no response.\<close>

fun into_response :: "api_lib \<Rightarrow> ApiError \<Rightarrow> (u16 \<times> string) option" where
  "into_response L (BadRequest e) = Some (400, ax_to_string L e)"
| "into_response L (ApiUnauthorized msg) = Some (401, msg)"
| "into_response L (ApiForbidden msg) = Some (403, msg)"
| "into_response L (ApiNotFound msg) = Some (404, msg)"
| "into_response L (UnprocessableEntity msg) = Some (422, msg)"
| "into_response L (Internal e) = Some (500, ax_to_string L e)"
| "into_response L (TaskPanicked msg) = None"

definition api_err :: "(error \<Rightarrow> ApiError) \<Rightarrow> ('w, error, 'a) io \<Rightarrow> ('w, ApiError, 'a) io" where
  "api_err f = map_err (\<lambda>e. case e of Panicked m \<Rightarrow> TaskPanicked m | _ \<Rightarrow> f e)"

abbreviation or_internal :: "('w, error, 'a) io \<Rightarrow> ('w, ApiError, 'a) io" where
  "or_internal m \<equiv> api_err Internal m"

definition map_service_err :: "api_lib \<Rightarrow> error \<Rightarrow> ApiError" where
  "map_service_err L e =
     (let msg = ax_alternate L e
      in if str_contains msg ''not found'' then ApiNotFound msg else UnprocessableEntity msg)"

definition parse_id :: "api_lib \<Rightarrow> string \<Rightarrow> ('w, ApiError, uuid) io" where
  "parse_id L param = of_option (BadRequest (Message ''invalid UUID'')) (ax_parse_uuid L param)"

definition require_db :: "'w ApiState \<Rightarrow> ('w, ApiError, unit) io" where
  "require_db S = (if as_db S then ret () else fail (Internal (Message ''database not configured'')))"

definition require_auth :: "'w ApiState \<Rightarrow> ('w, ApiError, auth_lib) io" where
  "require_auth S = of_option (Internal (Message ''auth service not configured'')) (as_auth S)"

text \<open>\<^verbatim>\<open>let _ = audit.record(..).await\<close>.\<close>

definition audit :: "'z api_state \<Rightarrow> AuthContext \<Rightarrow> string \<Rightarrow> string \<Rightarrow> uuid \<Rightarrow> (string \<times> json) list \<Rightarrow> ('z, unit) api_op" where
  "audit S ctx action target_type target_id metadata =
     ignore (audit_service_record (as_db S) (ac_user_id ctx) action target_type target_id (JObject metadata)
       :: ('z metrics_world_scheme, error, unit) io)"

text \<open>A call outside the program whose answer depends on the number of the interaction.\<close>

definition external :: "(nat \<Rightarrow> 'e + 'a) \<Rightarrow> ('z world_scheme, 'e, 'a) io" where
  "external f = (\<lambda>w. (f (tick w), w\<lparr>tick := Suc (tick w)\<rparr>))"

section \<open>Authentication of a request\<close>

fun split_char :: "char \<Rightarrow> string \<Rightarrow> string list" where
  "split_char c [] = [[]]"
| "split_char c (x # xs) =
     (if x = c then [] # split_char c xs
      else case split_char c xs of p # ps \<Rightarrow> (x # p) # ps | [] \<Rightarrow> [[x]])"

fun session_cookie :: "string list \<Rightarrow> string option" where
  "session_cookie [] = None"
| "session_cookie (c # cs) =
     (case strip_prefix (str_trim c) ''dp_session='' of Some token \<Rightarrow> Some token | None \<Rightarrow> session_cookie cs)"

definition bearer_token :: "HeaderMap \<Rightarrow> string option" where
  "bearer_token headers =
     Option.bind (Option.bind (map_of headers ''authorization'') header_to_str) (\<lambda>auth_str.
     map_option str_trim (strip_prefix auth_str ''Bearer ''))"

definition cookie_token :: "HeaderMap \<Rightarrow> string option" where
  "cookie_token headers =
     Option.bind (Option.bind (map_of headers ''cookie'') header_to_str) (\<lambda>cookie_str.
     session_cookie (split_char (CHR '';'') cookie_str))"

definition by_session :: "api_lib \<Rightarrow> auth_lib \<Rightarrow> string \<Rightarrow> ('z, AuthContext) api_op" where
  "by_session L A token =
     api_err (\<lambda>e. ApiUnauthorized (''invalid session: '' @ ax_to_string L e)) (authenticate_session A token)"

definition from_request_parts :: "api_lib \<Rightarrow> 'z api_state \<Rightarrow> HeaderMap \<Rightarrow> ('z, AuthContext) api_op" where
  "from_request_parts L S headers =
     (case as_auth S of
        None \<Rightarrow> ret \<lparr>ac_user_id = 0, ac_session_id = None, ac_scopes = [''*'']\<rparr>
      | Some A \<Rightarrow>
          (case bearer_token headers of
             Some token \<Rightarrow>
               if str_starts_with token ''dp_''
               then api_err (\<lambda>e. ApiUnauthorized (''invalid api token: '' @ ax_to_string L e))
                      (authenticate_api_token A token)
               else by_session L A token
           | None \<Rightarrow>
               (case cookie_token headers of
                  Some token \<Rightarrow> by_session L A token
                | None \<Rightarrow> fail (ApiUnauthorized ''authentication required''))))"

section \<open>Sessions and accounts\<close>

record LoginRequest =
  lg_email :: string
  lg_password :: string

record RegisterRequest =
  rg_email :: string
  rg_password :: string
  rg_name :: string

record UserSummary =
  us_id :: uuid
  us_email :: string
  us_name :: string

record SessionResponse =
  sn_user :: UserSummary
  sn_token :: string
  sn_expires_at :: string

record MeResponse =
  me_id :: uuid
  me_email :: string
  me_name :: string
  me_scopes :: "string list"

record CreateApiTokenRequest =
  ct_name :: string
  ct_scopes :: "string list option"

record Cookie =
  ck_name :: string
  ck_value :: string
  ck_path :: string
  ck_http_only :: bool
  ck_same_site_lax :: bool
  ck_max_age :: int

definition session_ttl :: int where
  "session_ttl = 7 * 86400 * second"

definition dp_session :: "string \<Rightarrow> int \<Rightarrow> Cookie" where
  "dp_session token max_age = \<lparr>ck_name = ''dp_session'', ck_value = token, ck_path = ''/'', ck_http_only = True,
     ck_same_site_lax = True, ck_max_age = max_age\<rparr>"

definition session_response :: "api_lib \<Rightarrow> UserRecord \<Rightarrow> SessionInfo \<Rightarrow> SessionResponse" where
  "session_response L user session =
     \<lparr>sn_user = \<lparr>us_id = u_id user, us_email = u_email user, us_name = u_name user\<rparr>, sn_token = si_token session,
      sn_expires_at = rfc3339_or_default (ax_fmt L) (si_expires_at session)\<rparr>"

definition login_session :: "api_lib \<Rightarrow> 'z api_state \<Rightarrow> LoginRequest \<Rightarrow> ('z, Cookie \<times> u16 \<times> SessionResponse) api_op" where
  "login_session L S req =
     and_then (require_auth S) (\<lambda>auth.
     and_then (api_err (\<lambda>e. ApiUnauthorized (ax_to_string L e)) (login auth (lg_email req) (lg_password req) session_ttl))
     (\<lambda>(user, session).
     ret (dp_session (si_token session) session_ttl, 200, session_response L user session)))"

definition register_session :: "api_lib \<Rightarrow> 'z api_state \<Rightarrow> RegisterRequest \<Rightarrow> ('z, Cookie \<times> u16 \<times> SessionResponse) api_op" where
  "register_session L S req =
     and_then (require_auth S) (\<lambda>auth.
     and_then (api_err BadRequest (register_user auth (rg_email req) (rg_password req) (rg_name req))) (\<lambda>user.
     and_then (or_internal (create_session auth (u_id user) session_ttl)) (\<lambda>session.
     ret (dp_session (si_token session) session_ttl, 201, session_response L user session))))"

definition logout_session :: "'z api_state \<Rightarrow> AuthContext \<Rightarrow> ('z, Cookie \<times> u16) api_op" where
  "logout_session S ctx =
     and_then (case ac_session_id ctx of
         Some session_id \<Rightarrow>
           (case as_auth S of
              Some auth \<Rightarrow> ignore (revoke_session session_id :: ('z metrics_world_scheme, error, unit) io)
            | None \<Rightarrow> ret ())
       | None \<Rightarrow> ret ()) (\<lambda>_.
     ret (dp_session [] 0, 204))"

definition get_current_user :: "'z api_state \<Rightarrow> AuthContext \<Rightarrow> ('z, MeResponse) api_op" where
  "get_current_user S ctx =
     (if as_db S
      then
        and_then (api_err (\<lambda>_. ApiNotFound ''user not found'') (get_by_id (ac_user_id ctx))) (\<lambda>user.
        ret \<lparr>me_id = u_id user, me_email = u_email user, me_name = u_name user, me_scopes = ac_scopes ctx\<rparr>)
      else ret \<lparr>me_id = ac_user_id ctx, me_email = ''dev@deployplatform.local'', me_name = ''Dev User'',
             me_scopes = ac_scopes ctx\<rparr>)"

definition create_api_token :: "'z api_state \<Rightarrow> AuthContext \<Rightarrow> CreateApiTokenRequest \<Rightarrow> ('z, u16 \<times> IssuedToken) api_op" where
  "create_api_token S ctx req =
     and_then (require_auth S) (\<lambda>auth.
     and_then (or_internal (issue_api_token auth (ac_user_id ctx) (ct_name req) (unwrap_or (ct_scopes req) [''*'']) None))
     (\<lambda>issued.
     and_then (audit S ctx ''api_token.create'' ''api_token'' (it_id issued)
       [(''name'', JString (it_name issued)), (''prefix'', JString (it_prefix issued))]) (\<lambda>_.
     ret (201, issued))))"

definition list_user_api_tokens :: "'z api_state \<Rightarrow> AuthContext \<Rightarrow> ('z, ApiTokenSummary list) api_op" where
  "list_user_api_tokens S ctx =
     and_then (require_auth S) (\<lambda>auth. or_internal (list_api_tokens (ac_user_id ctx)))"

definition revoke_user_api_token :: "api_lib \<Rightarrow> 'z api_state \<Rightarrow> AuthContext \<Rightarrow> string \<Rightarrow> ('z, u16) api_op" where
  "revoke_user_api_token L S ctx token_id =
     and_then (parse_id L token_id) (\<lambda>i.
     and_then (require_auth S) (\<lambda>auth.
     and_then (api_err (\<lambda>e. ApiNotFound (ax_to_string L e)) (revoke_api_token (ac_user_id ctx) i)) (\<lambda>_.
     and_then (audit S ctx ''api_token.revoke'' ''api_token'' i []) (\<lambda>_.
     ret 204))))"

section \<open>Source providers\<close>

definition callback_uri :: "Provider \<Rightarrow> string" where
  "callback_uri provider = ''http://localhost:3000/api/providers/'' @ Provider_fmt provider @ ''/callback''"

definition parse_provider :: "string \<Rightarrow> ('w, ApiError, Provider) io" where
  "parse_provider provider_str = map_err BadRequest (of_result (Provider_from_str provider_str))"

definition require_provider :: "'w ApiState \<Rightarrow> Provider \<Rightarrow> ('w, ApiError, ProviderClient) io" where
  "require_provider S provider =
     of_option (BadRequest (Message (''provider '' @ Provider_fmt provider @ '' is not configured''))) (get_provider S provider)"

definition provider_connect :: "api_lib \<Rightarrow> 'z api_state \<Rightarrow> AuthContext \<Rightarrow> string \<Rightarrow> string option \<Rightarrow> ('z, json) api_op" where
  "provider_connect L S ctx provider_str redirect =
     and_then (parse_provider provider_str) (\<lambda>provider.
     and_then (require_provider S provider) (\<lambda>client.
     and_then (require_db S) (\<lambda>_.
     and_then (or_internal uuid_new_v4) (\<lambda>u.
     and_then (external (\<lambda>n. Inr (ax_random_hex L n 16))) (\<lambda>rnd.
     let state_token = ut_simple (ax_uuid_text L) u @ ''_'' @ rnd;
         redirect_uri = unwrap_or redirect (callback_uri provider)
     in and_then (or_internal now_utc) (\<lambda>now.
        and_then (or_internal (save_oauth_state state_token (ac_user_id ctx) provider (Some redirect_uri)
          (now + 5 * 60 * second) now)) (\<lambda>_.
        ret (JObject [(''url'', JString (cl_begin_authorization client state_token redirect_uri)),
                      (''state'', JString state_token)]))))))))"

record OAuthCallbackQuery =
  oc_code :: string
  oc_state :: string
  oc_redirect_uri :: "string option"

text \<open>Adding seconds to an instant panics outside the range of dates.\<close>

definition add_seconds :: "timestamp \<Rightarrow> int \<Rightarrow> error + timestamp" where
  "add_seconds t secs =
     (let r = t + secs * second
      in case from_unix_timestamp (r div second) of Some _ \<Rightarrow> Inr r
         | None \<Rightarrow> Inl (Panicked ''resulting value is out of range''))"

definition encrypt_opt :: "crypto_lib \<Rightarrow> string option \<Rightarrow> string \<Rightarrow> ('z, string option) api_op" where
  "encrypt_opt Y token key =
     (case token of
        Some t \<Rightarrow> and_then (or_internal (external (\<lambda>n. encrypt_token Y n t key))) (\<lambda>c. ret (Some c))
      | None \<Rightarrow> ret None)"

text \<open>What follows the exchange of the code: the tokens are encrypted and stored, the repositories copied.\<close>

definition store_connection :: "api_lib \<Rightarrow> 'z api_state \<Rightarrow> AuthContext \<Rightarrow> Provider \<Rightarrow> ProviderClient \<Rightarrow> OAuthTokenResponse \<Rightarrow>
   ('z, json) api_op" where
  "store_connection L S ctx provider client token_resp =
     (let enc_key = default_encryption_key (ax_crypto L) (ax_var L)
      in and_then (or_internal (external (\<lambda>n. encrypt_token (ax_crypto L) n (ot_access_token token_resp) enc_key))) (\<lambda>enc_access_token.
         and_then (encrypt_opt (ax_crypto L) (ot_refresh_token token_resp) enc_key) (\<lambda>enc_refresh_token.
         and_then (or_internal now_utc) (\<lambda>now.
         and_then (case ot_expires_in token_resp of
             Some sec \<Rightarrow> and_then (or_internal (of_result (add_seconds now sec))) (\<lambda>t. ret (Some t))
           | None \<Rightarrow> ret None) (\<lambda>expires_at.
         and_then (or_internal uuid_new_v4) (\<lambda>i.
         and_then (or_internal (upsert_connection \<lparr>pc_id = i, pc_user_id = ac_user_id ctx, pc_provider = provider,
             pc_external_user_id = ot_external_user_id token_resp, pc_access_token_encrypted = enc_access_token,
             pc_refresh_token_encrypted = enc_refresh_token, pc_expires_at = expires_at, pc_created_at = now,
             pc_updated_at = now\<rparr>)) (\<lambda>conn.
         and_then (attempt (external (\<lambda>n. cl_list_repositories client n (ot_access_token token_resp)))) (\<lambda>listed.
         and_then (case listed of
             Inr repos \<Rightarrow> ignore (save_repositories (pc_id conn) repos now :: ('z metrics_world_scheme, error, unit) io)
           | Inl e \<Rightarrow> ret ()) (\<lambda>_.
         and_then (audit S ctx ''provider.connect'' ''provider_connection'' (pc_id conn)
           [(''provider'', JString (Provider_fmt provider)), (''external_user_id'', JString (ot_external_user_id token_resp))]) (\<lambda>_.
         ret (JObject [(''status'', JString ''connected''), (''provider'', JString (Provider_fmt provider)),
                       (''external_user_id'', JString (ot_external_user_id token_resp))])))))))))))"

definition provider_callback :: "api_lib \<Rightarrow> 'z api_state \<Rightarrow> AuthContext \<Rightarrow> string \<Rightarrow> OAuthCallbackQuery \<Rightarrow> ('z, json) api_op" where
  "provider_callback L S ctx provider_str query =
     and_then (parse_provider provider_str) (\<lambda>provider.
     and_then (require_provider S provider) (\<lambda>client.
     and_then (require_db S) (\<lambda>_.
     and_then (or_internal (consume_oauth_state (oc_state query))) (\<lambda>consumed.
     and_then (of_option (BadRequest (Message ''invalid or expired oauth state'')) consumed) (\<lambda>state_record.
     if os_user_id state_record \<noteq> ac_user_id ctx \<or> os_provider state_record \<noteq> provider
     then fail (BadRequest (Message ''oauth state mismatch''))
     else
       let redirect_uri = unwrap_or (or_else (oc_redirect_uri query) (os_redirect_url state_record)) (callback_uri provider)
       in and_then (api_err (\<lambda>e. BadRequest (Message (''oauth authorization failed: '' @ ax_to_string L e)))
            (external (\<lambda>n. cl_complete_authorization client n (oc_code query) redirect_uri))) (\<lambda>token_resp.
          store_connection L S ctx provider client token_resp))))))"

definition list_provider_repositories :: "api_lib \<Rightarrow> 'z api_state \<Rightarrow> AuthContext \<Rightarrow> string \<Rightarrow>
   ('z, ProviderRepositoryRecord list) api_op" where
  "list_provider_repositories L S ctx provider_str =
     and_then (parse_provider provider_str) (\<lambda>provider.
     and_then (require_db S) (\<lambda>_.
     or_internal (list_repositories (ax_collation L) (ac_user_id ctx) provider)))"

end
