(* ===== verification/Api_Handlers.thy ===== *)
theory Api_Handlers
  imports Api
begin

text \<open>
  \<^verbatim>\<open>src/api.rs\<close>, the handlers of projects, deployments, logs, previews, metrics and releases, and the table of
  routes.  A handler gets the authenticated context and the decoded request; \<open>serve\<close> runs the extractors in
  their order and calls the handler of the route.
\<close>

section \<open>Projects\<close>

definition forbid_unless :: "bool \<Rightarrow> string \<Rightarrow> ('w, ApiError, unit) io" where
  "forbid_unless allowed msg = (if allowed then ret () else fail (ApiForbidden msg))"

definition service_project :: "api_lib \<Rightarrow> 'z api_state \<Rightarrow> uuid \<Rightarrow> ('z, Project) api_op" where
  "service_project L S i = api_err (map_service_err L) (svc_project (as_service S) i)"

definition api_list_projects :: "api_lib \<Rightarrow> 'z api_state \<Rightarrow> AuthContext \<Rightarrow> ('z, Project list) api_op" where
  "api_list_projects L S ctx =
     and_then (api_err (map_service_err L) (svc_projects (as_service S))) (\<lambda>all.
     ret (filter (\<lambda>p. can_read ctx (sp_user_id p)) all))"

record CreateProjectRequest =
  cq_name :: string
  cq_source_dir :: string
  cq_base_image :: string

definition fallback_command :: "string list" where
  "fallback_command = [''/bin/busybox'', ''httpd'', ''-f'', ''-p'', ''{PORT}'', ''-h'', ''/srv/app'']"

definition copy_to_db :: "'z api_state \<Rightarrow> AuthContext \<Rightarrow> Project \<Rightarrow> ('z, unit) api_op" where
  "copy_to_db S ctx project =
     (if as_db S \<and> ac_user_id ctx \<noteq> 0
      then ignore (create_project_row \<lparr>cp_id = sp_id project, cp_user_id = ac_user_id ctx, cp_name = sp_name project,
             cp_source_dir = sp_source_dir project, cp_base_image = sp_base_image project,
             cp_server_command = sp_server_command project, cp_created_at = sp_created_at project\<rparr>
             :: ('z metrics_world_scheme, error, ProjectRecord) io)
      else ret ())"

definition api_create_project :: "api_lib \<Rightarrow> 'z api_state \<Rightarrow> AuthContext \<Rightarrow> CreateProjectRequest \<Rightarrow> ('z, u16 \<times> Project) api_op" where
  "api_create_project L S ctx req =
     and_then (forbid_unless (has_scope ctx ''*'' \<or> has_scope ctx ''project:write'') ''missing required scope: project:write'') (\<lambda>_.
     let server_command = (case from_env (ax_var L) of Inr c \<Rightarrow> cf_server_command c | Inl _ \<Rightarrow> fallback_command);
         input = \<lparr>in_name = cq_name req, in_source_dir = cq_source_dir req, in_base_image = cq_base_image req,
                  in_server_command = server_command,
                  in_user_id = (if ac_user_id ctx = 0 then None else Some (ac_user_id ctx))\<rparr>
     in and_then (api_err (map_service_err L) (svc_create_project (as_service S) input)) (\<lambda>project.
        and_then (copy_to_db S ctx project) (\<lambda>_.
        and_then (audit S ctx ''project.create'' ''project'' (sp_id project) [(''name'', JString (sp_name project))]) (\<lambda>_.
        ret (201, project)))))"

definition api_get_project :: "api_lib \<Rightarrow> 'z api_state \<Rightarrow> AuthContext \<Rightarrow> string \<Rightarrow> ('z, Project) api_op" where
  "api_get_project L S ctx project_id =
     and_then (parse_id L project_id) (\<lambda>i.
     and_then (service_project L S i) (\<lambda>project.
     and_then (forbid_unless (can_read ctx (sp_user_id project)) ''access to project denied'') (\<lambda>_.
     ret project)))"

definition api_list_deployments :: "api_lib \<Rightarrow> 'z api_state \<Rightarrow> AuthContext \<Rightarrow> string \<Rightarrow> ('z, StateDeployment list) api_op" where
  "api_list_deployments L S ctx project_id =
     and_then (parse_id L project_id) (\<lambda>i.
     and_then (service_project L S i) (\<lambda>project.
     and_then (forbid_unless (can_read ctx (sp_user_id project)) ''access to project deployments denied'') (\<lambda>_.
     api_err (map_service_err L) (svc_deployments (as_service S) i))))"

section \<open>Deployments\<close>

text \<open>The record of a deployment that is only queued, as the response shows it.\<close>

definition queued_record :: "uuid \<Rightarrow> uuid \<Rightarrow> timestamp \<Rightarrow> StateDeployment" where
  "queued_record i project_id now =
     \<lparr>sd_id = i, sd_project_id = project_id, sd_framework = StaticSite, sd_status = DepQueued, sd_image_path = None,
      sd_container_id = None, sd_port = None, sd_url = None, sd_created_at = now, sd_finished_at = None, sd_error = None,
      sd_commit_sha = None, sd_target = Some ''production''\<rparr>"

definition uuid_json :: "api_lib \<Rightarrow> uuid \<Rightarrow> json" where
  "uuid_json L i = JString (ut_string (ax_uuid_text L) i)"

definition queue_deployment :: "api_lib \<Rightarrow> 'z api_state \<Rightarrow> AuthContext \<Rightarrow> BuildQueue \<Rightarrow> Project \<Rightarrow> uuid \<Rightarrow> bool \<Rightarrow>
   ('z, u16 \<times> StateDeployment) api_op" where
  "queue_deployment L S ctx queue project i force_rebuild =
     and_then (or_internal uuid_new_v4) (\<lambda>deployment_id.
     and_then (or_internal now_utc) (\<lambda>now.
     and_then (if as_db S
         then ignore (Previews.insert_deployment ''insert deployment''
           ((queued_deployment deployment_id i now [])\<lparr>d_commit_sha := None\<rparr>) :: ('z metrics_world_scheme, error, unit) io)
         else ret ()) (\<lambda>_.
     and_then (or_internal (enqueue_job_with_force_rebuild queue deployment_id i Production force_rebuild)) (\<lambda>_.
     and_then (audit S ctx ''deployment.create'' ''deployment'' deployment_id
       [(''project_id'', uuid_json L (sp_id project)), (''status'', JString (status_to_str DepQueued)),
        (''force_rebuild'', JBool force_rebuild)]) (\<lambda>_.
     ret (202, queued_record deployment_id i now))))))"

definition deploy_now :: "api_lib \<Rightarrow> 'z api_state \<Rightarrow> AuthContext \<Rightarrow> Project \<Rightarrow> uuid \<Rightarrow> ('z, u16 \<times> StateDeployment) api_op" where
  "deploy_now L S ctx project i =
     and_then (api_err (map_service_err L) (svc_deploy (as_service S) i)) (\<lambda>deployment.
     and_then (audit S ctx ''deployment.create'' ''deployment'' (sd_id deployment)
       [(''project_id'', uuid_json L (sp_id project)), (''status'', JString (status_to_str (sd_status deployment)))]) (\<lambda>_.
     ret (201, deployment)))"

definition api_create_deployment :: "api_lib \<Rightarrow> 'z api_state \<Rightarrow> AuthContext \<Rightarrow> string \<Rightarrow> bool option \<Rightarrow>
   ('z, u16 \<times> StateDeployment) api_op" where
  "api_create_deployment L S ctx project_id force_rebuild =
     and_then (parse_id L project_id) (\<lambda>i.
     and_then (service_project L S i) (\<lambda>project.
     and_then (forbid_unless (can_operate ctx (sp_user_id project)) ''operation on project denied'') (\<lambda>_.
     case as_queue S of
       Some queue \<Rightarrow> queue_deployment L S ctx queue project i (unwrap_or force_rebuild False)
     | None \<Rightarrow> deploy_now L S ctx project i)))"

definition service_deployment :: "api_lib \<Rightarrow> 'z api_state \<Rightarrow> uuid \<Rightarrow> ('z, StateDeployment) api_op" where
  "service_deployment L S i = api_err (map_service_err L) (svc_deployment (as_service S) i)"

definition api_get_deployment :: "api_lib \<Rightarrow> 'z api_state \<Rightarrow> AuthContext \<Rightarrow> string \<Rightarrow> ('z, StateDeployment) api_op" where
  "api_get_deployment L S ctx deployment_id =
     and_then (parse_id L deployment_id) (\<lambda>i.
     and_then (service_deployment L S i) (\<lambda>deployment.
     and_then (service_project L S (sd_project_id deployment)) (\<lambda>project.
     and_then (forbid_unless (can_read ctx (sp_user_id project)) ''access to deployment denied'') (\<lambda>_.
     ret deployment))))"

definition api_stop_deployment :: "api_lib \<Rightarrow> 'z api_state \<Rightarrow> AuthContext \<Rightarrow> string \<Rightarrow> ('z, StateDeployment) api_op" where
  "api_stop_deployment L S ctx deployment_id =
     and_then (parse_id L deployment_id) (\<lambda>i.
     and_then (service_deployment L S i) (\<lambda>deployment.
     and_then (service_project L S (sd_project_id deployment)) (\<lambda>project.
     and_then (forbid_unless (can_operate ctx (sp_user_id project)) ''stopping deployment denied'') (\<lambda>_.
     and_then (api_err (map_service_err L) (svc_stop (as_service S) i)) (\<lambda>stopped.
     and_then (audit S ctx ''deployment.stop'' ''deployment'' (sd_id stopped)
       [(''project_id'', uuid_json L (sp_id project)), (''status'', JString (status_to_str (sd_status stopped)))]) (\<lambda>_.
     ret stopped))))))"

definition cancel_job_of :: "'z api_state \<Rightarrow> uuid \<Rightarrow> ('z, unit) api_op" where
  "cancel_job_of S i =
     (case as_queue S of
        None \<Rightarrow> ret ()
      | Some queue \<Rightarrow>
          and_then (attempt (get_job_by_deployment i :: ('z metrics_world_scheme, error, BuildJobRecord option) io)) (\<lambda>found.
          case found of
            Inr (Some job) \<Rightarrow> ignore (cancel (j_id job) :: ('z metrics_world_scheme, error, unit) io)
          | _ \<Rightarrow> ret ()))"

definition api_cancel_deployment :: "api_lib \<Rightarrow> 'z api_state \<Rightarrow> AuthContext \<Rightarrow> string \<Rightarrow> ('z, StateDeployment) api_op" where
  "api_cancel_deployment L S ctx deployment_id =
     and_then (parse_id L deployment_id) (\<lambda>i.
     and_then (cancel_job_of S i) (\<lambda>_.
     and_then (if as_db S
         then ignore (update_deployments ''cancel'' i (\<lambda>r. r\<lparr>d_status := DepCancelled\<rparr>) :: ('z metrics_world_scheme, error, unit) io)
         else ret ()) (\<lambda>_.
     and_then (attempt (svc_deployment (as_service S) i)) (\<lambda>found.
     and_then (or_internal now_utc) (\<lambda>now1.
     and_then (or_internal now_utc) (\<lambda>now2.
     ret (case found of
            Inr d \<Rightarrow> d
          | Inl e \<Rightarrow> (queued_record i 0 now1)\<lparr>sd_status := DepCancelled, sd_finished_at := Some now2, sd_target := None\<rparr>)))))))"

definition requeue_deployment :: "api_lib \<Rightarrow> 'z api_state \<Rightarrow> AuthContext \<Rightarrow> BuildQueue \<Rightarrow> uuid \<Rightarrow> bool \<Rightarrow> ('z, unit) api_op" where
  "requeue_deployment L S ctx queue i force_rebuild =
     and_then (or_internal (select_rows ''project of deployment'' (\<lambda>d. map_option d_project_id (lookup_by d_id i (deployments d))))) (\<lambda>proj_id_opt.
     case proj_id_opt of
       None \<Rightarrow> ret ()
     | Some proj_id \<Rightarrow>
         and_then (ignore (update_deployments ''retry'' i (\<lambda>r. r\<lparr>d_status := DepQueued, d_error := None\<rparr>)
           :: ('z metrics_world_scheme, error, unit) io)) (\<lambda>_.
         and_then (ignore (enqueue_job_with_force_rebuild queue i proj_id Production force_rebuild
           :: ('z metrics_world_scheme, error, BuildJobRecord) io)) (\<lambda>_.
         audit S ctx ''deployment.retry'' ''deployment'' i
           [(''project_id'', uuid_json L proj_id), (''force_rebuild'', JBool force_rebuild)])))"

definition api_retry_deployment :: "api_lib \<Rightarrow> 'z api_state \<Rightarrow> AuthContext \<Rightarrow> string \<Rightarrow> bool option \<Rightarrow>
   ('z, u16 \<times> StateDeployment) api_op" where
  "api_retry_deployment L S ctx deployment_id force_rebuild =
     and_then (parse_id L deployment_id) (\<lambda>i.
     and_then (or_internal now_utc) (\<lambda>now.
     and_then (case as_queue S of
         Some queue \<Rightarrow> if as_db S then requeue_deployment L S ctx queue i (unwrap_or force_rebuild False) else ret ()
       | None \<Rightarrow> ret ()) (\<lambda>_.
     ret (202, queued_record i 0 now))))"

section \<open>Logs\<close>

definition resolve_deployment_user_id :: "api_lib \<Rightarrow> 'z api_state \<Rightarrow> uuid \<Rightarrow> ('z, uuid option) api_op" where
  "resolve_deployment_user_id L S i =
     and_then (if as_db S
         then or_internal (select_rows ''project of deployment'' (\<lambda>d. map_option d_project_id (lookup_by d_id i (deployments d))))
         else ret None) (\<lambda>dep_row.
     case dep_row of
       Some proj_id \<Rightarrow>
         and_then (api_err (\<lambda>e. ApiNotFound (ax_to_string L e)) (Repository.get_project proj_id)) (\<lambda>proj.
         ret (Some (pj_user_id proj)))
     | None \<Rightarrow>
         and_then (service_deployment L S i) (\<lambda>deployment.
         and_then (service_project L S (sd_project_id deployment)) (\<lambda>project.
         ret (sp_user_id project))))"

text \<open>The three handlers of logs start with the same check.\<close>

definition check_log_access :: "api_lib \<Rightarrow> 'z api_state \<Rightarrow> AuthContext \<Rightarrow> string \<Rightarrow> ('z, uuid) api_op" where
  "check_log_access L S ctx deployment_id =
     and_then (parse_id L deployment_id) (\<lambda>i.
     and_then (resolve_deployment_user_id L S i) (\<lambda>user_id.
     and_then (forbid_unless (can_read ctx user_id) ''access to deployment logs denied'') (\<lambda>_.
     ret i)))"

definition container_logs :: "api_lib \<Rightarrow> 'z api_state \<Rightarrow> uuid \<Rightarrow> ('z, LogsResponse) api_op" where
  "container_logs L S i =
     and_then (api_err (map_service_err L) (svc_logs (as_service S) i)) (\<lambda>logs.
     and_then (or_internal now_utc) (\<lambda>now.
     ret \<lparr>lr_lines = [\<lparr>le_sequence = 1, le_timestamp = now, le_stream = ''stdout'', le_message = logs\<rparr>],
          lr_next_sequence = Some 1, lr_has_more = False, lr_is_terminal = True, lr_logs = logs\<rparr>))"

definition get_deployment_logs :: "api_lib \<Rightarrow> 'z api_state \<Rightarrow> AuthContext \<Rightarrow> string \<Rightarrow> LogQuery \<Rightarrow> ('z, LogsResponse) api_op" where
  "get_deployment_logs L S ctx deployment_id query =
     and_then (check_log_access L S ctx deployment_id) (\<lambda>i.
     if as_db S
     then
       and_then (or_internal (query_logs (ax_fmt L) i query)) (\<lambda>resp.
       if lr_lines resp \<noteq> [] then ret resp
       else
         and_then (attempt (svc_logs (as_service S) i)) (\<lambda>probed.
         case probed of Inl e \<Rightarrow> ret resp | Inr _ \<Rightarrow> container_logs L S i))
     else container_logs L S i)"

definition valid_header_value :: "string \<Rightarrow> bool" where
  "valid_header_value v =
     list_all (\<lambda>c. 32 \<le> (of_char c :: nat) \<and> (of_char c :: nat) \<noteq> 127 \<or> c = CHR 0x09) v"

record Download =
  dn_content_type :: string
  dn_disposition :: string
  dn_body :: string

definition log_body :: "api_lib \<Rightarrow> 'z api_state \<Rightarrow> uuid \<Rightarrow> ('z, string) api_op" where
  "log_body L S i =
     (if as_db S
      then
        and_then (or_internal (get_full_log (ax_fmt L) i)) (\<lambda>full.
        if full \<noteq> [] then ret full
        else
          and_then (attempt (svc_logs (as_service S) i)) (\<lambda>probed.
          case probed of
            Inl e \<Rightarrow> ret full
          | Inr _ \<Rightarrow> and_then (attempt (svc_logs (as_service S) i)) (\<lambda>again.
              ret (case again of Inr text \<Rightarrow> text | Inl e \<Rightarrow> []))))
      else api_err (map_service_err L) (svc_logs (as_service S) i))"

definition download_deployment_logs :: "api_lib \<Rightarrow> 'z api_state \<Rightarrow> AuthContext \<Rightarrow> string \<Rightarrow> ('z, Download) api_op" where
  "download_deployment_logs L S ctx deployment_id =
     and_then (check_log_access L S ctx deployment_id) (\<lambda>i.
     and_then (log_body L S i) (\<lambda>body.
     let disposition = ''attachment; filename='' @ [CHR 0x22] @ ''deployment-'' @ ut_string (ax_uuid_text L) i @ ''.log'' @ [CHR 0x22]
     in if valid_header_value disposition
        then ret \<lparr>dn_content_type = ''text/plain; charset=utf-8'', dn_disposition = disposition, dn_body = body\<rparr>
        else fail (Internal (Message ''failed to parse header value''))))"

text \<open>The stream of a log.  The task polls the log every 200 milliseconds and sends what is new; it ends when the
  deployment has ended and everything was sent, or when the receiver is gone, which \<open>gone\<close> decides by the number
  of the interaction.  \<open>meanwhile\<close> is what other processes do between two polls; a task polls for as long as it is
  not told to end, so the number of polls is an argument.\<close>

datatype SseEvent = LogEvent u64 string | DoneEvent

datatype stream_end = Polling u64 | Finished

fun send_entries :: "api_lib \<Rightarrow> (nat \<Rightarrow> bool) \<Rightarrow> LogEntry list \<Rightarrow> u64 \<Rightarrow> SseEvent list \<Rightarrow>
   ('z world_scheme, error, SseEvent list \<times> stream_end) io" where
  "send_entries L gone [] last_seq sent = ret (sent, Polling last_seq)"
| "send_entries L gone (entry # entries) last_seq sent =
     and_then (external (\<lambda>n. Inr (gone n))) (\<lambda>closed.
     if closed then ret (sent, Finished)
     else send_entries L gone entries (le_sequence entry)
            (sent @ [LogEvent (le_sequence entry) (unwrap_or (ax_entry_json L entry) [])]))"

definition poll_log :: "api_lib \<Rightarrow> (nat \<Rightarrow> bool) \<Rightarrow> bool \<Rightarrow> uuid \<Rightarrow> u64 \<Rightarrow> SseEvent list \<Rightarrow>
   ('z world_scheme, error, SseEvent list \<times> stream_end) io" where
  "poll_log L gone db_configured i last_seq sent =
     (if \<not> db_configured then ret (sent @ [DoneEvent], Finished)
      else
        and_then (attempt (query_logs (ax_fmt L) i \<lparr>lq_after_sequence = Some last_seq, lq_limit = Some 100, lq_stream = None\<rparr>
          :: ('z world_scheme, error, LogsResponse) io)) (\<lambda>polled.
        case polled of
          Inl e \<Rightarrow> ret (sent, Polling last_seq)
        | Inr resp \<Rightarrow>
            and_then (send_entries L gone (lr_lines resp) last_seq sent) (\<lambda>(sent', reached).
            case reached of
              Finished \<Rightarrow> ret (sent', Finished)
            | Polling seq \<Rightarrow>
                if lr_is_terminal resp \<and> \<not> lr_has_more resp then ret (sent' @ [DoneEvent], Finished)
                else ret (sent', Polling seq))))"

primrec stream_log :: "api_lib \<Rightarrow> (nat \<Rightarrow> bool) \<Rightarrow> bool \<Rightarrow> ('z world_scheme \<Rightarrow> 'z world_scheme) \<Rightarrow> nat \<Rightarrow> uuid \<Rightarrow> u64 \<Rightarrow> SseEvent list \<Rightarrow>
   ('z world_scheme, error, SseEvent list \<times> stream_end) io" where
  "stream_log L gone db_configured meanwhile 0 i last_seq sent = ret (sent, Polling last_seq)"
| "stream_log L gone db_configured meanwhile (Suc polls) i last_seq sent =
     and_then (poll_log L gone db_configured i last_seq sent) (\<lambda>(sent', reached).
     case reached of
       Finished \<Rightarrow> ret (sent', Finished)
     | Polling seq \<Rightarrow>
         and_then (sleep 200000000) (\<lambda>_.
         and_then (modify meanwhile) (\<lambda>_.
         stream_log L gone db_configured meanwhile polls i seq sent')))"

definition stream_deployment_logs :: "api_lib \<Rightarrow> 'z api_state \<Rightarrow> AuthContext \<Rightarrow> string \<Rightarrow> LogQuery \<Rightarrow> (nat \<Rightarrow> bool) \<Rightarrow>
   ('z metrics_world_scheme \<Rightarrow> 'z metrics_world_scheme) \<Rightarrow> nat \<Rightarrow> ('z, SseEvent list \<times> stream_end) api_op" where
  "stream_deployment_logs L S ctx deployment_id query gone meanwhile polls =
     and_then (check_log_access L S ctx deployment_id) (\<lambda>i.
     or_internal (stream_log L gone (as_db S) meanwhile polls i (unwrap_or (lq_after_sequence query) 0) []))"

end
