(* ===== verification/Api_Routes.thy ===== *)
theory Api_Routes
  imports Api_Handlers
begin

text \<open>
  \<^verbatim>\<open>src/api.rs\<close>, continued: sources, previews, the build cache, metrics, releases and rollbacks, and the routes.
\<close>

section \<open>The source of a project\<close>

record UpdateProjectSourceRequest =
  uq_repository_id :: uuid
  uq_target_branch :: "string option"

definition api_get_project_source :: "api_lib \<Rightarrow> 'z api_state \<Rightarrow> AuthContext \<Rightarrow> string \<Rightarrow> ('z, ProjectSourceDetails) api_op" where
  "api_get_project_source L S ctx project_id =
     and_then (parse_id L project_id) (\<lambda>i.
     and_then (service_project L S i) (\<lambda>project.
     and_then (forbid_unless (can_read ctx (sp_user_id project)) ''access to project source denied'') (\<lambda>_.
     and_then (require_db S) (\<lambda>_.
     or_internal (get_project_source (ax_fmt L) i)))))"

definition update_project_source :: "api_lib \<Rightarrow> 'z api_state \<Rightarrow> AuthContext \<Rightarrow> string \<Rightarrow> UpdateProjectSourceRequest \<Rightarrow>
   ('z, ProjectSourceDetails) api_op" where
  "update_project_source L S ctx project_id req =
     and_then (parse_id L project_id) (\<lambda>i.
     and_then (service_project L S i) (\<lambda>project.
     and_then (forbid_unless (can_mutate ctx (sp_user_id project)) ''operation on project denied'') (\<lambda>_.
     and_then (require_db S) (\<lambda>_.
     and_then (external (\<lambda>n. Inr (ax_random_hex L n 24))) (\<lambda>generated_secret.
     let target_branch = unwrap_or (uq_target_branch req) ''main''
     in and_then (or_internal (set_project_source i (uq_repository_id req) target_branch generated_secret)) (\<lambda>_.
        and_then (or_internal (get_project_source (ax_fmt L) i)) (\<lambda>details.
        and_then (audit S ctx ''project.source.update'' ''project'' i
          [(''repository_id'', uuid_json L (uq_repository_id req)), (''target_branch'', JString target_branch)]) (\<lambda>_.
        ret details))))))))"

definition api_disconnect_project_source :: "api_lib \<Rightarrow> 'z api_state \<Rightarrow> AuthContext \<Rightarrow> string \<Rightarrow> ('z, u16) api_op" where
  "api_disconnect_project_source L S ctx project_id =
     and_then (parse_id L project_id) (\<lambda>i.
     and_then (service_project L S i) (\<lambda>project.
     and_then (forbid_unless (can_mutate ctx (sp_user_id project)) ''operation on project denied'') (\<lambda>_.
     and_then (require_db S) (\<lambda>_.
     and_then (or_internal (disconnect_project_source i)) (\<lambda>_.
     and_then (audit S ctx ''project.source.disconnect'' ''project'' i []) (\<lambda>_.
     ret 204))))))"

definition list_project_source_events :: "api_lib \<Rightarrow> 'z api_state \<Rightarrow> AuthContext \<Rightarrow> string \<Rightarrow> ('z, SourceEventRecord list) api_op" where
  "list_project_source_events L S ctx project_id =
     and_then (parse_id L project_id) (\<lambda>i.
     and_then (service_project L S i) (\<lambda>project.
     and_then (forbid_unless (can_read ctx (sp_user_id project)) ''access to project source events denied'') (\<lambda>_.
     and_then (require_db S) (\<lambda>_.
     or_internal (list_events_by_project i)))))"

section \<open>Previews\<close>

definition get_project_user_id :: "api_lib \<Rightarrow> 'z api_state \<Rightarrow> uuid \<Rightarrow> ('z, uuid option) api_op" where
  "get_project_user_id L S project_id =
     and_then (attempt (svc_project (as_service S) project_id)) (\<lambda>found.
     case found of
       Inr p \<Rightarrow> ret (sp_user_id p)
     | Inl e \<Rightarrow>
         and_then (if as_db S
             then attempt (Repository.get_project project_id :: ('z metrics_world_scheme, error, ProjectRecord) io)
             else ret (Inl e)) (\<lambda>stored.
         case stored of
           Inr pr \<Rightarrow> ret (Some (pj_user_id pr))
         | Inl _ \<Rightarrow> fail (ApiNotFound (''project not found: '' @ ut_string (ax_uuid_text L) project_id))))"

definition list_project_previews :: "api_lib \<Rightarrow> 'z api_state \<Rightarrow> AuthContext \<Rightarrow> string \<Rightarrow> ('z, PreviewRow list) api_op" where
  "list_project_previews L S ctx project_id =
     and_then (parse_id L project_id) (\<lambda>i.
     and_then (get_project_user_id L S i) (\<lambda>owner_id.
     and_then (forbid_unless (can_read ctx owner_id) ''access to project previews denied'') (\<lambda>_.
     and_then (require_db S) (\<lambda>_.
     or_internal (list_previews_by_project i)))))"

text \<open>The preview of the path and the owner of its project, which the next three handlers begin with.\<close>

definition find_preview :: "api_lib \<Rightarrow> 'z api_state \<Rightarrow> string \<Rightarrow> ('z, PreviewRow \<times> uuid option) api_op" where
  "find_preview L S preview_id =
     and_then (parse_id L preview_id) (\<lambda>i.
     and_then (require_db S) (\<lambda>_.
     and_then (or_internal (find_by_id i)) (\<lambda>found.
     and_then (of_option (ApiNotFound (''preview not found: '' @ ut_string (ax_uuid_text L) i)) found) (\<lambda>preview.
     and_then (get_project_user_id L S (pv_project_id preview)) (\<lambda>owner_id.
     ret (preview, owner_id))))))"

definition get_preview :: "api_lib \<Rightarrow> 'z api_state \<Rightarrow> AuthContext \<Rightarrow> string \<Rightarrow> ('z, PreviewRow) api_op" where
  "get_preview L S ctx preview_id =
     and_then (find_preview L S preview_id) (\<lambda>(preview, owner_id).
     and_then (forbid_unless (can_read ctx owner_id) ''access to preview denied'') (\<lambda>_.
     ret preview))"

definition promotion_error :: "api_lib \<Rightarrow> error \<Rightarrow> ApiError" where
  "promotion_error L e =
     (let msg = ax_to_string L e
      in if str_contains msg ''closed'' then BadRequest (Message msg) else Internal (Message msg))"

text \<open>The identifier of the preview is the one that was looked up.\<close>

definition promote_preview :: "api_lib \<Rightarrow> 'z api_state \<Rightarrow> AuthContext \<Rightarrow> string \<Rightarrow> ('z, u16 \<times> Deployment) api_op" where
  "promote_preview L S ctx preview_id =
     and_then (find_preview L S preview_id) (\<lambda>(preview, owner_id).
     and_then (forbid_unless (can_mutate ctx owner_id) ''operation on preview denied'') (\<lambda>_.
     if pv_status preview = PvClosed then fail (BadRequest (Message ''cannot promote a closed preview''))
     else
       and_then (api_err (promotion_error L) (promote_to_production (as_queue S) (pv_id preview))) (\<lambda>deployment.
       and_then (audit S ctx ''preview.promote'' ''preview'' (pv_id preview)
         [(''project_id'', uuid_json L (pv_project_id preview)), (''deployment_id'', uuid_json L (d_id deployment)),
          (''commit_sha'', opt_json (d_commit_sha deployment))]) (\<lambda>_.
       ret (202, deployment)))))"

definition stop_preview :: "api_lib \<Rightarrow> 'z api_state \<Rightarrow> AuthContext \<Rightarrow> string \<Rightarrow> ('z, PreviewRow) api_op" where
  "stop_preview L S ctx preview_id =
     and_then (find_preview L S preview_id) (\<lambda>(preview, owner_id).
     and_then (forbid_unless (can_mutate ctx owner_id) ''operation on preview denied'') (\<lambda>_.
     and_then (or_internal (teardown_preview (as_queue S) (pv_id preview))) (\<lambda>_.
     and_then (or_internal (find_by_id (pv_id preview))) (\<lambda>found.
     let updated = unwrap_or found preview
     in and_then (audit S ctx ''preview.stop'' ''preview'' (pv_id preview)
          [(''project_id'', uuid_json L (pv_project_id updated)), (''status'', JString (PreviewStatus_fmt (pv_status updated)))]) (\<lambda>_.
        ret updated)))))"

section \<open>Cache and metrics\<close>

definition stored_owner :: "api_lib \<Rightarrow> 'z api_state \<Rightarrow> uuid \<Rightarrow> ('z, uuid option) api_op" where
  "stored_owner L S i =
     (if as_db S
      then and_then (api_err (\<lambda>e. ApiNotFound (ax_to_string L e)) (Repository.get_project i)) (\<lambda>proj. ret (Some (pj_user_id proj)))
      else and_then (service_project L S i) (\<lambda>project. ret (sp_user_id project)))"

definition clear_project_cache :: "api_lib \<Rightarrow> 'z api_state \<Rightarrow> AuthContext \<Rightarrow> string \<Rightarrow> ('z, json) api_op" where
  "clear_project_cache L S ctx project_id =
     and_then (parse_id L project_id) (\<lambda>i.
     and_then (stored_owner L S i) (\<lambda>user_id.
     and_then (forbid_unless (can_operate ctx user_id) ''operation on project denied'') (\<lambda>_.
     and_then (if as_db S
         then and_then (or_internal (invalidate_project i)) (\<lambda>_.
              audit S ctx ''project.cache.clear'' ''project'' i [(''project_id'', uuid_json L i)])
         else ret ()) (\<lambda>_.
     ret (JObject [(''success'', JBool True), (''message'', JString ''Project build cache cleared''),
                   (''project_id'', uuid_json L i)])))))"

text \<open>Without a database the series are those of no samples.\<close>

definition empty_metrics :: "uuid \<Rightarrow> MetricsQuery \<Rightarrow> timestamp \<Rightarrow> error + MetricsResponse" where
  "empty_metrics i q now =
     (let range_str = unwrap_or (mq_range q) ''1h'';
          res = unwrap_or (mq_resolution q) (default_resolution_for_range range_str);
          start = unwrap_or (mq_start q) (now - parse_range_duration range_str);
          stop = unwrap_or (mq_end q) now;
          names = (case mq_metric q of Some m \<Rightarrow> [m] | None \<Rightarrow> all_metrics)
      in and_ok (map_ok (\<lambda>m. aggregate_samples_into_series m (mq_environment q) [] start stop (parse_resolution_secs res) now) names) (\<lambda>series.
         Inr \<lparr>ms_project_id = i, ms_range = range_str, ms_resolution = res, ms_start = start, ms_end = stop,
              ms_series = series, ms_last_updated = now\<rparr>))"

definition get_project_metrics :: "api_lib \<Rightarrow> 'z api_state \<Rightarrow> AuthContext \<Rightarrow> string \<Rightarrow> MetricsQuery \<Rightarrow> ('z, MetricsResponse) api_op" where
  "get_project_metrics L S ctx project_id query =
     and_then (parse_id L project_id) (\<lambda>i.
     and_then (stored_owner L S i) (\<lambda>user_id.
     and_then (forbid_unless (can_read ctx user_id) ''access to project metrics denied'') (\<lambda>_.
     if as_db S then or_internal (query_metrics i query)
     else and_then (or_internal now_utc) (\<lambda>now. or_internal (of_result (empty_metrics i query now))))))"

section \<open>Releases and rollbacks\<close>

definition list_deployment_releases :: "api_lib \<Rightarrow> 'z api_state \<Rightarrow> AuthContext \<Rightarrow> string \<Rightarrow> ('z, Release list) api_op" where
  "list_deployment_releases L S ctx deployment_id =
     and_then (parse_id L deployment_id) (\<lambda>i.
     and_then (resolve_deployment_user_id L S i) (\<lambda>user_id.
     and_then (forbid_unless (can_read ctx user_id) ''access to deployment releases denied'') (\<lambda>_.
     if as_db S then or_internal (list_releases_for_deployment i) else ret [])))"

definition list_release_events :: "api_lib \<Rightarrow> 'z api_state \<Rightarrow> AuthContext \<Rightarrow> string \<Rightarrow> ('z, ReleaseTransitionRecord list) api_op" where
  "list_release_events L S ctx release_id =
     and_then (parse_id L release_id) (\<lambda>i.
     if as_db S
     then
       and_then (api_err (\<lambda>e. ApiNotFound (ax_to_string L e)) (get_release i)) (\<lambda>release.
       and_then (api_err (\<lambda>e. ApiNotFound (ax_to_string L e)) (Repository.get_project (r_project_id release))) (\<lambda>proj.
       and_then (forbid_unless (can_read ctx (Some (pj_user_id proj))) ''access to release events denied'') (\<lambda>_.
       or_internal (list_transitions_for_release i))))
     else fail (ApiNotFound ''release not found''))"

text \<open>The health client, router and container stopper the handler makes for one rollback.\<close>

definition with_success :: MockHealthProbeClient where
  "with_success = \<lparr>queued_responses = [Inr \<lparr>pr_status = 200, pr_headers = Map.empty, pr_body = ''ok''\<rparr>], probed_urls = []\<rparr>"

type_synonym mock_world = "(MockTrafficRouter, MockHealthProbeClient, string list) orch_world"

definition with_mocks :: "(mock_world, 'e, 'a) io \<Rightarrow> ('z world_scheme, 'e, 'a) io" where
  "with_mocks m = (\<lambda>w.
     case m \<lparr>env = env w, tick = tick w, db = db w, redis_log = redis_log w, router = new_mock_router,
             prober = with_success, stopper = []\<rparr> of
       (r, o') \<Rightarrow> (r, w\<lparr>env := env o', tick := tick o', db := db o', redis_log := redis_log o'\<rparr>))"

definition rollback_command :: "api_lib \<Rightarrow> AuthContext \<Rightarrow> uuid \<Rightarrow> Deployment \<Rightarrow> string \<Rightarrow> RollbackCommand" where
  "rollback_command L ctx dep_id dep_row body =
     (let (policy, drain) = (if body = [] then (None, None) else unwrap_or (ax_rollback_body L body) (None, None))
      in \<lparr>rb_project_id = d_project_id dep_row, rb_environment = d_target dep_row, rb_current_deployment_id = dep_id,
          rb_actor_id = ac_user_id ctx, rb_health_policy = policy,
          rb_drain_timeout = map_option (\<lambda>secs. int (unat secs) * second) drain\<rparr>)"

definition api_rollback_deployment :: "api_lib \<Rightarrow> 'z api_state \<Rightarrow> AuthContext \<Rightarrow> string \<Rightarrow> string \<Rightarrow> ('z, u16 \<times> RollbackResult) api_op" where
  "api_rollback_deployment L S ctx deployment_id body =
     and_then (parse_id L deployment_id) (\<lambda>dep_id.
     if \<not> as_db S then fail (UnprocessableEntity ''database required for rollback operations'')
     else
       and_then (or_internal (select_rows ''deployment details'' (\<lambda>d. lookup_by d_id dep_id (deployments d)))) (\<lambda>found.
       and_then (of_option (ApiNotFound (''deployment not found: '' @ ut_string (ax_uuid_text L) dep_id)) found) (\<lambda>dep_row.
       and_then (api_err (\<lambda>e. ApiNotFound (ax_to_string L e)) (Repository.get_project (d_project_id dep_row))) (\<lambda>proj.
       and_then (api_err (\<lambda>e. ApiForbidden (ax_to_string L e))
         (of_result (check_rollback_permission ctx (Some (pj_user_id proj)) (d_target dep_row)))) (\<lambda>_.
       and_then (api_err (\<lambda>e. UnprocessableEntity (ax_to_string L e)) (with_mocks (execute_rollback (ax_uuid_text L) ctx
         (rollback_command L ctx dep_id dep_row body) mock_probe mock_router mock_stop_container))) (\<lambda>result.
       ret (201, result)))))))"

section \<open>Routes\<close>

datatype Endpoint =
    Healthz | LoginSession | LogoutSession | RegisterSession | CurrentUser
  | ListUserApiTokens | CreateApiToken | RevokeApiToken string
  | ListProjects | CreateProject | GetProject string
  | ListDeployments string | CreateDeployment string | GetDeployment string
  | GetLogs string | DownloadLogs string | StreamLogs string
  | StopDeployment string | CancelDeployment string | RetryDeployment string | RollbackDeployment string
  | ListReleases string | ListReleaseEvents string
  | ProviderConnect string | ProviderCallback string | ListProviderRepositories string
  | GetSource string | UpdateSource string | DisconnectSource string | ListSourceEvents string
  | ListPreviews string | ClearCache string | GetMetrics string
  | GetPreview string | PromotePreview string | StopPreview string
  | HandleWebhook string string

datatype Method = GET | HEAD | POST | DELETE | OtherMethod

datatype segment = Lit string | Param

fun match_path :: "segment list \<Rightarrow> string list \<Rightarrow> string list option" where
  "match_path [] [] = Some []"
| "match_path (Lit l # pattern) (s # path) = (if s = l then match_path pattern path else None)"
| "match_path (Param # pattern) (s # path) = (if s = [] then None else map_option (Cons s) (match_path pattern path))"
| "match_path _ _ = None"

definition v1 :: "segment list \<Rightarrow> segment list" where
  "v1 pattern = Lit ''v1'' # pattern"

definition route_table :: "(segment list \<times> (Method \<times> (string list \<Rightarrow> Endpoint)) list) list" where
  "route_table =
     [([Lit ''healthz''], [(GET, \<lambda>_. Healthz)]),
      (v1 [Lit ''auth'', Lit ''session''], [(POST, \<lambda>_. LoginSession), (DELETE, \<lambda>_. LogoutSession)]),
      (v1 [Lit ''auth'', Lit ''register''], [(POST, \<lambda>_. RegisterSession)]),
      (v1 [Lit ''me''], [(GET, \<lambda>_. CurrentUser)]),
      (v1 [Lit ''me'', Lit ''api-tokens''], [(GET, \<lambda>_. ListUserApiTokens), (POST, \<lambda>_. CreateApiToken)]),
      (v1 [Lit ''me'', Lit ''api-tokens'', Param], [(DELETE, \<lambda>ps. RevokeApiToken (ps ! 0))]),
      (v1 [Lit ''projects''], [(GET, \<lambda>_. ListProjects), (POST, \<lambda>_. CreateProject)]),
      (v1 [Lit ''projects'', Param], [(GET, \<lambda>ps. GetProject (ps ! 0))]),
      (v1 [Lit ''projects'', Param, Lit ''deployments''],
        [(GET, \<lambda>ps. ListDeployments (ps ! 0)), (POST, \<lambda>ps. CreateDeployment (ps ! 0))]),
      (v1 [Lit ''deployments'', Param], [(GET, \<lambda>ps. GetDeployment (ps ! 0))]),
      (v1 [Lit ''deployments'', Param, Lit ''logs''], [(GET, \<lambda>ps. GetLogs (ps ! 0))]),
      (v1 [Lit ''deployments'', Param, Lit ''logs'', Lit ''download''], [(GET, \<lambda>ps. DownloadLogs (ps ! 0))]),
      (v1 [Lit ''deployments'', Param, Lit ''logs'', Lit ''stream''], [(GET, \<lambda>ps. StreamLogs (ps ! 0))]),
      (v1 [Lit ''deployments'', Param, Lit ''stop''], [(POST, \<lambda>ps. StopDeployment (ps ! 0))]),
      (v1 [Lit ''deployments'', Param, Lit ''cancel''], [(POST, \<lambda>ps. CancelDeployment (ps ! 0))]),
      (v1 [Lit ''deployments'', Param, Lit ''retry''], [(POST, \<lambda>ps. RetryDeployment (ps ! 0))]),
      (v1 [Lit ''deployments'', Param, Lit ''rollback''], [(POST, \<lambda>ps. RollbackDeployment (ps ! 0))]),
      (v1 [Lit ''deployments'', Param, Lit ''releases''], [(GET, \<lambda>ps. ListReleases (ps ! 0))]),
      (v1 [Lit ''releases'', Param, Lit ''events''], [(GET, \<lambda>ps. ListReleaseEvents (ps ! 0))]),
      (v1 [Lit ''providers'', Param, Lit ''connect''], [(GET, \<lambda>ps. ProviderConnect (ps ! 0))]),
      (v1 [Lit ''providers'', Param, Lit ''callback''], [(GET, \<lambda>ps. ProviderCallback (ps ! 0))]),
      (v1 [Lit ''providers'', Param, Lit ''repositories''], [(GET, \<lambda>ps. ListProviderRepositories (ps ! 0))]),
      (v1 [Lit ''projects'', Param, Lit ''source''],
        [(GET, \<lambda>ps. GetSource (ps ! 0)), (POST, \<lambda>ps. UpdateSource (ps ! 0)), (DELETE, \<lambda>ps. DisconnectSource (ps ! 0))]),
      (v1 [Lit ''projects'', Param, Lit ''source'', Lit ''events''], [(GET, \<lambda>ps. ListSourceEvents (ps ! 0))]),
      (v1 [Lit ''projects'', Param, Lit ''previews''], [(GET, \<lambda>ps. ListPreviews (ps ! 0))]),
      (v1 [Lit ''projects'', Param, Lit ''cache'', Lit ''clear''], [(POST, \<lambda>ps. ClearCache (ps ! 0))]),
      (v1 [Lit ''projects'', Param, Lit ''metrics''], [(GET, \<lambda>ps. GetMetrics (ps ! 0))]),
      (v1 [Lit ''previews'', Param], [(GET, \<lambda>ps. GetPreview (ps ! 0))]),
      (v1 [Lit ''previews'', Param, Lit ''promote''], [(POST, \<lambda>ps. PromotePreview (ps ! 0))]),
      (v1 [Lit ''previews'', Param, Lit ''stop''], [(POST, \<lambda>ps. StopPreview (ps ! 0))]),
      (v1 [Lit ''webhooks'', Param, Param], [(POST, \<lambda>ps. HandleWebhook (ps ! 0) (ps ! 1))])]"

text \<open>A path that no pattern matches is answered 404, a method that the route does not have 405.  What a route serves
  for \<^verbatim>\<open>GET\<close> it serves for \<^verbatim>\<open>HEAD\<close> too; the body of the response is not sent then.\<close>

fun find_route :: "(segment list \<times> (Method \<times> (string list \<Rightarrow> Endpoint)) list) list \<Rightarrow> Method \<Rightarrow> string list \<Rightarrow> u16 + Endpoint" where
  "find_route [] m path = Inl 404"
| "find_route ((pattern, methods) # table) m path =
     (case match_path pattern path of
        Some ps \<Rightarrow> (case map_of methods (if m = HEAD then GET else m) of Some e \<Rightarrow> Inr (e ps) | None \<Rightarrow> Inl 405)
      | None \<Rightarrow> find_route table m path)"

section \<open>Serving a request\<close>

record Request =
  rq_method :: Method
  rq_path :: "string list"
  rq_query :: string
  rq_headers :: HeaderMap
  rq_body :: string

text \<open>The decoders of query strings and JSON bodies: a request they refuse is answered with their status.\<close>

record decoders =
  dc_login :: "Request \<Rightarrow> u16 + LoginRequest"
  dc_register :: "Request \<Rightarrow> u16 + RegisterRequest"
  dc_token :: "Request \<Rightarrow> u16 + CreateApiTokenRequest"
  dc_project :: "Request \<Rightarrow> u16 + CreateProjectRequest"
  dc_source :: "Request \<Rightarrow> u16 + UpdateProjectSourceRequest"
  dc_options :: "Request \<Rightarrow> u16 + bool option"
  dc_connect :: "Request \<Rightarrow> u16 + string option"
  dc_callback :: "Request \<Rightarrow> u16 + OAuthCallbackQuery"
  dc_logs :: "Request \<Rightarrow> u16 + LogQuery"
  dc_metrics :: "Request \<Rightarrow> u16 + MetricsQuery"

datatype Response =
    RStatus u16
  | RRejected u16
  | RJson json
  | RSession Cookie u16 SessionResponse
  | RLogout Cookie u16
  | RMe MeResponse
  | RToken u16 IssuedToken
  | RTokens "ApiTokenSummary list"
  | RProject u16 Project
  | RProjects "Project list"
  | RDeployment u16 StateDeployment
  | RDeployments "StateDeployment list"
  | RPromoted u16 Deployment
  | RLogs LogsResponse
  | RDownload Download
  | RStream "SseEvent list" stream_end
  | RRepositories "ProviderRepositoryRecord list"
  | RSource ProjectSourceDetails
  | RSourceEvents "SourceEventRecord list"
  | RPreviews "PreviewRow list"
  | RPreview PreviewRow
  | RMetrics MetricsResponse
  | RReleases "Release list"
  | RTransitions "ReleaseTransitionRecord list"
  | RRollback u16 RollbackResult

definition respond :: "('a \<Rightarrow> Response) \<Rightarrow> ('w, ApiError, 'a) io \<Rightarrow> ('w, ApiError, Response) io" where
  "respond f m = and_then m (\<lambda>a. ret (f a))"

definition decoded :: "u16 + 'q \<Rightarrow> ('q \<Rightarrow> ('w, ApiError, Response) io) \<Rightarrow> ('w, ApiError, Response) io" where
  "decoded d h = (case d of Inl status \<Rightarrow> ret (RRejected status) | Inr q \<Rightarrow> h q)"

text \<open>What runs beside a stream of logs: when its receiver goes, what others do between polls, and how many polls
  there are.\<close>

record 'w streaming =
  sg_gone :: "nat \<Rightarrow> bool"
  sg_meanwhile :: "'w \<Rightarrow> 'w"
  sg_polls :: nat

fun serve_as :: "api_lib \<Rightarrow> decoders \<Rightarrow> 'z metrics_world_scheme streaming \<Rightarrow> 'z api_state \<Rightarrow> Request \<Rightarrow> AuthContext \<Rightarrow> Endpoint \<Rightarrow>
   ('z, Response) api_op" where
  "serve_as L D G S rq ctx LogoutSession = respond (\<lambda>(c, st). RLogout c st) (logout_session S ctx)"
| "serve_as L D G S rq ctx CurrentUser = respond RMe (get_current_user S ctx)"
| "serve_as L D G S rq ctx ListUserApiTokens = respond RTokens (list_user_api_tokens S ctx)"
| "serve_as L D G S rq ctx CreateApiToken = decoded (dc_token D rq) (\<lambda>q. respond (\<lambda>(st, t). RToken st t) (create_api_token S ctx q))"
| "serve_as L D G S rq ctx (RevokeApiToken i) = respond RStatus (revoke_user_api_token L S ctx i)"
| "serve_as L D G S rq ctx ListProjects = respond RProjects (api_list_projects L S ctx)"
| "serve_as L D G S rq ctx CreateProject =
     decoded (dc_project D rq) (\<lambda>q. respond (\<lambda>(st, p). RProject st p) (api_create_project L S ctx q))"
| "serve_as L D G S rq ctx (GetProject i) = respond (RProject 200) (api_get_project L S ctx i)"
| "serve_as L D G S rq ctx (ListDeployments i) = respond RDeployments (api_list_deployments L S ctx i)"
| "serve_as L D G S rq ctx (CreateDeployment i) =
     decoded (dc_options D rq) (\<lambda>q. respond (\<lambda>(st, d). RDeployment st d) (api_create_deployment L S ctx i q))"
| "serve_as L D G S rq ctx (GetDeployment i) = respond (RDeployment 200) (api_get_deployment L S ctx i)"
| "serve_as L D G S rq ctx (GetLogs i) = decoded (dc_logs D rq) (\<lambda>q. respond RLogs (get_deployment_logs L S ctx i q))"
| "serve_as L D G S rq ctx (DownloadLogs i) = respond RDownload (download_deployment_logs L S ctx i)"
| "serve_as L D G S rq ctx (StreamLogs i) = decoded (dc_logs D rq) (\<lambda>q. respond (\<lambda>(es, e). RStream es e)
     (stream_deployment_logs L S ctx i q (sg_gone G) (sg_meanwhile G) (sg_polls G)))"
| "serve_as L D G S rq ctx (StopDeployment i) = respond (RDeployment 200) (api_stop_deployment L S ctx i)"
| "serve_as L D G S rq ctx (CancelDeployment i) = respond (RDeployment 200) (api_cancel_deployment L S ctx i)"
| "serve_as L D G S rq ctx (RetryDeployment i) =
     decoded (dc_options D rq) (\<lambda>q. respond (\<lambda>(st, d). RDeployment st d) (api_retry_deployment L S ctx i q))"
| "serve_as L D G S rq ctx (RollbackDeployment i) =
     respond (\<lambda>(st, x). RRollback st x) (api_rollback_deployment L S ctx i (rq_body rq))"
| "serve_as L D G S rq ctx (ListReleases i) = respond RReleases (list_deployment_releases L S ctx i)"
| "serve_as L D G S rq ctx (ListReleaseEvents i) = respond RTransitions (list_release_events L S ctx i)"
| "serve_as L D G S rq ctx (ProviderConnect p) = decoded (dc_connect D rq) (\<lambda>q. respond RJson (provider_connect L S ctx p q))"
| "serve_as L D G S rq ctx (ProviderCallback p) = decoded (dc_callback D rq) (\<lambda>q. respond RJson (provider_callback L S ctx p q))"
| "serve_as L D G S rq ctx (ListProviderRepositories p) = respond RRepositories (list_provider_repositories L S ctx p)"
| "serve_as L D G S rq ctx (GetSource i) = respond RSource (api_get_project_source L S ctx i)"
| "serve_as L D G S rq ctx (UpdateSource i) = decoded (dc_source D rq) (\<lambda>q. respond RSource (update_project_source L S ctx i q))"
| "serve_as L D G S rq ctx (DisconnectSource i) = respond RStatus (api_disconnect_project_source L S ctx i)"
| "serve_as L D G S rq ctx (ListSourceEvents i) = respond RSourceEvents (list_project_source_events L S ctx i)"
| "serve_as L D G S rq ctx (ListPreviews i) = respond RPreviews (list_project_previews L S ctx i)"
| "serve_as L D G S rq ctx (ClearCache i) = respond RJson (clear_project_cache L S ctx i)"
| "serve_as L D G S rq ctx (GetMetrics i) = decoded (dc_metrics D rq) (\<lambda>q. respond RMetrics (get_project_metrics L S ctx i q))"
| "serve_as L D G S rq ctx (GetPreview i) = respond RPreview (get_preview L S ctx i)"
| "serve_as L D G S rq ctx (PromotePreview i) = respond (\<lambda>(st, d). RPromoted st d) (promote_preview L S ctx i)"
| "serve_as L D G S rq ctx (StopPreview i) = respond RPreview (stop_preview L S ctx i)"
| "serve_as L D G S rq ctx _ = ret (RRejected 404)"

text \<open>The four routes whose handlers take no context are served without authentication.\<close>

fun serve :: "api_lib \<Rightarrow> webhook_lib \<Rightarrow> decoders \<Rightarrow> 'z metrics_world_scheme streaming \<Rightarrow> 'z api_state \<Rightarrow> Request \<Rightarrow> Endpoint \<Rightarrow>
   ('z, Response) api_op" where
  "serve L W D G S rq Healthz = ret (RJson (JObject [(''status'', JString ''ok'')]))"
| "serve L W D G S rq LoginSession = decoded (dc_login D rq) (\<lambda>q. respond (\<lambda>(c, st, r). RSession c st r) (login_session L S q))"
| "serve L W D G S rq RegisterSession =
     decoded (dc_register D rq) (\<lambda>q. respond (\<lambda>(c, st, r). RSession c st r) (register_session L S q))"
| "serve L W D G S rq (HandleWebhook p i) =
     respond RStatus (handle_webhook W (as_db S) (as_queue S) p i (rq_headers rq) (rq_body rq))"
| "serve L W D G S rq endpoint =
     and_then (from_request_parts L S (rq_headers rq)) (\<lambda>ctx. serve_as L D G S rq ctx endpoint)"

definition router_with_queue :: "api_lib \<Rightarrow> webhook_lib \<Rightarrow> decoders \<Rightarrow> 'z metrics_world_scheme streaming \<Rightarrow> 'z api_state \<Rightarrow> Request \<Rightarrow>
   ('z, Response) api_op" where
  "router_with_queue L W D G S rq =
     (case find_route route_table (rq_method rq) (rq_path rq) of
        Inl status \<Rightarrow> ret (RRejected status)
      | Inr endpoint \<Rightarrow> serve L W D G S rq endpoint)"

end
