(* ===== verification/Api_Access.thy ===== *)
theory Api_Access
  imports Api_Routes
begin

text \<open>
  Access to the resources of others.  Every handler finds the project of the resource, through the service or in
  the database, and checks that the caller owns it before it does anything else.  The laws of the lookups are the
  locale \<open>project_store\<close>, which the installed service satisfies.
\<close>

section \<open>Lookups\<close>

text \<open>What an observer of the server could see: the tables, the host and the messages to Redis.\<close>

definition same :: "('r, 'z) api_world_scheme \<Rightarrow> ('r, 'z) api_world_scheme \<Rightarrow> bool" where
  "same w v \<longleftrightarrow> db v = db w \<and> metric_store v = metric_store w \<and> host v = host w \<and> redis_log v = redis_log w"

lemma same_refl [simp]: "same w w"
  by (simp add: same_def)

lemma same_tick [simp]: "same w (v\<lparr>tick := n\<rparr>) = same w v"
  by (simp add: same_def)

definition reads :: "('r, 'z) api_world_scheme \<Rightarrow> (('r, 'z) api_world_scheme, 'e, 'a) io \<Rightarrow> ('a \<Rightarrow> bool) \<Rightarrow> bool" where
  "reads w m R \<longleftrightarrow> triple (same w) m (\<lambda>a v. same w v \<and> R a) (\<lambda>e. same w)"

lemma readsI:
  assumes "\<And>v. same w v \<Longrightarrow> case m v of (Inr a, v') \<Rightarrow> same w v' \<and> R a | (Inl e, v') \<Rightarrow> same w v'"
  shows "reads w m R"
  using assms unfolding reads_def triple_def by blast

lemma readsD:
  "reads w m R \<Longrightarrow> same w v \<Longrightarrow> m v = (r, v') \<Longrightarrow> same w v' \<and> (case r of Inr a \<Rightarrow> R a | Inl e \<Rightarrow> True)"
  unfolding reads_def by (cases r) (auto dest: triple_Inr triple_Inl)

lemma reads_mono: "reads w m R \<Longrightarrow> (\<And>a. R a \<Longrightarrow> R' a) \<Longrightarrow> reads w m R'"
  unfolding reads_def by (erule triple_weaken) auto

lemma reads_and_then:
  assumes "reads w m R" and "\<And>a. R a \<Longrightarrow> reads w (f a) Q"
  shows "reads w (and_then m f) Q"
  unfolding reads_def
proof (rule triple_and_then [OF assms(1) [unfolded reads_def]])
  fix a
  show "triple (\<lambda>v. same w v \<and> R a) (f a) (\<lambda>a v. same w v \<and> Q a) (\<lambda>e. same w)"
    using assms(2) [of a] unfolding reads_def triple_def by auto
qed

lemma reads_ret: "R a \<Longrightarrow> reads w (ret a) R"
  and reads_fail: "reads w (fail e) R"
  by (rule readsI, simp add: io_simps)+

lemma reads_of_option: "(\<And>a. x = Some a \<Longrightarrow> R a) \<Longrightarrow> reads w (of_option e x) R"
  by (cases x) (simp_all add: of_option_def reads_ret reads_fail)

lemma reads_some: "reads w (of_option e x) (\<lambda>a. x = Some a)"
  by (rule reads_of_option)

lemma reads_of_result: "(\<And>a. x = Inr a \<Longrightarrow> R a) \<Longrightarrow> reads w (of_result x) R"
  by (rule readsI) (cases x, simp_all add: io_simps)

lemma reads_map_err: "reads w m R \<Longrightarrow> reads w (map_err f m) R"
  unfolding reads_def triple_def map_err_def by (fastforce split: prod.splits sum.splits)

lemma reads_api_err: "reads w m R \<Longrightarrow> reads w (api_err f m) R"
  unfolding api_err_def by (rule reads_map_err)

lemma reads_attempt:
  "reads w m R \<Longrightarrow> reads w (attempt m) (\<lambda>r. case r of Inr a \<Rightarrow> R a | Inl e \<Rightarrow> True)"
proof (rule readsI)
  fix v assume "reads w m R" "same w v"
  moreover obtain r v' where "m v = (r, v')" by fastforce
  ultimately show "case attempt m v of (Inr a, v') \<Rightarrow> same w v' \<and> (case a of Inr a \<Rightarrow> R a | Inl e \<Rightarrow> True) | (Inl e, v') \<Rightarrow> same w v'"
    by (auto simp: attempt_def dest: readsD)
qed

lemma reads_select: "reads w (select_rows c f) (\<lambda>a. f (db w) = a)"
  by (rule readsI) (auto simp: select_rows_def statement_def same_def)

lemma reads_parse_id: "reads w (parse_id L s) (\<lambda>i. ax_parse_uuid L s = Some i)"
  unfolding parse_id_def by (rule reads_of_option)

lemma reads_require_db: "reads w (require_db S) (\<lambda>_. as_db S)"
  unfolding require_db_def by (auto intro: reads_ret reads_fail)

text \<open>A handler is refused when the check that follows the lookup cannot succeed.\<close>

lemma refused_by_check:
  assumes "reads w m R" and "\<And>a. R a \<Longrightarrow> \<not> allowed a"
  shows "reads w (and_then m (\<lambda>a. and_then (forbid_unless (allowed a) (msg a)) (k a))) (\<lambda>_. False)"
  by (rule reads_and_then [OF assms(1)]) (simp add: assms(2) forbid_unless_def and_then_fail reads_fail)

section \<open>Owners\<close>

definition owners :: "PlatformState \<Rightarrow> db \<Rightarrow> uuid \<Rightarrow> uuid option set" where
  "owners K d i = {sp_user_id p | p. p \<in> set (ps_projects K) \<and> sp_id p = i} \<union>
     {Some (p_user_id r) | r. r \<in> set (projects d) \<and> p_id r = i}"

lemma not_owner [simp]:
  "\<not> is_owner ctx u \<Longrightarrow> \<not> can_read ctx u" "\<not> is_owner ctx u \<Longrightarrow> \<not> can_mutate ctx u"
  "\<not> is_owner ctx u \<Longrightarrow> \<not> can_operate ctx u"
  by (simp_all add: can_read_def can_mutate_def can_operate_def)

lemma get_project_reads: "reads w (Repository.get_project i) (\<lambda>p. Some (pj_user_id p) \<in> owners K (db w) i)"
  unfolding Repository.get_project_def fetch_required_def
  by (intro reads_and_then [OF reads_and_then [OF reads_select reads_of_option]] reads_ret)
    (auto simp: owners_def project_record_def dest: lookup_by_Some)

text \<open>The project of a row that was looked up by its key.\<close>

lemma looked_up_project:
  "map_option g (lookup_by key i t) = Some j \<Longrightarrow> \<exists>r\<in>set t. key r = i \<and> g r = j"
  by (auto dest: lookup_by_Some)

section \<open>The service\<close>

locale project_store =
  fixes svc :: "('r, 'z) api_world_scheme PlatformService" and known :: "'r host_state \<Rightarrow> PlatformState"
  assumes project_read: "reads w (svc_project svc i) (\<lambda>p. p \<in> set (ps_projects (known (host w))) \<and> sp_id p = i)"
    and deployment_read: "reads w (svc_deployment svc i) (\<lambda>d. d \<in> set (ps_deployments (known (host w))) \<and> sd_id d = i)"
    and projects_read: "reads w (svc_projects svc) (\<lambda>ps. set ps \<subseteq> set (ps_projects (known (host w))))"
begin

lemma service_project_reads:
  assumes "as_service S = svc"
  shows "reads w (service_project L S i) (\<lambda>p. sp_user_id p \<in> owners (known (host w)) (db w) i)"
  unfolding service_project_def assms
  by (rule reads_api_err [OF reads_mono [OF project_read]]) (auto simp: owners_def)

lemma service_deployment_reads:
  "as_service S = svc \<Longrightarrow> reads w (service_deployment L S i) (\<lambda>d. d \<in> set (ps_deployments (known (host w))) \<and> sd_id d = i)"
  unfolding service_deployment_def by (rule reads_api_err) (simp add: deployment_read)

text \<open>The projects a deployment may belong to, on the host and in the database.\<close>

definition projects_of_deployment :: "('r, 'z) api_world_scheme \<Rightarrow> uuid \<Rightarrow> uuid set" where
  "projects_of_deployment w i =
     {sd_project_id d | d. d \<in> set (ps_deployments (known (host w))) \<and> sd_id d = i} \<union>
     {d_project_id r | r. r \<in> set (deployments (db w)) \<and> d_id r = i}"

lemma resolve_reads:
  assumes "as_service S = svc"
  shows "reads w (resolve_deployment_user_id L S i)
    (\<lambda>u. \<exists>j\<in>projects_of_deployment w i. u \<in> owners (known (host w)) (db w) j)"
proof -
  let ?R = "\<lambda>row. \<forall>j. row = Some j \<longrightarrow> j \<in> projects_of_deployment w i"
  have row: "reads w (if as_db S
      then or_internal (select_rows c (\<lambda>d. map_option d_project_id (lookup_by d_id i (deployments d)))) else ret None) ?R" for c
    by (auto intro!: reads_ret reads_api_err reads_mono [OF reads_select] simp: projects_of_deployment_def dest!: lookup_by_Some)
  show ?thesis
    unfolding resolve_deployment_user_id_def
  proof (rule reads_and_then [OF row])
    fix row assume R: "?R row"
    show "reads w (case row of Some proj_id \<Rightarrow> and_then (api_err (\<lambda>e. ApiNotFound (ax_to_string L e)) (Repository.get_project proj_id))
          (\<lambda>proj. ret (Some (pj_user_id proj)))
        | None \<Rightarrow> and_then (service_deployment L S i) (\<lambda>deployment. and_then (service_project L S (sd_project_id deployment))
          (\<lambda>project. ret (sp_user_id project))))
      (\<lambda>u. \<exists>j\<in>projects_of_deployment w i. u \<in> owners (known (host w)) (db w) j)"
    proof (cases row)
      case None
      then show ?thesis
        by (auto intro!: reads_and_then [OF service_deployment_reads [OF assms]]
            reads_and_then [OF service_project_reads [OF assms]] reads_ret simp: projects_of_deployment_def)
    next
      case (Some j)
      with R show ?thesis
        by (auto intro!: reads_and_then [OF reads_api_err [OF get_project_reads]] reads_ret)
    qed
  qed
qed

lemma project_user_reads:
  assumes "as_service S = svc"
  shows "reads w (get_project_user_id L S i) (\<lambda>u. u \<in> owners (known (host w)) (db w) i)"
  unfolding get_project_user_id_def
proof (unfold assms, rule reads_and_then [OF reads_attempt [OF project_read]])
  fix found :: "error + Project" assume f: "case found of Inr p \<Rightarrow> p \<in> set (ps_projects (known (host w))) \<and> sp_id p = i | Inl e \<Rightarrow> True"
  have stored: "reads w (if as_db S then attempt (Repository.get_project i) else ret (Inl e))
      (\<lambda>r. case r of Inr p \<Rightarrow> Some (pj_user_id p) \<in> owners (known (host w)) (db w) i | Inl e \<Rightarrow> True)" for e :: error
    by (auto intro: reads_attempt [OF get_project_reads] reads_ret)
  show "reads w (case found of Inl e \<Rightarrow> and_then (if as_db S then attempt (Repository.get_project i) else ret (Inl e))
        (\<lambda>stored. case stored of Inl _ \<Rightarrow> fail (ApiNotFound (''project not found: '' @ ut_string (ax_uuid_text L) i))
           | Inr pr \<Rightarrow> ret (Some (pj_user_id pr)))
      | Inr p \<Rightarrow> ret (sp_user_id p)) (\<lambda>u. u \<in> owners (known (host w)) (db w) i)"
  proof (cases found)
    case (Inl e)
    show ?thesis
      unfolding Inl sum.case
      by (rule reads_and_then [OF stored]) (auto intro!: reads_ret reads_fail split: sum.splits simp del: append_Cons append.simps)
  next
    case (Inr p)
    with f show ?thesis by (auto simp: owners_def intro!: reads_ret)
  qed
qed

lemma stored_owner_reads:
  assumes "as_service S = svc"
  shows "reads w (stored_owner L S i) (\<lambda>u. u \<in> owners (known (host w)) (db w) i)"
  unfolding stored_owner_def
  by (auto intro!: reads_and_then [OF reads_api_err [OF get_project_reads]] reads_and_then [OF service_project_reads [OF assms]] reads_ret)

lemma preview_reads:
  assumes "as_service S = svc"
  shows "reads w (find_preview L S s) (\<lambda>(p, u). \<exists>r\<in>set (previews (db w)). ax_parse_uuid L s = Some (pv_id r)
     \<and> u \<in> owners (known (host w)) (db w) (pv_project_id r))"
  unfolding find_preview_def find_by_id_def
  by (auto intro!: reads_and_then [OF reads_parse_id] reads_and_then [OF reads_require_db]
      reads_and_then [OF reads_api_err [OF reads_select]] reads_and_then [OF reads_some]
      reads_and_then [OF project_user_reads [OF assms]] reads_ret dest!: lookup_by_Some)

text \<open>A request for a deployment of others is refused before the service acts.\<close>

lemma deployment_refused:
  assumes "as_service S = svc" and "\<And>j u. j \<in> projects_of_deployment w i \<Longrightarrow> u \<in> owners (known (host w)) (db w) j \<Longrightarrow> \<not> allowed u"
  shows "reads w (and_then (service_deployment L S i) (\<lambda>deployment. and_then (service_project L S (sd_project_id deployment))
    (\<lambda>project. and_then (forbid_unless (allowed (sp_user_id project)) msg) (k deployment project)))) (\<lambda>_. False)"
proof (rule reads_and_then [OF service_deployment_reads [OF assms(1)]],
    rule refused_by_check [OF service_project_reads [OF assms(1)]])
  fix d p assume "d \<in> set (ps_deployments (known (host w))) \<and> sd_id d = i"
    and "sp_user_id p \<in> owners (known (host w)) (db w) (sd_project_id d)"
  then show "\<not> allowed (sp_user_id p)"
    by (intro assms(2) [of "sd_project_id d"]) (auto simp: projects_of_deployment_def)
qed

end

definition known_on :: "host_lib \<Rightarrow> string \<Rightarrow> 'r host_state \<Rightarrow> PlatformState" where
  "known_on L state_root h =
     (case Option.bind (hs_disk h (state_path state_root)) (hl_from_json L) of Some s \<Rightarrow> s | None \<Rightarrow> empty_state)"

lemma load_ticks:
  assumes "load L state_root p = (r, p')"
  shows "\<exists>n. p' = p\<lparr>tick := n\<rparr>" and "r = Inr s \<Longrightarrow> s = empty_state \<or> Option.bind (disk p (state_path state_root)) (hl_from_json L) = Some s"
  using assms
  by (auto simp: load_def fs_exists_def fs_open_read_def io_call_def io_simps of_option_def split: if_splits option.splits)

lemma host_load_reads:
  "reads w (on_host (and_then (load L state_root) (\<lambda>s. of_result (f s))))
     (\<lambda>a. \<exists>s. f s = Inr a \<and> (s = empty_state \<or> s = known_on L state_root (host w)))"
proof (rule readsI)
  fix v assume v: "same w v"
  obtain r p where l: "load L state_root (platform_of v) = (r, p)" by fastforce
  obtain n where "p = (platform_of v)\<lparr>tick := n\<rparr>" using load_ticks(1) [OF l] by blast
  then have "put_platform p v = v\<lparr>tick := n\<rparr>" by (simp add: put_platform_def platform_of_def)
  moreover have "disk (platform_of v) = hs_disk (host w)" using v by (simp add: same_def platform_of_def)
  ultimately show "case on_host (and_then (load L state_root) (\<lambda>s. of_result (f s))) v of
      (Inr a, v') \<Rightarrow> same w v' \<and> (\<exists>s. f s = Inr a \<and> (s = empty_state \<or> s = known_on L state_root (host w)))
    | (Inl e, v') \<Rightarrow> same w v'"
    using v load_ticks(2) [OF l]
    by (auto simp: on_host_def io_simps l known_on_def intro!: exI [of _ "projr r"] split: sum.splits)
qed

lemma of_option_result: "of_option e x = of_result (ok_or x e)"
  by (cases x) (simp_all add: of_option_def ok_or_def ret_def fail_def of_result_def)

lemma ok_or_find: "ok_or (List.find P xs) e = Inr a \<Longrightarrow> a \<in> set xs \<and> P a"
  by (auto simp: ok_or_def find_Some_iff split: option.splits)

interpretation deployment_store: project_store "deployment_service L C builder R state_root" "known_on L state_root"
  for L C builder R state_root
proof
  fix w :: "('a, 'b) api_world_scheme" and i
  show "reads w (svc_project (deployment_service L C builder R state_root) i)
     (\<lambda>p. p \<in> set (ps_projects (known_on L state_root (host w))) \<and> sp_id p = i)"
    unfolding deployment_service_def PlatformService.simps store_project_def of_option_result
    by (rule reads_mono [OF host_load_reads]) (auto simp: empty_state_def dest!: ok_or_find)
  show "reads w (svc_deployment (deployment_service L C builder R state_root) i)
     (\<lambda>d. d \<in> set (ps_deployments (known_on L state_root (host w))) \<and> sd_id d = i)"
    unfolding deployment_service_def PlatformService.simps store_deployment_def of_option_result
    by (rule reads_mono [OF host_load_reads]) (auto simp: empty_state_def dest!: ok_or_find)
  have ret: "(\<lambda>s. ret (ps_projects s)) = (\<lambda>s. of_result (Inr (ps_projects s)))" by (simp add: fun_eq_iff ret_def of_result_def)
  show "reads w (svc_projects (deployment_service L C builder R state_root))
     (\<lambda>ps. set ps \<subseteq> set (ps_projects (known_on L state_root (host w))))"
    unfolding deployment_service_def PlatformService.simps service_projects_def ret
    by (rule reads_mono [OF host_load_reads]) (auto simp: empty_state_def)
qed

section \<open>Requests for the resources of others\<close>

text \<open>The projects a request is about.\<close>

definition deployment_projects :: "api_lib \<Rightarrow> PlatformState \<Rightarrow> db \<Rightarrow> string \<Rightarrow> uuid set" where
  "deployment_projects L K d s =
     {sd_project_id x | x. x \<in> set (ps_deployments K) \<and> ax_parse_uuid L s = Some (sd_id x)} \<union>
     {d_project_id r | r. r \<in> set (deployments d) \<and> ax_parse_uuid L s = Some (d_id r)}"

fun subjects :: "api_lib \<Rightarrow> PlatformState \<Rightarrow> db \<Rightarrow> Endpoint \<Rightarrow> uuid set" where
  "subjects L K d (GetProject s) = {i. ax_parse_uuid L s = Some i}"
| "subjects L K d (ListDeployments s) = {i. ax_parse_uuid L s = Some i}"
| "subjects L K d (CreateDeployment s) = {i. ax_parse_uuid L s = Some i}"
| "subjects L K d (GetSource s) = {i. ax_parse_uuid L s = Some i}"
| "subjects L K d (UpdateSource s) = {i. ax_parse_uuid L s = Some i}"
| "subjects L K d (DisconnectSource s) = {i. ax_parse_uuid L s = Some i}"
| "subjects L K d (ListSourceEvents s) = {i. ax_parse_uuid L s = Some i}"
| "subjects L K d (ListPreviews s) = {i. ax_parse_uuid L s = Some i}"
| "subjects L K d (ClearCache s) = {i. ax_parse_uuid L s = Some i}"
| "subjects L K d (GetMetrics s) = {i. ax_parse_uuid L s = Some i}"
| "subjects L K d (ListReleaseEvents s) = {r_project_id r | r. r \<in> set (releases d) \<and> ax_parse_uuid L s = Some (r_id r)}"
| "subjects L K d (GetPreview s) = {pv_project_id r | r. r \<in> set (previews d) \<and> ax_parse_uuid L s = Some (pv_id r)}"
| "subjects L K d (PromotePreview s) = {pv_project_id r | r. r \<in> set (previews d) \<and> ax_parse_uuid L s = Some (pv_id r)}"
| "subjects L K d (StopPreview s) = {pv_project_id r | r. r \<in> set (previews d) \<and> ax_parse_uuid L s = Some (pv_id r)}"
| "subjects L K d (GetDeployment s) = deployment_projects L K d s"
| "subjects L K d (GetLogs s) = deployment_projects L K d s"
| "subjects L K d (DownloadLogs s) = deployment_projects L K d s"
| "subjects L K d (StreamLogs s) = deployment_projects L K d s"
| "subjects L K d (StopDeployment s) = deployment_projects L K d s"
| "subjects L K d (RollbackDeployment s) = deployment_projects L K d s"
| "subjects L K d (ListReleases s) = deployment_projects L K d s"
| "subjects L K d _ = {}"

text \<open>The routes under a project, a deployment, a preview or a release, without cancelling and retrying, which are
  not checked.\<close>

fun guarded :: "Endpoint \<Rightarrow> bool" where
  "guarded (GetProject s) = True" | "guarded (ListDeployments s) = True" | "guarded (CreateDeployment s) = True"
| "guarded (GetDeployment s) = True" | "guarded (GetLogs s) = True" | "guarded (DownloadLogs s) = True"
| "guarded (StreamLogs s) = True" | "guarded (StopDeployment s) = True" | "guarded (RollbackDeployment s) = True"
| "guarded (ListReleases s) = True" | "guarded (ListReleaseEvents s) = True" | "guarded (GetSource s) = True"
| "guarded (UpdateSource s) = True" | "guarded (DisconnectSource s) = True" | "guarded (ListSourceEvents s) = True"
| "guarded (ListPreviews s) = True" | "guarded (ClearCache s) = True" | "guarded (GetMetrics s) = True"
| "guarded (GetPreview s) = True" | "guarded (PromotePreview s) = True" | "guarded (StopPreview s) = True"
| "guarded _ = False"

context project_store
begin

lemma project_refused:
  assumes "as_service S = svc" and "\<And>i u. ax_parse_uuid L s = Some i \<Longrightarrow> u \<in> owners (known (host w)) (db w) i \<Longrightarrow> \<not> allowed u"
  shows "reads w (and_then (parse_id L s) (\<lambda>i. and_then (service_project L S i) (\<lambda>project.
    and_then (forbid_unless (allowed (sp_user_id project)) msg) (k i project)))) (\<lambda>_. False)"
  by (rule reads_and_then [OF reads_parse_id], rule refused_by_check [OF service_project_reads [OF assms(1)]]) (rule assms(2))

lemma owner_refused:
  assumes "\<And>i. ax_parse_uuid L s = Some i \<Longrightarrow> reads w (m i) R" and "\<And>u. R u \<Longrightarrow> \<not> allowed u"
  shows "reads w (and_then (parse_id L s) (\<lambda>i. and_then (m i) (\<lambda>u. and_then (forbid_unless (allowed u) msg) (k i u)))) (\<lambda>_. False)"
  by (rule reads_and_then [OF reads_parse_id], rule refused_by_check [OF assms(1)]) (auto dest: assms(2))

lemma project_handlers_refused:
  assumes "as_service S = svc"
    and "\<And>i u. ax_parse_uuid L s = Some i \<Longrightarrow> u \<in> owners (known (host w)) (db w) i \<Longrightarrow> \<not> is_owner ctx u"
  shows "reads w (api_get_project L S ctx s) (\<lambda>_. False)" "reads w (api_list_deployments L S ctx s) (\<lambda>_. False)"
    "reads w (api_create_deployment L S ctx s force) (\<lambda>_. False)" "reads w (api_get_project_source L S ctx s) (\<lambda>_. False)"
    "reads w (update_project_source L S ctx s req) (\<lambda>_. False)" "reads w (api_disconnect_project_source L S ctx s) (\<lambda>_. False)"
    "reads w (list_project_source_events L S ctx s) (\<lambda>_. False)"
  unfolding api_get_project_def api_list_deployments_def api_create_deployment_def api_get_project_source_def
    update_project_source_def api_disconnect_project_source_def list_project_source_events_def
  by (rule project_refused [OF assms(1)], drule (1) assms(2), erule not_owner)+

lemma owner_handlers_refused:
  assumes "as_service S = svc"
    and "\<And>i u. ax_parse_uuid L s = Some i \<Longrightarrow> u \<in> owners (known (host w)) (db w) i \<Longrightarrow> \<not> is_owner ctx u"
  shows "reads w (list_project_previews L S ctx s) (\<lambda>_. False)" "reads w (clear_project_cache L S ctx s) (\<lambda>_. False)"
    "reads w (get_project_metrics L S ctx s q) (\<lambda>_. False)"
proof -
  let ?R = "\<lambda>u. \<not> is_owner ctx u"
  have m: "ax_parse_uuid L s = Some i \<Longrightarrow> reads w (get_project_user_id L S i) ?R"
    "ax_parse_uuid L s = Some i \<Longrightarrow> reads w (stored_owner L S i) ?R" for i
    by (rule reads_mono [OF project_user_reads [OF assms(1)]] reads_mono [OF stored_owner_reads [OF assms(1)]], erule (1) assms(2))+
  show "reads w (list_project_previews L S ctx s) (\<lambda>_. False)" "reads w (clear_project_cache L S ctx s) (\<lambda>_. False)"
    "reads w (get_project_metrics L S ctx s q) (\<lambda>_. False)"
    unfolding list_project_previews_def clear_project_cache_def get_project_metrics_def
    by (rule owner_refused [where R = ?R], erule m, erule not_owner)+
qed

lemma preview_handlers_refused:
  assumes "as_service S = svc"
    and "\<And>r u. r \<in> set (previews (db w)) \<Longrightarrow> ax_parse_uuid L s = Some (pv_id r) \<Longrightarrow>
           u \<in> owners (known (host w)) (db w) (pv_project_id r) \<Longrightarrow> \<not> is_owner ctx u"
  shows "reads w (get_preview L S ctx s) (\<lambda>_. False)" "reads w (promote_preview L S ctx s) (\<lambda>_. False)"
    "reads w (stop_preview L S ctx s) (\<lambda>_. False)"
proof -
  have m: "reads w (find_preview L S s) (\<lambda>(p, u). \<not> is_owner ctx u)"
    by (rule reads_mono [OF preview_reads [OF assms(1)]]) (auto dest: assms(2))
  show "reads w (get_preview L S ctx s) (\<lambda>_. False)" "reads w (promote_preview L S ctx s) (\<lambda>_. False)"
    "reads w (stop_preview L S ctx s) (\<lambda>_. False)"
    unfolding get_preview_def promote_preview_def stop_preview_def case_prod_beta
    by (rule refused_by_check [OF m], simp add: case_prod_beta)+
qed

lemma deployment_handlers_refused:
  assumes "as_service S = svc"
    and "\<And>i j u. ax_parse_uuid L s = Some i \<Longrightarrow> j \<in> projects_of_deployment w i \<Longrightarrow> u \<in> owners (known (host w)) (db w) j \<Longrightarrow> \<not> is_owner ctx u"
  shows "reads w (api_get_deployment L S ctx s) (\<lambda>_. False)" "reads w (api_stop_deployment L S ctx s) (\<lambda>_. False)"
    "reads w (check_log_access L S ctx s) (\<lambda>_. False)" "reads w (list_deployment_releases L S ctx s) (\<lambda>_. False)"
proof -
  let ?R = "\<lambda>u. \<not> is_owner ctx u"
  have m: "ax_parse_uuid L s = Some i \<Longrightarrow> reads w (resolve_deployment_user_id L S i) ?R" for i
    by (rule reads_mono [OF resolve_reads [OF assms(1)]]) (auto dest: assms(2))
  show "reads w (api_get_deployment L S ctx s) (\<lambda>_. False)" "reads w (api_stop_deployment L S ctx s) (\<lambda>_. False)"
    unfolding api_get_deployment_def api_stop_deployment_def
    by (rule reads_and_then [OF reads_parse_id], rule deployment_refused [OF assms(1)], drule (2) assms(2), erule not_owner)+
  show "reads w (check_log_access L S ctx s) (\<lambda>_. False)" "reads w (list_deployment_releases L S ctx s) (\<lambda>_. False)"
    unfolding check_log_access_def list_deployment_releases_def
    by (rule owner_refused [where R = ?R], erule m, erule not_owner)+
qed

lemma rollback_refused:
  assumes "\<And>i j u. ax_parse_uuid L s = Some i \<Longrightarrow> j \<in> projects_of_deployment w i \<Longrightarrow> u \<in> owners (known (host w)) (db w) j \<Longrightarrow> \<not> is_owner ctx u"
  shows "reads w (api_rollback_deployment L S ctx s body) (\<lambda>_. False)"
proof -
  have perm: "reads w (api_err f (of_result (check_rollback_permission ctx (Some (pj_user_id p)) e))) (\<lambda>_. False)"
    if "ax_parse_uuid L s = Some i" "lookup_by d_id i (deployments (db w)) = Some r"
      "Some (pj_user_id p) \<in> owners (known (host w)) (db w) (d_project_id r)" for f r p e i
  proof -
    have "\<not> is_owner ctx (Some (pj_user_id p))"
      using assms [OF that(1) _ that(3)] that(2) by (auto simp: projects_of_deployment_def dest!: lookup_by_Some)
    then show ?thesis by (auto intro!: reads_api_err reads_of_result simp: check_rollback_permission_def)
  qed
  note steps = reads_and_then [OF reads_parse_id] reads_and_then [OF reads_api_err [OF reads_select]] reads_and_then [OF reads_some]
    reads_and_then [OF reads_api_err [OF get_project_reads [where K = "known (host w)"]]]
  show ?thesis
    unfolding api_rollback_deployment_def
    by (auto intro!: reads_fail steps reads_and_then [OF perm] simp del: append_Cons append.simps)
qed

lemma release_events_refused:
  assumes "\<And>r u. r \<in> set (releases (db w)) \<Longrightarrow> ax_parse_uuid L s = Some (r_id r) \<Longrightarrow>
    u \<in> owners (known (host w)) (db w) (r_project_id r) \<Longrightarrow> \<not> is_owner ctx u"
  shows "reads w (list_release_events L S ctx s) (\<lambda>_. False)"
proof -
  have rel: "reads w (api_err f (get_release i)) (\<lambda>r. r \<in> set (releases (db w)) \<and> r_id r = i)" for f i
    unfolding get_release_def
    by (auto intro!: reads_api_err reads_and_then [OF reads_select] reads_of_option dest!: lookup_by_Some)
  show ?thesis
    unfolding list_release_events_def
  proof (rule reads_and_then [OF reads_parse_id], split if_split, intro conjI impI)
    fix i assume i: "ax_parse_uuid L s = Some i"
    show "reads w (and_then (api_err (\<lambda>e. ApiNotFound (ax_to_string L e)) (get_release i)) (\<lambda>release.
       and_then (api_err (\<lambda>e. ApiNotFound (ax_to_string L e)) (Repository.get_project (r_project_id release))) (\<lambda>proj.
       and_then (forbid_unless (can_read ctx (Some (pj_user_id proj))) ''access to release events denied'') (\<lambda>_.
       or_internal (list_transitions_for_release i))))) (\<lambda>_. False)"
      by (rule reads_and_then [OF rel], rule refused_by_check [OF reads_api_err [OF get_project_reads [where K = "known (host w)"]]])
        (use assms i in \<open>auto intro!: not_owner(1)\<close>)
  qed (rule reads_fail)
qed

lemma projects_of_path: "deployment_projects L (known (host w)) (db w) s = \<Union> (projects_of_deployment w ` {i. ax_parse_uuid L s = Some i})"
  by (auto simp: deployment_projects_def projects_of_deployment_def)

lemma guarded_refused:
  assumes svc: "as_service S = svc" and "guarded e"
    and foreign: "\<And>i u. i \<in> subjects L (known (host w)) (db w) e \<Longrightarrow> u \<in> owners (known (host w)) (db w) i \<Longrightarrow> \<not> is_owner ctx u"
  shows "reads w (serve_as L D G S rq ctx e) (\<lambda>r. \<exists>status. r = RRejected status)"
proof -
  have respond: "reads w m (\<lambda>_. False) \<Longrightarrow> reads w (respond f m) (\<lambda>r. \<exists>status. r = RRejected status)" for m :: "(('r, 'z) api_world_scheme, ApiError, 'x) io" and f
    unfolding respond_def by (erule reads_and_then) simp
  have decoded: "(\<And>q. reads w (h q) (\<lambda>r. \<exists>status. r = RRejected status)) \<Longrightarrow> reads w (decoded d h) (\<lambda>r. \<exists>status. r = RRejected status)"
    for d :: "u16 + 'q" and h :: "'q \<Rightarrow> (('r, 'z) api_world_scheme, ApiError, Response) io"
    unfolding decoded_def by (auto intro: reads_ret split: sum.splits)
  note project = project_handlers_refused [OF svc] owner_handlers_refused [OF svc]
    and deployment = deployment_handlers_refused [OF svc]
  have logs: "reads w (check_log_access L S ctx s) (\<lambda>_. False) \<Longrightarrow> reads w (and_then (check_log_access L S ctx s) k) (\<lambda>_. False)" for s and k :: "uuid \<Rightarrow> (('r, 'z) api_world_scheme, ApiError, 'x) io"
    by (erule reads_and_then) simp
  show ?thesis
    using \<open>guarded e\<close> foreign
    by (cases e) (auto intro!: respond decoded project deployment preview_handlers_refused [OF svc] rollback_refused
        release_events_refused logs simp: projects_of_path get_deployment_logs_def download_deployment_logs_def stream_deployment_logs_def)
qed

end

text \<open>C19. A request for a project of somebody else.  Whoever the caller is and whatever it holds, if it owns none of
  the projects that a request is about, neither as the host nor as the database records them, then the request
  is refused: nothing is returned but the error, and no table, no file, no container and no message changes.  This holds
  for every route below a project, a deployment, a preview or a release except the two that cancel and retry a deployment,
  which check no owner (see \<open>stranger_cancels\<close> in \<open>Api_Examples\<close>), and for every pattern of failures.\<close>

theorem foreign_requests_refused:
  assumes "as_service S = deployment_service H C builder R state_root" and "guarded e"
    and "\<And>i u. i \<in> subjects L (known_on H state_root (host w)) (db w) e \<Longrightarrow>
           u \<in> owners (known_on H state_root (host w)) (db w) i \<Longrightarrow> \<not> is_owner ctx u"
    and "serve_as L D G S rq ctx e w = (r, w')"
  shows "same w w' \<and> (case r of Inl err \<Rightarrow> True | Inr response \<Rightarrow> \<exists>status. response = RRejected status)"
proof -
  have "reads w (serve_as L D G S rq ctx e) (\<lambda>r. \<exists>status. r = RRejected status)"
    by (rule deployment_store.guarded_refused [OF assms(1,2)]) (rule assms(3))
  from readsD [OF this same_refl assms(4)] show ?thesis .
qed

end
