(* ===== verification/Api_Correct.thy ===== *)
theory Api_Correct
  imports Api_Access Logs_Correct Auth_Correct
begin

text \<open>
  The correctness of the HTTP interface beyond access: the stream of a log delivers the whole log and ends, the
  cookie of a login authenticates its user, and a connection to a provider needs a state of the caller, once.
\<close>

section \<open>The stream of a log\<close>

definition log_event :: "api_lib \<Rightarrow> LogEntry \<Rightarrow> SseEvent" where
  "log_event L entry = LogEvent (le_sequence entry) (unwrap_or (ax_entry_json L entry) [])"

lemma send_entries_all:
  "\<exists>t. send_entries L (\<lambda>_. False) es seq sent v =
    (Inr (sent @ map (log_event L) es, Polling (if es = [] then seq else le_sequence (last es))), v\<lparr>tick := t\<rparr>)"
proof (induction es arbitrary: seq sent v)
  case Nil
  show ?case by (rule exI [of _ "tick v"]) (simp add: io_simps)
next
  case (Cons e es)
  obtain t where "send_entries L (\<lambda>_. False) es (le_sequence e) (sent @ [log_event L e]) (v\<lparr>tick := Suc (tick v)\<rparr>) =
      (Inr ((sent @ [log_event L e]) @ map (log_event L) es, Polling (if es = [] then le_sequence e else le_sequence (last es))),
       v\<lparr>tick := Suc (tick v)\<rparr>\<lparr>tick := t\<rparr>)" using Cons.IH by blast
  then show ?case
    by (intro exI [of _ t]) (auto simp: io_simps external_def log_event_def [symmetric])
qed

lemma poll_log_page:
  fixes L seq i d
  defines "rows \<equiv> log_rows i (as_i64 seq) None d"
  assumes "no_db_faults v" and "db v = d"
    and status: "is_terminal_status (map_option d_status (lookup_by d_id i (deployments d)))"
  shows "\<exists>t. poll_log L (\<lambda>_. False) True i seq sent v =
    (Inr (if 100 < length rows
          then (sent @ map (log_event L) (map entry_of_row (take 100 rows)), Polling (le_sequence (last (map entry_of_row (take 100 rows)))))
          else (sent @ map (log_event L) (map entry_of_row rows) @ [DoneEvent], Finished)), v\<lparr>tick := t\<rparr>)"
proof -
  define q where "q = \<lparr>lq_after_sequence = Some seq, lq_limit = Some (100 :: u64), lq_stream = None\<rparr>"
  have lim: "query_limit q = 100" by (simp add: query_limit_def q_def)
  note page = page_lines [OF rows_def [THEN meta_eq_to_obj_eq] lim [symmetric] q_def, of "ax_fmt L" True]
  have run: "query_logs (ax_fmt L) i q v =
      (Inr (logs_page (ax_fmt L) q (fetched_rows i q d) True), v\<lparr>tick := Suc (Suc (tick v))\<rparr>)"
    using assms(2,3) status by (simp add: query_logs_def io_simps)
  obtain t where "send_entries L (\<lambda>_. False) (map entry_of_row (take 100 rows)) seq sent (v\<lparr>tick := Suc (Suc (tick v))\<rparr>) =
      (Inr (sent @ map (log_event L) (map entry_of_row (take 100 rows)),
        Polling (if map entry_of_row (take 100 rows) = [] then seq else le_sequence (last (map entry_of_row (take 100 rows))))),
       v\<lparr>tick := Suc (Suc (tick v))\<rparr>\<lparr>tick := t\<rparr>)"
    using send_entries_all by blast
  then show ?thesis
    using page run
    by (intro exI [of _ t]) (auto simp: poll_log_def io_simps q_def [symmetric] logs_page_def Let_def)
qed

lemma stream_log_all:
  assumes quiet: "\<And>v. db (meanwhile v) = db v \<and> env (meanwhile v) = env v"
    and ok: "sequences_ok d" and status: "is_terminal_status (map_option d_status (lookup_by d_id i (deployments d)))"
  shows "no_db_faults v \<Longrightarrow> db v = d \<Longrightarrow> 0 \<le> as_i64 seq \<Longrightarrow> length (log_rows i (as_i64 seq) None d) \<le> 100 * Suc k \<Longrightarrow>
    \<exists>v'. stream_log L (\<lambda>_. False) True meanwhile (Suc k) i seq sent v =
      (Inr (sent @ map (log_event L) (map entry_of_row (log_rows i (as_i64 seq) None d)) @ [DoneEvent], Finished), v')"
proof (induction k arbitrary: v seq sent)
  case (0 v seq sent)
  then obtain t where "poll_log L (\<lambda>_. False) True i seq sent v =
      (Inr (sent @ map (log_event L) (map entry_of_row (log_rows i (as_i64 seq) None d)) @ [DoneEvent], Finished), v\<lparr>tick := t\<rparr>)"
    using poll_log_page [OF 0(1,2) status, where L = L and seq = seq and sent = sent] 0(4) by (auto simp del: map_map)
  then show ?case by (simp add: io_simps)
next
  case (Suc k v seq sent)
  define rows where "rows = log_rows i (as_i64 seq) None d"
  obtain t where poll: "poll_log L (\<lambda>_. False) True i seq sent v =
    (Inr (if 100 < length rows
          then (sent @ map (log_event L) (map entry_of_row (take 100 rows)), Polling (le_sequence (last (map entry_of_row (take 100 rows)))))
          else (sent @ map (log_event L) (map entry_of_row rows) @ [DoneEvent], Finished)), v\<lparr>tick := t\<rparr>)"
    using poll_log_page [OF Suc.prems(1,2) status, where L = L and seq = seq and sent = sent] unfolding rows_def by blast
  show ?case
  proof (cases "100 < length rows")
    case False
    then show ?thesis by (simp add: io_simps poll rows_def [symmetric])
  next
    case True
    then have n: "0 < (100 :: nat)" "100 \<le> length rows" by simp_all
    from log_rows_next [OF ok rows_def Suc.prems(3) n] obtain s where s: "0 < s" "as_i64 (as_u64 s) = s"
      "log_rows i s None d = drop 100 rows" "map entry_of_row (take 100 rows) \<noteq> []"
      "le_sequence (last (map entry_of_row (take 100 rows))) = as_u64 s" .
    let ?v = "meanwhile (v\<lparr>tick := Suc t\<rparr>)"
    have "no_db_faults ?v" "db ?v = d" using Suc.prems(1,2) quiet by (simp_all add: no_db_faults_def)
    moreover have "length (log_rows i (as_i64 (as_u64 s)) None d) \<le> 100 * Suc k" using Suc.prems(4) by (simp add: s rows_def)
    ultimately obtain v' where "stream_log L (\<lambda>_. False) True meanwhile (Suc k) i (as_u64 s)
        (sent @ map (log_event L) (map entry_of_row (take 100 rows))) ?v =
      (Inr ((sent @ map (log_event L) (map entry_of_row (take 100 rows))) @ map (log_event L) (map entry_of_row (drop 100 rows)) @ [DoneEvent], Finished), v')"
      using Suc.IH [of ?v "as_u64 s" "sent @ map (log_event L) (map entry_of_row (take 100 rows))"] s(1,2,3) by auto
    moreover have "map (log_event L) (map entry_of_row (take 100 rows)) @ map (log_event L) (map entry_of_row (drop 100 rows)) =
        map (log_event L) (map entry_of_row rows)" by (simp flip: map_append)
    ultimately show ?thesis
      by (subst stream_log.simps) (simp add: io_simps poll True s(5) rows_def [symmetric] del: stream_log.simps map_map)
  qed
qed

text \<open>C22. The stream of a log ends and is complete.  For a deployment that has ended, while its log no longer changes, one
  poll per hundred lines and one more suffice: the receiver gets every line after the sequence number it
  named exactly once and in order, then the closing event, and the task is over.\<close>

theorem stream_complete:
  assumes "no_db_faults w" and "sequences_ok (db w)" and "0 \<le> as_i64 after"
    and "is_terminal_status (map_option d_status (lookup_by d_id i (deployments (db w))))"
    and "\<And>v. db (meanwhile v) = db v \<and> env (meanwhile v) = env v"
  shows "\<exists>w'. stream_log L (\<lambda>_. False) True meanwhile (Suc (length (log_rows i (as_i64 after) None (db w)) div 100)) i after [] w =
    (Inr (map (\<lambda>r. LogEvent (as_u64 (lg_sequence r)) (unwrap_or (ax_entry_json L (entry_of_row r)) []))
            (log_rows i (as_i64 after) None (db w)) @ [DoneEvent], Finished), w')"
proof -
  let ?n = "length (log_rows i (as_i64 after) None (db w))"
  have "?n \<le> 100 * Suc (?n div 100)" using div_mult_mod_eq [of ?n 100] mod_less_divisor [of 100 ?n] by (simp add: algebra_simps)
  from stream_log_all [OF assms(5,2,4) assms(1) refl assms(3) this, of L "[]"] show ?thesis
    by (simp add: log_event_def entry_of_row_def comp_def del: stream_log.simps)
qed

section \<open>The cookie of a login\<close>

text \<open>\<^verbatim>\<open>hex::encode\<close> gives lower-case digits.\<close>

definition hex_digits :: string where
  "hex_digits = ''0123456789abcdef''"

definition hex_text :: "string \<Rightarrow> bool" where
  "hex_text s \<longleftrightarrow> set s \<subseteq> set hex_digits"

definition visible :: "char \<Rightarrow> bool" where
  "visible c \<longleftrightarrow> 33 \<le> (of_char c :: nat) \<and> (of_char c :: nat) < 127"

lemma hex_digits_visible: "list_all (\<lambda>c. visible c \<and> c \<noteq> CHR '';'' \<and> c \<noteq> CHR ''p'') hex_digits"
  by (simp add: hex_digits_def visible_def)

lemma hex_textD: "hex_text s \<Longrightarrow> c \<in> set s \<Longrightarrow> visible c \<and> c \<noteq> CHR '';'' \<and> c \<noteq> CHR ''p''"
  using hex_digits_visible unfolding hex_text_def list_all_iff by blast

lemma hex_text_visible: "hex_text s \<Longrightarrow> list_all visible s"
  unfolding list_all_iff using hex_textD by blast

lemma hex_text_semicolon: "hex_text s \<Longrightarrow> CHR '';'' \<notin> set s"
  using hex_textD by blast

lemma hex_text_not_token: "hex_text s \<Longrightarrow> \<not> str_starts_with s ''dp_''"
  using hex_textD [of s "CHR ''p''"] by (auto simp: str_starts_with_iff)

lemma prefix_len_none: "\<forall>p\<in>set ps. \<not> str_starts_with s p \<Longrightarrow> prefix_len ps s = 0"
  by (induction ps) auto

lemma visible_no_white:
  assumes "list_all visible s"
  shows "white_len s = 0" "white_len_rev s = 0"
proof -
  have "p \<noteq> [] \<and> \<not> visible (hd p)" if "p \<in> set white_seqs \<union> set (map rev white_seqs)" for p
    using that by (auto simp: white_seqs_def visible_def)
  then have "\<not> str_starts_with s p" if "p \<in> set white_seqs \<union> set (map rev white_seqs)" for p
    using assms that by (cases p) (fastforce simp: str_starts_with_iff)+
  then show "white_len s = 0" "white_len_rev s = 0"
    unfolding white_len_def white_len_rev_def by (auto intro!: prefix_len_none)
qed

lemma trim_visible: "list_all visible s \<Longrightarrow> str_trim s = s"
proof -
  have "len t = 0 \<Longrightarrow> strip_front len n t = t" for len n t by (cases n) simp_all
  moreover assume "list_all visible s"
  ultimately show ?thesis using visible_no_white [of s] visible_no_white [of "rev s"] by (simp add: str_trim_def Let_def)
qed

lemma header_visible:
  assumes "list_all (\<lambda>c. visible c \<or> c = CHR '' '') s"
  shows "header_to_str s = Some s"
proof -
  have "32 \<le> (of_char c :: nat) \<and> (of_char c :: nat) < 127 \<or> c = CHR 0x09" if "visible c \<or> c = CHR '' ''" for c
    using that
  proof
    assume "visible c"
    then show ?thesis unfolding visible_def by linarith
  qed simp
  then have "list_all (\<lambda>c. 32 \<le> (of_char c :: nat) \<and> (of_char c :: nat) < 127 \<or> c = CHR 0x09) s"
    using assms unfolding list_all_iff by blast
  then show ?thesis unfolding header_to_str_def by (rule if_P)
qed

lemma split_char_none: "c \<notin> set s \<Longrightarrow> split_char c s = [s]"
  by (induction s) auto

lemma tokens_read_back:
  assumes "hex_text token"
  shows "bearer_token [(''authorization'', ''Bearer '' @ token)] = Some token"
    "cookie_token [(''cookie'', ''dp_session='' @ token)] = Some token"
    "bearer_token [(''cookie'', x)] = None"
proof -
  have v: "list_all visible (''dp_session='' @ token)" using hex_text_visible [OF assms] by (simp add: visible_def)
  have h: "header_to_str (''Bearer '' @ token) = Some (''Bearer '' @ token)" "header_to_str (''dp_session='' @ token) = Some (''dp_session='' @ token)"
    using hex_text_visible [OF assms] by (auto intro!: header_visible simp: visible_def list_all_iff)
  have st: "strip_prefix (p @ token) p = Some token" for p by (simp add: strip_prefix_def str_starts_with_def)
  show "bearer_token [(''authorization'', ''Bearer '' @ token)] = Some token"
    by (simp add: bearer_token_def h st trim_visible [OF hex_text_visible [OF assms]] del: append_Cons append.simps)
  have "split_char (CHR '';'') (''dp_session='' @ token) = [''dp_session='' @ token]"
    using hex_text_semicolon [OF assms] by (intro split_char_none) simp
  then show "cookie_token [(''cookie'', ''dp_session='' @ token)] = Some token"
    by (simp add: cookie_token_def h st trim_visible [OF v] del: append_Cons append.simps)
  show "bearer_token [(''cookie'', x)] = None" by (simp add: bearer_token_def)
qed

lemma create_session_token:
  assumes "create_session A u duration w = (Inr s, w')"
  shows "\<exists>n. si_token s = al_random_hex A n 32" and "\<exists>n. si_expires_at s = env_clock (env w) n + duration"
  using assms unfolding create_session_def Let_def
  by (auto elim!: and_then_InrE dest!: insert_row_InrE ret_InrE simp: uuid_new_v4_run now_utc_run random_hex_def)

lemma login_session_InrE:
  assumes "as_auth S = Some A" and "login_session L S req w = (Inr (cookie, status, resp), w1)"
  obtains user s v where "login A (lg_email req) (lg_password req) session_ttl w = (Inr (user, s), w1)"
    "cookie = dp_session (si_token s) session_ttl" "status = 200" "resp = session_response L user s"
  using assms unfolding login_session_def require_auth_def
  by (auto simp: api_err_def map_err_def io_simps split: prod.splits sum.splits)

lemma login_expiry:
  assumes "login A email password duration w = (Inr (user, s), w1)"
  shows "\<exists>n. si_token s = al_random_hex A n 32" and "\<exists>n. si_expires_at s = env_clock (env w) n + duration"
proof -
  from assms obtain v where "create_session A (u_id user) duration v = (Inr s, w1)" "env v = env w"
    unfolding login_def get_by_email_def fetch_required_def
    by (auto elim!: and_then_InrE dest!: ret_InrE simp: of_result_def fail_def ret_def of_option_def select_rows_def statement_def
        split: if_splits option.splits)
  then show "\<exists>n. si_token s = al_random_hex A n 32" "\<exists>n. si_expires_at s = env_clock (env w) n + duration"
    by (metis create_session_token)+
qed

lemma login_authenticates:
  assumes login: "login A email password duration w = (Inr (user, s), w1)"
    and later: "sessions (db w2) = sessions (db w1)" "no_db_faults w2"
  shows "fst (authenticate_session A (si_token s) w2) =
    (if si_expires_at s < env_clock (env w2) (Suc (tick w2)) then Inl (Message ''session has expired'')
     else Inr \<lparr>ac_user_id = u_id user, ac_session_id = Some (si_id s), ac_scopes = [''*'']\<rparr>)"
proof -
  from login obtain v where "create_session A (u_id user) duration v = (Inr s, w1)" by (rule login_InrE)
  then obtain row where row: "sessions (db w1) = sessions (db v) @ [row]" "ss_id row = si_id s"
      "ss_user_id row = u_id user" "ss_token_hash row = hash_session_token A (si_token s)"
      "ss_expires_at row = si_expires_at s"
      "\<not> has_key ss_token_hash (hash_session_token A (si_token s)) (sessions (db v))"
    by (rule create_session_InrE)
  have "lookup_by ss_token_hash (hash_session_token A (si_token s)) (sessions (db w2)) = Some row"
    using lookup_snoc_fresh [OF row(6,4)] by (simp add: later row(1))
  from authenticate_session_run [OF later(2) this] row show ?thesis by simp
qed

text \<open>C21. The cookie of a login.  When a login succeeds, the password is that of the account with the given address; and
  a later request that carries the cookie the response sets, or the token of the response as a bearer
  token, acts as that user with all scopes until seven days have passed since the login, and is refused
  afterwards.\<close>

theorem login_cookie_roundtrip:
  assumes "as_auth S = Some A" and "\<And>n k. hex_text (al_random_hex A n k)"
    and "login_session L S req w = (Inr (cookie, status, resp), w1)"
    and "sessions (db w2) = sessions (db w1)" and "no_db_faults w2"
    and "headers = [(''cookie'', ck_name cookie @ ''='' @ ck_value cookie)] \<or> headers = [(''authorization'', ''Bearer '' @ sn_token resp)]"
  shows "status = 200 \<and> (\<exists>user i n. lookup_by u_email (lg_email req) (users (db w)) = Some user
    \<and> al_verify A (lg_password req) (u_password_hash user)
    \<and> fst (from_request_parts L S headers w2) =
       (if env_clock (env w) n + session_ttl < env_clock (env w2) (Suc (tick w2))
        then Inl (ApiUnauthorized (''invalid session: '' @ ax_to_string L (Message ''session has expired'')))
        else Inr \<lparr>ac_user_id = u_id user, ac_session_id = Some i, ac_scopes = [''*'']\<rparr>))"
proof -
  obtain user s where l: "login A (lg_email req) (lg_password req) session_ttl w = (Inr (user, s), w1)"
    and r: "cookie = dp_session (si_token s) session_ttl" "status = 200" "resp = session_response L user s"
    using login_session_InrE [OF assms(1,3)] by metis
  obtain n where exp: "si_expires_at s = env_clock (env w) n + session_ttl" using login_expiry(2) [OF l] by blast
  have hex: "hex_text (si_token s)" using login_expiry(1) [OF l] assms(2) by metis
  have "from_request_parts L S headers = by_session L A (si_token s)"
    using assms(6) tokens_read_back [OF hex] hex_text_not_token [OF hex]
    by (auto simp: from_request_parts_def assms(1) r dp_session_def session_response_def)
  then have "fst (from_request_parts L S headers w2) =
      (case fst (authenticate_session A (si_token s) w2) of
         Inl e \<Rightarrow> Inl (case e of Panicked m \<Rightarrow> TaskPanicked m | _ \<Rightarrow> ApiUnauthorized (''invalid session: '' @ ax_to_string L e)) | Inr c \<Rightarrow> Inr c)"
    by (auto simp: by_session_def api_err_def map_err_def simp del: append_Cons append.simps split: prod.splits sum.splits)
  moreover have "lookup_by u_email (lg_email req) (users (db w)) = Some user" "al_verify A (lg_password req) (u_password_hash user)"
    using login_InrE [OF l] by metis+
  ultimately show ?thesis
    using r(2) unfolding login_authenticates [OF l assms(4,5)] exp by (intro conjI exI [of _ user] exI [of _ "si_id s"] exI [of _ n]) auto
qed

section \<open>Requests without a valid credential\<close>

fun public :: "Endpoint \<Rightarrow> bool" where
  "public Healthz = True" | "public LoginSession = True" | "public RegisterSession = True"
| "public (HandleWebhook p i) = True" | "public _ = False"

lemma serve_authenticated:
  "\<not> public e \<Longrightarrow> serve L W D G S rq e = and_then (from_request_parts L S (rq_headers rq)) (\<lambda>ctx. serve_as L D G S rq ctx e)"
  by (cases e) simp_all

lemma keeps_lift: "keeps_db I m \<Longrightarrow> keeps (\<lambda>w. I (db w)) (api_err f m)"
  unfolding keeps_db_def keeps_def api_err_def map_err_def by (auto split: prod.splits sum.splits)

lemma keeps_quiet: "keeps_db I m \<Longrightarrow> keeps (\<lambda>w. I (db w)) (ignore m)"
  unfolding keeps_db_def by (rule keeps_ignore)

lemma keeps_db_external: "keeps_db I (external f)" and keeps_external: "keeps (\<lambda>w. I (db w)) (external f)"
  by (simp_all add: keeps_db_def keeps_def external_def)

text \<open>Authentication changes sessions, when one has expired, and the time a token was last used.\<close>

definition only_credentials :: "db \<Rightarrow> db \<Rightarrow> bool" where
  "only_credentials d0 d \<longleftrightarrow> d\<lparr>sessions := [], api_tokens := []\<rparr> = d0\<lparr>sessions := [], api_tokens := []\<rparr>"

lemma only_credentials_refl [simp]: "only_credentials d d"
  by (simp add: only_credentials_def)

lemma keeps_only_credentials [keeps_intros]:
  "keeps_db (only_credentials d) (revoke_session i)" "keeps_db (only_credentials d) (try_tokens A raw rows)"
proof -
  show revoke: "keeps_db (only_credentials d) (revoke_session i)"
    unfolding revoke_session_def by (rule keeps_db_execute) (auto simp: only_credentials_def)
  show "keeps_db (only_credentials d) (try_tokens A raw rows)"
  proof (induction rows)
    case (Cons row rows)
    have "keeps_db (only_credentials d) (execute c (\<lambda>x. x\<lparr>api_tokens := f x\<rparr>))" for c f
      by (rule keeps_db_execute) (auto simp: only_credentials_def)
    with Cons show ?case by (auto intro!: keeps_intros)
  qed (simp add: keeps_intros)
qed

lemma from_request_parts_credentials:
  assumes "from_request_parts L S headers w = (r, w')"
  shows "only_credentials (db w) (db w')"
proof -
  have "keeps_db (only_credentials d) (authenticate_session A token)" "keeps_db (only_credentials d) (authenticate_api_token A token)"
    for d A token
    unfolding authenticate_session_def authenticate_api_token_def by (intro keeps_intros)+
  then have "keeps (\<lambda>w. only_credentials d (db w)) (from_request_parts L S headers)" for d
    unfolding from_request_parts_def by_session_def by (intro keeps_option keeps_if keeps_ret keeps_fail keeps_lift) auto
  from keepsD [OF this _ assms] show ?thesis by simp
qed

text \<open>C20. A request without a valid credential.  Every route but the four public ones fails with the error of the
  authentication before the body is decoded or the handler runs: what is answered is 401, and no table has changed but
  those of sessions and tokens.\<close>

theorem unauthenticated_refused:
  assumes "find_route route_table (rq_method rq) (rq_path rq) = Inr e" and "\<not> public e"
    and "from_request_parts L S (rq_headers rq) w = (Inl err, w1)"
  shows "router_with_queue L W D G S rq w = (Inl err, w1) \<and> only_credentials (db w) (db w1)
    \<and> (case into_response L err of Some (status, msg) \<Rightarrow> status = 401 | None \<Rightarrow> True)"
proof -
  have "router_with_queue L W D G S rq w = (Inl err, w1)"
    using assms by (simp add: router_with_queue_def serve_authenticated io_simps)
  moreover have "case into_response L err of Some (status, msg) \<Rightarrow> status = 401 | None \<Rightarrow> True"
    using assms(3)
    by (auto simp: from_request_parts_def by_session_def api_err_def map_err_def io_simps
        split: option.splits if_splits prod.splits sum.splits error.splits)
  ultimately show ?thesis using from_request_parts_credentials [OF assms(3)] by blast
qed

section \<open>Connections to providers\<close>

text \<open>What the store of a connection leaves alone.\<close>

lemma keeps_states:
  fixes X :: "OAuthStateRecord list"
  defines "I \<equiv> \<lambda>d. oauth_states d = X"
  shows "keeps_db I (upsert_connection c)" "keeps_db I (save_repositories k rs t)" "keeps_db I (audit_service_record b u a tt ti m)"
  unfolding upsert_connection_def save_repositories_def save_repository_def audit_service_record_def audit_record_def I_def Let_def
  by (intro keeps_intros keeps_db_statement keeps_db_insert_row; auto split: option.splits prod.splits if_splits)+

lemma store_connection_states:
  "keeps (\<lambda>w. oauth_states (db w) = X) (store_connection L S ctx p client t)"
  unfolding store_connection_def encrypt_opt_def audit_def Let_def
  by (intro keeps_and_then keeps_option keeps_sum keeps_ret keeps_attempt keeps_lift keeps_quiet keeps_db_external keeps_external keeps_states
      keeps_db_uuid keeps_db_now keeps_db_of_result)

definition unexpired_state :: "string \<Rightarrow> timestamp \<Rightarrow> OAuthStateRecord \<Rightarrow> bool" where
  "unexpired_state state now row \<longleftrightarrow> os_state row = state \<and> now < os_expires_at row"

text \<open>The world after a state was consumed.\<close>

definition consumed_world :: "string \<Rightarrow> 'z world_scheme \<Rightarrow> 'z world_scheme" where
  "consumed_world state w = w\<lparr>db := (db w)\<lparr>oauth_states :=
     filter (\<lambda>r. \<not> unexpired_state state (env_clock (env w) (tick w)) r) (oauth_states (db w))\<rparr>, tick := Suc (Suc (tick w))\<rparr>"

lemma consume_run:
  "or_internal (consume_oauth_state state) w =
    (if env_db_fault (env w) (Suc (tick w)) then (Inl (Internal (Database ''failed to consume oauth state'')), w\<lparr>tick := Suc (Suc (tick w))\<rparr>)
     else (Inr (first_row (filter (unexpired_state state (env_clock (env w) (tick w))) (oauth_states (db w)))), consumed_world state w))"
  by (simp add: consume_oauth_state_def io_simps statement_def api_err_def map_err_def Let_def consumed_world_def unexpired_state_def [abs_def])

lemma callback_run:
  fixes q row client L
  defines "uri \<equiv> unwrap_or (or_else (oc_redirect_uri q) (os_redirect_url row)) (callback_uri (os_provider row))"
  assumes "Provider_from_str p = Inr (os_provider row)" and "get_provider S (os_provider row) = Some client" and "as_db S"
    and "\<not> env_db_fault (env w) (Suc (tick w))"
    and "first_row (filter (unexpired_state (oc_state q) (env_clock (env w) (tick w))) (oauth_states (db w))) = Some row"
    and "os_user_id row = ac_user_id ctx"
  shows "provider_callback L S ctx p q w =
    and_then (api_err (\<lambda>e. BadRequest (Message (''oauth authorization failed: '' @ ax_to_string L e)))
       (external (\<lambda>n. cl_complete_authorization client n (oc_code q) uri))) (store_connection L S ctx (os_provider row) client)
      (consumed_world (oc_state q) w)"
  unfolding provider_callback_def parse_provider_def require_provider_def require_db_def uri_def
  by (simp only: and_then_run consume_run assms(2-) map_err_def of_result_def of_option_run ret_run prod.case sum.case if_True if_False
      Let_def not_True_eq_False simp_thms)

text \<open>C23. Completing an authorization.  Nothing of a provider is stored unless the caller names a state that it
  has begun itself, for the same provider, and that has not expired; and that state is used up, so that no
  second request can name it.  All other requests fail without storing a connection.\<close>

theorem callback_needs_own_state:
  "case provider_callback L S ctx p q w of (r, w') \<Rightarrow>
     isl r \<and> provider_connections (db w') = provider_connections (db w) \<and> provider_repositories (db w') = provider_repositories (db w)
     \<or> (\<exists>row n. row \<in> set (oauth_states (db w)) \<and> os_state row = oc_state q \<and> os_user_id row = ac_user_id ctx
          \<and> Provider_from_str p = Inr (os_provider row) \<and> env_clock (env w) n < os_expires_at row
          \<and> {x \<in> set (oauth_states (db w')). os_state x = oc_state q \<and> env_clock (env w) n < os_expires_at x} = {})"
proof -
  let ?P = "unexpired_state (oc_state q) (env_clock (env w) (tick w))"
  obtain r w' where run: "provider_callback L S ctx p q w = (r, w')" by fastforce
  show ?thesis
  proof (cases "\<exists>client row. Provider_from_str p = Inr (os_provider row) \<and> get_provider S (os_provider row) = Some client \<and> as_db S
      \<and> \<not> env_db_fault (env w) (Suc (tick w)) \<and> first_row (filter ?P (oauth_states (db w))) = Some row \<and> os_user_id row = ac_user_id ctx")
    case True
    then obtain client row where t: "Provider_from_str p = Inr (os_provider row)" "get_provider S (os_provider row) = Some client" "as_db S"
      "\<not> env_db_fault (env w) (Suc (tick w))" "first_row (filter ?P (oauth_states (db w))) = Some row"
      "os_user_id row = ac_user_id ctx" by blast
    have k: "keeps (\<lambda>w. oauth_states (db w) = X) (and_then (api_err f (external g)) (store_connection L S ctx (os_provider row) client))" for X f g
      by (intro keeps_and_then keeps_lift keeps_db_external store_connection_states)
    have "oauth_states (db w') = oauth_states (db (consumed_world (oc_state q) w))"
      by (rule keepsD [OF k refl trans [OF callback_run [OF t, symmetric] run]])
    moreover have "row \<in> set (filter ?P (oauth_states (db w)))" using t(5) by (auto simp: first_row_def simp del: set_filter split: list.splits)
    ultimately show ?thesis
      unfolding run prod.case using t
      by (intro disjI2 exI [of _ row] exI [of _ "tick w"]) (auto simp: consumed_world_def unexpired_state_def)
  next
    case False
    then have "isl r \<and> provider_connections (db w') = provider_connections (db w) \<and> provider_repositories (db w') = provider_repositories (db w)"
      using run unfolding provider_callback_def parse_provider_def require_provider_def require_db_def
      by (auto simp: io_simps consume_run map_err_def of_option_def consumed_world_def split: sum.splits option.splits if_splits)
    then show ?thesis unfolding run prod.case by blast
  qed
qed

end
