(* ===== verification/Api_Examples.thy ===== *)
theory Api_Examples
  imports Api_Correct Webhooks_Correct
begin

text \<open>
  A small server: the database of \<open>demo_world\<close>, in which user 2 owns project 1 and its deployment 3, an empty host, and
  accounts whose hashes are the texts themselves.  It shows that the hypotheses of the claims can hold, and two
  things the handlers do not check.
\<close>

definition demo_host_lib :: host_lib where
  "demo_host_lib = \<lparr>hl_to_json = (\<lambda>_. None), hl_partial_json = (\<lambda>_. []), hl_from_json = (\<lambda>_. None), hl_written = (\<lambda>n. n),
     hl_uuid_str = (\<lambda>_. ''u''), hl_simple = (\<lambda>_. ''u''), hl_alternate = (\<lambda>_. ''e''), hl_to_string = (\<lambda>_. ''e'')\<rparr>"

definition demo_host_runtime :: "unit Runtime" where
  "demo_host_runtime = \<lparr>start_static = (\<lambda>_ _ _. fail (Io ''no'')), rt_stop = (\<lambda>_. ret ()), rt_logs = (\<lambda>_ _. Inl (Io ''no''))\<rparr>"

definition demo_service :: "(unit, unit) api_world_scheme PlatformService" where
  "demo_service = deployment_service demo_host_lib (\<lambda>_ _. None) (\<lambda>_ _ _ _. fail (Io ''no'')) demo_host_runtime ''/s''"

definition demo_state :: "(unit, unit) api_world_scheme ApiState" where
  "demo_state = \<lparr>as_service = demo_service, as_auth = Some demo_auth_lib, as_db = True, as_providers = [], as_queue = None\<rparr>"

definition demo_api_lib :: api_lib where
  "demo_api_lib = \<lparr>ax_parse_uuid = (\<lambda>s. if s = ''1'' then Some 1 else if s = ''3'' then Some 3 else None),
     ax_uuid_text = \<lparr>ut_string = (\<lambda>_. ''u''), ut_simple = (\<lambda>_. ''u'')\<rparr>, ax_fmt = demo_log_fmt, ax_to_string = (\<lambda>_. ''e''),
     ax_alternate = (\<lambda>_. ''e''), ax_var = (\<lambda>_. None), ax_random_hex = (\<lambda>_ _. ''0''), ax_crypto = mirror_crypto,
     ax_collation = length, ax_rollback_body = (\<lambda>_. None), ax_entry_json = (\<lambda>e. Some (le_message e))\<rparr>"

definition demo_decoders :: decoders where
  "demo_decoders = \<lparr>dc_login = (\<lambda>_. Inl 400), dc_register = (\<lambda>_. Inl 400), dc_token = (\<lambda>_. Inl 400), dc_project = (\<lambda>_. Inl 400),
     dc_source = (\<lambda>_. Inl 400), dc_options = (\<lambda>_. Inr None), dc_connect = (\<lambda>_. Inr None), dc_callback = (\<lambda>_. Inl 400),
     dc_logs = (\<lambda>_. Inl 400), dc_metrics = (\<lambda>_. Inl 400)\<rparr>"

definition demo_api_world :: "unit api_world" where
  "demo_api_world = \<lparr>env = demo_env, tick = 10, db = demo_db, redis_log = [], metric_store = \<lparr>metric_samples = [], metric_rollups = []\<rparr>,
     host = \<lparr>hs_disk = Map.empty, hs_stat_fault = (\<lambda>_. False), hs_runtime = ()\<rparr>\<rparr>"

definition demo_request :: Request where
  "demo_request = \<lparr>rq_method = POST, rq_path = [], rq_query = [], rq_headers = [], rq_body = []\<rparr>"

definition demo_streaming :: "'w streaming" where
  "demo_streaming = \<lparr>sg_gone = (\<lambda>_. False), sg_meanwhile = (\<lambda>w. w), sg_polls = 1\<rparr>"

definition stranger :: AuthContext where
  "stranger = \<lparr>ac_user_id = 7, ac_session_id = None, ac_scopes = [''*'']\<rparr>"

abbreviation ask :: "AuthContext \<Rightarrow> Endpoint \<Rightarrow> (ApiError + Response) \<times> unit api_world" where
  "ask ctx e \<equiv> serve_as demo_api_lib demo_decoders demo_streaming demo_state demo_request ctx e demo_api_world"

lemma demo_known: "known_on demo_host_lib ''/s'' (host demo_api_world) = empty_state"
  by (simp add: known_on_def demo_api_world_def)

lemma stranger_not_owner:
  "u \<in> owners empty_state demo_db i \<Longrightarrow> \<not> is_owner stranger u"
  by (auto simp: owners_def empty_state_def demo_db_def empty_db_def stranger_def is_owner_def)

theorem foreign_requests_refused_witness:
  "same demo_api_world (snd (ask stranger (ClearCache ''1'')))"
proof -
  obtain r w' where run: "ask stranger (ClearCache ''1'') = (r, w')" by fastforce
  have "same demo_api_world w' \<and> (case r of Inl err \<Rightarrow> True | Inr response \<Rightarrow> \<exists>status. response = RRejected status)"
  proof (rule foreign_requests_refused [OF _ _ _ run])
    show "as_service demo_state = deployment_service demo_host_lib (\<lambda>_ _. None) (\<lambda>_ _ _ _. fail (Io ''no'')) demo_host_runtime ''/s''"
      by (simp add: demo_state_def demo_service_def)
    show "\<not> is_owner stranger u" if "u \<in> owners (known_on demo_host_lib ''/s'' (host demo_api_world)) (db demo_api_world) i" for i u
      using that stranger_not_owner unfolding demo_known by (simp add: demo_api_world_def)
  qed simp
  then show ?thesis unfolding run snd_conv by blast
qed

text \<open>Cancelling is not checked: a stranger cancels the deployment of another user.\<close>

theorem stranger_cancels:
  "\<not> is_owner stranger (Some 2)
   \<and> map_option d_status (lookup_by d_id 3 (deployments (db (snd (ask stranger (CancelDeployment ''3'')))))) = Some DepCancelled"
  by code_simp

text \<open>The scopes of a token are not compared with those of the caller: a token that may only read issues one that may
  do everything.\<close>

definition reader :: AuthContext where
  "reader = \<lparr>ac_user_id = 2, ac_session_id = None, ac_scopes = [''project:read'']\<rparr>"

theorem token_scopes_escalate:
  "\<not> has_scope reader ''project:write''
   \<and> (case fst (create_api_token demo_state reader \<lparr>ct_name = ''t'', ct_scopes = None\<rparr> demo_api_world) of
        Inr (status, issued) \<Rightarrow> it_scopes issued = [''*''] | Inl e \<Rightarrow> False)"
  by code_simp

definition anonymous_request :: Request where
  "anonymous_request = \<lparr>rq_method = GET, rq_path = [''v1'', ''projects'', ''1''], rq_query = [], rq_headers = [], rq_body = []\<rparr>"

theorem unauthenticated_refused_witness:
  "router_with_queue demo_api_lib demo_webhook_lib demo_decoders demo_streaming demo_state anonymous_request demo_api_world =
     (Inl (ApiUnauthorized ''authentication required''), demo_api_world)"
proof -
  have r: "find_route route_table (rq_method anonymous_request) (rq_path anonymous_request) = Inr (GetProject ''1'')"
    by code_simp
  have a: "from_request_parts demo_api_lib demo_state (rq_headers anonymous_request) demo_api_world =
      (Inl (ApiUnauthorized ''authentication required''), demo_api_world)"
    by (simp add: from_request_parts_def demo_state_def anonymous_request_def bearer_token_def cookie_token_def io_simps)
  from unauthenticated_refused [OF r _ a] show ?thesis by simp
qed

section \<open>A log and a login\<close>

definition ended_log_world :: world where
  "ended_log_world = demo_log_world\<lparr>db := (db demo_log_world)\<lparr>deployments := [demo_deployment\<lparr>d_status := DepFailed\<rparr>]\<rparr>\<rparr>"

lemma ended_log_rows: "log_rows 3 1 None (db ended_log_world) = [demo_log_row 2 ''b'', demo_log_row 3 ''c'']"
  by (simp add: log_rows_def order_by_def ended_log_world_def demo_log_world_def demo_log_row_def)

theorem stream_complete_witness:
  "\<exists>w'. stream_log demo_api_lib (\<lambda>_. False) True (\<lambda>v. v) 1 3 1 [] ended_log_world =
     (Inr ([LogEvent 2 ''b'', LogEvent 3 ''c'', DoneEvent], Finished), w')"
proof -
  have one: "as_i64 1 = 1" by (simp add: as_i64_def)
  have "\<exists>w'. stream_log demo_api_lib (\<lambda>_. False) True (\<lambda>v. v) (Suc (length (log_rows 3 (as_i64 1) None (db ended_log_world)) div 100)) 3 1 [] ended_log_world =
    (Inr (map (\<lambda>r. LogEvent (as_u64 (lg_sequence r)) (unwrap_or (ax_entry_json demo_api_lib (entry_of_row r)) []))
            (log_rows 3 (as_i64 1) None (db ended_log_world)) @ [DoneEvent], Finished), w')"
    by (rule stream_complete) (simp_all add: one ended_log_world_def demo_log_world_def demo_world_def sequences_ok_def demo_log_row_def
        demo_deployment_def is_terminal_status_def lookup_by_def)
  then show ?thesis
    unfolding one ended_log_rows
    by (simp add: demo_api_lib_def demo_log_row_def entry_of_row_def unwrap_or_def as_u64_def del: stream_log.simps)
qed

definition demo_api_login :: "(ApiError + Cookie \<times> u16 \<times> SessionResponse) \<times> unit api_world" where
  "demo_api_login = login_session demo_api_lib demo_state \<lparr>lg_email = ''a@b'', lg_password = ''hash''\<rparr> demo_api_world"

lemma demo_api_login_runs:
  "fst demo_api_login = Inr (dp_session ''0123456789'' session_ttl, 200,
     \<lparr>sn_user = \<lparr>us_id = 2, us_email = ''a@b'', us_name = ''A''\<rparr>, sn_token = ''0123456789'', sn_expires_at = []\<rparr>)"
  by code_simp

lemma demo_api_login_tick: "tick (snd demo_api_login) < 100"
  by code_simp

theorem login_cookie_roundtrip_witness:
  "\<exists>i. fst (from_request_parts demo_api_lib demo_state [(''cookie'', ''dp_session='' @ ''0123456789'')] (snd demo_api_login)) =
     Inr \<lparr>ac_user_id = 2, ac_session_id = Some i, ac_scopes = [''*'']\<rparr>"
proof -
  let ?req = "\<lparr>lg_email = ''a@b'', lg_password = ''hash''\<rparr>" and ?w = "snd demo_api_login" and ?c = "dp_session ''0123456789'' session_ttl"
  have auth: "as_auth demo_state = Some demo_auth_lib" by (simp add: demo_state_def)
  have hex: "hex_text (al_random_hex demo_auth_lib n k)" for n k
    by (simp add: hex_text_def hex_digits_def demo_auth_lib_def)
  obtain resp where run: "login_session demo_api_lib demo_state ?req demo_api_world = (Inr (?c, 200, resp), ?w)"
    using demo_api_login_runs by (metis demo_api_login_def prod.collapse)
  obtain u s where l: "login demo_auth_lib (lg_email ?req) (lg_password ?req) session_ttl demo_api_world = (Inr (u, s), ?w)"
    using login_session_InrE [OF auth run] by metis
  have e: "env ?w = demo_env"
    by (rule keepsD [OF login_env _ l]) (simp add: demo_api_world_def)
  have h: "[(''cookie'', ''dp_session='' @ ''0123456789'')] = [(''cookie'', ck_name ?c @ ''='' @ ck_value ?c)]"
    by (simp add: dp_session_def)
  from login_cookie_roundtrip [OF auth hex run refl _ disjI1 [OF h]] e obtain user i n where
    "lookup_by u_email ''a@b'' (users (db demo_api_world)) = Some user"
    "fst (from_request_parts demo_api_lib demo_state [(''cookie'', ''dp_session='' @ ''0123456789'')] ?w) =
       (if env_clock (env demo_api_world) n + session_ttl < env_clock (env ?w) (Suc (tick ?w))
        then Inl (ApiUnauthorized (''invalid session: '' @ ax_to_string demo_api_lib (Message ''session has expired'')))
        else Inr \<lparr>ac_user_id = u_id user, ac_session_id = Some i, ac_scopes = [''*'']\<rparr>)"
    by auto
  moreover have "\<not> env_clock (env demo_api_world) n + session_ttl < env_clock (env ?w) (Suc (tick ?w))"
    using demo_api_login_tick by (simp add: e demo_api_world_def demo_env_def session_ttl_def second_def)
  ultimately show ?thesis by (auto simp: demo_api_world_def demo_db_def empty_db_def lookup_by_def)
qed

end
