(* ===== verification/Spec2Isabelle.thy ===== *)
theory Spec2Isabelle
  imports Recovery Queue_Examples Nodes_Correct Agent_Correct Webhooks_Correct Logs_Correct Auth_Correct
    Cache_Correct Sources_Correct Service_Correct Worker_Claims Metrics_Correct Api_Examples
begin

text \<open>
  A verification library for the deployment platform under \<^verbatim>\<open>src/\<close>: a control plane that receives
  pushes, pull requests and calls of its HTTP interface, builds projects through a durable queue, places the
  result on nodes, rolls a release out behind health checks and moves the traffic to it; and a single-host
  mode that builds and runs static sites itself.

  \<^bold>\<open>The program and its parts.\<close>  The HTTP interface (\<^verbatim>\<open>api.rs\<close>) authenticates a request (\<^verbatim>\<open>auth.rs\<close>), checks
  who owns what it is about (\<^verbatim>\<open>repository.rs\<close>, \<^verbatim>\<open>service.rs\<close>) and calls the services below it.  A webhook
  (\<^verbatim>\<open>webhooks.rs\<close>) authenticates a provider's delivery, records it once (\<^verbatim>\<open>source_events.rs\<close>), and hands a pull
  request to the preview service (\<^verbatim>\<open>preview_events.rs\<close>, \<^verbatim>\<open>previews.rs\<close>, \<^verbatim>\<open>hostname.rs\<close>) or a push to the build
  queue (\<^verbatim>\<open>queue.rs\<close>).  Build workers (\<^verbatim>\<open>worker.rs\<close>) claim jobs under leases from PostgreSQL and Redis, fetch the
  sources (\<^verbatim>\<open>source_checkout.rs\<close>, \<^verbatim>\<open>framework.rs\<close>), look into the build cache (\<^verbatim>\<open>cache.rs\<close>), run the build
  (\<^verbatim>\<open>build_executor.rs\<close>), store the artifact (\<^verbatim>\<open>artifacts.rs\<close>) and write their output through the log sink
  (\<^verbatim>\<open>logs.rs\<close>).  The scheduler (\<^verbatim>\<open>scheduler.rs\<close>) places a release on a node of the registry
  (\<^verbatim>\<open>node_registry.rs\<close>); the node is driven through signed envelopes (\<^verbatim>\<open>agent_protocol.rs\<close>, \<^verbatim>\<open>agent_client.rs\<close>,
  \<^verbatim>\<open>agent_server.rs\<close>).  The release controller (\<^verbatim>\<open>releases.rs\<close>) probes the new container (\<^verbatim>\<open>health.rs\<close>), switches the
  router (\<^verbatim>\<open>traffic.rs\<close>), drains the previous release, rolls back (\<^verbatim>\<open>rollback.rs\<close>) and repairs what a crash
  interrupted.  The single host keeps its state in a file (\<^verbatim>\<open>store.rs\<close>, \<^verbatim>\<open>model.rs\<close>) and deploys with an image
  builder and a container runtime (\<^verbatim>\<open>service.rs\<close>, \<^verbatim>\<open>builder.rs\<close>, \<^verbatim>\<open>runtime.rs\<close>).

  \<^bold>\<open>State and effects.\<close>  \<open>Prelude\<close> has the state and error monad of all operations, a small Hoare logic
  for it, and SQL statements as functions on lists of rows.  \<open>Schema\<close> has the tables as one record
  \<open>db\<close>, in a \<open>world\<close> together with the log of Redis commands and an environment that decides, by the number
  of the interaction, which identifier or clock reading comes next, which statement or file system call
  fails, and what Redis answers to which command: a theorem without \<open>no_db_faults\<close> holds for every pattern of failures.  A
  statement is atomic and a transaction rolls back; a sequence of statements outside a transaction can stop
  between any two of them.  Components with more state extend the world: the queue with its counter, the
  roll-out with router, prober and container stopper, the host with its disk and its runtime, the worker
  with files and commands, the server with the tables of metrics and the host.  64-bit and 32-bit columns
  are integers with the casts of the source written out.  \<open>Strings\<close> has the string functions of Rust that are
  used, \<open>Float64\<close> rounding to IEEE 754 doubles.

  \<^bold>\<open>Theories and sources.\<close>

  \<^item> \<open>Releases\<close>, \<open>Orchestration\<close>, \<open>Recovery\<close>: \<^verbatim>\<open>releases.rs\<close>.  The status graph, the compare-and-set
    transition, the roll-out over an arbitrary router, prober and container stopper, both recoveries.
    Shown: the history is a path of the graph, two transitions from one version exclude each other, a
    successful roll-out ends with exactly the new release active, an unhealthy one disturbs nothing,
    recovery ends with every release settled, and versions are bounded in every reachable state.
  \<^item> \<open>Traffic\<close>, \<open>Health\<close>: \<^verbatim>\<open>traffic.rs\<close> with the contract of a router as a locale, interpreted by the
    installed router; \<^verbatim>\<open>health.rs\<close> with the termination of the probe loop.
  \<^item> \<open>Queue\<close>, \<open>Queue_Correct\<close>, \<open>Queue_Examples\<close>: \<^verbatim>\<open>queue.rs\<close>.  Every operation refines an abstract life
    cycle of jobs; claims are exclusive, attempts bounded, leases fence workers, expired leases are
    recovered, an enqueued job is claimed when its message arrives, whichever stream is read first.
  \<^item> \<open>Nodes\<close>, \<open>Nodes_Correct\<close>: \<^verbatim>\<open>node_registry.rs\<close>.  Rotation of an identity fences old heartbeats; the
    expiry pass changes exactly the silent nodes.
  \<^item> \<open>Scheduler\<close>, \<open>Scheduler_Correct\<close>: \<^verbatim>\<open>scheduler.rs\<close>.  The best node is selected, capacity is kept, and
    placing and releasing are inverse.
  \<^item> \<open>Agent_Protocol\<close>, \<open>Agent_Server\<close>, \<open>Agent_Correct\<close>: \<^verbatim>\<open>agent_protocol.rs\<close>, \<^verbatim>\<open>agent_server.rs\<close>,
    \<^verbatim>\<open>agent_client.rs\<close>.  What an accepted envelope guarantees, no replay within the window, the round trip
    of a command, revocation.
  \<^item> \<open>Hostname\<close>, \<open>Providers\<close>, \<open>Previews\<close>, \<open>Webhooks\<close>, \<open>Webhooks_Correct\<close>: \<^verbatim>\<open>hostname.rs\<close>, the
    parsers of \<^verbatim>\<open>providers/\<close>, \<^verbatim>\<open>previews.rs\<close>, \<^verbatim>\<open>preview_events.rs\<close>, \<^verbatim>\<open>source_events.rs\<close>,
    \<^verbatim>\<open>webhooks.rs\<close>.  Labels are DNS labels, only authentic requests have an effect, a delivery has an effect
    once.
  \<^item> \<open>Logs\<close>, \<open>Logs_Correct\<close>: \<^verbatim>\<open>logs.rs\<close>.  Paging equals the full log; the sink keeps every line.
  \<^item> \<open>Repository\<close>, \<open>Auth\<close>, \<open>Auth_Correct\<close>: \<^verbatim>\<open>repository.rs\<close> and \<^verbatim>\<open>auth.rs\<close>.  The statements on users, projects,
    deployments, audit events and connections; sessions live until they expire or are revoked, revoked tokens
    are dead for good.
  \<^item> \<open>Rollback\<close>, \<open>Rollback_Correct\<close>: \<^verbatim>\<open>rollback.rs\<close>.  A successful rollback
    leaves a new deployment with the artifact of the target, its new release active and routed and the previous one
    stopped; only the owner may roll back.
  \<^item> \<open>Refinement\<close>, \<open>Cache\<close>, \<open>Cache_Correct\<close>: the locale of a functional refinement, and \<^verbatim>\<open>cache.rs\<close>.  The cache table
    is a map from keys to artifacts; the key is canonical.
  \<^item> \<open>Sources\<close>, \<open>Sources_Correct\<close>: \<^verbatim>\<open>detector.rs\<close>, \<^verbatim>\<open>framework.rs\<close>, \<^verbatim>\<open>config.rs\<close> and the server commands of
    \<^verbatim>\<open>runtime.rs\<close>.  The detector accepts exactly the admissible trees and lists exactly their files.
  \<^item> \<open>State_Store\<close>, \<open>State_Store_Correct\<close>: \<^verbatim>\<open>model.rs\<close>, \<^verbatim>\<open>store.rs\<close>.  The file refines the lists of projects and
    deployments and is replaced as a whole or not at all, whatever calls but \<^verbatim>\<open>Path::exists\<close> fail.
  \<^item> \<open>Platform\<close>, \<open>Platform_Correct\<close>, \<open>Service_Correct\<close>: \<^verbatim>\<open>service.rs\<close>, \<^verbatim>\<open>builder.rs\<close>, \<^verbatim>\<open>runtime.rs\<close>.  The calls
    of the runtime are recorded (\<open>logged\<close>).  The rules of \<open>deployed\<close> describe the result, the calls and the state of a
    deployment on every branch, failing calls of the file system included; containers that are left running belong to
    deployments that are recorded as running, and to the active ones on a host that is \<open>reliable\<close>; the health check ends.
    The builder is seen through the locale \<open>image_builder\<close>, interpreted by \<open>build_deployment_image\<close>.
  \<^item> \<open>Build_Steps\<close>, \<open>Worker\<close>, \<open>Worker_Correct\<close>, \<open>Worker_Claims\<close>: \<^verbatim>\<open>artifacts.rs\<close>, \<^verbatim>\<open>build_executor.rs\<close>,
    \<^verbatim>\<open>source_checkout.rs\<close>, \<^verbatim>\<open>worker.rs\<close>.  A round of the worker moves jobs along the life cycle of the queue; artifacts
    are stored atomically and described truly, cache hits are checked, failed builds are recorded, a checkout
    runs only git, on a well-formed commit and the URL of the source, and returns the hash that git reports.
  \<^item> \<open>Metrics\<close>, \<open>Metrics_Correct\<close>: \<^verbatim>\<open>metrics.rs\<close>.  Percentiles stay inside their list in binary floating point;
    the one-pass aggregation equals its definition by buckets.
  \<^item> \<open>Token_Crypto\<close>, \<open>Api\<close>, \<open>Api_Handlers\<close>, \<open>Api_Routes\<close>, \<open>Api_Access\<close>, \<open>Api_Correct\<close>, \<open>Api_Examples\<close>:
    \<^verbatim>\<open>providers/crypto.rs\<close> and \<^verbatim>\<open>api.rs\<close>.  Authentication, all handlers and the routes, over any platform service;
    the laws of its lookups are the locale \<open>project_store\<close>, interpreted by the service of \<open>Platform\<close>.  Shown:
    requests for the resources of others (but to cancel and retry deployments, which nothing checks) and requests
    without a valid credential are refused without effect, the
    cookie of a login works for seven days, the stream of a log delivers all of it and ends, and a provider is connected
    only for a state of the caller.

  Several theorems show what the code does where it does not do what it means to: the stale requeue, the
  stranded job, the lost history record and route, the overcommitted node, the replayed envelope, the lost
  webhook retry, the build that survives its preview, the rollback that reports an error after it switched, the
  state that a failed look at the file drops, the cancelled build that is deployed, the cache key that
  ignores the sources, the stranger who cancels a deployment and the token that issues a stronger one.

  \<^bold>\<open>Parameters.\<close>  Cryptography, JSON text, UUID and URL text, regular expressions, the formatter of time
  stamps, the collation of text columns, the HTTP clients, git and other child processes, the container runtime
  and the router are arguments of the definitions; what a theorem needs of them is a hypothesis of its own or a
  locale (\<open>hex_digest_law\<close>, \<open>traffic_router\<close>), and every such theorem has a witness with concrete functions.  Of the host,
  \<open>host_ok\<close> asks that the parser reads back what the printer wrote, where it printed anything, that the text of an
  identifier is a plain file name, and that \<^verbatim>\<open>minidock\<close> writes only below the target it is given.

  \<^bold>\<open>Bounds.\<close>  The loops of the source are recursions over lists of rows or over a number of attempts that the
  source bounds itself, with three exceptions.  \<open>wait_for_port\<close> has fuel; 51 rounds are shown to be enough for the five
  seconds and the pause of 100 milliseconds that the source has.  The stream of a log polls until its deployment ends,
  so the number of polls is an argument, and one per hundred lines and one more are shown to be enough.  The
  worker's endless loop is the repetition of \<open>run_once\<close>, which is modelled.  The reader of log pages in
  \<open>Logs_Correct\<close> gets one request more than there are rows.  Percentiles are treated for at most \<open>2\<^sup>5\<^sup>3\<close>
  values, up to which a length is exactly a double, and aggregation for a positive resolution, since zero panics.
  The seconds of the buckets are unbounded integers: a resolution at which the 64-bit sum overflows is passed by no caller.
  The doubles of \<open>Float64\<close> have no infinities and no subnormal numbers, so sums beyond the range of a double are out of
  scope, and \<open>sort_by\<close> is total, while on samples that are not numbers the comparison of the source is no order
  and the library's sort may panic.

  \<^bold>\<open>Not modelled.\<close>  The opening of the database pool and the migrations (\<^verbatim>\<open>db.rs\<close>; the constraints of the tables are in the
  statements), the start-up of the programs, the REST clients of the providers and the decoding of requests by the web
  framework are input and output of libraries.  The interleaving of two requests within one sequence of statements is
  not modelled in general; where it matters, as for the queue and the scheduler, the theorems interleave explicit steps.
\<close>

end
